(* ===== verification/Rust_Prelude.thy ===== *)
theory Rust_Prelude
  imports Main "HOL-Library.AList"
begin

text \<open>
  The shared vocabulary of the development: Rust's \<open>Result\<close> as a sum type, stateful fallible
  methods (\<open>&mut self -> Result<T>\<close>) as state-error functions, the string operations of the
  standard library that the sources call, and UTF-8 validation.

  \<^item> A Rust \<open>String\<close> and a \<open>Vec<u8>\<close> are both \<open>string\<close>: Isabelle's \<open>char\<close> is one byte, and
    a Rust string is its UTF-8 byte sequence. Byte indices and \<open>len\<close> are then list indices and
    \<open>length\<close>; code points are regrouped by \<open>utf8_chars\<close>.
  \<^item> A \<open>HashMap\<close> that is only looked up and updated is a map \<open>'k \<rightharpoonup> 'v\<close>; one that is iterated is
    an association list, whose order stands for the unspecified iteration order.
\<close>

section \<open>Names for the types of the model\<close>

type_synonym bytes = string
type_synonym ('e, 'a) result = "'e + 'a"
type_synonym ('s, 'e, 'a) stateful = "'s \<Rightarrow> ('e, 'a) result \<times> 's"

text \<open>Characteristic facts of the result operators: they turn a successful run into its steps.\<close>
named_theorems result_iff
named_theorems str_simps

section \<open>Results\<close>

definition and_then :: "('e, 'a) result \<Rightarrow> ('a \<Rightarrow> ('e, 'b) result) \<Rightarrow> ('e, 'b) result" where
  "and_then r f = (case r of Inl e \<Rightarrow> Inl e | Inr a \<Rightarrow> f a)"

definition map_err :: "('e \<Rightarrow> 'f) \<Rightarrow> ('e, 'a) result \<Rightarrow> ('f, 'a) result" where
  "map_err f r = (case r of Inl e \<Rightarrow> Inl (f e) | Inr a \<Rightarrow> Inr a)"

definition ok_or :: "'e \<Rightarrow> 'a option \<Rightarrow> ('e, 'a) result" where
  "ok_or e x = (case x of None \<Rightarrow> Inl e | Some a \<Rightarrow> Inr a)"

definition is_ok :: "('e, 'a) result \<Rightarrow> bool" where
  "is_ok r = (case r of Inl _ \<Rightarrow> False | Inr _ \<Rightarrow> True)"

lemma and_then_simps [simp]:
  "and_then (Inl e) f = Inl e"
  "and_then (Inr a) f = f a"
  by (simp_all add: and_then_def)

lemma map_err_simps [simp]:
  "map_err g (Inl e) = Inl (g e)"
  "map_err g (Inr a) = Inr a"
  by (simp_all add: map_err_def)

lemma ok_or_simps [simp]:
  "ok_or e None = Inl e"
  "ok_or e (Some a) = Inr a"
  by (simp_all add: ok_or_def)

lemma is_ok_simps [simp]:
  "is_ok (Inl e) = False"
  "is_ok (Inr a) = True"
  by (simp_all add: is_ok_def)

lemma and_then_cong [fundef_cong]:
  assumes "r = r'" and "\<And>a. r' = Inr a \<Longrightarrow> f a = f' a"
  shows "and_then r f = and_then r' f'"
  using assms by (cases r') auto

lemma and_then_Inr_iff [result_iff]:
  "and_then r f = Inr b \<longleftrightarrow> (\<exists>a. r = Inr a \<and> f a = Inr b)"
  by (cases r) auto

lemma and_then_Inl_iff [result_iff]:
  "and_then r f = Inl e \<longleftrightarrow> r = Inl e \<or> (\<exists>a. r = Inr a \<and> f a = Inl e)"
  by (cases r) auto

lemma map_err_Inr_iff [result_iff]: "map_err g r = Inr b \<longleftrightarrow> r = Inr b"
  by (cases r) auto

lemma map_err_Inl_iff [result_iff]: "map_err g r = Inl e \<longleftrightarrow> (\<exists>e'. r = Inl e' \<and> e = g e')"
  by (cases r) auto

lemma ok_or_Inr_iff [result_iff]: "ok_or e x = Inr b \<longleftrightarrow> x = Some b"
  by (cases x) auto

lemma ok_or_Inl_iff [result_iff]: "ok_or e x = Inl e' \<longleftrightarrow> x = None \<and> e' = e"
  by (cases x) auto

lemma is_ok_iff: "is_ok r \<longleftrightarrow> (\<exists>a. r = Inr a)"
  by (cases r) auto

lemma not_is_ok_iff: "\<not> is_ok r \<longleftrightarrow> (\<exists>e. r = Inl e)"
  by (cases r) auto

lemma and_then_assoc: "and_then (and_then r f) g = and_then r (\<lambda>a. and_then (f a) g)"
  by (cases r) auto

text \<open>A \<open>for\<close> loop whose body may return early with \<open>?\<close>, threading its accumulator.\<close>

fun try_fold :: "('s \<Rightarrow> 'a \<Rightarrow> ('e, 's) result) \<Rightarrow> 's \<Rightarrow> 'a list \<Rightarrow> ('e, 's) result" where
  "try_fold f s [] = Inr s"
| "try_fold f s (x # xs) = and_then (f s x) (\<lambda>s'. try_fold f s' xs)"

text \<open>\<open>iter().map(f).collect::<Result<Vec<_>>>()\<close>: the first error wins.\<close>

fun try_map :: "('a \<Rightarrow> ('e, 'b) result) \<Rightarrow> 'a list \<Rightarrow> ('e, 'b list) result" where
  "try_map f [] = Inr []"
| "try_map f (x # xs) = and_then (f x) (\<lambda>y. and_then (try_map f xs) (\<lambda>ys. Inr (y # ys)))"

lemma try_map_length: "try_map f xs = Inr ys \<Longrightarrow> length ys = length xs"
  by (induction xs arbitrary: ys) (auto simp: result_iff)

lemma try_map_Inr_iff:
  "try_map f xs = Inr ys \<longleftrightarrow> list_all2 (\<lambda>x y. f x = Inr y) xs ys"
proof (induction xs arbitrary: ys)
  case Nil
  then show ?case by auto
next
  case (Cons x xs)
  show ?case by (auto simp: result_iff Cons.IH list_all2_Cons1)
qed

lemma try_map_all_ok: "(\<And>x. x \<in> set xs \<Longrightarrow> f x = Inr (g x)) \<Longrightarrow> try_map f xs = Inr (map g xs)"
  by (induction xs) auto

lemma try_fold_append:
  "try_fold f s (xs @ ys) = and_then (try_fold f s xs) (\<lambda>s'. try_fold f s' ys)"
  by (induction xs arbitrary: s) (auto simp: and_then_assoc)

section \<open>Methods on a mutable receiver\<close>

text \<open>
  A method \<open>fn f(&mut self, ..) -> Result<T>\<close> that fails keeps the writes it did before the error,
  so its model returns the new state beside the result. \<open>st_then\<close> is \<open>?\<close> followed by the rest.
\<close>

definition st_ok :: "'a \<Rightarrow> ('s, 'e, 'a) stateful" where
  "st_ok a s = (Inr a, s)"

definition st_err :: "'e \<Rightarrow> ('s, 'e, 'a) stateful" where
  "st_err e s = (Inl e, s)"

definition st_then ::
  "('s, 'e, 'a) stateful \<Rightarrow> ('a \<Rightarrow> ('s, 'e, 'b) stateful) \<Rightarrow> ('s, 'e, 'b) stateful" where
  "st_then m f s = (case m s of (Inl e, s') \<Rightarrow> (Inl e, s') | (Inr a, s') \<Rightarrow> f a s')"

fun st_for :: "('a \<Rightarrow> ('s, 'e, unit) stateful) \<Rightarrow> 'a list \<Rightarrow> ('s, 'e, unit) stateful" where
  "st_for f [] = st_ok ()"
| "st_for f (x # xs) = st_then (f x) (\<lambda>_. st_for f xs)"

lemma st_ok_apply [simp]: "st_ok a s = (Inr a, s)"
  by (simp add: st_ok_def)

lemma st_err_apply [simp]: "st_err e s = (Inl e, s)"
  by (simp add: st_err_def)

lemma st_then_Inr_iff [result_iff]:
  "st_then m f s = (Inr b, s'') \<longleftrightarrow> (\<exists>a s'. m s = (Inr a, s') \<and> f a s' = (Inr b, s''))"
  by (auto simp: st_then_def split: prod.splits sum.splits)

lemma st_then_ok [simp]: "m s = (Inr a, s') \<Longrightarrow> st_then m f s = f a s'"
  by (simp add: st_then_def)

lemma st_then_err [simp]: "m s = (Inl e, s') \<Longrightarrow> st_then m f s = (Inl e, s')"
  by (simp add: st_then_def)

definition st_map_err :: "('e \<Rightarrow> 'f) \<Rightarrow> ('s, 'e, 'a) stateful \<Rightarrow> ('s, 'f, 'a) stateful" where
  "st_map_err f m s = (case m s of (r, s') \<Rightarrow> (map_err f r, s'))"

definition lift_result :: "('e, 'a) result \<Rightarrow> ('s, 'e, 'a) stateful" where
  "lift_result r s = (r, s)"

lemma fst_st_map_err [simp]: "fst (st_map_err f m s) = map_err f (fst (m s))"
  by (simp add: st_map_err_def split: prod.splits)

lemma st_map_err_Inr_iff [result_iff]: "st_map_err f m s = (Inr a, s') \<longleftrightarrow> m s = (Inr a, s')"
  by (cases "m s") (auto simp: st_map_err_def result_iff)

lemma lift_result_Inr_iff [result_iff]: "lift_result r s = (Inr a, s') \<longleftrightarrow> r = Inr a \<and> s' = s"
  by (auto simp: lift_result_def)

text \<open>A method respects a relation between the states before and after it.\<close>

definition framed :: "('s \<Rightarrow> 's \<Rightarrow> bool) \<Rightarrow> ('s, 'e, 'a) stateful \<Rightarrow> bool" where
  "framed R m \<longleftrightarrow> (\<forall>s. R s (snd (m s)))"

lemma framedD: "framed R m \<Longrightarrow> m s = (r, s') \<Longrightarrow> R s s'"
  unfolding framed_def by (metis snd_conv)

lemma framed_st_then:
  assumes "\<And>s s1 s2. R s s1 \<Longrightarrow> R s1 s2 \<Longrightarrow> R s s2" and "framed R m" and "\<And>a. framed R (f a)"
  shows "framed R (st_then m f)"
  unfolding framed_def
proof
  fix s
  obtain r s1 where m: "m s = (r, s1)" by (metis surj_pair)
  have "R s s1" using framedD [OF assms(2) m] .
  moreover have "R s1 (snd (f a s1))" for a using assms(3) by (simp add: framed_def)
  ultimately show "R s (snd (st_then m f s))" using m assms(1) by (cases r) auto
qed

lemma framed_st_map_err: "framed R m \<Longrightarrow> framed R (st_map_err f m)"
  unfolding framed_def by (auto simp: st_map_err_def split: prod.splits) (metis snd_conv)

section \<open>String operations of the standard library\<close>

text \<open>\<open>str::strip_prefix\<close> and \<open>str::starts_with\<close>.\<close>

fun strip_prefix :: "string \<Rightarrow> string \<Rightarrow> string option" where
  "strip_prefix [] s = Some s"
| "strip_prefix (p # ps) [] = None"
| "strip_prefix (p # ps) (c # cs) = (if p = c then strip_prefix ps cs else None)"

definition starts_with :: "string \<Rightarrow> string \<Rightarrow> bool" where
  "starts_with p s = (strip_prefix p s \<noteq> None)"

lemma strip_prefix_Some_iff [str_simps]: "strip_prefix p s = Some r \<longleftrightarrow> s = p @ r"
  by (induction p s rule: strip_prefix.induct) auto

lemma strip_prefix_append [simp]: "strip_prefix p (p @ r) = Some r"
  by (simp add: strip_prefix_Some_iff)

lemma starts_with_iff [str_simps]: "starts_with p s \<longleftrightarrow> (\<exists>r. s = p @ r)"
  unfolding starts_with_def by (metis not_None_eq strip_prefix_Some_iff)

text \<open>\<open>str::find(char)\<close>: the byte index of the first occurrence.\<close>

fun str_find :: "char \<Rightarrow> string \<Rightarrow> nat option" where
  "str_find c [] = None"
| "str_find c (x # xs) = (if x = c then Some 0 else map_option Suc (str_find c xs))"

text \<open>\<open>str::split_once(char)\<close> and \<open>str::rsplit_once(char)\<close>.\<close>

fun split_once :: "char \<Rightarrow> string \<Rightarrow> (string \<times> string) option" where
  "split_once c [] = None"
| "split_once c (x # xs) =
     (if x = c then Some ([], xs)
      else map_option (\<lambda>(a, b). (x # a, b)) (split_once c xs))"

definition rsplit_once :: "char \<Rightarrow> string \<Rightarrow> (string \<times> string) option" where
  "rsplit_once c s = map_option (\<lambda>(a, b). (rev b, rev a)) (split_once c (rev s))"

text \<open>\<open>str::split(char)\<close>: always at least one piece.\<close>

fun split_on :: "char \<Rightarrow> string \<Rightarrow> string list" where
  "split_on c [] = [[]]"
| "split_on c (x # xs) =
     (if x = c then [] # split_on c xs
      else (case split_on c xs of [] \<Rightarrow> [[x]] | p # ps \<Rightarrow> (x # p) # ps))"

text \<open>\<open>str::split_once(&str)\<close> for a separator string.\<close>

fun split_once_str :: "string \<Rightarrow> string \<Rightarrow> (string \<times> string) option" where
  "split_once_str sep [] = (if sep = [] then Some ([], []) else None)"
| "split_once_str sep (x # xs) =
     (case strip_prefix sep (x # xs) of
        Some r \<Rightarrow> Some ([], r)
      | None \<Rightarrow> map_option (\<lambda>(a, b). (x # a, b)) (split_once_str sep xs))"

text \<open>\<open>str::split(&str)\<close> for a separator that is not empty.\<close>

lemma split_once_str_length: "split_once_str sep s = Some (a, b) \<Longrightarrow> sep \<noteq> [] \<Longrightarrow> length b < length s"
proof (induction sep s arbitrary: a rule: split_once_str.induct)
  case (2 sep x xs)
  show ?case
  proof (cases "strip_prefix sep (x # xs)")
    case None
    with 2 show ?thesis by (fastforce split: option.splits)
  next
    case (Some r)
    moreover have "length (x # xs) = length sep + length r" if "strip_prefix sep (x # xs) = Some r"
      using that by (metis length_append strip_prefix_Some_iff)
    ultimately show ?thesis using 2 by auto
  qed
qed (auto split: if_splits)

function split_str :: "string \<Rightarrow> string \<Rightarrow> string list" where
  "split_str sep s =
     (if sep = [] then [s]
      else (case split_once_str sep s of None \<Rightarrow> [s] | Some (a, b) \<Rightarrow> a # split_str sep b))"
  by pat_completeness auto
termination
  by (relation "measure (\<lambda>(_, s). length s)") (auto dest: split_once_str_length)

declare split_str.simps [simp del]

fun join_with :: "char \<Rightarrow> string list \<Rightarrow> string" where
  "join_with c [] = []"
| "join_with c [p] = p"
| "join_with c (p # q # ps) = p @ c # join_with c (q # ps)"

lemma split_on_not_Nil [simp]: "split_on c s \<noteq> []"
  by (induction s) (auto split: list.splits)

lemma split_on_free [str_simps]: "c \<notin> set s \<Longrightarrow> split_on c s = [s]"
  by (induction s) auto

lemma split_on_append: "c \<notin> set p \<Longrightarrow> split_on c (p @ c # s) = p # split_on c s"
  by (induction p) auto

lemma split_on_snoc: "c \<notin> set p \<Longrightarrow> split_on c (s @ c # p) = split_on c s @ [p]"
  by (induction s) (auto simp: split_on_free split: list.splits)

lemma split_on_join:
  "ps \<noteq> [] \<Longrightarrow> (\<And>p. p \<in> set ps \<Longrightarrow> c \<notin> set p) \<Longrightarrow> split_on c (join_with c ps) = ps"
  by (induction c ps rule: join_with.induct) (auto simp: split_on_free split_on_append)

lemma join_split_on: "join_with c (split_on c s) = s"
proof (induction s)
  case Nil
  then show ?case by simp
next
  case (Cons x xs)
  then show ?case
    by (cases "split_on c xs"; cases "tl (split_on c xs)") auto
qed

lemma join_with_snoc: "ps \<noteq> [] \<Longrightarrow> join_with c (ps @ [q]) = join_with c ps @ c # q"
  by (induction c ps rule: join_with.induct) auto

lemma join_with_Cons: "ps \<noteq> [] \<Longrightarrow> join_with c (p # ps) = p @ c # join_with c ps"
  by (cases ps) auto

lemma join_with_free: "\<forall>p\<in>set ps. d \<notin> set p \<Longrightarrow> d \<noteq> c \<Longrightarrow> d \<notin> set (join_with c ps)"
  by (induction c ps rule: join_with.induct) auto

lemma split_on_pieces_free: "p \<in> set (split_on c s) \<Longrightarrow> c \<notin> set p"
  by (induction s arbitrary: p) (fastforce split: if_splits list.splits)+

lemma split_on_all_free: "\<forall>p\<in>set (split_on c s). c \<notin> set p"
  using split_on_pieces_free by blast

lemma length_split_on: "length (split_on c s) = Suc (count_list s c)"
  by (induction s) (auto split: list.splits)

lemma split_once_Some_iff [str_simps]:
  "split_once c s = Some (a, b) \<longleftrightarrow> s = a @ c # b \<and> c \<notin> set a"
proof (induction s arbitrary: a)
  case Nil
  then show ?case by simp
next
  case (Cons x xs)
  show ?case
    by (cases a) (auto simp: Cons.IH)
qed

lemma split_once_None_iff [str_simps]: "split_once c s = None \<longleftrightarrow> c \<notin> set s"
  by (induction s) auto

lemma rsplit_once_Some_iff [str_simps]:
  "rsplit_once c s = Some (a, b) \<longleftrightarrow> s = a @ c # b \<and> c \<notin> set b"
proof -
  have "rsplit_once c s = Some (a, b) \<longleftrightarrow> split_once c (rev s) = Some (rev b, rev a)"
    by (auto simp: rsplit_once_def)
  also have "\<dots> \<longleftrightarrow> rev s = rev b @ c # rev a \<and> c \<notin> set b"
    by (simp add: split_once_Some_iff)
  also have "\<dots> \<longleftrightarrow> s = a @ c # b \<and> c \<notin> set b"
    by (auto simp: rev_swap)
  finally show ?thesis .
qed

lemma rsplit_once_None_iff [str_simps]: "rsplit_once c s = None \<longleftrightarrow> c \<notin> set s"
  by (simp add: rsplit_once_def split_once_None_iff)

lemma str_find_None_iff [str_simps]: "str_find c s = None \<longleftrightarrow> c \<notin> set s"
  by (induction s) auto

lemma str_find_append: "c \<notin> set p \<Longrightarrow> str_find c (p @ c # s) = Some (length p)"
  by (induction p) auto

lemma str_find_Some_iff [str_simps]:
  "str_find c s = Some i \<longleftrightarrow> i < length s \<and> s ! i = c \<and> c \<notin> set (take i s)"
proof (induction s arbitrary: i)
  case Nil
  then show ?case by simp
next
  case (Cons x xs)
  show ?case
    by (cases i) (auto simp: Cons.IH)
qed

text \<open>\<open>str::parse::<i32>\<close> and \<open>str::parse::<usize>\<close> (on a 64-bit target).\<close>

definition is_digit :: "char \<Rightarrow> bool" where
  "is_digit c \<longleftrightarrow> 48 \<le> (of_char c :: nat) \<and> (of_char c :: nat) \<le> 57"

fun digits_value :: "nat \<Rightarrow> string \<Rightarrow> nat" where
  "digits_value acc [] = acc"
| "digits_value acc (c # cs) = digits_value (10 * acc + (of_char c - 48)) cs"

definition parse_digits :: "string \<Rightarrow> nat option" where
  "parse_digits s = (if s \<noteq> [] \<and> list_all is_digit s then Some (digits_value 0 s) else None)"

definition parse_i32 :: "string \<Rightarrow> int option" where
  "parse_i32 s =
     (case s of
        [] \<Rightarrow> None
      | c # cs \<Rightarrow>
          (case (if c = CHR ''-'' \<or> c = CHR ''+'' then parse_digits cs else parse_digits s) of
             None \<Rightarrow> None
           | Some n \<Rightarrow>
               (let v = (if c = CHR ''-'' then - int n else int n)
                in if - (2 ^ 31) \<le> v \<and> v < 2 ^ 31 then Some v else None)))"

definition parse_usize :: "string \<Rightarrow> nat option" where
  "parse_usize s =
     (case s of
        [] \<Rightarrow> None
      | c # cs \<Rightarrow>
          (case (if c = CHR ''+'' then parse_digits cs else parse_digits s) of
             None \<Rightarrow> None
           | Some n \<Rightarrow> if n < 2 ^ 64 then Some n else None))"

text \<open>Decimal numbers as they are printed.\<close>

fun nat_str :: "nat \<Rightarrow> string" where
  "nat_str n = (if n < 10 then [char_of (48 + n)] else nat_str (n div 10) @ [char_of (48 + n mod 10)])"

declare nat_str.simps [simp del]

lemma digits_value_snoc: "digits_value acc (s @ [c]) = 10 * digits_value acc s + (of_char c - 48)"
  by (induction s arbitrary: acc) simp_all

lemma nat_str_digits: "list_all is_digit (nat_str n) \<and> nat_str n \<noteq> [] \<and> digits_value 0 (nat_str n) = n"
proof (induction n rule: nat_str.induct)
  case (1 n)
  have c: "is_digit (char_of (48 + m))" "of_char (char_of (48 + m)) = 48 + m" if "m < 10" for m :: nat
    using that by (simp_all add: is_digit_def of_char_of)
  show ?case
  proof (cases "n < 10")
    case True
    then show ?thesis using c by (simp add: nat_str.simps [of n])
  next
    case False
    then show ?thesis
      using "1.IH" c [of "n mod 10"] by (simp add: nat_str.simps [of n] digits_value_snoc)
  qed
qed

lemma parse_nat_str: "parse_digits (nat_str n) = Some n"
  by (simp add: parse_digits_def nat_str_digits)

lemma nat_str_inject [simp]: "nat_str m = nat_str n \<longleftrightarrow> m = n"
  by (metis nat_str_digits)

lemma nat_str_free: "\<not> is_digit c \<Longrightarrow> c \<notin> set (nat_str n)"
  using nat_str_digits [of n] by (auto simp: list_all_iff)

lemma parse_usize_nat_str: "n < 2 ^ 64 \<Longrightarrow> parse_usize (nat_str n) = Some n"
proof -
  assume "n < 2 ^ 64"
  moreover obtain c cs where "nat_str n = c # cs" using nat_str_digits [of n] by (cases "nat_str n") auto
  moreover from this have "c \<noteq> CHR ''+''" using nat_str_free [of "CHR ''+''" n] by (auto simp: is_digit_def)
  ultimately show ?thesis using parse_nat_str [of n] by (simp add: parse_usize_def)
qed

section \<open>UTF-8\<close>

text \<open>
  One step of the standard library's UTF-8 decoder over a non-empty byte string: whether it starts
  with a well-formed code point, and how many bytes the step consumes (the code point, or the
  longest prefix that an invalid sequence takes with it).
\<close>

definition cont_byte :: "nat \<Rightarrow> bool" where
  "cont_byte b \<longleftrightarrow> 128 \<le> b \<and> b \<le> 191"

definition byte_at :: "string \<Rightarrow> nat \<Rightarrow> nat" where
  "byte_at s i = (if i < length s then of_char (s ! i) else 0)"

definition utf8_step :: "string \<Rightarrow> bool \<times> nat" where
  "utf8_step s =
     (let b0 = byte_at s 0; b1 = byte_at s 1; b2 = byte_at s 2; b3 = byte_at s 3
      in if b0 < 128 then (True, 1)
         else if 194 \<le> b0 \<and> b0 \<le> 223 then (if cont_byte b1 then (True, 2) else (False, 1))
         else if 224 \<le> b0 \<and> b0 \<le> 239 then
           (if \<not> cont_byte b1 \<or> b0 = 224 \<and> b1 < 160 \<or> b0 = 237 \<and> 159 < b1 then (False, 1)
            else if cont_byte b2 then (True, 3) else (False, 2))
         else if 240 \<le> b0 \<and> b0 \<le> 244 then
           (if \<not> cont_byte b1 \<or> b0 = 240 \<and> b1 < 144 \<or> b0 = 244 \<and> 143 < b1 then (False, 1)
            else if \<not> cont_byte b2 then (False, 2)
            else if cont_byte b3 then (True, 4) else (False, 3))
         else (False, 1))"

lemma utf8_step_pos [simp]: "0 < snd (utf8_step s)"
  by (simp add: utf8_step_def Let_def)

function utf8_valid :: "string \<Rightarrow> bool" where
  "utf8_valid s =
     (if s = [] then True
      else fst (utf8_step s) \<and> utf8_valid (drop (snd (utf8_step s)) s))"
  by pat_completeness auto
termination
  by (relation "measure length") auto

text \<open>\<open>String::from_utf8_lossy\<close>: each invalid sequence becomes U+FFFD.\<close>

definition replacement_char :: string where
  "replacement_char = map char_of [239 :: nat, 191, 189]"

function from_utf8_lossy :: "bytes \<Rightarrow> string" where
  "from_utf8_lossy s =
     (if s = [] then []
      else (if fst (utf8_step s) then take (snd (utf8_step s)) s else replacement_char)
           @ from_utf8_lossy (drop (snd (utf8_step s)) s))"
  by pat_completeness auto
termination
  by (relation "measure length") auto

text \<open>\<open>str::chars\<close>: a string cut into its code points, each kept as its bytes.\<close>

function utf8_chars :: "string \<Rightarrow> string list" where
  "utf8_chars s =
     (if s = [] then []
      else take (snd (utf8_step s)) s # utf8_chars (drop (snd (utf8_step s)) s))"
  by pat_completeness auto
termination
  by (relation "measure length") auto

declare utf8_valid.simps [simp del] from_utf8_lossy.simps [simp del] utf8_chars.simps [simp del]

text \<open>The code points with the property \<open>White_Space\<close>, by their UTF-8 bytes.\<close>

definition is_unicode_ws :: "string \<Rightarrow> bool" where
  "is_unicode_ws cp \<longleftrightarrow>
     map (of_char :: char \<Rightarrow> nat) cp \<in>
       {[9], [10], [11], [12], [13], [32], [194, 133], [194, 160], [225, 154, 128], [226, 128, 168],
        [226, 128, 169], [226, 128, 175], [226, 129, 159], [227, 128, 128]} \<union>
       (\<lambda>n. [226, 128, n]) ` {128..138}"

definition trim_end :: "string \<Rightarrow> string" where
  "trim_end s = concat (rev (dropWhile is_unicode_ws (rev (utf8_chars s))))"

definition trim_ws :: "string \<Rightarrow> string" where
  "trim_ws s = concat (dropWhile is_unicode_ws (utf8_chars (trim_end s)))"

definition from_utf8 :: "bytes \<Rightarrow> string option" where
  "from_utf8 b = (if utf8_valid b then Some b else None)"

definition is_ascii_str :: "string \<Rightarrow> bool" where
  "is_ascii_str s \<longleftrightarrow> (\<forall>c\<in>set s. of_char c < (128 :: nat))"

lemma byte_at_0 [simp]: "byte_at (c # s) 0 = of_char c"
  by (simp add: byte_at_def)

lemma utf8_step_ascii: "of_char c < (128 :: nat) \<Longrightarrow> utf8_step (c # s) = (True, 1)"
  by (simp add: utf8_step_def)

lemma utf8_valid_Nil [simp]: "utf8_valid []"
  by (simp add: utf8_valid.simps)

lemma utf8_chars_Nil [simp]: "utf8_chars [] = []"
  by (simp add: utf8_chars.simps)

lemma from_utf8_lossy_Nil [simp]: "from_utf8_lossy [] = []"
  by (simp add: from_utf8_lossy.simps)

lemma utf8_valid_ascii_Cons: "of_char c < (128 :: nat) \<Longrightarrow> utf8_valid (c # s) = utf8_valid s"
  by (subst utf8_valid.simps) (simp add: utf8_step_ascii)

lemma utf8_chars_ascii_Cons:
  "of_char c < (128 :: nat) \<Longrightarrow> utf8_chars (c # s) = [c] # utf8_chars s"
  by (subst utf8_chars.simps) (simp add: utf8_step_ascii)

lemma utf8_valid_ascii: "is_ascii_str s \<Longrightarrow> utf8_valid s"
  by (induction s) (auto simp: is_ascii_str_def utf8_valid_ascii_Cons)

lemma utf8_chars_ascii_append:
  "is_ascii_str p \<Longrightarrow> utf8_chars (p @ s) = map (\<lambda>c. [c]) p @ utf8_chars s"
  by (induction p) (auto simp: is_ascii_str_def utf8_chars_ascii_Cons)

lemma concat_utf8_chars [simp]: "concat (utf8_chars s) = s"
proof (induction s rule: utf8_chars.induct)
  case (1 s)
  then show ?case
    by (cases "s = []") (simp_all add: utf8_chars.simps [of s])
qed

lemma from_utf8_lossy_valid: "utf8_valid s \<Longrightarrow> from_utf8_lossy s = s"
proof (induction s rule: utf8_valid.induct)
  case (1 s)
  show ?case
  proof (cases "s = []")
    case False
    with "1.prems" have "fst (utf8_step s)" "utf8_valid (drop (snd (utf8_step s)) s)"
      by (simp_all add: utf8_valid.simps [of s])
    with False "1.IH" show ?thesis
      by (simp add: from_utf8_lossy.simps [of s])
  qed simp
qed

lemma from_utf8_Some_iff [result_iff]: "from_utf8 b = Some s \<longleftrightarrow> s = b \<and> utf8_valid b"
  by (auto simp: from_utf8_def)

section \<open>Association lists as finite maps with an iteration order\<close>

text \<open>\<open>BTreeMap::insert\<close> keeps its keys sorted; \<open>str_le\<close> is the byte order of strings.\<close>

fun str_le :: "string \<Rightarrow> string \<Rightarrow> bool" where
  "str_le [] t = True"
| "str_le (a # s) [] = False"
| "str_le (a # s) (b # t) =
     ((of_char a :: nat) < of_char b \<or> (of_char a :: nat) = of_char b \<and> str_le s t)"

fun btree_insert :: "string \<Rightarrow> 'v \<Rightarrow> (string \<times> 'v) list \<Rightarrow> (string \<times> 'v) list" where
  "btree_insert k v [] = [(k, v)]"
| "btree_insert k v ((k', v') # m) =
     (if k = k' then (k, v) # m
      else if str_le k k' then (k, v) # (k', v') # m
      else (k', v') # btree_insert k v m)"

lemma map_of_btree_insert [simp]: "map_of (btree_insert k v m) = (map_of m)(k \<mapsto> v)"
  by (induction m) (auto simp: fun_eq_iff)

lemma fst_btree_insert: "fst ` set (btree_insert k v m) = insert k (fst ` set m)"
  by (simp flip: dom_map_of_conv_image_fst)

lemma AList_update_new: "k \<notin> fst ` set acc \<Longrightarrow> AList.update k v acc = acc @ [(k, v)]"
  by (induction acc) auto

lemma fold_AList_update_new:
  assumes "distinct (map f xs)" and "f ` set xs \<inter> fst ` set acc = {}"
  shows "fold (\<lambda>x m. AList.update (f x) (g x) m) xs acc = acc @ map (\<lambda>x. (f x, g x)) xs"
  using assms
proof (induction xs arbitrary: acc)
  case Nil
  then show ?case by simp
next
  case (Cons x xs)
  then have "AList.update (f x) (g x) acc = acc @ [(f x, g x)]"
    by (intro AList_update_new) auto
  moreover have "f ` set xs \<inter> fst ` set (acc @ [(f x, g x)]) = {}"
    using Cons.prems by auto
  ultimately show ?case using Cons by simp
qed

section \<open>Two letters per byte\<close>

text \<open>A text encoding of bytes with the properties of base64 that clients rely on, for concrete runs.\<close>

definition hex_char :: "char \<Rightarrow> string" where
  "hex_char c = [char_of (65 + (of_char c :: nat) div 16), char_of (65 + (of_char c :: nat) mod 16)]"

fun hex_decode :: "string \<Rightarrow> (string, bytes) result" where
  "hex_decode [] = Inr []"
| "hex_decode [a] = Inl ''odd''"
| "hex_decode (a # b # s) =
     and_then (hex_decode s)
       (\<lambda>r. Inr (char_of (16 * (of_char a - 65) + (of_char b - 65) :: nat) # r))"

lemma hex_char_value:
  "(of_char (char_of (65 + (of_char c :: nat) div 16)) :: nat) = 65 + of_char c div 16"
  "(of_char (char_of (65 + (of_char c :: nat) mod 16)) :: nat) = 65 + of_char c mod 16"
proof -
  have "(of_char c :: nat) < 256" by simp
  then have "(of_char c :: nat) div 16 < 16" "(of_char c :: nat) mod 16 < 16"
    by (simp_all add: less_mult_imp_div_less)
  then show "(of_char (char_of (65 + (of_char c :: nat) div 16)) :: nat) = 65 + of_char c div 16"
    "(of_char (char_of (65 + (of_char c :: nat) mod 16)) :: nat) = 65 + of_char c mod 16"
    by simp_all
qed

lemma hex_decode_encode: "hex_decode (concat (map hex_char b)) = Inr b"
  by (induction b) (simp_all add: hex_char_def hex_char_value del: of_char_of)

lemma hex_char_range: "x \<in> set (hex_char c) \<Longrightarrow> (65 :: nat) \<le> of_char x \<and> of_char x < (81 :: nat)"
proof -
  assume x: "x \<in> set (hex_char c)"
  have "(of_char c :: nat) < 256" by simp
  then have "(of_char c :: nat) div 16 < 16" "(of_char c :: nat) mod 16 < 16"
    by (simp_all add: less_mult_imp_div_less)
  then show ?thesis using x hex_char_value [of c] unfolding hex_char_def by (auto simp del: of_char_of)
qed

lemma hex_char_free: "(of_char x :: nat) < 65 \<or> 81 \<le> (of_char x :: nat) \<Longrightarrow> x \<notin> set (hex_char c)"
  using hex_char_range [of x c] by auto

lemma hex_char_no_comma: "CHR '','' \<notin> set (hex_char c)"
  by (rule hex_char_free) simp

lemma hex_encode_ascii: "is_ascii_str (concat (map hex_char b))"
  using hex_char_range by (fastforce simp: is_ascii_str_def)

section \<open>Numbers as bytes\<close>

definition le_bytes :: "nat \<Rightarrow> nat \<Rightarrow> bytes" where
  "le_bytes k n = map (\<lambda>i. char_of (n div 256 ^ i mod 256)) [0..<k]"

definition be_bytes :: "nat \<Rightarrow> nat \<Rightarrow> bytes" where
  "be_bytes k n = rev (le_bytes k n)"

definition be_value :: "bytes \<Rightarrow> nat" where
  "be_value b = foldl (\<lambda>v c. 256 * v + of_char c) 0 b"

lemma length_le_bytes [simp]: "length (le_bytes k n) = k"
  by (simp add: le_bytes_def)

lemma be_value_simps [simp]:
  "be_value [] = 0"
  "be_value (b @ [c]) = 256 * be_value b + of_char c"
  by (simp_all add: be_value_def)

lemma be_value_append: "be_value (a @ b) = be_value a * 256 ^ length b + be_value b"
proof (induction b rule: rev_induct)
  case (snoc c b)
  then show ?case
    by (simp add: append_assoc [symmetric] algebra_simps del: append_assoc)
qed simp

lemma be_bytes_Suc: "be_bytes (Suc k) n = be_bytes k (n div 256) @ [char_of (n mod 256)]"
proof -
  have "le_bytes (Suc k) n = char_of (n mod 256) # le_bytes k (n div 256)"
    by (simp add: le_bytes_def map_upt_Suc div_mult2_eq del: upt_Suc)
  then show ?thesis by (simp add: be_bytes_def)
qed

lemma be_value_be_bytes: "be_value (be_bytes k n) = n mod 256 ^ k"
proof (induction k arbitrary: n)
  case 0
  then show ?case by (simp add: be_bytes_def le_bytes_def)
next
  case (Suc k)
  then show ?case
    by (simp add: be_bytes_Suc of_char_of mod_mult2_eq)
qed

lemma length_be_bytes [simp]: "length (be_bytes k n) = k"
  by (simp add: be_bytes_def)

end
