(* ===== verification/Runtime_Measurement.thy ===== *)
theory Runtime_Measurement
  imports Rust_Prelude "HOL-Library.Word"
begin

text \<open>
  \<open>attestation-agent/attester\<close>: the trait that reads and extends the runtime measurement registers of
  a TEE, and its TDX and Azure vTPM implementations. A trait object is the record \<open>attester\<close> over a
  hardware state; the locale \<open>runtime_register\<close> is what the event log relies on. The TDX module and
  the kernel driver are the record \<open>tdx_platform\<close>, with the register semantics of the hardware as
  \<open>tdx_laws\<close>.
\<close>

section \<open>The interface\<close>

record 'hw attester =
  at_get_runtime_measurement :: "'hw \<Rightarrow> nat \<Rightarrow> (string, bytes) result"
  at_extend_runtime_measurement :: "bytes \<Rightarrow> nat \<Rightarrow> ('hw, string, unit) stateful"

text \<open>The value of a register after a sequence of extensions.\<close>

definition measure_all :: "(bytes \<Rightarrow> bytes) \<Rightarrow> bytes \<Rightarrow> bytes list \<Rightarrow> bytes" where
  "measure_all H v ds = foldl (\<lambda>s d. H (s @ d)) v ds"

lemma measure_all_simps [simp]:
  "measure_all H v [] = v"
  "measure_all H v (d # ds) = measure_all H (H (v @ d)) ds"
  by (simp_all add: measure_all_def)

lemma measure_all_append: "measure_all H v (ds @ es) = measure_all H (measure_all H v ds) es"
  by (simp add: measure_all_def)

text \<open>
  A register bank: in a good state every register can be read, its value has the width of the hash,
  and a successful extension of a register with a digest of that width hashes it into the value.
\<close>

locale runtime_register =
  fixes get :: "'hw \<Rightarrow> nat \<Rightarrow> (string, bytes) result"
    and extend :: "bytes \<Rightarrow> nat \<Rightarrow> ('hw, string, unit) stateful"
    and good :: "'hw \<Rightarrow> bool"
    and H :: "bytes \<Rightarrow> bytes"
    and width :: nat
  assumes get_ok: "good hw \<Longrightarrow> \<exists>v. get hw p = Inr v \<and> length v = width"
    and extend_ok: "good hw \<Longrightarrow> length d = width \<Longrightarrow> extend d p hw = (r, hw') \<Longrightarrow> good hw'"
    and extend_get: "good hw \<Longrightarrow> length d = width \<Longrightarrow> get hw p = Inr v \<Longrightarrow>
       extend d p hw = (Inr (), hw') \<Longrightarrow> get hw' p = Inr (H (v @ d))"
    and extend_fail: "good hw \<Longrightarrow> length d = width \<Longrightarrow> extend d p hw = (Inl e, hw') \<Longrightarrow> get hw' p = get hw p"
begin

lemma extend_sequence:
  assumes "good hw" and "get hw p = Inr v" and "\<forall>d\<in>set ds. length d = width"
    and "st_for (\<lambda>d. extend d p) ds hw = (Inr (), hw')"
  shows "good hw' \<and> get hw' p = Inr (measure_all H v ds)"
  using assms
proof (induction ds arbitrary: hw v)
  case Nil
  then show ?case by simp
next
  case (Cons d ds)
  then obtain hw1 where e: "extend d p hw = (Inr (), hw1)" "st_for (\<lambda>d. extend d p) ds hw1 = (Inr (), hw')"
    by (auto simp: result_iff)
  have "good hw1" using extend_ok [OF Cons.prems(1) _ e(1)] Cons.prems(3) by simp
  moreover have "get hw1 p = Inr (H (v @ d))" using extend_get [OF Cons.prems(1) _ Cons.prems(2) e(1)] Cons.prems(3) by simp
  ultimately show ?case using Cons.IH Cons.prems(3) e(2) by simp
qed

end

section \<open>TDX\<close>

definition pad :: "nat \<Rightarrow> bytes \<Rightarrow> bytes" where
  "pad T input =
     (if length input > T then take T input
      else input @ replicate (T - length input) (CHR 0x00))"

definition pcr_to_rtmr :: "nat \<Rightarrow> nat" where
  "pcr_to_rtmr register_index =
     (if register_index = 1 \<or> register_index = 7 then 0
      else if 2 \<le> register_index \<and> register_index \<le> 6 then 1
      else if 8 \<le> register_index \<and> register_index \<le> 15 then 2
      else 3)"

record tdx_rtmr_event =
  ev_version :: nat
  ev_rtmr_index :: nat
  ev_extend_data :: bytes
  ev_event_type :: nat
  ev_event_data_size :: nat
  ev_event_data :: bytes

definition tdx_rtmr_event_default :: tdx_rtmr_event where
  "tdx_rtmr_event_default =
     \<lparr>ev_version = 1, ev_rtmr_index = 2, ev_extend_data = replicate 48 (CHR 0x00), ev_event_type = 0,
      ev_event_data_size = 0, ev_event_data = []\<rparr>"

definition with_extend_data :: "bytes \<Rightarrow> tdx_rtmr_event \<Rightarrow> tdx_rtmr_event" where
  "with_extend_data d e = e\<lparr>ev_extend_data := d\<rparr>"

definition with_rtmr_index :: "nat \<Rightarrow> tdx_rtmr_event \<Rightarrow> tdx_rtmr_event" where
  "with_rtmr_index i e = e\<lparr>ev_rtmr_index := i\<rparr>"

text \<open>The packed C layout that is copied byte by byte, followed by the event data.\<close>

definition event_bytes :: "tdx_rtmr_event \<Rightarrow> bytes" where
  "event_bytes e =
     le_bytes 4 (ev_version e) @ le_bytes 8 (ev_rtmr_index e) @ ev_extend_data e @
     le_bytes 4 (ev_event_type e) @ le_bytes 4 (ev_event_data_size e) @
     take (ev_event_data_size e) (ev_event_data e)"

record td_report =
  tr_mrconfigid :: bytes
  tr_rtmr :: "64 word list"

definition get_rtmr :: "td_report \<Rightarrow> nat \<Rightarrow> bytes" where
  "get_rtmr rep rtmr_index =
     concat (map (\<lambda>w. le_bytes 8 (unat w)) (take 6 (drop (rtmr_index * 6) (tr_rtmr rep))))"

record 'hw tdx_platform =
  tp_report :: "'hw \<Rightarrow> (string, td_report) result"
  tp_extend_available :: bool
  tp_dcap_ioctls :: bool
  tp_att_extend :: "bytes \<Rightarrow> ('hw, string, unit) stateful"

definition tdx_get_runtime_measurement :: "'hw tdx_platform \<Rightarrow> 'hw \<Rightarrow> nat \<Rightarrow> (string, bytes) result" where
  "tdx_get_runtime_measurement P hw pcr_index =
     and_then (tp_report P hw) (\<lambda>rep. Inr (get_rtmr rep (pcr_to_rtmr pcr_index)))"

definition tdx_extend_runtime_measurement ::
  "'hw tdx_platform \<Rightarrow> bytes \<Rightarrow> nat \<Rightarrow> ('hw, string, unit) stateful" where
  "tdx_extend_runtime_measurement P event_digest register_index hw =
     (if \<not> tp_extend_available P then (Inl ''Cannot extend runtime measurement on this system'', hw)
      else
        (let rtmr_index = pcr_to_rtmr register_index; extend_data = pad 48 event_digest
         in if tp_dcap_ioctls P then
              tp_att_extend P (event_bytes (with_rtmr_index rtmr_index (with_extend_data extend_data tdx_rtmr_event_default))) hw
            else (Inr (), hw)))"

datatype init_data_result = InitDataOk | InitDataUnsupported

definition tdx_bind_init_data :: "'hw tdx_platform \<Rightarrow> 'hw \<Rightarrow> bytes \<Rightarrow> (string, init_data_result) result" where
  "tdx_bind_init_data P hw init_data_digest =
     and_then (tp_report P hw) (\<lambda>rep.
       if pad 48 init_data_digest \<noteq> tr_mrconfigid rep then Inl ''Init data does not match!''
       else Inr InitDataOk)"

definition tdx_attester :: "'hw tdx_platform \<Rightarrow> 'hw attester" where
  "tdx_attester P =
     \<lparr>at_get_runtime_measurement = tdx_get_runtime_measurement P,
      at_extend_runtime_measurement = tdx_extend_runtime_measurement P\<rparr>"

section \<open>Azure vTPM\<close>

definition az_extend_pcr ::
  "(nat \<Rightarrow> bytes \<Rightarrow> ('hw, string, unit) stateful) \<Rightarrow> bytes \<Rightarrow> nat \<Rightarrow> ('hw, string, unit) stateful" where
  "az_extend_pcr vtpm_extend digest pcr hw =
     (if length digest \<noteq> 32 then (Inl ''expected sha256 digest'', hw)
      else if pcr > 23 then (Inl ''Invalid PCR index'', hw)
      else vtpm_extend pcr digest hw)"

text \<open>The register index is cast from 64 to 8 bits before it is checked.\<close>

definition az_extend_runtime_measurement ::
  "(nat \<Rightarrow> bytes \<Rightarrow> ('hw, string, unit) stateful) \<Rightarrow> bytes \<Rightarrow> 64 word \<Rightarrow> ('hw, string, unit) stateful" where
  "az_extend_runtime_measurement vtpm_extend event_digest register_index =
     az_extend_pcr vtpm_extend event_digest (unat (ucast register_index :: 8 word))"

section \<open>The TDX registers\<close>

lemma length_pad [simp]: "length (pad T d) = T"
  by (simp add: pad_def)

lemma pad_same: "length d = T \<Longrightarrow> pad T d = d"
  by (simp add: pad_def)

lemma pcr_to_rtmr_range: "pcr_to_rtmr i \<le> 3"
  by (simp add: pcr_to_rtmr_def)

lemma length_get_rtmr:
  assumes "length (tr_rtmr rep) = 24" and "i \<le> 3"
  shows "length (get_rtmr rep i) = 48"
proof -
  have "length (concat (map (\<lambda>w. le_bytes 8 (unat w)) ws)) = 8 * length ws" for ws :: "64 word list"
    by (induction ws) auto
  moreover have "length (take 6 (drop (i * 6) (tr_rtmr rep))) = 6" using assms by simp
  ultimately show ?thesis by (simp add: get_rtmr_def)
qed

text \<open>
  The extension instruction on a packed event: a success hashes the 48 bytes of the event into the
  register that the event names and leaves the other registers alone; a failure changes none.
\<close>

definition tdx_event :: "nat \<Rightarrow> bytes \<Rightarrow> bytes" where
  "tdx_event i d = event_bytes (with_rtmr_index i (with_extend_data d tdx_rtmr_event_default))"

definition tdx_laws :: "'hw tdx_platform \<Rightarrow> (bytes \<Rightarrow> bytes) \<Rightarrow> bool" where
  "tdx_laws P sha384 \<longleftrightarrow>
     tp_dcap_ioctls P \<and>
     (\<forall>hw. \<exists>rep. tp_report P hw = Inr rep \<and> length (tr_rtmr rep) = 24) \<and>
     (\<forall>hw hw' i d rep rep'. tp_att_extend P (tdx_event i d) hw = (Inr (), hw') \<longrightarrow>
        tp_report P hw = Inr rep \<longrightarrow> tp_report P hw' = Inr rep' \<longrightarrow> i \<le> 3 \<longrightarrow> length d = 48 \<longrightarrow>
        get_rtmr rep' i = sha384 (get_rtmr rep i @ d)) \<and>
     (\<forall>hw hw' ev e. tp_att_extend P ev hw = (Inl e, hw') \<longrightarrow> tp_report P hw' = tp_report P hw)"

lemma tdx_extend_eq:
  "tdx_extend_runtime_measurement P d p hw =
     (if \<not> tp_extend_available P then (Inl ''Cannot extend runtime measurement on this system'', hw)
      else if tp_dcap_ioctls P then tp_att_extend P (tdx_event (pcr_to_rtmr p) (pad 48 d)) hw
      else (Inr (), hw))"
  by (simp add: tdx_extend_runtime_measurement_def Let_def tdx_event_def)

interpretation tdx: runtime_register "tdx_get_runtime_measurement P" "tdx_extend_runtime_measurement P"
  "\<lambda>hw. tdx_laws P H" H 48
  for P H
proof unfold_locales
  fix hw p
  assume laws: "tdx_laws P H"
  then obtain rep where rep: "tp_report P hw = Inr rep" "length (tr_rtmr rep) = 24"
    unfolding tdx_laws_def by blast
  then show "\<exists>v. tdx_get_runtime_measurement P hw p = Inr v \<and> length v = 48"
    by (simp add: tdx_get_runtime_measurement_def length_get_rtmr pcr_to_rtmr_range)
next
  fix hw d p v hw'
  assume laws: "tdx_laws P H" and d: "length d = 48" and get: "tdx_get_runtime_measurement P hw p = Inr v"
    and ext: "tdx_extend_runtime_measurement P d p hw = (Inr (), hw')"
  from laws have "tp_dcap_ioctls P" by (simp add: tdx_laws_def)
  with ext d have e: "tp_att_extend P (tdx_event (pcr_to_rtmr p) d) hw = (Inr (), hw')"
    by (auto simp: tdx_extend_eq pad_same split: if_splits)
  from laws obtain rep' where rep': "tp_report P hw' = Inr rep'" unfolding tdx_laws_def by blast
  from get obtain rep where rep: "tp_report P hw = Inr rep" "v = get_rtmr rep (pcr_to_rtmr p)"
    by (auto simp: tdx_get_runtime_measurement_def result_iff)
  have "get_rtmr rep' (pcr_to_rtmr p) = H (get_rtmr rep (pcr_to_rtmr p) @ d)"
    using laws e rep(1) rep' pcr_to_rtmr_range d unfolding tdx_laws_def by blast
  with rep rep' show "tdx_get_runtime_measurement P hw' p = Inr (H (v @ d))"
    by (simp add: tdx_get_runtime_measurement_def)
next
  fix hw d p e hw'
  assume laws: "tdx_laws P H" and ext: "tdx_extend_runtime_measurement P d p hw = (Inl e, hw')"
  have "tp_report P hw' = tp_report P hw"
  proof (cases "tp_extend_available P")
    case True
    with laws ext have "tp_att_extend P (tdx_event (pcr_to_rtmr p) (pad 48 d)) hw = (Inl e, hw')"
      by (simp add: tdx_extend_eq tdx_laws_def)
    with laws show ?thesis unfolding tdx_laws_def by blast
  qed (use ext in \<open>simp add: tdx_extend_eq\<close>)
  then show "tdx_get_runtime_measurement P hw' p = tdx_get_runtime_measurement P hw p"
    by (simp add: tdx_get_runtime_measurement_def)
qed


text \<open>A platform with four registers; the hash keeps the last 48 bytes.\<close>

definition demo_sha384 :: "bytes \<Rightarrow> bytes" where
  "demo_sha384 b = drop (length b - 48) b"

definition demo_tdx :: "(nat \<Rightarrow> bytes) tdx_platform" where
  "demo_tdx =
     \<lparr>tp_report = \<lambda>hw. Inr \<lparr>tr_mrconfigid = replicate 48 (CHR 0x00), tr_rtmr = replicate 24 0\<rparr>,
      tp_extend_available = True, tp_dcap_ioctls = True,
      tp_att_extend = \<lambda>ev hw. if ev = tdx_event 3 (replicate 48 (CHR 0x00)) then (Inr (), hw) else (Inl ''unsupported'', hw)\<rparr>"

lemma demo_tdx_zero: "concat (map (\<lambda>w. le_bytes 8 (unat w)) (replicate n (0 :: 64 word))) = replicate (8 * n) (CHR 0x00)"
proof (induction n)
  case (Suc n)
  have "le_bytes 8 0 = replicate 8 (CHR 0x00)" by (simp add: le_bytes_def map_replicate_const char_of_def)
  then have "concat (map (\<lambda>w. le_bytes 8 (unat w)) (replicate (Suc n) (0 :: 64 word))) =
      replicate 8 (CHR 0x00) @ replicate (8 * n) (CHR 0x00)" using Suc by simp
  also have "\<dots> = replicate (8 + 8 * n) (CHR 0x00)" by (rule replicate_add [symmetric])
  finally show ?case by simp
qed simp

lemma tdx_event_data: "length d = 48 \<Longrightarrow> take 48 (drop 12 (tdx_event i d)) = d"
  by (simp add: tdx_event_def event_bytes_def with_rtmr_index_def with_extend_data_def tdx_rtmr_event_default_def)

lemma demo_tdx_rtmr:
  "i \<le> 3 \<Longrightarrow> get_rtmr \<lparr>tr_mrconfigid = m, tr_rtmr = replicate 24 0\<rparr> i = replicate 48 (CHR 0x00)"
  using demo_tdx_zero [of 6] by (simp add: get_rtmr_def)

lemma demo_tdx_laws: "tdx_laws demo_tdx demo_sha384"
proof -
  let ?z = "replicate 48 (CHR 0x00)"
  have "d = ?z" if "tdx_event i d = tdx_event 3 ?z" "length d = 48" for i d
    using tdx_event_data [of d i] tdx_event_data [of ?z 3] that by simp
  then show ?thesis
    by (auto simp: tdx_laws_def demo_tdx_def demo_tdx_rtmr demo_sha384_def split: if_splits)
qed


text \<open>
  On TDX without the DCAP ioctl feature, extending a runtime measurement reports success for
  every digest and register but changes nothing: the event log grows while the register it is
  checked against never does.
\<close>

lemma tdx_extend_silently_ignored:
  assumes "tp_extend_available P" and "\<not> tp_dcap_ioctls P"
  shows "tdx_extend_runtime_measurement P d pcr hw = (Inr (), hw)"
  using assms by (simp add: tdx_extend_eq)

lemma tdx_extend_silently_ignored_witness:
  "tdx_extend_runtime_measurement (demo_tdx\<lparr>tp_dcap_ioctls := False\<rparr>) ''digest'' 17 (\<lambda>_. []) = (Inr (), \<lambda>_. [])"
  by (rule tdx_extend_silently_ignored) (simp_all add: demo_tdx_def)

text \<open>
  On the Azure vTPM the range check of the register index is done after a cast to eight bits: an
  out-of-range index is not refused but extends the PCR that it is congruent to.
\<close>

lemma az_register_index_truncated:
  assumes "length digest = 32" and "i \<le> 23" and "256 * k + i < 2 ^ 64"
  shows "az_extend_runtime_measurement vtpm_extend digest (word_of_nat (256 * k + i)) hw = vtpm_extend i digest hw"
proof -
  have "unat (ucast (word_of_nat n :: 64 word) :: 8 word) = n mod 256" if "n < 2 ^ 64" for n
    using that by (simp add: unsigned_ucast_eq unsigned_of_nat take_bit_eq_mod)
  from this [OF assms(3)]
  have "unat (ucast (word_of_nat (256 * k + i) :: 64 word) :: 8 word) = (256 * k + i) mod 256" .
  also have "\<dots> = i" using assms(2) by simp
  finally show ?thesis using assms by (simp add: az_extend_runtime_measurement_def az_extend_pcr_def)
qed

lemma az_register_index_truncated_witness:
  "az_extend_runtime_measurement (\<lambda>p d hw. (Inr (), p # hw)) (replicate 32 (CHR ''d'')) 264 [] = (Inr (), [8])"
  using az_register_index_truncated [of "replicate 32 (CHR ''d'')" 8 1 "\<lambda>p d hw. (Inr (), p # hw)" "[]"] by simp

end
