(* ===== verification/Eventlog.thy ===== *)
theory Eventlog
  imports Runtime_Measurement
begin

text \<open>
  \<open>attestation-agent/attestation-agent/src/eventlog\<close>, with the hash names of \<open>deps/crypto\<close>: the event
  log of the attestation agent. Every runtime event is first appended to a file and then extended
  into a measurement register, and at start-up an existing log is compared with the register. The
  hash functions are a parameter \<open>H\<close>, the disk is the record \<open>disk\<close> and the register the \<open>attester\<close>
  of the preceding theory; the world is the log file and the hardware.
\<close>

section \<open>Hash algorithms\<close>

datatype hash_alg = HSha256 | HSha384 | HSha512

fun hash_alg_str :: "hash_alg \<Rightarrow> string" where
  "hash_alg_str HSha256 = ''sha256''"
| "hash_alg_str HSha384 = ''sha384''"
| "hash_alg_str HSha512 = ''sha512''"

fun digest_len :: "hash_alg \<Rightarrow> nat" where
  "digest_len HSha256 = 32"
| "digest_len HSha384 = 48"
| "digest_len HSha512 = 64"

definition to_lower :: "char \<Rightarrow> char" where
  "to_lower c = (let n = (of_char c :: nat) in if 65 \<le> n \<and> n \<le> 90 then char_of (n + 32) else c)"

text \<open>
  Only ASCII letters matter for the comparison: no other code point has a lower case form among the
  letters of the three names.
\<close>

definition hash_alg_from_str :: "string \<Rightarrow> hash_alg option" where
  "hash_alg_from_str s =
     (let cleaned = map to_lower (filter (\<lambda>c. c \<noteq> CHR ''-'') s)
      in if cleaned = ''sha256'' then Some HSha256
         else if cleaned = ''sha384'' then Some HSha384
         else if cleaned = ''sha512'' then Some HSha512
         else None)"

type_synonym hash_fn = "hash_alg \<Rightarrow> bytes \<Rightarrow> bytes"

section \<open>Text\<close>

definition newline :: char where "newline = CHR 0x0A"

definition strip_cr :: "string \<Rightarrow> string" where
  "strip_cr s = (if s \<noteq> [] \<and> last s = CHR 0x0D then butlast s else s)"

text \<open>\<open>str::lines\<close>, \<open>split_ascii_whitespace\<close> and \<open>trim_end\<close>.\<close>

definition str_lines :: "string \<Rightarrow> string list" where
  "str_lines s =
     (let ps = split_on newline s
      in map strip_cr (butlast ps) @ (if last ps = [] then [] else [last ps]))"

definition is_ascii_ws :: "char \<Rightarrow> bool" where
  "is_ascii_ws c \<longleftrightarrow> c \<in> {CHR '' '', CHR 0x09, CHR 0x0A, CHR 0x0C, CHR 0x0D}"

definition split_ascii_ws :: "string \<Rightarrow> string list" where
  "split_ascii_ws s =
     filter (\<lambda>p. p \<noteq> []) (split_on (CHR '' '') (map (\<lambda>c. if is_ascii_ws c then CHR '' '' else c) s))"

definition hex_digit :: "nat \<Rightarrow> char" where
  "hex_digit n = (if n < 10 then char_of (48 + n) else char_of (87 + n))"

definition hex_encode :: "bytes \<Rightarrow> string" where
  "hex_encode b = concat (map (\<lambda>c. [hex_digit (of_char c div 16), hex_digit (of_char c mod 16)]) b)"

definition hex_value :: "char \<Rightarrow> nat option" where
  "hex_value c =
     (let n = (of_char c :: nat)
      in if 48 \<le> n \<and> n \<le> 57 then Some (n - 48)
         else if 97 \<le> n \<and> n \<le> 102 then Some (n - 87)
         else if 65 \<le> n \<and> n \<le> 70 then Some (n - 55)
         else None)"

fun hex_decode_bytes :: "string \<Rightarrow> bytes option" where
  "hex_decode_bytes [] = Some []"
| "hex_decode_bytes [c] = None"
| "hex_decode_bytes (c # d # s) =
     (case (hex_value c, hex_value d, hex_decode_bytes s) of
        (Some x, Some y, Some r) \<Rightarrow> Some (char_of (16 * x + y) # r)
      | _ \<Rightarrow> None)"

definition zero_fill :: "nat \<Rightarrow> string \<Rightarrow> string" where
  "zero_fill w s = replicate (w - length s) (CHR ''0'') @ s"

section \<open>The log\<close>

datatype log_entry =
    Event string string string
  | Init hash_alg string

fun entry_str :: "log_entry \<Rightarrow> string" where
  "entry_str (Event domain operation content) = domain @ CHR '' '' # operation @ CHR '' '' # content"
| "entry_str (Init a v) = ''INIT '' @ hash_alg_str a @ CHR ''/'' # v"

datatype eventlog_error =
    ContentNewline
  | LogIo string
  | LogNotUtf8
  | LogEmpty
  | IllegalInit
  | InitKeyword
  | InitFormat
  | InitAlgorithm
  | InitState
  | Rtmr string
  | EventlogDisabled

definition content_try_from :: "string \<Rightarrow> (eventlog_error, string) result" where
  "content_try_from value = (if newline \<in> set value then Inl ContentNewline else Inr value)"

definition digest_with :: "hash_fn \<Rightarrow> hash_alg \<Rightarrow> log_entry \<Rightarrow> bytes" where
  "digest_with H a e = H a (entry_str e)"

record aa_eventlog =
  ae_hash_algorithm :: hash_alg
  ae_init_state :: bytes
  ae_events :: "string list"

definition aael_from_str :: "string \<Rightarrow> (eventlog_error, aa_eventlog) result" where
  "aael_from_str input =
     (case str_lines input of
        [] \<Rightarrow> Inl LogEmpty
      | initline # eventlines \<Rightarrow>
          (case split_ascii_ws initline of
             [key, item] \<Rightarrow>
               (if key \<noteq> ''INIT'' then Inl InitKeyword
                else and_then (ok_or InitFormat (split_once (CHR ''/'') item)) (\<lambda>(a, st).
                     and_then (ok_or InitAlgorithm (hash_alg_from_str a)) (\<lambda>hash_algorithm.
                     and_then (ok_or InitState (hex_decode_bytes st)) (\<lambda>init_state.
                     Inr \<lparr>ae_hash_algorithm = hash_algorithm, ae_init_state = init_state,
                          ae_events = map trim_end eventlines\<rparr>))))
           | _ \<Rightarrow> Inl IllegalInit))"

definition accumulate_hash :: "hash_fn \<Rightarrow> aa_eventlog \<Rightarrow> bytes" where
  "accumulate_hash H ael =
     (let D = H (ae_hash_algorithm ael);
          init_event = ''INIT '' @ hash_alg_str (ae_hash_algorithm ael) @ CHR ''/'' # hex_encode (ae_init_state ael);
          state = D (ae_init_state ael @ D init_event)
      in foldl (\<lambda>state event. D (state @ D event)) state (ae_events ael))"

definition integrity_check :: "hash_fn \<Rightarrow> aa_eventlog \<Rightarrow> bytes \<Rightarrow> bool" where
  "integrity_check H ael rtmr \<longleftrightarrow> rtmr = accumulate_hash H ael"

text \<open>A file handle is readable only or writable; writing appends.\<close>

datatype file_mode = ReadOnly | Writable

record event_log =
  el_mode :: file_mode
  el_alg :: hash_alg
  el_pcr :: nat

record disk =
  dk_create_dir :: "(string, unit) result"
  dk_read :: "string \<Rightarrow> (string, bytes) result"
  dk_open :: "(string, unit) result"
  dk_append :: "string \<Rightarrow> string \<Rightarrow> (string, unit) result \<times> string"

record 'hw ev_world =
  ew_file :: "string option"
  ew_hw :: 'hw

definition writer_append ::
  "disk \<Rightarrow> file_mode \<Rightarrow> log_entry \<Rightarrow> ('hw ev_world, eventlog_error, unit) stateful" where
  "writer_append D mode e w =
     (case (mode, ew_file w) of
        (Writable, Some content) \<Rightarrow>
          (case dk_append D content (entry_str e @ [newline]) of
             (r, content') \<Rightarrow> (map_err LogIo r, w\<lparr>ew_file := Some content'\<rparr>))
      | _ \<Rightarrow> (Inl (LogIo ''bad file descriptor''), w))"

definition extend_rtmr ::
  "'hw attester \<Rightarrow> bytes \<Rightarrow> nat \<Rightarrow> ('hw ev_world, eventlog_error, unit) stateful" where
  "extend_rtmr A digest pcr w =
     (case at_extend_runtime_measurement A digest pcr (ew_hw w) of
        (r, hw') \<Rightarrow> (map_err Rtmr r, w\<lparr>ew_hw := hw'\<rparr>))"

definition extend_entry ::
  "disk \<Rightarrow> 'hw attester \<Rightarrow> hash_fn \<Rightarrow> event_log \<Rightarrow> log_entry \<Rightarrow> nat \<Rightarrow> ('hw ev_world, eventlog_error, unit) stateful" where
  "extend_entry D A H el e pcr =
     st_then (writer_append D (el_mode el) e) (\<lambda>_. extend_rtmr A (digest_with H (el_alg el) e) pcr)"

definition extend_init_entry ::
  "disk \<Rightarrow> 'hw attester \<Rightarrow> hash_fn \<Rightarrow> event_log \<Rightarrow> ('hw ev_world, eventlog_error, unit) stateful" where
  "extend_init_entry D A H el w =
     (case at_get_runtime_measurement A (ew_hw w) (el_pcr el) of
        Inl e \<Rightarrow> (Inl (Rtmr e), w)
      | Inr pcr \<Rightarrow>
          extend_entry D A H el (Init (el_alg el) (zero_fill (digest_len (el_alg el)) (hex_encode pcr))) (el_pcr el) w)"

definition recovery_digest :: "hash_fn \<Rightarrow> hash_alg \<Rightarrow> aa_eventlog \<Rightarrow> bytes" where
  "recovery_digest H a ael =
     (case ae_events ael of
        [] \<Rightarrow> H a (''INIT '' @ hash_alg_str (ae_hash_algorithm ael) @ CHR ''/'' #
                 zero_fill (digest_len (ae_hash_algorithm ael)) (hex_encode (ae_init_state ael)))
      | event # _ \<Rightarrow> H a event)"

definition event_log_new ::
  "disk \<Rightarrow> 'hw attester \<Rightarrow> hash_fn \<Rightarrow> hash_alg \<Rightarrow> nat \<Rightarrow> ('hw ev_world, eventlog_error, event_log) stateful" where
  "event_log_new D A H a pcr w =
     (case dk_create_dir D of
        Inl e \<Rightarrow> (Inl (LogIo e), w)
      | Inr _ \<Rightarrow>
          (case ew_file w of
             None \<Rightarrow>
               (case dk_open D of
                  Inl e \<Rightarrow> (Inl (LogIo e), w)
                | Inr _ \<Rightarrow>
                    (let el = \<lparr>el_mode = Writable, el_alg = a, el_pcr = pcr\<rparr>
                     in st_then (extend_init_entry D A H el) (\<lambda>_. st_ok el) (w\<lparr>ew_file := Some []\<rparr>)))
           | Some file \<Rightarrow>
               (case and_then (map_err LogIo (dk_read D file)) (\<lambda>b. ok_or LogNotUtf8 (from_utf8 b)) of
                  Inl e \<Rightarrow> (Inl e, w)
                | Inr content \<Rightarrow>
                    (if content = [] then
                       (case dk_open D of
                          Inl e \<Rightarrow> (Inl (LogIo e), w)
                        | Inr _ \<Rightarrow>
                            (let el = \<lparr>el_mode = ReadOnly, el_alg = a, el_pcr = pcr\<rparr>
                             in st_then (extend_init_entry D A H el) (\<lambda>_. st_ok el) w))
                     else
                       (case aael_from_str content of
                          Inl e \<Rightarrow> (Inl e, w)
                        | Inr aael \<Rightarrow>
                            (case at_get_runtime_measurement A (ew_hw w) pcr of
                               Inl e \<Rightarrow> (Inl (Rtmr e), w)
                             | Inr rtmr \<Rightarrow>
                                 st_then
                                   (if integrity_check H aael rtmr then st_ok ()
                                    else extend_rtmr A (recovery_digest H a aael) pcr)
                                   (\<lambda>_ w'. case dk_open D of
                                       Inl e \<Rightarrow> (Inl (LogIo e), w')
                                     | Inr _ \<Rightarrow> (Inr \<lparr>el_mode = Writable, el_alg = a, el_pcr = pcr\<rparr>, w')) w))))))"

section \<open>The interface of the agent\<close>

record eventlog_config =
  ec_eventlog_algorithm :: hash_alg
  ec_init_pcr :: nat
  ec_enable_eventlog :: bool

definition eventlog_config_default :: eventlog_config where
  "eventlog_config_default =
     \<lparr>ec_eventlog_algorithm = HSha384, ec_init_pcr = 17, ec_enable_eventlog = False\<rparr>"

record agent =
  ag_eventlog_config :: eventlog_config
  ag_eventlog :: "event_log option"

definition agent_init ::
  "disk \<Rightarrow> 'hw attester \<Rightarrow> hash_fn \<Rightarrow> (agent \<times> 'hw ev_world, eventlog_error, unit) stateful" where
  "agent_init D A H s =
     (case s of (ag, w) \<Rightarrow>
        (if ec_enable_eventlog (ag_eventlog_config ag) then
           (case event_log_new D A H (ec_eventlog_algorithm (ag_eventlog_config ag))
                   (ec_init_pcr (ag_eventlog_config ag)) w of
              (Inl e, w') \<Rightarrow> (Inl e, (ag, w'))
            | (Inr el, w') \<Rightarrow> (Inr (), (ag\<lparr>ag_eventlog := Some el\<rparr>, w')))
         else (Inr (), (ag, w))))"

definition agent_extend_runtime_measurement ::
  "disk \<Rightarrow> 'hw attester \<Rightarrow> hash_fn \<Rightarrow> agent \<Rightarrow> string \<Rightarrow> string \<Rightarrow> string \<Rightarrow> nat option \<Rightarrow>
     ('hw ev_world, eventlog_error, unit) stateful" where
  "agent_extend_runtime_measurement D A H ag domain operation content register_index w =
     (case ag_eventlog ag of
        None \<Rightarrow> (Inl EventlogDisabled, w)
      | Some el \<Rightarrow>
          (let pcr = (case register_index of Some i \<Rightarrow> i | None \<Rightarrow> ec_init_pcr (ag_eventlog_config ag))
           in (case content_try_from content of
                 Inl e \<Rightarrow> (Inl e, w)
               | Inr c \<Rightarrow> extend_entry D A H el (Event domain operation c) pcr w)))"

section \<open>Writing and reading a log\<close>

definition log_text :: "string list \<Rightarrow> string" where
  "log_text ls = concat (map (\<lambda>l. l @ [newline]) ls)"

definition plain_line :: "string \<Rightarrow> bool" where
  "plain_line l \<longleftrightarrow> utf8_valid l \<and> newline \<notin> set l \<and> strip_cr l = l"

definition clean_line :: "string \<Rightarrow> bool" where
  "clean_line l \<longleftrightarrow> plain_line l \<and> trim_end l = l"

definition init_line :: "hash_alg \<Rightarrow> bytes \<Rightarrow> string" where
  "init_line a v = ''INIT '' @ hash_alg_str a @ CHR ''/'' # hex_encode v"

lemma log_text_snoc: "log_text (ls @ [l]) = log_text ls @ l @ [newline]"
  by (simp add: log_text_def)

lemma split_on_log_text: "\<forall>l\<in>set ls. newline \<notin> set l \<Longrightarrow> split_on newline (log_text ls) = ls @ [[]]"
  by (induction ls) (simp_all add: log_text_def split_on_append)

lemma str_lines_log_text: "\<forall>l\<in>set ls. plain_line l \<Longrightarrow> str_lines (log_text ls) = ls"
proof -
  assume *: "\<forall>l\<in>set ls. plain_line l"
  then have "split_on newline (log_text ls) = ls @ [[]]" by (intro split_on_log_text) (simp add: plain_line_def)
  moreover have "map strip_cr ls = ls" using * by (induction ls) (simp_all add: plain_line_def)
  ultimately show ?thesis by (simp add: str_lines_def Let_def)
qed

lemma hex_digit_value: "n < 16 \<Longrightarrow> hex_value (hex_digit n) = Some n"
  by (auto simp: hex_value_def hex_digit_def Let_def)

lemma nibbles: "(of_char c :: nat) div 16 < 16" "(of_char c :: nat) mod 16 < 16"
proof -
  have "(of_char c :: nat) < 256" by simp
  then show "(of_char c :: nat) div 16 < 16" by (simp add: less_mult_imp_div_less)
qed simp

lemma hex_decode_encode_bytes: "hex_decode_bytes (hex_encode b) = Some b"
proof (induction b)
  case (Cons c b)
  have "char_of (16 * (of_char c div 16) + of_char c mod 16 :: nat) = c" by simp
  with Cons show ?case by (simp add: hex_encode_def hex_digit_value nibbles)
qed (simp add: hex_encode_def)

lemma length_hex_encode: "length (hex_encode b) = 2 * length b"
  by (induction b) (simp_all add: hex_encode_def)

text \<open>Printable ASCII without the space: neither white space nor a line end.\<close>

definition word_char :: "char \<Rightarrow> bool" where
  "word_char c \<longleftrightarrow> 32 < (of_char c :: nat) \<and> (of_char c :: nat) < 127"

lemma word_char_no_ws: "word_char c \<Longrightarrow> \<not> is_ascii_ws c \<and> c \<noteq> newline \<and> c \<noteq> CHR 0x0D \<and> c \<noteq> CHR '' ''"
  by (auto simp: word_char_def is_ascii_ws_def newline_def)

lemma hex_digit_word: "n < 16 \<Longrightarrow> word_char (hex_digit n)"
  by (simp add: hex_digit_def word_char_def)

lemma hex_encode_word: "\<forall>c\<in>set (hex_encode b). word_char c"
  by (induction b) (auto simp: hex_encode_def nibbles hex_digit_word)

lemma init_item_word: "\<forall>c\<in>set (hash_alg_str a @ CHR ''/'' # hex_encode v). word_char c"
  using hex_encode_word [of v] by (cases a) (auto simp: word_char_def)

lemma init_line_parse:
  "split_ascii_ws (init_line a v) = [''INIT'', hash_alg_str a @ CHR ''/'' # hex_encode v]"
proof -
  let ?item = "hash_alg_str a @ CHR ''/'' # hex_encode v"
  have ws: "\<forall>c\<in>set ?item. \<not> is_ascii_ws c"
    using init_item_word [of a v] word_char_no_ws by blast
  then have "map (\<lambda>c. if is_ascii_ws c then CHR '' '' else c) ?item = ?item" by (intro map_idI) auto
  then have "map (\<lambda>c. if is_ascii_ws c then CHR '' '' else c) (init_line a v) = ''INIT'' @ CHR '' '' # ?item"
    by (simp add: init_line_def is_ascii_ws_def)
  moreover have "CHR '' '' \<notin> set ?item" using ws by (auto simp: is_ascii_ws_def)
  ultimately have "split_on (CHR '' '') (map (\<lambda>c. if is_ascii_ws c then CHR '' '' else c) (init_line a v)) = [''INIT'', ?item]"
    by (simp only: split_on_append split_on_free) (simp add: split_on_free)
  then show ?thesis by (simp add: split_ascii_ws_def)
qed

lemma hash_alg_from_str_str: "hash_alg_from_str (hash_alg_str a) = Some a"
  by (cases a) (simp_all add: hash_alg_from_str_def to_lower_def Let_def)

lemma hash_alg_str_no_slash: "CHR ''/'' \<notin> set (hash_alg_str a)"
  by (cases a) auto

lemma init_line_plain: "plain_line (init_line a v)"
proof -
  have c: "\<forall>c\<in>set (init_line a v). word_char c \<or> c = CHR '' ''"
    using init_item_word [of a v] by (auto simp: init_line_def word_char_def)
  then have "is_ascii_str (init_line a v)" by (auto simp: is_ascii_str_def word_char_def)
  moreover have "newline \<notin> set (init_line a v)" using c word_char_no_ws by (auto simp: newline_def)
  moreover have "CHR 0x0D \<notin> set (init_line a v)" using c word_char_no_ws by auto
  then have "strip_cr (init_line a v) = init_line a v"
    by (auto simp: strip_cr_def dest: last_in_set)
  ultimately show ?thesis by (simp add: plain_line_def utf8_valid_ascii)
qed

lemma aael_of_log:
  assumes "\<forall>l\<in>set evs. clean_line l"
  shows "aael_from_str (log_text (init_line a v # evs)) =
     Inr \<lparr>ae_hash_algorithm = a, ae_init_state = v, ae_events = evs\<rparr>"
proof -
  have "\<forall>l\<in>set (init_line a v # evs). plain_line l"
    using assms init_line_plain by (simp add: clean_line_def)
  then have lines: "str_lines (log_text (init_line a v # evs)) = init_line a v # evs" by (rule str_lines_log_text)
  have "map trim_end evs = evs" using assms by (induction evs) (simp_all add: clean_line_def)
  moreover have "split_once (CHR ''/'') (hash_alg_str a @ CHR ''/'' # hex_encode v) = Some (hash_alg_str a, hex_encode v)"
    by (simp add: split_once_Some_iff hash_alg_str_no_slash)
  ultimately show ?thesis
    by (simp add: aael_from_str_def lines init_line_parse hash_alg_from_str_str hex_decode_encode_bytes)
qed

lemma accumulate_hash_eq:
  "accumulate_hash H \<lparr>ae_hash_algorithm = a, ae_init_state = v, ae_events = evs\<rparr> =
     measure_all (H a) v (map (H a) (init_line a v # evs))"
proof -
  have "foldl (\<lambda>state event. D (state @ D event)) s es = foldl (\<lambda>s d. D (s @ d)) s (map D es)" for D s es
    by (induction es arbitrary: s) auto
  then show ?thesis by (simp add: accumulate_hash_def init_line_def Let_def measure_all_def)
qed

lemma byte_at_append: "i < length a \<Longrightarrow> byte_at (a @ b) i = byte_at a i"
  by (simp add: byte_at_def nth_append)

lemma byte_at_beyond: "\<not> i < length a \<Longrightarrow> \<not> cont_byte (byte_at a i)"
  by (simp add: byte_at_def cont_byte_def)

lemma utf8_step_ok_cases:
  assumes "fst (utf8_step s)"
  obtains (one) "byte_at s 0 < 128"
    | (two) "194 \<le> byte_at s 0" "byte_at s 0 \<le> 223" "cont_byte (byte_at s 1)"
    | (three) "224 \<le> byte_at s 0" "byte_at s 0 \<le> 239" "cont_byte (byte_at s 1)" "cont_byte (byte_at s 2)"
    | (four) "240 \<le> byte_at s 0" "byte_at s 0 \<le> 244" "cont_byte (byte_at s 1)" "cont_byte (byte_at s 2)"
        "cont_byte (byte_at s 3)"
  using assms unfolding utf8_step_def Let_def by (simp split: if_splits)

lemma utf8_step_append:
  assumes "a \<noteq> []" and "fst (utf8_step a)"
  shows "utf8_step (a @ b) = utf8_step a"
proof -
  have 0: "byte_at (a @ b) 0 = byte_at a 0" using assms(1) by (simp add: byte_at_append)
  have i: "cont_byte (byte_at a i) \<Longrightarrow> byte_at (a @ b) i = byte_at a i" for i
    using byte_at_beyond [of i a] byte_at_append [of i a b] by blast
  from assms(2) show ?thesis
    by (cases rule: utf8_step_ok_cases) (simp_all add: utf8_step_def Let_def 0 i)
qed

lemma utf8_step_length:
  assumes "a \<noteq> []" and "fst (utf8_step a)"
  shows "snd (utf8_step a) \<le> length a"
proof -
  have i: "cont_byte (byte_at a i) \<Longrightarrow> Suc i \<le> length a" for i using byte_at_beyond Suc_leI by blast
  have 0: "Suc 0 \<le> length a" using assms(1) by (cases a) simp_all
  from assms(2) show ?thesis
  proof (cases rule: utf8_step_ok_cases)
    case one
    with 0 show ?thesis by (simp add: utf8_step_def Let_def)
  next
    case two
    with i [of 1] show ?thesis by (simp add: utf8_step_def Let_def)
  next
    case three
    with i [of 2] show ?thesis by (simp add: utf8_step_def Let_def)
  next
    case four
    with i [of 3] show ?thesis by (simp add: utf8_step_def Let_def)
  qed
qed

lemma utf8_valid_append: "utf8_valid a \<Longrightarrow> utf8_valid b \<Longrightarrow> utf8_valid (a @ b)"
proof (induction a rule: utf8_valid.induct)
  case (1 a)
  show ?case
  proof (cases "a = []")
    case False
    with "1.prems"(1) have a: "fst (utf8_step a)" "utf8_valid (drop (snd (utf8_step a)) a)"
      by (simp_all add: utf8_valid.simps [of a])
    with False "1.IH" "1.prems"(2) have "utf8_valid (drop (snd (utf8_step a)) a @ b)" by blast
    moreover have "drop (snd (utf8_step a)) (a @ b) = drop (snd (utf8_step a)) a @ b"
      using utf8_step_length [OF False a(1)] by simp
    ultimately show ?thesis
      using False a(1) utf8_step_append [OF False a(1)] by (simp add: utf8_valid.simps [of "a @ b"])
  qed (use "1.prems" in simp)
qed

lemma utf8_valid_log_text: "\<forall>l\<in>set ls. utf8_valid l \<Longrightarrow> utf8_valid (log_text ls)"
proof (induction ls)
  case (Cons l ls)
  have "utf8_valid [newline]" by (simp add: utf8_valid_ascii is_ascii_str_def newline_def)
  with Cons show ?case by (simp add: log_text_def utf8_valid_append utf8_valid_append [of "[newline]", simplified])
qed (simp add: log_text_def)

section \<open>The log and the register\<close>

text \<open>
  The disk as far as the theorems need it: directories are created, files are read back and opened,
  and a write that reports success has appended its text.
\<close>

definition disk_reliable :: "disk \<Rightarrow> bool" where
  "disk_reliable D \<longleftrightarrow>
     dk_create_dir D = Inr () \<and> dk_open D = Inr () \<and> (\<forall>c. dk_read D c = Inr c) \<and>
     (\<forall>c t c'. dk_append D c t = (Inr (), c') \<longrightarrow> c' = c @ t)"

text \<open>An attester whose registers have the width of the hash that the log uses.\<close>

definition measuring :: "'hw attester \<Rightarrow> hash_fn \<Rightarrow> hash_alg \<Rightarrow> ('hw \<Rightarrow> bool) \<Rightarrow> bool" where
  "measuring A H a good \<longleftrightarrow>
     runtime_register (at_get_runtime_measurement A) (at_extend_runtime_measurement A) good (H a) (digest_len a) \<and>
     (\<forall>x. length (H a x) = digest_len a)"

text \<open>The file holds the \<open>INIT\<close> line and the events, and the register the chain of all of them.\<close>

definition chain :: "hash_fn \<Rightarrow> hash_alg \<Rightarrow> bytes \<Rightarrow> string list \<Rightarrow> bytes" where
  "chain H a v evs = measure_all (H a) v (map (H a) (init_line a v # evs))"

definition log_state ::
  "'hw attester \<Rightarrow> hash_fn \<Rightarrow> hash_alg \<Rightarrow> nat \<Rightarrow> bytes \<Rightarrow> string list \<Rightarrow> string list \<Rightarrow> 'hw ev_world \<Rightarrow> bool" where
  "log_state A H a pcr v evs measured w \<longleftrightarrow>
     ew_file w = Some (log_text (init_line a v # evs)) \<and>
     at_get_runtime_measurement A (ew_hw w) pcr = Inr (chain H a v measured)"

lemma accumulate_hash_chain:
  "accumulate_hash H \<lparr>ae_hash_algorithm = a, ae_init_state = v, ae_events = evs\<rparr> = chain H a v evs"
  by (simp only: accumulate_hash_eq chain_def)

lemma chain_snoc: "chain H a v (evs @ [e]) = H a (chain H a v evs @ H a e)"
  by (simp add: chain_def measure_all_append)

lemma extend_rtmr_ok:
  assumes "measuring A H a good" and "good (ew_hw w)"
    and "at_get_runtime_measurement A (ew_hw w) pcr = Inr v"
    and "extend_rtmr A (H a x) pcr w = (Inr (), w')"
  shows "good (ew_hw w')" and "at_get_runtime_measurement A (ew_hw w') pcr = Inr (H a (v @ H a x))"
    and "ew_file w' = ew_file w"
proof -
  from assms(4) obtain hw' where e: "at_extend_runtime_measurement A (H a x) pcr (ew_hw w) = (Inr (), hw')"
    and w': "w' = w\<lparr>ew_hw := hw'\<rparr>"
    by (auto simp: extend_rtmr_def result_iff split: prod.splits)
  have r: "runtime_register (at_get_runtime_measurement A) (at_extend_runtime_measurement A) good (H a) (digest_len a)"
    and l: "length (H a x) = digest_len a" using assms(1) by (auto simp: measuring_def)
  from runtime_register.extend_ok [OF r assms(2) l e] runtime_register.extend_get [OF r assms(2) l assms(3) e]
  show "good (ew_hw w')" "at_get_runtime_measurement A (ew_hw w') pcr = Inr (H a (v @ H a x))" "ew_file w' = ew_file w"
    by (simp_all add: w')
qed

lemma writer_append_ok:
  assumes "disk_reliable D" and "ew_file w = Some c" and "writer_append D Writable e w = (Inr (), w')"
  shows "w' = w\<lparr>ew_file := Some (c @ entry_str e @ [newline])\<rparr>"
  using assms by (auto simp: writer_append_def disk_reliable_def result_iff split: prod.splits)

lemma extend_entry_keeps:
  assumes "disk_reliable D" and "measuring A H a good" and "good (ew_hw w)"
    and "log_state A H a pcr v evs evs w" and "el_mode el = Writable" and "el_alg el = a"
    and "extend_entry D A H el e pcr w = (Inr (), w')"
  shows "good (ew_hw w') \<and> log_state A H a pcr v (evs @ [entry_str e]) (evs @ [entry_str e]) w'"
proof -
  from assms(5-7) obtain w1 where w: "writer_append D Writable e w = (Inr (), w1)"
    and x: "extend_rtmr A (H a (entry_str e)) pcr w1 = (Inr (), w')"
    by (auto simp: extend_entry_def digest_with_def result_iff)
  from assms(4) have "ew_file w = Some (log_text (init_line a v # evs))" by (simp add: log_state_def)
  from writer_append_ok [OF assms(1) this w]
  have w1: "w1 = w\<lparr>ew_file := Some (log_text (init_line a v # evs @ [entry_str e]))\<rparr>"
    using log_text_snoc [of "init_line a v # evs" "entry_str e"] by simp
  with assms(3,4) extend_rtmr_ok [OF assms(2) _ _ x, of "chain H a v evs"] show ?thesis
    by (simp add: log_state_def chain_snoc)
qed

lemma extend_entries_keep:
  assumes "disk_reliable D" and "measuring A H a good" and "el_mode el = Writable" and "el_alg el = a"
    and "good (ew_hw w)" and "log_state A H a pcr v evs evs w"
    and "st_for (\<lambda>e. extend_entry D A H el e pcr) es w = (Inr (), w')"
  shows "good (ew_hw w') \<and> log_state A H a pcr v (evs @ map entry_str es) (evs @ map entry_str es) w'"
  using assms(5-7)
proof (induction es arbitrary: w evs)
  case Nil
  then show ?case by simp
next
  case (Cons e es)
  then obtain w1 where e: "extend_entry D A H el e pcr w = (Inr (), w1)"
    and rest: "st_for (\<lambda>e. extend_entry D A H el e pcr) es w1 = (Inr (), w')"
    by (auto simp: result_iff)
  from extend_entry_keeps [OF assms(1,2) Cons.prems(1,2) assms(3,4) e] Cons.IH [OF _ _ rest, of "evs @ [entry_str e]"]
  show ?case by simp
qed

lemma zero_fill_hex: "length v = digest_len a \<Longrightarrow> zero_fill (digest_len a) (hex_encode v) = hex_encode v"
  by (simp add: zero_fill_def length_hex_encode)

lemma fresh_log:
  assumes "disk_reliable D" and "measuring A H a good" and "good (ew_hw w)" and "ew_file w = None"
    and "event_log_new D A H a pcr w = (Inr el, w')"
  shows "el = \<lparr>el_mode = Writable, el_alg = a, el_pcr = pcr\<rparr> \<and> good (ew_hw w') \<and>
    (\<exists>v. log_state A H a pcr v [] [] w')"
proof -
  let ?el = "\<lparr>el_mode = Writable, el_alg = a, el_pcr = pcr\<rparr>"
  let ?w = "w\<lparr>ew_file := Some []\<rparr>"
  have r: "runtime_register (at_get_runtime_measurement A) (at_extend_runtime_measurement A) good (H a) (digest_len a)"
    using assms(2) by (simp add: measuring_def)
  from runtime_register.get_ok [OF r assms(3)] obtain v where
    v: "at_get_runtime_measurement A (ew_hw w) pcr = Inr v" "length v = digest_len a" by blast
  have "entry_str (Init a (hex_encode v)) = init_line a v" by (simp add: init_line_def)
  with assms(1,4,5) v zero_fill_hex [OF v(2)] obtain w1 where
    ap: "writer_append D Writable (Init a (hex_encode v)) ?w = (Inr (), w1)"
    and ex: "extend_rtmr A (H a (init_line a v)) pcr w1 = (Inr (), w')" and el: "el = ?el"
    by (auto simp: event_log_new_def disk_reliable_def Let_def result_iff extend_init_entry_def extend_entry_def digest_with_def)
  from writer_append_ok [OF assms(1) _ ap] have w1: "w1 = w\<lparr>ew_file := Some (log_text [init_line a v])\<rparr>"
    by (simp add: log_text_def init_line_def)
  with extend_rtmr_ok [OF assms(2) _ _ ex, of v] assms(3) v show ?thesis
    by (auto simp: el log_state_def chain_def)
qed

lemma existing_log:
  assumes "disk_reliable D" and "\<forall>l\<in>set evs. clean_line l"
    and "ew_file w = Some (log_text (init_line a v # evs))"
    and "at_get_runtime_measurement A (ew_hw w) pcr = Inr reg"
  shows "event_log_new D A H a pcr w =
    st_then (if reg = chain H a v evs then st_ok ()
             else extend_rtmr A (recovery_digest H a \<lparr>ae_hash_algorithm = a, ae_init_state = v, ae_events = evs\<rparr>) pcr)
      (\<lambda>_. st_ok \<lparr>el_mode = Writable, el_alg = a, el_pcr = pcr\<rparr>) w"
proof -
  let ?t = "log_text (init_line a v # evs)"
  have "\<forall>l\<in>set (init_line a v # evs). utf8_valid l"
    using assms(2) init_line_plain by (simp add: clean_line_def plain_line_def)
  then have "utf8_valid ?t" by (rule utf8_valid_log_text)
  moreover have "?t \<noteq> []" by (simp add: log_text_def)
  ultimately show ?thesis
    using assms(1,3,4) aael_of_log [OF assms(2), of a v]
    by (simp add: event_log_new_def disk_reliable_def from_utf8_def integrity_check_def
        accumulate_hash_chain st_ok_def [abs_def])
qed


text \<open>A disk that never fails and a register bank whose hash keeps the most recent bytes.\<close>

definition demo_disk :: disk where
  "demo_disk = \<lparr>dk_create_dir = Inr (), dk_read = \<lambda>c. Inr c, dk_open = Inr (), dk_append = \<lambda>c t. (Inr (), c @ t)\<rparr>"

definition demo_hash :: hash_fn where
  "demo_hash a x = pad (digest_len a) (rev x)"

definition demo_attester :: "hash_alg \<Rightarrow> (nat \<Rightarrow> bytes) attester" where
  "demo_attester a =
     \<lparr>at_get_runtime_measurement = \<lambda>hw p. Inr (hw p),
      at_extend_runtime_measurement = \<lambda>d p hw. (Inr (), hw(p := demo_hash a (hw p @ d)))\<rparr>"

lemma demo_disk_reliable: "disk_reliable demo_disk"
  by (simp add: disk_reliable_def demo_disk_def)

lemma demo_measuring: "measuring (demo_attester a) demo_hash a (\<lambda>hw. \<forall>p. length (hw p) = digest_len a)"
proof -
  have "runtime_register (at_get_runtime_measurement (demo_attester a)) (at_extend_runtime_measurement (demo_attester a))
      (\<lambda>hw. \<forall>p. length (hw p) = digest_len a) (demo_hash a) (digest_len a)"
    by unfold_locales (auto simp: demo_attester_def demo_hash_def)
  then show ?thesis by (simp add: measuring_def demo_hash_def)
qed

lemma ascii_line_clean:
  assumes "\<forall>c\<in>set l. word_char c \<or> c = CHR '' ''" and "l \<noteq> []" and "word_char (last l)"
  shows "clean_line l"
proof -
  have asc: "is_ascii_str l" using assms(1) by (auto simp: is_ascii_str_def word_char_def)
  then have cp: "utf8_chars l = map (\<lambda>c. [c]) l" using utf8_chars_ascii_append [of l "[]"] by simp
  have nl: "newline \<notin> set l" "CHR 0x0D \<notin> set l" using assms(1) word_char_no_ws by (auto simp: newline_def)
  obtain xs x where l: "l = xs @ [x]" using assms(2) by (cases l rule: rev_cases) auto
  have "\<not> is_unicode_ws [x]" using assms(3) by (auto simp: l is_unicode_ws_def word_char_def)
  then have "trim_end l = l"
    using cp by (simp add: trim_end_def l rev_map)
  moreover have "strip_cr l = l" using nl(2) by (auto simp: strip_cr_def l)
  ultimately show ?thesis using asc nl(1) by (simp add: clean_line_def plain_line_def utf8_valid_ascii)
qed


section \<open>Interrupted updates\<close>

text \<open>
  Recovery of the first entry: if the agent stopped after it had written the \<open>INIT\<close> line or the
  first event to the file and before it extended the register, then the next start extends the
  register with the missing digest and the log is consistent again.
\<close>

lemma eventlog_recovers_first_entry:
  assumes disk: "disk_reliable D" and tee: "measuring A H a good" and good: "good (ew_hw w)"
    and width: "length v = digest_len a" and clean: "\<forall>l\<in>set evs. clean_line l"
    and logged: "ew_file w = Some (log_text (init_line a v # evs))"
    and reg: "at_get_runtime_measurement A (ew_hw w) pcr = Inr reg"
    and crash: "evs = [] \<and> reg = v \<or> (\<exists>e. evs = [e] \<and> reg = chain H a v [])"
    and new: "reg \<noteq> chain H a v evs" "event_log_new D A H a pcr w = (Inr el, w')"
  shows "log_state A H a pcr v evs evs w'"
proof -
  let ?ael = "\<lparr>ae_hash_algorithm = a, ae_init_state = v, ae_events = evs\<rparr>"
  from new existing_log [OF disk clean logged reg] have
    x: "extend_rtmr A (recovery_digest H a ?ael) pcr w = (Inr (), w')" by (auto simp: result_iff)
  from crash show ?thesis
  proof (elim disjE exE conjE)
    assume e: "evs = []" "reg = v"
    then have "recovery_digest H a ?ael = H a (init_line a v)"
      using zero_fill_hex [OF width] by (simp add: recovery_digest_def init_line_def)
    with x extend_rtmr_ok [OF tee good reg] e logged show ?thesis by (auto simp: log_state_def chain_def)
  next
    fix e
    assume e: "evs = [e]" "reg = chain H a v []"
    then have "recovery_digest H a ?ael = H a e" by (simp add: recovery_digest_def)
    with x extend_rtmr_ok [OF tee good reg] e logged show ?thesis by (auto simp: log_state_def chain_def)
  qed
qed

text \<open>
  Recovery of a later event is wrong: with earlier events in the log, the register is extended
  with the digest of the first event instead of the unfinished last one. Unless the two extensions
  collide, the log then fails its integrity check for good, and every further start extends the
  register again.
\<close>

lemma eventlog_recovery_uses_first_event:
  assumes disk: "disk_reliable D" and tee: "measuring A H a good" and good: "good (ew_hw w)"
    and clean: "\<forall>l\<in>set (e1 # evs @ [e]). clean_line l"
    and crash: "log_state A H a pcr v (e1 # evs @ [e]) (e1 # evs) w"
    and new: "chain H a v (e1 # evs) \<noteq> chain H a v (e1 # evs @ [e])" "event_log_new D A H a pcr w = (Inr el, w')"
  shows "\<exists>text ael rtmr. ew_file w' = Some text \<and> aael_from_str text = Inr ael \<and>
     at_get_runtime_measurement A (ew_hw w') pcr = Inr rtmr \<and>
     rtmr = H a (chain H a v (e1 # evs) @ H a e1) \<and>
     (integrity_check H ael rtmr \<longleftrightarrow>
        H a (chain H a v (e1 # evs) @ H a e1) = H a (chain H a v (e1 # evs) @ H a e))"
proof -
  let ?evs = "e1 # evs @ [e]"
  from crash have logged: "ew_file w = Some (log_text (init_line a v # ?evs))"
    and reg: "at_get_runtime_measurement A (ew_hw w) pcr = Inr (chain H a v (e1 # evs))" by (auto simp: log_state_def)
  from new existing_log [OF disk clean logged reg] have
    x: "extend_rtmr A (H a e1) pcr w = (Inr (), w')" by (auto simp: result_iff recovery_digest_def)
  note r = extend_rtmr_ok [OF tee good reg x]
  have "chain H a v ?evs = H a (chain H a v (e1 # evs) @ H a e)" using chain_snoc [of H a v "e1 # evs" e] by simp
  with r logged aael_of_log [OF clean, of a v] show ?thesis
    by (auto simp: integrity_check_def accumulate_hash_chain)
qed

text \<open>
  An empty log file blocks the agent: it is opened for reading only, the \<open>INIT\<close> entry cannot be
  written, and creating the event log fails on this and on every later start.
\<close>

lemma eventlog_empty_file_fails:
  assumes "ew_file w = Some []" and "\<forall>c. dk_read D c = Inr c"
  shows "\<exists>err w'. event_log_new D A H a pcr w = (Inl err, w') \<and> ew_file w' = Some []"
  using assms
  by (auto simp: event_log_new_def from_utf8_def Let_def extend_init_entry_def extend_entry_def writer_append_def
      st_then_def split: sum.splits)

lemma eventlog_empty_file_fails_witness:
  "\<exists>err w'. event_log_new demo_disk (demo_attester HSha384) demo_hash HSha384 17
     \<lparr>ew_file = Some [], ew_hw = \<lambda>_. replicate 48 (CHR 0x00)\<rparr> = (Inl err, w') \<and> ew_file w' = Some []"
  by (rule eventlog_empty_file_fails) (simp_all add: demo_disk_def)

lemma event_log_new_demo_ok:
  assumes "\<forall>l\<in>set evs. clean_line l" and "ew_file w = Some (log_text (init_line a v # evs))"
  shows "\<exists>w'. event_log_new demo_disk (demo_attester a) demo_hash a pcr w =
     (Inr \<lparr>el_mode = Writable, el_alg = a, el_pcr = pcr\<rparr>, w')"
proof -
  have "at_get_runtime_measurement (demo_attester a) (ew_hw w) pcr = Inr (ew_hw w pcr)" by (simp add: demo_attester_def)
  from existing_log [OF demo_disk_reliable assms this] show ?thesis
    by (simp add: st_then_def extend_rtmr_def demo_attester_def)
qed

lemma demo_hash_suffix: "length y = digest_len a \<Longrightarrow> demo_hash a (x @ y) = rev y"
  by (simp add: demo_hash_def pad_def)

lemma demo_hash_last: "demo_hash a (x @ y) = demo_hash a (x' @ y') \<Longrightarrow> length y = digest_len a \<Longrightarrow>
    length y' = digest_len a \<Longrightarrow> y = y'"
  by (simp add: demo_hash_def pad_def split: if_splits)

lemma demo_hash_event: "demo_hash HSha384 ''a b d'' \<noteq> demo_hash HSha384 ''a b c''"
  by (simp add: demo_hash_def pad_def)

lemma eventlog_recovers_first_entry_witness:
  "\<exists>el w'. event_log_new demo_disk (demo_attester HSha384) demo_hash HSha384 17
       \<lparr>ew_file = Some (log_text [init_line HSha384 (replicate 48 (CHR ''v''))]), ew_hw = \<lambda>_. replicate 48 (CHR ''v'')\<rparr> = (Inr el, w') \<and>
     log_state (demo_attester HSha384) demo_hash HSha384 17 (replicate 48 (CHR ''v'')) [] [] w'"
proof -
  let ?v = "replicate 48 (CHR ''v'')"
  let ?w = "\<lparr>ew_file = Some (log_text [init_line HSha384 ?v]), ew_hw = \<lambda>_. ?v\<rparr>"
  obtain w' where n: "event_log_new demo_disk (demo_attester HSha384) demo_hash HSha384 17 ?w =
      (Inr \<lparr>el_mode = Writable, el_alg = HSha384, el_pcr = 17\<rparr>, w')"
    using event_log_new_demo_ok [of "[]" ?w HSha384 ?v 17] by auto
  have ne: "?v \<noteq> chain demo_hash HSha384 ?v []"
  proof
    assume "?v = chain demo_hash HSha384 ?v []"
    also have "\<dots> = rev (demo_hash HSha384 (init_line HSha384 ?v))"
      by (simp add: chain_def demo_hash_suffix demo_hash_def [of _ "init_line _ _"])
    also have "init_line HSha384 ?v = (''INIT sha384/'' @ take 48 (hex_encode ?v)) @ drop 48 (hex_encode ?v)"
      by (simp add: init_line_def)
    also have "demo_hash HSha384 \<dots> = rev (drop 48 (hex_encode ?v))"
      by (rule demo_hash_suffix) (simp add: length_hex_encode)
    finally have "?v = drop 48 (hex_encode ?v)" by simp
    then have "set ?v \<subseteq> set (hex_encode ?v)" by (metis set_drop_subset)
    then have "CHR ''v'' \<in> set (hex_encode ?v)" by auto
    then show False by (simp add: hex_encode_def hex_digit_def char_of_def)
  qed
  have "log_state (demo_attester HSha384) demo_hash HSha384 17 ?v [] [] w'"
    by (rule eventlog_recovers_first_entry [OF demo_disk_reliable demo_measuring _ _ _ _ _ _ ne n])
       (simp_all add: demo_attester_def)
  with n show ?thesis by blast
qed

lemma eventlog_recovery_uses_first_event_witness:
  "\<exists>el w' text ael rtmr. event_log_new demo_disk (demo_attester HSha384) demo_hash HSha384 17
       \<lparr>ew_file = Some (log_text [init_line HSha384 (replicate 48 (CHR ''v'')), ''a b c'', ''a b d'']),
        ew_hw = \<lambda>_. chain demo_hash HSha384 (replicate 48 (CHR ''v'')) [''a b c'']\<rparr> = (Inr el, w') \<and>
     ew_file w' = Some text \<and> aael_from_str text = Inr ael \<and>
     at_get_runtime_measurement (demo_attester HSha384) (ew_hw w') 17 = Inr rtmr \<and> \<not> integrity_check demo_hash ael rtmr"
proof -
  let ?v = "replicate 48 (CHR ''v'')"
  let ?c = "chain demo_hash HSha384 ?v [''a b c'']"
  let ?w = "\<lparr>ew_file = Some (log_text [init_line HSha384 ?v, ''a b c'', ''a b d'']), ew_hw = \<lambda>_. ?c\<rparr>"
  have cl: "\<forall>l\<in>set (''a b c'' # [] @ [''a b d'']). clean_line l"
    by (simp add: ascii_line_clean word_char_def)
  obtain w' where n: "event_log_new demo_disk (demo_attester HSha384) demo_hash HSha384 17 ?w =
      (Inr \<lparr>el_mode = Writable, el_alg = HSha384, el_pcr = 17\<rparr>, w')"
    using event_log_new_demo_ok [of "[''a b c'', ''a b d'']" ?w HSha384 ?v 17] cl by auto
  have len: "length (demo_hash HSha384 x) = 48" for x by (simp add: demo_hash_def)
  have c: "?c = demo_hash HSha384 (chain demo_hash HSha384 ?v [] @ demo_hash HSha384 ''a b c'')"
    by (simp add: chain_def)
  have ne: "?c \<noteq> chain demo_hash HSha384 ?v (''a b c'' # [] @ [''a b d''])"
  proof
    assume "?c = chain demo_hash HSha384 ?v (''a b c'' # [] @ [''a b d''])"
    also have "\<dots> = demo_hash HSha384 (?c @ demo_hash HSha384 ''a b d'')"
      using chain_snoc [of demo_hash HSha384 ?v "[''a b c'']" "''a b d''"] by simp
    finally have "demo_hash HSha384 ''a b c'' = demo_hash HSha384 ''a b d''"
      unfolding c using demo_hash_last len by (metis digest_len.simps(2))
    with demo_hash_event show False by simp
  qed
  have s: "log_state (demo_attester HSha384) demo_hash HSha384 17 ?v (''a b c'' # [] @ [''a b d'']) [''a b c''] ?w"
    by (simp add: log_state_def demo_attester_def)
  have g: "\<forall>p. length (ew_hw ?w p) = digest_len HSha384" by (simp add: c len)
  have "demo_hash HSha384 (?c @ demo_hash HSha384 ''a b c'') \<noteq> demo_hash HSha384 (?c @ demo_hash HSha384 ''a b d'')"
    using demo_hash_last len demo_hash_event by (metis digest_len.simps(2))
  with eventlog_recovery_uses_first_event [OF demo_disk_reliable demo_measuring g cl s ne n] n show ?thesis by blast
qed

text \<open>
  Log injection: only the content of an event is checked for line ends. A domain with a line end
  is recorded as two events that were never measured, while the register holds the digest of the
  whole; a verifier replaying the log sees events the agent was not asked to record.
\<close>

lemma eventlog_domain_injection:
  assumes disk: "disk_reliable D" and tee: "measuring A H a good" and good: "good (ew_hw w)"
    and st: "log_state A H a pcr v evs evs w" and clean: "\<forall>l\<in>set (evs @ [d1, d2 @ CHR '' '' # oper @ CHR '' '' # content]). clean_line l"
    and el: "ag_eventlog ag = Some \<lparr>el_mode = Writable, el_alg = a, el_pcr = p\<rparr>"
    and ext: "agent_extend_runtime_measurement D A H ag (d1 @ newline # d2) oper content (Some pcr) w = (Inr (), w')"
  shows "\<exists>text ael. ew_file w' = Some text \<and> aael_from_str text = Inr ael \<and>
     ae_events ael = evs @ [d1, d2 @ CHR '' '' # oper @ CHR '' '' # content] \<and>
     at_get_runtime_measurement A (ew_hw w') pcr =
       Inr (chain H a v (evs @ [d1 @ newline # d2 @ CHR '' '' # oper @ CHR '' '' # content]))"
proof -
  let ?e = "Event (d1 @ newline # d2) oper content"
  let ?l = "d2 @ CHR '' '' # oper @ CHR '' '' # content"
  from el ext have "extend_entry D A H \<lparr>el_mode = Writable, el_alg = a, el_pcr = p\<rparr> ?e pcr w = (Inr (), w')"
    by (auto simp: agent_extend_runtime_measurement_def Let_def content_try_from_def split: if_splits)
  from extend_entry_keeps [OF disk tee good st _ _ this]
  have s: "log_state A H a pcr v (evs @ [entry_str ?e]) (evs @ [entry_str ?e]) w'" by simp
  have "log_text (init_line a v # evs @ [entry_str ?e]) = log_text (init_line a v # evs @ [d1, ?l])"
    by (simp add: log_text_def)
  with s aael_of_log [OF clean, of a v] show ?thesis by (auto simp: log_state_def)
qed

lemma eventlog_domain_injection_witness:
  "\<exists>w' text ael. agent_extend_runtime_measurement demo_disk (demo_attester HSha384) demo_hash
       \<lparr>ag_eventlog_config = eventlog_config_default,
        ag_eventlog = Some \<lparr>el_mode = Writable, el_alg = HSha384, el_pcr = 17\<rparr>\<rparr>
       (''x y z'' @ newline # ''a'') ''b'' ''c'' (Some 17)
       \<lparr>ew_file = Some (log_text [init_line HSha384 (replicate 48 (CHR ''v''))]),
        ew_hw = \<lambda>_. chain demo_hash HSha384 (replicate 48 (CHR ''v'')) []\<rparr> = (Inr (), w') \<and>
     ew_file w' = Some text \<and> aael_from_str text = Inr ael \<and> ae_events ael = [''x y z'', ''a b c'']"
proof -
  let ?v = "replicate 48 (CHR ''v'')"
  let ?w = "\<lparr>ew_file = Some (log_text [init_line HSha384 ?v]), ew_hw = \<lambda>_. chain demo_hash HSha384 ?v []\<rparr>"
  let ?ag = "\<lparr>ag_eventlog_config = eventlog_config_default,
        ag_eventlog = Some \<lparr>el_mode = Writable, el_alg = HSha384, el_pcr = 17\<rparr>\<rparr>"
  let ?A = "demo_attester HSha384"
  obtain w' where x: "agent_extend_runtime_measurement demo_disk ?A demo_hash ?ag (''x y z'' @ newline # ''a'') ''b'' ''c'' (Some 17) ?w =
      (Inr (), w')"
    by (simp add: agent_extend_runtime_measurement_def Let_def content_try_from_def newline_def extend_entry_def
        writer_append_def extend_rtmr_def demo_disk_def demo_attester_def st_then_def)
  have g: "\<forall>p. length (ew_hw ?w p) = digest_len HSha384" by (simp add: chain_def demo_hash_def)
  have s: "log_state ?A demo_hash HSha384 17 ?v [] [] ?w" by (simp add: log_state_def demo_attester_def)
  have c: "\<forall>l\<in>set ([] @ [''x y z'', ''a'' @ CHR '' '' # ''b'' @ CHR '' '' # ''c'']). clean_line l"
    by (simp add: ascii_line_clean word_char_def)
  from eventlog_domain_injection [OF demo_disk_reliable demo_measuring g s c _ x] x show ?thesis by auto
qed

end
