(* ===== verification/Guest_Crypto.thy ===== *)
theory Guest_Crypto
  imports Eventlog
begin

text \<open>
  \<open>attestation-agent/deps/crypto\<close>: symmetric encryption, RSA and EC key pairs, each with two back
  ends that are chosen at compile time, \<open>native\<close> (OpenSSL) and \<open>rust\<close> (pure Rust crates). What the
  back ends call in OpenSSL and in the Rust crates is collected in the records \<open>openssl\<close> and
  \<open>rust_crates\<close>; a panic of the code is the error \<open>CryptoPanic\<close>.
\<close>

section \<open>Vectors\<close>

text \<open>\<open>BigNum::to_vec\<close>: the shortest big-endian form.\<close>

fun bignum_to_vec :: "nat \<Rightarrow> bytes" where
  "bignum_to_vec n = (if n = 0 then [] else bignum_to_vec (n div 256) @ [char_of (n mod 256)])"

declare bignum_to_vec.simps [simp del]

definition vec_resize :: "nat \<Rightarrow> 'a \<Rightarrow> 'a list \<Rightarrow> 'a list" where
  "vec_resize k v xs = take k xs @ replicate (k - length xs) v"

section \<open>Symmetric encryption\<close>

datatype crypto_error =
    CryptoLib string
  | IllegalCiphertext
  | NotAead string
  | InvalidCoordinate
  | InvalidPoint
  | KdfFailed
  | UnwrapFailed
  | CryptoPanic string

datatype wrap_type = Aes256Gcm | Aes256Ctr

fun wrap_type_str :: "wrap_type \<Rightarrow> string" where
  "wrap_type_str Aes256Gcm = ''A256GCM''"
| "wrap_type_str Aes256Ctr = ''A256CTR''"

definition AES_GCM_256_KEY_BITS :: nat where "AES_GCM_256_KEY_BITS = 256"
definition TAG_LENGTH :: nat where "TAG_LENGTH = 16"

datatype padding_mode = OAEP | PKCS1v15

fun padding_mode_str :: "padding_mode \<Rightarrow> string" where
  "padding_mode_str OAEP = ''RSA-OAEP-256''"
| "padding_mode_str PKCS1v15 = ''RSA1_5''"

datatype key_wrap_algorithm = EcdhEsA256Kw

fun key_wrap_algorithm_str :: "key_wrap_algorithm \<Rightarrow> string" where
  "key_wrap_algorithm_str EcdhEsA256Kw = ''ECDH-ES+A256KW''"

datatype curve = P256

fun curve_str :: "curve \<Rightarrow> string" where
  "curve_str P256 = ''P-256''"

text \<open>
  The calls into OpenSSL: authenticated and counter mode encryption (arguments key, iv, additional
  data, data), RSA decryption by padding, a point from its affine coordinates, the shared secret of
  a key and a point, the coordinates of a key's public point, AES key unwrap and SHA-256.
\<close>

datatype ossl_padding = PKCS1_OAEP | PKCS1

record ('sk, 'pt, 'rk) openssl =
  ossl_encrypt_aead :: "bytes \<Rightarrow> bytes \<Rightarrow> bytes \<Rightarrow> bytes \<Rightarrow> (string, bytes \<times> bytes) result"
  ossl_decrypt_aead :: "bytes \<Rightarrow> bytes \<Rightarrow> bytes \<Rightarrow> bytes \<Rightarrow> bytes \<Rightarrow> (string, bytes) result"
  ossl_ctr :: "bytes \<Rightarrow> bytes \<Rightarrow> bytes \<Rightarrow> (string, bytes) result"
  ossl_sha256 :: "bytes \<Rightarrow> bytes"
  ossl_point :: "nat \<Rightarrow> nat \<Rightarrow> 'pt option"
  ossl_derive :: "'sk \<Rightarrow> 'pt \<Rightarrow> (string, bytes) result"
  ossl_public :: "'sk \<Rightarrow> nat \<times> nat"
  ossl_unwrap_key :: "bytes \<Rightarrow> bytes \<Rightarrow> bytes option"
  ossl_rsa_decrypt :: "'rk \<Rightarrow> ossl_padding \<Rightarrow> bytes \<Rightarrow> (string, bytes) result"

text \<open>
  The calls into the crates \<open>aes_gcm\<close>, \<open>ctr\<close>, \<open>p256\<close>, \<open>concat_kdf\<close>, \<open>aes_kw\<close> and \<open>rsa\<close>. The conversions of a
  slice into a fixed-size array that these crates do panic for a wrong length; they are written out
  in the operations below.
\<close>

datatype rc_padding = Oaep_Sha256 | Pkcs1v15Encrypt

record ('sk, 'pt, 'rk) rust_crates =
  rc_encrypt_detached :: "bytes \<Rightarrow> bytes \<Rightarrow> bytes \<Rightarrow> bytes \<Rightarrow> (bytes \<times> bytes) option"
  rc_decrypt_detached :: "bytes \<Rightarrow> bytes \<Rightarrow> bytes \<Rightarrow> bytes \<Rightarrow> bytes \<Rightarrow> bytes option"
  rc_encrypt :: "bytes \<Rightarrow> bytes \<Rightarrow> bytes \<Rightarrow> bytes option"
  rc_decrypt :: "bytes \<Rightarrow> bytes \<Rightarrow> bytes \<Rightarrow> bytes option"
  rc_keystream :: "bytes \<Rightarrow> bytes \<Rightarrow> bytes \<Rightarrow> bytes"
  rc_point :: "bytes \<Rightarrow> bytes \<Rightarrow> 'pt option"
  rc_diffie_hellman :: "'sk \<Rightarrow> 'pt \<Rightarrow> bytes"
  rc_public :: "'sk \<Rightarrow> bytes \<times> bytes"
  rc_derive_key :: "bytes \<Rightarrow> bytes \<Rightarrow> nat \<Rightarrow> bytes option"
  rc_kek_unwrap :: "bytes \<Rightarrow> bytes \<Rightarrow> bytes option"
  rc_rsa_decrypt :: "'rk \<Rightarrow> rc_padding \<Rightarrow> bytes \<Rightarrow> (string, bytes) result"

record aead_cipher =
  ac_tag :: bytes
  ac_ciphertext :: bytes

subsection \<open>OpenSSL\<close>

definition native_gcm_encrypt_detached ::
  "('sk, 'pt, 'rk) openssl \<Rightarrow> bytes \<Rightarrow> bytes \<Rightarrow> bytes \<Rightarrow> bytes \<Rightarrow> (crypto_error, aead_cipher) result" where
  "native_gcm_encrypt_detached S key data iv aad =
     and_then (map_err CryptoLib (ossl_encrypt_aead S key iv aad data)) (\<lambda>(ciphertext, tag).
      Inr \<lparr>ac_tag = tag, ac_ciphertext = ciphertext\<rparr>)"

definition native_gcm_decrypt_detached ::
  "('sk, 'pt, 'rk) openssl \<Rightarrow> bytes \<Rightarrow> bytes \<Rightarrow> bytes \<Rightarrow> bytes \<Rightarrow> bytes \<Rightarrow> (crypto_error, bytes) result" where
  "native_gcm_decrypt_detached S key encrypted_data iv aad tag =
     map_err CryptoLib (ossl_decrypt_aead S key iv aad encrypted_data tag)"

definition native_gcm_decrypt ::
  "('sk, 'pt, 'rk) openssl \<Rightarrow> bytes \<Rightarrow> bytes \<Rightarrow> bytes \<Rightarrow> (crypto_error, bytes) result" where
  "native_gcm_decrypt S key encrypted_data iv =
     (if length encrypted_data < TAG_LENGTH then Inl IllegalCiphertext
      else let n = length encrypted_data - TAG_LENGTH
           in map_err CryptoLib
                (ossl_decrypt_aead S key iv [] (take n encrypted_data) (drop n encrypted_data)))"

definition native_gcm_encrypt ::
  "('sk, 'pt, 'rk) openssl \<Rightarrow> bytes \<Rightarrow> bytes \<Rightarrow> bytes \<Rightarrow> (crypto_error, bytes) result" where
  "native_gcm_encrypt S key data iv =
     and_then (map_err CryptoLib (ossl_encrypt_aead S key iv [] data)) (\<lambda>(ciphertext, tag).
      Inr (ciphertext @ tag))"

definition native_ctr_decrypt ::
  "('sk, 'pt, 'rk) openssl \<Rightarrow> bytes \<Rightarrow> bytes \<Rightarrow> bytes \<Rightarrow> (crypto_error, bytes) result" where
  "native_ctr_decrypt S key encrypted_data iv = map_err CryptoLib (ossl_ctr S key iv encrypted_data)"

definition native_ctr_encrypt ::
  "('sk, 'pt, 'rk) openssl \<Rightarrow> bytes \<Rightarrow> bytes \<Rightarrow> bytes \<Rightarrow> (crypto_error, bytes) result" where
  "native_ctr_encrypt S key data iv = map_err CryptoLib (ossl_ctr S key iv data)"

subsection \<open>Rust crates\<close>

definition array_from_slice :: "nat \<Rightarrow> bytes \<Rightarrow> (crypto_error, bytes) result" where
  "array_from_slice k b = (if length b = k then Inr b else Inl (CryptoPanic ''slice length''))"

definition rust_gcm_encrypt_detached ::
  "('sk, 'pt, 'rk) rust_crates \<Rightarrow> bytes \<Rightarrow> bytes \<Rightarrow> bytes \<Rightarrow> bytes \<Rightarrow> (crypto_error, aead_cipher) result" where
  "rust_gcm_encrypt_detached R key data iv aad =
     and_then (array_from_slice 32 key) (\<lambda>encrypting_key.
     and_then (array_from_slice 12 iv) (\<lambda>nonce.
     and_then (ok_or (CryptoLib ''encrypt'') (rc_encrypt_detached R encrypting_key nonce aad data))
       (\<lambda>(ciphertext, tag). Inr \<lparr>ac_tag = tag, ac_ciphertext = ciphertext\<rparr>)))"

definition rust_gcm_decrypt_detached ::
  "('sk, 'pt, 'rk) rust_crates \<Rightarrow> bytes \<Rightarrow> bytes \<Rightarrow> bytes \<Rightarrow> bytes \<Rightarrow> bytes \<Rightarrow> (crypto_error, bytes) result" where
  "rust_gcm_decrypt_detached R key encrypted_data iv aad tag =
     and_then (array_from_slice 32 key) (\<lambda>decrypting_key.
     and_then (array_from_slice 12 iv) (\<lambda>nonce.
     and_then (array_from_slice 16 tag) (\<lambda>tag.
      ok_or (CryptoLib ''decrypt'') (rc_decrypt_detached R decrypting_key nonce aad encrypted_data tag))))"

definition rust_gcm_decrypt ::
  "('sk, 'pt, 'rk) rust_crates \<Rightarrow> bytes \<Rightarrow> bytes \<Rightarrow> bytes \<Rightarrow> (crypto_error, bytes) result" where
  "rust_gcm_decrypt R key encrypted_data iv =
     and_then (array_from_slice 32 key) (\<lambda>decrypting_key.
     and_then (array_from_slice 12 iv) (\<lambda>nonce.
      ok_or (CryptoLib ''decrypt'') (rc_decrypt R decrypting_key nonce encrypted_data)))"

definition rust_gcm_encrypt ::
  "('sk, 'pt, 'rk) rust_crates \<Rightarrow> bytes \<Rightarrow> bytes \<Rightarrow> bytes \<Rightarrow> (crypto_error, bytes) result" where
  "rust_gcm_encrypt R key data iv =
     and_then (array_from_slice 32 key) (\<lambda>encrypting_key.
     and_then (array_from_slice 12 iv) (\<lambda>nonce.
      ok_or (CryptoLib ''encrypt'') (rc_encrypt R encrypting_key nonce data)))"

definition rust_ctr_decrypt ::
  "('sk, 'pt, 'rk) rust_crates \<Rightarrow> bytes \<Rightarrow> bytes \<Rightarrow> bytes \<Rightarrow> (crypto_error, bytes) result" where
  "rust_ctr_decrypt R key encrypted_data iv =
     and_then (array_from_slice 32 key) (\<lambda>key.
     and_then (array_from_slice 16 iv) (\<lambda>iv. Inr (rc_keystream R key iv encrypted_data)))"

definition rust_ctr_encrypt ::
  "('sk, 'pt, 'rk) rust_crates \<Rightarrow> bytes \<Rightarrow> bytes \<Rightarrow> bytes \<Rightarrow> (crypto_error, bytes) result" where
  "rust_ctr_encrypt R key data iv =
     and_then (array_from_slice 32 key) (\<lambda>key.
     and_then (array_from_slice 16 iv) (\<lambda>iv. Inr (rc_keystream R key iv data)))"

subsection \<open>The crate's interface\<close>

text \<open>The back end that the features of the crate select.\<close>

datatype ('sk, 'pt, 'rk) backend =
    Native "('sk, 'pt, 'rk) openssl"
  | Rust "('sk, 'pt, 'rk) rust_crates"

fun crypto_decrypt ::
  "('sk, 'pt, 'rk) backend \<Rightarrow> bytes \<Rightarrow> bytes \<Rightarrow> bytes \<Rightarrow> wrap_type \<Rightarrow> (crypto_error, bytes) result" where
  "crypto_decrypt (Native S) key ciphertext iv Aes256Gcm = native_gcm_decrypt S key ciphertext iv"
| "crypto_decrypt (Native S) key ciphertext iv Aes256Ctr = native_ctr_decrypt S key ciphertext iv"
| "crypto_decrypt (Rust R) key ciphertext iv Aes256Gcm = rust_gcm_decrypt R key ciphertext iv"
| "crypto_decrypt (Rust R) key ciphertext iv Aes256Ctr = rust_ctr_decrypt R key ciphertext iv"

fun crypto_encrypt ::
  "('sk, 'pt, 'rk) backend \<Rightarrow> bytes \<Rightarrow> bytes \<Rightarrow> bytes \<Rightarrow> wrap_type \<Rightarrow> (crypto_error, bytes) result" where
  "crypto_encrypt (Native S) key plaintext iv Aes256Gcm = native_gcm_encrypt S key plaintext iv"
| "crypto_encrypt (Native S) key plaintext iv Aes256Ctr = native_ctr_encrypt S key plaintext iv"
| "crypto_encrypt (Rust R) key plaintext iv Aes256Gcm = rust_gcm_encrypt R key plaintext iv"
| "crypto_encrypt (Rust R) key plaintext iv Aes256Ctr = rust_ctr_encrypt R key plaintext iv"

fun gcm_decrypt_detached ::
  "('sk, 'pt, 'rk) backend \<Rightarrow> bytes \<Rightarrow> bytes \<Rightarrow> bytes \<Rightarrow> bytes \<Rightarrow> bytes \<Rightarrow> (crypto_error, bytes) result" where
  "gcm_decrypt_detached (Native S) = native_gcm_decrypt_detached S"
| "gcm_decrypt_detached (Rust R) = rust_gcm_decrypt_detached R"

fun gcm_encrypt_detached ::
  "('sk, 'pt, 'rk) backend \<Rightarrow> bytes \<Rightarrow> bytes \<Rightarrow> bytes \<Rightarrow> bytes \<Rightarrow> (crypto_error, aead_cipher) result" where
  "gcm_encrypt_detached (Native S) = native_gcm_encrypt_detached S"
| "gcm_encrypt_detached (Rust R) = rust_gcm_encrypt_detached R"

definition decrypt_aead ::
  "('sk, 'pt, 'rk) backend \<Rightarrow> bytes \<Rightarrow> bytes \<Rightarrow> bytes \<Rightarrow> bytes \<Rightarrow> bytes \<Rightarrow> wrap_type \<Rightarrow> (crypto_error, bytes) result" where
  "decrypt_aead B key ciphertext iv aad tag w =
     (case w of
        Aes256Gcm \<Rightarrow> gcm_decrypt_detached B key ciphertext iv aad tag
      | others \<Rightarrow> Inl (NotAead (wrap_type_str others)))"

definition encrypt_aead ::
  "('sk, 'pt, 'rk) backend \<Rightarrow> bytes \<Rightarrow> bytes \<Rightarrow> bytes \<Rightarrow> bytes \<Rightarrow> wrap_type \<Rightarrow> (crypto_error, aead_cipher) result" where
  "encrypt_aead B key plaintext iv aad w =
     (case w of
        Aes256Gcm \<Rightarrow> gcm_encrypt_detached B key plaintext iv aad
      | others \<Rightarrow> Inl (NotAead (wrap_type_str others)))"

section \<open>Elliptic curve keys\<close>

text \<open>The concatenation key derivation of the native back end.\<close>

definition concat_kdf :: "(bytes \<Rightarrow> bytes) \<Rightarrow> string \<Rightarrow> nat \<Rightarrow> bytes \<Rightarrow> bytes" where
  "concat_kdf sha256 alg target_length z =
     (let target_length_bytes = be_bytes 4 (target_length * 8);
          alg_len_bytes = be_bytes 4 (length alg);
          count = (target_length + 31) div 32;
          output = concat (map (\<lambda>i. sha256 (be_bytes 4 (i + 1) @ z @ alg_len_bytes @ alg @
                     be_bytes 4 0 @ be_bytes 4 0 @ target_length_bytes)) [0..<count])
      in if length output > target_length then take target_length output else output)"

definition native_x :: "('sk, 'pt, 'rk) openssl \<Rightarrow> 'sk \<Rightarrow> bytes" where
  "native_x S k = vec_resize 32 (CHR ''0'') (bignum_to_vec (fst (ossl_public S k)))"

definition native_y :: "('sk, 'pt, 'rk) openssl \<Rightarrow> 'sk \<Rightarrow> bytes" where
  "native_y S k = vec_resize 32 (CHR ''0'') (bignum_to_vec (snd (ossl_public S k)))"

text \<open>\<open>vec![0; len - 8]\<close>: the subtraction of a \<open>usize\<close> below zero, or the allocation it asks for, panics.\<close>

definition unwrapped_buffer :: "bytes \<Rightarrow> (crypto_error, bytes) result" where
  "unwrapped_buffer encrypted_key =
     (if length encrypted_key < 8 then Inl (CryptoPanic ''length'')
      else Inr (replicate (length encrypted_key - 8) (CHR 0x00)))"

definition native_unwrap_key ::
  "('sk, 'pt, 'rk) openssl \<Rightarrow> 'sk \<Rightarrow> bytes \<Rightarrow> bytes \<Rightarrow> bytes \<Rightarrow> key_wrap_algorithm \<Rightarrow> (crypto_error, bytes) result" where
  "native_unwrap_key S private_key encrypted_key epk_x epk_y a =
     and_then (ok_or InvalidPoint (ossl_point S (be_value epk_x) (be_value epk_y))) (\<lambda>epk.
     and_then (map_err CryptoLib (ossl_derive S private_key epk)) (\<lambda>z.
      let shared_key = concat_kdf (ossl_sha256 S) (key_wrap_algorithm_str a) (AES_GCM_256_KEY_BITS div 8) z
      in and_then (unwrapped_buffer encrypted_key) (\<lambda>_.
          ok_or UnwrapFailed (ossl_unwrap_key S shared_key encrypted_key))))"

definition rust_unwrap_key ::
  "('sk, 'pt, 'rk) rust_crates \<Rightarrow> 'sk \<Rightarrow> bytes \<Rightarrow> bytes \<Rightarrow> bytes \<Rightarrow> key_wrap_algorithm \<Rightarrow> (crypto_error, bytes) result" where
  "rust_unwrap_key R secret_key encrypted_key epk_x epk_y a =
     (if length epk_x \<noteq> 32 then Inl InvalidCoordinate
      else if length epk_y \<noteq> 32 then Inl InvalidCoordinate
      else and_then (ok_or InvalidPoint (rc_point R epk_x epk_y)) (\<lambda>public_key.
        let z = rc_diffie_hellman R secret_key public_key;
            alg = key_wrap_algorithm_str a;
            materials = be_bytes 4 (length alg) @ alg @ be_bytes 4 0 @ be_bytes 4 0 @
              be_bytes 4 AES_GCM_256_KEY_BITS
        in and_then (ok_or KdfFailed (rc_derive_key R z materials 32)) (\<lambda>unwrapping_key.
           and_then (unwrapped_buffer encrypted_key) (\<lambda>_.
            ok_or UnwrapFailed (rc_kek_unwrap R unwrapping_key encrypted_key)))))"

fun ec_unwrap_key ::
  "('sk, 'pt, 'rk) backend \<Rightarrow> 'sk \<Rightarrow> bytes \<Rightarrow> bytes \<Rightarrow> bytes \<Rightarrow> key_wrap_algorithm \<Rightarrow> (crypto_error, bytes) result" where
  "ec_unwrap_key (Native S) = native_unwrap_key S"
| "ec_unwrap_key (Rust R) = rust_unwrap_key R"

fun ec_x :: "('sk, 'pt, 'rk) backend \<Rightarrow> 'sk \<Rightarrow> bytes" where
  "ec_x (Native S) k = native_x S k"
| "ec_x (Rust R) k = fst (rc_public R k)"

fun ec_y :: "('sk, 'pt, 'rk) backend \<Rightarrow> 'sk \<Rightarrow> bytes" where
  "ec_y (Native S) k = native_y S k"
| "ec_y (Rust R) k = snd (rc_public R k)"

section \<open>RSA keys\<close>

fun rsa_decrypt ::
  "('sk, 'pt, 'rk) backend \<Rightarrow> 'rk \<Rightarrow> padding_mode \<Rightarrow> bytes \<Rightarrow> (crypto_error, bytes) result" where
  "rsa_decrypt (Native S) k OAEP c = map_err CryptoLib (ossl_rsa_decrypt S k PKCS1_OAEP c)"
| "rsa_decrypt (Native S) k PKCS1v15 c = map_err CryptoLib (ossl_rsa_decrypt S k PKCS1 c)"
| "rsa_decrypt (Rust R) k OAEP c = map_err CryptoLib (rc_rsa_decrypt R k Oaep_Sha256 c)"
| "rsa_decrypt (Rust R) k PKCS1v15 c = map_err CryptoLib (rc_rsa_decrypt R k Pkcs1v15Encrypt c)"

section \<open>Coordinates\<close>

lemma be_value_bignum [simp]: "be_value (bignum_to_vec n) = n"
proof (induction n rule: bignum_to_vec.induct)
  case (1 n)
  then show ?case
    by (subst bignum_to_vec.simps) (auto simp: of_char_of)
qed

lemma length_bignum_le: "length (bignum_to_vec n) \<le> k \<longleftrightarrow> n < 256 ^ k"
proof (induction n arbitrary: k rule: bignum_to_vec.induct)
  case (1 n)
  show ?case
  proof (cases "n = 0")
    case True
    then show ?thesis by (simp add: bignum_to_vec.simps)
  next
    case False
    then have len: "length (bignum_to_vec n) = Suc (length (bignum_to_vec (n div 256)))"
      by (simp add: bignum_to_vec.simps [of n])
    show ?thesis
    proof (cases k)
      case 0
      then show ?thesis using False len by simp
    next
      case (Suc j)
      have "length (bignum_to_vec n) \<le> k \<longleftrightarrow> n div 256 < 256 ^ j"
        using "1.IH" [OF False, of j] len Suc by simp
      also have "\<dots> \<longleftrightarrow> n < 256 ^ k"
        using Suc by (simp add: div_less_iff_less_mult mult.commute)
      finally show ?thesis .
    qed
  qed
qed

lemma be_value_replicate_pos: "0 < j \<Longrightarrow> 0 < be_value (replicate j (CHR ''0''))"
  by (cases j) (simp_all add: replicate_append_same [symmetric])

lemma resized_bignum_exact:
  assumes "n < 256 ^ 32"
  shows "be_value (vec_resize 32 (CHR ''0'') (bignum_to_vec n)) = n \<longleftrightarrow> 256 ^ 31 \<le> n"
proof -
  define m where "m = length (bignum_to_vec n)"
  have m: "m \<le> 32" using assms length_bignum_le [of n 32] by (simp add: m_def)
  have split: "be_value (vec_resize 32 (CHR ''0'') (bignum_to_vec n)) =
      n * 256 ^ (32 - m) + be_value (replicate (32 - m) (CHR ''0''))"
    using m by (simp add: vec_resize_def be_value_append m_def)
  have full: "m = 32 \<longleftrightarrow> 256 ^ 31 \<le> n"
    using length_bignum_le [of n 31] m by (auto simp: m_def not_less)
  show ?thesis
  proof (cases "m = 32")
    case True
    then show ?thesis using full split by simp
  next
    case False
    then have "0 < be_value (replicate (32 - m) (CHR ''0''))"
      using m by (intro be_value_replicate_pos) simp
    moreover have "n \<le> n * 256 ^ (32 - m)" by simp
    ultimately have "be_value (vec_resize 32 (CHR ''0'') (bignum_to_vec n)) \<noteq> n"
      using split by linarith
    then show ?thesis using False full by simp
  qed
qed

text \<open>
  With the OpenSSL back end the coordinate of the public key that is sent to the KBS is the
  32-byte big-endian coordinate exactly if its leading byte is not zero: a shorter number is filled up
  at its end, and with the character 0, instead of with leading zero bytes.
\<close>

lemma native_coordinate_exact:
  assumes "fst (ossl_public S k) < 256 ^ 32"
  shows "length (native_x S k) = 32 \<and>
    (be_value (native_x S k) = fst (ossl_public S k) \<longleftrightarrow> 256 ^ 31 \<le> fst (ossl_public S k))"
proof -
  have "length (bignum_to_vec (fst (ossl_public S k))) \<le> 32"
    using assms length_bignum_le by blast
  then show ?thesis
    using resized_bignum_exact [OF assms] by (simp add: native_x_def vec_resize_def)
qed

section \<open>The back ends agree\<close>

text \<open>
  What the two libraries promise: both compute AES-256-GCM with tags of 16 bytes, authenticated
  decryption inverts encryption, the combined form of the Rust crate appends the tag, and counter
  mode is an involution that both compute.
\<close>

definition gcm_correct :: "('sk, 'pt, 'rk) openssl \<Rightarrow> bool" where
  "gcm_correct S \<longleftrightarrow>
     (\<forall>key iv aad d c t. ossl_encrypt_aead S key iv aad d = Inr (c, t) \<longrightarrow>
        length t = TAG_LENGTH \<and> ossl_decrypt_aead S key iv aad c t = Inr d)"

definition same_gcm :: "('sk, 'pt, 'rk) openssl \<Rightarrow> ('sk, 'pt, 'rk) rust_crates \<Rightarrow> bool" where
  "same_gcm S R \<longleftrightarrow>
     (\<forall>key iv aad. length key = 32 \<longrightarrow> length iv = 12 \<longrightarrow>
        (\<forall>d. rc_encrypt_detached R key iv aad d =
          (case ossl_encrypt_aead S key iv aad d of Inl _ \<Rightarrow> None | Inr x \<Rightarrow> Some x)) \<and>
        (\<forall>c t. length t = TAG_LENGTH \<longrightarrow> rc_decrypt_detached R key iv aad c t =
          (case ossl_decrypt_aead S key iv aad c t of Inl _ \<Rightarrow> None | Inr x \<Rightarrow> Some x)))"

definition appended_tag :: "('sk, 'pt, 'rk) rust_crates \<Rightarrow> bool" where
  "appended_tag R \<longleftrightarrow>
     (\<forall>key iv x. rc_encrypt R key iv x =
        map_option (\<lambda>(c, t). c @ t) (rc_encrypt_detached R key iv [] x)) \<and>
     (\<forall>key iv x. rc_decrypt R key iv x =
        (if length x < TAG_LENGTH then None
         else rc_decrypt_detached R key iv [] (take (length x - TAG_LENGTH) x)
                (drop (length x - TAG_LENGTH) x)))"

definition same_ctr :: "('sk, 'pt, 'rk) openssl \<Rightarrow> ('sk, 'pt, 'rk) rust_crates \<Rightarrow> bool" where
  "same_ctr S R \<longleftrightarrow>
     (\<forall>key iv d. length key = 32 \<longrightarrow> length iv = 16 \<longrightarrow>
        ossl_ctr S key iv d = Inr (rc_keystream R key iv d) \<and>
        rc_keystream R key iv (rc_keystream R key iv d) = d)"

definition iv_length :: "wrap_type \<Rightarrow> nat" where
  "iv_length w = (case w of Aes256Gcm \<Rightarrow> 12 | Aes256Ctr \<Rightarrow> 16)"

lemmas backend_defs = native_gcm_encrypt_def native_gcm_decrypt_def rust_gcm_encrypt_def
  rust_gcm_decrypt_def native_ctr_encrypt_def native_ctr_decrypt_def rust_ctr_encrypt_def
  rust_ctr_decrypt_def array_from_slice_def

lemma gcm_encrypt_form:
  assumes "same_gcm S R" and "appended_tag R" and "B \<in> {Native S, Rust R}"
    and "length key = 32" and "length iv = 12" and "crypto_encrypt B key p iv Aes256Gcm = Inr c"
  shows "\<exists>ct t. ossl_encrypt_aead S key iv [] p = Inr (ct, t) \<and> c = ct @ t"
  using assms
  by (fastforce simp: backend_defs same_gcm_def appended_tag_def result_iff split: sum.splits)

lemma gcm_decrypt_form:
  assumes "gcm_correct S" and "same_gcm S R" and "appended_tag R" and "B \<in> {Native S, Rust R}"
    and "length key = 32" and "length iv = 12" and "ossl_encrypt_aead S key iv [] p = Inr (ct, t)"
  shows "crypto_decrypt B key (ct @ t) iv Aes256Gcm = Inr p"
proof -
  have t: "length t = TAG_LENGTH" "ossl_decrypt_aead S key iv [] ct t = Inr p"
    using assms(1,7) by (auto simp: gcm_correct_def)
  then have "rc_decrypt_detached R key iv [] ct t = Some p"
    using assms(2,5,6) by (simp add: same_gcm_def)
  then show ?thesis
    using assms(3-6) t by (auto simp: backend_defs appended_tag_def)
qed

lemma crypto_decrypt_encrypt:
  assumes laws: "gcm_correct S" "same_gcm S R" "appended_tag R" "same_ctr S R"
    and builds: "B \<in> {Native S, Rust R}" "B' \<in> {Native S, Rust R}"
    and lens: "length key = 32" "length iv = iv_length w"
    and enc: "crypto_encrypt B key p iv w = Inr c"
  shows "crypto_decrypt B' key c iv w = Inr p"
proof (cases w)
  case Aes256Gcm
  then have iv: "length iv = 12" using lens(2) by (simp add: iv_length_def)
  obtain ct t where "ossl_encrypt_aead S key iv [] p = Inr (ct, t)" "c = ct @ t"
    using gcm_encrypt_form [OF laws(2,3) builds(1) lens(1) iv] enc Aes256Gcm by blast
  then show ?thesis
    using gcm_decrypt_form [OF laws(1-3) builds(2) lens(1) iv] Aes256Gcm by simp
next
  case Aes256Ctr
  then have "c = rc_keystream R key iv p"
    using builds(1) lens enc laws(4) by (auto simp: backend_defs same_ctr_def iv_length_def)
  then show ?thesis
    using Aes256Ctr builds(2) lens laws(4) by (auto simp: backend_defs same_ctr_def iv_length_def)
qed

text \<open>
  The back ends interoperate: what one build of the crate encrypts with a key and an
  initialisation vector of the documented lengths, every build decrypts to the plain text.
\<close>

lemma backends_interoperate:
  assumes laws: "gcm_correct S" "same_gcm S R" "appended_tag R" "same_ctr S R"
    and builds: "B \<in> {Native S, Rust R}" "B' \<in> {Native S, Rust R}"
    and lens: "length key = 32" "length iv = iv_length w"
    and enc: "crypto_encrypt B key p iv w = Inr c"
  shows "crypto_decrypt B' key c iv w = Inr p"
  using assms by (rule crypto_decrypt_encrypt)

text \<open>
  The Rust key derivation is the one-step KDF of NIST SP 800-56A: SHA-256 blocks over a counter, the
  secret and the other information, cut to the wanted length.
\<close>

definition one_step_kdf :: "(bytes \<Rightarrow> bytes) \<Rightarrow> bytes \<Rightarrow> bytes \<Rightarrow> nat \<Rightarrow> bytes" where
  "one_step_kdf sha256 z info n =
     take n (concat (map (\<lambda>i. sha256 (be_bytes 4 (i + 1) @ z @ info)) [0..<(n + 31) div 32]))"

definition kdf_law :: "(bytes \<Rightarrow> bytes) \<Rightarrow> ('sk, 'pt, 'rk) rust_crates \<Rightarrow> bool" where
  "kdf_law sha256 R \<longleftrightarrow> (\<forall>z info n. 0 < n \<longrightarrow> rc_derive_key R z info n = Some (one_step_kdf sha256 z info n))"

definition same_curve :: "('sk, 'pt, 'rk) openssl \<Rightarrow> ('sk, 'pt, 'rk) rust_crates \<Rightarrow> bool" where
  "same_curve S R \<longleftrightarrow>
     (\<forall>x y. length x = 32 \<longrightarrow> length y = 32 \<longrightarrow> ossl_point S (be_value x) (be_value y) = rc_point R x y) \<and>
     (\<forall>k p. ossl_derive S k p = Inr (rc_diffie_hellman R k p)) \<and>
     (\<forall>k c. ossl_unwrap_key S k c = rc_kek_unwrap R k c)"

lemma concat_kdf_one_step:
  "concat_kdf sha256 alg n z =
     one_step_kdf sha256 z (be_bytes 4 (length alg) @ alg @ be_bytes 4 0 @ be_bytes 4 0 @ be_bytes 4 (n * 8)) n"
  by (simp add: concat_kdf_def one_step_kdf_def Let_def)

text \<open>
  Unwrapping a content encryption key gives the same result, errors and panics included, with
  both back ends, for coordinates of 32 bytes: the hand-written key derivation of the OpenSSL back end
  is the one of the \<open>concat_kdf\<close> crate.
\<close>

lemma unwrap_key_backends_agree:
  assumes "kdf_law (ossl_sha256 S) R" and "same_curve S R" and "length epk_x = 32" and "length epk_y = 32"
  shows "ec_unwrap_key (Native S) k encrypted_key epk_x epk_y a =
    ec_unwrap_key (Rust R) k encrypted_key epk_x epk_y a"
proof -
  have "rc_derive_key R z (be_bytes 4 (length alg) @ alg @ be_bytes 4 0 @ be_bytes 4 0 @ be_bytes 4 256) 32 =
      Some (concat_kdf (ossl_sha256 S) alg 32 z)" for z alg
    using assms(1) by (simp add: kdf_law_def concat_kdf_one_step)
  moreover have "ossl_point S (be_value epk_x) (be_value epk_y) = rc_point R epk_x epk_y"
    using assms by (simp add: same_curve_def)
  ultimately show ?thesis
    using assms(2-4)
    by (auto simp: native_unwrap_key_def rust_unwrap_key_def same_curve_def AES_GCM_256_KEY_BITS_def Let_def)
qed

section \<open>An instance\<close>

text \<open>
  A pair of libraries that meets the laws: the cipher copies its input and tags it with its key's
  first half, points are numbers with equal coordinates, the shared secret is a product.
\<close>

definition demo_ossl :: "(nat, nat, nat) openssl" where
  "demo_ossl = \<lparr>
     ossl_encrypt_aead = (\<lambda>key iv aad d. Inr (d, vec_resize 16 (CHR 0x00) key)),
     ossl_decrypt_aead = (\<lambda>key iv aad c t. if t = vec_resize 16 (CHR 0x00) key then Inr c else Inl ''tag''),
     ossl_ctr = (\<lambda>key iv d. Inr d),
     ossl_sha256 = vec_resize 32 (CHR 0x00),
     ossl_point = (\<lambda>x y. if x = y then Some x else None),
     ossl_derive = (\<lambda>k p. Inr (bignum_to_vec (k mod 256 ^ 32 * p))),
     ossl_public = (\<lambda>k. (k, k)),
     ossl_unwrap_key = (\<lambda>k c. Some (drop 8 c)),
     ossl_rsa_decrypt = (\<lambda>k p c. Inl ''rsa'')\<rparr>"

definition demo_rc :: "(nat, nat, nat) rust_crates" where
  "demo_rc = \<lparr>
     rc_encrypt_detached = (\<lambda>key iv aad d. Some (d, vec_resize 16 (CHR 0x00) key)),
     rc_decrypt_detached = (\<lambda>key iv aad c t. if t = vec_resize 16 (CHR 0x00) key then Some c else None),
     rc_encrypt = (\<lambda>key iv d. Some (d @ vec_resize 16 (CHR 0x00) key)),
     rc_decrypt = (\<lambda>key iv x. if length x < 16 then None
        else if drop (length x - 16) x = vec_resize 16 (CHR 0x00) key then Some (take (length x - 16) x) else None),
     rc_keystream = (\<lambda>key iv d. d),
     rc_point = (\<lambda>x y. if be_value x = be_value y then Some (be_value x) else None),
     rc_diffie_hellman = (\<lambda>k p. bignum_to_vec (k mod 256 ^ 32 * p)),
     rc_public = (\<lambda>k. (be_bytes 32 k, be_bytes 32 k)),
     rc_derive_key = (\<lambda>z info n. Some (one_step_kdf (vec_resize 32 (CHR 0x00)) z info n)),
     rc_kek_unwrap = (\<lambda>k c. Some (drop 8 c)),
     rc_rsa_decrypt = (\<lambda>k p c. Inr c)\<rparr>"

lemma demo_gcm_laws: "gcm_correct demo_ossl" "same_gcm demo_ossl demo_rc" "appended_tag demo_rc"
  unfolding gcm_correct_def same_gcm_def appended_tag_def
  by (auto simp: demo_ossl_def demo_rc_def TAG_LENGTH_def vec_resize_def)

lemma demo_other_laws:
  "same_ctr demo_ossl demo_rc" "kdf_law (ossl_sha256 demo_ossl) demo_rc" "same_curve demo_ossl demo_rc"
  unfolding same_ctr_def kdf_law_def same_curve_def
  by (auto simp: demo_ossl_def demo_rc_def)

lemmas demo_laws = demo_gcm_laws demo_other_laws

lemma native_coordinate_exact_witness:
  "fst (ossl_public demo_ossl 1) < 256 ^ 32 \<and> length (native_x demo_ossl 1) = 32 \<and>
   be_value (native_x demo_ossl 1) \<noteq> fst (ossl_public demo_ossl 1)"
  using native_coordinate_exact [of demo_ossl 1] by (simp add: demo_ossl_def)

lemma backends_interoperate_witness:
  "crypto_decrypt (Rust demo_rc) (replicate 32 (CHR ''k''))
     (''secret'' @ replicate 16 (CHR ''k'')) (replicate 12 (CHR ''i'')) Aes256Gcm = Inr ''secret''"
  by (rule backends_interoperate [OF demo_laws(1-4), of "Native demo_ossl"])
    (simp_all add: iv_length_def native_gcm_encrypt_def demo_ossl_def vec_resize_def)

lemma unwrap_key_backends_agree_witness:
  "ec_unwrap_key (Native demo_ossl) 3 ''12345678abc'' (be_bytes 32 5) (be_bytes 32 5) EcdhEsA256Kw =
   ec_unwrap_key (Rust demo_rc) 3 ''12345678abc'' (be_bytes 32 5) (be_bytes 32 5) EcdhEsA256Kw"
  by (rule unwrap_key_backends_agree) (simp_all add: demo_laws be_bytes_def)

end
