(* ===== verification/Kbs_Keypair.thy ===== *)
theory Kbs_Keypair
  imports Guest_Crypto
begin

text \<open>
  \<open>attestation-agent/kbs_protocol/src/keypair.rs\<close>: the key pair inside the TEE that a key broker
  service encrypts its responses for. Base64, PEM files and the additional data of a JWE header come
  from other crates and form the record \<open>kbs_codec\<close>.
\<close>

section \<open>Responses and keys\<close>

datatype json = JNull | JBool bool | JNum int | JStr string | JArr "json list" | JObj "(string \<times> json) list"

fun jget :: "string \<Rightarrow> json \<Rightarrow> json option" where
  "jget k (JObj m) = map_of m k"
| "jget k _ = None"

fun as_str :: "json \<Rightarrow> string option" where
  "as_str (JStr s) = Some s"
| "as_str _ = None"

record protected_header =
  ph_alg :: string
  ph_enc :: string
  ph_other_fields :: "(string \<times> json) list"

record kbs_response =
  rs_protected :: protected_header
  rs_encrypted_key :: bytes
  rs_iv :: bytes
  rs_ciphertext :: bytes
  rs_tag :: bytes

datatype ('sk, 'rk) tee_key = TeeRsa 'rk | TeeEc 'sk

datatype tee_pubkey =
    PubRSA string string string
  | PubEC string string string string

record ('sk, 'rk) kbs_codec =
  b64url_encode :: "bytes \<Rightarrow> string"
  b64url_decode :: "string \<Rightarrow> bytes option"
  generate_aad :: "protected_header \<Rightarrow> bytes option"
  rsa_n :: "'rk \<Rightarrow> bytes"
  rsa_e :: "'rk \<Rightarrow> bytes"
  from_pkcs1_pem :: "string \<Rightarrow> 'rk option"
  from_pkcs8_pem :: "string \<Rightarrow> 'sk option"
  to_pkcs1_pem :: "'rk \<Rightarrow> string option"
  to_pkcs8_pem :: "'sk \<Rightarrow> string option"
  generate_ec :: 'sk

datatype keypair_error =
    MustBeRsaKey
  | MustBeEcKey
  | HeaderWithout string
  | HeaderNotString string
  | Base64Error
  | UnmatchedCurve string
  | UnsupportedAlgorithm string
  | KpCrypto crypto_error
  | AadError
  | PemError

section \<open>Operations\<close>

definition tee_key_new :: "('sk, 'rk) kbs_codec \<Rightarrow> ('sk, 'rk) tee_key" where
  "tee_key_new C = TeeEc (generate_ec C)"

fun export_pubkey ::
  "('sk, 'rk) kbs_codec \<Rightarrow> ('sk, 'pt, 'rk) backend \<Rightarrow> ('sk, 'rk) tee_key \<Rightarrow> tee_pubkey" where
  "export_pubkey C B (TeeRsa k) =
     PubRSA (padding_mode_str OAEP) (b64url_encode C (rsa_n C k)) (b64url_encode C (rsa_e C k))"
| "export_pubkey C B (TeeEc k) =
     PubEC (curve_str P256) (key_wrap_algorithm_str EcdhEsA256Kw)
       (b64url_encode C (ec_x B k)) (b64url_encode C (ec_y B k))"

definition epk_field :: "string \<Rightarrow> json \<Rightarrow> (keypair_error, string) result" where
  "epk_field name epk =
     and_then (ok_or (HeaderWithout name) (jget name epk)) (\<lambda>v.
      ok_or (HeaderNotString name) (as_str v))"

definition unwrap_cek ::
  "('sk, 'rk) kbs_codec \<Rightarrow> ('sk, 'pt, 'rk) backend \<Rightarrow> ('sk, 'rk) tee_key \<Rightarrow> protected_header \<Rightarrow> bytes \<Rightarrow>
    (keypair_error, bytes) result" where
  "unwrap_cek C B key header wrapped_cek =
     (if ph_alg header = padding_mode_str PKCS1v15 then
        (case key of
           TeeRsa k \<Rightarrow> map_err KpCrypto (rsa_decrypt B k PKCS1v15 wrapped_cek)
         | TeeEc _ \<Rightarrow> Inl MustBeRsaKey)
      else if ph_alg header = padding_mode_str OAEP then
        (case key of
           TeeRsa k \<Rightarrow> map_err KpCrypto (rsa_decrypt B k OAEP wrapped_cek)
         | TeeEc _ \<Rightarrow> Inl MustBeRsaKey)
      else if ph_alg header = key_wrap_algorithm_str EcdhEsA256Kw then
        and_then (ok_or (HeaderWithout ''epk'') (map_of (ph_other_fields header) ''epk'')) (\<lambda>epk.
        and_then (epk_field ''crv'' epk) (\<lambda>crv.
        and_then (epk_field ''x'' epk) (\<lambda>x.
        and_then (ok_or Base64Error (b64url_decode C x)) (\<lambda>x.
        and_then (epk_field ''y'' epk) (\<lambda>y.
        and_then (ok_or Base64Error (b64url_decode C y)) (\<lambda>y.
         (case key of
            TeeRsa _ \<Rightarrow> Inl MustBeEcKey
          | TeeEc k \<Rightarrow>
              if crv \<noteq> curve_str P256 then Inl (UnmatchedCurve crv)
              else map_err KpCrypto (ec_unwrap_key B k wrapped_cek x y EcdhEsA256Kw))))))))
      else Inl (UnsupportedAlgorithm (ph_alg header)))"

definition from_pem :: "('sk, 'rk) kbs_codec \<Rightarrow> string \<Rightarrow> (keypair_error, ('sk, 'rk) tee_key) result" where
  "from_pem C pem =
     (case from_pkcs1_pem C pem of
        Some k \<Rightarrow> Inr (TeeRsa k)
      | None \<Rightarrow> and_then (ok_or PemError (from_pkcs8_pem C pem)) (\<lambda>k. Inr (TeeEc k)))"

fun to_pem :: "('sk, 'rk) kbs_codec \<Rightarrow> ('sk, 'rk) tee_key \<Rightarrow> (keypair_error, string) result" where
  "to_pem C (TeeRsa k) = ok_or PemError (to_pkcs1_pem C k)"
| "to_pem C (TeeEc k) = ok_or PemError (to_pkcs8_pem C k)"

definition decrypt_response ::
  "('sk, 'rk) kbs_codec \<Rightarrow> ('sk, 'pt, 'rk) backend \<Rightarrow> ('sk, 'rk) tee_key \<Rightarrow> kbs_response \<Rightarrow>
    (keypair_error, bytes) result" where
  "decrypt_response C B key response =
     and_then (unwrap_cek C B key (rs_protected response) (rs_encrypted_key response)) (\<lambda>cek.
     and_then (ok_or AadError (generate_aad C (rs_protected response))) (\<lambda>aad.
      map_err KpCrypto
        (decrypt_aead B cek (rs_ciphertext response) (rs_iv response) aad (rs_tag response) Aes256Gcm)))"

section \<open>A response for this key is decrypted\<close>

text \<open>
  What the service does on the other side, in terms of the same primitives: the shared secret of its
  ephemeral key and the point with the given coordinates, the key encryption key derived from it, the
  wrapped content encryption key and the sealed payload.
\<close>

fun ec_secret :: "('sk, 'pt, 'rk) backend \<Rightarrow> 'sk \<Rightarrow> bytes \<times> bytes \<Rightarrow> bytes option" where
  "ec_secret (Native S) k (x, y) =
     (case ossl_point S (be_value x) (be_value y) of
        None \<Rightarrow> None
      | Some p \<Rightarrow> (case ossl_derive S k p of Inl _ \<Rightarrow> None | Inr z \<Rightarrow> Some z))"
| "ec_secret (Rust R) k (x, y) =
     (if length x = 32 \<and> length y = 32 then map_option (rc_diffie_hellman R k) (rc_point R x y) else None)"

definition jwe_kdf_info :: bytes where
  "jwe_kdf_info =
     (let alg = key_wrap_algorithm_str EcdhEsA256Kw
      in be_bytes 4 (length alg) @ alg @ be_bytes 4 0 @ be_bytes 4 0 @ be_bytes 4 AES_GCM_256_KEY_BITS)"

fun ec_kek :: "('sk, 'pt, 'rk) backend \<Rightarrow> bytes \<Rightarrow> bytes option" where
  "ec_kek (Native S) z = Some (one_step_kdf (ossl_sha256 S) z jwe_kdf_info 32)"
| "ec_kek (Rust R) z = rc_derive_key R z jwe_kdf_info 32"

fun kw_unwrap :: "('sk, 'pt, 'rk) backend \<Rightarrow> bytes \<Rightarrow> bytes \<Rightarrow> bytes option" where
  "kw_unwrap (Native S) = ossl_unwrap_key S"
| "kw_unwrap (Rust R) = rc_kek_unwrap R"

definition epk_header :: "('sk, 'rk) kbs_codec \<Rightarrow> bytes \<times> bytes \<Rightarrow> protected_header" where
  "epk_header C p = \<lparr>ph_alg = ''ECDH-ES+A256KW'', ph_enc = ''A256GCM'',
     ph_other_fields = [(''epk'', JObj [(''crv'', JStr ''P-256''), (''x'', JStr (b64url_encode C (fst p))),
       (''y'', JStr (b64url_encode C (snd p)))])]\<rparr>"

lemma native_kek: "concat_kdf sha256 (key_wrap_algorithm_str EcdhEsA256Kw) (AES_GCM_256_KEY_BITS div 8) z =
    one_step_kdf sha256 z jwe_kdf_info 32"
  by (simp add: concat_kdf_one_step jwe_kdf_info_def AES_GCM_256_KEY_BITS_def)

text \<open>On a point with a secret, unwrapping is the unwrapping of the cipher text with the derived key.\<close>

lemma ec_unwrap_key_secret:
  assumes "ec_secret B k (x, y) = Some z" and "ec_kek B z = Some kek"
  shows "ec_unwrap_key B k w x y EcdhEsA256Kw =
    and_then (unwrapped_buffer w) (\<lambda>_. ok_or UnwrapFailed (kw_unwrap B kek w))"
  using assms
  by (cases B) (auto simp: native_unwrap_key_def rust_unwrap_key_def native_kek Let_def
      jwe_kdf_info_def [unfolded Let_def, symmetric] simp del: key_wrap_algorithm_str.simps
      split: option.splits sum.splits if_splits)

lemma unwrap_cek_secret:
  assumes "\<forall>b. b64url_decode C (b64url_encode C b) = Some b"
    and "ec_secret B k p = Some z" and "ec_kek B z = Some kek"
  shows "unwrap_cek C B (TeeEc k) (epk_header C p) w =
    map_err KpCrypto (and_then (unwrapped_buffer w) (\<lambda>_. ok_or UnwrapFailed (kw_unwrap B kek w)))"
  using assms(1) ec_unwrap_key_secret [of B k "fst p" "snd p" z kek w] assms(2,3)
  by (simp add: unwrap_cek_def epk_header_def epk_field_def)

text \<open>The laws of Diffie-Hellman, key wrapping and authenticated encryption.\<close>

definition dh_symmetric :: "('sk, 'pt, 'rk) backend \<Rightarrow> ('sk \<Rightarrow> bytes \<times> bytes) \<Rightarrow> bool" where
  "dh_symmetric B pub \<longleftrightarrow> (\<forall>k e. ec_secret B k (pub e) = ec_secret B e (pub k))"

definition kw_law :: "('sk, 'pt, 'rk) backend \<Rightarrow> (bytes \<Rightarrow> bytes \<Rightarrow> bytes) \<Rightarrow> bool" where
  "kw_law B wrap \<longleftrightarrow> (\<forall>kek cek. 8 \<le> length (wrap kek cek) \<and> kw_unwrap B kek (wrap kek cek) = Some cek)"

definition aead_law :: "('sk, 'pt, 'rk) backend \<Rightarrow> bool" where
  "aead_law B \<longleftrightarrow>
     (\<forall>key d iv aad ac. encrypt_aead B key d iv aad Aes256Gcm = Inr ac \<longrightarrow>
        decrypt_aead B key (ac_ciphertext ac) iv aad (ac_tag ac) Aes256Gcm = Inr d)"

definition sealed_response ::
  "('sk, 'rk) kbs_codec \<Rightarrow> ('sk \<Rightarrow> bytes \<times> bytes) \<Rightarrow> (bytes \<Rightarrow> bytes \<Rightarrow> bytes) \<Rightarrow> 'sk \<Rightarrow> bytes \<Rightarrow> bytes \<Rightarrow> bytes \<Rightarrow>
    aead_cipher \<Rightarrow> kbs_response" where
  "sealed_response C pub wrap e kek cek iv ac =
     \<lparr>rs_protected = epk_header C (pub e), rs_encrypted_key = wrap kek cek, rs_iv = iv,
      rs_ciphertext = ac_ciphertext ac, rs_tag = ac_tag ac\<rparr>"


text \<open>
  A response whose encrypted key is shorter than eight bytes makes the client panic instead of
  failing, for every EC key and every point of the curve.
\<close>

lemma short_encrypted_key_panics:
  assumes "\<forall>b. b64url_decode C (b64url_encode C b) = Some b"
    and "ec_secret B k p = Some z" and "ec_kek B z = Some kek"
    and "rs_protected r = epk_header C p" and "length (rs_encrypted_key r) < 8"
  shows "decrypt_response C B (TeeEc k) r = Inl (KpCrypto (CryptoPanic ''length''))"
  using assms(4,5) unwrap_cek_secret [OF assms(1-3)]
  by (simp add: decrypt_response_def unwrapped_buffer_def)

section \<open>An instance\<close>

definition demo_codec :: "(nat, nat) kbs_codec" where
  "demo_codec = \<lparr>b64url_encode = rev, b64url_decode = (\<lambda>s. Some (rev s)), generate_aad = (\<lambda>h. Some (ph_alg h)),
     rsa_n = bignum_to_vec, rsa_e = bignum_to_vec, from_pkcs1_pem = (\<lambda>_. None), from_pkcs8_pem = (\<lambda>_. Some 7),
     to_pkcs1_pem = (\<lambda>_. None), to_pkcs8_pem = (\<lambda>_. Some ''pem''), generate_ec = 7\<rparr>"

lemma demo_codec_inverse: "\<forall>b. b64url_decode demo_codec (b64url_encode demo_codec b) = Some b"
  by (simp add: demo_codec_def)

lemma demo_dh: "dh_symmetric (Rust demo_rc) (rc_public demo_rc)"
  by (simp add: dh_symmetric_def demo_rc_def be_value_be_bytes mult.commute)

lemma demo_kw: "kw_law (Rust demo_rc) (\<lambda>kek cek. ''12345678'' @ cek)"
  unfolding kw_law_def by (simp add: demo_rc_def)

lemma demo_aead: "aead_law (Rust demo_rc)"
  unfolding aead_law_def
  by (auto simp: encrypt_aead_def decrypt_aead_def rust_gcm_encrypt_detached_def rust_gcm_decrypt_detached_def
      array_from_slice_def demo_rc_def vec_resize_def result_iff split: if_splits)

definition demo_cek :: bytes where
  "demo_cek = replicate 32 (CHR ''k'')"

definition demo_sealed :: aead_cipher where
  "demo_sealed = \<lparr>ac_tag = replicate 16 (CHR ''k''), ac_ciphertext = ''payload''\<rparr>"


lemma short_encrypted_key_panics_witness:
  "decrypt_response demo_codec (Rust demo_rc) (TeeEc 7)
     \<lparr>rs_protected = epk_header demo_codec (be_bytes 32 5, be_bytes 32 5), rs_encrypted_key = ''short'',
      rs_iv = [], rs_ciphertext = [], rs_tag = []\<rparr> = Inl (KpCrypto (CryptoPanic ''length''))"
  by (rule short_encrypted_key_panics [OF demo_codec_inverse])
    (simp_all add: demo_rc_def be_value_be_bytes)

end
