(* ===== verification/Resource_Uri.thy ===== *)
theory Resource_Uri
  imports Rust_Prelude
begin

text \<open>
  \<open>attestation-agent/deps/resource_uri\<close>: the names of resources in a key broker service. The URL
  parser is a crate of its own; its result is the record \<open>url\<close> and the parser a parameter.
\<close>

section \<open>Resource names\<close>

record url =
  u_scheme :: string
  u_host :: "string option"
  u_port :: "nat option"
  u_path :: string
  u_query :: "string option"

record resource_uri =
  ru_kbs_addr :: string
  ru_repository :: string
  ru_type :: string
  ru_tag :: string
  ru_query :: "string option"

datatype uri_error = ResourceIdError | SchemeMustBeKbs | InvalidUrl | PathMustStartWithSlash | PathFormat

definition SCHEME :: string where "SCHEME = ''kbs''"

definition addr_of :: "url \<Rightarrow> string" where
  "addr_of value =
     (let addr = (case u_host value of None \<Rightarrow> [] | Some h \<Rightarrow> h)
      in if addr \<noteq> [] then
           (case u_port value of None \<Rightarrow> addr | Some port \<Rightarrow> addr @ '':'' @ nat_str port)
         else addr)"

definition try_from_url :: "url \<Rightarrow> (uri_error, resource_uri) result" where
  "try_from_url value =
     (let addr = addr_of value
      in if u_scheme value \<noteq> SCHEME then Inl SchemeMustBeKbs
         else if u_path value = [] then Inl ResourceIdError
         else let values = split_on (CHR ''/'') (drop 1 (u_path value))
              in if length values = 3 then
                   Inr \<lparr>ru_kbs_addr = addr, ru_repository = values ! 0, ru_type = values ! 1,
                        ru_tag = values ! 2, ru_query = u_query value\<rparr>
                 else Inl ResourceIdError)"

definition uri_try_from :: "(string \<Rightarrow> url option) \<Rightarrow> string \<Rightarrow> (uri_error, resource_uri) result" where
  "uri_try_from parse value = and_then (ok_or ResourceIdError (parse value)) try_from_url"

definition resource_uri_new ::
  "(string \<Rightarrow> url option) \<Rightarrow> string \<Rightarrow> string \<Rightarrow> (uri_error, resource_uri) result" where
  "resource_uri_new parse kbs_uri resource_path =
     and_then
       (case parse kbs_uri of
          Some url \<Rightarrow>
            and_then (ok_or InvalidUrl (u_host url)) (\<lambda>kbs_host.
             (case u_port url of
                Some port \<Rightarrow> Inr (kbs_host @ '':'' @ nat_str port)
              | None \<Rightarrow> Inr kbs_host))
        | None \<Rightarrow> Inr kbs_uri)
       (\<lambda>kbs_addr.
         if \<not> starts_with ''/'' resource_path then Inl PathMustStartWithSlash
         else let values = split_on (CHR ''/'') resource_path
              in if length values = 4 then
                   Inr \<lparr>ru_kbs_addr = kbs_addr, ru_repository = values ! 1, ru_type = values ! 2,
                        ru_tag = values ! 3, ru_query = None\<rparr>
                 else Inl PathFormat)"

definition resource_path :: "resource_uri \<Rightarrow> string" where
  "resource_path r = ru_repository r @ ''/'' @ ru_type r @ ''/'' @ ru_tag r"

definition whole_uri :: "resource_uri \<Rightarrow> string" where
  "whole_uri r =
     (let uri = SCHEME @ ''://'' @ ru_kbs_addr r @ ''/'' @ ru_repository r @ ''/'' @ ru_type r @ ''/'' @ ru_tag r
      in case ru_query r of Some q \<Rightarrow> uri @ ''?'' @ q | None \<Rightarrow> uri)"

text \<open>Serialization writes the whole URI, deserialization parses it.\<close>

definition uri_serialize :: "resource_uri \<Rightarrow> string" where
  "uri_serialize = whole_uri"

definition uri_deserialize :: "(string \<Rightarrow> url option) \<Rightarrow> string \<Rightarrow> (uri_error, resource_uri) result" where
  "uri_deserialize = uri_try_from"

section \<open>Round trip\<close>

text \<open>
  The behaviour of the URL parser that the code relies on: a URL with an authority, written from
  parts that only have unreserved characters and no dot segments, is parsed into these parts. An
  empty host is reported as no host.
\<close>

definition unreserved :: "char \<Rightarrow> bool" where
  "unreserved c \<longleftrightarrow>
     (let n = (of_char c :: nat)
      in 48 \<le> n \<and> n \<le> 57 \<or> 65 \<le> n \<and> n \<le> 90 \<or> 97 \<le> n \<and> n \<le> 122 \<or> c = CHR ''-'' \<or> c = CHR ''.'' \<or> c = CHR ''_'')"

definition plain_segment :: "string \<Rightarrow> bool" where
  "plain_segment s \<longleftrightarrow> list_all unreserved s \<and> s \<noteq> ''.'' \<and> s \<noteq> ''..''"

definition plain_query :: "string \<Rightarrow> bool" where
  "plain_query q \<longleftrightarrow> list_all (\<lambda>c. unreserved c \<or> c = CHR ''='' \<or> c = CHR ''&'') q"

definition authority :: "string \<Rightarrow> nat option \<Rightarrow> string" where
  "authority host port = host @ (case port of None \<Rightarrow> [] | Some p \<Rightarrow> '':'' @ nat_str p)"

definition url_law :: "(string \<Rightarrow> url option) \<Rightarrow> bool" where
  "url_law parse \<longleftrightarrow>
     (\<forall>host port segs q. list_all unreserved host \<longrightarrow> (host = [] \<longrightarrow> port = None) \<longrightarrow>
        (\<forall>p. port = Some p \<longrightarrow> p < 65536) \<longrightarrow> segs \<noteq> [] \<longrightarrow> list_all plain_segment segs \<longrightarrow>
        (\<forall>s. q = Some s \<longrightarrow> plain_query s) \<longrightarrow>
        parse (''kbs://'' @ authority host port @ ''/'' @ join_with (CHR ''/'') segs @
               (case q of None \<Rightarrow> [] | Some s \<Rightarrow> ''?'' @ s)) =
          Some \<lparr>u_scheme = ''kbs'', u_host = (if host = [] then None else Some host), u_port = port,
                u_path = ''/'' @ join_with (CHR ''/'') segs, u_query = q\<rparr>)"

lemma plain_segment_no_slash: "plain_segment s \<Longrightarrow> CHR ''/'' \<notin> set s"
  by (auto simp: plain_segment_def list_all_iff unreserved_def Let_def)

definition plain_resource :: "string \<Rightarrow> nat option \<Rightarrow> resource_uri \<Rightarrow> bool" where
  "plain_resource host port r \<longleftrightarrow>
     list_all unreserved host \<and> (host = [] \<longrightarrow> port = None) \<and> (\<forall>p. port = Some p \<longrightarrow> p < 65536) \<and>
     ru_kbs_addr r = authority host port \<and>
     list_all plain_segment [ru_repository r, ru_type r, ru_tag r] \<and>
     (\<forall>q. ru_query r = Some q \<longrightarrow> plain_query q)"

lemma join_resource:
  "join_with (CHR ''/'') [ru_repository r, ru_type r, ru_tag r] = resource_path r"
  by (simp add: resource_path_def)

lemma split_resource_path:
  assumes "list_all plain_segment [ru_repository r, ru_type r, ru_tag r]"
  shows "split_on (CHR ''/'') (resource_path r) = [ru_repository r, ru_type r, ru_tag r]"
  unfolding join_resource [symmetric]
  using assms plain_segment_no_slash by (intro split_on_join) auto

lemma uri_parses:
  assumes law: "url_law parse" and plain: "plain_resource host port r"
  shows "uri_try_from parse (whole_uri r) = Inr r"
proof -
  have seg: "list_all plain_segment [ru_repository r, ru_type r, ru_tag r]"
    using plain by (simp add: plain_resource_def)
  have "whole_uri r = ''kbs://'' @ authority host port @ ''/'' @
      join_with (CHR ''/'') [ru_repository r, ru_type r, ru_tag r] @
      (case ru_query r of None \<Rightarrow> [] | Some s \<Rightarrow> ''?'' @ s)"
    using plain by (auto simp: whole_uri_def SCHEME_def plain_resource_def split: option.splits)
  then have "parse (whole_uri r) = Some \<lparr>u_scheme = ''kbs'', u_host = (if host = [] then None else Some host),
      u_port = port, u_path = ''/'' @ resource_path r, u_query = ru_query r\<rparr>"
    using law [unfolded url_law_def, rule_format, of host port "[ru_repository r, ru_type r, ru_tag r]" "ru_query r"]
      plain by (simp add: plain_resource_def join_resource del: join_with.simps)
  then show ?thesis
    using plain split_resource_path [OF seg]
    by (auto simp: uri_try_from_def try_from_url_def addr_of_def SCHEME_def plain_resource_def authority_def
        split: option.splits)
qed

text \<open>
  Resource names survive serialization: for a resource with an address host or host:port (or
  none) whose parts only have unreserved characters, the text written for it is parsed back to it,
  and the address with the absolute resource path names the same resource.
\<close>

lemma resource_uri_roundtrip:
  assumes law: "url_law parse" and plain: "plain_resource host port r"
  shows "uri_deserialize parse (uri_serialize r) = Inr r \<and>
    (parse (ru_kbs_addr r) = None \<longrightarrow>
      resource_uri_new parse (ru_kbs_addr r) (''/'' @ resource_path r) = Inr (r\<lparr>ru_query := None\<rparr>))"
proof -
  have seg: "list_all plain_segment [ru_repository r, ru_type r, ru_tag r]"
    using plain by (simp add: plain_resource_def)
  have "uri_deserialize parse (uri_serialize r) = Inr r"
    using uri_parses [OF assms] by (simp add: uri_deserialize_def uri_serialize_def)
  moreover have "resource_uri_new parse (ru_kbs_addr r) (''/'' @ resource_path r) = Inr (r\<lparr>ru_query := None\<rparr>)"
    if "parse (ru_kbs_addr r) = None"
    using that split_resource_path [OF seg] by (simp add: resource_uri_new_def starts_with_iff)
  ultimately show ?thesis by blast
qed

text \<open>
  A URI without an authority, \<open>kbs:repo/type/tag\<close>, is accepted, and the first character of its
  repository is dropped: the path of such a URL does not start with a slash.
\<close>

lemma opaque_uri_loses_character:
  assumes "parse s = Some \<lparr>u_scheme = ''kbs'', u_host = None, u_port = None,
      u_path = c # repo @ ''/'' @ ty @ ''/'' @ tag, u_query = None\<rparr>"
    and "CHR ''/'' \<notin> set repo" "CHR ''/'' \<notin> set ty" "CHR ''/'' \<notin> set tag"
  shows "uri_try_from parse s =
    Inr \<lparr>ru_kbs_addr = [], ru_repository = repo, ru_type = ty, ru_tag = tag, ru_query = None\<rparr>"
  using assms by (simp add: uri_try_from_def try_from_url_def addr_of_def SCHEME_def split_on_append split_on_free)

section \<open>An instance\<close>

definition demo_url_parse :: "string \<Rightarrow> url option" where
  "demo_url_parse s =
     (case strip_prefix ''kbs://'' s of
        None \<Rightarrow> None
      | Some r \<Rightarrow>
          (case split_once (CHR ''/'') r of
             None \<Rightarrow> None
           | Some (auth, rest) \<Rightarrow>
               (let (path, q) = (case split_once (CHR ''?'') rest of
                       None \<Rightarrow> (rest, None) | Some (p, q) \<Rightarrow> (p, Some q));
                    (host, port) = (case split_once (CHR '':'') auth of
                       None \<Rightarrow> (auth, None) | Some (h, p) \<Rightarrow> (h, parse_digits p))
                in Some \<lparr>u_scheme = ''kbs'', u_host = (if host = [] then None else Some host),
                         u_port = port, u_path = ''/'' @ path, u_query = q\<rparr>)))"

lemma unreserved_not: "list_all unreserved s \<Longrightarrow> \<not> unreserved c \<Longrightarrow> c \<notin> set s"
  by (auto simp: list_all_iff)

lemma not_unreserved [simp]: "\<not> unreserved (CHR ''/'')" "\<not> unreserved (CHR ''?'')" "\<not> unreserved (CHR '':'')"
  by (simp_all add: unreserved_def)

lemma nat_str_no: "\<not> is_digit c \<Longrightarrow> c \<notin> set (nat_str n)"
  using nat_str_digits [of n] by (auto simp: list_all_iff)

lemma authority_no_slash: "list_all unreserved host \<Longrightarrow> CHR ''/'' \<notin> set (authority host port)"
  using nat_str_no [of "CHR ''/''"] unreserved_not [of host]
  by (auto simp: authority_def is_digit_def split: option.splits)

lemma split_authority:
  "list_all unreserved host \<Longrightarrow> split_once (CHR '':'') (authority host port) =
     (case port of None \<Rightarrow> None | Some p \<Rightarrow> Some (host, nat_str p))"
  using unreserved_not [of host] by (auto simp: authority_def str_simps split: option.splits)

lemma segments_no_query: "list_all plain_segment segs \<Longrightarrow> CHR ''?'' \<notin> set (join_with (CHR ''/'') segs)"
  by (rule join_with_free) (auto simp: list_all_iff plain_segment_def intro: not_unreserved [THEN notE])

lemma demo_url_law: "url_law demo_url_parse"
  unfolding url_law_def
proof (intro allI impI, goal_cases)
  case (1 host port segs q)
  let ?p = "join_with (CHR ''/'') segs"
  let ?r = "?p @ (case q of None \<Rightarrow> [] | Some s \<Rightarrow> ''?'' @ s)"
  have "split_once (CHR ''/'') (authority host port @ CHR ''/'' # ?r) = Some (authority host port, ?r)"
    using authority_no_slash 1 by (simp add: split_once_Some_iff)
  moreover have "split_once (CHR ''?'') ?r = (case q of None \<Rightarrow> None | Some s \<Rightarrow> Some (?p, s))"
    using segments_no_query 1 by (auto simp: str_simps split: option.splits)
  ultimately show ?case
    using split_authority 1
    by (auto simp: demo_url_parse_def parse_nat_str authority_def split: option.splits)
qed

definition demo_resource :: resource_uri where
  "demo_resource = \<lparr>ru_kbs_addr = ''kbs.example:8080'', ru_repository = ''alice'', ru_type = ''key'',
     ru_tag = ''1'', ru_query = Some ''a=b''\<rparr>"

lemma demo_resource_plain: "plain_resource ''kbs.example'' (Some 8080) demo_resource"
  by (simp add: plain_resource_def demo_resource_def authority_def plain_segment_def plain_query_def
      unreserved_def nat_str.simps char_of_def bit_0)

lemma resource_uri_roundtrip_witness:
  "uri_deserialize demo_url_parse (uri_serialize demo_resource) = Inr demo_resource \<and>
   resource_uri_new demo_url_parse (ru_kbs_addr demo_resource) ''/alice/key/1'' =
     Inr (demo_resource\<lparr>ru_query := None\<rparr>)"
  using resource_uri_roundtrip [OF demo_url_law demo_resource_plain]
  by (simp add: demo_resource_def demo_url_parse_def resource_path_def)

lemma opaque_uri_loses_character_witness:
  "uri_try_from (\<lambda>s. Some \<lparr>u_scheme = ''kbs'', u_host = None, u_port = None, u_path = drop 4 s, u_query = None\<rparr>)
     ''kbs:alice/key/1'' =
   Inr \<lparr>ru_kbs_addr = [], ru_repository = ''lice'', ru_type = ''key'', ru_tag = ''1'', ru_query = None\<rparr>"
  by (rule opaque_uri_loses_character) simp_all

end
