(* ===== verification/Kbs_Client.thy ===== *)
theory Kbs_Client
  imports Kbs_Keypair Resource_Uri
begin

text \<open>
  \<open>attestation-agent/kbs_protocol/src\<close>: the clients of a key broker service. The RCAR client proves
  with an attestation handshake which TEE it runs in and keeps the token it gets; the token client
  takes tokens from a provider. Both fetch resources and renew their authentication when the service
  refuses it. The network, the TEE and the provider are the record \<open>kbs_env\<close> over a world; a ghost list
  of the requests that were sent is kept beside the world.
\<close>

section \<open>Tokens\<close>

record token =
  tk_content :: string
  tk_exp :: "nat option"
  tk_nbf :: "nat option"

datatype tee = Se | OtherTee string

datatype client_tee = Unitialized | Initializated tee

record challenge =
  ch_nonce :: string
  ch_extra_params :: json

datatype http_method = GET | POST

datatype http_body =
    NoBody
  | RequestBody string tee json
  | AttestationBody tee_pubkey json

record http_request =
  hr_method :: http_method
  hr_url :: string
  hr_bearer :: "string option"
  hr_body :: http_body

record 'b http_response =
  hs_status :: nat
  hs_body :: 'b

text \<open>A failed request; the flag is \<open>is_connect() || is_request()\<close>.\<close>

datatype http_failure = HttpFailure bool string

record ('w, 'b, 'sk, 'pt, 'rk) kbs_env =
  ke_send :: "http_request \<Rightarrow> ('w, http_failure, 'b http_response) stateful"
  ke_tee_type :: "('w, string, tee) stateful"
  ke_evidence :: "bytes \<Rightarrow> ('w, string, string) stateful"
  ke_provider_token :: "('w, string, token \<times> ('sk, 'rk) tee_key) stateful"
  ke_now :: "'w \<Rightarrow> nat"
  ke_challenge :: "'b \<Rightarrow> challenge option"
  ke_error_info :: "'b \<Rightarrow> string option"
  ke_text :: "'b \<Rightarrow> string option"
  ke_attest_token :: "'b \<Rightarrow> string option"
  ke_response :: "'b \<Rightarrow> kbs_response option"
  ke_pubkey_json :: "tee_pubkey \<Rightarrow> json"
  ke_to_string :: "json \<Rightarrow> string option"
  ke_from_str :: "string \<Rightarrow> json option"
  ke_jwt_claims :: "bytes \<Rightarrow> (nat option \<times> nat option) option"
  ke_hash :: hash_fn
  ke_codec :: "('sk, 'rk) kbs_codec"
  ke_backend :: "('sk, 'pt, 'rk) backend"

definition token_new :: "('w, 'b, 'sk, 'pt, 'rk) kbs_env \<Rightarrow> string \<Rightarrow> token option" where
  "token_new E token =
     (let parts = split_on (CHR ''.'') token
      in if length parts < 2 then None
         else (case b64url_decode (ke_codec E) (parts ! 1) of
                 None \<Rightarrow> None
               | Some claims \<Rightarrow>
                   (case ke_jwt_claims E claims of
                      None \<Rightarrow> None
                    | Some (exp, nbf) \<Rightarrow> Some \<lparr>tk_content = token, tk_exp = exp, tk_nbf = nbf\<rparr>)))"

definition check_valid :: "nat \<Rightarrow> token \<Rightarrow> bool" where
  "check_valid now t \<longleftrightarrow>
     \<not> (case tk_exp t of Some exp \<Rightarrow> exp < now | None \<Rightarrow> False) \<and>
     \<not> (case tk_nbf t of Some nbf \<Rightarrow> now < nbf | None \<Rightarrow> False)"

section \<open>The client\<close>

record ('sk, 'rk) kbs_client =
  cl_tee :: client_tee
  cl_tee_key :: "('sk, 'rk) tee_key"
  cl_kbs_host_url :: string
  cl_token :: "token option"

record 'w network =
  net_world :: 'w
  net_sent :: "http_request list"

type_synonym ('w, 'sk, 'rk) session = "('sk, 'rk) kbs_client \<times> 'w network"

text \<open>
  The errors of a handshake, which the code passes on as text, and those of a client; the texts of the
  providers are kept as they are, and a failed assertion is an error of its own.
\<close>

datatype rcar_error =
    RcProvider string
  | RcHttp string
  | RcDeserialize
  | RcAuthUnauthorized string
  | RcAuthFailed string
  | RcInvalidHashAlgorithm string
  | RcUnexpectedJson json
  | RcSerialize
  | RcEvidence string
  | RcEvidenceJson
  | RcAttestUnauthorized string
  | RcAttestFailed string
  | RcToken

datatype kbs_error =
    HttpError string
  | KbsResponseDeserializationFailed
  | DecryptResponseFailed keypair_error
  | RcarHandshake rcar_error
  | GetTokenFailed string
  | ResourceNotFound string
  | KbsInternalError string
  | UnAuthorized
  | AssertionFailed

definition KBS_PROTOCOL_VERSION :: string where "KBS_PROTOCOL_VERSION = ''0.2.0''"
definition KBS_PREFIX :: string where "KBS_PREFIX = ''kbs/v0''"
definition KBS_GET_RESOURCE_MAX_ATTEMPT :: nat where "KBS_GET_RESOURCE_MAX_ATTEMPT = 3"
definition RCAR_MAX_ATTEMPT :: nat where "RCAR_MAX_ATTEMPT = 5"
definition max_retries :: nat where "max_retries = 3"

text \<open>A call of the world from a session, and a request through the HTTP client.\<close>

definition in_world :: "('w, 'e, 'a) stateful \<Rightarrow> (('w, 'sk, 'rk) session, 'e, 'a) stateful" where
  "in_world m = (\<lambda>(c, n). case m (net_world n) of (r, w) \<Rightarrow> (r, (c, n\<lparr>net_world := w\<rparr>)))"

definition send ::
  "('w, 'b, 'sk, 'pt, 'rk) kbs_env \<Rightarrow> http_request \<Rightarrow> (('w, 'sk, 'rk) session, http_failure, 'b http_response) stateful" where
  "send E req = (\<lambda>(c, n). case ke_send E req (net_world n) of
     (r, w) \<Rightarrow> (r, (c, \<lparr>net_world = w, net_sent = net_sent n @ [req]\<rparr>)))"

section \<open>The RCAR handshake\<close>

definition get_request_extra_params :: json where
  "get_request_extra_params =
     JObj [(''supported-hash-algorithms'', JArr (map (\<lambda>a. JStr (hash_alg_str a)) [HSha256, HSha384, HSha512]))]"

definition get_hash_algorithm :: "json \<Rightarrow> (rcar_error, hash_alg) result" where
  "get_hash_algorithm extra_params =
     (case jget ''selected-hash-algorithm'' extra_params of
        Some selected \<Rightarrow>
          and_then (ok_or (RcUnexpectedJson selected) (as_str selected)) (\<lambda>s.
           let name = map to_lower s
           in ok_or (RcInvalidHashAlgorithm name) (hash_alg_from_str name))
      | None \<Rightarrow> Inr HSha384)"

definition build_request :: "tee \<Rightarrow> http_body" where
  "build_request tee = RequestBody KBS_PROTOCOL_VERSION tee get_request_extra_params"

definition client_tee_type ::
  "('w, 'b, 'sk, 'pt, 'rk) kbs_env \<Rightarrow> (('w, 'sk, 'rk) session, rcar_error, tee) stateful" where
  "client_tee_type E s =
     (case cl_tee (fst s) of
        Unitialized \<Rightarrow>
          st_then (st_map_err RcProvider (in_world (ke_tee_type E)))
            (\<lambda>tee (c, n). (Inr tee, (c\<lparr>cl_tee := Initializated tee\<rparr>, n))) s
      | Initializated tee \<Rightarrow> (Inr tee, s))"

definition auth_request :: "('sk, 'rk) kbs_client \<Rightarrow> tee \<Rightarrow> http_request" where
  "auth_request c tee =
     \<lparr>hr_method = POST, hr_url = cl_kbs_host_url c @ ''/'' @ KBS_PREFIX @ ''/auth'', hr_bearer = None,
      hr_body = build_request tee\<rparr>"

definition read_challenge ::
  "('w, 'b, 'sk, 'pt, 'rk) kbs_env \<Rightarrow> 'b http_response \<Rightarrow> (rcar_error, challenge) result" where
  "read_challenge E resp =
     (if hs_status resp = 200 then ok_or RcDeserialize (ke_challenge E (hs_body resp))
      else if hs_status resp = 401 then
        (case ke_error_info E (hs_body resp) of
           None \<Rightarrow> Inl RcDeserialize | Some i \<Rightarrow> Inl (RcAuthUnauthorized i))
      else
        (case ke_text E (hs_body resp) of
           None \<Rightarrow> Inl RcDeserialize | Some t \<Rightarrow> Inl (RcAuthFailed t)))"

definition hash_runtime_data :: "hash_fn \<Rightarrow> string \<Rightarrow> string \<Rightarrow> tee \<Rightarrow> hash_alg \<Rightarrow> bytes" where
  "hash_runtime_data H runtime_data nonce tee algorithm =
     (case tee of Se \<Rightarrow> nonce | _ \<Rightarrow> H algorithm runtime_data)"

definition generate_evidence ::
  "('w, 'b, 'sk, 'pt, 'rk) kbs_env \<Rightarrow> tee \<Rightarrow> string \<Rightarrow> string \<Rightarrow> hash_alg \<Rightarrow>
    (('w, 'sk, 'rk) session, rcar_error, string) stateful" where
  "generate_evidence E tee runtime_data nonce algorithm =
     st_map_err RcEvidence (in_world (ke_evidence E (hash_runtime_data (ke_hash E) runtime_data nonce tee algorithm)))"

definition runtime_data_json :: "('w, 'b, 'sk, 'pt, 'rk) kbs_env \<Rightarrow> tee_pubkey \<Rightarrow> string \<Rightarrow> json" where
  "runtime_data_json E pubkey nonce =
     JObj [(''tee-pubkey'', ke_pubkey_json E pubkey), (''nonce'', JStr nonce)]"

definition attest_request :: "('sk, 'rk) kbs_client \<Rightarrow> tee_pubkey \<Rightarrow> json \<Rightarrow> http_request" where
  "attest_request c pubkey evidence =
     \<lparr>hr_method = POST, hr_url = cl_kbs_host_url c @ ''/'' @ KBS_PREFIX @ ''/attest'', hr_bearer = None,
      hr_body = AttestationBody pubkey evidence\<rparr>"

function attest_loop ::
  "('w, 'b, 'sk, 'pt, 'rk) kbs_env \<Rightarrow> http_request \<Rightarrow> nat \<Rightarrow>
    (('w, 'sk, 'rk) session, http_failure, 'b http_response) stateful" where
  "attest_loop E req attempts s =
     (case send E req s of
        (Inr response, s') \<Rightarrow> (Inr response, s')
      | (Inl (HttpFailure retryable e), s') \<Rightarrow>
          if retryable then
            (if attempts + 1 \<ge> max_retries then (Inl (HttpFailure retryable e), s')
             else attest_loop E req (attempts + 1) s')
          else (Inl (HttpFailure retryable e), s'))"
  by pat_completeness auto
termination
  by (relation "measure (\<lambda>(_, _, n, _). max_retries - n)") auto

declare attest_loop.simps [simp del]

fun failure_str :: "http_failure \<Rightarrow> string" where
  "failure_str (HttpFailure _ e) = e"

definition read_attest_token ::
  "('w, 'b, 'sk, 'pt, 'rk) kbs_env \<Rightarrow> 'b http_response \<Rightarrow> (rcar_error, token) result" where
  "read_attest_token E resp =
     (if hs_status resp = 200 then
        and_then (ok_or RcDeserialize (ke_attest_token E (hs_body resp))) (\<lambda>t. ok_or RcToken (token_new E t))
      else if hs_status resp = 401 then
        (case ke_error_info E (hs_body resp) of
           None \<Rightarrow> Inl RcDeserialize | Some i \<Rightarrow> Inl (RcAttestUnauthorized i))
      else
        (case ke_text E (hs_body resp) of
           None \<Rightarrow> Inl RcDeserialize | Some t \<Rightarrow> Inl (RcAttestFailed t)))"

definition store_token :: "token \<Rightarrow> (('w, 'sk, 'rk) session, rcar_error, unit) stateful" where
  "store_token t = (\<lambda>(c, n). (Inr (), (c\<lparr>cl_token := Some t\<rparr>, n)))"

text \<open>Key and address of the client do not change during a handshake; \<open>c\<close> is the client at its start.\<close>

definition rcar_attest ::
  "('w, 'b, 'sk, 'pt, 'rk) kbs_env \<Rightarrow> ('sk, 'rk) kbs_client \<Rightarrow> tee \<Rightarrow> challenge \<Rightarrow>
    (('w, 'sk, 'rk) session, rcar_error, token) stateful" where
  "rcar_attest E c tee ch =
     (let tee_pubkey = export_pubkey (ke_codec E) (ke_backend E) (cl_tee_key c)
      in st_then (lift_result (get_hash_algorithm (ch_extra_params ch))) (\<lambda>algorithm.
         st_then (lift_result (ok_or RcSerialize
           (ke_to_string E (runtime_data_json E tee_pubkey (ch_nonce ch))))) (\<lambda>runtime_data.
         st_then (generate_evidence E tee runtime_data (ch_nonce ch) algorithm) (\<lambda>evidence.
         st_then (lift_result (ok_or RcEvidenceJson (ke_from_str E evidence))) (\<lambda>tee_evidence.
         st_then (st_map_err (\<lambda>e. RcHttp (failure_str e))
           (attest_loop E (attest_request c tee_pubkey tee_evidence) 0)) (\<lambda>resp.
         lift_result (read_attest_token E resp)))))))"

definition rcar_exchange ::
  "('w, 'b, 'sk, 'pt, 'rk) kbs_env \<Rightarrow> ('sk, 'rk) kbs_client \<Rightarrow> tee \<Rightarrow>
    (('w, 'sk, 'rk) session, rcar_error, token) stateful" where
  "rcar_exchange E c tee =
     st_then (st_map_err (\<lambda>e. RcHttp (failure_str e)) (send E (auth_request c tee))) (\<lambda>resp.
     st_then (lift_result (read_challenge E resp)) (\<lambda>ch. rcar_attest E c tee ch))"

definition rcar_handshake ::
  "('w, 'b, 'sk, 'pt, 'rk) kbs_env \<Rightarrow> (('w, 'sk, 'rk) session, rcar_error, unit) stateful" where
  "rcar_handshake E = st_then (client_tee_type E) (\<lambda>tee s. st_then (rcar_exchange E (fst s) tee) store_token s)"

function repeat_rcar_handshake ::
  "('w, 'b, 'sk, 'pt, 'rk) kbs_env \<Rightarrow> nat \<Rightarrow> (('w, 'sk, 'rk) session, kbs_error, unit) stateful" where
  "repeat_rcar_handshake E retry_count s =
     (case rcar_handshake E s of
        (Inr _, s') \<Rightarrow> (Inr (), s')
      | (Inl e, s') \<Rightarrow>
          if retry_count \<ge> RCAR_MAX_ATTEMPT then (Inl (RcarHandshake e), s')
          else repeat_rcar_handshake E (retry_count + 1) s')"
  by pat_completeness auto
termination
  by (relation "measure (\<lambda>(_, n, _). RCAR_MAX_ATTEMPT - n)") auto

declare repeat_rcar_handshake.simps [simp del]

definition get_token ::
  "('w, 'b, 'sk, 'pt, 'rk) kbs_env \<Rightarrow> (('w, 'sk, 'rk) session, kbs_error, token \<times> ('sk, 'rk) tee_key) stateful" where
  "get_token E s =
     st_then
       (case cl_token (fst s) of
          Some t \<Rightarrow>
            if \<not> check_valid (ke_now E (net_world (snd s))) t then repeat_rcar_handshake E 1 else st_ok ()
        | None \<Rightarrow> repeat_rcar_handshake E 1)
       (\<lambda>_ s'. (case cl_token (fst s') of
                 None \<Rightarrow> (Inl AssertionFailed, s')
               | Some t \<Rightarrow> (Inr (t, cl_tee_key (fst s')), s')))
       s"

section \<open>Fetching resources\<close>

definition resource_url :: "string \<Rightarrow> resource_uri \<Rightarrow> string" where
  "resource_url host r =
     (let remote_url = host @ ''/'' @ KBS_PREFIX @ ''/resource/'' @ ru_repository r @ ''/'' @ ru_type r @ ''/'' @ ru_tag r
      in case ru_query r of Some q \<Rightarrow> remote_url @ ''?'' @ q | None \<Rightarrow> remote_url)"

datatype outcome = Finished "(kbs_error, bytes) result" | Unauthorized_Retry

definition read_resource ::
  "('w, 'b, 'sk, 'pt, 'rk) kbs_env \<Rightarrow> ('sk, 'rk) tee_key \<Rightarrow> 'b http_response \<Rightarrow> outcome" where
  "read_resource E key res =
     (if hs_status res = 200 then
        Finished (and_then (ok_or KbsResponseDeserializationFailed (ke_response E (hs_body res))) (\<lambda>response.
          map_err DecryptResponseFailed (decrypt_response (ke_codec E) (ke_backend E) key response)))
      else if hs_status res = 401 then
        (case ke_error_info E (hs_body res) of
           None \<Rightarrow> Finished (Inl KbsResponseDeserializationFailed) | Some _ \<Rightarrow> Unauthorized_Retry)
      else
        (case ke_error_info E (hs_body res) of
           None \<Rightarrow> Finished (Inl KbsResponseDeserializationFailed)
         | Some i \<Rightarrow> Finished (Inl (if hs_status res = 404 then ResourceNotFound i else KbsInternalError i))))"

definition get_request :: "string \<Rightarrow> string option \<Rightarrow> http_request" where
  "get_request url bearer = \<lparr>hr_method = GET, hr_url = url, hr_bearer = bearer, hr_body = NoBody\<rparr>"

definition http_get ::
  "('w, 'b, 'sk, 'pt, 'rk) kbs_env \<Rightarrow> http_request \<Rightarrow> (('w, 'sk, 'rk) session, kbs_error, 'b http_response) stateful" where
  "http_get E req = st_map_err (\<lambda>e. HttpError (failure_str e)) (send E req)"

definition renew_handshake ::
  "('w, 'b, 'sk, 'pt, 'rk) kbs_env \<Rightarrow> (('w, 'sk, 'rk) session, kbs_error, unit) stateful" where
  "renew_handshake E = st_map_err RcarHandshake (rcar_handshake E)"

text \<open>The attempts that are left of the \<open>for\<close> loop are the argument of the recursion.\<close>

fun rcar_attempts ::
  "('w, 'b, 'sk, 'pt, 'rk) kbs_env \<Rightarrow> string \<Rightarrow> nat \<Rightarrow> (('w, 'sk, 'rk) session, kbs_error, bytes) stateful" where
  "rcar_attempts E url 0 s = (Inl UnAuthorized, s)"
| "rcar_attempts E url (Suc n) s =
     st_then (http_get E (get_request url None)) (\<lambda>res s'.
       (case read_resource E (cl_tee_key (fst s')) res of
          Finished r \<Rightarrow> (r, s')
        | Unauthorized_Retry \<Rightarrow> st_then (renew_handshake E) (\<lambda>_. rcar_attempts E url n) s')) s"

definition rcar_get_resource ::
  "('w, 'b, 'sk, 'pt, 'rk) kbs_env \<Rightarrow> resource_uri \<Rightarrow> (('w, 'sk, 'rk) session, kbs_error, bytes) stateful" where
  "rcar_get_resource E r s =
     rcar_attempts E (resource_url (cl_kbs_host_url (fst s)) r) KBS_GET_RESOURCE_MAX_ATTEMPT s"

definition update_token ::
  "('w, 'b, 'sk, 'pt, 'rk) kbs_env \<Rightarrow> (('w, 'sk, 'rk) session, kbs_error, unit) stateful" where
  "update_token E =
     st_then (st_map_err GetTokenFailed (in_world (ke_provider_token E))) (\<lambda>(token, teekey) (c, n).
       (Inr (), (c\<lparr>cl_token := Some token, cl_tee_key := teekey\<rparr>, n)))"

definition ensure_token ::
  "('w, 'b, 'sk, 'pt, 'rk) kbs_env \<Rightarrow> (('w, 'sk, 'rk) session, kbs_error, token) stateful" where
  "ensure_token E s =
     st_then (if cl_token (fst s) = None then update_token E else st_ok ()) (\<lambda>_ s'.
       (case cl_token (fst s') of
          None \<Rightarrow> (Inl AssertionFailed, s')
        | Some t \<Rightarrow> (Inr t, s'))) s"

fun token_attempts ::
  "('w, 'b, 'sk, 'pt, 'rk) kbs_env \<Rightarrow> string \<Rightarrow> nat \<Rightarrow> (('w, 'sk, 'rk) session, kbs_error, bytes) stateful" where
  "token_attempts E url 0 s = (Inl UnAuthorized, s)"
| "token_attempts E url (Suc n) s =
     st_then (ensure_token E) (\<lambda>token.
     st_then (http_get E (get_request url (Some (tk_content token)))) (\<lambda>res s'.
       (case read_resource E (cl_tee_key (fst s')) res of
          Finished r \<Rightarrow> (r, s')
        | Unauthorized_Retry \<Rightarrow> st_then (update_token E) (\<lambda>_. token_attempts E url n) s'))) s"

definition token_get_resource ::
  "('w, 'b, 'sk, 'pt, 'rk) kbs_env \<Rightarrow> resource_uri \<Rightarrow> (('w, 'sk, 'rk) session, kbs_error, bytes) stateful" where
  "token_get_resource E r s =
     token_attempts E (resource_url (cl_kbs_host_url (fst s)) r) KBS_GET_RESOURCE_MAX_ATTEMPT s"

section \<open>Building a client\<close>

record kbs_builder =
  bd_kbs_certs :: "string list"
  bd_kbs_host_url :: string
  bd_token :: "string option"
  bd_tee_key :: "string option"

definition trim_end_slashes :: "string \<Rightarrow> string" where
  "trim_end_slashes s = rev (dropWhile (\<lambda>c. c = CHR ''/'') (rev s))"

definition builder_with_provider :: "string \<Rightarrow> kbs_builder" where
  "builder_with_provider kbs_host_url =
     \<lparr>bd_kbs_certs = [], bd_kbs_host_url = trim_end_slashes kbs_host_url, bd_token = None, bd_tee_key = None\<rparr>"

definition add_kbs_cert :: "string \<Rightarrow> kbs_builder \<Rightarrow> kbs_builder" where
  "add_kbs_cert cert_pem b = b\<lparr>bd_kbs_certs := bd_kbs_certs b @ [cert_pem]\<rparr>"

definition set_token :: "string \<Rightarrow> kbs_builder \<Rightarrow> kbs_builder" where
  "set_token t b = b\<lparr>bd_token := Some t\<rparr>"

definition set_tee_key :: "string \<Rightarrow> kbs_builder \<Rightarrow> kbs_builder" where
  "set_tee_key k b = b\<lparr>bd_tee_key := Some k\<rparr>"

datatype build_error = BadCert string | BadTeeKey | BadToken

definition build ::
  "('w, 'b, 'sk, 'pt, 'rk) kbs_env \<Rightarrow> (string \<Rightarrow> bool) \<Rightarrow> kbs_builder \<Rightarrow> (build_error, ('sk, 'rk) kbs_client) result" where
  "build E cert_ok b =
     and_then (try_map (\<lambda>c. if cert_ok c then Inr () else Inl (BadCert c)) (bd_kbs_certs b)) (\<lambda>_.
     and_then (case bd_tee_key b of
                 Some key \<Rightarrow> map_err (\<lambda>_. BadTeeKey) (from_pem (ke_codec E) key)
               | None \<Rightarrow> Inr (tee_key_new (ke_codec E))) (\<lambda>tee_key.
     and_then (case bd_token b of
                 Some t \<Rightarrow> and_then (ok_or BadToken (token_new E t)) (\<lambda>t. Inr (Some t))
               | None \<Rightarrow> Inr None) (\<lambda>token.
      Inr \<lparr>cl_tee = Unitialized, cl_tee_key = tee_key, cl_kbs_host_url = bd_kbs_host_url b, cl_token = token\<rparr>)))"

section \<open>Steps of a session\<close>

lemma in_world_iff [result_iff]:
  "in_world m (c, n) = (r, s') \<longleftrightarrow> (\<exists>w. m (net_world n) = (r, w) \<and> s' = (c, n\<lparr>net_world := w\<rparr>))"
  by (auto simp: in_world_def split: prod.splits)

lemma send_iff [result_iff]:
  "send E q (c, n) = (r, s') \<longleftrightarrow>
     (\<exists>w. ke_send E q (net_world n) = (r, w) \<and> s' = (c, \<lparr>net_world = w, net_sent = net_sent n @ [q]\<rparr>))"
  by (auto simp: send_def split: prod.splits)

lemma store_token_iff [result_iff]:
  "store_token t (c, n) = (r, s') \<longleftrightarrow> r = Inr () \<and> s' = (c\<lparr>cl_token := Some t\<rparr>, n)"
  by (auto simp: store_token_def)

text \<open>
  A frame: a preorder on sessions that the world, the TEE type and the sending of allowed requests
  respect is respected by everything a handshake does before it stores its token.
\<close>

locale session_frame =
  fixes R :: "('w, 'sk, 'rk) session \<Rightarrow> ('w, 'sk, 'rk) session \<Rightarrow> bool"
    and allowed :: "http_request \<Rightarrow> bool"
  assumes R_refl: "R s s"
    and R_trans: "R s s1 \<Longrightarrow> R s1 s2 \<Longrightarrow> R s s2"
    and R_world: "R (c, n) (c, n\<lparr>net_world := w\<rparr>)"
    and R_tee: "R (c, n) (c\<lparr>cl_tee := t\<rparr>, n)"
    and R_send: "allowed q \<Longrightarrow> R (c, n) (c, \<lparr>net_world = w, net_sent = net_sent n @ [q]\<rparr>)"
begin

lemma framed_then: "framed R m \<Longrightarrow> (\<And>a. framed R (f a)) \<Longrightarrow> framed R (st_then m f)"
  using R_trans by (rule framed_st_then)

lemma framed_basic: "framed R (lift_result r)" "framed R (in_world m)"
  by (auto simp: framed_def lift_result_def in_world_def R_refl R_world split: prod.splits)

lemma framed_send: "allowed q \<Longrightarrow> framed R (send E q)"
  by (auto simp: framed_def send_def R_send split: prod.splits)

lemma attest_loop_frame: "allowed q \<Longrightarrow> R s (snd (attest_loop E q n s))"
proof (induction E q n s rule: attest_loop.induct)
  case (1 E q n s)
  obtain r s1 where send: "send E q s = (r, s1)" by (metis surj_pair)
  then have k: "R s s1" using framedD [OF framed_send [OF "1.prems"]] by metis
  show ?case
  proof (cases "\<exists>e. r = Inl (HttpFailure True e) \<and> \<not> max_retries \<le> n + 1")
    case True
    then obtain e where r: "r = Inl (HttpFailure True e)" "\<not> max_retries \<le> n + 1" by blast
    then have "attest_loop E q n s = attest_loop E q (n + 1) s1"
      using send by (subst attest_loop.simps) simp
    moreover have "R s1 (snd (attest_loop E q (n + 1) s1))"
      using "1.IH" send r "1.prems" by metis
    ultimately show ?thesis using k R_trans by metis
  next
    case False
    then have "snd (attest_loop E q n s) = s1"
      using send by (subst attest_loop.simps) (auto split: sum.splits http_failure.splits)
    then show ?thesis using k by simp
  qed
qed

lemma framed_client_tee: "framed R (client_tee_type E)"
  unfolding framed_def
proof
  fix s
  have "framed R (st_then (st_map_err RcProvider (in_world (ke_tee_type E)))
      (\<lambda>tee (c, n). (Inr tee :: (rcar_error, tee) result, (c\<lparr>cl_tee := Initializated tee\<rparr>, n))))"
    by (intro framed_then framed_st_map_err framed_basic) (auto simp: framed_def R_tee)
  then show "R s (snd (client_tee_type E s))"
    unfolding framed_def client_tee_type_def by (cases "cl_tee (fst s)") (simp_all add: R_refl del: split_paired_All)
qed

lemma framed_attest:
  assumes "\<And>k j. allowed (attest_request c k j)"
  shows "framed R (rcar_attest E c tee ch)"
proof -
  have "framed R (attest_loop E (attest_request c k j) n)" for k j n
    unfolding framed_def using attest_loop_frame [OF assms] by blast
  then show ?thesis
    unfolding rcar_attest_def Let_def generate_evidence_def
    by (intro framed_then framed_st_map_err framed_basic)
qed

lemma framed_exchange:
  assumes "\<And>k j. allowed (attest_request c k j)" and "allowed (auth_request c tee)"
  shows "framed R (rcar_exchange E c tee)"
  unfolding rcar_exchange_def
  using assms by (intro framed_then framed_st_map_err framed_send framed_basic framed_attest)

end

text \<open>Three frames: no resource is fetched and key and address stay; the token stays; no challenge is asked.\<close>

definition fetches :: "('w, 'sk, 'rk) session \<Rightarrow> nat" where
  "fetches s = length (filter (\<lambda>q. hr_method q = GET) (net_sent (snd s)))"

definition is_auth :: "http_request \<Rightarrow> bool" where
  "is_auth q \<longleftrightarrow> (case hr_body q of RequestBody _ _ _ \<Rightarrow> True | _ \<Rightarrow> False)"

definition auths :: "('w, 'sk, 'rk) session \<Rightarrow> nat" where
  "auths s = length (filter is_auth (net_sent (snd s)))"

definition keeps :: "('w, 'sk, 'rk) session \<Rightarrow> ('w, 'sk, 'rk) session \<Rightarrow> bool" where
  "keeps s s' \<longleftrightarrow> fetches s' = fetches s \<and> cl_tee_key (fst s') = cl_tee_key (fst s) \<and>
     cl_kbs_host_url (fst s') = cl_kbs_host_url (fst s)"

definition same_token :: "('w, 'sk, 'rk) session \<Rightarrow> ('w, 'sk, 'rk) session \<Rightarrow> bool" where
  "same_token s s' \<longleftrightarrow> cl_token (fst s') = cl_token (fst s)"

definition same_auths :: "('w, 'sk, 'rk) session \<Rightarrow> ('w, 'sk, 'rk) session \<Rightarrow> bool" where
  "same_auths s s' \<longleftrightarrow> auths s' = auths s"

interpretation fr_keeps: session_frame keeps "\<lambda>q. hr_method q \<noteq> GET"
  by unfold_locales (auto simp: keeps_def fetches_def)

interpretation fr_token: session_frame same_token "\<lambda>_. True"
  by unfold_locales (auto simp: same_token_def)

interpretation fr_auth: session_frame same_auths "\<lambda>q. \<not> is_auth q"
  by unfold_locales (auto simp: same_auths_def auths_def)

lemma handshake_keeps: "framed keeps (rcar_handshake E)"
  unfolding framed_def
proof
  fix s
  obtain r s1 where tee: "client_tee_type E s = (r, s1)" by (metis surj_pair)
  then have k: "keeps s s1" using framedD [OF fr_keeps.framed_client_tee] by metis
  show "keeps s (snd (rcar_handshake E s))"
  proof (cases r)
    case (Inr t)
    have "framed keeps (rcar_exchange E (fst s1) t)"
      by (rule fr_keeps.framed_exchange) (simp_all add: attest_request_def auth_request_def)
    then have "framed keeps (st_then (rcar_exchange E (fst s1) t) store_token)"
      by (rule fr_keeps.framed_then) (auto simp: framed_def store_token_def keeps_def fetches_def)
    then have "keeps s1 (snd (st_then (rcar_exchange E (fst s1) t) store_token s1))"
      unfolding framed_def by blast
    then show ?thesis using k tee Inr by (auto simp: rcar_handshake_def intro: fr_keeps.R_trans)
  qed (use k tee in \<open>simp add: rcar_handshake_def\<close>)
qed

section \<open>Fetching with a bounded number of attempts\<close>

text \<open>
  The loop both clients have: an attempt, the reading of its answer, and a renewal of the
  authentication before the next attempt. \<open>count\<close> counts the requests for the resource.
\<close>

locale resource_loop =
  fixes attempt :: "('s, kbs_error, 'r) stateful"
    and read :: "'s \<Rightarrow> 'r \<Rightarrow> outcome"
    and renew :: "('s, kbs_error, unit) stateful"
    and loop :: "nat \<Rightarrow> ('s, kbs_error, bytes) stateful"
    and count :: "'s \<Rightarrow> nat"
  assumes loop_0: "loop 0 s = (Inl UnAuthorized, s)"
    and loop_Suc: "loop (Suc n) s =
      st_then attempt (\<lambda>r s'. case read s' r of
         Finished x \<Rightarrow> (x, s')
       | Unauthorized_Retry \<Rightarrow> st_then renew (\<lambda>_. loop n) s') s"
    and attempt_count: "attempt s = (r, s') \<Longrightarrow> count s' \<le> Suc (count s)"
    and attempt_ok_count: "attempt s = (Inr a, s') \<Longrightarrow> count s' = Suc (count s)"
    and renew_count: "renew s = (x, s') \<Longrightarrow> count s' = count s"
    and attempt_error: "fst (attempt s) \<noteq> Inl UnAuthorized"
    and renew_error: "fst (renew s) \<noteq> Inl UnAuthorized"
    and read_error: "read s a \<noteq> Finished (Inl UnAuthorized)"
begin

lemma loop_cases:
  assumes "loop (Suc n) s = (r, s')"
  obtains (failed) e where "attempt s = (Inl e, s')" "r = Inl e"
    | (finished) a where "attempt s = (Inr a, s')" "read s' a = Finished r"
    | (renewal) a s1 e where "attempt s = (Inr a, s1)" "renew s1 = (Inl e, s')" "r = Inl e"
    | (retry) a s1 s2 where "attempt s = (Inr a, s1)" "read s1 a = Unauthorized_Retry"
        "renew s1 = (Inr (), s2)" "loop n s2 = (r, s')"
proof -
  obtain x s1 where att: "attempt s = (x, s1)" by (metis surj_pair)
  obtain y s2 where ren: "renew s1 = (y, s2)" by (metis surj_pair)
  show thesis
    using assms att ren that by (cases x; cases y; cases "read s1 (projr x)") (auto simp: loop_Suc)
qed

lemma bounded: "loop n s = (r, s') \<Longrightarrow> count s' \<le> count s + n"
proof (induction n arbitrary: s)
  case (Suc n)
  from Suc.prems show ?case
  proof (cases rule: loop_cases)
    case (retry a s1 s2)
    then show ?thesis
      using Suc.IH attempt_ok_count renew_count by fastforce
  qed (fastforce dest: attempt_count attempt_ok_count renew_count)+
qed (simp add: loop_0)

lemma result: "loop n s = (Inr d, s') \<Longrightarrow> \<exists>s0 a. attempt s0 = (Inr a, s') \<and> read s' a = Finished (Inr d)"
proof (induction n arbitrary: s)
  case (Suc n)
  from Suc.prems show ?case
    by (cases rule: loop_cases) (auto intro: Suc.IH)
qed (simp add: loop_0)

lemma unauthorized: "loop n s = (Inl UnAuthorized, s') \<Longrightarrow> count s' = count s + n"
proof (induction n arbitrary: s)
  case (Suc n)
  from Suc.prems show ?case
  proof (cases rule: loop_cases)
    case (retry a s1 s2)
    then show ?thesis using Suc.IH attempt_ok_count renew_count by fastforce
  next
    case (failed e)
    then show ?thesis using attempt_error [of s] by simp
  next
    case (finished a)
    then show ?thesis using read_error [of s' a] by simp
  next
    case (renewal a s1 e)
    then show ?thesis using renew_error [of s1] by simp
  qed
qed (simp add: loop_0)

end

lemma read_resource_error: "read_resource E k res \<noteq> Finished (Inl UnAuthorized)"
  by (auto simp: read_resource_def and_then_def map_err_def ok_or_def split: option.splits sum.splits)

lemma http_get_count:
  "http_get E (get_request url b) s = (r, s') \<Longrightarrow> fetches s' = Suc (fetches s) \<and> fst s' = fst s \<and> r \<noteq> Inl UnAuthorized"
  by (cases s) (auto simp: http_get_def st_map_err_def send_def fetches_def get_request_def map_err_def
      split: prod.splits sum.splits)

lemma renew_handshake_error: "fst (renew_handshake E s) \<noteq> Inl UnAuthorized"
  by (auto simp: renew_handshake_def st_map_err_def map_err_def split: prod.splits sum.splits)

lemma renew_count: "renew_handshake E s = (r, s') \<Longrightarrow> keeps s s'"
  unfolding renew_handshake_def by (metis framedD framed_st_map_err handshake_keeps)

interpretation rcar: resource_loop
  "http_get E (get_request url None)" "\<lambda>s. read_resource E (cl_tee_key (fst s))" "renew_handshake E"
  "rcar_attempts E url" fetches
proof
  show "fst (http_get E (get_request url None) s) \<noteq> Inl UnAuthorized" for s
    using http_get_count by (metis prod.collapse)
qed (auto simp: renew_handshake_error read_resource_error keeps_def dest: http_get_count renew_count)

lemma update_token_ok:
  "update_token E s = (r, s') \<Longrightarrow> fetches s' = fetches s \<and> r \<noteq> Inl UnAuthorized \<and>
     (r = Inr () \<longrightarrow> cl_token (fst s') \<noteq> None)"
  by (cases s) (auto simp: update_token_def st_then_def st_map_err_def in_world_def map_err_def fetches_def
      split: prod.splits sum.splits)

lemma ensure_token_ok:
  assumes "ensure_token E s = (r, s')"
  shows "fetches s' = fetches s \<and> r \<noteq> Inl UnAuthorized \<and> (\<forall>t. r = Inr t \<longrightarrow> cl_token (fst s') = Some t)"
proof -
  obtain x s1 where "(if cl_token (fst s) = None then update_token E else st_ok ()) s = (x, s1)"
    by (metis surj_pair)
  then show ?thesis
    using assms update_token_ok [of E s x s1]
    by (cases x) (auto simp: ensure_token_def split: if_splits option.splits)
qed

definition token_attempt ::
  "('w, 'b, 'sk, 'pt, 'rk) kbs_env \<Rightarrow> string \<Rightarrow> (('w, 'sk, 'rk) session, kbs_error, 'b http_response) stateful" where
  "token_attempt E url = st_then (ensure_token E) (\<lambda>t. http_get E (get_request url (Some (tk_content t))))"

lemma token_attempt_ok:
  assumes "token_attempt E url s = (r, s')"
  shows "fetches s' \<le> Suc (fetches s) \<and> r \<noteq> Inl UnAuthorized \<and> (\<forall>a. r = Inr a \<longrightarrow> fetches s' = Suc (fetches s))"
proof -
  obtain x s1 where ens: "ensure_token E s = (x, s1)" by (metis surj_pair)
  note e = ensure_token_ok [OF ens]
  show ?thesis
  proof (cases x)
    case (Inl err)
    then show ?thesis using assms ens e by (auto simp: token_attempt_def)
  next
    case (Inr t)
    then have "http_get E (get_request url (Some (tk_content t))) s1 = (r, s')"
      using assms ens by (simp add: token_attempt_def)
    from http_get_count [OF this] show ?thesis using e by auto
  qed
qed

lemma token_attempts_Suc:
  "token_attempts E url (Suc n) s =
     st_then (token_attempt E url) (\<lambda>r s'. case read_resource E (cl_tee_key (fst s')) r of
         Finished x \<Rightarrow> (x, s')
       | Unauthorized_Retry \<Rightarrow> st_then (update_token E) (\<lambda>_. token_attempts E url n) s') s"
  by (simp add: token_attempt_def st_then_def split: prod.splits sum.splits)

interpretation token_cl: resource_loop
  "token_attempt E url" "\<lambda>s. read_resource E (cl_tee_key (fst s))" "update_token E"
  "token_attempts E url" fetches
proof
  show "fst (token_attempt E url s) \<noteq> Inl UnAuthorized" for s
    using token_attempt_ok by (metis prod.collapse)
  show "fst (update_token E s) \<noteq> Inl UnAuthorized" for s
    using update_token_ok by (metis prod.collapse)
qed (auto simp: token_attempts_Suc read_resource_error simp del: token_attempts.simps(2)
    dest: token_attempt_ok update_token_ok)

section \<open>Properties of the clients\<close>

text \<open>
  C35. Fetching a resource ends after at most three requests for it, with either client; the result is
  \<open>UnAuthorized\<close> only after three of them.
\<close>

theorem fetch_bounded:
  assumes "client \<in> {rcar_get_resource E, token_get_resource E}" and "client r s = (res, s')"
  shows "fetches s' \<le> fetches s + 3 \<and> (res = Inl UnAuthorized \<longrightarrow> fetches s' = fetches s + 3)"
proof -
  from assms consider "rcar_attempts E (resource_url (cl_kbs_host_url (fst s)) r) 3 s = (res, s')"
    | "token_attempts E (resource_url (cl_kbs_host_url (fst s)) r) 3 s = (res, s')"
    by (auto simp: rcar_get_resource_def token_get_resource_def KBS_GET_RESOURCE_MAX_ATTEMPT_def)
  then show ?thesis
  proof cases
    case 1
    then show ?thesis using rcar.bounded rcar.unauthorized by blast
  next
    case 2
    then show ?thesis using token_cl.bounded token_cl.unauthorized by blast
  qed
qed

lemma read_resource_ok:
  "read_resource E key res = Finished (Inr d) \<longleftrightarrow>
     hs_status res = 200 \<and> (\<exists>response. ke_response E (hs_body res) = Some response \<and>
        decrypt_response (ke_codec E) (ke_backend E) key response = Inr d)"
  by (auto simp: read_resource_def result_iff split: option.splits)

lemma http_get_ok:
  assumes "http_get E q s0 = (Inr res, s')"
  shows "\<exists>w. ke_send E q w = (Inr res, net_world (snd s')) \<and> net_sent (snd s') = net_sent (snd s0) @ [q] \<and> fst s' = fst s0"
  using assms by (cases s0) (auto simp: http_get_def result_iff)

text \<open>The answer that a fetched resource comes from: decrypted with the client's key, with this request sent last.\<close>

definition fetched ::
  "('w, 'b, 'sk, 'pt, 'rk) kbs_env \<Rightarrow> http_request \<Rightarrow> bytes \<Rightarrow> ('w, 'sk, 'rk) session \<Rightarrow> bool" where
  "fetched E q d s' \<longleftrightarrow>
     (\<exists>w res response. net_sent (snd s') \<noteq> [] \<and> last (net_sent (snd s')) = q \<and>
        ke_send E q w = (Inr res, net_world (snd s')) \<and> hs_status res = 200 \<and>
        ke_response E (hs_body res) = Some response \<and>
        decrypt_response (ke_codec E) (ke_backend E) (cl_tee_key (fst s')) response = Inr d)"

lemma fetchedI:
  "http_get E q s0 = (Inr res, s') \<Longrightarrow> read_resource E (cl_tee_key (fst s')) res = Finished (Inr d) \<Longrightarrow> fetched E q d s'"
  using http_get_ok [of E q s0 res s'] unfolding fetched_def read_resource_ok by auto

text \<open>
  C33. Data that a client returns for a resource is the decryption, with its key, of the answer to
  its last request, a GET of the resource's URL that the service answered with status 200; the token
  client authenticates that request with the token it then holds.
\<close>

theorem fetched_resource_genuine:
  "(rcar_get_resource E r s = (Inr d, s') \<longrightarrow>
     fetched E (get_request (resource_url (cl_kbs_host_url (fst s)) r) None) d s') \<and>
   (token_get_resource E r s = (Inr d, s') \<longrightarrow>
     (\<exists>t. cl_token (fst s') = Some t \<and>
        fetched E (get_request (resource_url (cl_kbs_host_url (fst s)) r) (Some (tk_content t))) d s'))"
proof (intro conjI impI)
  assume "rcar_get_resource E r s = (Inr d, s')"
  then show "fetched E (get_request (resource_url (cl_kbs_host_url (fst s)) r) None) d s'"
    unfolding rcar_get_resource_def using rcar.result fetchedI by blast
next
  let ?url = "resource_url (cl_kbs_host_url (fst s)) r"
  assume "token_get_resource E r s = (Inr d, s')"
  then obtain s0 res where a: "token_attempt E ?url s0 = (Inr res, s')"
    and read: "read_resource E (cl_tee_key (fst s')) res = Finished (Inr d)"
    unfolding token_get_resource_def using token_cl.result by blast
  from a obtain t s1 where t: "ensure_token E s0 = (Inr t, s1)"
    and get: "http_get E (get_request ?url (Some (tk_content t))) s1 = (Inr res, s')"
    by (auto simp: token_attempt_def result_iff)
  have "cl_token (fst s') = Some t" using ensure_token_ok [OF t] http_get_count [OF get] by simp
  then show "\<exists>t. cl_token (fst s') = Some t \<and> fetched E (get_request ?url (Some (tk_content t))) d s'"
    using fetchedI [OF get read] by blast
qed

subsection \<open>The handshake\<close>

lemma attest_loop_ok:
  "attest_loop E q n (c, nw) = (Inr res, s') \<Longrightarrow> n < max_retries \<Longrightarrow>
   \<exists>k w. 1 \<le> k \<and> k + n \<le> max_retries \<and> fst s' = c \<and> net_sent (snd s') = net_sent nw @ replicate k q \<and>
     ke_send E q w = (Inr res, net_world (snd s'))"
proof (induction E q n "(c, nw)" arbitrary: nw rule: attest_loop.induct)
  case (1 E q n)
  obtain x w1 where send: "send E q (c, nw) = (x, (c, \<lparr>net_world = w1, net_sent = net_sent nw @ [q]\<rparr>))"
    "ke_send E q (net_world nw) = (x, w1)"
    by (cases "ke_send E q (net_world nw)") (auto simp: send_iff)
  show ?case
  proof (cases x)
    case (Inr res')
    then have "attest_loop E q n (c, nw) = (Inr res', (c, \<lparr>net_world = w1, net_sent = net_sent nw @ [q]\<rparr>))"
      using send by (subst attest_loop.simps) simp
    then show ?thesis
      using "1.prems" send Inr by (intro exI [of _ 1] exI [of _ "net_world nw"]) auto
  next
    case (Inl f)
    then obtain b e where f: "x = Inl (HttpFailure b e)" by (cases f) auto
    let ?n1 = "\<lparr>net_world = w1, net_sent = net_sent nw @ [q]\<rparr>"
    have step: "b \<and> \<not> max_retries \<le> n + 1 \<and> attest_loop E q (n + 1) (c, ?n1) = (Inr res, s')"
      using "1.prems"(1) send f by (subst (asm) attest_loop.simps) (auto split: if_splits)
    then obtain k w where "1 \<le> k" "k + (n + 1) \<le> max_retries" "fst s' = c"
      "net_sent (snd s') = net_sent ?n1 @ replicate k q" "ke_send E q w = (Inr res, net_world (snd s'))"
      using "1.hyps" [OF send(1) [symmetric] f refl] by auto
    then show ?thesis by (intro exI [of _ "Suc k"] exI [of _ w]) auto
  qed
qed

text \<open>
  What a handshake of the client \<open>c\<close> that ends with the token \<open>t\<close> has done: the requests \<open>qs\<close> ask for a
  challenge and then send, up to three times, evidence whose report data is the hash of the client's
  public key and of the challenge's nonce (the nonce itself on IBM SE).
\<close>

definition attested ::
  "('w, 'b, 'sk, 'pt, 'rk) kbs_env \<Rightarrow> ('sk, 'rk) kbs_client \<Rightarrow> tee \<Rightarrow> http_request list \<Rightarrow> token \<Rightarrow> 'w \<Rightarrow> bool" where
  "attested E c tee qs t w' \<longleftrightarrow>
     (let pubkey = export_pubkey (ke_codec E) (ke_backend E) (cl_tee_key c)
      in \<exists>w1 w2 w3 w4 res ch alg data ev evj k res' tok.
           ke_send E (auth_request c tee) w1 = (Inr res, w2) \<and> hs_status res = 200 \<and>
           ke_challenge E (hs_body res) = Some ch \<and> get_hash_algorithm (ch_extra_params ch) = Inr alg \<and>
           ke_to_string E (runtime_data_json E pubkey (ch_nonce ch)) = Some data \<and>
           ke_evidence E (hash_runtime_data (ke_hash E) data (ch_nonce ch) tee alg) w2 = (Inr ev, w3) \<and>
           ke_from_str E ev = Some evj \<and>
           1 \<le> k \<and> k \<le> max_retries \<and>
           qs = auth_request c tee # replicate k (attest_request c pubkey evj) \<and>
           ke_send E (attest_request c pubkey evj) w4 = (Inr res', w') \<and> hs_status res' = 200 \<and>
           ke_attest_token E (hs_body res') = Some tok \<and> token_new E tok = Some t)"

lemma read_challenge_ok:
  "read_challenge E res = Inr ch \<longleftrightarrow> hs_status res = 200 \<and> ke_challenge E (hs_body res) = Some ch"
  by (auto simp: read_challenge_def result_iff split: option.splits)

lemma read_attest_token_ok:
  "read_attest_token E res = Inr t \<longleftrightarrow>
     hs_status res = 200 \<and> (\<exists>tok. ke_attest_token E (hs_body res) = Some tok \<and> token_new E tok = Some t)"
  by (auto simp: read_attest_token_def result_iff split: option.splits)

lemma exchange_attested:
  assumes "rcar_exchange E c tee (c0, nw) = (Inr t, s')"
  shows "\<exists>qs. fst s' = c0 \<and> net_sent (snd s') = net_sent nw @ qs \<and> attested E c tee qs t (net_world (snd s'))"
proof -
  let ?pub = "export_pubkey (ke_codec E) (ke_backend E) (cl_tee_key c)"
  let ?n1 = "\<lambda>w. \<lparr>net_world = w, net_sent = net_sent nw @ [auth_request c tee]\<rparr>"
  from assms obtain res ch w2 where auth:
    "ke_send E (auth_request c tee) (net_world nw) = (Inr res, w2)"
    "read_challenge E res = Inr ch" "rcar_attest E c tee ch (c0, ?n1 w2) = (Inr t, s')"
    by (auto simp: rcar_exchange_def result_iff)
  from auth(3) obtain alg data ev evj w3 res' where steps:
    "get_hash_algorithm (ch_extra_params ch) = Inr alg"
    "ke_to_string E (runtime_data_json E ?pub (ch_nonce ch)) = Some data"
    "ke_evidence E (hash_runtime_data (ke_hash E) data (ch_nonce ch) tee alg) w2 = (Inr ev, w3)"
    "ke_from_str E ev = Some evj"
    "attest_loop E (attest_request c ?pub evj) 0 (c0, ?n1 w3) = (Inr res', s')"
    "read_attest_token E res' = Inr t"
    by (auto simp: rcar_attest_def Let_def generate_evidence_def result_iff)
  from attest_loop_ok [OF steps(5)] obtain k w4 where
    "1 \<le> k" "k \<le> max_retries" "fst s' = c0"
    "net_sent (snd s') = net_sent nw @ [auth_request c tee] @ replicate k (attest_request c ?pub evj)"
    "ke_send E (attest_request c ?pub evj) w4 = (Inr res', net_world (snd s'))"
    by (auto simp: max_retries_def)
  then show ?thesis
    using auth(1,2) steps(1-4,6) unfolding attested_def Let_def read_challenge_ok read_attest_token_ok
    by (intro exI [of _ "auth_request c tee # replicate k (attest_request c ?pub evj)"]) fastforce
qed

lemma client_tee_ok:
  "client_tee_type E (c, nw) = (Inr tee, s1) \<Longrightarrow>
     fst s1 = c\<lparr>cl_tee := Initializated tee\<rparr> \<and> net_sent (snd s1) = net_sent nw"
  by (cases "cl_tee c") (auto simp: client_tee_type_def result_iff)

lemma attested_tee: "attested E (c\<lparr>cl_tee := x\<rparr>) = attested E c"
  by (intro ext) (simp add: attested_def auth_request_def attest_request_def)


lemma handshake_fails_token: "rcar_handshake E s = (Inl e, s') \<Longrightarrow> cl_token (fst s') = cl_token (fst s)"
proof -
  assume "rcar_handshake E s = (Inl e, s')"
  then obtain r s1 where tee: "client_tee_type E s = (r, s1)"
    and rest: "case r of Inl e' \<Rightarrow> s' = s1 | Inr t \<Rightarrow> st_then (rcar_exchange E (fst s1) t) store_token s1 = (Inl e, s')"
    by (cases "client_tee_type E s") (auto simp: rcar_handshake_def st_then_def split: sum.splits)
  have "same_token s s1" using framedD [OF fr_token.framed_client_tee tee] .
  moreover have "same_token s1 s'" if "r = Inr t" for t
  proof -
    have "fst (rcar_exchange E (fst s1) t s1) = Inl e \<and> snd (rcar_exchange E (fst s1) t s1) = s'"
      using rest that by (auto simp: st_then_def store_token_def split: prod.splits sum.splits)
    then show ?thesis
      using fr_token.framed_exchange [of E "fst s1" t] unfolding framed_def by blast
  qed
  ultimately show ?thesis using rest by (cases r) (auto simp: same_token_def)
qed

lemma handshake_auths: "rcar_handshake E s = (r, s') \<Longrightarrow> auths s' \<le> Suc (auths s)"
proof -
  assume h: "rcar_handshake E s = (r, s')"
  obtain x s1 where tee: "client_tee_type E s = (x, s1)" by (metis surj_pair)
  have a1: "auths s1 = auths s"
    using framedD [OF fr_auth.framed_client_tee tee] by (simp add: same_auths_def)
  have attest: "framed same_auths (rcar_attest E c t ch)" for c t ch
    by (rule fr_auth.framed_attest) (simp add: is_auth_def attest_request_def)
  have store: "framed same_auths (store_token t)" for t
    by (auto simp: framed_def store_token_def same_auths_def auths_def)
  have "auths (snd (st_then (rcar_exchange E c t) store_token s1)) \<le> Suc (auths s1)" for c t
  proof -
    obtain y s2 where send: "send E (auth_request c t) s1 = (y, s2)" by (metis surj_pair)
    then have "auths s2 = Suc (auths s1)"
      by (cases s1) (auto simp: send_iff auths_def is_auth_def auth_request_def build_request_def)
    moreover have "framed same_auths (st_then (lift_result (read_challenge E res)) (\<lambda>ch. rcar_attest E c t ch))" for res
      by (intro fr_auth.framed_then fr_auth.framed_basic attest)
    then have "framed same_auths (st_then (st_then (lift_result (read_challenge E res)) (\<lambda>ch. rcar_attest E c t ch)) store_token)" for res
      by (rule fr_auth.framed_then) (rule store)
    ultimately show ?thesis using send
      by (cases y) (auto simp: rcar_exchange_def st_then_def st_map_err_def framed_def same_auths_def
          simp del: split_paired_All split: prod.splits sum.splits)
  qed
  from this [of "fst s1" "projr x"] show ?thesis using h tee a1 by (cases x) (auto simp: rcar_handshake_def)
qed

subsection \<open>Tokens\<close>

lemma repeat_step:
  "repeat_rcar_handshake E n s =
     (let (x, s1) = rcar_handshake E s
      in case x of
           Inr _ \<Rightarrow> (Inr (), s1)
         | Inl e \<Rightarrow> if RCAR_MAX_ATTEMPT \<le> n then (Inl (RcarHandshake e), s1) else repeat_rcar_handshake E (Suc n) s1)"
  by (subst repeat_rcar_handshake.simps) (simp split: prod.splits sum.splits)

text \<open>The session after a number of handshakes, whatever they return.\<close>

definition after_handshakes ::
  "('w, 'b, 'sk, 'pt, 'rk) kbs_env \<Rightarrow> nat \<Rightarrow> ('w, 'sk, 'rk) session \<Rightarrow> ('w, 'sk, 'rk) session" where
  "after_handshakes E i = ((\<lambda>s. snd (rcar_handshake E s)) ^^ i)"

lemma after_handshakes_simps [simp]:
  "after_handshakes E 0 s = s"
  "after_handshakes E (Suc i) s = after_handshakes E i (snd (rcar_handshake E s))"
  by (simp_all add: after_handshakes_def funpow_Suc_right del: funpow.simps(2))

text \<open>A session in which a handshake has just succeeded.\<close>

definition handshaken :: "('w, 'b, 'sk, 'pt, 'rk) kbs_env \<Rightarrow> ('w, 'sk, 'rk) session \<Rightarrow> bool" where
  "handshaken E s' \<longleftrightarrow> (\<exists>s0. rcar_handshake E s0 = (Inr (), s'))"

lemma handshakenI: "rcar_handshake E s0 = (Inr (), s') \<Longrightarrow> handshaken E s'"
  unfolding handshaken_def by blast

lemma handshake_token: "handshaken E s' \<Longrightarrow> cl_token (fst s') \<noteq> None"
  by (auto simp: handshaken_def rcar_handshake_def st_then_Inr_iff store_token_def)

lemma repeat_ok_iff:
  "n \<le> RCAR_MAX_ATTEMPT \<Longrightarrow>
   is_ok (fst (repeat_rcar_handshake E n s)) \<longleftrightarrow>
     (\<exists>i \<le> RCAR_MAX_ATTEMPT - n. is_ok (fst (rcar_handshake E (after_handshakes E i s))))"
proof (induction "RCAR_MAX_ATTEMPT - n" arbitrary: n s)
  case 0
  then have "n = RCAR_MAX_ATTEMPT" by simp
  then show ?case
    by (subst repeat_step) (auto split: prod.splits sum.splits)
next
  case (Suc d)
  then have n: "\<not> RCAR_MAX_ATTEMPT \<le> n" "RCAR_MAX_ATTEMPT - n = Suc d" "d = RCAR_MAX_ATTEMPT - Suc n" by auto
  obtain x s1 where h: "rcar_handshake E s = (x, s1)" by (metis surj_pair)
  show ?case
  proof (cases x)
    case (Inr u)
    then show ?thesis using h n by (subst repeat_step) (auto intro: exI [of _ 0])
  next
    case (Inl e)
    then have "is_ok (fst (repeat_rcar_handshake E n s)) \<longleftrightarrow> is_ok (fst (repeat_rcar_handshake E (Suc n) s1))"
      using h n by (subst repeat_step) simp
    also have "\<dots> \<longleftrightarrow> (\<exists>i \<le> d. is_ok (fst (rcar_handshake E (after_handshakes E i s1))))"
      using Suc.hyps(1) [OF n(3)] n by simp
    also have "\<dots> \<longleftrightarrow> (\<exists>i \<le> Suc d. is_ok (fst (rcar_handshake E (after_handshakes E i s))))"
    proof -
      have "(\<exists>i \<le> Suc d. P i) \<longleftrightarrow> P 0 \<or> (\<exists>i \<le> d. P (Suc i))" for P :: "nat \<Rightarrow> bool"
        by (metis Suc_le_mono not0_implies_Suc le0)
      then show ?thesis using h Inl by simp
    qed
    finally show ?thesis using n by simp
  qed
qed

lemma repeat_spec:
  "repeat_rcar_handshake E n s = (r, s') \<Longrightarrow> n \<le> RCAR_MAX_ATTEMPT \<Longrightarrow>
   auths s' \<le> auths s + Suc (RCAR_MAX_ATTEMPT - n) \<and> keeps s s' \<and>
   (r = Inr () \<longrightarrow> handshaken E s') \<and>
   (\<forall>e. r = Inl e \<longrightarrow> (\<exists>e'. e = RcarHandshake e') \<and> cl_token (fst s') = cl_token (fst s))"
proof (induction "RCAR_MAX_ATTEMPT - n" arbitrary: n s)
  case (0 n s)
  obtain x s1 where h: "rcar_handshake E s = (x, s1)" by (metis surj_pair)
  then have "s' = s1" "r = (case x of Inr _ \<Rightarrow> Inr () | Inl e \<Rightarrow> Inl (RcarHandshake e))"
    using 0 by (subst (asm) repeat_step, simp split: sum.splits)+
  then show ?case
    using h handshake_auths [OF h] framedD [OF handshake_keeps h] handshake_fails_token [of E s _ s1]
    by (cases x) (auto intro: handshakenI)
next
  case (Suc d n s)
  then have n: "\<not> RCAR_MAX_ATTEMPT \<le> n" "d = RCAR_MAX_ATTEMPT - Suc n" by auto
  obtain x s1 where h: "rcar_handshake E s = (x, s1)" by (metis surj_pair)
  note frame = handshake_auths [OF h] framedD [OF handshake_keeps h]
  show ?case
  proof (cases x)
    case (Inr u)
    then have "s' = s1" "r = Inr ()" using Suc.prems h by (subst (asm) repeat_step, simp)+
    then show ?thesis using h Inr frame by (auto intro: handshakenI)
  next
    case (Inl e)
    then have "repeat_rcar_handshake E (Suc n) s1 = (r, s')"
      using Suc.prems h n by (subst (asm) repeat_step) simp
    from Suc.hyps(1) [OF n(2) this] show ?thesis
      using n frame handshake_fails_token [of E s e s1] h Inl by (auto simp: keeps_def)
  qed
qed

definition cached_token_valid :: "('w, 'b, 'sk, 'pt, 'rk) kbs_env \<Rightarrow> ('w, 'sk, 'rk) session \<Rightarrow> bool" where
  "cached_token_valid E s \<longleftrightarrow>
     (case cl_token (fst s) of None \<Rightarrow> False | Some t \<Rightarrow> check_valid (ke_now E (net_world (snd s))) t)"

lemma get_token_cases:
  "get_token E s =
     (if cached_token_valid E s then (Inr (the (cl_token (fst s)), cl_tee_key (fst s)), s)
      else st_then (repeat_rcar_handshake E 1) (\<lambda>_ s'. (case cl_token (fst s') of
                 None \<Rightarrow> (Inl AssertionFailed, s')
               | Some t \<Rightarrow> (Inr (t, cl_tee_key (fst s')), s'))) s)"
  by (auto simp: get_token_def cached_token_valid_def split: option.splits)

text \<open>
  C34. A token is handed out with the client's own key, and it is either the stored one, valid now and
  with nothing sent, or the one stored by a handshake that has just succeeded. At most five handshakes
  are tried; when all fail the error is \<open>RcarHandshake\<close> and the stored token is as before. The assertion
  in the code never fails.
\<close>

theorem get_token_correct:
  assumes "get_token E s = (r, s')"
  shows "auths s' \<le> auths s + 5 \<and> cl_tee_key (fst s') = cl_tee_key (fst s) \<and>
    (\<forall>t k. r = Inr (t, k) \<longrightarrow> cl_token (fst s') = Some t \<and> k = cl_tee_key (fst s) \<and>
       (if cached_token_valid E s then s' = s else handshaken E s')) \<and>
    (\<forall>e. r = Inl e \<longrightarrow> (\<exists>e'. e = RcarHandshake e') \<and> cl_token (fst s') = cl_token (fst s))"
proof (cases "cached_token_valid E s")
  case True
  then show ?thesis
    using assms by (auto simp: get_token_cases cached_token_valid_def split: option.splits)
next
  case False
  obtain x s1 where rep: "repeat_rcar_handshake E 1 s = (x, s1)" by (metis surj_pair)
  have spec: "auths s1 \<le> auths s + 5" "keeps s s1"
    "x = Inr () \<longrightarrow> handshaken E s1"
    "\<forall>e. x = Inl e \<longrightarrow> (\<exists>e'. e = RcarHandshake e') \<and> cl_token (fst s1) = cl_token (fst s)"
    using repeat_spec [OF rep] by (auto simp: RCAR_MAX_ATTEMPT_def)
  have tok: "cl_token (fst s1) \<noteq> None" if "x = Inr ()"
    using spec(3) that handshake_token by blast
  show ?thesis
  proof (cases x)
    case (Inl e)
    then show ?thesis using assms False rep spec by (auto simp: get_token_cases keeps_def)
  next
    case (Inr u)
    then show ?thesis using assms False rep spec tok by (auto simp: get_token_cases keeps_def)
  qed
qed

text \<open>
  A client without a valid token gets one exactly if one of the next five handshakes succeeds,
  each continuing where the failed one before it stopped.
\<close>

lemma get_token_live:
  assumes "\<not> cached_token_valid E s"
  shows "is_ok (fst (get_token E s)) \<longleftrightarrow>
    (\<exists>i < 5. is_ok (fst (rcar_handshake E (after_handshakes E i s))))"
proof -
  obtain x s1 where rep: "repeat_rcar_handshake E 1 s = (x, s1)" by (metis surj_pair)
  have tok: "cl_token (fst s1) \<noteq> None" if "x = Inr ()"
    using repeat_spec [OF rep] that handshake_token [of E s1] by (simp add: RCAR_MAX_ATTEMPT_def)
  have "is_ok (fst (get_token E s)) \<longleftrightarrow> is_ok x"
    using assms rep tok by (cases x) (auto simp: get_token_cases split: option.splits)
  also have "\<dots> \<longleftrightarrow> (\<exists>i \<le> RCAR_MAX_ATTEMPT - 1. is_ok (fst (rcar_handshake E (after_handshakes E i s))))"
    using repeat_ok_iff [of 1 E s] rep by (simp add: RCAR_MAX_ATTEMPT_def)
  also have "\<dots> \<longleftrightarrow> (\<exists>i < 5. is_ok (fst (rcar_handshake E (after_handshakes E i s))))"
    by (auto simp: RCAR_MAX_ATTEMPT_def less_Suc_eq_le numeral_eq_Suc)
  finally show ?thesis .
qed

section \<open>An instance\<close>

text \<open>
  A service that refuses the first request and then answers: the world counts the requests, bodies
  are plain words.
\<close>

definition demo_response :: kbs_response where
  "demo_response = \<lparr>rs_protected = \<lparr>ph_alg = ''RSA1_5'', ph_enc = ''A256GCM'', ph_other_fields = []\<rparr>,
     rs_encrypted_key = replicate 32 (CHR ''k''), rs_iv = replicate 12 (CHR ''i''), rs_ciphertext = ''payload'',
     rs_tag = replicate 16 (CHR ''k'')\<rparr>"

definition demo_send :: "http_request \<Rightarrow> (nat, http_failure, string http_response) stateful" where
  "demo_send q w =
     (Inr (if hr_method q = GET then
             (if w = 0 then \<lparr>hs_status = 401, hs_body = ''error''\<rparr> else \<lparr>hs_status = 200, hs_body = ''resource''\<rparr>)
           else (case hr_body q of
                   RequestBody _ _ _ \<Rightarrow> \<lparr>hs_status = 200, hs_body = ''challenge''\<rparr>
                 | _ \<Rightarrow> \<lparr>hs_status = 200, hs_body = ''h.c.s''\<rparr>)), Suc w)"

definition demo_token :: token where
  "demo_token = \<lparr>tk_content = ''h.c.s'', tk_exp = Some 100, tk_nbf = None\<rparr>"

definition demo_kbs :: "(nat, string, nat, nat, nat) kbs_env" where
  "demo_kbs = \<lparr>ke_send = demo_send, ke_tee_type = st_ok (OtherTee ''tdx''), ke_evidence = (\<lambda>d. st_ok d),
     ke_provider_token = st_ok (demo_token, TeeRsa 1), ke_now = (\<lambda>w. w),
     ke_challenge = (\<lambda>b. if b = ''challenge'' then Some \<lparr>ch_nonce = ''n'', ch_extra_params = JNull\<rparr> else None),
     ke_error_info = Some, ke_text = Some, ke_attest_token = Some,
     ke_response = (\<lambda>b. if b = ''resource'' then Some demo_response else None),
     ke_pubkey_json = (\<lambda>_. JNull), ke_to_string = (\<lambda>_. Some ''data''), ke_from_str = (\<lambda>s. Some (JStr s)),
     ke_jwt_claims = (\<lambda>_. Some (Some 100, None)), ke_hash = (\<lambda>_ d. d), ke_codec = demo_codec,
     ke_backend = Rust demo_rc\<rparr>"

definition demo_session :: "(nat, nat, nat) session" where
  "demo_session = (\<lparr>cl_tee = Unitialized, cl_tee_key = TeeRsa 1, cl_kbs_host_url = ''http://kbs'', cl_token = None\<rparr>,
     \<lparr>net_world = 0, net_sent = []\<rparr>)"

lemmas demo_run = demo_kbs_def demo_session_def demo_send_def demo_response_def demo_codec_def demo_rc_def
  st_then_def st_map_err_def lift_result_def in_world_def send_def store_token_def http_get_def get_request_def
  client_tee_type_def auth_request_def build_request_def read_challenge_def rcar_exchange_def rcar_attest_def
  get_hash_algorithm_def generate_evidence_def attest_request_def read_attest_token_def token_new_def
  rcar_handshake_def renew_handshake_def read_resource_def decrypt_response_def unwrap_cek_def decrypt_aead_def
  rust_gcm_decrypt_detached_def array_from_slice_def vec_resize_def attest_loop.simps

lemma demo_handshake:
  "\<exists>s'. rcar_handshake demo_kbs demo_session = (Inr (), s') \<and> cl_token (fst s') = Some demo_token"
  by (simp add: demo_run demo_token_def)

definition demo_ready :: "(nat, nat, nat) session" where
  "demo_ready = (fst demo_session, \<lparr>net_world = 1, net_sent = []\<rparr>)"

lemma demo_read:
  "read_resource demo_kbs (TeeRsa 1) \<lparr>hs_status = 200, hs_body = ''resource''\<rparr> = Finished (Inr ''payload'')"
  by (simp add: read_resource_def decrypt_response_def unwrap_cek_def decrypt_aead_def demo_kbs_def demo_codec_def
      demo_response_def demo_rc_def rust_gcm_decrypt_detached_def array_from_slice_def vec_resize_def)

lemma demo_get:
  "http_get demo_kbs (get_request url None) demo_ready =
     (Inr \<lparr>hs_status = 200, hs_body = ''resource''\<rparr>,
      (fst demo_session, \<lparr>net_world = 2, net_sent = [get_request url None]\<rparr>))"
  by (simp add: http_get_def st_map_err_def send_def demo_ready_def demo_kbs_def demo_send_def get_request_def)

lemma demo_fetch: "fst (rcar_get_resource demo_kbs demo_resource demo_ready) = Inr ''payload''"
proof -
  have key: "cl_tee_key (fst demo_session) = TeeRsa 1" by (simp add: demo_session_def)
  have "fst (rcar_attempts demo_kbs url (Suc n) demo_ready) = Inr ''payload''" for url n
    using demo_get [of url] demo_read key by simp
  from this [of _ 2] show ?thesis
    by (simp add: rcar_get_resource_def KBS_GET_RESOURCE_MAX_ATTEMPT_def numeral_3_eq_3 numeral_2_eq_2 del: rcar_attempts.simps)
qed

theorem fetch_bounded_witness:
  "fetches (snd (rcar_get_resource demo_kbs demo_resource demo_session)) \<le> fetches demo_session + 3"
  using fetch_bounded [of "rcar_get_resource demo_kbs" demo_kbs demo_resource demo_session
      "fst (rcar_get_resource demo_kbs demo_resource demo_session)"
      "snd (rcar_get_resource demo_kbs demo_resource demo_session)"] by simp

theorem fetched_resource_genuine_witness:
  "fetched demo_kbs (get_request (resource_url ''http://kbs'' demo_resource) None) ''payload''
     (snd (rcar_get_resource demo_kbs demo_resource demo_ready))"
proof -
  have "rcar_get_resource demo_kbs demo_resource demo_ready =
      (Inr ''payload'', snd (rcar_get_resource demo_kbs demo_resource demo_ready))"
    using demo_fetch by (metis prod.collapse)
  from fetched_resource_genuine [THEN conjunct1, rule_format, OF this] show ?thesis
    by (simp add: demo_ready_def demo_session_def)
qed


theorem get_token_correct_witness:
  "auths (snd (get_token demo_kbs demo_session)) \<le> auths demo_session + 5"
  using get_token_correct [of demo_kbs demo_session "fst (get_token demo_kbs demo_session)"
      "snd (get_token demo_kbs demo_session)"] by simp

lemma get_token_live_witness: "is_ok (fst (get_token demo_kbs demo_session))"
proof -
  have "\<not> cached_token_valid demo_kbs demo_session"
    by (simp add: cached_token_valid_def demo_session_def)
  moreover have "is_ok (fst (rcar_handshake demo_kbs (after_handshakes demo_kbs 0 demo_session)))"
    using demo_handshake by auto
  ultimately show ?thesis
    using get_token_live [of demo_kbs demo_session] by (metis zero_less_numeral)
qed

end
