(* ===== verification/Kms_Client.thy ===== *)
theory Kms_Client
  imports Kbs_Client
begin

text \<open>
  \<open>confidential-data-hub/kms\<close> and \<open>attestation-agent/src/config/aa_kbc_params.rs\<close>: where the data hub
  gets secrets from. The key broker client is created on first use from the parameters in the
  environment and kept in a static variable, here the field \<open>cw_kbs\<close> of the world; it is the token
  client of the KBS protocol or the table of the offline files. The drivers of other key management
  services are parameters. The model is the build without the feature \<open>sev\<close>.
\<close>

section \<open>Parameters\<close>

record aa_kbc_params =
  akp_kbc :: string
  akp_uri :: string

datatype param_error = IllegalFormat string | ParamIo string | MissingInCmdline

definition aa_kbc_params_default :: aa_kbc_params where
  "aa_kbc_params_default = \<lparr>akp_kbc = ''offline_fs_kbc'', akp_uri = ''''\<rparr>"

definition aa_kbc_params_try_from :: "string \<Rightarrow> (param_error, aa_kbc_params) result" where
  "aa_kbc_params_try_from value =
     (let segments = split_str ''::'' value
      in if length segments \<noteq> 2 then Inl (IllegalFormat value)
         else Inr \<lparr>akp_kbc = segments ! 0, akp_uri = segments ! 1\<rparr>)"

text \<open>The value of a parameter of the kernel command line, which is read from \<open>/proc/cmdline\<close>.\<close>

definition cmdline_value :: "string \<Rightarrow> string \<Rightarrow> string option" where
  "cmdline_value key cmdline =
     (case List.find (starts_with key) (split_ascii_ws cmdline) of
        None \<Rightarrow> None
      | Some para \<Rightarrow> strip_prefix key para)"

definition from_cmdline :: "(string, string) result \<Rightarrow> (param_error, string) result" where
  "from_cmdline cmdline_file =
     and_then (map_err ParamIo cmdline_file) (\<lambda>cmdline.
      ok_or MissingInCmdline (cmdline_value ''agent.aa_kbc_params='' cmdline))"

definition get_value :: "(string \<rightharpoonup> string) \<Rightarrow> (string, string) result \<Rightarrow> (param_error, string) result" where
  "get_value env cmdline_file =
     (case env ''AA_KBC_PARAMS'' of Some params \<Rightarrow> Inr params | None \<Rightarrow> from_cmdline cmdline_file)"

definition aa_kbc_params_new ::
  "(string \<rightharpoonup> string) \<Rightarrow> (string, string) result \<Rightarrow> (param_error, aa_kbc_params) result" where
  "aa_kbc_params_new env cmdline_file =
     (case get_value env cmdline_file of
        Inl _ \<Rightarrow> Inr aa_kbc_params_default
      | Inr value \<Rightarrow> aa_kbc_params_try_from value)"

section \<open>The world of the data hub\<close>

datatype ('sk, 'rk) real_client =
    CcClient "('sk, 'rk) kbs_client"
  | OfflineFs "string \<rightharpoonup> bytes"

record ('w, 'sk, 'rk) cdh_world =
  cw_env :: "string \<rightharpoonup> string"
  cw_files :: "string \<rightharpoonup> bytes"
  cw_kbs :: "('sk, 'rk) real_client option"
  cw_net :: "'w network"

datatype kms_error =
    AaKbcParamsMissing
  | BadAaKbcParams param_error
  | UnknownKbc string
  | AaProviderFailed string
  | KbsBuildFailed build_error
  | KbsGetResource kbs_error
  | IllegalResourceUri string
  | OfflineNotFound string
  | OfflineIllegalFile string
  | OfflineBase64 string
  | UnsupportedProvider string
  | DriverError string

type_synonym settings = "(string \<times> json) list"

text \<open>
  A driver of a key management service: its creation from the settings and its operation on a cipher
  text or name, a key id and annotations.
\<close>

record 'w driver =
  dr_new :: "settings \<Rightarrow> ('w, string, unit) stateful"
  dr_call :: "settings \<Rightarrow> bytes \<Rightarrow> string \<Rightarrow> settings \<Rightarrow> ('w, string, bytes) stateful"

record ('w, 'b, 'sk, 'pt, 'rk) cdh_env =
  ce_kbs :: "('w, 'b, 'sk, 'pt, 'rk) kbs_env"
  ce_url_parse :: "string \<Rightarrow> url option"
  ce_aa_connect :: "('w, string, unit) stateful"
  ce_cert_ok :: "string \<Rightarrow> bool"
  ce_json_map :: "bytes \<Rightarrow> (string \<times> string) list option"
  ce_b64 :: "string \<Rightarrow> bytes option"
  ce_decryptors :: "string \<rightharpoonup> 'w driver"
  ce_vaults :: "string \<rightharpoonup> 'w driver"

definition on_network ::
  "('w, 'e, 'a) stateful \<Rightarrow> (('w, 'sk, 'rk) cdh_world, 'e, 'a) stateful" where
  "on_network m W = (case m (net_world (cw_net W)) of
     (r, w) \<Rightarrow> (r, W\<lparr>cw_net := (cw_net W)\<lparr>net_world := w\<rparr>\<rparr>))"

section \<open>The offline client\<close>

definition KEYS_PATH :: string where "KEYS_PATH = ''/etc/aa-offline_fs_kbc-keys.json''"
definition RESOURCES_PATH :: string where "RESOURCES_PATH = ''/etc/aa-offline_fs_kbc-resources.json''"

definition init_with_file ::
  "('w, 'b, 'sk, 'pt, 'rk) cdh_env \<Rightarrow> (string \<rightharpoonup> bytes) \<Rightarrow> (string \<rightharpoonup> bytes) \<Rightarrow> string \<Rightarrow>
    (kms_error, string \<rightharpoonup> bytes) result" where
  "init_with_file E files resources path =
     (case files path of
        None \<Rightarrow> Inr resources
      | Some content \<Rightarrow>
          and_then (ok_or (OfflineIllegalFile path) (ce_json_map E content)) (\<lambda>m.
           try_fold (\<lambda>res (k, v). and_then (ok_or (OfflineBase64 path) (ce_b64 E v)) (\<lambda>value.
             Inr (res(k \<mapsto> value)))) resources m))"

definition offline_fs_new ::
  "('w, 'b, 'sk, 'pt, 'rk) cdh_env \<Rightarrow> (string \<rightharpoonup> bytes) \<Rightarrow> (kms_error, string \<rightharpoonup> bytes) result" where
  "offline_fs_new E files =
     and_then (init_with_file E files Map.empty KEYS_PATH) (\<lambda>res. init_with_file E files res RESOURCES_PATH)"

definition offline_get_resource :: "(string \<rightharpoonup> bytes) \<Rightarrow> resource_uri \<Rightarrow> (kms_error, bytes) result" where
  "offline_get_resource resources rid =
     ok_or (OfflineNotFound (resource_path rid)) (resources (resource_path rid))"

section \<open>The KBS client\<close>

definition cc_kbc_new ::
  "('w, 'b, 'sk, 'pt, 'rk) cdh_env \<Rightarrow> string \<Rightarrow> (('w, 'sk, 'rk) cdh_world, kms_error, ('sk, 'rk) kbs_client) stateful" where
  "cc_kbc_new E kbs_host_url =
     st_then (st_map_err AaProviderFailed (on_network (ce_aa_connect E))) (\<lambda>_ W.
       (let b = builder_with_provider kbs_host_url;
            b = (case cw_env W ''KBS_CERT'' of Some cert_pem \<Rightarrow> add_kbs_cert cert_pem b | None \<Rightarrow> b)
        in (map_err KbsBuildFailed (build (ce_kbs E) (ce_cert_ok E) b), W)))"

definition cc_get_resource ::
  "('w, 'b, 'sk, 'pt, 'rk) cdh_env \<Rightarrow> ('sk, 'rk) kbs_client \<Rightarrow> resource_uri \<Rightarrow>
    (('w, 'sk, 'rk) cdh_world, kms_error, bytes) stateful" where
  "cc_get_resource E c rid W =
     (case token_get_resource (ce_kbs E) rid (c, cw_net W) of
        (r, (c', n')) \<Rightarrow> (map_err KbsGetResource r, W\<lparr>cw_kbs := Some (CcClient c'), cw_net := n'\<rparr>))"

definition real_client_new ::
  "('w, 'b, 'sk, 'pt, 'rk) cdh_env \<Rightarrow> (('w, 'sk, 'rk) cdh_world, kms_error, ('sk, 'rk) real_client) stateful" where
  "real_client_new E W =
     (case cw_env W ''AA_KBC_PARAMS'' of
        None \<Rightarrow> (Inl AaKbcParamsMissing, W)
      | Some params \<Rightarrow>
          st_then (lift_result (map_err BadAaKbcParams (aa_kbc_params_try_from params))) (\<lambda>params.
            if akp_kbc params = ''cc_kbc'' then
              st_then (cc_kbc_new E (akp_uri params)) (\<lambda>c. st_ok (CcClient c))
            else if akp_kbc params = ''offline_fs_kbc'' then
              (\<lambda>W. (and_then (offline_fs_new E (cw_files W)) (\<lambda>m. Inr (OfflineFs m)), W))
            else st_err (UnknownKbc (akp_kbc params))) W)"

definition ensure_client ::
  "('w, 'b, 'sk, 'pt, 'rk) cdh_env \<Rightarrow> (('w, 'sk, 'rk) cdh_world, kms_error, unit) stateful" where
  "ensure_client E W =
     (if cw_kbs W = None then
        st_then (real_client_new E) (\<lambda>c W'. (Inr (), W'\<lparr>cw_kbs := Some c\<rparr>)) W
      else (Inr (), W))"

definition kbc_client_new ::
  "('w, 'b, 'sk, 'pt, 'rk) cdh_env \<Rightarrow> (('w, 'sk, 'rk) cdh_world, kms_error, unit) stateful" where
  "kbc_client_new = ensure_client"

definition kbs_get_secret ::
  "('w, 'b, 'sk, 'pt, 'rk) cdh_env \<Rightarrow> string \<Rightarrow> (('w, 'sk, 'rk) cdh_world, kms_error, bytes) stateful" where
  "kbs_get_secret E name =
     st_then (lift_result (map_err (\<lambda>_. IllegalResourceUri name) (uri_try_from (ce_url_parse E) name))) (\<lambda>rid.
     st_then (ensure_client E) (\<lambda>_ W.
       (case cw_kbs W of
          None \<Rightarrow> (Inl AaKbcParamsMissing, W)
        | Some (CcClient c) \<Rightarrow> cc_get_resource E c rid W
        | Some (OfflineFs m) \<Rightarrow> (offline_get_resource m rid, W))))"

section \<open>Drivers\<close>

definition lower_str :: "string \<Rightarrow> string" where
  "lower_str = map to_lower"

text \<open>A driver that was created is kept with its settings; a getter may also be the KBS client.\<close>

type_synonym 'w decrypter = "'w driver \<times> settings"

datatype 'w getter = KbsGetter | DriverGetter "'w driver" settings

definition new_decryptor ::
  "('w, 'b, 'sk, 'pt, 'rk) cdh_env \<Rightarrow> string \<Rightarrow> settings \<Rightarrow> (('w, 'sk, 'rk) cdh_world, kms_error, 'w decrypter) stateful" where
  "new_decryptor E provider_name provider_settings =
     (case ce_decryptors E (lower_str provider_name) of
        None \<Rightarrow> st_err (UnsupportedProvider provider_name)
      | Some d \<Rightarrow> st_then (st_map_err DriverError (on_network (dr_new d provider_settings)))
                    (\<lambda>_. st_ok (d, provider_settings)))"

definition kms_decrypt ::
  "'w decrypter \<Rightarrow> bytes \<Rightarrow> string \<Rightarrow> settings \<Rightarrow> (('w, 'sk, 'rk) cdh_world, kms_error, bytes) stateful" where
  "kms_decrypt h ciphertext key_id annotations =
     st_map_err DriverError (on_network (dr_call (fst h) (snd h) ciphertext key_id annotations))"

definition new_getter ::
  "('w, 'b, 'sk, 'pt, 'rk) cdh_env \<Rightarrow> string \<Rightarrow> settings \<Rightarrow> (('w, 'sk, 'rk) cdh_world, kms_error, 'w getter) stateful" where
  "new_getter E provider_name provider_settings =
     (if lower_str provider_name = ''kbs'' then st_then (kbc_client_new E) (\<lambda>_. st_ok KbsGetter)
      else (case ce_vaults E (lower_str provider_name) of
              None \<Rightarrow> st_err (UnsupportedProvider provider_name)
            | Some d \<Rightarrow> st_then (st_map_err DriverError (on_network (dr_new d provider_settings)))
                          (\<lambda>_. st_ok (DriverGetter d provider_settings))))"

definition get_secret ::
  "('w, 'b, 'sk, 'pt, 'rk) cdh_env \<Rightarrow> 'w getter \<Rightarrow> string \<Rightarrow> settings \<Rightarrow> (('w, 'sk, 'rk) cdh_world, kms_error, bytes) stateful" where
  "get_secret E h name annotations =
     (case h of
        KbsGetter \<Rightarrow> kbs_get_secret E name
      | DriverGetter d s \<Rightarrow> st_map_err DriverError (on_network (dr_call d s [] name annotations)))"

section \<open>Properties\<close>

lemma strip_colons: "CHR '':'' \<notin> set a \<Longrightarrow> a \<noteq> [] \<Longrightarrow> strip_prefix ''::'' (a @ s) = None"
  by (cases a) auto

lemma split_once_colons: "CHR '':'' \<notin> set a \<Longrightarrow> split_once_str ''::'' (a @ ''::'' @ b) = Some (a, b)"
proof (induction a)
  case (Cons x a)
  then have "strip_prefix ''::'' (x # a @ ''::'' @ b) = None" using strip_colons [of "x # a"] by simp
  with Cons show ?case by simp
qed (simp add: numeral_2_eq_2)

text \<open>
  The parameters of the key broker client are a client name and a URL around a double colon; a URL that
  has a double colon itself, such as one with an abbreviated IPv6 address, is rejected.
\<close>

lemma aa_kbc_params_parse:
  assumes "CHR '':'' \<notin> set kbc"
  shows "aa_kbc_params_try_from (kbc @ ''::'' @ uri) =
    (if split_once_str ''::'' uri = None then Inr \<lparr>akp_kbc = kbc, akp_uri = uri\<rparr>
     else Inl (IllegalFormat (kbc @ ''::'' @ uri)))"
proof -
  have "split_str ''::'' (kbc @ ''::'' @ uri) = kbc # split_str ''::'' uri"
    using split_once_colons [OF assms] by (subst split_str.simps) simp
  moreover have "length (split_str ''::'' uri) = 1 \<longleftrightarrow> split_once_str ''::'' uri = None"
    by (subst (1) split_str.simps) (auto simp: split_str.simps split: option.splits)
  ultimately show ?thesis
    by (auto simp: aa_kbc_params_try_from_def Let_def split_str.simps [of _ uri])
qed

lemma ipv6_kbs_rejected: "\<not> is_ok (aa_kbc_params_try_from ''cc_kbc::http://[::1]:8080'')"
  using aa_kbc_params_parse [of "''cc_kbc''" "''http://[::1]:8080''"] by simp

text \<open>What a step of the data hub keeps of the world: the environment, the files and an existing client's kind.\<close>

fun same_kind :: "('sk, 'rk) real_client \<Rightarrow> ('sk, 'rk) real_client \<Rightarrow> bool" where
  "same_kind (CcClient c) (CcClient c') = True"
| "same_kind (OfflineFs m) (OfflineFs m') = (m = m')"
| "same_kind _ _ = False"

lemma same_kind_refl [simp]: "same_kind c c"
  by (cases c) simp_all

definition client_stays :: "('w, 'sk, 'rk) cdh_world \<Rightarrow> ('w, 'sk, 'rk) cdh_world \<Rightarrow> bool" where
  "client_stays W W' \<longleftrightarrow> cw_env W' = cw_env W \<and> cw_files W' = cw_files W \<and>
     (\<forall>c. cw_kbs W = Some c \<longrightarrow> (\<exists>c'. cw_kbs W' = Some c' \<and> same_kind c c'))"

lemma on_network_stays: "framed client_stays (on_network m)"
  by (auto simp: framed_def on_network_def client_stays_def split: prod.splits)

lemma client_stays_refl [simp]: "client_stays W W"
  by (simp add: client_stays_def)

lemma same_kind_trans: "same_kind a b \<Longrightarrow> same_kind b c \<Longrightarrow> same_kind a c"
  by (cases a; cases b; cases c) auto

lemma client_stays_trans: "client_stays W W1 \<Longrightarrow> client_stays W1 W2 \<Longrightarrow> client_stays W W2"
  unfolding client_stays_def by (metis same_kind_trans)

lemma client_stays_then:
  "framed client_stays m \<Longrightarrow> (\<And>a. framed client_stays (f a)) \<Longrightarrow> framed client_stays (st_then m f)"
  using client_stays_trans by (rule framed_st_then)

lemma cc_kbc_new_stays: "framed client_stays (cc_kbc_new E url)"
  unfolding cc_kbc_new_def
  by (intro client_stays_then framed_st_map_err on_network_stays)
    (auto simp: framed_def Let_def)

lemma real_client_new_stays: "client_stays W (snd (real_client_new E W))"
proof -
  have "framed client_stays (st_then (lift_result x) (\<lambda>params.
            if akp_kbc params = ''cc_kbc'' then
              st_then (cc_kbc_new E (akp_uri params)) (\<lambda>c. st_ok (CcClient c))
            else if akp_kbc params = ''offline_fs_kbc'' then
              (\<lambda>W. (and_then (offline_fs_new E (cw_files W)) (\<lambda>m. Inr (OfflineFs m)), W))
            else st_err (UnknownKbc (akp_kbc params))))" for x
  proof (rule client_stays_then)
    show "framed client_stays (lift_result x)" by (simp add: framed_def lift_result_def)
  next
    fix params
    have "framed client_stays (st_then (cc_kbc_new E (akp_uri params)) (\<lambda>c. st_ok (CcClient c) :: (_, kms_error, _) stateful))"
      by (rule client_stays_then [OF cc_kbc_new_stays]) (simp add: framed_def)
    then show "framed client_stays (if akp_kbc params = ''cc_kbc'' then
              st_then (cc_kbc_new E (akp_uri params)) (\<lambda>c. st_ok (CcClient c))
            else if akp_kbc params = ''offline_fs_kbc'' then
              (\<lambda>W. (and_then (offline_fs_new E (cw_files W)) (\<lambda>m. Inr (OfflineFs m)), W))
            else st_err (UnknownKbc (akp_kbc params)))"
      by (auto simp: framed_def)
  qed
  then show ?thesis
    by (auto simp: real_client_new_def framed_def split: option.splits)
qed

lemma ensure_client_spec:
  assumes "ensure_client E W = (r, W')"
  shows "client_stays W W' \<and> (r = Inr () \<longrightarrow> cw_kbs W' \<noteq> None) \<and> (cw_kbs W \<noteq> None \<longrightarrow> r = Inr () \<and> W' = W)"
proof (cases "cw_kbs W = None")
  case True
  obtain x W1 where n: "real_client_new E W = (x, W1)" by (metis surj_pair)
  then have "client_stays W W1" using real_client_new_stays by (metis snd_conv)
  then show ?thesis
    using assms True n by (cases x) (auto simp: ensure_client_def client_stays_def)
next
  case False
  then show ?thesis using assms by (auto simp: ensure_client_def)
qed

lemma cc_get_resource_stays:
  "cw_kbs W = Some (CcClient c) \<Longrightarrow> client_stays W (snd (cc_get_resource E c rid W))"
  by (auto simp: cc_get_resource_def client_stays_def split: prod.splits)

lemma kbs_get_secret_spec:
  assumes "kbs_get_secret E name W = (r, W')"
  shows "client_stays W W' \<and> (is_ok r \<longrightarrow> cw_kbs W' \<noteq> None)"
proof (cases "uri_try_from (ce_url_parse E) name")
  case (Inl e)
  then show ?thesis using assms by (auto simp: kbs_get_secret_def lift_result_def)
next
  case (Inr rid)
  obtain x W1 where e: "ensure_client E W = (x, W1)" by (metis surj_pair)
  note spec = ensure_client_spec [OF e]
  show ?thesis
  proof (cases x)
    case (Inl k)
    then show ?thesis using assms Inr e spec by (auto simp: kbs_get_secret_def lift_result_def)
  next
    case unit: (Inr u)
    then have run: "(case cw_kbs W1 of
          None \<Rightarrow> (Inl AaKbcParamsMissing, W1)
        | Some (CcClient c) \<Rightarrow> cc_get_resource E c rid W1
        | Some (OfflineFs m) \<Rightarrow> (offline_get_resource m rid, W1)) = (r, W')"
      using assms Inr e by (simp add: kbs_get_secret_def lift_result_def)
    have "client_stays W1 W' \<and> cw_kbs W' \<noteq> None"
      using run unit spec cc_get_resource_stays [of W1 _ E rid]
      by (auto simp: client_stays_def split: option.splits real_client.splits)
    then show ?thesis using spec client_stays_trans by blast
  qed
qed

text \<open>
  The client of the key broker is created once: getting a secret keeps the environment and the
  files, and a client that exists stays, with the same table if it is the offline one; once a secret was
  returned there is a client.
\<close>

lemma kbs_client_created_once:
  assumes "kbs_get_secret E name W = (r, W')"
  shows "client_stays W W' \<and> (is_ok r \<longrightarrow> cw_kbs W' \<noteq> None)"
  using assms by (rule kbs_get_secret_spec)

section \<open>A concrete hub\<close>

definition demo_cdh :: "(nat, string, nat, nat, nat) cdh_env" where
  "demo_cdh = \<lparr>ce_kbs = demo_kbs, ce_url_parse = demo_url_parse, ce_aa_connect = st_ok (), ce_cert_ok = (\<lambda>_. True),
     ce_json_map = (\<lambda>b. Some [(''alice/key/1'', b)]), ce_b64 = Some, ce_decryptors = Map.empty, ce_vaults = Map.empty\<rparr>"

definition demo_world :: "(nat, nat, nat) cdh_world" where
  "demo_world = \<lparr>cw_env = [''AA_KBC_PARAMS'' \<mapsto> ''offline_fs_kbc::''], cw_files = [KEYS_PATH \<mapsto> ''secret''],
     cw_kbs = None, cw_net = \<lparr>net_world = 0, net_sent = []\<rparr>\<rparr>"

definition demo_opened :: "(nat, nat, nat) cdh_world" where
  "demo_opened = demo_world\<lparr>cw_kbs := Some (OfflineFs [''alice/key/1'' \<mapsto> ''secret''])\<rparr>"

lemma demo_params: "aa_kbc_params_try_from ''offline_fs_kbc::'' = Inr \<lparr>akp_kbc = ''offline_fs_kbc'', akp_uri = ''''\<rparr>"
  using aa_kbc_params_parse [of "''offline_fs_kbc''" "''''"] by simp

lemma demo_open: "ensure_client demo_cdh demo_world = (Inr (), demo_opened)"
  by (simp add: ensure_client_def real_client_new_def demo_world_def demo_params st_then_def lift_result_def
      offline_fs_new_def init_with_file_def demo_cdh_def KEYS_PATH_def RESOURCES_PATH_def demo_opened_def)

lemma demo_uri: "uri_try_from demo_url_parse ''kbs:///alice/key/1'' =
    Inr \<lparr>ru_kbs_addr = [], ru_repository = ''alice'', ru_type = ''key'', ru_tag = ''1'', ru_query = None\<rparr>"
  by (simp add: uri_try_from_def try_from_url_def demo_url_parse_def Let_def SCHEME_def addr_of_def)

lemma demo_secret: "kbs_get_secret demo_cdh ''kbs:///alice/key/1'' demo_world = (Inr ''secret'', demo_opened)"
proof -
  have "ce_url_parse demo_cdh = demo_url_parse" by (simp add: demo_cdh_def)
  then show ?thesis
    by (simp add: kbs_get_secret_def st_then_def lift_result_def demo_uri demo_open demo_opened_def
        offline_get_resource_def resource_path_def)
qed

lemma kbs_client_created_once_witness: "client_stays demo_world demo_opened \<and> cw_kbs demo_opened \<noteq> None"
  using kbs_client_created_once [OF demo_secret] by simp

end
