(* ===== verification/Data_Hub.thy ===== *)
theory Data_Hub
  imports Kms_Client
begin

text \<open>
  \<open>confidential-data-hub/hub/src\<close>: sealed secrets, the annotation packets of encrypted image layers,
  the start-up of the hub and its configuration. JSON and the image client are parameters; the
  network, the files and the static key broker client are the world of the preceding theory.
\<close>

section \<open>Sealed secrets\<close>

record envelope_secret =
  es_key_id :: string
  es_encrypted_key :: string
  es_encrypted_data :: string
  es_wrap_type :: wrap_type
  es_iv :: string
  es_provider :: string
  es_provider_settings :: settings
  es_annotations :: settings

record vault_secret =
  vs_name :: string
  vs_provider :: string
  vs_provider_settings :: settings
  vs_annotations :: settings

datatype secret_content = Envelope envelope_secret | Vault vault_secret

record secret =
  sec_version :: string
  sec_type :: secret_content

datatype secret_error =
    VersionError
  | EnvelopeBase64 string
  | EnvelopeKms string kms_error
  | EnvelopeDecrypt crypto_error
  | VaultKms string kms_error
  | ParseFailed string

record secret_codec =
  sc_b64url_encode :: "bytes \<Rightarrow> string"
  sc_b64url_decode :: "string \<Rightarrow> bytes option"
  sc_to_json :: "secret \<Rightarrow> string option"
  sc_from_json :: "bytes \<Rightarrow> secret option"

definition SECRET_VERSION :: string where "SECRET_VERSION = ''0.1.0''"

definition from_signed_base64_string :: "secret_codec \<Rightarrow> string \<Rightarrow> (secret_error, secret) result" where
  "from_signed_base64_string J s =
     (let sections = split_on (CHR ''.'') s
      in if length sections \<noteq> 4 then Inl (ParseFailed ''malformed input sealed secret'')
         else and_then (ok_or (ParseFailed ''base64 decode Secret body'') (sc_b64url_decode J (sections ! 2)))
               (\<lambda>secret_json. ok_or (ParseFailed ''json deserialization failed'') (sc_from_json J secret_json)))"

definition to_signed_base64_string :: "secret_codec \<Rightarrow> secret \<Rightarrow> (secret_error, string) result" where
  "to_signed_base64_string J s =
     and_then (ok_or (ParseFailed ''JSON serialization failed'') (sc_to_json J s)) (\<lambda>secret_json.
      Inr (''sealed.fakejwsheader.'' @ sc_b64url_encode J secret_json @ ''.fakesignature''))"

definition envelope_unseal ::
  "('w, 'b, 'sk, 'pt, 'rk) cdh_env \<Rightarrow> envelope_secret \<Rightarrow> (('w, 'sk, 'rk) cdh_world, secret_error, bytes) stateful" where
  "envelope_unseal E env =
     st_then (lift_result (ok_or (EnvelopeBase64 ''decode encrypted_key'') (ce_b64 E (es_encrypted_key env)))) (\<lambda>enc_dek.
     st_then (st_map_err (EnvelopeKms ''create KMS provider'')
       (new_decryptor E (es_provider env) (es_provider_settings env))) (\<lambda>provider.
     st_then (st_map_err (EnvelopeKms ''decrypt encryption key'')
       (kms_decrypt provider enc_dek (es_key_id env) (es_annotations env))) (\<lambda>dek.
     st_then (lift_result (ok_or (EnvelopeBase64 ''decode iv'') (ce_b64 E (es_iv env)))) (\<lambda>iv.
     st_then (lift_result (ok_or (EnvelopeBase64 ''decode encrypted_data'') (ce_b64 E (es_encrypted_data env)))) (\<lambda>encrypted_data.
      lift_result (map_err EnvelopeDecrypt
        (crypto_decrypt (ke_backend (ce_kbs E)) dek encrypted_data iv (es_wrap_type env))))))))"

definition vault_unseal ::
  "('w, 'b, 'sk, 'pt, 'rk) cdh_env \<Rightarrow> vault_secret \<Rightarrow> (('w, 'sk, 'rk) cdh_world, secret_error, bytes) stateful" where
  "vault_unseal E v =
     st_then (st_map_err (VaultKms ''create kms provider'') (new_getter E (vs_provider v) (vs_provider_settings v))) (\<lambda>provider.
      st_map_err (VaultKms ''get secret from provider'') (get_secret E provider (vs_name v) (vs_annotations v)))"

definition secret_unseal ::
  "('w, 'b, 'sk, 'pt, 'rk) cdh_env \<Rightarrow> secret \<Rightarrow> (('w, 'sk, 'rk) cdh_world, secret_error, bytes) stateful" where
  "secret_unseal E s =
     (if sec_version s \<noteq> SECRET_VERSION then st_err VersionError
      else (case sec_type s of
              Envelope env \<Rightarrow> envelope_unseal E env
            | Vault v \<Rightarrow> vault_unseal E v))"

definition unseal_secret ::
  "('w, 'b, 'sk, 'pt, 'rk) cdh_env \<Rightarrow> secret_codec \<Rightarrow> bytes \<Rightarrow> (('w, 'sk, 'rk) cdh_world, secret_error, bytes) stateful" where
  "unseal_secret E J secret =
     st_then (lift_result (ok_or (ParseFailed ''Secret string must be UTF-8'') (from_utf8 secret))) (\<lambda>secret_string.
     st_then (lift_result (from_signed_base64_string J secret_string)) (\<lambda>secret. secret_unseal E secret))"

section \<open>Annotation packets\<close>

record annotation_packet_v1 =
  a1_kid :: resource_uri
  a1_wrapped_data :: string
  a1_iv :: string
  a1_wrap_type :: string

record annotation_packet_v2 =
  a2_version :: string
  a2_kid :: string
  a2_wrapped_data :: string
  a2_provider :: string
  a2_iv :: "string option"
  a2_wrap_type :: "string option"
  a2_provider_settings :: settings
  a2_annotations :: settings

datatype image_error =
    UnknownWrapType string
  | ImageKms string kms_error
  | ImageBase64 string
  | DecryptFailed crypto_error
  | ParseAnnotationPacket string

definition DEFAULT_VERSION :: string where "DEFAULT_VERSION = ''0.1.0''"
definition default_provider :: string where "default_provider = ''kbs''"

definition wrap_type_try_from :: "string \<Rightarrow> wrap_type option" where
  "wrap_type_try_from s =
     (if s = wrap_type_str Aes256Gcm then Some Aes256Gcm
      else if s = wrap_type_str Aes256Ctr then Some Aes256Ctr
      else None)"

definition v1_unwrap_key ::
  "('w, 'b, 'sk, 'pt, 'rk) cdh_env \<Rightarrow> annotation_packet_v1 \<Rightarrow> (('w, 'sk, 'rk) cdh_world, image_error, bytes) stateful" where
  "v1_unwrap_key E p =
     st_then (lift_result (ok_or (UnknownWrapType (a1_wrap_type p)) (wrap_type_try_from (a1_wrap_type p)))) (\<lambda>w.
     st_then (st_map_err (ImageKms ''create KBC failed'') (new_getter E ''Kbs'' [])) (\<lambda>kbs_client.
     st_then (st_map_err (ImageKms ''get KEK failed'') (get_secret E kbs_client (whole_uri (a1_kid p)) [])) (\<lambda>kek.
     st_then (lift_result (ok_or (ImageBase64 ''decode wrapped_data'') (ce_b64 E (a1_wrapped_data p)))) (\<lambda>data.
     st_then (lift_result (ok_or (ImageBase64 ''decode iv'') (ce_b64 E (a1_iv p)))) (\<lambda>iv.
      lift_result (map_err DecryptFailed (crypto_decrypt (ke_backend (ce_kbs E)) kek data iv w)))))))"

definition v2_try_into ::
  "(string \<Rightarrow> url option) \<Rightarrow> annotation_packet_v2 \<Rightarrow> (image_error, annotation_packet_v1) result" where
  "v2_try_into parse p =
     (if a2_version p \<noteq> DEFAULT_VERSION then Inl (ParseAnnotationPacket ''version'')
      else if a2_provider p \<noteq> default_provider then Inl (ParseAnnotationPacket ''provider'')
      else (case (a2_wrap_type p, a2_iv p) of
              (None, _) \<Rightarrow> Inl (ParseAnnotationPacket ''no WrapType given'')
            | (Some _, None) \<Rightarrow> Inl (ParseAnnotationPacket ''no iv given'')
            | (Some w, Some iv) \<Rightarrow>
                and_then (map_err (\<lambda>_. ParseAnnotationPacket ''illegal ResourceUri'') (uri_try_from parse (a2_kid p))) (\<lambda>kid.
                 Inr \<lparr>a1_kid = kid, a1_wrapped_data = a2_wrapped_data p, a1_iv = iv, a1_wrap_type = w\<rparr>)))"

definition v2_unwrap_key ::
  "('w, 'b, 'sk, 'pt, 'rk) cdh_env \<Rightarrow> annotation_packet_v2 \<Rightarrow> (('w, 'sk, 'rk) cdh_world, image_error, bytes) stateful" where
  "v2_unwrap_key E p =
     (if a2_provider p = ''kbs'' then
        st_then (lift_result (v2_try_into (ce_url_parse E) p)) (\<lambda>anno_v1. v1_unwrap_key E anno_v1)
      else
        st_then (st_map_err (ImageKms ''create KMS client'')
          (new_decryptor E (a2_provider p) (a2_provider_settings p))) (\<lambda>kms_client.
        st_then (lift_result (ok_or (ImageBase64 ''base64 decode wrapped_data'') (ce_b64 E (a2_wrapped_data p)))) (\<lambda>data.
         st_map_err (ImageKms ''decrypt LEK with KEK'')
           (kms_decrypt kms_client data (a2_kid p) (a2_annotations p)))))"

definition image_unwrap_key ::
  "('w, 'b, 'sk, 'pt, 'rk) cdh_env \<Rightarrow> (bytes \<Rightarrow> annotation_packet_v2 option) \<Rightarrow> bytes \<Rightarrow>
    (('w, 'sk, 'rk) cdh_world, image_error, bytes) stateful" where
  "image_unwrap_key E from_json annotation_packet =
     st_then (lift_result (ok_or (ParseAnnotationPacket ''deserialize failed'') (from_json annotation_packet)))
       (v2_unwrap_key E)"

section \<open>Configuration\<close>

record kbs_config =
  kc_name :: string
  kc_url :: string
  kc_kbs_cert :: "string option"

record credential =
  cr_resource_uri :: string
  cr_path :: string

record 'i cdh_config =
  cc_kbc :: kbs_config
  cc_credentials :: "credential list"
  cc_image :: 'i
  cc_socket :: string

datatype config_error = ConfigNotFound string | InvalidConfig string | KbcParams param_error | CmdlineIo string

definition kbs_config_new :: "(string \<rightharpoonup> string) \<Rightarrow> (string, string) result \<Rightarrow> (config_error, kbs_config) result" where
  "kbs_config_new env cmdline =
     and_then (map_err KbcParams (aa_kbc_params_new env cmdline)) (\<lambda>p.
      Inr \<lparr>kc_name = akp_kbc p, kc_url = akp_uri p, kc_kbs_cert = None\<rparr>)"

definition DEFAULT_CDH_SOCKET_ADDR :: string where
  "DEFAULT_CDH_SOCKET_ADDR = ''unix:///run/confidential-containers/cdh.sock''"

definition cdh_config_new ::
  "(string \<rightharpoonup> string) \<Rightarrow> (string, string) result \<Rightarrow> (string \<rightharpoonup> bytes) \<Rightarrow> (bytes \<Rightarrow> 'i cdh_config option) \<Rightarrow> 'i \<Rightarrow>
    string option \<Rightarrow> (config_error, 'i cdh_config) result" where
  "cdh_config_new env cmdline files parse image_default config_path =
     (case (case config_path of None \<Rightarrow> env ''CDH_CONFIG_PATH'' | Some p \<Rightarrow> Some p) of
        Some path \<Rightarrow>
          (case files path of
             None \<Rightarrow> Inl (ConfigNotFound path)
           | Some content \<Rightarrow> ok_or (InvalidConfig path) (parse content))
      | None \<Rightarrow>
          and_then (kbs_config_new env cmdline) (\<lambda>kbc.
           Inr \<lparr>cc_kbc = kbc, cc_credentials = [], cc_image = image_default, cc_socket = DEFAULT_CDH_SOCKET_ADDR\<rparr>))"

definition extend_credentials_from_kernel_cmdline ::
  "(string, string) result \<Rightarrow> 'i cdh_config \<Rightarrow> (config_error, 'i cdh_config) result" where
  "extend_credentials_from_kernel_cmdline cmdline_file c =
     and_then (map_err CmdlineIo cmdline_file) (\<lambda>cmdline.
      let value = (case cmdline_value ''cdh.kbs_resources='' cmdline of None \<Rightarrow> '''' | Some v \<Rightarrow> v);
          items = filter (\<lambda>s. s \<noteq> []) (split_on (CHR '','') value);
          new = map (\<lambda>(u, p). \<lparr>cr_resource_uri = u, cr_path = p\<rparr>) (List.map_filter (split_once_str ''::'') items)
      in Inr (c\<lparr>cc_credentials := cc_credentials c @ new\<rparr>))"

definition set_configuration_envs :: "'i cdh_config \<Rightarrow> (string \<rightharpoonup> string) \<Rightarrow> string \<rightharpoonup> string" where
  "set_configuration_envs c env =
     (let env = (if env ''AA_KBC_PARAMS'' = None
                 then env(''AA_KBC_PARAMS'' \<mapsto> kc_name (cc_kbc c) @ ''::'' @ kc_url (cc_kbc c)) else env)
      in case kc_kbs_cert (cc_kbc c) of Some cert \<Rightarrow> env(''KBS_CERT'' \<mapsto> cert) | None \<Rightarrow> env)"

section \<open>The hub\<close>

definition KBS_RESOURCE_STORAGE_DIR :: string where
  "KBS_RESOURCE_STORAGE_DIR = ''/run/confidential-containers/cdh''"

definition is_path_valid :: "string \<Rightarrow> bool" where
  "is_path_valid path \<longleftrightarrow>
     starts_with KBS_RESOURCE_STORAGE_DIR path \<and>
     \<not> (\<exists>it\<in>set (split_on (CHR ''/'') path). it = ''..'' \<or> it = ''.'')"

datatype hub_error =
    InitIllegalPath string
  | InitKbsClient kms_error
  | InitCreateDir string
  | InitGetResource kms_error
  | InitWrite string
  | KbsClientFailed kms_error
  | GetResourceFailed kms_error
  | ImageDecryption image_error
  | UnsealSecretFailed secret_error

text \<open>The file system calls of the start-up: whether a directory can be created and a file written.\<close>

record hub_fs =
  hf_mkdir_ok :: "string \<Rightarrow> bool"
  hf_write_ok :: "string \<Rightarrow> bool"

text \<open>\<open>Path::parent\<close> of an absolute path: without trailing separators and the last component.\<close>

definition parent_dir :: "string \<Rightarrow> string option" where
  "parent_dir p =
     map_option (\<lambda>(d, _). if trim_end_slashes d = [] then ''/'' else trim_end_slashes d)
       (rsplit_once (CHR ''/'') (trim_end_slashes p))"

definition write_credential ::
  "('w, 'b, 'sk, 'pt, 'rk) cdh_env \<Rightarrow> hub_fs \<Rightarrow> string \<times> string \<Rightarrow> (('w, 'sk, 'rk) cdh_world, hub_error, unit) stateful" where
  "write_credential E F kv =
     (case kv of (k, v) \<Rightarrow>
        st_then (st_map_err InitGetResource (kbs_get_secret E v)) (\<lambda>content.
        st_then (case parent_dir k of
                   Some d \<Rightarrow> if hf_mkdir_ok F d then st_ok () else st_err (InitCreateDir d)
                 | None \<Rightarrow> st_ok ()) (\<lambda>_ W.
          if hf_write_ok F k then (Inr (), W\<lparr>cw_files := (cw_files W)(k \<mapsto> content)\<rparr>) else (Inl (InitWrite k), W))))"

definition init_kbs_resources ::
  "('w, 'b, 'sk, 'pt, 'rk) cdh_env \<Rightarrow> hub_fs \<Rightarrow> (string \<times> string) list \<Rightarrow> (('w, 'sk, 'rk) cdh_world, hub_error, unit) stateful" where
  "init_kbs_resources E F credentials =
     (case List.find (\<lambda>(k, _). \<not> is_path_valid k) credentials of
        Some (k, _) \<Rightarrow> st_err (InitIllegalPath k)
      | None \<Rightarrow>
          st_then (st_map_err InitKbsClient (kbc_client_new E)) (\<lambda>_.
          st_then (if hf_mkdir_ok F KBS_RESOURCE_STORAGE_DIR then st_ok ()
                   else st_err (InitCreateDir KBS_RESOURCE_STORAGE_DIR)) (\<lambda>_.
           st_for (write_credential E F) credentials)))"

definition hub_credentials :: "'i cdh_config \<Rightarrow> (string \<times> string) list" where
  "hub_credentials c = fold (\<lambda>it m. AList.update (cr_path it) (cr_resource_uri it) m) (cc_credentials c) []"

definition hub_new ::
  "('w, 'b, 'sk, 'pt, 'rk) cdh_env \<Rightarrow> hub_fs \<Rightarrow> 'i cdh_config \<Rightarrow>
    (('w, 'sk, 'rk) cdh_world, hub_error, (string \<times> string) list \<times> 'i cdh_config) stateful" where
  "hub_new E F config W =
     st_then (init_kbs_resources E F (hub_credentials config)) (\<lambda>_. st_ok (hub_credentials config, config))
       (W\<lparr>cw_env := set_configuration_envs config (cw_env W)\<rparr>)"

definition hub_unseal_secret ::
  "('w, 'b, 'sk, 'pt, 'rk) cdh_env \<Rightarrow> secret_codec \<Rightarrow> bytes \<Rightarrow> (('w, 'sk, 'rk) cdh_world, hub_error, bytes) stateful" where
  "hub_unseal_secret E J secret = st_map_err UnsealSecretFailed (unseal_secret E J secret)"

definition hub_unwrap_key ::
  "('w, 'b, 'sk, 'pt, 'rk) cdh_env \<Rightarrow> (bytes \<Rightarrow> annotation_packet_v2 option) \<Rightarrow> bytes \<Rightarrow>
    (('w, 'sk, 'rk) cdh_world, hub_error, bytes) stateful" where
  "hub_unwrap_key E from_json packet = st_map_err ImageDecryption (image_unwrap_key E from_json packet)"

definition hub_get_resource ::
  "('w, 'b, 'sk, 'pt, 'rk) cdh_env \<Rightarrow> string \<Rightarrow> (('w, 'sk, 'rk) cdh_world, hub_error, bytes) stateful" where
  "hub_get_resource E uri =
     st_then (st_map_err KbsClientFailed (new_getter E ''kbs'' [])) (\<lambda>client.
      st_map_err GetResourceFailed (get_secret E client uri []))"

section \<open>Paths of credentials\<close>

lemma split_on_prefix:
  "CHR ''/'' \<notin> set c \<Longrightarrow> split_on (CHR ''/'') (c @ s) =
     (c @ hd (split_on (CHR ''/'') s)) # tl (split_on (CHR ''/'') s)"
  by (induction c) (auto split: list.splits)

lemma storage_dir_split:
  "split_on (CHR ''/'') (KBS_RESOURCE_STORAGE_DIR @ s) =
     [[], ''run'', ''confidential-containers''] @ ((''cdh'' @ hd (split_on (CHR ''/'') s)) # tl (split_on (CHR ''/'') s))"
  using split_on_prefix [of "''cdh''" s] split_on_append [of "CHR ''/''" "''confidential-containers''"]
    split_on_append [of "CHR ''/''" "''run''"]
  by (simp add: KBS_RESOURCE_STORAGE_DIR_def)

text \<open>
  The accepted paths by their components: the fourth component only has to begin with \<open>cdh\<close>, so a
  directory beside the storage directory is accepted too.
\<close>

lemma is_path_valid_iff:
  "is_path_valid p \<longleftrightarrow>
     (\<exists>c rest. split_on (CHR ''/'') p = [[], ''run'', ''confidential-containers'', ''cdh'' @ c] @ rest \<and>
        ''.'' \<notin> set rest \<and> ''..'' \<notin> set rest)"
proof
  assume v: "is_path_valid p"
  then obtain s where p: "p = KBS_RESOURCE_STORAGE_DIR @ s" by (auto simp: is_path_valid_def starts_with_iff)
  from v show "\<exists>c rest. split_on (CHR ''/'') p = [[], ''run'', ''confidential-containers'', ''cdh'' @ c] @ rest \<and>
        ''.'' \<notin> set rest \<and> ''..'' \<notin> set rest"
    unfolding p storage_dir_split is_path_valid_def by auto
next
  assume "\<exists>c rest. split_on (CHR ''/'') p = [[], ''run'', ''confidential-containers'', ''cdh'' @ c] @ rest \<and>
        ''.'' \<notin> set rest \<and> ''..'' \<notin> set rest"
  then obtain c rest where s: "split_on (CHR ''/'') p = [[], ''run'', ''confidential-containers'', ''cdh'' @ c] @ rest"
    and d: "''.'' \<notin> set rest" "''..'' \<notin> set rest" by blast
  have "p = join_with (CHR ''/'') ([[], ''run'', ''confidential-containers'', ''cdh'' @ c] @ rest)"
    using join_split_on s by metis
  also have "\<dots> = KBS_RESOURCE_STORAGE_DIR @ c @ (if rest = [] then [] else CHR ''/'' # join_with (CHR ''/'') rest)"
    by (cases rest) (auto simp: KBS_RESOURCE_STORAGE_DIR_def join_with_Cons)
  finally have "starts_with KBS_RESOURCE_STORAGE_DIR p" by (auto simp: starts_with_iff)
  then show "is_path_valid p" using s d by (auto simp: is_path_valid_def)
qed

lemma sibling_directory_accepted: "is_path_valid ''/run/confidential-containers/cdh-other/x''"
  by (simp add: is_path_valid_def KBS_RESOURCE_STORAGE_DIR_def starts_with_def)

section \<open>Start-up\<close>

text \<open>Steps that write only at the given paths and keep the environment.\<close>

definition writes_only :: "string set \<Rightarrow> ('w, 'sk, 'rk) cdh_world \<Rightarrow> ('w, 'sk, 'rk) cdh_world \<Rightarrow> bool" where
  "writes_only P W W' \<longleftrightarrow> cw_env W' = cw_env W \<and> (\<forall>p. cw_files W' p \<noteq> cw_files W p \<longrightarrow> p \<in> P) \<and>
     (\<forall>p. cw_files W p \<noteq> None \<longrightarrow> cw_files W' p \<noteq> None)"

lemma writes_only_trans: "writes_only P W W1 \<Longrightarrow> writes_only P W1 W2 \<Longrightarrow> writes_only P W W2"
  unfolding writes_only_def by metis

lemma writes_only_refl [simp]: "writes_only P W W"
  by (simp add: writes_only_def)

lemma client_stays_writes: "client_stays W W' \<Longrightarrow> writes_only P W W'"
  by (simp add: client_stays_def writes_only_def)

lemma writes_only_then:
  "framed (writes_only P) m \<Longrightarrow> (\<And>a. framed (writes_only P) (f a)) \<Longrightarrow> framed (writes_only P) (st_then m f)"
  using writes_only_trans by (rule framed_st_then)

lemma kbs_get_secret_stays: "client_stays W (snd (kbs_get_secret E name W))"
  using kbs_get_secret_spec by (metis prod.collapse)

lemma write_credential_writes: "k \<in> P \<Longrightarrow> framed (writes_only P) (write_credential E F (k, v))"
  unfolding write_credential_def prod.case
proof (intro writes_only_then framed_st_map_err)
  show "framed (writes_only P) (kbs_get_secret E v)"
    unfolding framed_def using kbs_get_secret_stays client_stays_writes by blast
  show "framed (writes_only P) (case parent_dir k of
           Some d \<Rightarrow> if hf_mkdir_ok F d then st_ok () else st_err (InitCreateDir d) | None \<Rightarrow> st_ok ())"
    by (auto simp: framed_def split: option.splits)
qed (auto simp: framed_def writes_only_def)

lemma st_for_writes:
  "fst ` set kvs \<subseteq> P \<Longrightarrow> framed (writes_only P) (st_for (write_credential E F) kvs)"
proof (induction kvs)
  case (Cons kv kvs)
  then show ?case
    using write_credential_writes [of "fst kv" P E F "snd kv"] by (auto intro!: writes_only_then)
qed (simp add: framed_def)

lemma write_credential_file: "write_credential E F (k, v) W = (Inr (), W') \<Longrightarrow> cw_files W' k \<noteq> None"
  by (auto simp: write_credential_def st_then_Inr_iff split: if_splits)

lemma st_for_files:
  "st_for (write_credential E F) kvs W = (Inr (), W') \<Longrightarrow> \<forall>k\<in>fst ` set kvs. cw_files W' k \<noteq> None"
proof (induction kvs arbitrary: W)
  case (Cons kv kvs)
  then obtain W1 where first: "write_credential E F kv W = (Inr (), W1)"
    and rest: "st_for (write_credential E F) kvs W1 = (Inr (), W')" by (auto simp: st_then_Inr_iff)
  have "writes_only UNIV W1 W'" using framedD [OF st_for_writes [of kvs UNIV] rest] by simp
  then have "cw_files W' (fst kv) \<noteq> None"
    using write_credential_file [of E F "fst kv" "snd kv"] first by (simp add: writes_only_def)
  then show ?case using Cons.IH [OF rest] by auto
qed simp

lemma find_invalid: "List.find (\<lambda>(k, _). \<not> is_path_valid k) kvs = None \<longleftrightarrow> (\<forall>k\<in>fst ` set kvs. is_path_valid k)"
  by (auto simp: find_None_iff)

lemma env_params_set: "set_configuration_envs c env ''AA_KBC_PARAMS'' \<noteq> None"
  by (auto simp: set_configuration_envs_def Let_def split: option.splits)

lemma ensure_client_params:
  assumes "cw_env W ''AA_KBC_PARAMS'' \<noteq> None"
  shows "fst (ensure_client E W) \<noteq> Inl AaKbcParamsMissing"
proof -
  have "fst (cc_kbc_new E url W) \<noteq> Inl AaKbcParamsMissing" for url W
    by (auto simp: cc_kbc_new_def st_then_def st_map_err_def map_err_def Let_def split: prod.splits sum.splits)
  moreover have "init_with_file E files res p \<noteq> Inl AaKbcParamsMissing" for files res p
  proof -
    have "try_fold (\<lambda>res (k, v). and_then (ok_or (OfflineBase64 p) (ce_b64 E v)) (\<lambda>value. Inr (res(k \<mapsto> value)))) res m
        \<noteq> Inl AaKbcParamsMissing" for m :: "(string \<times> string) list"
      by (induction m arbitrary: res) (auto simp: and_then_def ok_or_def split: sum.splits option.splits)
    then show ?thesis by (auto simp: init_with_file_def and_then_def ok_or_def split: option.splits sum.splits)
  qed
  then have "offline_fs_new E files \<noteq> Inl AaKbcParamsMissing" for files
    by (auto simp: offline_fs_new_def and_then_def split: sum.splits)
  ultimately have "fst (real_client_new E W) \<noteq> Inl AaKbcParamsMissing"
    using assms
    by (auto simp: real_client_new_def st_then_def lift_result_def and_then_def map_err_def
        split: option.splits sum.splits prod.splits if_splits) (metis fst_conv)+
  then show ?thesis
    by (auto simp: ensure_client_def st_then_def split: prod.splits sum.splits)
qed

lemma init_writes:
  assumes "\<forall>k\<in>fst ` set kvs. is_path_valid k"
  shows "framed (writes_only (fst ` set kvs)) (init_kbs_resources E F kvs)"
proof -
  have none: "List.find (\<lambda>(k, _). \<not> is_path_valid k) kvs = None" using assms by (simp add: find_invalid)
  have "writes_only P W (snd (ensure_client E W))" for P W
    using ensure_client_spec [of E W] client_stays_writes by (metis prod.collapse)
  then have "framed (writes_only (fst ` set kvs)) (ensure_client E)"
    by (simp add: framed_def)
  then show ?thesis
    unfolding init_kbs_resources_def none option.case kbc_client_new_def
    by (intro writes_only_then framed_st_map_err st_for_writes) (auto simp: framed_def)
qed

lemma init_ok_files:
  "init_kbs_resources E F kvs W = (Inr (), W') \<Longrightarrow> \<forall>k\<in>fst ` set kvs. cw_files W' k \<noteq> None"
  using st_for_files [of E F kvs] by (auto simp: init_kbs_resources_def st_then_Inr_iff split: option.splits)

lemma st_for_error: "st_for (write_credential E F) kvs W \<noteq> (Inl (InitKbsClient e), W')"
proof (induction kvs arbitrary: W)
  case (Cons kv kvs)
  have "write_credential E F kv W \<noteq> (Inl (InitKbsClient e), W')"
    by (cases kv) (auto simp: write_credential_def st_then_def st_map_err_def map_err_def
        split: prod.splits sum.splits option.splits if_splits)
  with Cons show ?case by (auto simp: st_then_def split: prod.splits sum.splits)
qed simp

lemma init_params:
  assumes "cw_env W ''AA_KBC_PARAMS'' \<noteq> None"
  shows "init_kbs_resources E F kvs W \<noteq> (Inl (InitKbsClient AaKbcParamsMissing), W')"
  using ensure_client_params [OF assms, of E] st_for_error [of E F kvs]
  by (auto simp: init_kbs_resources_def kbc_client_new_def st_then_def st_map_err_def map_err_def
      split: prod.splits sum.splits option.splits if_splits)

text \<open>
  The start-up of the hub writes nothing but the files of the configured credentials, and these
  only below paths that pass the check; if one path does not pass, nothing is fetched or written. After
  a successful start every credential has its file, and the parameters that the key broker client
  expects in the environment are always there.
\<close>

lemma hub_start_confined:
  assumes "hub_new E F config W = (r, W')"
  shows "(\<forall>p. cw_files W' p \<noteq> cw_files W p \<longrightarrow> p \<in> fst ` set (hub_credentials config) \<and> is_path_valid p) \<and>
    ((\<exists>p\<in>fst ` set (hub_credentials config). \<not> is_path_valid p) \<longrightarrow> \<not> is_ok r \<and> cw_files W' = cw_files W \<and> cw_net W' = cw_net W) \<and>
    (is_ok r \<longrightarrow> (\<forall>p\<in>fst ` set (hub_credentials config). cw_files W' p \<noteq> None)) \<and>
    r \<noteq> Inl (InitKbsClient AaKbcParamsMissing)"
proof -
  let ?kvs = "hub_credentials config" and ?W = "W\<lparr>cw_env := set_configuration_envs config (cw_env W)\<rparr>"
  obtain x W1 where init: "init_kbs_resources E F ?kvs ?W = (x, W1)" by (metis surj_pair)
  then have run: "W' = W1" "is_ok r \<longleftrightarrow> is_ok x" "\<And>e. r = Inl e \<longleftrightarrow> x = Inl e"
    using assms by (auto simp: hub_new_def st_then_def split: sum.splits)
  have params: "r \<noteq> Inl (InitKbsClient AaKbcParamsMissing)"
    using init_params [of ?W E F ?kvs W1] init run env_params_set by auto
  show ?thesis
  proof (cases "\<forall>p\<in>fst ` set ?kvs. is_path_valid p")
    case True
    then have "writes_only (fst ` set ?kvs) ?W W1" using framedD [OF init_writes [OF True] init] by simp
    moreover have "is_ok x \<longrightarrow> (\<forall>p\<in>fst ` set ?kvs. cw_files W1 p \<noteq> None)"
      using init_ok_files [of E F ?kvs ?W W1] init by (cases x) auto
    ultimately show ?thesis using True run params by (auto simp: writes_only_def)
  next
    case False
    then have "List.find (\<lambda>(k, _). \<not> is_path_valid k) ?kvs \<noteq> None" by (simp add: find_invalid)
    then have "\<not> is_ok x \<and> W1 = ?W" using init by (auto simp: init_kbs_resources_def st_err_def)
    then show ?thesis using False run params by simp
  qed
qed

definition demo_cdh_config :: "unit cdh_config" where
  "demo_cdh_config = \<lparr>cc_kbc = \<lparr>kc_name = ''offline_fs_kbc'', kc_url = [], kc_kbs_cert = None\<rparr>,
     cc_credentials = [\<lparr>cr_resource_uri = ''kbs:///alice/key/1'', cr_path = ''/run/confidential-containers/cdh/key''\<rparr>],
     cc_image = (), cc_socket = DEFAULT_CDH_SOCKET_ADDR\<rparr>"

definition demo_fs :: hub_fs where
  "demo_fs = \<lparr>hf_mkdir_ok = (\<lambda>_. True), hf_write_ok = (\<lambda>_. True)\<rparr>"

lemma demo_start:
  "hub_new demo_cdh demo_fs demo_cdh_config (demo_world\<lparr>cw_env := Map.empty\<rparr>) =
     (Inr (hub_credentials demo_cdh_config, demo_cdh_config),
      demo_opened\<lparr>cw_files := (cw_files demo_opened)(''/run/confidential-containers/cdh/key'' \<mapsto> ''secret'')\<rparr>)"
proof -
  have env: "demo_world\<lparr>cw_env := set_configuration_envs demo_cdh_config Map.empty\<rparr> = demo_world"
    by (simp add: demo_world_def demo_cdh_config_def set_configuration_envs_def)
  have creds: "hub_credentials demo_cdh_config = [(''/run/confidential-containers/cdh/key'', ''kbs:///alice/key/1'')]"
    by (simp add: hub_credentials_def demo_cdh_config_def)
  have valid: "is_path_valid ''/run/confidential-containers/cdh/key''"
    by (simp add: is_path_valid_def KBS_RESOURCE_STORAGE_DIR_def starts_with_def)
  have again: "kbs_get_secret demo_cdh ''kbs:///alice/key/1'' demo_opened = (Inr ''secret'', demo_opened)"
    by (simp add: kbs_get_secret_def st_then_def lift_result_def demo_uri demo_cdh_def ensure_client_def
        demo_opened_def offline_get_resource_def resource_path_def)
  show ?thesis
    by (simp add: hub_new_def env creds init_kbs_resources_def valid kbc_client_new_def st_then_def st_map_err_def
        demo_open demo_fs_def write_credential_def again split: option.splits)
qed

lemma hub_start_confined_witness:
  "is_path_valid ''/run/confidential-containers/cdh/key'' \<and>
   cw_files (snd (hub_new demo_cdh demo_fs demo_cdh_config (demo_world\<lparr>cw_env := Map.empty\<rparr>)))
     ''/run/confidential-containers/cdh/key'' \<noteq> None"
  using hub_start_confined [OF demo_start] unfolding demo_start
  by (simp add: hub_credentials_def demo_cdh_config_def demo_opened_def demo_world_def KEYS_PATH_def)

end
