(* ===== verification/Byte_Source.thy ===== *)
theory Byte_Source
  imports Rust_Prelude
begin

text \<open>
  The \<open>std::io::Read\<close> interface that the layer pipeline is built on. A reader is a state with a read
  function; a call with a buffer of \<open>n\<close> bytes yields the bytes it put there or an I/O error, and
  the new state. \<open>byte_source\<close> is the contract that a well-behaved reader meets, \<open>read_to_end\<close> the
  client loop that is verified against it once, and \<open>slice_read\<close> the standard library's reader
  over a byte slice.
\<close>

datatype io_error =
    Unsupported
  | HmacMismatch bytes bytes
  | OtherIo string

type_synonym 's read_fn = "'s \<Rightarrow> nat \<Rightarrow> (io_error, bytes) result \<times> 's"

text \<open>
  \<open>Read::read_to_end\<close>: read until a read returns 0. The sizes of the buffers that the caller offers
  are the list argument, so \<open>None\<close> says that the list ended before the reader did.
\<close>

fun read_to_end ::
  "'s read_fn \<Rightarrow> nat list \<Rightarrow> bytes \<Rightarrow> 's \<Rightarrow> ((io_error, bytes) result \<times> 's) option" where
  "read_to_end rd [] acc s = None"
| "read_to_end rd (n # ns) acc s =
     (case rd s n of
        (Inl e, s') \<Rightarrow> Some (Inl e, s')
      | (Inr b, s') \<Rightarrow> (if b = [] then Some (Inr acc, s') else read_to_end rd ns (acc @ b) s'))"

lemma read_to_end_last:
  "read_to_end rd ns acc s = Some (Inr out, s') \<Longrightarrow> \<exists>t n. n \<in> set ns \<and> rd t n = (Inr [], s')"
  by (induction ns arbitrary: acc s) (fastforce split: prod.splits sum.splits if_splits)+

section \<open>The contract of a reader\<close>

locale byte_source =
  fixes rd :: "'s read_fn"
    and good :: "'s \<Rightarrow> bool"
    and contents :: "'s \<Rightarrow> bytes"
  assumes read_step:
    "good s \<Longrightarrow> 0 < n \<Longrightarrow>
       \<exists>b s'. rd s n = (Inr b, s') \<and> good s' \<and> contents s = b @ contents s' \<and>
              length b \<le> n \<and> (b = [] \<longrightarrow> contents s = [])"
begin

lemma read_step_cases:
  assumes "good s" and "0 < n"
  obtains (eof) s' where "rd s n = (Inr [], s')" "good s'" "contents s = []" "contents s' = []"
    | (chunk) b s' where "rd s n = (Inr b, s')" "b \<noteq> []" "good s'" "contents s = b @ contents s'"
  using read_step [OF assms] by (metis append_is_Nil_conv)

lemma read_to_end_complete:
  assumes "good s" and "\<forall>n\<in>set ns. 0 < n" and "length (contents s) < length ns"
  shows "\<exists>s'. read_to_end rd ns acc s = Some (Inr (acc @ contents s), s') \<and> good s' \<and> contents s' = []"
  using assms
proof (induction ns arbitrary: s acc)
  case Nil
  then show ?case by simp
next
  case (Cons n ns)
  from Cons.prems have pos: "0 < n" by simp
  from Cons.prems(1) pos show ?case
  proof (cases rule: read_step_cases)
    case (eof s')
    then show ?thesis by simp
  next
    case (chunk b s')
    then have "length (contents s') < length ns"
      using Cons.prems(3) by (cases b) auto
    with Cons.IH [of s' "acc @ b"] Cons.prems(2) chunk show ?thesis
      by auto
  qed
qed

lemma read_to_end_prefix:
  assumes "good s" and "\<forall>n\<in>set ns. 0 < n" and "read_to_end rd ns acc s = Some (r, s')"
  shows "r = Inr (acc @ contents s)"
  using assms
proof (induction ns arbitrary: s acc)
  case Nil
  then show ?case by simp
next
  case (Cons n ns)
  from Cons.prems have pos: "0 < n" by simp
  from Cons.prems(1) pos show ?case
  proof (cases rule: read_step_cases)
    case (eof t)
    with Cons.prems show ?thesis by simp
  next
    case (chunk b t)
    with Cons.IH [of t "acc @ b"] Cons.prems show ?thesis
      by auto
  qed
qed

lemma read_to_end_keeps:
  assumes "good s" and "\<forall>n\<in>set ns. 0 < n" and "read_to_end rd ns acc s = Some (r, s')"
  shows "good s'"
  using assms
proof (induction ns arbitrary: s acc)
  case Nil
  then show ?case by simp
next
  case (Cons n ns)
  from Cons.prems have pos: "0 < n" by simp
  from Cons.prems(1) pos show ?case
  proof (cases rule: read_step_cases)
    case (eof t)
    with Cons.prems show ?thesis by simp
  next
    case (chunk b t)
    with Cons.IH [of t "acc @ b"] Cons.prems show ?thesis
      by auto
  qed
qed

end

section \<open>The reader over a byte slice\<close>

text \<open>\<open>impl Read for &[u8]\<close>: copies as much as fits and advances.\<close>

definition slice_read :: "bytes read_fn" where
  "slice_read s n = (Inr (take n s), drop n s)"

interpretation slice: byte_source slice_read "\<lambda>_. True" "\<lambda>s. s"
  by unfold_locales (auto simp: slice_read_def)

end
