(* ===== verification/Ocicrypt_Blockcipher.thy ===== *)
theory Ocicrypt_Blockcipher
  imports Byte_Source
begin

text \<open>
  \<open>ocicrypt-rs/src/blockcipher\<close>: the AES-256-CTR/HMAC-SHA256 layer cipher. The primitives (AES-CTR
  key stream, HMAC, operating-system randomness) come from other crates and are the record
  \<open>crypto\<close>, an argument of every definition that uses them; \<open>crypto_laws\<close> states what the code
  relies on. The cipher is itself a reader over a reader.
\<close>

section \<open>Options of the cipher\<close>

record private_opts =
  symmetric_key :: bytes
  priv_cipher_options :: "string \<rightharpoonup> bytes"
  priv_digest :: string

record public_opts =
  cipher_type :: string
  pub_cipher_options :: "string \<rightharpoonup> bytes"
  pub_hmac :: bytes

record layer_opts =
  lbco_public :: public_opts
  lbco_private :: private_opts

definition private_opts_default :: private_opts where
  "private_opts_default =
     \<lparr>symmetric_key = [], priv_cipher_options = Map.empty, priv_digest = []\<rparr>"

definition public_opts_default :: public_opts where
  "public_opts_default = \<lparr>cipher_type = [], pub_cipher_options = Map.empty, pub_hmac = []\<rparr>"

definition layer_opts_default :: layer_opts where
  "layer_opts_default = \<lparr>lbco_public = public_opts_default, lbco_private = private_opts_default\<rparr>"

definition get_opt :: "layer_opts \<Rightarrow> string \<Rightarrow> bytes option" where
  "get_opt opts k =
     (case pub_cipher_options (lbco_public opts) k of
        Some v \<Rightarrow> Some v
      | None \<Rightarrow> priv_cipher_options (lbco_private opts) k)"

section \<open>Primitives of other crates\<close>

record ('c, 'h, 'g) crypto =
  ctr_new :: "bytes \<Rightarrow> bytes \<Rightarrow> 'c"
  ctr_apply :: "'c \<Rightarrow> bytes \<Rightarrow> bytes \<times> 'c"
  hmac_new :: "bytes \<Rightarrow> 'h option"
  hmac_update :: "'h \<Rightarrow> bytes \<Rightarrow> 'h"
  hmac_finalize :: "'h \<Rightarrow> bytes"
  hmac_verify :: "'h \<Rightarrow> bytes \<Rightarrow> bool"
  os_rand :: "'g \<Rightarrow> nat \<Rightarrow> (string, bytes) result \<times> 'g"

text \<open>
  What the stream cipher and the MAC promise: a key stream is a bytewise involution that depends on
  the position only; feeding a MAC in pieces is feeding it at once; tags are not empty and
  verification compares with the finalized tag; the generator fills the whole slice.
\<close>

definition ctr_laws :: "('c, 'h, 'g) crypto \<Rightarrow> bool" where
  "ctr_laws C \<longleftrightarrow>
     (\<forall>c x y. fst (ctr_apply C c (x @ y)) =
        fst (ctr_apply C c x) @ fst (ctr_apply C (snd (ctr_apply C c x)) y)) \<and>
     (\<forall>c x y. snd (ctr_apply C c (x @ y)) = snd (ctr_apply C (snd (ctr_apply C c x)) y)) \<and>
     (\<forall>c x. length (fst (ctr_apply C c x)) = length x) \<and>
     (\<forall>c x. fst (ctr_apply C c (fst (ctr_apply C c x))) = x) \<and>
     (\<forall>c x y. length x = length y \<longrightarrow> snd (ctr_apply C c x) = snd (ctr_apply C c y))"

definition hmac_laws :: "('c, 'h, 'g) crypto \<Rightarrow> bool" where
  "hmac_laws C \<longleftrightarrow>
     (\<forall>h x y. hmac_update C h (x @ y) = hmac_update C (hmac_update C h x) y) \<and>
     (\<forall>h. hmac_update C h [] = h) \<and>
     (\<forall>h. hmac_finalize C h \<noteq> []) \<and>
     (\<forall>h t. hmac_verify C h t \<longleftrightarrow> t = hmac_finalize C h)"

definition rand_laws :: "('c, 'h, 'g) crypto \<Rightarrow> bool" where
  "rand_laws C \<longleftrightarrow> (\<forall>g n b g'. os_rand C g n = (Inr b, g') \<longrightarrow> length b = n)"

definition crypto_laws :: "('c, 'h, 'g) crypto \<Rightarrow> bool" where
  "crypto_laws C \<longleftrightarrow> ctr_laws C \<and> hmac_laws C \<and> rand_laws C"

section \<open>The cipher\<close>

definition AES256_KEY_SIZE :: nat where "AES256_KEY_SIZE = 32"
definition AES256_NONCE_SIZE :: nat where "AES256_NONCE_SIZE = 16"
definition AES256CTR :: string where "AES256CTR = ''AES_256_CTR_HMAC_SHA256''"

datatype cipher_error =
    AesBitCountNotSupported
  | InvalidKeyLength nat nat
  | HmacNotProvided
  | InvalidNonceLength nat nat
  | HmacCreateFailed
  | RandFailed string
  | NotInitialized
  | ReadNotComplete
  | UnsupportedCipherType string

record ('c, 'h, 'r) aes_state =
  st_done :: bool
  st_cipher :: 'c
  st_exp_hmac :: bytes
  st_hmac :: 'h
  st_reader :: 'r

record ('c, 'h, 'r) aes_ctr =
  bc_key_len :: nat
  bc_encrypt :: bool
  bc_state :: "('c, 'h, 'r) aes_state option"

definition aes_new :: "nat \<Rightarrow> (cipher_error, ('c, 'h, 'r) aes_ctr) result" where
  "aes_new bits =
     (if bits \<noteq> AES256_KEY_SIZE * 8 then Inl AesBitCountNotSupported
      else Inr \<lparr>bc_key_len = AES256_KEY_SIZE, bc_encrypt = False, bc_state = None\<rparr>)"

definition rand_bytes :: "('c, 'h, 'g) crypto \<Rightarrow> nat \<Rightarrow> 'g \<Rightarrow> (cipher_error, bytes) result \<times> 'g" where
  "rand_bytes C n g = (case os_rand C g n of (r, g') \<Rightarrow> (map_err RandFailed r, g'))"

text \<open>
  \<open>init\<close> writes the cipher and the options only after its last check, so its model returns them in
  the success case; the generator state advances in both.
\<close>

definition aes_nonce ::
  "('c, 'h, 'g) crypto \<Rightarrow> layer_opts \<Rightarrow> 'g \<Rightarrow> (cipher_error, bytes) result \<times> 'g" where
  "aes_nonce C opts g =
     (case get_opt opts ''nonce'' of
        Some v \<Rightarrow>
          (if length v \<noteq> AES256_NONCE_SIZE
           then (Inl (InvalidNonceLength (length (replicate AES256_NONCE_SIZE (CHR 0x00)))
                        AES256_NONCE_SIZE), g)
           else (Inr v, g))
      | None \<Rightarrow> rand_bytes C AES256_NONCE_SIZE g)"

definition or_insert :: "('k \<rightharpoonup> 'v) \<Rightarrow> 'k \<Rightarrow> 'v \<Rightarrow> ('k \<rightharpoonup> 'v)" where
  "or_insert m k v = (case m k of None \<Rightarrow> m(k \<mapsto> v) | Some _ \<Rightarrow> m)"

definition aes_init ::
  "('c, 'h, 'g) crypto \<Rightarrow> bool \<Rightarrow> 'r \<Rightarrow> ('c, 'h, 'r) aes_ctr \<Rightarrow> layer_opts \<Rightarrow> 'g \<Rightarrow>
     (cipher_error, ('c, 'h, 'r) aes_ctr \<times> layer_opts) result \<times> 'g" where
  "aes_init C enc rdr bc opts g =
     (let key = symmetric_key (lbco_private opts)
      in if length key \<noteq> AES256_KEY_SIZE
         then (Inl (InvalidKeyLength (length key) AES256_KEY_SIZE), g)
         else if \<not> enc \<and> pub_hmac (lbco_public opts) = [] then (Inl HmacNotProvided, g)
         else (case aes_nonce C opts g of
             (Inl e, g') \<Rightarrow> (Inl e, g')
           | (Inr nonce, g') \<Rightarrow>
               (case hmac_new C key of
                  None \<Rightarrow> (Inl HmacCreateFailed, g')
                | Some h \<Rightarrow>
                    (Inr (bc\<lparr>bc_encrypt := enc,
                              bc_state := Some \<lparr>st_done = False, st_cipher = ctr_new C key nonce,
                                st_exp_hmac = pub_hmac (lbco_public opts), st_hmac = h,
                                st_reader = rdr\<rparr>\<rparr>,
                          opts\<lparr>lbco_private := (lbco_private opts)
                                 \<lparr>priv_cipher_options :=
                                    or_insert (priv_cipher_options (lbco_private opts))
                                      ''nonce'' nonce\<rparr>\<rparr>), g'))))"

definition aes_generate_key ::
  "('c, 'h, 'g) crypto \<Rightarrow> ('c, 'h, 'r) aes_ctr \<Rightarrow> 'g \<Rightarrow> (cipher_error, bytes) result \<times> 'g" where
  "aes_generate_key C bc g = rand_bytes C (bc_key_len bc) g"

definition aes_encrypt where "aes_encrypt C = aes_init C True"
definition aes_decrypt where "aes_decrypt C = aes_init C False"

definition aes_finalized_lbco ::
  "('c, 'h, 'r) aes_ctr \<Rightarrow> layer_opts \<Rightarrow> (cipher_error, layer_opts) result" where
  "aes_finalized_lbco bc opts =
     (case bc_state bc of
        None \<Rightarrow> Inl NotInitialized
      | Some st \<Rightarrow>
          (if \<not> st_done st then Inl ReadNotComplete
           else Inr (opts\<lparr>lbco_public := (lbco_public opts)\<lparr>pub_hmac := st_exp_hmac st\<rparr>\<rparr>)))"

text \<open>What one read does with the bytes it got from the inner reader.\<close>

definition aes_process ::
  "('c, 'h, 'g) crypto \<Rightarrow> bool \<Rightarrow> ('c, 'h, 'r) aes_state \<Rightarrow> bytes \<Rightarrow>
     (io_error, bytes) result \<times> ('c, 'h, 'r) aes_state" where
  "aes_process C enc st buf =
     (if \<not> enc then
        (if buf \<noteq> [] then
           (Inr (fst (ctr_apply C (st_cipher st) buf)),
            st\<lparr>st_hmac := hmac_update C (st_hmac st) buf,
               st_cipher := snd (ctr_apply C (st_cipher st) buf)\<rparr>)
         else if hmac_verify C (st_hmac st) (st_exp_hmac st) then (Inr [], st)
         else (Inl (HmacMismatch (st_exp_hmac st) (hmac_finalize C (st_hmac st))), st))
      else if buf \<noteq> [] then
        (let out = fst (ctr_apply C (st_cipher st) buf)
         in (Inr out,
             st\<lparr>st_cipher := snd (ctr_apply C (st_cipher st) buf),
                st_hmac := hmac_update C (st_hmac st) out\<rparr>))
      else (Inr [], st\<lparr>st_exp_hmac := hmac_finalize C (st_hmac st)\<rparr>))"

definition aes_read ::
  "('c, 'h, 'g) crypto \<Rightarrow> 'r read_fn \<Rightarrow> ('c, 'h, 'r) aes_ctr read_fn" where
  "aes_read C rd bc n =
     (case bc_state bc of
        None \<Rightarrow> (Inl Unsupported, bc)
      | Some st \<Rightarrow>
          (if st_done st then (Inr [], bc)
           else (case rd (st_reader st) n of
               (Inl e, r') \<Rightarrow> (Inl e, bc\<lparr>bc_state := Some (st\<lparr>st_reader := r'\<rparr>)\<rparr>)
             | (Inr buf, r') \<Rightarrow>
                 (case aes_process C (bc_encrypt bc)
                         (st\<lparr>st_reader := r', st_done := (buf = [])\<rparr>) buf of
                    (res, st') \<Rightarrow> (res, bc\<lparr>bc_state := Some st'\<rparr>)))))"

text \<open>
  \<open>AsyncRead::poll_read\<close>. The buffer is its filled part and the number of free bytes; a ready inner
  reader appends to the filled part, and only the appended part is processed.
\<close>

datatype 'a poll = Pending | Ready 'a

type_synonym 'r poll_fn = "'r \<Rightarrow> nat \<Rightarrow> (io_error, bytes) result poll \<times> 'r"

definition aes_poll_read ::
  "('c, 'h, 'g) crypto \<Rightarrow> 'r poll_fn \<Rightarrow> ('c, 'h, 'r) aes_ctr \<Rightarrow> bytes \<Rightarrow> nat \<Rightarrow>
     (io_error, unit) result poll \<times> bytes \<times> ('c, 'h, 'r) aes_ctr" where
  "aes_poll_read C prd bc filled n =
     (case bc_state bc of
        None \<Rightarrow> (Ready (Inl Unsupported), filled, bc)
      | Some st \<Rightarrow>
          (if st_done st then (Ready (Inr ()), filled, bc)
           else (case prd (st_reader st) n of
               (Pending, r') \<Rightarrow> (Pending, filled, bc\<lparr>bc_state := Some (st\<lparr>st_reader := r'\<rparr>)\<rparr>)
             | (Ready (Inl e), r') \<Rightarrow>
                 (Ready (Inl e), filled, bc\<lparr>bc_state := Some (st\<lparr>st_reader := r'\<rparr>)\<rparr>)
             | (Ready (Inr buf), r') \<Rightarrow>
                 (case aes_process C (bc_encrypt bc)
                         (st\<lparr>st_reader := r', st_done := (buf = [])\<rparr>) buf of
                    (Inl e, st') \<Rightarrow> (Ready (Inl e), filled @ buf, bc\<lparr>bc_state := Some st'\<rparr>)
                  | (Inr out, st') \<Rightarrow>
                      (Ready (Inr ()), filled @ out, bc\<lparr>bc_state := Some st'\<rparr>)))))"

section \<open>The handler\<close>

datatype ('c, 'h, 'r) layer_handler = Aes256Ctr "('c, 'h, 'r) aes_ctr"

definition handler_new :: "(cipher_error, ('c, 'h, 'r) layer_handler) result" where
  "handler_new = and_then (aes_new 256) (\<lambda>bc. Inr (Aes256Ctr bc))"

text \<open>
  Both entry points write through \<open>&mut self\<close> and \<open>&mut opts\<close>; the state returned is what those
  references hold afterwards, also when an error is returned.
\<close>

fun handler_encrypt ::
  "('c, 'h, 'g) crypto \<Rightarrow> 'r \<Rightarrow> string \<Rightarrow>
     (('c, 'h, 'r) layer_handler \<times> layer_opts \<times> 'g, cipher_error, unit) stateful" where
  "handler_encrypt C rdr typ (Aes256Ctr bc, opts, g) =
     (if typ \<noteq> AES256CTR then (Inl (UnsupportedCipherType typ), (Aes256Ctr bc, opts, g))
      else (case aes_generate_key C bc g of
          (Inl e, g') \<Rightarrow> (Inl e, (Aes256Ctr bc, opts, g'))
        | (Inr key, g') \<Rightarrow>
            (let opts' = opts\<lparr>lbco_private := (lbco_private opts)\<lparr>symmetric_key := key\<rparr>,
                              lbco_public := (lbco_public opts)\<lparr>cipher_type := AES256CTR\<rparr>\<rparr>
             in (case aes_encrypt C rdr bc opts' g' of
                   (Inl e, g'') \<Rightarrow> (Inl e, (Aes256Ctr bc, opts', g''))
                 | (Inr (bc', opts''), g'') \<Rightarrow> (Inr (), (Aes256Ctr bc', opts'', g''))))))"

fun handler_decrypt ::
  "('c, 'h, 'g) crypto \<Rightarrow> 'r \<Rightarrow>
     (('c, 'h, 'r) layer_handler \<times> layer_opts \<times> 'g, cipher_error, unit) stateful" where
  "handler_decrypt C rdr (Aes256Ctr bc, opts, g) =
     (if cipher_type (lbco_public opts) \<noteq> AES256CTR
      then (Inl (UnsupportedCipherType (cipher_type (lbco_public opts))), (Aes256Ctr bc, opts, g))
      else (case aes_decrypt C rdr bc opts g of
          (Inl e, g') \<Rightarrow> (Inl e, (Aes256Ctr bc, opts, g'))
        | (Inr (bc', opts'), g') \<Rightarrow> (Inr (), (Aes256Ctr bc', opts', g'))))"

fun handler_finalized_lbco ::
  "('c, 'h, 'r) layer_handler \<Rightarrow> layer_opts \<Rightarrow> (cipher_error, layer_opts) result" where
  "handler_finalized_lbco (Aes256Ctr bc) opts = aes_finalized_lbco bc opts"

fun handler_read ::
  "('c, 'h, 'g) crypto \<Rightarrow> 'r read_fn \<Rightarrow> ('c, 'h, 'r) layer_handler read_fn" where
  "handler_read C rd (Aes256Ctr bc) n = (case aes_read C rd bc n of (r, bc') \<Rightarrow> (r, Aes256Ctr bc'))"

fun handler_poll_read ::
  "('c, 'h, 'g) crypto \<Rightarrow> 'r poll_fn \<Rightarrow> ('c, 'h, 'r) layer_handler \<Rightarrow> bytes \<Rightarrow> nat \<Rightarrow>
     (io_error, unit) result poll \<times> bytes \<times> ('c, 'h, 'r) layer_handler" where
  "handler_poll_read C prd (Aes256Ctr bc) filled n =
     (case aes_poll_read C prd bc filled n of (r, f, bc') \<Rightarrow> (r, f, Aes256Ctr bc'))"

section \<open>The cipher as a reader\<close>

lemma ctr_append:
  assumes "crypto_laws C"
  shows "fst (ctr_apply C c (x @ y)) =
           fst (ctr_apply C c x) @ fst (ctr_apply C (snd (ctr_apply C c x)) y)"
    and "snd (ctr_apply C c (x @ y)) = snd (ctr_apply C (snd (ctr_apply C c x)) y)"
  using assms unfolding crypto_laws_def ctr_laws_def by blast+

lemma ctr_length: "crypto_laws C \<Longrightarrow> length (fst (ctr_apply C c x)) = length x"
  unfolding crypto_laws_def ctr_laws_def by blast

lemma ctr_involution: "crypto_laws C \<Longrightarrow> fst (ctr_apply C c (fst (ctr_apply C c x))) = x"
  unfolding crypto_laws_def ctr_laws_def by blast

lemma ctr_Nil [simp]: "crypto_laws C \<Longrightarrow> fst (ctr_apply C c []) = []"
  using ctr_length [of C c "[]"] by simp

lemma ctr_eq_Nil_iff: "crypto_laws C \<Longrightarrow> fst (ctr_apply C c x) = [] \<longleftrightarrow> x = []"
  using ctr_length [of C c x] by fastforce

lemma hmac_append:
  "crypto_laws C \<Longrightarrow> hmac_update C h (x @ y) = hmac_update C (hmac_update C h x) y"
  unfolding crypto_laws_def hmac_laws_def by blast

lemma hmac_Nil [simp]: "crypto_laws C \<Longrightarrow> hmac_update C h [] = h"
  unfolding crypto_laws_def hmac_laws_def by blast

lemma hmac_tag_not_Nil: "crypto_laws C \<Longrightarrow> hmac_finalize C h \<noteq> []"
  unfolding crypto_laws_def hmac_laws_def by blast

lemma hmac_verify_iff: "crypto_laws C \<Longrightarrow> hmac_verify C h t \<longleftrightarrow> t = hmac_finalize C h"
  unfolding crypto_laws_def hmac_laws_def by blast

lemma os_rand_length: "crypto_laws C \<Longrightarrow> os_rand C g n = (Inr b, g') \<Longrightarrow> length b = n"
  unfolding crypto_laws_def rand_laws_def by blast

lemmas crypto_rules = ctr_append ctr_eq_Nil_iff hmac_append hmac_verify_iff

text \<open>
  A running cipher that will end with the tag \<open>T\<close>: the inner reader is well behaved, \<open>T\<close> is the tag
  of the cipher text that is still to pass, and it is the announced tag when decrypting.
\<close>

definition cipher_inv ::
  "('c, 'h, 'g) crypto \<Rightarrow> 'r read_fn \<Rightarrow> ('r \<Rightarrow> bool) \<Rightarrow> ('r \<Rightarrow> bytes) \<Rightarrow> bytes \<Rightarrow>
     ('c, 'h, 'r) aes_ctr \<Rightarrow> bool" where
  "cipher_inv C rd good cont T bc \<longleftrightarrow>
     crypto_laws C \<and> byte_source rd good cont \<and>
     (\<exists>st. bc_state bc = Some st \<and>
        (st_done st \<or> \<not> bc_encrypt bc \<longrightarrow> st_exp_hmac st = T) \<and>
        (\<not> st_done st \<longrightarrow> good (st_reader st) \<and>
           hmac_finalize C (hmac_update C (st_hmac st)
             (if bc_encrypt bc then fst (ctr_apply C (st_cipher st) (cont (st_reader st)))
              else cont (st_reader st))) = T))"

definition cipher_contents ::
  "('c, 'h, 'g) crypto \<Rightarrow> ('r \<Rightarrow> bytes) \<Rightarrow> ('c, 'h, 'r) aes_ctr \<Rightarrow> bytes" where
  "cipher_contents C cont bc =
     (case bc_state bc of
        None \<Rightarrow> []
      | Some st \<Rightarrow> if st_done st then [] else fst (ctr_apply C (st_cipher st) (cont (st_reader st))))"

lemma aes_read_done: "bc_state bc = Some st \<Longrightarrow> st_done st \<Longrightarrow> aes_read C rd bc n = (Inr [], bc)"
  by (simp add: aes_read_def)

lemma aes_read_chunk:
  assumes "bc_state bc = Some st" and "\<not> st_done st" and "rd (st_reader st) n = (Inr b, r')" and "b \<noteq> []"
  shows "aes_read C rd bc n =
    (Inr (fst (ctr_apply C (st_cipher st) b)),
     bc\<lparr>bc_state := Some (st\<lparr>st_reader := r', st_done := False,
        st_cipher := snd (ctr_apply C (st_cipher st) b),
        st_hmac := hmac_update C (st_hmac st)
                     (if bc_encrypt bc then fst (ctr_apply C (st_cipher st) b) else b)\<rparr>)\<rparr>)"
  using assms by (simp add: aes_read_def aes_process_def Let_def)

lemma aes_read_eof_encrypt:
  assumes "bc_state bc = Some st" and "\<not> st_done st" and "rd (st_reader st) n = (Inr [], r')" and "bc_encrypt bc"
  shows "aes_read C rd bc n =
    (Inr [], bc\<lparr>bc_state := Some (st\<lparr>st_reader := r', st_done := True,
        st_exp_hmac := hmac_finalize C (st_hmac st)\<rparr>)\<rparr>)"
  using assms by (simp add: aes_read_def aes_process_def)

lemma aes_read_eof_decrypt:
  assumes "bc_state bc = Some st" and "\<not> st_done st" and "rd (st_reader st) n = (Inr [], r')" and "\<not> bc_encrypt bc"
  shows "aes_read C rd bc n =
    ((if hmac_verify C (st_hmac st) (st_exp_hmac st) then Inr []
      else Inl (HmacMismatch (st_exp_hmac st) (hmac_finalize C (st_hmac st)))),
     bc\<lparr>bc_state := Some (st\<lparr>st_reader := r', st_done := True\<rparr>)\<rparr>)"
  using assms by (simp add: aes_read_def aes_process_def)

lemma aes_read_Nil_done:
  assumes "crypto_laws C" and "aes_read C rd bc n = (Inr [], bc')"
  shows "\<exists>st. bc_state bc' = Some st \<and> st_done st"
  using assms
  by (auto simp: aes_read_def aes_process_def Let_def ctr_eq_Nil_iff
      split: option.splits prod.splits sum.splits if_splits)

lemma aes_read_step:
  assumes inv: "cipher_inv C rd good cont T bc" and pos: "0 < n"
  shows "\<exists>b s'. aes_read C rd bc n = (Inr b, s') \<and> cipher_inv C rd good cont T s' \<and>
     cipher_contents C cont bc = b @ cipher_contents C cont s' \<and> length b \<le> n \<and>
     (b = [] \<longrightarrow> cipher_contents C cont bc = [])"
proof -
  from inv obtain st where laws: "crypto_laws C" and src: "byte_source rd good cont"
    and st: "bc_state bc = Some st" and exp: "\<not> bc_encrypt bc \<Longrightarrow> st_exp_hmac st = T"
    and run: "\<not> st_done st \<Longrightarrow> good (st_reader st)"
    and tag: "\<not> st_done st \<Longrightarrow> hmac_finalize C (hmac_update C (st_hmac st)
         (if bc_encrypt bc then fst (ctr_apply C (st_cipher st) (cont (st_reader st)))
          else cont (st_reader st))) = T"
    unfolding cipher_inv_def by blast
  show ?thesis
  proof (cases "st_done st")
    case True
    with st inv show ?thesis by (auto simp: aes_read_done cipher_contents_def)
  next
    case False
    from byte_source.read_step [OF src run [OF False] pos]
    obtain b r' where rd: "rd (st_reader st) n = (Inr b, r')" and good': "good r'"
      and split: "cont (st_reader st) = b @ cont r'" and len: "length b \<le> n"
      and eof: "b = [] \<Longrightarrow> cont (st_reader st) = []" by blast
    show ?thesis
    proof (cases "b = []")
      case True
      with eof have nil: "cont (st_reader st) = []" by blast
      from laws tag [OF False] nil have fin: "hmac_finalize C (st_hmac st) = T"
        by (auto split: if_splits)
      with True False st rd laws src nil exp show ?thesis
        by (cases "bc_encrypt bc")
           (simp_all add: aes_read_eof_encrypt aes_read_eof_decrypt cipher_inv_def
              cipher_contents_def hmac_verify_iff)
    next
      case ne: False
      have "length (fst (ctr_apply C (st_cipher st) b)) \<le> n"
        using len laws by (simp add: ctr_length)
      with ne False st rd laws src good' split tag exp show ?thesis
        by (cases "bc_encrypt bc")
           (simp_all add: aes_read_chunk cipher_inv_def cipher_contents_def crypto_rules)
    qed
  qed
qed

interpretation cipher: byte_source "aes_read C rd" "cipher_inv C rd good cont T" "cipher_contents C cont"
  for C rd good cont T
  by unfold_locales (rule aes_read_step)

text \<open>The handler is the cipher under a constructor.\<close>

fun handler_cipher :: "('c, 'h, 'r) layer_handler \<Rightarrow> ('c, 'h, 'r) aes_ctr" where
  "handler_cipher (Aes256Ctr bc) = bc"

interpretation layer: byte_source "handler_read C rd"
  "\<lambda>h. cipher_inv C rd good cont T (handler_cipher h)" "\<lambda>h. cipher_contents C cont (handler_cipher h)"
  for C rd good cont T
proof unfold_locales
  fix h :: "('a, 'b, 'd) layer_handler" and n :: nat
  assume "cipher_inv C rd good cont T (handler_cipher h)" and "0 < n"
  then show "\<exists>b s'. handler_read C rd h n = (Inr b, s') \<and> cipher_inv C rd good cont T (handler_cipher s') \<and>
     cipher_contents C cont (handler_cipher h) = b @ cipher_contents C cont (handler_cipher s') \<and>
     length b \<le> n \<and> (b = [] \<longrightarrow> cipher_contents C cont (handler_cipher h) = [])"
    by (cases h) (use aes_read_step [of C rd good cont T "handler_cipher h" n] in fastforce)
qed

section \<open>Setting up the cipher\<close>

lemma aes_nonce_length:
  assumes "crypto_laws C" and "aes_nonce C opts g = (Inr nonce, g')"
  shows "length nonce = AES256_NONCE_SIZE"
  using assms
  by (auto simp: aes_nonce_def rand_bytes_def result_iff dest: os_rand_length
      split: option.splits if_splits prod.splits)

lemma get_opt_or_insert:
  assumes "get_opt opts k = None \<or> get_opt opts k = Some v"
  shows "get_opt (opts\<lparr>lbco_private := (lbco_private opts)
            \<lparr>priv_cipher_options := or_insert (priv_cipher_options (lbco_private opts)) k v\<rparr>\<rparr>) k = Some v"
  using assms by (auto simp: get_opt_def or_insert_def split: option.splits)

lemma get_opt_hmac_upd [simp]:
  "get_opt (opts\<lparr>lbco_public := (lbco_public opts)\<lparr>pub_hmac := t\<rparr>\<rparr>) k = get_opt opts k"
  by (simp add: get_opt_def split: option.splits)

lemma aes_init_ok_iff:
  "aes_init C enc rdr bc opts g = (Inr (bc', opts'), g') \<longleftrightarrow>
     length (symmetric_key (lbco_private opts)) = AES256_KEY_SIZE \<and>
     (enc \<or> pub_hmac (lbco_public opts) \<noteq> []) \<and>
     (\<exists>nonce h. aes_nonce C opts g = (Inr nonce, g') \<and>
        hmac_new C (symmetric_key (lbco_private opts)) = Some h \<and>
        bc' = bc\<lparr>bc_encrypt := enc, bc_state := Some \<lparr>st_done = False,
           st_cipher = ctr_new C (symmetric_key (lbco_private opts)) nonce,
           st_exp_hmac = pub_hmac (lbco_public opts), st_hmac = h, st_reader = rdr\<rparr>\<rparr> \<and>
        opts' = opts\<lparr>lbco_private := (lbco_private opts)\<lparr>priv_cipher_options :=
           or_insert (priv_cipher_options (lbco_private opts)) ''nonce'' nonce\<rparr>\<rparr>)"
  by (auto simp: aes_init_def Let_def split: prod.splits sum.splits option.splits)

lemma aes_nonce_agrees:
  assumes "aes_nonce C opts g = (Inr nonce, g')"
  shows "get_opt opts ''nonce'' = None \<or> get_opt opts ''nonce'' = Some nonce"
  using assms by (auto simp: aes_nonce_def split: option.splits if_splits)

section \<open>Encryption followed by decryption\<close>

lemma handler_encrypt_inv:
  assumes laws: "crypto_laws C" and src: "byte_source rd good cont" and "good src"
    and enc: "handler_encrypt C src typ (h0, opts0, g0) = (Inr (), (h1, opts1, g1))"
  shows "\<exists>nonce mac. get_opt opts1 ''nonce'' = Some nonce \<and> length nonce = AES256_NONCE_SIZE \<and>
      length (symmetric_key (lbco_private opts1)) = AES256_KEY_SIZE \<and>
      cipher_type (lbco_public opts1) = AES256CTR \<and>
      hmac_new C (symmetric_key (lbco_private opts1)) = Some mac \<and>
      bc_encrypt (handler_cipher h1) \<and>
      bc_state (handler_cipher h1) = Some \<lparr>st_done = False,
         st_cipher = ctr_new C (symmetric_key (lbco_private opts1)) nonce,
         st_exp_hmac = pub_hmac (lbco_public opts0), st_hmac = mac, st_reader = src\<rparr>"
proof -
  obtain bc0 where h0: "h0 = Aes256Ctr bc0" by (cases h0)
  from enc h0 obtain key g' bc1 where init: "aes_init C True src bc0
        (opts0\<lparr>lbco_private := (lbco_private opts0)\<lparr>symmetric_key := key\<rparr>,
               lbco_public := (lbco_public opts0)\<lparr>cipher_type := AES256CTR\<rparr>\<rparr>) g' = (Inr (bc1, opts1), g1)"
    and h1: "h1 = Aes256Ctr bc1"
    by (auto simp: aes_encrypt_def Let_def split: if_splits prod.splits sum.splits)
  let ?opts = "opts0\<lparr>lbco_private := (lbco_private opts0)\<lparr>symmetric_key := key\<rparr>,
               lbco_public := (lbco_public opts0)\<lparr>cipher_type := AES256CTR\<rparr>\<rparr>"
  from init [unfolded aes_init_ok_iff] obtain nonce mac where
    n: "aes_nonce C ?opts g' = (Inr nonce, g1)" and m: "hmac_new C key = Some mac"
    and k: "length key = AES256_KEY_SIZE"
    and bc1: "bc1 = bc0\<lparr>bc_encrypt := True, bc_state := Some \<lparr>st_done = False,
         st_cipher = ctr_new C key nonce, st_exp_hmac = pub_hmac (lbco_public opts0),
         st_hmac = mac, st_reader = src\<rparr>\<rparr>"
    and o1: "opts1 = ?opts\<lparr>lbco_private := (lbco_private ?opts)\<lparr>priv_cipher_options :=
         or_insert (priv_cipher_options (lbco_private ?opts)) ''nonce'' nonce\<rparr>\<rparr>"
    by auto
  have "get_opt opts1 ''nonce'' = Some nonce"
    unfolding o1 by (rule get_opt_or_insert) (rule aes_nonce_agrees [OF n])
  moreover from laws n have "length nonce = AES256_NONCE_SIZE" by (rule aes_nonce_length)
  ultimately show ?thesis using h1 bc1 o1 k m by simp
qed

lemma handler_decrypt_ok:
  assumes "cipher_type (lbco_public opts) = AES256CTR"
    and "length (symmetric_key (lbco_private opts)) = AES256_KEY_SIZE"
    and "pub_hmac (lbco_public opts) \<noteq> []"
    and "get_opt opts ''nonce'' = Some nonce" and "length nonce = AES256_NONCE_SIZE"
    and "hmac_new C (symmetric_key (lbco_private opts)) = Some mac"
  shows "\<exists>h' opts'. handler_decrypt C ct (h, opts, g) = (Inr (), (h', opts', g)) \<and>
     bc_encrypt (handler_cipher h') = False \<and>
     bc_state (handler_cipher h') = Some \<lparr>st_done = False,
       st_cipher = ctr_new C (symmetric_key (lbco_private opts)) nonce,
       st_exp_hmac = pub_hmac (lbco_public opts), st_hmac = mac, st_reader = ct\<rparr> \<and>
     priv_digest (lbco_private opts') = priv_digest (lbco_private opts)"
proof -
  obtain bc where h: "h = Aes256Ctr bc" by (cases h)
  from assms show ?thesis
    by (simp add: h aes_decrypt_def aes_init_def aes_nonce_def)
qed

lemma handler_encrypt_drain:
  assumes laws: "crypto_laws C" and src: "byte_source rd good cont" and "good src"
    and st: "bc_state (handler_cipher h1) = Some \<lparr>st_done = False, st_cipher = c,
         st_exp_hmac = e, st_hmac = mac, st_reader = src\<rparr>" and enc: "bc_encrypt (handler_cipher h1)"
    and pos: "\<forall>n\<in>set ns. 0 < n"
    and out: "read_to_end (handler_read C rd) ns [] h1 = Some (r, h2)"
  shows "r = Inr (fst (ctr_apply C c (cont src)))"
    and "\<exists>st'. bc_state (handler_cipher h2) = Some st' \<and> st_done st' \<and>
           st_exp_hmac st' = hmac_finalize C (hmac_update C mac (fst (ctr_apply C c (cont src))))"
proof -
  let ?T = "hmac_finalize C (hmac_update C mac (fst (ctr_apply C c (cont src))))"
  have inv: "cipher_inv C rd good cont ?T (handler_cipher h1)"
    using assms by (simp add: cipher_inv_def)
  have cts: "cipher_contents C cont (handler_cipher h1) = fst (ctr_apply C c (cont src))"
    by (simp add: cipher_contents_def st)
  show r: "r = Inr (fst (ctr_apply C c (cont src)))"
    using layer.read_to_end_prefix [OF inv pos out] cts by simp
  have "cipher_inv C rd good cont ?T (handler_cipher h2)"
    using layer.read_to_end_keeps [OF inv pos out] by simp
  moreover from read_to_end_last [OF out [unfolded r]] obtain t n
    where last: "handler_read C rd t n = (Inr [], h2)" by blast
  have "\<exists>st. bc_state (handler_cipher h2) = Some st \<and> st_done st"
  proof (cases t)
    case (Aes256Ctr bc)
    with last obtain bc2 where "aes_read C rd bc n = (Inr [], bc2)" and "h2 = Aes256Ctr bc2"
      by (auto split: prod.splits)
    with aes_read_Nil_done [OF laws] show ?thesis by auto
  qed
  ultimately show "\<exists>st'. bc_state (handler_cipher h2) = Some st' \<and> st_done st' \<and> st_exp_hmac st' = ?T"
    by (auto simp: cipher_inv_def)
qed

text \<open>
  The owner of the options may write its own fields between encryption and finalization
  (\<open>encrypt_layer\<close> records the digest there); decryption hands them back.
\<close>

lemma encrypt_drain_decrypt:
  assumes laws: "crypto_laws C" and src: "byte_source rd good cont" and good: "good src"
    and enc: "handler_encrypt C src AES256CTR (h0, opts0, g0) = (Inr (), (h1, opts1, g1))"
    and same: "lbco_public opts1' = lbco_public opts1"
      "symmetric_key (lbco_private opts1') = symmetric_key (lbco_private opts1)"
      "priv_cipher_options (lbco_private opts1') = priv_cipher_options (lbco_private opts1)"
    and pos: "\<forall>n\<in>set ns. 0 < n" and out: "read_to_end (handler_read C rd) ns [] h1 = Some (Inr ct, h2)"
    and fin: "handler_finalized_lbco h2 opts1' = Inr opts2"
    and pos': "\<forall>n\<in>set ms. 0 < n" and enough: "length ct < length ms"
  shows "\<exists>h3 opts3. handler_decrypt C ct (h0', opts2, g2) = (Inr (), (h3, opts3, g2)) \<and>
           priv_digest (lbco_private opts3) = priv_digest (lbco_private opts1') \<and>
           (\<exists>h4. read_to_end (handler_read C slice_read) ms [] h3 = Some (Inr (cont src), h4))"
proof -
  from handler_encrypt_inv [OF laws src good enc] obtain nonce mac where
    n: "get_opt opts1 ''nonce'' = Some nonce" "length nonce = AES256_NONCE_SIZE"
    and k: "length (symmetric_key (lbco_private opts1)) = AES256_KEY_SIZE"
    and ty: "cipher_type (lbco_public opts1) = AES256CTR"
    and m: "hmac_new C (symmetric_key (lbco_private opts1)) = Some mac"
    and e: "bc_encrypt (handler_cipher h1)"
    and st: "bc_state (handler_cipher h1) = Some \<lparr>st_done = False,
         st_cipher = ctr_new C (symmetric_key (lbco_private opts1)) nonce,
         st_exp_hmac = pub_hmac (lbco_public opts0), st_hmac = mac, st_reader = src\<rparr>" by blast
  let ?c = "ctr_new C (symmetric_key (lbco_private opts1)) nonce"
  note drained = handler_encrypt_drain [OF laws src good st e pos out]
  from drained(1) have ct: "ct = fst (ctr_apply C ?c (cont src))" by simp
  from drained(2) fin have o2: "opts2 = opts1'\<lparr>lbco_public := (lbco_public opts1)
       \<lparr>pub_hmac := hmac_finalize C (hmac_update C mac ct)\<rparr>\<rparr>"
    by (cases h2) (auto simp: aes_finalized_lbco_def ct same)
  have "get_opt opts2 ''nonce'' = Some nonce" using n same by (simp add: o2 get_opt_def split: option.splits)
  with handler_decrypt_ok [of opts2 nonce C mac ct h0' g2] n k ty m hmac_tag_not_Nil [OF laws] same
  obtain h3 opts3 where dec: "handler_decrypt C ct (h0', opts2, g2) = (Inr (), (h3, opts3, g2))"
    and d: "bc_encrypt (handler_cipher h3) = False"
    and dig: "priv_digest (lbco_private opts3) = priv_digest (lbco_private opts2)"
    and st3: "bc_state (handler_cipher h3) = Some \<lparr>st_done = False, st_cipher = ?c,
         st_exp_hmac = hmac_finalize C (hmac_update C mac ct), st_hmac = mac, st_reader = ct\<rparr>"
    by (auto simp: o2)
  have "cipher_inv C slice_read (\<lambda>_. True) (\<lambda>s. s) (hmac_finalize C (hmac_update C mac ct)) (handler_cipher h3)"
    using laws d st3 by (simp add: cipher_inv_def slice.byte_source_axioms)
  moreover have "cipher_contents C (\<lambda>s. s) (handler_cipher h3) = cont src"
    using laws by (simp add: cipher_contents_def st3 ct ctr_involution)
  moreover have "length (cont src) = length ct" using laws by (simp add: ct ctr_length)
  ultimately have "\<exists>h4. read_to_end (handler_read C slice_read) ms [] h3 = Some (Inr (cont src), h4)"
    using layer.read_to_end_complete [of C slice_read "\<lambda>_. True" "\<lambda>s. s" _ h3 ms "[]"] pos' enough
    by fastforce
  with dec dig show ?thesis by (simp add: o2)
qed

text \<open>
  C27. Layer encryption round trip: whatever the inner reader and the buffer sizes of either side,
  encrypting a layer, finalizing its options and decrypting the cipher text with them gives back
  the plain text, and the MAC check passes.
\<close>

theorem layer_cipher_roundtrip:
  assumes laws: "crypto_laws C" and src: "byte_source rd good cont" and good: "good src"
    and enc: "handler_encrypt C src AES256CTR (h0, opts0, g0) = (Inr (), (h1, opts1, g1))"
    and pos: "\<forall>n\<in>set ns. 0 < n" and out: "read_to_end (handler_read C rd) ns [] h1 = Some (Inr ct, h2)"
    and fin: "handler_finalized_lbco h2 opts1 = Inr opts2"
    and pos': "\<forall>n\<in>set ms. 0 < n" and enough: "length ct < length ms"
  shows "\<exists>h3 opts3. handler_decrypt C ct (h0', opts2, g2) = (Inr (), (h3, opts3, g2)) \<and>
           (\<exists>h4. read_to_end (handler_read C slice_read) ms [] h3 = Some (Inr (cont src), h4))"
  using encrypt_drain_decrypt [OF laws src good enc refl refl refl pos out fin pos' enough] by blast

text \<open>
  A small instance of the primitives, on which the theorems are exercised: the key stream
  complements every byte, the MAC is the marked message and the generator returns a constant.
\<close>

definition flip_byte :: "char \<Rightarrow> char" where
  "flip_byte c = char_of (255 - (of_char c :: nat))"

definition demo_crypto :: "(unit, bytes, unit) crypto" where
  "demo_crypto =
     \<lparr>ctr_new = \<lambda>k n. (), ctr_apply = \<lambda>c x. (map flip_byte x, ()),
      hmac_new = \<lambda>k. Some [], hmac_update = \<lambda>h x. h @ x, hmac_finalize = \<lambda>h. CHR ''T'' # h,
      hmac_verify = \<lambda>h t. t = CHR ''T'' # h,
      os_rand = \<lambda>g n. (Inr (replicate n (CHR ''k'')), g)\<rparr>"

lemma flip_byte_flip [simp]: "flip_byte (flip_byte c) = c"
proof -
  have "(of_char c :: nat) < 256" by simp
  then have "(255 - (255 - (of_char c :: nat))) = of_char c" by linarith
  then show ?thesis by (simp add: flip_byte_def)
qed

lemma demo_crypto_laws: "crypto_laws demo_crypto"
  by (simp add: crypto_laws_def ctr_laws_def hmac_laws_def rand_laws_def demo_crypto_def comp_def)

definition demo_handler :: "(unit, bytes, bytes) layer_handler" where
  "demo_handler = Aes256Ctr \<lparr>bc_key_len = 32, bc_encrypt = False, bc_state = None\<rparr>"

lemmas cipher_eval = demo_crypto_def demo_handler_def aes_generate_key_def rand_bytes_def
  aes_encrypt_def aes_decrypt_def aes_init_def aes_nonce_def get_opt_def or_insert_def
  layer_opts_default_def public_opts_default_def private_opts_default_def
  aes_read_def aes_process_def slice_read_def aes_finalized_lbco_def AES256_KEY_SIZE_def
  AES256_NONCE_SIZE_def flip_byte_def Let_def

theorem layer_cipher_roundtrip_witness:
  "\<exists>h1 opts1 g1 ct h2 opts2 h3 opts3 h4.
     handler_encrypt demo_crypto ''hi'' AES256CTR (demo_handler, layer_opts_default, ()) =
       (Inr (), (h1, opts1, g1)) \<and>
     read_to_end (handler_read demo_crypto slice_read) [1, 1, 1] [] h1 = Some (Inr ct, h2) \<and>
     ct \<noteq> ''hi'' \<and>
     handler_finalized_lbco h2 opts1 = Inr opts2 \<and>
     handler_decrypt demo_crypto ct (demo_handler, opts2, ()) = (Inr (), (h3, opts3, ())) \<and>
     read_to_end (handler_read demo_crypto slice_read) [5, 5, 5, 5] [] h3 = Some (Inr ''hi'', h4)"
proof -
  let ?X = "handler_encrypt demo_crypto ''hi'' AES256CTR (demo_handler, layer_opts_default, ())"
  obtain h1 opts1 g1 where X: "?X = (Inr (), (h1, opts1, g1))" and h1: "h1 = fst (snd ?X)"
    by (simp add: cipher_eval)
  obtain ct h2 where rd: "read_to_end (handler_read demo_crypto slice_read) [1, 1, 1] [] h1 = Some (Inr ct, h2)"
    and h2: "h2 = snd (the (read_to_end (handler_read demo_crypto slice_read) [1, 1, 1] [] h1))"
    and ct: "ct = map flip_byte ''hi''"
    by (simp add: cipher_eval h1)
  obtain opts2 where fin: "handler_finalized_lbco h2 opts1 = Inr opts2"
    by (simp add: cipher_eval h2 h1)
  have ne: "ct \<noteq> ''hi''" unfolding ct by code_simp
  from layer_cipher_roundtrip [OF demo_crypto_laws slice.byte_source_axioms _ X _ rd fin,
      of "[5, 5, 5, 5]" demo_handler "()"]
  show ?thesis using X rd fin ne by (simp add: ct)
qed

section \<open>Tampering, end of stream and the asynchronous reader\<close>

lemma aes_decrypt_mismatch:
  assumes "crypto_laws C" and "byte_source rd good cont" and "bc_state bc = Some st"
    and "\<not> st_done st" and "good (st_reader st)" and "\<not> bc_encrypt bc"
    and "hmac_finalize C (hmac_update C (st_hmac st) (cont (st_reader st))) = t" and "t \<noteq> st_exp_hmac st"
    and "\<forall>n\<in>set ns. 0 < n" and "length (cont (st_reader st)) < length ns"
  shows "\<exists>bc'. read_to_end (aes_read C rd) ns acc bc = Some (Inl (HmacMismatch (st_exp_hmac st) t), bc') \<and>
           (\<exists>st'. bc_state bc' = Some st' \<and> st_done st')"
  using assms
proof (induction ns arbitrary: bc st acc)
  case Nil
  then show ?case by simp
next
  case (Cons n ns)
  then have pos: "0 < n" and laws: "crypto_laws C" by simp_all
  from byte_source.read_step [OF Cons.prems(2,5) pos] obtain b r' where chunk:
    "rd (st_reader st) n = (Inr b, r')" "good r'" "cont (st_reader st) = b @ cont r'"
    and eof: "b = [] \<Longrightarrow> cont (st_reader st) = []" by blast
  show ?case
  proof (cases "b = []")
    case True
    with Cons.prems laws chunk eof show ?thesis
      by (simp add: aes_read_eof_decrypt hmac_verify_iff)
  next
    case False
    let ?st = "st\<lparr>st_reader := r', st_done := False, st_cipher := snd (ctr_apply C (st_cipher st) b),
                  st_hmac := hmac_update C (st_hmac st) b\<rparr>"
    have "length (cont r') < length ns" using Cons.prems(10) chunk False by (cases b) auto
    with Cons.IH [of "bc\<lparr>bc_state := Some ?st\<rparr>" ?st "acc @ fst (ctr_apply C (st_cipher st) b)"]
      Cons.prems chunk False laws show ?thesis
      by (simp add: aes_read_chunk crypto_rules)
  qed
qed

lemma handler_read_to_end:
  "read_to_end (handler_read C rd) ns acc (Aes256Ctr bc) =
     map_option (map_prod id Aes256Ctr) (read_to_end (aes_read C rd) ns acc bc)"
  by (induction ns arbitrary: acc bc) (auto split: prod.splits sum.splits)

lemma handler_decrypt_state:
  assumes "handler_decrypt C src (h0, opts, g) = (Inr (), (h, opts', g'))"
  shows "\<exists>bc nonce mac. h = Aes256Ctr bc \<and> \<not> bc_encrypt bc \<and>
     hmac_new C (symmetric_key (lbco_private opts)) = Some mac \<and>
     bc_state bc = Some \<lparr>st_done = False, st_cipher = ctr_new C (symmetric_key (lbco_private opts)) nonce,
        st_exp_hmac = pub_hmac (lbco_public opts), st_hmac = mac, st_reader = src\<rparr>"
proof -
  obtain bc0 where h0: "h0 = Aes256Ctr bc0" by (cases h0)
  from assms obtain bc' where "aes_init C False src bc0 opts g = (Inr (bc', opts'), g')" and "h = Aes256Ctr bc'"
    by (auto simp: h0 aes_decrypt_def split: if_splits prod.splits sum.splits)
  then show ?thesis by (auto simp: aes_init_ok_iff)
qed

text \<open>
  C28. Tamper detection: if the tag recorded in the options is not the tag of the stream, decryption
  of the stream never completes: the loop that reads it to the end gets the HMAC error. The error is
  raised once, a later read on the same handler reports a normal end of stream.
\<close>

theorem decrypt_detects_tampering:
  assumes laws: "crypto_laws C" and src: "byte_source rd good cont" and good: "good src"
    and dec: "handler_decrypt C src (h0, opts, g) = (Inr (), (h, opts', g'))"
    and mac: "hmac_new C (symmetric_key (lbco_private opts)) = Some mac"
    and bad: "hmac_finalize C (hmac_update C mac (cont src)) \<noteq> pub_hmac (lbco_public opts)"
    and pos: "\<forall>n\<in>set ns. 0 < n" and enough: "length (cont src) < length ns"
  shows "\<exists>h'. read_to_end (handler_read C rd) ns [] h =
           Some (Inl (HmacMismatch (pub_hmac (lbco_public opts))
                        (hmac_finalize C (hmac_update C mac (cont src)))), h') \<and>
           (\<forall>n. handler_read C rd h' n = (Inr [], h'))"
proof -
  from handler_decrypt_state [OF dec] mac obtain bc nonce where h: "h = Aes256Ctr bc" "\<not> bc_encrypt bc"
    and st: "bc_state bc = Some \<lparr>st_done = False, st_cipher = ctr_new C (symmetric_key (lbco_private opts)) nonce,
        st_exp_hmac = pub_hmac (lbco_public opts), st_hmac = mac, st_reader = src\<rparr>" by auto
  from aes_decrypt_mismatch [OF laws src st, of "hmac_finalize C (hmac_update C mac (cont src))" ns "[]"]
    good h(2) bad pos enough
  obtain bc' where r: "read_to_end (aes_read C rd) ns [] bc = Some (Inl (HmacMismatch
       (pub_hmac (lbco_public opts)) (hmac_finalize C (hmac_update C mac (cont src)))), bc')"
    and fin: "\<exists>st'. bc_state bc' = Some st' \<and> st_done st'" by auto
  show ?thesis
  proof (intro exI conjI allI)
    show "read_to_end (handler_read C rd) ns [] h = Some (Inl (HmacMismatch
       (pub_hmac (lbco_public opts)) (hmac_finalize C (hmac_update C mac (cont src)))), Aes256Ctr bc')"
      by (simp add: h handler_read_to_end r)
    show "handler_read C rd (Aes256Ctr bc') n = (Inr [], Aes256Ctr bc')" for n
      using fin by (auto simp: aes_read_done)
  qed
qed

definition demo_opts :: layer_opts where
  "demo_opts =
     \<lparr>lbco_public = \<lparr>cipher_type = AES256CTR, pub_cipher_options = [''nonce'' \<mapsto> replicate 16 (CHR ''n'')],
                     pub_hmac = ''Tno''\<rparr>,
      lbco_private = \<lparr>symmetric_key = replicate 32 (CHR ''k''), priv_cipher_options = Map.empty,
                      priv_digest = []\<rparr>\<rparr>"

theorem decrypt_detects_tampering_witness:
  "\<exists>h opts' g' h'. handler_decrypt demo_crypto ''hi'' (demo_handler, demo_opts, ()) = (Inr (), (h, opts', g')) \<and>
     read_to_end (handler_read demo_crypto slice_read) [8, 8, 8] [] h =
       Some (Inl (HmacMismatch ''Tno'' ''Thi''), h') \<and>
     handler_read demo_crypto slice_read h' 8 = (Inr [], h')"
proof -
  obtain h opts' g' where d: "handler_decrypt demo_crypto ''hi'' (demo_handler, demo_opts, ()) = (Inr (), (h, opts', g'))"
    by (simp add: cipher_eval demo_opts_def)
  have m: "hmac_new demo_crypto (symmetric_key (lbco_private demo_opts)) = Some []"
    by (simp add: demo_crypto_def)
  from decrypt_detects_tampering [OF demo_crypto_laws slice.byte_source_axioms _ d m, of "[8, 8, 8]"]
  have "\<exists>h'. read_to_end (handler_read demo_crypto slice_read) [8, 8, 8] [] h =
       Some (Inl (HmacMismatch ''Tno'' ''Thi''), h') \<and> (\<forall>n. handler_read demo_crypto slice_read h' n = (Inr [], h'))"
    by (simp add: demo_crypto_def demo_opts_def)
  with d show ?thesis by blast
qed

text \<open>
  A read with an empty buffer ends the stream. Reading zero bytes into a zero-length buffer is
  taken for the end of the input: an encrypting cipher then finalizes the tag of what has passed so
  far, reports a normal end of stream from there on and lets \<open>finalized_lbco\<close> succeed, although
  the inner reader still holds data.
\<close>

lemma empty_buffer_read_truncates:
  assumes "bc_state bc = Some st" and "\<not> st_done st" and "bc_encrypt bc" and "st_reader st = rest"
  shows "\<exists>bc'. aes_read C slice_read bc 0 = (Inr [], bc') \<and>
           (\<forall>n. aes_read C slice_read bc' n = (Inr [], bc')) \<and>
           aes_finalized_lbco bc' opts =
             Inr (opts\<lparr>lbco_public := (lbco_public opts)\<lparr>pub_hmac := hmac_finalize C (st_hmac st)\<rparr>\<rparr>) \<and>
           map_option st_reader (bc_state bc') = Some rest"
  using assms
  by (simp add: aes_read_eof_encrypt slice_read_def aes_read_done aes_finalized_lbco_def)

lemma empty_buffer_read_truncates_witness:
  "\<exists>bc'. aes_read demo_crypto slice_read
       \<lparr>bc_key_len = 32, bc_encrypt = True, bc_state = Some \<lparr>st_done = False, st_cipher = (),
          st_exp_hmac = [], st_hmac = ''ab'', st_reader = ''lost''\<rparr>\<rparr> 0 = (Inr [], bc') \<and>
     aes_finalized_lbco bc' layer_opts_default =
       Inr (layer_opts_default\<lparr>lbco_public := public_opts_default\<lparr>pub_hmac := ''Tab''\<rparr>\<rparr>) \<and>
     map_option st_reader (bc_state bc') = Some ''lost''"
  using empty_buffer_read_truncates
    [of "\<lparr>bc_key_len = 32, bc_encrypt = True, bc_state = Some \<lparr>st_done = False, st_cipher = (),
          st_exp_hmac = [], st_hmac = ''ab'', st_reader = ''lost''\<rparr>\<rparr>" _ "''lost''" demo_crypto
        layer_opts_default]
  by (auto simp: layer_opts_default_def demo_crypto_def)

text \<open>
  The asynchronous reader is the synchronous one: polled on an inner reader that is always ready,
  \<open>poll_read\<close> appends to the buffer exactly the bytes that \<open>read\<close> returns, fails with the same
  error and reaches the same cipher state.
\<close>

lemma poll_read_refines_read:
  assumes ready: "\<And>r n. prd r n = (Ready (fst (rd r n)), snd (rd r n))"
  shows "handler_poll_read C prd h filled n =
     (case handler_read C rd h n of
        (Inl e, h') \<Rightarrow> (Ready (Inl e), filled, h')
      | (Inr out, h') \<Rightarrow> (Ready (Inr ()), filled @ out, h'))"
proof (cases h)
  case (Aes256Ctr bc)
  show ?thesis
    by (auto simp: Aes256Ctr aes_poll_read_def aes_read_def ready aes_process_def Let_def
        split: option.splits prod.splits sum.splits)
qed

lemma poll_read_refines_read_witness:
  "handler_poll_read demo_crypto (\<lambda>r n. (Ready (fst (slice_read r n)), snd (slice_read r n)))
     demo_handler ''x'' 3 = (Ready (Inl Unsupported), ''x'', demo_handler)"
  using poll_read_refines_read [of "\<lambda>r n. (Ready (fst (slice_read r n)), snd (slice_read r n))" slice_read
      demo_crypto demo_handler "''x''" 3]
  by (simp add: demo_handler_def aes_read_def)

end
