(* ===== verification/Ocicrypt_Config.thy ===== *)
theory Ocicrypt_Config
  imports Rust_Prelude
begin

text \<open>
  \<open>ocicrypt-rs/src/config.rs\<close> and \<open>helpers.rs\<close>: the parameter maps that carry keys to the key
  wrappers and the command-line style strings they are built from. The file system is the record
  \<open>fs_env\<close>; base64 is a pair of functions of another crate.
\<close>

section \<open>Configuration records\<close>

type_synonym param_map = "string \<rightharpoonup> bytes list"

record command =
  cmd_path :: string
  cmd_args :: "string list option"

record key_provider_attrs =
  attr_cmd :: "command option"
  attr_grpc :: "string option"
  attr_ttrpc :: "string option"
  attr_native :: "string option"

record decrypt_config =
  dc_param :: param_map

record encrypt_config =
  ec_param :: param_map
  ec_decrypt_config :: "decrypt_config option"

record crypto_config =
  cc_encrypt_config :: "encrypt_config option"
  cc_decrypt_config :: "decrypt_config option"

record ocicrypt_config =
  key_providers :: "(string \<times> key_provider_attrs) list"

datatype config_error =
    DecryptValueNone string
  | EncryptValueNone string
  | KeysPasswordsLength
  | ProtocolNotRecognized
  | InvalidRecipientFormat
  | ReadFailed string
  | PanicParseFd string
  | ConfigFileError string

definition decrypt_config_default :: decrypt_config where
  "decrypt_config_default = \<lparr>dc_param = Map.empty\<rparr>"

definition encrypt_config_default :: encrypt_config where
  "encrypt_config_default = \<lparr>ec_param = Map.empty, ec_decrypt_config = None\<rparr>"

definition crypto_config_default :: crypto_config where
  "crypto_config_default = \<lparr>cc_encrypt_config = None, cc_decrypt_config = None\<rparr>"

section \<open>Serialized form of the parameter maps\<close>

definition base64_enc :: "(bytes \<Rightarrow> string) \<Rightarrow> bytes list \<Rightarrow> string list" where
  "base64_enc enc val = map enc val"

definition base64_dec :: "(string \<Rightarrow> ('e, bytes) result) \<Rightarrow> string list \<Rightarrow> ('e, bytes list) result" where
  "base64_dec dec val = try_map dec val"

definition base64_hashmap_s ::
  "(bytes \<Rightarrow> string) \<Rightarrow> (string \<times> bytes list) list \<Rightarrow> (string \<times> string list) list" where
  "base64_hashmap_s enc value =
     fold (\<lambda>(k, v) m. AList.update k (base64_enc enc v) m) value []"

definition base64_hashmap_d ::
  "(string \<Rightarrow> ('e, bytes) result) \<Rightarrow> (string \<times> string list) list \<Rightarrow>
     ('e, (string \<times> bytes list) list) result" where
  "base64_hashmap_d dec b64 = try_map (\<lambda>(k, v). and_then (base64_dec dec v) (\<lambda>v'. Inr (k, v'))) b64"

section \<open>Decryption parameters\<close>

definition extend_param :: "param_map \<Rightarrow> string \<Rightarrow> bytes list \<Rightarrow> param_map" where
  "extend_param m k v = m(k \<mapsto> (case m k of None \<Rightarrow> v | Some old \<Rightarrow> old @ v))"

definition dc_update_param ::
  "string \<Rightarrow> bytes list \<Rightarrow> (decrypt_config, config_error, unit) stateful" where
  "dc_update_param key value dc =
     (if value = [] then (Inl (DecryptValueNone key), dc)
      else (Inr (), dc\<lparr>dc_param := extend_param (dc_param dc) key value\<rparr>))"

definition decrypt_with_priv_keys ::
  "bytes list \<Rightarrow> bytes list \<Rightarrow> (decrypt_config, config_error, unit) stateful" where
  "decrypt_with_priv_keys priv_keys passwords =
     (if length priv_keys \<noteq> length passwords then st_err KeysPasswordsLength
      else st_then (dc_update_param ''privkeys'' priv_keys)
             (\<lambda>_. dc_update_param ''privkeys-passwords'' passwords))"

definition decrypt_with_x509s :: "bytes list \<Rightarrow> (decrypt_config, config_error, unit) stateful" where
  "decrypt_with_x509s x509s = dc_update_param ''x509s'' x509s"

definition decrypt_with_gpg ::
  "bytes list \<Rightarrow> bytes list \<Rightarrow> (decrypt_config, config_error, unit) stateful" where
  "decrypt_with_gpg gpg_priv_keys gpg_priv_pwds =
     st_then (dc_update_param ''gpg-privatekeys'' gpg_priv_keys)
       (\<lambda>_. dc_update_param ''gpg-privatekeys-passwords'' gpg_priv_pwds)"

definition decrypt_with_pkcs11 ::
  "bytes list \<Rightarrow> bytes list \<Rightarrow> (decrypt_config, config_error, unit) stateful" where
  "decrypt_with_pkcs11 pkcs11_config pkcs11_yaml =
     st_then (dc_update_param ''pkcs11-config'' pkcs11_config)
       (\<lambda>_. dc_update_param ''pkcs11-yamls'' pkcs11_yaml)"

text \<open>
  The split of a \<open>key:value\<close> string as it is written in several places: \<open>find\<close> gives a byte index,
  which is then used to count code points.
\<close>

definition char_split :: "string \<Rightarrow> (string \<times> string) option" where
  "char_split val =
     (case str_find (CHR '':'') val of
        Some index \<Rightarrow>
          Some (concat (take index (utf8_chars val)), concat (drop (index + 1) (utf8_chars val)))
      | None \<Rightarrow> None)"

definition provider_param :: "bytes \<Rightarrow> string \<times> bytes list" where
  "provider_param v =
     (let val = from_utf8_lossy v
      in case char_split val of
           Some (key, value) \<Rightarrow> (key, [value])
         | None \<Rightarrow> (val, [''Enabled'']))"

definition decrypt_with_key_provider ::
  "bytes list \<Rightarrow> (decrypt_config, config_error, unit) stateful" where
  "decrypt_with_key_provider providers =
     st_for (\<lambda>v. dc_update_param (fst (provider_param v)) (snd (provider_param v))) providers"

section \<open>Encryption parameters\<close>

definition ec_update_param ::
  "string \<Rightarrow> bytes list \<Rightarrow> (encrypt_config, config_error, unit) stateful" where
  "ec_update_param key value ec =
     (if value = [] then (Inl (EncryptValueNone key), ec)
      else (Inr (), ec\<lparr>ec_param := extend_param (ec_param ec) key value\<rparr>))"

definition encrypt_with_jwe :: "bytes list \<Rightarrow> (encrypt_config, config_error, unit) stateful" where
  "encrypt_with_jwe pubkeys = ec_update_param ''pubkeys'' pubkeys"

definition encrypt_with_pkcs7 :: "bytes list \<Rightarrow> (encrypt_config, config_error, unit) stateful" where
  "encrypt_with_pkcs7 x509s = ec_update_param ''x509s'' x509s"

definition encrypt_with_gpg ::
  "bytes list \<Rightarrow> bytes \<Rightarrow> (encrypt_config, config_error, unit) stateful" where
  "encrypt_with_gpg gpg_recipients gpg_pub_ring_file =
     st_then (ec_update_param ''gpg-recipients'' gpg_recipients)
       (\<lambda>_. ec_update_param ''gpg-pubkeyringfile'' [gpg_pub_ring_file])"

definition encrypt_with_pkcs11 ::
  "bytes list \<Rightarrow> bytes list \<Rightarrow> bytes list \<Rightarrow> (encrypt_config, config_error, unit) stateful" where
  "encrypt_with_pkcs11 pkcs11_config pkcs11_pubkeys pkcs11_yaml =
     st_then (if pkcs11_pubkeys \<noteq> [] then ec_update_param ''pkcs11-pubkeys'' pkcs11_pubkeys else st_ok ())
       (\<lambda>_. if pkcs11_yaml \<noteq> []
            then st_then (ec_update_param ''pkcs11-config'' pkcs11_config)
                   (\<lambda>_. ec_update_param ''pkcs11-yamls'' pkcs11_yaml)
            else st_ok ())"

definition encrypt_with_key_provider ::
  "bytes list \<Rightarrow> (encrypt_config, config_error, unit) stateful" where
  "encrypt_with_key_provider providers =
     st_for (\<lambda>v. ec_update_param (fst (provider_param v)) (snd (provider_param v))) providers"

section \<open>Configuration files\<close>

record fs_env =
  fs_read :: "string \<Rightarrow> (string, bytes) result"
  path_exists :: "string \<Rightarrow> bool"
  fd_read :: "int \<Rightarrow> (string, bytes) result"
  env_var :: "string \<Rightarrow> string option"

definition config_from_file ::
  "fs_env \<Rightarrow> (bytes \<Rightarrow> (string, ocicrypt_config) result) \<Rightarrow> string \<Rightarrow>
     (config_error, ocicrypt_config) result" where
  "config_from_file E json filename =
     and_then (map_err ReadFailed (fs_read E filename)) (\<lambda>b. map_err ConfigFileError (json b))"

definition config_from_env ::
  "fs_env \<Rightarrow> (bytes \<Rightarrow> (string, ocicrypt_config) result) \<Rightarrow> string \<Rightarrow>
     (config_error, ocicrypt_config option) result" where
  "config_from_env E json env =
     (case env_var E env of
        None \<Rightarrow> Inr None
      | Some filename \<Rightarrow> and_then (config_from_file E json filename) (\<lambda>c. Inr (Some c)))"

section \<open>Building configurations from recipient and key strings\<close>

record recipient_keys =
  rk_gpg_recipients :: "bytes list"
  rk_pubkeys :: "bytes list"
  rk_x509s :: "bytes list"
  rk_pkcs11_pubkeys :: "bytes list"
  rk_pkcs11_yamls :: "bytes list"
  rk_key_providers :: "bytes list"

definition no_recipient_keys :: recipient_keys where
  "no_recipient_keys = \<lparr>rk_gpg_recipients = [], rk_pubkeys = [], rk_x509s = [],
     rk_pkcs11_pubkeys = [], rk_pkcs11_yamls = [], rk_key_providers = []\<rparr>"

definition read_file :: "fs_env \<Rightarrow> string \<Rightarrow> (config_error, bytes) result" where
  "read_file E path = map_err ReadFailed (fs_read E path)"

definition add_recipient ::
  "fs_env \<Rightarrow> recipient_keys \<Rightarrow> string \<Rightarrow> (config_error, recipient_keys) result" where
  "add_recipient E rk recipient =
     (case char_split recipient of
        None \<Rightarrow> Inl InvalidRecipientFormat
      | Some (protocol, value) \<Rightarrow>
          (if protocol = ''pgp'' then
             Inr (rk\<lparr>rk_gpg_recipients := rk_gpg_recipients rk @ [value]\<rparr>)
           else if protocol = ''jwe'' then
             and_then (read_file E value) (\<lambda>c. Inr (rk\<lparr>rk_pubkeys := rk_pubkeys rk @ [c]\<rparr>))
           else if protocol = ''pkcs7'' then
             and_then (read_file E value) (\<lambda>c. Inr (rk\<lparr>rk_x509s := rk_x509s rk @ [c]\<rparr>))
           else if protocol = ''pkcs11'' then
             and_then (read_file E value)
               (\<lambda>c. Inr (rk\<lparr>rk_pkcs11_yamls := rk_pkcs11_yamls rk @ [c],
                             rk_pkcs11_pubkeys := rk_pkcs11_pubkeys rk @ [c]\<rparr>))
           else if protocol = ''provider'' then
             Inr (rk\<lparr>rk_key_providers := rk_key_providers rk @ [value]\<rparr>)
           else Inl ProtocolNotRecognized))"

definition process_recipient_keys ::
  "fs_env \<Rightarrow> string list \<Rightarrow> (config_error, recipient_keys) result" where
  "process_recipient_keys E recipients = try_fold (add_recipient E) no_recipient_keys recipients"

fun process_x509_certs :: "fs_env \<Rightarrow> string list \<Rightarrow> (config_error, bytes list) result" where
  "process_x509_certs E [] = Inr []"
| "process_x509_certs E (key # keys) =
     (if CHR '':'' \<in> set key then process_x509_certs E keys
      else if \<not> path_exists E key then process_x509_certs E keys
      else and_then (read_file E key)
             (\<lambda>c. and_then (process_x509_certs E keys) (\<lambda>cs. Inr (c # cs))))"

definition process_pwd_string :: "fs_env \<Rightarrow> string \<Rightarrow> (config_error, bytes) result" where
  "process_pwd_string E pwd_string =
     (case strip_prefix ''file='' pwd_string of
        Some pwd \<Rightarrow> read_file E pwd
      | None \<Rightarrow>
          (case strip_prefix ''pass='' pwd_string of
             Some pwd \<Rightarrow> Inr pwd
           | None \<Rightarrow>
               (case strip_prefix ''fd='' pwd_string of
                  Some pwd \<Rightarrow>
                    (case parse_i32 pwd of
                       None \<Rightarrow> Inl (PanicParseFd pwd)
                     | Some fd \<Rightarrow>
                         and_then (map_err ReadFailed (fd_read E fd))
                           (\<lambda>c. if utf8_valid c then Inr c
                                else Inl (ReadFailed ''stream did not contain valid UTF-8'')))
                | None \<Rightarrow> Inr pwd_string)))"

record keyfiles =
  kf_gpg_secret_key_ring_files :: "bytes list"
  kf_gpg_secret_key_passwords :: "bytes list"
  kf_priv_keys :: "bytes list"
  kf_priv_keys_passwords :: "bytes list"
  kf_pkcs11_yamls :: "bytes list"
  kf_key_providers :: "bytes list"

definition no_keyfiles :: keyfiles where
  "no_keyfiles = \<lparr>kf_gpg_secret_key_ring_files = [], kf_gpg_secret_key_passwords = [],
     kf_priv_keys = [], kf_priv_keys_passwords = [], kf_pkcs11_yamls = [], kf_key_providers = []\<rparr>"

definition add_keyfile ::
  "fs_env \<Rightarrow> keyfiles \<Rightarrow> string \<Rightarrow> (config_error, keyfiles) result" where
  "add_keyfile E kf keyfile_and_pwd =
     (case strip_prefix ''provider:'' keyfile_and_pwd of
        Some provider \<Rightarrow> Inr (kf\<lparr>kf_key_providers := kf_key_providers kf @ [provider]\<rparr>)
      | None \<Rightarrow>
          and_then
            (case split_once (CHR '':'') keyfile_and_pwd of
               Some (file, pass) \<Rightarrow>
                 and_then (read_file E file)
                   (\<lambda>contents. and_then (process_pwd_string E pass) (\<lambda>password. Inr (contents, password)))
             | None \<Rightarrow> and_then (read_file E keyfile_and_pwd) (\<lambda>contents. Inr (contents, [])))
            (\<lambda>(content, password).
               Inr (kf\<lparr>kf_pkcs11_yamls := kf_pkcs11_yamls kf @ [content],
                       kf_priv_keys := kf_priv_keys kf @ [content],
                       kf_priv_keys_passwords := kf_priv_keys_passwords kf @ [password],
                       kf_gpg_secret_key_ring_files := kf_gpg_secret_key_ring_files kf @ [content],
                       kf_gpg_secret_key_passwords := kf_gpg_secret_key_passwords kf @ [password]\<rparr>)))"

definition process_private_keyfiles ::
  "fs_env \<Rightarrow> string list \<Rightarrow> (config_error, keyfiles) result" where
  "process_private_keyfiles E keys = try_fold (add_keyfile E) no_keyfiles keys"

definition when_st :: "bool \<Rightarrow> ('s, 'e, unit) stateful \<Rightarrow> ('s, 'e, unit) stateful" where
  "when_st b m = (if b then m else st_ok ())"

definition fill_decrypt_config ::
  "bytes list \<Rightarrow> keyfiles \<Rightarrow> (decrypt_config, config_error, unit) stateful" where
  "fill_decrypt_config x509s kf =
     st_then (when_st (kf_gpg_secret_key_ring_files kf \<noteq> [])
                (decrypt_with_gpg (kf_gpg_secret_key_ring_files kf) (kf_gpg_secret_key_passwords kf)))
       (\<lambda>_. st_then (when_st (x509s \<noteq> []) (decrypt_with_x509s x509s))
         (\<lambda>_. st_then (when_st (kf_priv_keys kf \<noteq> [])
                         (decrypt_with_priv_keys (kf_priv_keys kf) (kf_priv_keys_passwords kf)))
           (\<lambda>_. st_then (when_st (kf_pkcs11_yamls kf \<noteq> [])
                           (decrypt_with_pkcs11 [[]] (kf_pkcs11_yamls kf)))
             (\<lambda>_. when_st (kf_key_providers kf \<noteq> []) (decrypt_with_key_provider (kf_key_providers kf))))))"

definition create_decrypt_config ::
  "fs_env \<Rightarrow> string list \<Rightarrow> string list \<Rightarrow> (config_error, crypto_config) result" where
  "create_decrypt_config E keys dec_recipients =
     and_then (process_recipient_keys E dec_recipients) (\<lambda>rk.
     and_then (process_x509_certs E keys) (\<lambda>x509_from_keys.
     and_then (process_private_keyfiles E keys) (\<lambda>kf.
     (case fill_decrypt_config (rk_x509s rk @ x509_from_keys) kf decrypt_config_default of
        (Inl e, _) \<Rightarrow> Inl e
      | (Inr _, dc) \<Rightarrow> Inr (crypto_config_default\<lparr>cc_decrypt_config := Some dc\<rparr>)))))"

definition fill_encrypt_config ::
  "recipient_keys \<Rightarrow> (encrypt_config, config_error, unit) stateful" where
  "fill_encrypt_config rk =
     st_then (when_st (rk_gpg_recipients rk \<noteq> []) (encrypt_with_gpg (rk_gpg_recipients rk) []))
       (\<lambda>_. st_then (when_st (rk_x509s rk \<noteq> []) (encrypt_with_pkcs7 (rk_x509s rk)))
         (\<lambda>_. st_then (when_st (rk_pubkeys rk \<noteq> []) (encrypt_with_jwe (rk_pubkeys rk)))
           (\<lambda>_. st_then (when_st (rk_pkcs11_pubkeys rk \<noteq> [] \<or> rk_pkcs11_yamls rk \<noteq> [])
                           (encrypt_with_pkcs11 [[]] (rk_pkcs11_pubkeys rk) (rk_pkcs11_yamls rk)))
             (\<lambda>_. when_st (rk_key_providers rk \<noteq> []) (encrypt_with_key_provider (rk_key_providers rk))))))"

definition create_encrypt_config ::
  "fs_env \<Rightarrow> string list \<Rightarrow> string list \<Rightarrow> (config_error, crypto_config) result" where
  "create_encrypt_config E recipients keys =
     and_then
       (if keys \<noteq> [] then
          and_then (create_decrypt_config E keys [])
            (\<lambda>dc. Inr (encrypt_config_default\<lparr>ec_decrypt_config := cc_decrypt_config dc\<rparr>))
        else Inr encrypt_config_default) (\<lambda>ec.
     and_then
       (if recipients \<noteq> [] then
          and_then (process_recipient_keys E recipients)
            (\<lambda>rk. case fill_encrypt_config rk ec of (Inl e, _) \<Rightarrow> Inl e | (Inr _, ec') \<Rightarrow> Inr ec')
        else Inr ec) (\<lambda>ec'.
     Inr (crypto_config_default\<lparr>cc_encrypt_config := Some ec'\<rparr>)))"

section \<open>Splitting key and value\<close>

lemma char_split_ascii:
  assumes "is_ascii_str key" and "CHR '':'' \<notin> set key"
  shows "char_split (key @ CHR '':'' # value) = Some (key, value)"
proof -
  have colon: "of_char (CHR '':'') < (128 :: nat)" by simp
  have "utf8_chars (key @ CHR '':'' # value) = map (\<lambda>c. [c]) key @ [CHR '':''] # utf8_chars value"
    using assms(1) by (simp add: utf8_chars_ascii_append utf8_chars_ascii_Cons colon)
  moreover have "concat (map (\<lambda>c. [c]) key) = key" by (induction key) auto
  ultimately show ?thesis
    using assms(2) by (simp add: char_split_def str_find_append)
qed

text \<open>
  Key-provider strings round trip: for an ASCII provider name without a colon and any UTF-8
  argument, \<open>name:argument\<close> is split into exactly these, whatever the argument contains.
\<close>

lemma provider_param_roundtrip:
  assumes "is_ascii_str key" and "CHR '':'' \<notin> set key" and "utf8_valid value"
  shows "provider_param (key @ CHR '':'' # value) = (key, [value])"
proof -
  have "utf8_valid (key @ CHR '':'' # value)"
    using assms(1,3) by (induction key) (auto simp: is_ascii_str_def utf8_valid_ascii_Cons)
  then show ?thesis
    using assms by (simp add: provider_param_def from_utf8_lossy_valid char_split_ascii)
qed

lemma provider_param_roundtrip_witness:
  "provider_param ''attestation-agent:cc_kbc::http://127.0.0.1:8080'' =
     (''attestation-agent'', [''cc_kbc::http://127.0.0.1:8080''])"
  using provider_param_roundtrip [of "''attestation-agent''" "''cc_kbc::http://127.0.0.1:8080''"]
  by (simp add: is_ascii_str_def utf8_valid_ascii)

text \<open>
  The byte index of the colon is used to count code points: with a provider name of one
  two-byte code point, the split is off by one, the name swallows the colon and the argument loses
  its first character.
\<close>

lemma provider_param_non_ascii:
  "provider_param (map char_of [195 :: nat, 169] @ '':xy'') =
     (map char_of [195 :: nat, 169] @ '':'', [''y''])"
proof -
  let ?s = "map char_of [195 :: nat, 169] @ '':xy''"
  have step: "utf8_step ?s = (True, 2)"
    by (simp add: utf8_step_def byte_at_def cont_byte_def)
  have ascii: "utf8_valid '':xy''" "utf8_chars '':xy'' = ['':'', ''x'', ''y'']"
    by (simp_all add: utf8_valid_ascii_Cons utf8_chars_ascii_Cons)
  have "utf8_valid ?s" using step ascii by (subst utf8_valid.simps) simp
  moreover have "utf8_chars ?s = [map char_of [195 :: nat, 169], '':'', ''x'', ''y'']"
    using step ascii by (subst utf8_chars.simps) simp
  moreover have "str_find (CHR '':'') ?s = Some 2"
    by (simp add: char_of_eq_iff)
  ultimately show ?thesis
    by (simp add: provider_param_def from_utf8_lossy_valid char_split_def)
qed

section \<open>Parameter maps under update\<close>

definition param_wf :: "param_map \<Rightarrow> bool" where
  "param_wf m \<longleftrightarrow> (\<forall>k. m k \<noteq> Some [])"

definition param_list :: "param_map \<Rightarrow> string \<Rightarrow> bytes list" where
  "param_list m k = (case m k of None \<Rightarrow> [] | Some v \<Rightarrow> v)"

lemma param_wf_empty [simp]: "param_wf Map.empty"
  by (simp add: param_wf_def)

lemma param_wf_extend: "param_wf m \<Longrightarrow> v \<noteq> [] \<Longrightarrow> param_wf (extend_param m k v)"
  by (auto simp: param_wf_def extend_param_def split: option.splits)

lemma param_list_extend [simp]:
  "param_list (extend_param m k v) k' = param_list m k' @ (if k' = k then v else [])"
  by (simp add: param_list_def extend_param_def split: option.splits)

lemma param_list_empty [simp]: "param_list Map.empty k = []"
  by (simp add: param_list_def)

lemma provider_param_not_Nil [simp]: "snd (provider_param v) \<noteq> []"
  by (simp add: provider_param_def Let_def split: option.splits)

definition provider_values :: "string \<Rightarrow> bytes list \<Rightarrow> bytes list" where
  "provider_values k vs =
     concat (map (\<lambda>v. if fst (provider_param v) = k then snd (provider_param v) else []) vs)"

text \<open>
  \<open>DecryptConfig\<close> and \<open>EncryptConfig\<close> each have their own \<open>update_param\<close> and the same code over it:
  the interface of such a configuration, and what follows from it.
\<close>

locale param_config =
  fixes upd :: "string \<Rightarrow> bytes list \<Rightarrow> ('s, config_error, unit) stateful"
    and param :: "'s \<Rightarrow> param_map"
  assumes upd_ok: "v \<noteq> [] \<Longrightarrow> fst (upd k v s) = Inr ()"
    and upd_param: "v \<noteq> [] \<Longrightarrow> param (snd (upd k v s)) = extend_param (param s) k v"
    and upd_empty: "\<exists>e. upd k [] s = (Inl e, s)"
begin

lemma upd_run: "v \<noteq> [] \<Longrightarrow> \<exists>s'. upd k v s = (Inr (), s') \<and> param s' = extend_param (param s) k v"
  using upd_ok upd_param by (metis prod.collapse)

lemma upd_wf: "param_wf (param s) \<Longrightarrow> param_wf (param (snd (upd k v s)))"
  using upd_empty [of k s] by (cases "v = []") (auto simp: upd_param param_wf_extend)

lemma upd_list:
  "upd k v s = (Inr (), s') \<Longrightarrow> param_list (param s') k' = param_list (param s) k' @ (if k' = k then v else [])"
proof (cases "v = []")
  case True
  then show "upd k v s = (Inr (), s') \<Longrightarrow> ?thesis" using upd_empty [of k s] by auto
next
  case False
  then show "upd k v s = (Inr (), s') \<Longrightarrow> ?thesis" using upd_param [of v k s] by simp
qed

lemma then_wf:
  assumes "\<And>s. param_wf (param s) \<Longrightarrow> param_wf (param (snd (m s)))"
    and "\<And>a s. param_wf (param s) \<Longrightarrow> param_wf (param (snd (f a s)))"
    and "param_wf (param s)"
  shows "param_wf (param (snd (st_then m f s)))"
proof (cases "m s")
  case (Pair r s')
  with assms(1) [OF assms(3)] assms(2) show ?thesis
    by (cases r) (simp_all add: st_then_def)
qed

lemma providers_run:
  "\<exists>s'. st_for (\<lambda>v. upd (fst (provider_param v)) (snd (provider_param v))) vs s = (Inr (), s') \<and>
     (\<forall>k. param_list (param s') k = param_list (param s) k @ provider_values k vs)"
proof (induction vs arbitrary: s)
  case Nil
  then show ?case by (simp add: provider_values_def)
next
  case (Cons v vs)
  obtain s1 where u: "upd (fst (provider_param v)) (snd (provider_param v)) s = (Inr (), s1)"
    using upd_run provider_param_not_Nil by blast
  from Cons.IH [of s1] obtain s' where
    "st_for (\<lambda>v. upd (fst (provider_param v)) (snd (provider_param v))) vs s1 = (Inr (), s')"
    "\<forall>k. param_list (param s') k = param_list (param s1) k @ provider_values k vs" by blast
  with u show ?case by (simp add: upd_list [OF u] provider_values_def)
qed

lemma providers_wf:
  "param_wf (param s) \<Longrightarrow>
     param_wf (param (snd (st_for (\<lambda>v. upd (fst (provider_param v)) (snd (provider_param v))) vs s)))"
  by (induction vs arbitrary: s) (auto intro!: then_wf upd_wf)

end

interpretation dc: param_config dc_update_param dc_param
  by unfold_locales (auto simp: dc_update_param_def)

interpretation ec: param_config ec_update_param ec_param
  by unfold_locales (auto simp: ec_update_param_def)

lemmas dc_ops = decrypt_with_priv_keys_def decrypt_with_x509s_def decrypt_with_gpg_def
  decrypt_with_pkcs11_def decrypt_with_key_provider_def when_st_def

lemmas ec_ops = encrypt_with_jwe_def encrypt_with_pkcs7_def encrypt_with_gpg_def
  encrypt_with_pkcs11_def encrypt_with_key_provider_def when_st_def

text \<open>
  C38. No operation of a decryption or encryption configuration, whether it succeeds or stops with an
  error half-way, ever leaves a parameter with an empty value list.
\<close>

theorem config_operations_keep_wf:
  assumes "param_wf (dc_param dc)" and "param_wf (ec_param ec)"
  shows "param_wf (dc_param (snd (decrypt_with_priv_keys ks ps dc))) \<and>
    param_wf (dc_param (snd (decrypt_with_x509s xs dc))) \<and>
    param_wf (dc_param (snd (decrypt_with_gpg ks ps dc))) \<and>
    param_wf (dc_param (snd (decrypt_with_pkcs11 ks ps dc))) \<and>
    param_wf (dc_param (snd (decrypt_with_key_provider vs dc))) \<and>
    param_wf (ec_param (snd (encrypt_with_jwe ks ec))) \<and>
    param_wf (ec_param (snd (encrypt_with_pkcs7 xs ec))) \<and>
    param_wf (ec_param (snd (encrypt_with_gpg ks r ec))) \<and>
    param_wf (ec_param (snd (encrypt_with_pkcs11 cs ks ys ec))) \<and>
    param_wf (ec_param (snd (encrypt_with_key_provider vs ec)))"
  using assms
  by (auto simp: dc_ops ec_ops intro!: dc.then_wf dc.upd_wf dc.providers_wf ec.then_wf ec.upd_wf ec.providers_wf)

theorem config_operations_keep_wf_witness:
  "param_wf (dc_param (snd (decrypt_with_gpg [''key''] [] decrypt_config_default))) \<and>
   fst (decrypt_with_gpg [''key''] [] decrypt_config_default) = Inl (DecryptValueNone ''gpg-privatekeys-passwords'')"
  using config_operations_keep_wf [of decrypt_config_default encrypt_config_default "[''key'']" "[]"]
  by (simp add: decrypt_config_default_def encrypt_config_default_def decrypt_with_gpg_def
      dc_update_param_def st_then_def)

section \<open>Building a decryption configuration\<close>

definition is_provider_key :: "string \<Rightarrow> bool" where
  "is_provider_key key = starts_with ''provider:'' key"

text \<open>The six lists of key material advance together.\<close>

definition keyfiles_inv :: "nat \<Rightarrow> keyfiles \<Rightarrow> bool" where
  "keyfiles_inv n kf \<longleftrightarrow>
     length (kf_priv_keys kf) = n \<and> length (kf_priv_keys_passwords kf) = n \<and>
     kf_gpg_secret_key_ring_files kf = kf_priv_keys kf \<and>
     kf_gpg_secret_key_passwords kf = kf_priv_keys_passwords kf \<and>
     kf_pkcs11_yamls kf = kf_priv_keys kf"

lemma add_keyfile_inv:
  assumes "add_keyfile E kf key = Inr kf'" and "keyfiles_inv n kf"
  shows "keyfiles_inv (if is_provider_key key then n else Suc n) kf'"
proof (cases "strip_prefix ''provider:'' key")
  case None
  then have "\<not> is_provider_key key" by (simp add: is_provider_key_def starts_with_def)
  with None assms show ?thesis
    by (auto simp: add_keyfile_def keyfiles_inv_def result_iff)
next
  case (Some p)
  then have "is_provider_key key" by (simp add: is_provider_key_def starts_with_def)
  with Some assms show ?thesis by (auto simp: add_keyfile_def keyfiles_inv_def)
qed

lemma process_private_keyfiles_inv:
  assumes "process_private_keyfiles E keys = Inr kf"
  shows "keyfiles_inv (length (filter (\<lambda>k. \<not> is_provider_key k) keys)) kf"
proof -
  have gen: "try_fold (add_keyfile E) kf0 keys = Inr kf \<Longrightarrow> keyfiles_inv n kf0 \<Longrightarrow>
      keyfiles_inv (n + length (filter (\<lambda>k. \<not> is_provider_key k) keys)) kf" for kf0 n
  proof (induction keys arbitrary: kf0 n)
    case Nil
    then show ?case by simp
  next
    case (Cons key keys)
    then obtain kf1 where a: "add_keyfile E kf0 key = Inr kf1" and r: "try_fold (add_keyfile E) kf1 keys = Inr kf"
      by (auto simp: result_iff)
    from Cons.IH [OF r add_keyfile_inv [OF a Cons.prems(2)]] show ?case by (simp split: if_splits)
  qed
  have "keyfiles_inv 0 no_keyfiles" by (simp add: keyfiles_inv_def no_keyfiles_def)
  with gen [of no_keyfiles 0] assms show ?thesis by (simp add: process_private_keyfiles_def)
qed

text \<open>Which parameter gets which list, in the order the code adds them.\<close>

definition keyfile_table :: "bytes list \<Rightarrow> keyfiles \<Rightarrow> (string \<times> bytes list) list" where
  "keyfile_table x509s kf =
     [(''gpg-privatekeys'', kf_priv_keys kf), (''gpg-privatekeys-passwords'', kf_priv_keys_passwords kf),
      (''x509s'', x509s), (''privkeys'', kf_priv_keys kf), (''privkeys-passwords'', kf_priv_keys_passwords kf),
      (''pkcs11-config'', if kf_priv_keys kf = [] then [] else [[]]), (''pkcs11-yamls'', kf_priv_keys kf)]"

definition keyfile_params :: "bytes list \<Rightarrow> keyfiles \<Rightarrow> string \<Rightarrow> bytes list" where
  "keyfile_params x509s kf k =
     concat (map (\<lambda>(k', v). if k = k' then v else []) (keyfile_table x509s kf))"

lemma fill_decrypt_config_ok:
  assumes inv: "keyfiles_inv n kf"
  shows "\<exists>dc. fill_decrypt_config x509s kf decrypt_config_default = (Inr (), dc) \<and>
     (\<forall>k. param_list (dc_param dc) k =
        keyfile_params x509s kf k @ provider_values k (kf_key_providers kf))"
proof -
  let ?put = "\<lambda>k v dc. dc\<lparr>dc_param := extend_param (dc_param dc) k v\<rparr>"
  let ?keys = "\<lambda>dc. if kf_priv_keys kf = [] then dc else
      ?put ''gpg-privatekeys-passwords'' (kf_priv_keys_passwords kf)
        (?put ''gpg-privatekeys'' (kf_priv_keys kf) dc)"
  let ?certs = "\<lambda>dc. if x509s = [] then dc else ?put ''x509s'' x509s dc"
  let ?rest = "\<lambda>dc. if kf_priv_keys kf = [] then dc else
      ?put ''pkcs11-yamls'' (kf_priv_keys kf) (?put ''pkcs11-config'' [[]]
        (?put ''privkeys-passwords'' (kf_priv_keys_passwords kf) (?put ''privkeys'' (kf_priv_keys kf) dc)))"
  let ?dc = "?rest (?certs (?keys decrypt_config_default))"
  have ne: "kf_priv_keys kf = [] \<longleftrightarrow> kf_priv_keys_passwords kf = []"
    using inv by (auto simp: keyfiles_inv_def)
  have run: "fill_decrypt_config x509s kf decrypt_config_default =
      (if kf_key_providers kf = [] then st_ok () else decrypt_with_key_provider (kf_key_providers kf)) ?dc"
    using inv ne by (simp add: fill_decrypt_config_def dc_ops keyfiles_inv_def dc_update_param_def st_then_def)
  have params: "param_list (dc_param ?dc) k = keyfile_params x509s kf k" for k
    using ne by (cases "kf_priv_keys kf = []"; cases "x509s = []")
      (simp_all add: keyfile_params_def keyfile_table_def decrypt_config_default_def)
  show ?thesis
  proof (cases "kf_key_providers kf = []")
    case True
    with run params show ?thesis by (simp add: provider_values_def)
  next
    case False
    with dc.providers_run [of "kf_key_providers kf" ?dc] run params show ?thesis
      by (simp add: decrypt_with_key_provider_def)
  qed
qed

lemma fill_decrypt_config_wf: "param_wf (dc_param (snd (fill_decrypt_config x509s kf decrypt_config_default)))"
  unfolding fill_decrypt_config_def
  by (auto simp: dc_ops decrypt_config_default_def intro!: dc.then_wf dc.upd_wf dc.providers_wf)

text \<open>
  Building a decryption configuration can fail only while the strings are parsed and the files
  are read. Otherwise every key file is registered, in order, as a private key, a GPG key ring and a
  PKCS\#11 document, each with its password, certificates and key providers are added, no parameter is
  empty, and private keys and passwords are paired one to one with the key arguments.
\<close>

lemma create_decrypt_config_complete:
  assumes rk: "process_recipient_keys E recs = Inr rk" and xs: "process_x509_certs E keys = Inr xs"
    and kf: "process_private_keyfiles E keys = Inr kf"
  shows "\<exists>dc. create_decrypt_config E keys recs = Inr \<lparr>cc_encrypt_config = None, cc_decrypt_config = Some dc\<rparr> \<and>
     param_wf (dc_param dc) \<and>
     (\<forall>k. param_list (dc_param dc) k =
        keyfile_params (rk_x509s rk @ xs) kf k @ provider_values k (kf_key_providers kf)) \<and>
     length (kf_priv_keys kf) = length (filter (\<lambda>k. \<not> is_provider_key k) keys) \<and>
     length (kf_priv_keys_passwords kf) = length (kf_priv_keys kf)"
proof -
  note inv = process_private_keyfiles_inv [OF kf]
  from fill_decrypt_config_ok [OF inv, of "rk_x509s rk @ xs"] obtain dc where
    run: "fill_decrypt_config (rk_x509s rk @ xs) kf decrypt_config_default = (Inr (), dc)"
    and ps: "\<forall>k. param_list (dc_param dc) k =
        keyfile_params (rk_x509s rk @ xs) kf k @ provider_values k (kf_key_providers kf)" by blast
  have "param_wf (dc_param dc)"
    using fill_decrypt_config_wf [of "rk_x509s rk @ xs" kf] run by simp
  with run ps inv rk xs kf show ?thesis
    by (simp add: create_decrypt_config_def crypto_config_default_def keyfiles_inv_def)
qed

definition demo_fs :: fs_env where
  "demo_fs = \<lparr>fs_read = \<lambda>p. if p = ''key.pem'' then Inr ''KEY'' else Inl ''not found'',
     path_exists = \<lambda>p. p = ''key.pem'', fd_read = \<lambda>fd. Inl ''bad descriptor'', env_var = \<lambda>v. None\<rparr>"

lemma create_decrypt_config_complete_witness:
  "\<exists>dc. create_decrypt_config demo_fs [''key.pem:pass=pw'', ''provider:aa:kbs''] [] =
          Inr \<lparr>cc_encrypt_config = None, cc_decrypt_config = Some dc\<rparr> \<and>
     param_list (dc_param dc) ''privkeys'' = [''KEY''] \<and>
     param_list (dc_param dc) ''privkeys-passwords'' = [''pw''] \<and>
     param_list (dc_param dc) ''aa'' = [''kbs'']"
proof -
  have rk: "process_recipient_keys demo_fs [] = Inr no_recipient_keys"
    by (simp add: process_recipient_keys_def)
  have xs: "process_x509_certs demo_fs [''key.pem:pass=pw'', ''provider:aa:kbs''] = Inr []"
    by simp
  let ?kf = "no_keyfiles\<lparr>kf_pkcs11_yamls := [''KEY''], kf_priv_keys := [''KEY''],
     kf_priv_keys_passwords := [''pw''], kf_gpg_secret_key_ring_files := [''KEY''],
     kf_gpg_secret_key_passwords := [''pw''], kf_key_providers := [''aa:kbs'']\<rparr>"
  have kf: "process_private_keyfiles demo_fs [''key.pem:pass=pw'', ''provider:aa:kbs''] = Inr ?kf"
    by (simp add: process_private_keyfiles_def add_keyfile_def read_file_def demo_fs_def
        process_pwd_string_def no_keyfiles_def)
  have "utf8_valid ''aa:kbs''" by (simp add: utf8_valid_ascii_Cons)
  moreover have "char_split ''aa:kbs'' = Some (''aa'', ''kbs'')"
    using char_split_ascii [of "''aa''" "''kbs''"] by (simp add: is_ascii_str_def)
  ultimately have "provider_param ''aa:kbs'' = (''aa'', [''kbs''])"
    by (simp add: provider_param_def from_utf8_lossy_valid)
  with create_decrypt_config_complete [OF rk xs kf] show ?thesis
    by (auto simp: keyfile_params_def keyfile_table_def provider_values_def no_keyfiles_def no_recipient_keys_def)
qed

text \<open>
  Parameter maps survive serialization: for a base64 codec whose decoder inverts its encoder,
  decoding the encoded form of a map (in any iteration order) gives the map back.
\<close>

lemma base64_hashmap_roundtrip:
  assumes codec: "\<And>b. dec (enc b) = Inr b" and keys: "distinct (map fst m)"
  shows "base64_hashmap_d dec (base64_hashmap_s enc m) = Inr m"
proof -
  have s: "base64_hashmap_s enc m = map (\<lambda>(k, v). (k, base64_enc enc v)) m"
    using fold_AList_update_new [of fst m "[]" "\<lambda>x. base64_enc enc (snd x)"] keys
    by (simp add: base64_hashmap_s_def case_prod_unfold)
  have d: "base64_dec dec (base64_enc enc v) = Inr v" for v
    by (induction v) (simp_all add: base64_dec_def base64_enc_def codec)
  show ?thesis
    unfolding s base64_hashmap_d_def by (induction m) (auto simp: d)
qed

lemma base64_hashmap_roundtrip_witness:
  "base64_hashmap_d (\<lambda>s. Inr (rev s)) (base64_hashmap_s rev [(''k'', [''ab'', ''cd'']), (''l'', [])]) =
     (Inr [(''k'', [''ab'', ''cd'']), (''l'', [])] :: (config_error, (string \<times> bytes list) list) result)"
  by (rule base64_hashmap_roundtrip) simp_all

end
