(* ===== verification/Ocicrypt_Keywrap.thy ===== *)
theory Ocicrypt_Keywrap
  imports Ocicrypt_Config
begin

text \<open>
  \<open>ocicrypt-rs/src/keywrap\<close> and \<open>lib.rs\<close>: the key wrapper interface (a trait object, here a record
  of its methods), the JWE wrapper, the external key provider wrapper with its transports, and the
  registry of wrappers that the encryption code iterates.
\<close>

section \<open>The interface\<close>

datatype op_key = Wrap | Unwrap

fun op_key_str :: "op_key \<Rightarrow> string" where
  "op_key_str Wrap = ''keywrap''"
| "op_key_str Unwrap = ''keyunwrap''"

datatype keywrap_error =
    JweDetectFailed
  | JweExpectPublic
  | JweExpectPrivate
  | JweKey string
  | JweInvalidWrapConfig
  | JweInvalidData
  | JweInvalidUnwrapConfig
  | JweSerialize string
  | JweNoSuitableKey
  | KpUnknownProvider string op_key
  | KpOptsNotUtf8
  | KpJsonNotUtf8
  | KpSerialize op_key
  | KpNoSupport string
  | KpRunnerNull
  | KpFailed op_key string
  | KpNullReply
  | KpInvalidConfiguration
  | KpPanic string
  | WrapperNotSupported

record key_wrapper =
  kw_wrap_keys :: "encrypt_config \<Rightarrow> bytes \<Rightarrow> (keywrap_error, bytes) result"
  kw_unwrap_keys :: "decrypt_config \<Rightarrow> bytes \<Rightarrow> (keywrap_error, bytes) result"
  kw_annotation_id :: string
  kw_probe :: "param_map \<Rightarrow> bool"
  kw_private_keys :: "param_map \<Rightarrow> bytes list option"

section \<open>JSON Web Encryption\<close>

datatype key_alg = EcAlg "string option" | OtherAlg
datatype key_format = Der bool | Pem bool | JwkFormat

record key_info =
  ki_is_public_key :: bool
  ki_alg :: "key_alg option"
  ki_format :: key_format

datatype jwe_alg = ECDH_ES_A256KW | RSA_OAEP

text \<open>What the JOSE crate provides: key detection, key parsing per algorithm and format, sealing.\<close>

record ('en, 'de) jose =
  jose_detect :: "bytes \<Rightarrow> key_info option"
  jose_jwk :: "bytes \<Rightarrow> (string, bytes) result"
  jose_encrypter_from :: "jwe_alg \<Rightarrow> key_format \<Rightarrow> bytes \<Rightarrow> (string, 'en) result"
  jose_decrypter_from :: "jwe_alg \<Rightarrow> key_format \<Rightarrow> bytes \<Rightarrow> (string, 'de) result"
  jose_serialize :: "bytes \<Rightarrow> 'en list \<Rightarrow> (string, string) result"
  jose_deserialize :: "string \<Rightarrow> 'de \<Rightarrow> (string, bytes) result"

definition jwe_algorithm :: "key_info \<Rightarrow> jwe_alg" where
  "jwe_algorithm ki = (case ki_alg ki of Some (EcAlg (Some _)) \<Rightarrow> ECDH_ES_A256KW | _ \<Rightarrow> RSA_OAEP)"

definition jwe_key_from ::
  "('en, 'de) jose \<Rightarrow> (jwe_alg \<Rightarrow> key_format \<Rightarrow> bytes \<Rightarrow> (string, 'k) result) \<Rightarrow> key_info \<Rightarrow> bytes \<Rightarrow>
     (keywrap_error, 'k) result" where
  "jwe_key_from J from ki key =
     (case ki_format ki of
        Der raw \<Rightarrow> map_err JweKey (from (jwe_algorithm ki) (Der raw) key)
      | Pem trad \<Rightarrow> map_err JweKey (from (jwe_algorithm ki) (Pem trad) key)
      | JwkFormat \<Rightarrow>
          and_then (map_err JweKey (jose_jwk J key))
            (\<lambda>jwk. map_err JweKey (from (jwe_algorithm ki) JwkFormat jwk)))"

definition jwe_encrypter :: "('en, 'de) jose \<Rightarrow> bytes \<Rightarrow> (keywrap_error, 'en) result" where
  "jwe_encrypter J pubkey =
     and_then (ok_or JweDetectFailed (jose_detect J pubkey)) (\<lambda>ki.
       if \<not> ki_is_public_key ki then Inl JweExpectPublic
       else jwe_key_from J (jose_encrypter_from J) ki pubkey)"

definition jwe_decrypter :: "('en, 'de) jose \<Rightarrow> bytes \<Rightarrow> (keywrap_error, 'de) result" where
  "jwe_decrypter J priv_key =
     and_then (ok_or JweDetectFailed (jose_detect J priv_key)) (\<lambda>ki.
       if ki_is_public_key ki then Inl JweExpectPrivate
       else jwe_key_from J (jose_decrypter_from J) ki priv_key)"

definition jwe_wrap_keys ::
  "('en, 'de) jose \<Rightarrow> encrypt_config \<Rightarrow> bytes \<Rightarrow> (keywrap_error, bytes) result" where
  "jwe_wrap_keys J ec opts_data =
     and_then (ok_or JweInvalidWrapConfig (ec_param ec ''pubkeys'')) (\<lambda>pubkeys.
     and_then (try_map (jwe_encrypter J) pubkeys) (\<lambda>encrypters.
     map_err JweSerialize (jose_serialize J opts_data encrypters)))"

definition jwe_private_keys :: "param_map \<Rightarrow> bytes list option" where
  "jwe_private_keys params = params ''privkeys''"

fun jwe_try_keys ::
  "('en, 'de) jose \<Rightarrow> string \<Rightarrow> bytes list \<Rightarrow> (keywrap_error, bytes) result" where
  "jwe_try_keys J data [] = Inl JweNoSuitableKey"
| "jwe_try_keys J data (privkey # privkeys) =
     and_then (jwe_decrypter J privkey) (\<lambda>d.
       case jose_deserialize J data d of
         Inr keys \<Rightarrow> Inr keys
       | Inl _ \<Rightarrow> jwe_try_keys J data privkeys)"

definition jwe_unwrap_keys ::
  "('en, 'de) jose \<Rightarrow> decrypt_config \<Rightarrow> bytes \<Rightarrow> (keywrap_error, bytes) result" where
  "jwe_unwrap_keys J dc jwe_string =
     and_then (ok_or JweInvalidData (from_utf8 jwe_string)) (\<lambda>data.
     and_then (ok_or JweInvalidUnwrapConfig (jwe_private_keys (dc_param dc))) (\<lambda>privkeys.
     jwe_try_keys J data privkeys))"

definition jwe_annotation_id :: string where
  "jwe_annotation_id = ''org.opencontainers.image.enc.keys.jwe''"

definition jwe_probe :: "param_map \<Rightarrow> bool" where
  "jwe_probe params \<longleftrightarrow> params ''privkeys'' \<noteq> None"

definition jwe_key_wrapper :: "('en, 'de) jose \<Rightarrow> key_wrapper" where
  "jwe_key_wrapper J =
     \<lparr>kw_wrap_keys = jwe_wrap_keys J, kw_unwrap_keys = jwe_unwrap_keys J,
      kw_annotation_id = jwe_annotation_id, kw_probe = jwe_probe, kw_private_keys = jwe_private_keys\<rparr>"

section \<open>External key providers\<close>

record key_wrap_params =
  kwp_ec :: "encrypt_config option"
  kwp_opts_data :: "string option"

record key_unwrap_params =
  kup_dc :: "decrypt_config option"
  kup_annotation :: "string option"

record protocol_input =
  pi_op :: string
  pi_key_wrap_params :: key_wrap_params
  pi_key_unwrap_params :: key_unwrap_params

record protocol_output =
  po_key_wrap_results :: "bytes option"
  po_key_unwrap_results :: "bytes option"

type_synonym runner = "string \<Rightarrow> string list \<Rightarrow> bytes \<Rightarrow> (string, bytes) result"

text \<open>
  The cargo features the crate is built with, and what other crates provide: the JSON codec of the
  protocol messages, base64, the RPC clients and the asynchronous runtime.
\<close>

record features =
  feat_jwe :: bool
  feat_keyprovider :: bool
  feat_cmd :: bool
  feat_grpc :: bool
  feat_ttrpc :: bool
  feat_native :: bool

record transports =
  ser_input :: "protocol_input \<Rightarrow> bytes option"
  de_output :: "bytes \<Rightarrow> protocol_output option"
  b64_encode :: "bytes \<Rightarrow> string"
  b64_decode :: "string \<Rightarrow> (string, bytes) result"
  async_runtime :: "(string, unit) result"
  grpc_uri_ok :: "string \<Rightarrow> bool"
  grpc_connect :: "string \<Rightarrow> (string, unit) result"
  grpc_call :: "op_key \<Rightarrow> string \<Rightarrow> bytes \<Rightarrow> (string, bytes) result"
  ttrpc_connect :: "string \<Rightarrow> (string, unit) result"
  ttrpc_call :: "op_key \<Rightarrow> string \<Rightarrow> bytes \<Rightarrow> (string, bytes) result"
  native_decrypt :: "string \<Rightarrow> string \<Rightarrow> string \<Rightarrow> (string, bytes) result"

text \<open>The URI is parsed with \<open>unwrap\<close>: a bad address panics.\<close>

definition from_grpc ::
  "transports \<Rightarrow> bytes \<Rightarrow> string \<Rightarrow> op_key \<Rightarrow> (keywrap_error, protocol_output) result" where
  "from_grpc T input conn operation =
     (if \<not> grpc_uri_ok T conn then Inl (KpPanic ''uri'')
      else and_then (map_err (KpFailed operation) (grpc_connect T conn)) (\<lambda>_.
           and_then (map_err (KpFailed operation) (grpc_call T operation conn input)) (\<lambda>out.
           ok_or (KpFailed Unwrap ''deserializing'') (de_output T out))))"

definition from_ttrpc ::
  "transports \<Rightarrow> bytes \<Rightarrow> string \<Rightarrow> op_key \<Rightarrow> (keywrap_error, protocol_output) result" where
  "from_ttrpc T input conn operation =
     and_then (map_err (KpFailed operation) (ttrpc_connect T conn)) (\<lambda>_.
     and_then (map_err (KpFailed operation) (ttrpc_call T operation conn input)) (\<lambda>out.
     ok_or (KpFailed Unwrap ''deserializing'') (de_output T out)))"

definition from_command ::
  "transports \<Rightarrow> bytes \<Rightarrow> command \<Rightarrow> runner \<Rightarrow> (string, protocol_output) result" where
  "from_command T input command exec =
     (let args = (case cmd_args command of None \<Rightarrow> [] | Some a \<Rightarrow> a)
      in and_then (exec (cmd_path command) args input)
           (\<lambda>resp. ok_or ''failed to deserialize message from binary executor'' (de_output T resp)))"

definition create_async_runtime :: "transports \<Rightarrow> (string, unit) result" where
  "create_async_runtime T = async_runtime T"

definition from_native ::
  "transports \<Rightarrow> string \<Rightarrow> decrypt_config \<Rightarrow> (string, protocol_output) result" where
  "from_native T annotation dc =
     and_then
       (case dc_param dc ''attestation-agent'' of
          Some list \<Rightarrow> ok_or ''empty kbc::kbs pair'' (case list of [] \<Rightarrow> None | p # _ \<Rightarrow> Some p)
        | None \<Rightarrow> Inl ''not supported attestation agent'') (\<lambda>pair.
     and_then (ok_or ''invalid utf-8'' (from_utf8 pair)) (\<lambda>pair_str.
     and_then (ok_or ''invalid kbc::kbs pair'' (split_once_str ''::'' pair_str)) (\<lambda>(kbc, kbs).
     and_then (create_async_runtime T) (\<lambda>_.
     and_then (native_decrypt T kbs kbc annotation) (\<lambda>v.
     Inr \<lparr>po_key_wrap_results = None, po_key_unwrap_results = Some v\<rparr>)))))"

record kp_wrapper =
  kp_provider :: string
  kp_attrs :: key_provider_attrs
  kp_runner :: "runner option"

definition kp_new :: "string \<Rightarrow> key_provider_attrs \<Rightarrow> runner option \<Rightarrow> kp_wrapper" where
  "kp_new provider attrs runner =
     (let attrs' = (case attr_grpc attrs of
            Some grpc \<Rightarrow>
              (if \<not> starts_with ''http://'' grpc \<and> \<not> starts_with ''tcp://'' grpc
               then attrs\<lparr>attr_grpc := Some (''http://'' @ grpc)\<rparr> else attrs)
          | None \<Rightarrow> attrs)
      in \<lparr>kp_provider = provider, kp_attrs = attrs', kp_runner = runner\<rparr>)"

definition wrap_result :: "protocol_output \<Rightarrow> (keywrap_error, bytes) result" where
  "wrap_result out = ok_or KpNullReply (po_key_wrap_results out)"

definition wrap_key_cmd ::
  "features \<Rightarrow> transports \<Rightarrow> kp_wrapper \<Rightarrow> bytes \<Rightarrow> command \<Rightarrow> (keywrap_error, bytes) result" where
  "wrap_key_cmd F T w input cmd =
     (case kp_runner w of
        Some runner \<Rightarrow>
          (if \<not> feat_cmd F then Inl (KpNoSupport ''keyprovider-grpc'')
           else and_then (map_err (KpFailed Wrap) (from_command T input cmd runner)) wrap_result)
      | None \<Rightarrow> Inl KpRunnerNull)"

text \<open>The calls run on a fresh thread: a panic there is joined as an error.\<close>

definition wrap_key_grpc ::
  "features \<Rightarrow> transports \<Rightarrow> kp_wrapper \<Rightarrow> bytes \<Rightarrow> string \<Rightarrow> (keywrap_error, bytes) result" where
  "wrap_key_grpc F T w input grpc =
     (if \<not> feat_grpc F then Inl (KpNoSupport ''keyprovider-grpc'')
      else and_then
        (map_err (\<lambda>_. KpFailed Wrap ''grpc provider failed to execute'')
           (and_then (map_err (KpFailed Wrap) (create_async_runtime T)) (\<lambda>_. from_grpc T input grpc Wrap)))
        wrap_result)"

definition wrap_key_ttrpc ::
  "features \<Rightarrow> transports \<Rightarrow> kp_wrapper \<Rightarrow> bytes \<Rightarrow> string \<Rightarrow> (keywrap_error, bytes) result" where
  "wrap_key_ttrpc F T w input ttrpc =
     (if \<not> feat_ttrpc F then Inl (KpNoSupport ''keyprovider-ttrpc'')
      else and_then (from_ttrpc T input ttrpc Wrap) wrap_result)"

definition unwrap_key_cmd ::
  "features \<Rightarrow> transports \<Rightarrow> kp_wrapper \<Rightarrow> bytes \<Rightarrow> command \<Rightarrow> (keywrap_error, protocol_output) result" where
  "unwrap_key_cmd F T w input cmd =
     (case kp_runner w of
        Some runner \<Rightarrow>
          (if \<not> feat_cmd F then Inl (KpNoSupport ''keyprovider-grpc'')
           else map_err (KpFailed Unwrap) (from_command T input cmd runner))
      | None \<Rightarrow> Inl KpRunnerNull)"

definition unwrap_key_grpc ::
  "features \<Rightarrow> transports \<Rightarrow> kp_wrapper \<Rightarrow> bytes \<Rightarrow> string \<Rightarrow> (keywrap_error, protocol_output) result" where
  "unwrap_key_grpc F T w input grpc =
     (if \<not> feat_grpc F then Inl (KpNoSupport ''keyprovider-grpc'')
      else map_err (\<lambda>_. KpFailed Unwrap ''failed to unwrap key by gRPC'')
        (and_then (map_err (KpFailed Unwrap) (create_async_runtime T)) (\<lambda>_. from_grpc T input grpc Unwrap)))"

definition unwrap_key_ttrpc ::
  "features \<Rightarrow> transports \<Rightarrow> kp_wrapper \<Rightarrow> bytes \<Rightarrow> string \<Rightarrow> (keywrap_error, protocol_output) result" where
  "unwrap_key_ttrpc F T w input ttrpc =
     (if \<not> feat_ttrpc F then Inl (KpNoSupport ''keyprovider-ttrpc'')
      else from_ttrpc T input ttrpc Unwrap)"

definition unwrap_key_native ::
  "features \<Rightarrow> transports \<Rightarrow> decrypt_config \<Rightarrow> bytes \<Rightarrow> (keywrap_error, protocol_output) result" where
  "unwrap_key_native F T dc json_string =
     (if \<not> feat_native F then Inl (KpNoSupport ''keyprovider-native'')
      else and_then (ok_or KpJsonNotUtf8 (from_utf8 json_string))
             (\<lambda>content. map_err (KpFailed Unwrap) (from_native T content dc)))"

definition kp_wrap_keys ::
  "features \<Rightarrow> transports \<Rightarrow> kp_wrapper \<Rightarrow> encrypt_config \<Rightarrow> bytes \<Rightarrow> (keywrap_error, bytes) result" where
  "kp_wrap_keys F T w ec opts_data =
     (if ec_param ec (kp_provider w) = None then Inl (KpUnknownProvider (kp_provider w) Wrap)
      else and_then (ok_or KpOptsNotUtf8 (from_utf8 opts_data)) (\<lambda>opts_data_str.
        let input = \<lparr>pi_op = op_key_str Wrap,
                     pi_key_wrap_params = \<lparr>kwp_ec = Some ec, kwp_opts_data = Some opts_data_str\<rparr>,
                     pi_key_unwrap_params = \<lparr>kup_dc = None, kup_annotation = None\<rparr>\<rparr>
        in and_then (ok_or (KpSerialize Wrap) (ser_input T input)) (\<lambda>bytes.
             case attr_cmd (kp_attrs w) of
               Some cmd \<Rightarrow> wrap_key_cmd F T w bytes cmd
             | None \<Rightarrow>
                 (case attr_grpc (kp_attrs w) of
                    Some grpc \<Rightarrow> wrap_key_grpc F T w bytes grpc
                  | None \<Rightarrow>
                      (case attr_ttrpc (kp_attrs w) of
                         Some ttrpc \<Rightarrow> wrap_key_ttrpc F T w bytes ttrpc
                       | None \<Rightarrow> Inl KpInvalidConfiguration)))))"

definition kp_unwrap_keys ::
  "features \<Rightarrow> transports \<Rightarrow> kp_wrapper \<Rightarrow> decrypt_config \<Rightarrow> bytes \<Rightarrow> (keywrap_error, bytes) result" where
  "kp_unwrap_keys F T w dc json_string =
     and_then (ok_or KpJsonNotUtf8 (from_utf8 json_string)) (\<lambda>annotation_str.
       let input = \<lparr>pi_op = op_key_str Unwrap,
                    pi_key_wrap_params = \<lparr>kwp_ec = None, kwp_opts_data = None\<rparr>,
                    pi_key_unwrap_params = \<lparr>kup_dc = Some dc,
                       kup_annotation = Some (b64_encode T annotation_str)\<rparr>\<rparr>
       in and_then (ok_or (KpSerialize Unwrap) (ser_input T input)) (\<lambda>bytes.
          and_then
            (case attr_cmd (kp_attrs w) of
               Some cmd \<Rightarrow> unwrap_key_cmd F T w bytes cmd
             | None \<Rightarrow>
                 (case attr_grpc (kp_attrs w) of
                    Some grpc \<Rightarrow> unwrap_key_grpc F T w bytes grpc
                  | None \<Rightarrow>
                      (case attr_ttrpc (kp_attrs w) of
                         Some ttrpc \<Rightarrow> unwrap_key_ttrpc F T w bytes ttrpc
                       | None \<Rightarrow>
                           (case attr_native (kp_attrs w) of
                              Some _ \<Rightarrow> unwrap_key_native F T dc json_string
                            | None \<Rightarrow> Inl KpInvalidConfiguration))))
            (\<lambda>out. ok_or KpNullReply (po_key_unwrap_results out))))"

definition kp_annotation_id :: "kp_wrapper \<Rightarrow> string" where
  "kp_annotation_id w = ''org.opencontainers.image.enc.keys.provider.'' @ kp_provider w"

definition kp_key_wrapper :: "features \<Rightarrow> transports \<Rightarrow> kp_wrapper \<Rightarrow> key_wrapper" where
  "kp_key_wrapper F T w =
     \<lparr>kw_wrap_keys = kp_wrap_keys F T w, kw_unwrap_keys = kp_unwrap_keys F T w,
      kw_annotation_id = kp_annotation_id w, kw_probe = \<lambda>_. True, kw_private_keys = \<lambda>_. None\<rparr>"

section \<open>The registry\<close>

text \<open>
  \<open>KEY_WRAPPERS\<close> and \<open>KEY_WRAPPERS_ANNOTATIONS\<close> are hash maps that are iterated; each list is one
  iteration order.
\<close>

record registry =
  reg_wrappers :: "(string \<times> key_wrapper) list"
  reg_annotations :: "(string \<times> string) list"

definition KEY_WRAPPERS ::
  "features \<Rightarrow> ('en, 'de) jose \<Rightarrow> transports \<Rightarrow> ocicrypt_config option \<Rightarrow> (string \<times> key_wrapper) list" where
  "KEY_WRAPPERS F J T config =
     (let m = (if feat_jwe F then [(''jwe'', jwe_key_wrapper J)] else [])
      in if feat_keyprovider F then
           (case config of
              None \<Rightarrow> m
            | Some c \<Rightarrow>
                fold (\<lambda>(name, attrs) m.
                    AList.update (''provider.'' @ name) (kp_key_wrapper F T (kp_new name attrs None)) m)
                  (key_providers c) m)
         else m)"

definition KEY_WRAPPERS_ANNOTATIONS :: "(string \<times> key_wrapper) list \<Rightarrow> (string \<times> string) list" where
  "KEY_WRAPPERS_ANNOTATIONS ws =
     fold (\<lambda>(scheme, w) m. AList.update (kw_annotation_id w) scheme m) ws []"

definition get_key_wrapper :: "registry \<Rightarrow> string \<Rightarrow> (keywrap_error, key_wrapper) result" where
  "get_key_wrapper R scheme = ok_or WrapperNotSupported (map_of (reg_wrappers R) scheme)"

definition get_wrapped_keys_map :: "registry \<Rightarrow> (string \<rightharpoonup> string) \<Rightarrow> (string \<rightharpoonup> string)" where
  "get_wrapped_keys_map R annotations =
     fold (\<lambda>(annotations_id, scheme) m.
         case annotations annotations_id of
           Some value \<Rightarrow> m(scheme \<mapsto> value)
         | None \<Rightarrow> m) (reg_annotations R) Map.empty"

section \<open>Facts about the registry\<close>

lemma kp_new_provider [simp]: "kp_provider (kp_new name attrs r) = name"
  by (simp add: kp_new_def Let_def)

lemma kp_new_runner [simp]: "kp_runner (kp_new name attrs r) = r"
  by (simp add: kp_new_def Let_def)

lemma kp_new_cmd [simp]: "attr_cmd (kp_attrs (kp_new name attrs r)) = attr_cmd attrs"
  by (simp add: kp_new_def Let_def split: option.splits)

definition provider_entry ::
  "features \<Rightarrow> transports \<Rightarrow> string \<times> key_provider_attrs \<Rightarrow> string \<times> key_wrapper" where
  "provider_entry F T p = (''provider.'' @ fst p, kp_key_wrapper F T (kp_new (fst p) (snd p) None))"

definition registered_providers :: "features \<Rightarrow> ocicrypt_config option \<Rightarrow> (string \<times> key_provider_attrs) list" where
  "registered_providers F config =
     (if feat_keyprovider F then (case config of None \<Rightarrow> [] | Some c \<Rightarrow> key_providers c) else [])"

lemma KEY_WRAPPERS_eq:
  assumes "distinct (map fst (registered_providers F config))"
  shows "KEY_WRAPPERS F J T config =
    (if feat_jwe F then [(''jwe'', jwe_key_wrapper J)] else []) @
    map (provider_entry F T) (registered_providers F config)"
proof (cases "feat_keyprovider F \<and> config \<noteq> None")
  case True
  then obtain c where c: "config = Some c" "feat_keyprovider F" by auto
  let ?m = "if feat_jwe F then [(''jwe'', jwe_key_wrapper J)] else []"
  have "distinct (map (\<lambda>p. ''provider.'' @ fst p) (key_providers c))"
    using assms c by (simp add: registered_providers_def distinct_map inj_on_def)
  moreover have "(\<lambda>p. ''provider.'' @ fst p) ` set (key_providers c) \<inter> fst ` set ?m = {}" by auto
  ultimately have "fold (\<lambda>p. AList.update (''provider.'' @ fst p) (kp_key_wrapper F T (kp_new (fst p) (snd p) None)))
      (key_providers c) ?m = ?m @ map (provider_entry F T) (key_providers c)"
    unfolding provider_entry_def by (rule fold_AList_update_new)
  with c show ?thesis
    by (simp only: KEY_WRAPPERS_def registered_providers_def Let_def case_prod_unfold) simp
next
  case False
  then show ?thesis by (auto simp: KEY_WRAPPERS_def registered_providers_def Let_def)
qed

lemma KEY_WRAPPERS_distinct:
  assumes "distinct (map fst (registered_providers F config))"
  shows "distinct (map fst (KEY_WRAPPERS F J T config))"
    and "distinct (map (kw_annotation_id \<circ> snd) (KEY_WRAPPERS F J T config))"
  using assms
  by (auto simp: KEY_WRAPPERS_eq [OF assms] provider_entry_def distinct_map inj_on_def
      kp_key_wrapper_def kp_annotation_id_def jwe_key_wrapper_def jwe_annotation_id_def)

lemma annotations_of_wrappers:
  assumes "distinct (map (kw_annotation_id \<circ> snd) ws)"
  shows "KEY_WRAPPERS_ANNOTATIONS ws = map (\<lambda>(s, w). (kw_annotation_id w, s)) ws"
  using fold_AList_update_new [of "\<lambda>x. kw_annotation_id (snd x)" ws "[]" fst] assms
  by (simp add: KEY_WRAPPERS_ANNOTATIONS_def case_prod_unfold comp_def)

text \<open>
  The two global tables agree: an annotation identifier is registered for a scheme exactly when
  the wrapper of that scheme has that identifier, so every scheme found by iterating the annotations
  resolves to its own wrapper and no wrapper is hidden by another.
\<close>

lemma registry_annotations_exact:
  assumes keys: "distinct (map fst (registered_providers F config))"
    and ws: "ws = KEY_WRAPPERS F J T config"
  shows "map_of (KEY_WRAPPERS_ANNOTATIONS ws) aid = Some scheme \<longleftrightarrow>
     (\<exists>w. get_key_wrapper \<lparr>reg_wrappers = ws, reg_annotations = KEY_WRAPPERS_ANNOTATIONS ws\<rparr> scheme = Inr w \<and>
          kw_annotation_id w = aid)"
proof -
  note d = KEY_WRAPPERS_distinct [OF keys, of J T, folded ws]
  have a: "KEY_WRAPPERS_ANNOTATIONS ws = map (\<lambda>(s, w). (kw_annotation_id w, s)) ws"
    by (rule annotations_of_wrappers [OF d(2)])
  have "distinct (map fst (KEY_WRAPPERS_ANNOTATIONS ws))"
    using d(2) by (simp add: a comp_def case_prod_unfold)
  then have "map_of (KEY_WRAPPERS_ANNOTATIONS ws) aid = Some scheme \<longleftrightarrow>
      (aid, scheme) \<in> set (KEY_WRAPPERS_ANNOTATIONS ws)" by simp
  also have "\<dots> \<longleftrightarrow> (\<exists>w. (scheme, w) \<in> set ws \<and> kw_annotation_id w = aid)"
    by (auto simp: a)
  finally show ?thesis using d(1) by (simp add: get_key_wrapper_def result_iff)
qed

definition demo_jose :: "(bytes, bytes) jose" where
  "demo_jose = \<lparr>jose_detect = \<lambda>k. Some \<lparr>ki_is_public_key = (k = ''pub''), ki_alg = None, ki_format = Pem True\<rparr>,
     jose_jwk = \<lambda>k. Inr k, jose_encrypter_from = \<lambda>a f k. Inr k, jose_decrypter_from = \<lambda>a f k. Inr k,
     jose_serialize = \<lambda>x es. if utf8_valid x \<and> ''pub'' \<in> set es then Inr (''jwe:'' @ x) else Inl ''utf-8'', jose_deserialize = \<lambda>s d. if d = ''priv'' then ok_or ''bad'' (strip_prefix ''jwe:'' s) else Inl ''bad''\<rparr>"

section \<open>The JWE wrapper\<close>

text \<open>
  What sealing promises for a relation between recipients and private keys: a sealed text is a valid
  string, a related key opens it to the sealed bytes, and any other key is refused.
\<close>

definition jose_laws :: "('en, 'de) jose \<Rightarrow> ('en \<Rightarrow> 'de \<Rightarrow> bool) \<Rightarrow> bool" where
  "jose_laws J opens \<longleftrightarrow>
     (\<forall>x es s d. jose_serialize J x es = Inr s \<longrightarrow>
        utf8_valid s \<and> (if \<exists>e\<in>set es. opens e d then jose_deserialize J s d = Inr x
                        else \<exists>err. jose_deserialize J s d = Inl err))"

definition holds_a_key :: "('en, 'de) jose \<Rightarrow> ('en \<Rightarrow> 'de \<Rightarrow> bool) \<Rightarrow> encrypt_config \<Rightarrow> decrypt_config \<Rightarrow> bool" where
  "holds_a_key J opens ec dc \<longleftrightarrow>
     (\<exists>pubs es privs ds. ec_param ec ''pubkeys'' = Some pubs \<and> try_map (jwe_encrypter J) pubs = Inr es \<and>
        dc_param dc ''privkeys'' = Some privs \<and> try_map (jwe_decrypter J) privs = Inr ds \<and>
        (\<exists>e\<in>set es. \<exists>d\<in>set ds. opens e d))"

lemma jwe_try_keys_ok:
  assumes laws: "jose_laws J opens" and ser: "jose_serialize J x es = Inr s"
    and "try_map (jwe_decrypter J) privs = Inr ds" and "\<exists>e\<in>set es. \<exists>d\<in>set ds. opens e d"
  shows "jwe_try_keys J s privs = Inr x"
  using assms(3,4)
proof (induction privs arbitrary: ds)
  case Nil
  then show ?case by simp
next
  case (Cons p privs)
  then obtain d ds' where d: "jwe_decrypter J p = Inr d" "try_map (jwe_decrypter J) privs = Inr ds'" "ds = d # ds'"
    by (auto simp: result_iff)
  show ?case
  proof (cases "\<exists>e\<in>set es. opens e d")
    case True
    with laws ser d show ?thesis by (simp add: jose_laws_def)
  next
    case False
    with laws ser obtain err where "jose_deserialize J s d = Inl err" by (fastforce simp: jose_laws_def)
    with False Cons d show ?thesis by auto
  qed
qed

lemma jwe_wrap_then_unwrap:
  assumes laws: "jose_laws J opens" and key: "holds_a_key J opens ec dc"
    and wrap: "jwe_wrap_keys J ec x = Inr s"
  shows "jwe_unwrap_keys J dc s = Inr x"
proof -
  from key obtain pubs es privs ds where k: "ec_param ec ''pubkeys'' = Some pubs"
    "try_map (jwe_encrypter J) pubs = Inr es" "dc_param dc ''privkeys'' = Some privs"
    "try_map (jwe_decrypter J) privs = Inr ds" "\<exists>e\<in>set es. \<exists>d\<in>set ds. opens e d"
    unfolding holds_a_key_def by blast
  with wrap have ser: "jose_serialize J x es = Inr s" by (simp add: jwe_wrap_keys_def result_iff)
  with laws have "utf8_valid s" by (simp add: jose_laws_def)
  with k jwe_try_keys_ok [OF laws ser k(4,5)] show ?thesis
    by (simp add: jwe_unwrap_keys_def from_utf8_def jwe_private_keys_def)
qed

text \<open>
  JWE round trip: a layer key wrapped for the configured public keys is recovered by whoever
  holds a private key of one recipient, whatever the other recipients and the other (parsable)
  private keys that are tried before it.
\<close>

lemma jwe_wrap_unwrap:
  assumes "jose_laws J opens" and "holds_a_key J opens ec dc" and "jwe_wrap_keys J ec x = Inr s"
  shows "jwe_unwrap_keys J dc s = Inr x"
  using assms by (rule jwe_wrap_then_unwrap)

definition demo_ec :: encrypt_config where
  "demo_ec = encrypt_config_default\<lparr>ec_param := [''pubkeys'' \<mapsto> [''pub'']]\<rparr>"

definition demo_dc :: decrypt_config where
  "demo_dc = decrypt_config_default\<lparr>dc_param := [''privkeys'' \<mapsto> [''stale'', ''priv'']]\<rparr>"

lemma demo_jose_laws: "jose_laws demo_jose (\<lambda>e d. e = ''pub'' \<and> d = ''priv'')"
  by (auto simp: jose_laws_def demo_jose_def utf8_valid_ascii_Cons split: if_splits)

lemma demo_holds_a_key: "holds_a_key demo_jose (\<lambda>e d. e = ''pub'' \<and> d = ''priv'') demo_ec demo_dc"
  by (simp add: holds_a_key_def demo_ec_def demo_dc_def jwe_encrypter_def jwe_decrypter_def
      jwe_key_from_def demo_jose_def)

lemma jwe_wrap_unwrap_witness:
  "\<exists>s. jwe_wrap_keys demo_jose demo_ec ''key'' = Inr s \<and> jwe_unwrap_keys demo_jose demo_dc s = Inr ''key''"
proof -
  obtain s where s: "jwe_wrap_keys demo_jose demo_ec ''key'' = Inr s"
    by (simp add: jwe_wrap_keys_def demo_ec_def jwe_encrypter_def jwe_key_from_def demo_jose_def
        utf8_valid_ascii is_ascii_str_def)
  from jwe_wrap_unwrap [OF demo_jose_laws demo_holds_a_key s] s show ?thesis by blast
qed

definition demo_transports :: transports where
  "demo_transports = \<lparr>ser_input = \<lambda>i. Some (pi_op i), de_output = \<lambda>b. None, b64_encode = \<lambda>b. b,
     b64_decode = \<lambda>s. Inr s, async_runtime = Inr (), grpc_uri_ok = \<lambda>u. True, grpc_connect = \<lambda>u. Inr (),
     grpc_call = \<lambda>oper u b. Inr b, ttrpc_connect = \<lambda>u. Inr (), ttrpc_call = \<lambda>oper u b. Inr b,
     native_decrypt = \<lambda>a b c. Inl ''none''\<rparr>"

definition demo_features :: features where
  "demo_features = \<lparr>feat_jwe = True, feat_keyprovider = True, feat_cmd = True, feat_grpc = False,
     feat_ttrpc = False, feat_native = False\<rparr>"

definition demo_config :: ocicrypt_config where
  "demo_config = \<lparr>key_providers = [(''kp'', \<lparr>attr_cmd = Some \<lparr>cmd_path = ''/bin/kp'', cmd_args = None\<rparr>,
     attr_grpc = None, attr_ttrpc = None, attr_native = None\<rparr>)]\<rparr>"

lemma registry_annotations_exact_witness:
  "map_of (KEY_WRAPPERS_ANNOTATIONS (KEY_WRAPPERS demo_features demo_jose demo_transports (Some demo_config)))
     ''org.opencontainers.image.enc.keys.provider.kp'' = Some ''provider.kp''"
  by (subst registry_annotations_exact [where F = demo_features and config = "Some demo_config"
        and J = demo_jose and T = demo_transports])
     (simp_all add: demo_features_def demo_config_def registered_providers_def get_key_wrapper_def
        KEY_WRAPPERS_def kp_key_wrapper_def kp_annotation_id_def)

text \<open>
  A key provider that is configured by a command never works through the global registry: the
  registry creates its wrapper without a command runner, so wrapping and unwrapping both fail for
  every input, whatever the features and the transports.
\<close>

lemma registered_command_provider_fails:
  assumes keys: "distinct (map fst (registered_providers F config))"
    and reg: "(name, attrs) \<in> set (registered_providers F config)" and cmd: "attr_cmd attrs = Some c"
  shows "\<exists>w. map_of (KEY_WRAPPERS F J T config) (''provider.'' @ name) = Some w \<and>
     (\<forall>ec x. \<not> is_ok (kw_wrap_keys w ec x)) \<and> (\<forall>dc a. \<not> is_ok (kw_unwrap_keys w dc a))"
proof -
  let ?w = "kp_new name attrs None"
  have "(''provider.'' @ name, kp_key_wrapper F T ?w) \<in> set (KEY_WRAPPERS F J T config)"
    using reg by (force simp: KEY_WRAPPERS_eq [OF keys] provider_entry_def)
  with KEY_WRAPPERS_distinct(1) [OF keys] have
    "map_of (KEY_WRAPPERS F J T config) (''provider.'' @ name) = Some (kp_key_wrapper F T ?w)"
    by (rule map_of_is_SomeI)
  moreover have "\<not> is_ok (kp_wrap_keys F T ?w ec x)" for ec x
    using cmd by (auto simp: kp_wrap_keys_def is_ok_iff result_iff Let_def wrap_key_cmd_def)
  moreover have "\<not> is_ok (kp_unwrap_keys F T ?w dc a)" for dc a
    using cmd by (auto simp: kp_unwrap_keys_def is_ok_iff result_iff Let_def unwrap_key_cmd_def)
  ultimately show ?thesis by (simp add: kp_key_wrapper_def)
qed

lemma registered_command_provider_fails_witness:
  "\<exists>w. map_of (KEY_WRAPPERS demo_features demo_jose demo_transports (Some demo_config)) ''provider.kp'' = Some w \<and>
     \<not> is_ok (kw_wrap_keys w (encrypt_config_default\<lparr>ec_param := [''kp'' \<mapsto> [''v'']]\<rparr>) ''opts'')"
  using registered_command_provider_fails [of demo_features "Some demo_config" "''kp''"
      "\<lparr>attr_cmd = Some \<lparr>cmd_path = ''/bin/kp'', cmd_args = None\<rparr>, attr_grpc = None, attr_ttrpc = None,
         attr_native = None\<rparr>" _ demo_jose demo_transports]
  by (auto simp: demo_features_def demo_config_def registered_providers_def)

end
