(* ===== verification/Ocicrypt_Encryption.thy ===== *)
theory Ocicrypt_Encryption
  imports Ocicrypt_Blockcipher Ocicrypt_Keywrap
begin

text \<open>
  \<open>ocicrypt-rs/src/encryption.rs\<close>: encryption and decryption of an image layer. The symmetric key and
  the cipher options are serialized, wrapped by every registered key wrapper and stored in the layer's
  annotations; decryption finds a wrapper that unwraps them and sets the cipher up again. Base64 and
  JSON come from other crates and are the record \<open>codecs\<close>.
\<close>

section \<open>Definitions\<close>

record codecs =
  b64_enc :: "bytes \<Rightarrow> string"
  b64_dec :: "string \<Rightarrow> (string, bytes) result"
  priv_to_json :: "private_opts \<Rightarrow> (string, bytes) result"
  pub_to_json :: "public_opts \<Rightarrow> (string, bytes) result"
  priv_from_json :: "bytes \<Rightarrow> (string, private_opts) result"
  pub_from_json :: "bytes \<Rightarrow> (string, public_opts) result"

type_synonym annotations = "(string \<times> string) list"

datatype enc_error =
    EncKeywrap keywrap_error
  | EncCipher cipher_error
  | EncJson string
  | EncBase64 string
  | NewAnnotationsEmpty
  | AnnotationsEmpty
  | NoWrappedKeys
  | NoEncryptor
  | NoSuitableKey "keywrap_error list"
  | MissingPrivateKey
  | NoUnwrapper
  | DecryptConfigNone

definition PUBOPTS :: string where
  "PUBOPTS = ''org.opencontainers.image.enc.pubopts''"

definition PROVIDER_PREFIX :: string where
  "PROVIDER_PREFIX = ''org.opencontainers.image.enc.keys.provider.''"

definition annos_or_default :: "annotations option \<Rightarrow> annotations" where
  "annos_or_default a = (case a of None \<Rightarrow> [] | Some m \<Rightarrow> m)"

definition pre_wrap_key ::
  "codecs \<Rightarrow> key_wrapper \<Rightarrow> encrypt_config \<Rightarrow> string \<Rightarrow> bytes \<Rightarrow> (enc_error, string) result" where
  "pre_wrap_key K w ec b64_annotations opts_data =
     and_then (map_err EncKeywrap (kw_wrap_keys w ec opts_data)) (\<lambda>new_annotation.
       if new_annotation = [] then Inl NewAnnotationsEmpty
       else if b64_annotations = [] then Inr (b64_enc K new_annotation)
       else Inr (b64_annotations @ CHR '','' # b64_enc K new_annotation))"

fun unwrap_loop ::
  "codecs \<Rightarrow> key_wrapper \<Rightarrow> decrypt_config \<Rightarrow> keywrap_error list \<Rightarrow> string list \<Rightarrow>
     (enc_error, bytes) result" where
  "unwrap_loop K w dc errs [] = Inl (NoSuitableKey errs)"
| "unwrap_loop K w dc errs (b64 # rest) =
     and_then (map_err EncBase64 (b64_dec K b64)) (\<lambda>annotation.
       case kw_unwrap_keys w dc annotation of
         Inl e \<Rightarrow> unwrap_loop K w dc (errs @ [e]) rest
       | Inr opts_data \<Rightarrow> Inr opts_data)"

definition pre_unwrap_key ::
  "codecs \<Rightarrow> key_wrapper \<Rightarrow> decrypt_config \<Rightarrow> string \<Rightarrow> (enc_error, bytes) result" where
  "pre_unwrap_key K w dc b64_annotations =
     (if b64_annotations = [] then Inl AnnotationsEmpty
      else unwrap_loop K w dc [] (split_on (CHR '','') b64_annotations))"

definition get_layer_pub_opts :: "codecs \<Rightarrow> annotations \<Rightarrow> (enc_error, bytes) result" where
  "get_layer_pub_opts K annos =
     (case map_of annos PUBOPTS of
        Some pub_opts \<Rightarrow> map_err EncBase64 (b64_dec K pub_opts)
      | None \<Rightarrow> map_err EncJson (pub_to_json K public_opts_default))"

definition get_layer_key_opts :: "string \<Rightarrow> annotations \<Rightarrow> string option" where
  "get_layer_key_opts aid annos =
     (if strip_prefix PROVIDER_PREFIX aid \<noteq> None
      then map_option snd (List.find (\<lambda>(k, v). strip_prefix PROVIDER_PREFIX k \<noteq> None) annos)
      else map_of annos aid)"

fun unwrap_with_any ::
  "registry \<Rightarrow> codecs \<Rightarrow> decrypt_config \<Rightarrow> annotations \<Rightarrow> bool \<Rightarrow> (string \<times> string) list \<Rightarrow>
     (enc_error, bytes) result" where
  "unwrap_with_any R K dc annos priv_key_given [] =
     (if \<not> priv_key_given then Inl MissingPrivateKey else Inl NoUnwrapper)"
| "unwrap_with_any R K dc annos priv_key_given ((aid, scheme) # rest) =
     (case get_layer_key_opts aid annos of
        None \<Rightarrow> unwrap_with_any R K dc annos priv_key_given rest
      | Some b64 \<Rightarrow>
          and_then (map_err EncKeywrap (get_key_wrapper R scheme)) (\<lambda>w.
            if \<not> kw_probe w (dc_param dc) then unwrap_with_any R K dc annos priv_key_given rest
            else let given = (priv_key_given \<or> kw_private_keys w (dc_param dc) \<noteq> None)
                 in and_then (pre_unwrap_key K w dc b64) (\<lambda>opts_data.
                      if opts_data \<noteq> [] then Inr opts_data
                      else unwrap_with_any R K dc annos given rest)))"

definition decrypt_layer_key_opts_data ::
  "registry \<Rightarrow> codecs \<Rightarrow> decrypt_config \<Rightarrow> annotations option \<Rightarrow> (enc_error, bytes) result" where
  "decrypt_layer_key_opts_data R K dc annotations =
     unwrap_with_any R K dc (annos_or_default annotations) False (reg_annotations R)"

definition wrap_step ::
  "registry \<Rightarrow> codecs \<Rightarrow> encrypt_config \<Rightarrow> annotations \<Rightarrow> bytes \<Rightarrow> bool \<times> annotations \<Rightarrow> string \<times> string \<Rightarrow>
     (enc_error, bool \<times> annotations) result" where
  "wrap_step R K ec annos priv_opts acc entry =
     (case (acc, entry) of ((keys_wrapped, new_annotations), (aid, scheme)) \<Rightarrow>
        let b64 = (case map_of annos aid of Some v \<Rightarrow> v | None \<Rightarrow> [])
        in and_then (map_err EncKeywrap (get_key_wrapper R scheme)) (\<lambda>w.
           and_then (pre_wrap_key K w ec b64 priv_opts) (\<lambda>b64'.
             if b64' \<noteq> [] then Inr (True, btree_insert aid b64' new_annotations)
             else Inr (keys_wrapped, new_annotations))))"

text \<open>
  The finalizer is the handler that encrypted the layer (its \<open>finalized_lbco\<close>). The options held by
  the \<open>EncLayerFinalizer\<close> are updated by it and returned beside the result.
\<close>

definition finalize_annotations ::
  "registry \<Rightarrow> codecs \<Rightarrow> encrypt_config \<Rightarrow> annotations option \<Rightarrow>
     (layer_opts \<Rightarrow> (cipher_error, layer_opts) result) option \<Rightarrow>
     (layer_opts, enc_error, annotations) stateful" where
  "finalize_annotations R K ec annotations finalizer lbco =
     (case (case finalizer of
              None \<Rightarrow> (Inr ([], []), lbco)
            | Some fin \<Rightarrow>
                (case fin lbco of
                   Inl e \<Rightarrow> (Inl (EncCipher e), lbco)
                 | Inr lbco' \<Rightarrow>
                     (and_then (map_err EncJson (priv_to_json K (lbco_private lbco'))) (\<lambda>priv.
                      and_then (map_err EncJson (pub_to_json K (lbco_public lbco'))) (\<lambda>pub.
                      Inr (priv, pub))), lbco'))) of
        (Inl e, lbco') \<Rightarrow> (Inl e, lbco')
      | (Inr (priv_opts, pub_opts), lbco') \<Rightarrow>
          (and_then (try_fold (wrap_step R K ec (annos_or_default annotations) priv_opts) (False, [])
                       (reg_annotations R)) (\<lambda>(keys_wrapped, new_annotations).
             if \<not> keys_wrapped then Inl NoWrappedKeys
             else if new_annotations = [] then Inl NoEncryptor
             else Inr (btree_insert PUBOPTS (b64_enc K pub_opts) new_annotations)), lbco'))"

text \<open>The first loop of \<open>encrypt_layer\<close>: is the layer encrypted already?\<close>

fun already_encrypted ::
  "registry \<Rightarrow> codecs \<Rightarrow> encrypt_config \<Rightarrow> annotations option \<Rightarrow> bool \<Rightarrow> (string \<times> string) list \<Rightarrow>
     (enc_error, bool) result" where
  "already_encrypted R K ec annotations encrypted [] = Inr encrypted"
| "already_encrypted R K ec annotations encrypted ((aid, scheme) # rest) =
     (if map_of (annos_or_default annotations) aid \<noteq> None then
        (case ec_decrypt_config ec of
           None \<Rightarrow> Inl DecryptConfigNone
         | Some dc \<Rightarrow>
             and_then (decrypt_layer_key_opts_data R K dc annotations) (\<lambda>_.
             and_then (get_layer_pub_opts K (annos_or_default annotations)) (\<lambda>_.
             already_encrypted R K ec annotations True rest)))
      else already_encrypted R K ec annotations encrypted rest)"

definition encrypt_layer ::
  "registry \<Rightarrow> codecs \<Rightarrow> ('c, 'h, 'g) crypto \<Rightarrow> encrypt_config \<Rightarrow> 'r \<Rightarrow> annotations option \<Rightarrow> string \<Rightarrow> 'g \<Rightarrow>
     (enc_error, ('c, 'h, 'r) layer_handler option \<times> layer_opts) result \<times> 'g" where
  "encrypt_layer R K C ec layer_reader annotations digest g =
     (case already_encrypted R K ec annotations False (reg_annotations R) of
        Inl e \<Rightarrow> (Inl e, g)
      | Inr encrypted \<Rightarrow>
          (if \<not> encrypted then
             (case handler_new of
                Inl e \<Rightarrow> (Inl (EncCipher e), g)
              | Inr lbch \<Rightarrow>
                  (case handler_encrypt C layer_reader AES256CTR (lbch, layer_opts_default, g) of
                     (Inl e, (_, _, g')) \<Rightarrow> (Inl (EncCipher e), g')
                   | (Inr _, (lbch', lbco, g')) \<Rightarrow>
                       (Inr (Some lbch',
                             lbco\<lparr>lbco_private := (lbco_private lbco)\<lparr>priv_digest := digest\<rparr>\<rparr>), g')))
           else (Inr (None, layer_opts_default), g)))"

definition open_layer ::
  "codecs \<Rightarrow> ('c, 'h, 'g) crypto \<Rightarrow> 'r \<Rightarrow> private_opts \<Rightarrow> public_opts \<Rightarrow> 'g \<Rightarrow>
     (enc_error, ('c, 'h, 'r) layer_handler \<times> string) result \<times> 'g" where
  "open_layer K C layer_reader priv_opts pub_opts g =
     (case handler_new of
        Inl e \<Rightarrow> (Inl (EncCipher e), g)
      | Inr lbch \<Rightarrow>
          (case handler_decrypt C layer_reader
                  (lbch, \<lparr>lbco_public = pub_opts, lbco_private = priv_opts\<rparr>, g) of
             (Inl e, (_, _, g')) \<Rightarrow> (Inl (EncCipher e), g')
           | (Inr _, (lbch', opts, g')) \<Rightarrow> (Inr (lbch', priv_digest (lbco_private opts)), g')))"

definition decrypt_layer ::
  "registry \<Rightarrow> codecs \<Rightarrow> ('c, 'h, 'g) crypto \<Rightarrow> decrypt_config \<Rightarrow> 'r \<Rightarrow> annotations option \<Rightarrow> bool \<Rightarrow> 'g \<Rightarrow>
     (enc_error, ('c, 'h, 'r) layer_handler option \<times> string) result \<times> 'g" where
  "decrypt_layer R K C dc layer_reader annotations unwrap_only g =
     (case and_then (decrypt_layer_key_opts_data R K dc annotations) (\<lambda>priv_data.
           and_then (get_layer_pub_opts K (annos_or_default annotations)) (\<lambda>pub_data.
           if unwrap_only then Inr None
           else and_then (map_err EncJson (priv_from_json K priv_data)) (\<lambda>priv_opts.
                and_then (map_err EncJson (pub_from_json K pub_data)) (\<lambda>pub_opts.
                Inr (Some (priv_opts, pub_opts)))))) of
        Inl e \<Rightarrow> (Inl e, g)
      | Inr None \<Rightarrow> (Inr (None, ''''), g)
      | Inr (Some (priv_opts, pub_opts)) \<Rightarrow>
          (case open_layer K C layer_reader priv_opts pub_opts g of
             (r, g') \<Rightarrow> (and_then r (\<lambda>(h, digest). Inr (Some h, digest)), g')))"

definition async_decrypt_layer ::
  "codecs \<Rightarrow> ('c, 'h, 'g) crypto \<Rightarrow> 'r \<Rightarrow> annotations option \<Rightarrow> bytes \<Rightarrow> 'g \<Rightarrow>
     (enc_error, ('c, 'h, 'r) layer_handler \<times> string) result \<times> 'g" where
  "async_decrypt_layer K C layer_reader annotations priv_opts_data g =
     (case and_then (get_layer_pub_opts K (annos_or_default annotations)) (\<lambda>pub_data.
           and_then (map_err EncJson (pub_from_json K pub_data)) (\<lambda>pub_opts.
           and_then (map_err EncJson (priv_from_json K priv_opts_data)) (\<lambda>priv_opts.
           Inr (priv_opts, pub_opts)))) of
        Inl e \<Rightarrow> (Inl e, g)
      | Inr (priv_opts, pub_opts) \<Rightarrow> open_layer K C layer_reader priv_opts pub_opts g)"

section \<open>Assumptions on codecs, wrappers and the registry\<close>

text \<open>
  Base64 text has no comma, is empty for the empty input only and decodes to what was encoded; JSON
  text is not empty and parses to the value it was printed from.
\<close>

definition b64_laws :: "codecs \<Rightarrow> bool" where
  "b64_laws K \<longleftrightarrow>
     (\<forall>b. b64_dec K (b64_enc K b) = Inr b) \<and> (\<forall>b. CHR '','' \<notin> set (b64_enc K b)) \<and>
     (\<forall>b. b64_enc K b = [] \<longrightarrow> b = [])"

definition json_laws :: "codecs \<Rightarrow> bool" where
  "json_laws K \<longleftrightarrow>
     (\<forall>p j. priv_to_json K p = Inr j \<longrightarrow> j \<noteq> [] \<and> priv_from_json K j = Inr p) \<and>
     (\<forall>p j. pub_to_json K p = Inr j \<longrightarrow> pub_from_json K j = Inr p)"

text \<open>A wrapper whose unwrapping with \<open>dc\<close> inverts its wrapping with \<open>ec\<close>.\<close>

definition wrapper_pair :: "key_wrapper \<Rightarrow> encrypt_config \<Rightarrow> decrypt_config \<Rightarrow> bool" where
  "wrapper_pair w ec dc \<longleftrightarrow> (\<forall>x a. kw_wrap_keys w ec x = Inr a \<longrightarrow> kw_unwrap_keys w dc a = Inr x)"

definition is_provider_id :: "string \<Rightarrow> bool" where
  "is_provider_id aid \<longleftrightarrow> strip_prefix PROVIDER_PREFIX aid \<noteq> None"

text \<open>
  A registry whose annotation identifiers are unique, with one external provider at most (decryption
  takes the first provider annotation whatever its name).
\<close>

definition registry_wf :: "registry \<Rightarrow> bool" where
  "registry_wf R \<longleftrightarrow>
     distinct (map fst (reg_annotations R)) \<and>
     PUBOPTS \<notin> fst ` set (reg_annotations R) \<and>
     (\<forall>a\<in>fst ` set (reg_annotations R). \<forall>b\<in>fst ` set (reg_annotations R).
        is_provider_id a \<longrightarrow> is_provider_id b \<longrightarrow> a = b)"

section \<open>Wrapping and unwrapping the layer key\<close>

lemma unwrap_loop_skip:
  assumes "\<forall>b\<in>set bs. \<exists>a e. b64_dec K b = Inr a \<and> kw_unwrap_keys w dc a = Inl e"
  shows "\<exists>errs'. unwrap_loop K w dc errs (bs @ rest) = unwrap_loop K w dc errs' rest"
  using assms
proof (induction bs arbitrary: errs)
  case Nil
  then show ?case by auto
next
  case (Cons b bs)
  then obtain a e where "b64_dec K b = Inr a" "kw_unwrap_keys w dc a = Inl e" by auto
  with Cons show ?case by simp
qed

lemma pre_wrap_key_Inr_iff:
  "pre_wrap_key K w ec b64 x = Inr s \<longleftrightarrow>
     (\<exists>a. kw_wrap_keys w ec x = Inr a \<and> a \<noteq> [] \<and>
        s = (if b64 = [] then b64_enc K a else b64 @ CHR '','' # b64_enc K a))"
  by (cases "kw_wrap_keys w ec x") (auto simp: pre_wrap_key_def)

lemma pre_wrap_then_unwrap:
  assumes codec: "b64_laws K" and pair: "wrapper_pair w ec dc"
    and wrap: "pre_wrap_key K w ec b64 x = Inr s"
    and others: "b64 \<noteq> [] \<Longrightarrow>
       \<forall>b\<in>set (split_on (CHR '','') b64). \<exists>a e. b64_dec K b = Inr a \<and> kw_unwrap_keys w dc a = Inl e"
  shows "pre_unwrap_key K w dc s = Inr x"
proof -
  from wrap obtain a where a: "kw_wrap_keys w ec x = Inr a" "a \<noteq> []"
    and s: "s = (if b64 = [] then b64_enc K a else b64 @ CHR '','' # b64_enc K a)"
    by (auto simp: pre_wrap_key_Inr_iff)
  have free: "CHR '','' \<notin> set (b64_enc K a)" and ne: "b64_enc K a \<noteq> []"
    and dec: "b64_dec K (b64_enc K a) = Inr a"
    using codec a(2) by (auto simp: b64_laws_def)
  have last: "unwrap_loop K w dc errs [b64_enc K a] = Inr x" for errs
    using dec pair a(1) by (simp add: wrapper_pair_def)
  show ?thesis
  proof (cases "b64 = []")
    case True
    with s ne last free show ?thesis by (simp add: pre_unwrap_key_def split_on_free)
  next
    case False
    have "split_on (CHR '','') s = split_on (CHR '','') b64 @ [b64_enc K a]"
      using s False free by (simp add: split_on_snoc)
    with unwrap_loop_skip [OF others [OF False], of "[]" "[b64_enc K a]"] last s False show ?thesis
      by (auto simp: pre_unwrap_key_def)
  qed
qed

text \<open>
  Adding a recipient: after a wrapper has appended its annotation to the annotations of other
  recipients, a holder of the matching key recovers the wrapped data, provided that the earlier
  annotations are well-formed base64 and are refused by its key.
\<close>

lemma pre_wrap_unwrap_key:
  assumes codec: "b64_laws K" and pair: "wrapper_pair w ec dc"
    and wrap: "pre_wrap_key K w ec b64 x = Inr s"
    and others: "b64 \<noteq> [] \<Longrightarrow>
       \<forall>b\<in>set (split_on (CHR '','') b64). \<exists>a e. b64_dec K b = Inr a \<and> kw_unwrap_keys w dc a = Inl e"
  shows "pre_unwrap_key K w dc s = Inr x"
  using assms by (rule pre_wrap_then_unwrap)

text \<open>An instance of the codecs and of a wrapper: two letters per byte, and a tagged message.\<close>

definition demo_codecs :: "private_opts \<Rightarrow> public_opts \<Rightarrow> codecs" where
  "demo_codecs priv pub =
     \<lparr>b64_enc = \<lambda>b. concat (map hex_char b), b64_dec = hex_decode,
      priv_to_json = \<lambda>p. if p = priv then Inr ''priv'' else Inl ''unknown'',
      pub_to_json = \<lambda>p. if p = pub then Inr ''pub'' else Inl ''unknown'',
      priv_from_json = \<lambda>j. if j = ''priv'' then Inr priv else Inl ''syntax'',
      pub_from_json = \<lambda>j. if j = ''pub'' then Inr pub else Inl ''syntax''\<rparr>"

definition tag_wrapper :: key_wrapper where
  "tag_wrapper =
     \<lparr>kw_wrap_keys = \<lambda>ec x. Inr (CHR ''w'' # x),
      kw_unwrap_keys = \<lambda>dc a. ok_or JweNoSuitableKey (strip_prefix ''w'' a),
      kw_annotation_id = jwe_annotation_id, kw_probe = \<lambda>_. True, kw_private_keys = \<lambda>_. None\<rparr>"

lemma demo_codecs_laws: "b64_laws (demo_codecs priv pub)" "json_laws (demo_codecs priv pub)"
  by (auto simp: b64_laws_def json_laws_def demo_codecs_def hex_decode_encode hex_char_no_comma
      hex_char_def [of "hd _"] split: if_splits)
     (auto simp: hex_char_def)

lemma tag_wrapper_pair: "wrapper_pair tag_wrapper ec dc"
  by (auto simp: wrapper_pair_def tag_wrapper_def)

lemma pre_wrap_unwrap_key_witness:
  "\<exists>s. pre_wrap_key (demo_codecs private_opts_default public_opts_default) tag_wrapper
         encrypt_config_default ''HB'' ''secret'' = Inr s \<and>
     pre_unwrap_key (demo_codecs private_opts_default public_opts_default) tag_wrapper
         decrypt_config_default s = Inr ''secret''"
proof -
  let ?K = "demo_codecs private_opts_default public_opts_default"
  obtain s where s: "pre_wrap_key ?K tag_wrapper encrypt_config_default ''HB'' ''secret'' = Inr s"
    by (simp add: pre_wrap_key_def tag_wrapper_def)
  have "hex_decode ''HB'' = Inr ''q''" by code_simp
  then have "b64_dec ?K ''HB'' = Inr ''q''" by (simp add: demo_codecs_def)
  then have "\<forall>b\<in>set (split_on (CHR '','') ''HB''). \<exists>a e. b64_dec ?K b = Inr a \<and>
      kw_unwrap_keys tag_wrapper decrypt_config_default a = Inl e"
    by (simp add: tag_wrapper_def)
  from pre_wrap_unwrap_key [OF demo_codecs_laws(1) tag_wrapper_pair s this] s show ?thesis by blast
qed

section \<open>A whole layer\<close>

lemma wrap_step_ok_iff:
  "wrap_step R K ec annos x (kw, new) (aid, scheme) = Inr acc \<longleftrightarrow>
     (\<exists>w b. get_key_wrapper R scheme = Inr w \<and>
        pre_wrap_key K w ec (case map_of annos aid of Some v \<Rightarrow> v | None \<Rightarrow> []) x = Inr b \<and>
        acc = (if b = [] then (kw, new) else (True, btree_insert aid b new)))"
  by (auto simp: wrap_step_def Let_def result_iff split: if_splits)

lemma pre_wrap_key_not_Nil:
  "b64_laws K \<Longrightarrow> pre_wrap_key K w ec b64 x = Inr b \<Longrightarrow> b \<noteq> []"
  by (auto simp: pre_wrap_key_Inr_iff b64_laws_def split: if_splits)

lemma wrap_fold_ok:
  assumes "b64_laws K"
    and "try_fold (wrap_step R K ec annos x) (kw, new) es = Inr (kw', new')"
    and "distinct (map fst es)"
  shows "kw' = (kw \<or> es \<noteq> []) \<and> fst ` set new' = fst ` set new \<union> fst ` set es \<and>
    (\<forall>k. k \<notin> fst ` set es \<longrightarrow> map_of new' k = map_of new k) \<and>
    (\<forall>(aid, scheme)\<in>set es. \<exists>w b. get_key_wrapper R scheme = Inr w \<and>
        pre_wrap_key K w ec (case map_of annos aid of Some v \<Rightarrow> v | None \<Rightarrow> []) x = Inr b \<and>
        map_of new' aid = Some b)"
  using assms(2,3)
proof (induction es arbitrary: kw new)
  case Nil
  then show ?case by simp
next
  case (Cons e es)
  obtain a s where e: "e = (a, s)" by (cases e)
  from Cons.prems(1) obtain w b where "get_key_wrapper R s = Inr w"
    "pre_wrap_key K w ec (case map_of annos a of Some v \<Rightarrow> v | None \<Rightarrow> []) x = Inr b"
    and rest: "try_fold (wrap_step R K ec annos x) (True, btree_insert a b new) es = Inr (kw', new')"
    by (auto simp: e result_iff wrap_step_ok_iff split: if_splits dest: pre_wrap_key_not_Nil [OF assms(1)])
  moreover have "a \<notin> fst ` set es" using Cons.prems(2) by (simp add: e)
  moreover note Cons.IH [OF rest]
  ultimately show ?case using Cons.prems(2) by (auto simp: e fst_btree_insert)
qed

lemma find_unique_key:
  assumes "P aid" and "\<forall>k\<in>fst ` set m. P k \<longrightarrow> k = aid"
  shows "map_option snd (List.find (\<lambda>(k, v). P k) m) = map_of m aid"
  using assms by (induction m) auto

lemma get_layer_key_opts_own:
  assumes "is_provider_id aid \<Longrightarrow> \<forall>k\<in>fst ` set annos. is_provider_id k \<longrightarrow> k = aid"
  shows "get_layer_key_opts aid annos = map_of annos aid"
  using find_unique_key [of is_provider_id aid annos] assms
  by (simp add: get_layer_key_opts_def is_provider_id_def)

lemma unwrap_with_any_ok:
  assumes "\<And>aid scheme. (aid, scheme) \<in> set es \<Longrightarrow>
      \<exists>w b. get_layer_key_opts aid annos = Some b \<and> get_key_wrapper R scheme = Inr w \<and>
            pre_unwrap_key K w dc b = Inr x"
    and "x \<noteq> []"
    and "\<exists>(aid, scheme)\<in>set es. \<exists>w. get_key_wrapper R scheme = Inr w \<and> kw_probe w (dc_param dc)"
  shows "unwrap_with_any R K dc annos given es = Inr x"
  using assms
proof (induction es arbitrary: given)
  case Nil
  then show ?case by simp
next
  case (Cons e es)
  obtain a s where e: "e = (a, s)" by (cases e)
  from Cons.prems(1) [of a s] e obtain w b where
    "get_layer_key_opts a annos = Some b" "get_key_wrapper R s = Inr w" "pre_unwrap_key K w dc b = Inr x"
    by auto
  moreover from this Cons.prems(3) have "\<not> kw_probe w (dc_param dc) \<Longrightarrow>
      \<exists>(aid, scheme)\<in>set es. \<exists>w. get_key_wrapper R scheme = Inr w \<and> kw_probe w (dc_param dc)"
    by (auto simp: e)
  ultimately show ?case using Cons.IH Cons.prems(1,2) by (simp add: e)
qed

lemma already_encrypted_None: "already_encrypted R K ec None b es = Inr b"
  by (induction es) (auto simp: annos_or_default_def)

lemma handler_new_ok: "\<exists>h. handler_new = Inr h"
  by (simp add: handler_new_def aes_new_def AES256_KEY_SIZE_def)

lemma open_layer_ok:
  fixes C :: "('c, 'h, 'g) crypto" and ct :: 'r
  assumes "\<And>h. \<exists>h3 opts3. handler_decrypt C ct (h, opts, g) = (Inr (), (h3, opts3, g)) \<and>
      P h3 (priv_digest (lbco_private opts3))"
  shows "\<exists>h3 d. open_layer K C ct (lbco_private opts) (lbco_public opts) g = (Inr (h3, d), g) \<and> P h3 d"
proof -
  obtain h :: "('c, 'h, 'r) layer_handler" where h: "handler_new = Inr h" using handler_new_ok by blast
  have opts: "\<lparr>lbco_public = lbco_public opts, lbco_private = lbco_private opts\<rparr> = opts" by simp
  from assms [of h] show ?thesis unfolding open_layer_def h sum.case opts by auto
qed

lemma PUBOPTS_not_provider: "\<not> is_provider_id PUBOPTS"
  by (simp add: is_provider_id_def PUBOPTS_def PROVIDER_PREFIX_def)

lemma finalize_annotations_ok:
  assumes "finalize_annotations R K ec annotations (Some fin) lbco = (Inr annos, lbco')"
  obtains priv pub new where "fin lbco = Inr lbco'" "priv_to_json K (lbco_private lbco') = Inr priv"
    "pub_to_json K (lbco_public lbco') = Inr pub"
    "try_fold (wrap_step R K ec (annos_or_default annotations) priv) (False, []) (reg_annotations R) = Inr (True, new)"
    "annos = btree_insert PUBOPTS (b64_enc K pub) new"
  using assms
  by (auto simp: finalize_annotations_def result_iff split: sum.splits prod.splits if_splits)

lemma encrypt_layer_ok:
  assumes "encrypt_layer R K C ec src None digest g = (Inr (Some h, lbco), g')"
  obtains h0 lbco0 where "handler_encrypt C src AES256CTR (h0, layer_opts_default, g) = (Inr (), (h, lbco0, g'))"
    "lbco = lbco0\<lparr>lbco_private := (lbco_private lbco0)\<lparr>priv_digest := digest\<rparr>\<rparr>"
  using assms
  by (auto simp: encrypt_layer_def already_encrypted_None split: sum.splits prod.splits)

lemma finalized_annotations_unwrap:
  assumes codec: "b64_laws K" "json_laws K" and reg: "registry_wf R"
    and fin: "finalize_annotations R K ec None (Some f) lbco = (Inr annos, lbco')"
    and pairs: "\<forall>(aid, scheme)\<in>set (reg_annotations R). \<forall>w. get_key_wrapper R scheme = Inr w \<longrightarrow> wrapper_pair w ec dc"
    and probe: "\<exists>(aid, scheme)\<in>set (reg_annotations R). \<exists>w. get_key_wrapper R scheme = Inr w \<and> kw_probe w (dc_param dc)"
  obtains priv pub where "f lbco = Inr lbco'"
    "decrypt_layer_key_opts_data R K dc (Some annos) = Inr priv" "priv_from_json K priv = Inr (lbco_private lbco')"
    "get_layer_pub_opts K annos = Inr pub" "pub_from_json K pub = Inr (lbco_public lbco')"
proof -
  from fin obtain priv pub new where f: "f lbco = Inr lbco'" and priv: "priv_to_json K (lbco_private lbco') = Inr priv"
    and pub: "pub_to_json K (lbco_public lbco') = Inr pub"
    and wrap: "try_fold (wrap_step R K ec (annos_or_default None) priv) (False, []) (reg_annotations R) = Inr (True, new)"
    and annos: "annos = btree_insert PUBOPTS (b64_enc K pub) new"
    by (rule finalize_annotations_ok)
  from reg have d: "distinct (map fst (reg_annotations R))" by (simp add: registry_wf_def)
  note wrapped = wrap_fold_ok [OF codec(1) wrap d]
  from codec(2) priv pub have json: "priv \<noteq> []" "priv_from_json K priv = Inr (lbco_private lbco')"
    "pub_from_json K pub = Inr (lbco_public lbco')"
    by (auto simp: json_laws_def)
  have keys: "fst ` set annos = insert PUBOPTS (fst ` set (reg_annotations R))"
    using wrapped by (simp add: annos fst_btree_insert)
  have "\<exists>w b. get_layer_key_opts aid annos = Some b \<and> get_key_wrapper R scheme = Inr w \<and>
      pre_unwrap_key K w dc b = Inr priv" if mem: "(aid, scheme) \<in> set (reg_annotations R)" for aid scheme
  proof -
    from wrapped mem obtain w b where w: "get_key_wrapper R scheme = Inr w"
      and b: "pre_wrap_key K w ec [] priv = Inr b" "map_of new aid = Some b"
      by (fastforce simp: annos_or_default_def)
    have aid: "aid \<in> fst ` set (reg_annotations R)" using mem by force
    then have "aid \<noteq> PUBOPTS" using reg unfolding registry_wf_def by metis
    then have "map_of annos aid = Some b" using b(2) by (simp add: annos)
    moreover have "get_layer_key_opts aid annos = map_of annos aid"
      using reg aid PUBOPTS_not_provider
      by (intro get_layer_key_opts_own) (auto simp: keys registry_wf_def)
    moreover have "wrapper_pair w ec dc" using pairs mem w by auto
    ultimately show ?thesis using w pre_wrap_then_unwrap [OF codec(1) _ b(1)] by auto
  qed
  then have "decrypt_layer_key_opts_data R K dc (Some annos) = Inr priv"
    using unwrap_with_any_ok [OF _ json(1) probe] by (simp add: decrypt_layer_key_opts_data_def annos_or_default_def)
  moreover have "get_layer_pub_opts K annos = Inr pub"
    using codec(1) by (simp add: get_layer_pub_opts_def annos b64_laws_def)
  ultimately show ?thesis using that f json by blast
qed

text \<open>
  C2. Encrypting and decrypting a whole layer: encrypt a layer, read the cipher text to its end with
  any buffer sizes and finalize its annotations. Whoever holds a configuration that inverts the
  registered wrappers, one of which recognizes it, gets from the cipher text and the annotations
  alone the digest that was recorded and a reader of the original plain text.
\<close>

theorem encrypt_decrypt_layer:
  assumes laws: "crypto_laws C" "b64_laws K" "json_laws K" and reg: "registry_wf R"
    and src: "byte_source rd good cont" "good src"
    and enc: "encrypt_layer R K C ec src None digest g = (Inr (Some h1, lbco), g1)"
    and pos: "\<forall>n\<in>set ns. 0 < n" and out: "read_to_end (handler_read C rd) ns [] h1 = Some (Inr ct, h2)"
    and fin: "finalize_annotations R K ec None (Some (handler_finalized_lbco h2)) lbco = (Inr annos, lbco')"
    and pairs: "\<forall>(aid, scheme)\<in>set (reg_annotations R). \<forall>w. get_key_wrapper R scheme = Inr w \<longrightarrow> wrapper_pair w ec dc"
    and probe: "\<exists>(aid, scheme)\<in>set (reg_annotations R). \<exists>w. get_key_wrapper R scheme = Inr w \<and> kw_probe w (dc_param dc)"
    and pos': "\<forall>n\<in>set ms. 0 < n" and enough: "length ct < length ms"
  shows "\<exists>h3 h4. decrypt_layer R K C dc ct (Some annos) False g2 = (Inr (Some h3, digest), g2) \<and>
           read_to_end (handler_read C slice_read) ms [] h3 = Some (Inr (cont src), h4)"
proof -
  from finalized_annotations_unwrap [OF laws(2,3) reg fin pairs probe] obtain priv pub where
    f: "handler_finalized_lbco h2 lbco = Inr lbco'"
    and un: "decrypt_layer_key_opts_data R K dc (Some annos) = Inr priv" "priv_from_json K priv = Inr (lbco_private lbco')"
      "get_layer_pub_opts K annos = Inr pub" "pub_from_json K pub = Inr (lbco_public lbco')" .
  from enc obtain h0 lbco0 where e: "handler_encrypt C src AES256CTR (h0, layer_opts_default, g) = (Inr (), (h1, lbco0, g1))"
    and l: "lbco = lbco0\<lparr>lbco_private := (lbco_private lbco0)\<lparr>priv_digest := digest\<rparr>\<rparr>"
    by (rule encrypt_layer_ok)
  have "\<exists>h3 opts3. handler_decrypt C ct (h, lbco', g2) = (Inr (), (h3, opts3, g2)) \<and>
      priv_digest (lbco_private opts3) = priv_digest (lbco_private lbco) \<and>
      (\<exists>h4. read_to_end (handler_read C slice_read) ms [] h3 = Some (Inr (cont src), h4))" for h
    by (rule encrypt_drain_decrypt [OF laws(1) src e _ _ _ pos out f pos' enough]) (simp_all add: l)
  from open_layer_ok [where P = "\<lambda>h3 d. d = digest \<and>
      (\<exists>h4. read_to_end (handler_read C slice_read) ms [] h3 = Some (Inr (cont src), h4))", of C ct lbco' g2 K] this
  have "\<exists>h3. open_layer K C ct (lbco_private lbco') (lbco_public lbco') g2 = (Inr (h3, digest), g2) \<and>
      (\<exists>h4. read_to_end (handler_read C slice_read) ms [] h3 = Some (Inr (cont src), h4))"
    by (fastforce simp: l)
  then show ?thesis
    using un by (auto simp: decrypt_layer_def annos_or_default_def)
qed

text \<open>The registry of the crate, as \<open>lib.rs\<close> builds it.\<close>

definition crate_registry ::
  "features \<Rightarrow> ('en, 'de) jose \<Rightarrow> transports \<Rightarrow> ocicrypt_config option \<Rightarrow> registry" where
  "crate_registry F J T config =
     (let ws = KEY_WRAPPERS F J T config
      in \<lparr>reg_wrappers = ws, reg_annotations = KEY_WRAPPERS_ANNOTATIONS ws\<rparr>)"

lemma crate_registry_annotations:
  assumes "length (registered_providers F config) \<le> 1"
  shows "reg_annotations (crate_registry F J T config) =
     (if feat_jwe F then [(jwe_annotation_id, ''jwe'')] else []) @
     map (\<lambda>p. (PROVIDER_PREFIX @ fst p, ''provider.'' @ fst p)) (registered_providers F config)"
proof -
  have d: "distinct (map fst (registered_providers F config))"
    using assms by (cases "registered_providers F config") auto
  have "reg_annotations (crate_registry F J T config) =
      map (\<lambda>(s, w). (kw_annotation_id w, s)) (KEY_WRAPPERS F J T config)"
    using annotations_of_wrappers [OF KEY_WRAPPERS_distinct(2) [OF d]] by (simp add: crate_registry_def Let_def)
  then show ?thesis
    by (simp add: KEY_WRAPPERS_eq [OF d] provider_entry_def jwe_key_wrapper_def kp_key_wrapper_def
        kp_annotation_id_def PROVIDER_PREFIX_def)
qed

lemma crate_registry_wf:
  assumes "length (registered_providers F config) \<le> 1"
  shows "registry_wf (crate_registry F J T config)"
  using assms
  by (cases "registered_providers F config")
     (auto simp: registry_wf_def crate_registry_annotations is_provider_id_def jwe_annotation_id_def
        PROVIDER_PREFIX_def PUBOPTS_def)

lemma jwe_wrapper_pair:
  "jose_laws J opens \<Longrightarrow> holds_a_key J opens ec dc \<Longrightarrow> wrapper_pair (jwe_key_wrapper J) ec dc"
  by (auto simp: wrapper_pair_def jwe_key_wrapper_def intro: jwe_wrap_then_unwrap)

lemma jwe_only_registry:
  assumes "feat_jwe F" and "registered_providers F config = []"
  shows "reg_annotations (crate_registry F J T config) = [(jwe_annotation_id, ''jwe'')]"
    and "get_key_wrapper (crate_registry F J T config) ''jwe'' = Inr (jwe_key_wrapper J)"
  using assms KEY_WRAPPERS_eq [of F config J T]
  by (simp_all add: crate_registry_annotations) (simp add: crate_registry_def Let_def get_key_wrapper_def)

definition demo_priv :: private_opts where
  "demo_priv = \<lparr>symmetric_key = replicate 32 (CHR ''k''), priv_cipher_options = [''nonce'' \<mapsto> replicate 16 (CHR ''k'')],
     priv_digest = ''sha256:0''\<rparr>"

definition demo_pub :: public_opts where
  "demo_pub = \<lparr>cipher_type = AES256CTR, pub_cipher_options = Map.empty, pub_hmac = CHR ''T'' # map flip_byte ''hi''\<rparr>"

lemmas layer_eval = cipher_eval encrypt_layer_def already_encrypted_None handler_new_def aes_new_def
  finalize_annotations_def wrap_step_def pre_wrap_key_def annos_or_default_def

theorem encrypt_decrypt_layer_witness:
  "\<exists>h1 lbco g1 ct h2 annos lbco' h3 h4.
     encrypt_layer (crate_registry demo_features demo_jose demo_transports None) (demo_codecs demo_priv demo_pub)
       demo_crypto demo_ec ''hi'' None ''sha256:0'' () = (Inr (Some h1, lbco), g1) \<and>
     read_to_end (handler_read demo_crypto slice_read) [1, 1, 1] [] h1 = Some (Inr ct, h2) \<and>
     finalize_annotations (crate_registry demo_features demo_jose demo_transports None)
       (demo_codecs demo_priv demo_pub) demo_ec None (Some (handler_finalized_lbco h2)) lbco = (Inr annos, lbco') \<and>
     decrypt_layer (crate_registry demo_features demo_jose demo_transports None) (demo_codecs demo_priv demo_pub)
       demo_crypto demo_dc ct (Some annos) False () = (Inr (Some h3, ''sha256:0''), ()) \<and>
     read_to_end (handler_read demo_crypto slice_read) [5, 5, 5, 5] [] h3 = Some (Inr ''hi'', h4)"
proof -
  let ?R = "crate_registry demo_features demo_jose demo_transports None"
  let ?K = "demo_codecs demo_priv demo_pub"
  let ?X = "encrypt_layer ?R ?K demo_crypto demo_ec ''hi'' None ''sha256:0'' ()"
  have R: "reg_annotations ?R = [(jwe_annotation_id, ''jwe'')]"
    "get_key_wrapper ?R ''jwe'' = Inr (jwe_key_wrapper demo_jose)"
    by (simp_all add: jwe_only_registry demo_features_def registered_providers_def)
  obtain h1 lbco g1 where X: "?X = (Inr (Some h1, lbco), g1)"
    and h1: "h1 = the (fst (projr (fst ?X)))" and lbco: "lbco = snd (projr (fst ?X))"
    by (simp add: layer_eval)
  obtain ct h2 where rd: "read_to_end (handler_read demo_crypto slice_read) [1, 1, 1] [] h1 = Some (Inr ct, h2)"
    and h2: "h2 = snd (the (read_to_end (handler_read demo_crypto slice_read) [1, 1, 1] [] h1))"
    and ct: "length ct = 2"
    by (simp add: layer_eval h1)
  have f: "handler_finalized_lbco h2 lbco = Inr \<lparr>lbco_public = demo_pub, lbco_private = demo_priv\<rparr>"
    by (simp add: layer_eval h2 h1 lbco demo_pub_def demo_priv_def)
  have w: "jwe_wrap_keys demo_jose demo_ec ''priv'' = Inr ''jwe:priv''"
    by (simp add: jwe_wrap_keys_def demo_ec_def jwe_encrypter_def jwe_key_from_def demo_jose_def
        utf8_valid_ascii is_ascii_str_def)
  obtain annos lbco' where fin: "finalize_annotations ?R ?K demo_ec None (Some (handler_finalized_lbco h2)) lbco = (Inr annos, lbco')"
    by (simp add: finalize_annotations_def f R wrap_step_def pre_wrap_key_def annos_or_default_def
        jwe_key_wrapper_def w demo_codecs_def hex_char_def)
  have "\<forall>(aid, scheme)\<in>set (reg_annotations ?R). \<forall>w. get_key_wrapper ?R scheme = Inr w \<longrightarrow> wrapper_pair w demo_ec demo_dc"
    using jwe_wrapper_pair [OF demo_jose_laws demo_holds_a_key] by (simp add: R)
  moreover have "\<exists>(aid, scheme)\<in>set (reg_annotations ?R). \<exists>w. get_key_wrapper ?R scheme = Inr w \<and> kw_probe w (dc_param demo_dc)"
    by (simp add: R jwe_key_wrapper_def jwe_probe_def demo_dc_def)
  moreover have "registry_wf ?R" by (simp add: crate_registry_wf registered_providers_def demo_features_def)
  ultimately have "\<exists>h3 h4. decrypt_layer ?R ?K demo_crypto demo_dc ct (Some annos) False () = (Inr (Some h3, ''sha256:0''), ()) \<and>
      read_to_end (handler_read demo_crypto slice_read) [5, 5, 5, 5] [] h3 = Some (Inr ''hi'', h4)"
    using encrypt_decrypt_layer [OF demo_crypto_laws demo_codecs_laws _ slice.byte_source_axioms _ X _ rd fin,
        of demo_dc "[5, 5, 5, 5]" "()"] by (simp add: ct)
  with X rd fin show ?thesis by blast
qed

text \<open>
  The asynchronous entry point, given the key options that were unwrapped beforehand, opens the
  layer exactly as the one-step entry point does: the same reader, digest and random state, and it
  succeeds in the same cases.
\<close>

lemma async_decrypt_layer_agrees:
  assumes "decrypt_layer_key_opts_data R K dc annotations = Inr priv_data"
  shows "decrypt_layer R K C dc src annotations False g = (Inr (Some h, digest), g') \<longleftrightarrow>
         async_decrypt_layer K C src annotations priv_data g = (Inr (h, digest), g')"
proof (cases "get_layer_pub_opts K (annos_or_default annotations)")
  case (Inr pub_data)
  then show ?thesis using assms
    by (cases "priv_from_json K priv_data"; cases "pub_from_json K pub_data")
       (auto simp: decrypt_layer_def async_decrypt_layer_def result_iff split: prod.splits)
qed (use assms in \<open>simp add: decrypt_layer_def async_decrypt_layer_def\<close>)


lemma async_decrypt_layer_agrees_witness:
  "\<exists>h. decrypt_layer \<lparr>reg_wrappers = [(''t'', tag_wrapper)], reg_annotations = [(''a'', ''t'')]\<rparr>
        (demo_codecs demo_priv demo_pub) demo_crypto demo_dc ''x''
        (Some [(''a'', concat (map hex_char ''wpriv'')), (PUBOPTS, concat (map hex_char ''pub''))]) False () =
        (Inr (Some h, ''sha256:0''), ())"
proof -
  let ?R = "\<lparr>reg_wrappers = [(''t'', tag_wrapper)], reg_annotations = [(''a'', ''t'')]\<rparr>"
  let ?K = "demo_codecs demo_priv demo_pub"
  let ?A = "Some [(''a'', concat (map hex_char ''wpriv'')), (PUBOPTS, concat (map hex_char ''pub''))]"
  have p: "get_layer_pub_opts ?K (annos_or_default ?A) = Inr ''pub''"
    using hex_decode_encode [of "''pub''"]
    by (simp add: get_layer_pub_opts_def annos_or_default_def demo_codecs_def PUBOPTS_def del: concat.simps list.map)
  have "unwrap_loop ?K tag_wrapper demo_dc [] [concat (map hex_char ''wpriv'')] = Inr ''priv''"
    using hex_decode_encode [of "''wpriv''"]
    by (simp add: demo_codecs_def tag_wrapper_def del: concat.simps list.map)
  moreover have "CHR '','' \<notin> set (concat (map hex_char ''wpriv''))"
    using hex_char_no_comma by auto
  moreover have "concat (map hex_char ''wpriv'') \<noteq> []" by (simp add: hex_char_def)
  ultimately have "pre_unwrap_key ?K tag_wrapper demo_dc (concat (map hex_char ''wpriv'')) = Inr ''priv''"
    by (simp add: pre_unwrap_key_def split_on_free del: concat.simps list.map)
  moreover have "kw_probe tag_wrapper m" for m by (simp add: tag_wrapper_def)
  ultimately have k: "decrypt_layer_key_opts_data ?R ?K demo_dc ?A = Inr ''priv''"
    by (simp add: decrypt_layer_key_opts_data_def get_layer_key_opts_def PROVIDER_PREFIX_def annos_or_default_def
        get_key_wrapper_def del: concat.simps list.map)
  have "\<exists>h. async_decrypt_layer ?K demo_crypto ''x'' ?A ''priv'' () = (Inr (h, ''sha256:0''), ())"
    unfolding async_decrypt_layer_def p
    by (simp add: demo_codecs_def open_layer_def cipher_eval handler_new_def aes_new_def demo_priv_def demo_pub_def)
  with async_decrypt_layer_agrees [OF k, of demo_crypto "''x''" "()"] show ?thesis by blast
qed

end
