(* ===== verification/Hub_Server.thy ===== *)
theory Hub_Server
  imports Data_Hub Ocicrypt_Encryption
begin

text \<open>
  \<open>confidential-data-hub/hub/src/bin/ttrpc_server\<close> and \<open>message\<close>: the RPC services of the data hub. Every
  error becomes a status with the code \<open>INTERNAL\<close> and a fixed message; the cause is only logged. The
  messages of the key provider protocol are those of \<open>coco_keyprovider/src/grpc/protocol\<close> too.
\<close>

section \<open>Messages\<close>

type_synonym parameters = "string \<rightharpoonup> string list"

record ec_message =
  em_parameters :: parameters
  em_decrypt_config :: parameters

record key_provider_input =
  kpi_op :: string
  kpi_ec :: "ec_message option"
  kpi_optsdata :: "string option"
  kpi_dc :: "parameters option"
  kpi_annotation :: "string option"

text \<open>The JSON of the protocol: requests, the two kinds of reply, and base64 in its standard alphabet.\<close>

record kp_json =
  kj_input :: "bytes \<Rightarrow> key_provider_input option"
  kj_wrap_output :: "bytes \<Rightarrow> string option"
  kj_unwrap_output :: "bytes \<Rightarrow> bytes option"
  kj_b64 :: "string \<Rightarrow> bytes option"

definition get_annotation :: "kp_json \<Rightarrow> key_provider_input \<Rightarrow> (string, bytes) result" where
  "get_annotation P input =
     and_then (ok_or ''no AnnotationPacket given'' (kpi_annotation input))
       (\<lambda>annotation_base64. ok_or ''base64'' (kj_b64 P annotation_base64))"

section \<open>Services\<close>

datatype rpc_code = INTERNAL | INVALID_ARGUMENT | ABORTED | UNIMPLEMENTED

datatype rpc_status = RpcStatus rpc_code string

definition server_unseal_secret ::
  "('w, 'b, 'sk, 'pt, 'rk) cdh_env \<Rightarrow> secret_codec \<Rightarrow> bytes \<Rightarrow> (('w, 'sk, 'rk) cdh_world, rpc_status, bytes) stateful" where
  "server_unseal_secret E J secret =
     st_map_err (\<lambda>_. RpcStatus INTERNAL ''[CDH] [ERROR]: Unseal Secret failed'') (hub_unseal_secret E J secret)"

definition server_get_resource ::
  "('w, 'b, 'sk, 'pt, 'rk) cdh_env \<Rightarrow> string \<Rightarrow> (('w, 'sk, 'rk) cdh_world, rpc_status, bytes) stateful" where
  "server_get_resource E path =
     st_map_err (\<lambda>_. RpcStatus INTERNAL ''[CDH] [ERROR]: Get Resource failed'') (hub_get_resource E path)"

definition server_un_wrap_key ::
  "('w, 'b, 'sk, 'pt, 'rk) cdh_env \<Rightarrow> kp_json \<Rightarrow> (bytes \<Rightarrow> annotation_packet_v2 option) \<Rightarrow> bytes \<Rightarrow>
    (('w, 'sk, 'rk) cdh_world, rpc_status, bytes) stateful" where
  "server_un_wrap_key E P from_json request =
     st_then (lift_result (ok_or (RpcStatus INTERNAL ''[ERROR] UnwrapKey Parse request failed'') (kj_input P request))) (\<lambda>input.
     st_then (lift_result (map_err (\<lambda>_. RpcStatus INTERNAL ''[ERROR] UnwrapKey Parse request failed'') (get_annotation P input)))
       (\<lambda>annotation_packet.
     st_then (st_map_err (\<lambda>_. RpcStatus INTERNAL ''[CDH] [ERROR]: UnwrapKey failed'') (hub_unwrap_key E from_json annotation_packet))
       (\<lambda>decrypted_optsdata.
      lift_result (ok_or (RpcStatus INTERNAL ''[CDH] [ERROR]: UnwrapKey serialize response failed'')
        (kj_unwrap_output P decrypted_optsdata)))))"

section \<open>Properties\<close>

text \<open>
  The two ends of the protocol agree on JSON and base64: the hub reads the annotation that ocicrypt
  put into a request, and ocicrypt reads the data that the hub put into a reply.
\<close>

definition protocol_law :: "transports \<Rightarrow> kp_json \<Rightarrow> bool" where
  "protocol_law T P \<longleftrightarrow>
     (\<forall>i b. ser_input T i = Some b \<longrightarrow> (\<exists>k. kj_input P b = Some k \<and>
        kpi_annotation k = kup_annotation (pi_key_unwrap_params i) \<and>
        kpi_optsdata k = kwp_opts_data (pi_key_wrap_params i))) \<and>
     (\<forall>b. kj_b64 P (b64_encode T b) = Some b) \<and>
     (\<forall>d b. kj_unwrap_output P d = Some b \<longrightarrow>
        (\<exists>out. de_output T b = Some out \<and> po_key_unwrap_results out = Some d))"

lemma server_unwraps:
  assumes "kj_input P request = Some k" and "kpi_annotation k = Some a" and "kj_b64 P a = Some packet"
    and "fst (hub_unwrap_key E from_json packet W) = Inr d" and "kj_unwrap_output P d = Some reply"
  shows "fst (server_un_wrap_key E P from_json request W) = Inr reply"
proof -
  obtain W' where "hub_unwrap_key E from_json packet W = (Inr d, W')" using assms(4) by (metis prod.collapse)
  then show ?thesis
    using assms by (simp add: server_un_wrap_key_def get_annotation_def st_then_def lift_result_def st_map_err_def)
qed

definition unwrap_request :: "decrypt_config \<Rightarrow> string \<Rightarrow> protocol_input" where
  "unwrap_request dc a = \<lparr>pi_op = op_key_str Unwrap, pi_key_wrap_params = \<lparr>kwp_ec = None, kwp_opts_data = None\<rparr>,
     pi_key_unwrap_params = \<lparr>kup_dc = Some dc, kup_annotation = Some a\<rparr>\<rparr>"

text \<open>
  The image side and the hub compose: what the hub unwraps from an annotation packet, the key provider
  wrapper of ocicrypt returns for that packet when it is configured with the ttrpc address of the hub.
\<close>

lemma ocicrypt_through_hub:
  assumes law: "protocol_law T P" and tt: "feat_ttrpc F" "ttrpc_connect T addr = Inr ()"
    and conf: "attr_cmd (kp_attrs w) = None" "attr_grpc (kp_attrs w) = None" "attr_ttrpc (kp_attrs w) = Some addr"
    and served: "\<And>b. ttrpc_call T Unwrap addr b = map_err (\<lambda>_. ''status'') (fst (server_un_wrap_key E P from_json b W))"
    and ser: "\<And>a. ser_input T (unwrap_request dc a) \<noteq> None" "\<And>d. kj_unwrap_output P d \<noteq> None"
    and packet: "utf8_valid packet" "fst (hub_unwrap_key E from_json packet W) = Inr d"
  shows "kp_unwrap_keys F T w dc packet = Inr d"
proof -
  obtain b reply where b: "ser_input T (unwrap_request dc (b64_encode T packet)) = Some b" and reply: "kj_unwrap_output P d = Some reply"
    using ser by (meson not_None_eq)
  obtain k where k: "kj_input P b = Some k" "kpi_annotation k = Some (b64_encode T packet)"
    using law b unfolding protocol_law_def unwrap_request_def by fastforce
  obtain out where out: "de_output T reply = Some out" "po_key_unwrap_results out = Some d"
    using law reply unfolding protocol_law_def by blast
  have "kj_b64 P (b64_encode T packet) = Some packet" using law by (simp add: protocol_law_def)
  from server_unwraps [OF k this packet(2) reply] have "ttrpc_call T Unwrap addr b = Inr reply"
    by (simp add: served)
  then show ?thesis
    using packet(1) conf tt b out
    by (simp add: kp_unwrap_keys_def unwrap_request_def from_utf8_def unwrap_key_ttrpc_def from_ttrpc_def)
qed

end
