(* ===== verification/Secret_Cli.thy ===== *)
theory Secret_Cli
  imports Data_Hub
begin

text \<open>
  \<open>confidential-data-hub/hub/src/bin/secret_cli.rs\<close>: the command that seals secrets outside the guest
  and unseals them for a test. Every \<open>expect\<close> of the program is an error value. The clients of the key
  management services that it can seal envelopes with are a parameter.
\<close>

section \<open>Operations\<close>

datatype cli_error =
    ReadFailed string
  | NoKmsProvider
  | EncryptionFailed crypto_error
  | KmsEncryptFailed string
  | ProviderSettingsMalformed
  | AnnotationsMalformed
  | SerializeFailed secret_error
  | ParseSecretFailed secret_error
  | KeyPathRequired
  | AaKbcParamsRequired
  | UnsealFailed secret_error
  | OutputExists string

datatype 'cmd type_args =
    EnvelopeCommand 'cmd string string
  | VaultCommand string string "string option" "string option"

type_synonym 'w encrypter = "bytes \<Rightarrow> string \<Rightarrow> ('w, string, bytes \<times> settings) stateful"

record ('w, 'cmd) cli_env =
  le_provider :: "'cmd \<Rightarrow> ('w encrypter \<times> settings \<times> string) option"
  le_b64_encode :: "bytes \<Rightarrow> string"
  le_settings :: "string \<Rightarrow> settings option"

text \<open>The arguments \<open>iv\<close> and \<open>key\<close> are the random bytes that the sealing of an envelope draws.\<close>

definition seal_envelope ::
  "('w, 'b, 'sk, 'pt, 'rk) cdh_env \<Rightarrow> ('w, 'cmd) cli_env \<Rightarrow> bytes \<Rightarrow> bytes \<Rightarrow> 'cmd \<Rightarrow> string \<Rightarrow> string \<Rightarrow>
    (('w, 'sk, 'rk) cdh_world, cli_error, secret_content) stateful" where
  "seal_envelope E L iv key cmd key_id file_path W =
     st_then (lift_result (ok_or (ReadFailed file_path) (cw_files W file_path))) (\<lambda>blob.
     st_then (lift_result (ok_or NoKmsProvider (le_provider L cmd))) (\<lambda>(encrypter, provider_settings, provider).
     st_then (lift_result (map_err EncryptionFailed (crypto_encrypt (ke_backend (ce_kbs E)) key blob iv Aes256Gcm)))
       (\<lambda>encrypted_data.
     st_then (st_map_err KmsEncryptFailed (on_network (encrypter key key_id))) (\<lambda>(encrypted_key, annotations).
      st_ok (Envelope \<lparr>es_key_id = key_id, es_encrypted_key = le_b64_encode L encrypted_key,
        es_encrypted_data = le_b64_encode L encrypted_data, es_wrap_type = Aes256Gcm,
        es_iv = le_b64_encode L iv, es_provider = provider, es_provider_settings = provider_settings,
        es_annotations = annotations\<rparr>))))) W"

definition optional_settings :: "('w, 'cmd) cli_env \<Rightarrow> cli_error \<Rightarrow> string option \<Rightarrow> (cli_error, settings) result" where
  "optional_settings L e s = (case s of None \<Rightarrow> Inr [] | Some t \<Rightarrow> ok_or e (le_settings L t))"

definition seal_vault ::
  "('w, 'cmd) cli_env \<Rightarrow> string \<Rightarrow> string \<Rightarrow> string option \<Rightarrow> string option \<Rightarrow> (cli_error, secret_content) result" where
  "seal_vault L resource_uri provider provider_settings annotations =
     and_then (optional_settings L ProviderSettingsMalformed provider_settings) (\<lambda>ps.
     and_then (optional_settings L AnnotationsMalformed annotations) (\<lambda>an.
      Inr (Vault \<lparr>vs_name = resource_uri, vs_provider = provider, vs_provider_settings = ps, vs_annotations = an\<rparr>)))"

definition seal_secret ::
  "('w, 'b, 'sk, 'pt, 'rk) cdh_env \<Rightarrow> ('w, 'cmd) cli_env \<Rightarrow> secret_codec \<Rightarrow> bytes \<Rightarrow> bytes \<Rightarrow> 'cmd type_args \<Rightarrow>
    (('w, 'sk, 'rk) cdh_world, cli_error, string) stateful" where
  "seal_secret E L J iv key args =
     st_then (case args of
         EnvelopeCommand cmd key_id file_path \<Rightarrow> seal_envelope E L iv key cmd key_id file_path
       | VaultCommand uri provider ps an \<Rightarrow> lift_result (seal_vault L uri provider ps an)) (\<lambda>sc.
      lift_result (map_err SerializeFailed
        (to_signed_base64_string J \<lparr>sec_version = SECRET_VERSION, sec_type = sc\<rparr>)))"

definition secret_provider :: "secret \<Rightarrow> string" where
  "secret_provider s = (case sec_type s of Envelope env \<Rightarrow> es_provider env | Vault v \<Rightarrow> vs_provider v)"

definition provider_env ::
  "string \<Rightarrow> string option \<Rightarrow> string option \<Rightarrow> (string \<rightharpoonup> string) \<Rightarrow> (cli_error, string \<rightharpoonup> string) result" where
  "provider_env provider key_path params env =
     (if provider = ''aliyun'' then
        and_then (ok_or KeyPathRequired key_path) (\<lambda>p. Inr (env(''ALIYUN_IN_GUEST_KEY_PATH'' \<mapsto> p)))
      else if provider = ''ehsm'' then
        and_then (ok_or KeyPathRequired key_path) (\<lambda>p. Inr (env(''EHSM_IN_GUEST_KEY_PATH'' \<mapsto> p)))
      else if provider = ''kbs'' then
        and_then (ok_or AaKbcParamsRequired params) (\<lambda>p. Inr (env(''AA_KBC_PARAMS'' \<mapsto> p)))
      else Inr env)"

definition cli_unseal_secret ::
  "('w, 'b, 'sk, 'pt, 'rk) cdh_env \<Rightarrow> secret_codec \<Rightarrow> string \<Rightarrow> string option \<Rightarrow> string option \<Rightarrow>
    (('w, 'sk, 'rk) cdh_world, cli_error, unit) stateful" where
  "cli_unseal_secret E J file_path key_path params W =
     st_then (lift_result (ok_or (ReadFailed file_path) (Option.bind (cw_files W file_path) from_utf8))) (\<lambda>secret_string.
     st_then (lift_result (map_err ParseSecretFailed (from_signed_base64_string J secret_string))) (\<lambda>secret.
     st_then (\<lambda>W. case provider_env (secret_provider secret) key_path params (cw_env W) of
         Inl e \<Rightarrow> (Inl e, W) | Inr env \<Rightarrow> (Inr (), W\<lparr>cw_env := env\<rparr>)) (\<lambda>_.
     st_then (st_map_err UnsealFailed (secret_unseal E secret)) (\<lambda>blob W.
       (let out = file_path @ ''.unsealed''
        in if cw_files W out \<noteq> None then (Inl (OutputExists out), W)
           else (Inr (), W\<lparr>cw_files := (cw_files W)(out \<mapsto> blob)\<rparr>)))))) W"

section \<open>Round trip\<close>

text \<open>
  What the codecs promise: JSON of a secret parses to it, base64 decodes what it encodes, and the URL
  alphabet of base64 is ASCII without a dot.
\<close>

definition codec_law :: "secret_codec \<Rightarrow> bool" where
  "codec_law J \<longleftrightarrow> (\<forall>s t. sc_to_json J s = Some t \<longrightarrow> sc_from_json J t = Some s) \<and>
     (\<forall>b. sc_b64url_decode J (sc_b64url_encode J b) = Some b) \<and>
     (\<forall>b. is_ascii_str (sc_b64url_encode J b) \<and> CHR ''.'' \<notin> set (sc_b64url_encode J b))"

text \<open>A secret is read from the third of four sections; the others, header and signature, are not looked at.\<close>

lemma sections_ignored:
  assumes "CHR ''.'' \<notin> set p" "CHR ''.'' \<notin> set h" "CHR ''.'' \<notin> set b" "CHR ''.'' \<notin> set sig"
  shows "from_signed_base64_string J (p @ ''.'' @ h @ ''.'' @ b @ ''.'' @ sig) =
    and_then (ok_or (ParseFailed ''base64 decode Secret body'') (sc_b64url_decode J b))
      (\<lambda>j. ok_or (ParseFailed ''json deserialization failed'') (sc_from_json J j))"
  using assms by (simp add: from_signed_base64_string_def split_on_append split_on_free)

lemma to_signed_form:
  "to_signed_base64_string J s = Inr t \<longleftrightarrow>
    (\<exists>j. sc_to_json J s = Some j \<and> t = ''sealed'' @ ''.'' @ ''fakejwsheader'' @ ''.'' @ sc_b64url_encode J j @ ''.'' @ ''fakesignature'')"
  by (auto simp: to_signed_base64_string_def result_iff)

lemma signed_roundtrip:
  assumes "codec_law J" and "to_signed_base64_string J s = Inr t"
  shows "from_signed_base64_string J t = Inr s \<and> is_ascii_str t"
proof -
  obtain j where j: "sc_to_json J s = Some j"
    and t: "t = ''sealed'' @ ''.'' @ ''fakejwsheader'' @ ''.'' @ sc_b64url_encode J j @ ''.'' @ ''fakesignature''"
    using assms(2) by (auto simp: to_signed_form)
  have "CHR ''.'' \<notin> set (sc_b64url_encode J j)" using assms(1) by (simp add: codec_law_def)
  then have "from_signed_base64_string J t = Inr s"
    unfolding t by (subst sections_ignored) (use assms(1) j in \<open>auto simp: codec_law_def\<close>)
  moreover have "is_ascii_str t"
    using assms(1) by (simp add: t codec_law_def is_ascii_str_def)
  ultimately show ?thesis by simp
qed

lemma unseal_signed:
  assumes "codec_law J" and "to_signed_base64_string J s = Inr t"
  shows "unseal_secret E J t = secret_unseal E s"
proof -
  have "utf8_valid t" using signed_roundtrip [OF assms] utf8_valid_ascii by blast
  then have "from_utf8 t = Some t" by (simp add: from_utf8_def)
  then show ?thesis
    using signed_roundtrip [OF assms] by (intro ext) (simp add: unseal_secret_def lift_result_def st_then_def)
qed

text \<open>
  A key management service that works: its driver can be created from the settings and decrypts what
  the encrypter of the same service returned, with the annotations it returned.
\<close>

definition kms_works :: "'w encrypter \<Rightarrow> 'w driver \<Rightarrow> settings \<Rightarrow> bool" where
  "kms_works enc d ps \<longleftrightarrow> (\<forall>w. fst (dr_new d ps w) = Inr ()) \<and>
     (\<forall>w key kid c an. fst (enc key kid w) = Inr (c, an) \<longrightarrow> (\<forall>w'. fst (dr_call d ps c kid an w') = Inr key))"

lemma on_network_fst: "fst (on_network m W) = fst (m (net_world (cw_net W)))"
  by (simp add: on_network_def split: prod.splits)

lemma envelope_unseals:
  assumes d: "ce_decryptors E (lower_str provider) = Some d" and kms: "kms_works enc d ps"
    and b64: "\<forall>b. ce_b64 E (le_b64_encode L b) = Some b"
    and enc: "fst (enc key kid w) = Inr (ek, an)"
    and dec: "crypto_decrypt (ke_backend (ce_kbs E)) key data iv Aes256Gcm = Inr blob"
  shows "fst (envelope_unseal E \<lparr>es_key_id = kid, es_encrypted_key = le_b64_encode L ek,
      es_encrypted_data = le_b64_encode L data, es_wrap_type = Aes256Gcm, es_iv = le_b64_encode L iv,
      es_provider = provider, es_provider_settings = ps, es_annotations = an\<rparr> W) = Inr blob"
proof -
  obtain W1 where new: "on_network (dr_new d ps) W = (Inr (), W1)"
    using kms on_network_fst [of "dr_new d ps" W] by (metis kms_works_def prod.collapse)
  obtain W2 where call: "on_network (dr_call d ps ek kid an) W1 = (Inr key, W2)"
    using kms enc on_network_fst [of "dr_call d ps ek kid an" W1] by (metis kms_works_def prod.collapse)
  show ?thesis
    using b64 d dec new call
    by (simp add: envelope_unseal_def lift_result_def st_then_def st_map_err_def new_decryptor_def kms_decrypt_def)
qed

lemma sealed_text_unseals:
  assumes codec: "codec_law J" and b64: "\<forall>b. ce_b64 E (le_b64_encode L b) = Some b"
    and laws: "gcm_correct S" "same_gcm S R" "appended_tag R" "same_ctr S R" "ke_backend (ce_kbs E) \<in> {Native S, Rust R}"
    and rnd: "length key = 32" "length iv = 12"
    and seal: "seal_secret E L J iv key args W = (Inr t, W')"
  shows "case args of
      EnvelopeCommand cmd key_id file_path \<Rightarrow>
        (\<forall>enc ps provider d V. le_provider L cmd = Some (enc, ps, provider) \<and>
           ce_decryptors E (lower_str provider) = Some d \<and> kms_works enc d ps \<longrightarrow>
           map_option Inr (cw_files W file_path) = Some (fst (hub_unseal_secret E J t V)))
    | VaultCommand uri provider ps an \<Rightarrow>
        (\<exists>ps' an'. optional_settings L ProviderSettingsMalformed ps = Inr ps' \<and>
           optional_settings L AnnotationsMalformed an = Inr an' \<and> (\<forall>V. hub_unseal_secret E J t V = st_map_err UnsealSecretFailed
           (vault_unseal E \<lparr>vs_name = uri, vs_provider = provider, vs_provider_settings = ps', vs_annotations = an'\<rparr>) V))"
proof -
  obtain sc W1 where content: "(case args of
         EnvelopeCommand cmd key_id file_path \<Rightarrow> seal_envelope E L iv key cmd key_id file_path
       | VaultCommand uri provider ps an \<Rightarrow> lift_result (seal_vault L uri provider ps an)) W = (Inr sc, W1)"
    and signed: "to_signed_base64_string J \<lparr>sec_version = SECRET_VERSION, sec_type = sc\<rparr> = Inr t"
    using seal by (auto simp: seal_secret_def result_iff)
  have hub: "hub_unseal_secret E J t = st_map_err UnsealSecretFailed
      (case sc of Envelope env \<Rightarrow> envelope_unseal E env | Vault v \<Rightarrow> vault_unseal E v)"
    using unseal_signed [OF codec signed, of E] by (simp add: hub_unseal_secret_def secret_unseal_def)
  show ?thesis
  proof (cases args)
    case (EnvelopeCommand cmd kid path)
    then obtain blob enc ps provider data ek an where run: "cw_files W path = Some blob"
      "le_provider L cmd = Some (enc, ps, provider)"
      "crypto_encrypt (ke_backend (ce_kbs E)) key blob iv Aes256Gcm = Inr data"
      "on_network (enc key kid) W = (Inr (ek, an), W1)"
      and sc: "sc = Envelope \<lparr>es_key_id = kid, es_encrypted_key = le_b64_encode L ek,
        es_encrypted_data = le_b64_encode L data, es_wrap_type = Aes256Gcm, es_iv = le_b64_encode L iv,
        es_provider = provider, es_provider_settings = ps, es_annotations = an\<rparr>"
      using content by (auto simp: seal_envelope_def result_iff)
    have enc: "fst (enc key kid (net_world (cw_net W))) = Inr (ek, an)"
      using run(4) on_network_fst [of "enc key kid" W] by simp
    have dec: "crypto_decrypt (ke_backend (ce_kbs E)) key data iv Aes256Gcm = Inr blob"
      by (rule crypto_decrypt_encrypt [OF laws(1-4) laws(5) laws(5) rnd(1) _ run(3)]) (simp add: rnd iv_length_def)
    have "fst (hub_unseal_secret E J t V) = Inr blob"
      if "ce_decryptors E (lower_str provider) = Some d" "kms_works enc d ps" for d V
      using envelope_unseals [of E provider d enc ps L, OF that b64 enc dec, of V]
      by (simp add: hub sc)
    then show ?thesis using EnvelopeCommand run(1,2) by auto
  next
    case (VaultCommand uri provider ps an)
    then show ?thesis using content by (auto simp: seal_vault_def result_iff hub)
  qed
qed

text \<open>
  A sealed secret can be unsealed: the token that the command line tool prints for an envelope, the
  data hub unseals to the content of the file that was sealed, whatever the state it is in, if the
  service decrypts the key it has encrypted; the token for a vault resource, the data hub unseals to
  what the provider returns for the resource.
\<close>

lemma sealed_secret_unseals:
  assumes codec: "codec_law J" and b64: "\<forall>b. ce_b64 E (le_b64_encode L b) = Some b"
    and laws: "gcm_correct S" "same_gcm S R" "appended_tag R" "same_ctr S R" "ke_backend (ce_kbs E) \<in> {Native S, Rust R}"
    and rnd: "length key = 32" "length iv = 12"
    and seal: "seal_secret E L J iv key args W = (Inr t, W')"
  shows "case args of
      EnvelopeCommand cmd key_id file_path \<Rightarrow>
        (\<forall>enc ps provider d V. le_provider L cmd = Some (enc, ps, provider) \<and>
           ce_decryptors E (lower_str provider) = Some d \<and> kms_works enc d ps \<longrightarrow>
           map_option Inr (cw_files W file_path) = Some (fst (hub_unseal_secret E J t V)))
    | VaultCommand uri provider ps an \<Rightarrow>
        (\<exists>ps' an'. optional_settings L ProviderSettingsMalformed ps = Inr ps' \<and>
           optional_settings L AnnotationsMalformed an = Inr an' \<and> (\<forall>V. hub_unseal_secret E J t V = st_map_err UnsealSecretFailed
           (vault_unseal E \<lparr>vs_name = uri, vs_provider = provider, vs_provider_settings = ps', vs_annotations = an'\<rparr>) V))"
  using assms by (rule sealed_text_unseals)

section \<open>A concrete secret\<close>

text \<open>A service that returns keys as they are, in the place of the cipher text.\<close>

definition demo_driver :: "nat driver" where
  "demo_driver = \<lparr>dr_new = (\<lambda>_. st_ok ()), dr_call = (\<lambda>_ c _ _. st_ok c)\<rparr>"

definition demo_hub :: "(nat, string, nat, nat, nat) cdh_env" where
  "demo_hub = demo_cdh\<lparr>ce_decryptors := [''ehsm'' \<mapsto> demo_driver]\<rparr>"

definition demo_cli :: "(nat, unit) cli_env" where
  "demo_cli = \<lparr>le_provider = (\<lambda>_. Some (\<lambda>key _. st_ok (key, []), [], ''ehsm'')), le_b64_encode = (\<lambda>b. b), le_settings = (\<lambda>_. None)\<rparr>"

definition demo_secret_of :: "bytes \<Rightarrow> secret" where
  "demo_secret_of data = \<lparr>sec_version = SECRET_VERSION, sec_type = Envelope
     \<lparr>es_key_id = ''kid'', es_encrypted_key = replicate 32 (CHR ''k''), es_encrypted_data = data,
       es_wrap_type = Aes256Gcm, es_iv = replicate 12 (CHR ''i''), es_provider = ''ehsm'',
       es_provider_settings = [], es_annotations = []\<rparr>\<rparr>"

definition demo_sealed :: secret where
  "demo_sealed = demo_secret_of (''secret'' @ replicate 16 (CHR ''k''))"

definition demo_secret_codec :: secret_codec where
  "demo_secret_codec = \<lparr>sc_b64url_encode = (\<lambda>b. concat (map hex_char b)),
     sc_b64url_decode = (\<lambda>s. case hex_decode s of Inl _ \<Rightarrow> None | Inr b \<Rightarrow> Some b),
     sc_to_json = (\<lambda>s. if s = demo_sealed then Some ''{}'' else None), sc_from_json = (\<lambda>_. Some demo_sealed)\<rparr>"

lemma demo_codec_law: "codec_law demo_secret_codec"
  using hex_char_free [of "CHR ''.''"]
  by (auto simp: codec_law_def demo_secret_codec_def hex_decode_encode hex_encode_ascii split: if_splits)

lemma demo_seal:
  "fst (seal_secret demo_hub demo_cli demo_secret_codec (replicate 12 (CHR ''i'')) (replicate 32 (CHR ''k''))
     (EnvelopeCommand () ''kid'' KEYS_PATH) demo_world) = Inr (''sealed.fakejwsheader.'' @ concat (map hex_char ''{}'') @ ''.fakesignature'')"
  by (simp add: seal_secret_def seal_envelope_def st_then_def lift_result_def st_map_err_def on_network_def
      demo_hub_def demo_cdh_def demo_kbs_def demo_cli_def demo_world_def rust_gcm_encrypt_def array_from_slice_def
      demo_rc_def vec_resize_def to_signed_base64_string_def demo_secret_codec_def demo_sealed_def demo_secret_of_def
      del: concat.simps list.map)

definition demo_sealed_token :: string where
  "demo_sealed_token = ''sealed.fakejwsheader.'' @ concat (map hex_char ''{}'') @ ''.fakesignature''"

lemma sealed_secret_unseals_witness:
  "fst (hub_unseal_secret demo_hub demo_secret_codec demo_sealed_token demo_world) = Inr ''secret''"
proof -
  let ?k = "replicate 32 (CHR ''k'')" and ?iv = "replicate 12 (CHR ''i'')" and ?args = "EnvelopeCommand () ''kid'' KEYS_PATH"
  obtain W' where seal: "seal_secret demo_hub demo_cli demo_secret_codec ?iv ?k ?args demo_world = (Inr demo_sealed_token, W')"
    using demo_seal unfolding demo_sealed_token_def by (metis prod.collapse)
  have b64: "\<forall>b. ce_b64 demo_hub (le_b64_encode demo_cli b) = Some b"
    and backend: "ke_backend (ce_kbs demo_hub) \<in> {Native demo_ossl, Rust demo_rc}"
    by (simp_all add: demo_hub_def demo_cdh_def demo_cli_def demo_kbs_def)
  have "kms_works (\<lambda>key _. st_ok (key, [])) demo_driver []"
    by (simp add: kms_works_def demo_driver_def)
  moreover have "le_provider demo_cli () = Some (\<lambda>key _. st_ok (key, []), [], ''ehsm'')"
    and "ce_decryptors demo_hub (lower_str ''ehsm'') = Some demo_driver"
    and "cw_files demo_world KEYS_PATH = Some ''secret''"
    by (simp_all add: demo_cli_def demo_hub_def lower_str_def to_lower_def demo_world_def)
  ultimately show ?thesis
    using sealed_secret_unseals [OF demo_codec_law b64 demo_laws(1-4) backend _ _ seal] by simp
qed

end
