(* ===== verification/Secure_Mount.thy ===== *)
theory Secure_Mount
  imports Secret_Cli Hub_Server
begin

text \<open>
  \<open>confidential-data-hub/hub/src/storage\<close>: the volumes that the hub mounts. A LUKS block device is
  opened by a helper that reads the key from a file; a bucket of Aliyun OSS is mounted by \<open>ossfs\<close> and, if
  it is encrypted, decrypted by \<open>gocryptfs\<close>. Secrets in the options are unsealed by the hub itself. The
  helpers, random numbers, temporary directories and I/O failures are parameters; an operation on a file
  that fails has no effect.
\<close>

section \<open>The world\<close>

datatype volume_error =
    GetKeysFailure string
  | GetPlaintextParameter string
  | GocryptfsMountFailed
  | OssfsMountFailed
  | BlockDeviceMountFailed
  | VolumeIo string
  | VolumeSerde string
  | StorageTypeNotRecognized

text \<open>Files with their contents and modes.\<close>

type_synonym volume_files = "string \<rightharpoonup> bytes \<times> nat"

record ('x, 'w, 'sk, 'rk) volume_world =
  vw_hub :: "('w, 'sk, 'rk) cdh_world"
  vw_files :: volume_files
  vw_kernel :: 'x

datatype run_result = ForkFailed | WaitFailed string | Exited bool

text \<open>
  \<open>vl_io\<close> is the failure of an operation on a path, if it fails; \<open>vl_run\<close> runs a command with its arguments
  on the files; \<open>vl_name\<close> draws an alphanumeric name.
\<close>

record 'x volume_os =
  vl_io :: "string \<Rightarrow> string \<Rightarrow> 'x \<Rightarrow> string option"
  vl_random :: "nat \<Rightarrow> 'x \<Rightarrow> bytes \<times> 'x"
  vl_name :: "nat \<Rightarrow> 'x \<Rightarrow> string \<times> 'x"
  vl_tempdir :: "('x, string, string) stateful"
  vl_run :: "string \<Rightarrow> string list \<Rightarrow> volume_files \<times> 'x \<Rightarrow> run_result \<times> volume_files \<times> 'x"
  vl_umode :: nat

type_synonym ('x, 'w, 'sk, 'rk, 'a) volume_op = "(('x, 'w, 'sk, 'rk) volume_world, volume_error, 'a) stateful"

definition on_hub :: "(('w, 'sk, 'rk) cdh_world, 'e, 'a) stateful \<Rightarrow> (('x, 'w, 'sk, 'rk) volume_world, 'e, 'a) stateful" where
  "on_hub m V = (case m (vw_hub V) of (r, W) \<Rightarrow> (r, V\<lparr>vw_hub := W\<rparr>))"

definition on_kernel :: "('x, 'e, 'a) stateful \<Rightarrow> (('x, 'w, 'sk, 'rk) volume_world, 'e, 'a) stateful" where
  "on_kernel m V = (case m (vw_kernel V) of (r, k) \<Rightarrow> (r, V\<lparr>vw_kernel := k\<rparr>))"

definition draw :: "('x \<Rightarrow> 'a \<times> 'x) \<Rightarrow> ('x, 'w, 'sk, 'rk, 'a) volume_op" where
  "draw f = on_kernel (\<lambda>k. case f k of (a, k') \<Rightarrow> (Inr a, k'))"

definition file_op :: "'x volume_os \<Rightarrow> string \<Rightarrow> string \<Rightarrow> (volume_files \<Rightarrow> volume_files) \<Rightarrow> ('x, 'w, 'sk, 'rk, unit) volume_op" where
  "file_op S what path f V =
     (case vl_io S what path (vw_kernel V) of
        Some e \<Rightarrow> (Inl (VolumeIo e), V) | None \<Rightarrow> (Inr (), V\<lparr>vw_files := f (vw_files V)\<rparr>))"

definition create_file :: "'x volume_os \<Rightarrow> string \<Rightarrow> ('x, 'w, 'sk, 'rk, unit) volume_op" where
  "create_file S path =
     file_op S ''create'' path (\<lambda>fs. fs(path \<mapsto> ([], (case fs path of Some (_, mode) \<Rightarrow> mode | None \<Rightarrow> vl_umode S))))"

definition set_mode :: "'x volume_os \<Rightarrow> string \<Rightarrow> nat \<Rightarrow> ('x, 'w, 'sk, 'rk, unit) volume_op" where
  "set_mode S path mode =
     file_op S ''chmod'' path (\<lambda>fs. case fs path of Some (c, _) \<Rightarrow> fs(path \<mapsto> (c, mode)) | None \<Rightarrow> fs)"

definition write_file :: "'x volume_os \<Rightarrow> string \<Rightarrow> bytes \<Rightarrow> ('x, 'w, 'sk, 'rk, unit) volume_op" where
  "write_file S path data =
     file_op S ''write'' path (\<lambda>fs. case fs path of Some (c, mode) \<Rightarrow> fs(path \<mapsto> (c @ data, mode)) | None \<Rightarrow> fs)"

definition sync_file :: "'x volume_os \<Rightarrow> string \<Rightarrow> ('x, 'w, 'sk, 'rk, unit) volume_op" where
  "sync_file S path = file_op S ''sync'' path (\<lambda>fs. fs)"

text \<open>Spawn a command, wait for it and look at its exit status.\<close>

definition helper_command :: "'x volume_os \<Rightarrow> volume_error \<Rightarrow> string \<Rightarrow> string list \<Rightarrow> ('x, 'w, 'sk, 'rk, unit) volume_op" where
  "helper_command S failure cmd args V =
     (case vl_run S cmd args (vw_files V, vw_kernel V) of
        (res, fs, k) \<Rightarrow>
          ((case res of ForkFailed \<Rightarrow> Inl failure | WaitFailed e \<Rightarrow> Inl (VolumeIo e)
            | Exited success \<Rightarrow> if success then Inr () else Inl failure), V\<lparr>vw_files := fs, vw_kernel := k\<rparr>))"

section \<open>Options\<close>

text \<open>
  The options are written as a JSON object of strings and read back as a structure: a field that is
  missing is an error unless it has a default or is optional, and unknown fields are ignored.
\<close>

definition required :: "(string \<rightharpoonup> string) \<Rightarrow> string \<Rightarrow> (volume_error, string) result" where
  "required options name = ok_or (VolumeSerde name) (options name)"

definition defaulted :: "(string \<rightharpoonup> string) \<Rightarrow> string \<Rightarrow> string" where
  "defaulted options name = (case options name of Some v \<Rightarrow> v | None \<Rightarrow> [])"

datatype encrypt_type = LUKS

definition parse_encrypt_type :: "string \<Rightarrow> (volume_error, encrypt_type) result" where
  "parse_encrypt_type s = (if s = ''LUKS'' then Inr LUKS else Inl (VolumeSerde ''encryptType''))"

record block_device_parameters =
  bp_device_id :: string
  bp_encryption_type :: encrypt_type
  bp_encryption_key :: "string option"
  bp_data_integrity :: string

definition block_device_of_options :: "(string \<rightharpoonup> string) \<Rightarrow> (volume_error, block_device_parameters) result" where
  "block_device_of_options options =
     and_then (required options ''deviceId'') (\<lambda>device_id.
     and_then (and_then (required options ''encryptType'') parse_encrypt_type) (\<lambda>encryption_type.
     and_then (required options ''dataIntegrity'') (\<lambda>data_integrity.
       Inr \<lparr>bp_device_id = device_id, bp_encryption_type = encryption_type,
            bp_encryption_key = options ''encryptKey'', bp_data_integrity = data_integrity\<rparr>)))"

record oss_parameters =
  op_ak_id :: string
  op_ak_secret :: string
  op_annotations :: string
  op_bucket :: string
  op_encrypted :: string
  op_enc_passwd :: string
  op_kms_key_id :: string
  op_other_opts :: string
  op_path :: string
  op_readonly :: string
  op_target_path :: string
  op_url :: string
  op_volume_id :: string

definition oss_of_options :: "(string \<rightharpoonup> string) \<Rightarrow> (volume_error, oss_parameters) result" where
  "oss_of_options options =
     and_then (required options ''akId'') (\<lambda>ak_id.
     and_then (required options ''akSecret'') (\<lambda>ak_secret.
     and_then (required options ''bucket'') (\<lambda>bucket.
     and_then (required options ''otherOpts'') (\<lambda>other_opts.
     and_then (required options ''path'') (\<lambda>path.
     and_then (required options ''readonly'') (\<lambda>readonly.
     and_then (required options ''targetPath'') (\<lambda>target_path.
     and_then (required options ''url'') (\<lambda>url.
     and_then (required options ''volumeId'') (\<lambda>volume_id.
       Inr \<lparr>op_ak_id = ak_id, op_ak_secret = ak_secret, op_annotations = defaulted options ''annotations'',
            op_bucket = bucket, op_encrypted = defaulted options ''encrypted'', op_enc_passwd = defaulted options ''encPasswd'',
            op_kms_key_id = defaulted options ''kmsKeyId'', op_other_opts = other_opts, op_path = path,
            op_readonly = readonly, op_target_path = target_path, op_url = url, op_volume_id = volume_id\<rparr>)))))))))"

section \<open>Block devices\<close>

definition LUKS_ENCRYPT_STORAGE_BIN :: string where
  "LUKS_ENCRYPT_STORAGE_BIN = ''/usr/local/bin/luks-encrypt-storage''"

definition get_plaintext_key ::
  "('w, 'b, 'sk, 'pt, 'rk) cdh_env \<Rightarrow> secret_codec \<Rightarrow> string \<Rightarrow> (('w, 'sk, 'rk) cdh_world, volume_error, bytes) stateful" where
  "get_plaintext_key E J resource =
     (if starts_with ''sealed.'' resource
      then st_map_err (\<lambda>_. GetKeysFailure ''unseal'') (unseal_secret E J resource)
      else if starts_with ''kbs://'' resource
      then st_map_err (\<lambda>_. GetKeysFailure ''kbs'')
             (st_then (new_getter E ''kbs'' []) (\<lambda>getter. get_secret E getter resource []))
      else st_err (GetKeysFailure ''unknown resource scheme''))"

definition random_encrypt_key :: "'x volume_os \<Rightarrow> ('x, 'w, 'sk, 'rk, bytes) volume_op" where
  "random_encrypt_key S = draw (vl_random S 4096)"

definition plain_storage_key ::
  "('w, 'b, 'sk, 'pt, 'rk) cdh_env \<Rightarrow> secret_codec \<Rightarrow> 'x volume_os \<Rightarrow> string option \<Rightarrow> ('x, 'w, 'sk, 'rk, bytes) volume_op" where
  "plain_storage_key E J S encrypt_key =
     (case encrypt_key of
        Some encrypt_key \<Rightarrow> on_hub (get_plaintext_key E J encrypt_key) | None \<Rightarrow> random_encrypt_key S)"

text \<open>Every error of this function is converted by way of \<open>anyhow\<close> into a failure to get the keys.\<close>

definition create_storage_key_file ::
  "('w, 'b, 'sk, 'pt, 'rk) cdh_env \<Rightarrow> secret_codec \<Rightarrow> 'x volume_os \<Rightarrow> string \<Rightarrow> string option \<Rightarrow> ('x, 'w, 'sk, 'rk, unit) volume_op" where
  "create_storage_key_file E J S storage_key_path encrypt_key =
     st_map_err (\<lambda>_. GetKeysFailure ''key file'')
       (st_then (create_file S storage_key_path) (\<lambda>_.
        st_then (plain_storage_key E J S encrypt_key) (\<lambda>plain_key.
        st_then (write_file S storage_key_path plain_key) (\<lambda>_.
          sync_file S storage_key_path))))"

definition luks_arguments :: "block_device_parameters \<Rightarrow> string \<Rightarrow> string \<Rightarrow> string list" where
  "luks_arguments p mount_point storage_key_path =
     [bp_device_id p, (case bp_encryption_key p of None \<Rightarrow> ''false'' | Some _ \<Rightarrow> ''true''), mount_point, storage_key_path,
      bp_data_integrity p]"

definition secure_device_mount ::
  "('w, 'b, 'sk, 'pt, 'rk) cdh_env \<Rightarrow> secret_codec \<Rightarrow> 'x volume_os \<Rightarrow> block_device_parameters \<Rightarrow> string \<Rightarrow> ('x, 'w, 'sk, 'rk, unit) volume_op" where
  "secure_device_mount E J S p mount_point =
     st_then (draw (vl_name S 5)) (\<lambda>random_string.
     st_then (create_storage_key_file E J S (''/tmp/encrypted_storage_key_'' @ random_string) (bp_encryption_key p)) (\<lambda>_.
       helper_command S BlockDeviceMountFailed LUKS_ENCRYPT_STORAGE_BIN
         (luks_arguments p mount_point (''/tmp/encrypted_storage_key_'' @ random_string))))"

definition block_device_mount ::
  "('w, 'b, 'sk, 'pt, 'rk) cdh_env \<Rightarrow> secret_codec \<Rightarrow> 'x volume_os \<Rightarrow> (string \<rightharpoonup> string) \<Rightarrow> string \<Rightarrow> ('x, 'w, 'sk, 'rk, unit) volume_op" where
  "block_device_mount E J S options mount_point =
     st_then (lift_result (block_device_of_options options)) (\<lambda>bd_parameter.
       case bp_encryption_type bd_parameter of LUKS \<Rightarrow> secure_device_mount E J S bd_parameter mount_point)"

section \<open>Aliyun OSS\<close>

definition OSSFS_PASSWD_FILE :: string where "OSSFS_PASSWD_FILE = ''ossfs_passwd''"
definition GOCRYPTFS_PASSWD_FILE :: string where "GOCRYPTFS_PASSWD_FILE = ''gocryptfs_passwd''"
definition OSSFS_BIN :: string where "OSSFS_BIN = ''/usr/local/bin/ossfs''"
definition GOCRYPTFS_BIN :: string where "GOCRYPTFS_BIN = ''/usr/local/bin/gocryptfs''"

definition get_plaintext_secret ::
  "('w, 'b, 'sk, 'pt, 'rk) cdh_env \<Rightarrow> secret_codec \<Rightarrow> string \<Rightarrow> (('w, 'sk, 'rk) cdh_world, volume_error, string) stateful" where
  "get_plaintext_secret E J secret =
     (if starts_with ''sealed.'' secret
      then st_then (st_map_err (\<lambda>_. GetPlaintextParameter ''unseal'') (unseal_secret E J secret)) (\<lambda>unsealed.
             lift_result (ok_or (GetPlaintextParameter ''convert to String failed'') (from_utf8 unsealed)))
      else st_ok secret)"

definition create_random_dir :: "'x volume_os \<Rightarrow> ('x, 'w, 'sk, 'rk, string) volume_op" where
  "create_random_dir S =
     st_then (draw (vl_name S 10)) (\<lambda>name.
     st_then (st_map_err (\<lambda>_. GetPlaintextParameter ''create /tmp dir'')
         (file_op S ''mkdir'' (''/tmp/'' @ name) (\<lambda>fs. fs))) (\<lambda>_. st_ok (''/tmp/'' @ name)))"

text \<open>\<open>split_whitespace\<close>.\<close>

fun split_words :: "string list \<Rightarrow> string \<Rightarrow> string list" where
  "split_words [] word = (if word = [] then [] else [word])"
| "split_words (c # cs) word =
     (if is_unicode_ws c then (if word = [] then split_words cs [] else word # split_words cs [])
      else split_words cs (word @ c))"

definition split_whitespace :: "string \<Rightarrow> string list" where
  "split_whitespace s = split_words (utf8_chars s) []"

text \<open>A temporary directory is removed with its files when the operation that made it has ended.\<close>

definition remove_below :: "string \<Rightarrow> volume_files \<Rightarrow> volume_files" where
  "remove_below dir fs = (\<lambda>path. if starts_with (dir @ ''/'') path then None else fs path)"

definition with_tempdir :: "'x volume_os \<Rightarrow> (string \<Rightarrow> ('x, 'w, 'sk, 'rk, 'a) volume_op) \<Rightarrow> ('x, 'w, 'sk, 'rk, 'a) volume_op" where
  "with_tempdir S body =
     st_then (st_map_err VolumeIo (on_kernel (vl_tempdir S))) (\<lambda>dir V.
       (case body dir V of (r, V') \<Rightarrow> (r, V'\<lparr>vw_files := remove_below dir (vw_files V')\<rparr>)))"

text \<open>The mode \<open>0o600\<close>.\<close>

definition owner_only :: nat where "owner_only = 6 * 8 * 8"

definition write_ossfs_passwd :: "'x volume_os \<Rightarrow> string \<Rightarrow> bytes \<Rightarrow> ('x, 'w, 'sk, 'rk, unit) volume_op" where
  "write_ossfs_passwd S path content =
     st_then (create_file S path) (\<lambda>_. st_then (set_mode S path owner_only) (\<lambda>_.
     st_then (write_file S path content) (\<lambda>_. sync_file S path)))"

definition write_gocryptfs_passwd :: "'x volume_os \<Rightarrow> string \<Rightarrow> bytes \<Rightarrow> ('x, 'w, 'sk, 'rk, unit) volume_op" where
  "write_gocryptfs_passwd S path content =
     st_then (create_file S path) (\<lambda>_. st_then (write_file S path content) (\<lambda>_. sync_file S path))"

definition ossfs_arguments :: "oss_parameters \<Rightarrow> string \<Rightarrow> string \<Rightarrow> string list" where
  "ossfs_arguments p target ossfs_passwd_path =
     [op_bucket p @ '':'' @ op_path p, target, ''-ourl='' @ op_url p, ''-opasswd_file='' @ ossfs_passwd_path]
       @ split_whitespace (op_other_opts p)"

definition mount_gocryptfs ::
  "('w, 'b, 'sk, 'pt, 'rk) cdh_env \<Rightarrow> secret_codec \<Rightarrow> 'x volume_os \<Rightarrow> oss_parameters \<Rightarrow> string \<Rightarrow> string \<Rightarrow> string \<Rightarrow> ('x, 'w, 'sk, 'rk, unit) volume_op" where
  "mount_gocryptfs E J S p dir ossfs_passwd_path mount_point =
     st_then (create_random_dir S) (\<lambda>gocryptfs_dir.
     st_then (helper_command S OssfsMountFailed OSSFS_BIN (ossfs_arguments p gocryptfs_dir ossfs_passwd_path)) (\<lambda>_.
     st_then (on_hub (get_plaintext_secret E J (op_enc_passwd p))) (\<lambda>plain_passwd.
     st_then (write_gocryptfs_passwd S (dir @ ''/'' @ GOCRYPTFS_PASSWD_FILE) plain_passwd) (\<lambda>_.
       helper_command S GocryptfsMountFailed GOCRYPTFS_BIN
         [gocryptfs_dir, mount_point, ''-passfile'', dir @ ''/'' @ GOCRYPTFS_PASSWD_FILE, ''-nosyslog'']))))"

definition oss_with_passwd ::
  "('w, 'b, 'sk, 'pt, 'rk) cdh_env \<Rightarrow> secret_codec \<Rightarrow> 'x volume_os \<Rightarrow> oss_parameters \<Rightarrow> string \<Rightarrow> bytes \<Rightarrow> string \<Rightarrow> ('x, 'w, 'sk, 'rk, unit) volume_op" where
  "oss_with_passwd E J S p mount_point content dir =
     st_then (write_ossfs_passwd S (dir @ ''/'' @ OSSFS_PASSWD_FILE) content) (\<lambda>_.
       if op_encrypted p = ''gocryptfs'' then mount_gocryptfs E J S p dir (dir @ ''/'' @ OSSFS_PASSWD_FILE) mount_point
       else helper_command S OssfsMountFailed OSSFS_BIN (ossfs_arguments p mount_point (dir @ ''/'' @ OSSFS_PASSWD_FILE)))"

definition oss_mount ::
  "('w, 'b, 'sk, 'pt, 'rk) cdh_env \<Rightarrow> secret_codec \<Rightarrow> 'x volume_os \<Rightarrow> (string \<rightharpoonup> string) \<Rightarrow> string \<Rightarrow> ('x, 'w, 'sk, 'rk, unit) volume_op" where
  "oss_mount E J S options mount_point =
     st_then (lift_result (oss_of_options options)) (\<lambda>p.
     st_then (on_hub (get_plaintext_secret E J (op_ak_id p))) (\<lambda>plain_ak_id.
     st_then (on_hub (get_plaintext_secret E J (op_ak_secret p))) (\<lambda>plain_ak_secret.
     with_tempdir S (oss_with_passwd E J S p mount_point (op_bucket p @ '':'' @ plain_ak_id @ '':'' @ plain_ak_secret)))))"

section \<open>Volumes\<close>

datatype volume = AliOss | BlockDevice

record storage =
  st_volume_type :: string
  st_options :: "string \<rightharpoonup> string"
  st_flags :: "string list"
  st_mount_point :: string

definition volume_from_str :: "bool \<Rightarrow> string \<Rightarrow> (volume_error, volume) result" where
  "volume_from_str aliyun s =
     (if aliyun \<and> s = ''alibaba-cloud-oss'' then Inr AliOss
      else if s = ''BlockDevice'' then Inr BlockDevice else Inl StorageTypeNotRecognized)"

text \<open>The first argument tells whether the feature \<open>aliyun\<close> is built.\<close>

definition storage_mount ::
  "bool \<Rightarrow> ('w, 'b, 'sk, 'pt, 'rk) cdh_env \<Rightarrow> secret_codec \<Rightarrow> 'x volume_os \<Rightarrow> storage \<Rightarrow> ('x, 'w, 'sk, 'rk, string) volume_op" where
  "storage_mount aliyun E J S s =
     st_then (lift_result (volume_from_str aliyun (st_volume_type s))) (\<lambda>volume_type.
     st_then (case volume_type of
                AliOss \<Rightarrow> oss_mount E J S (st_options s) (st_mount_point s)
              | BlockDevice \<Rightarrow> block_device_mount E J S (st_options s) (st_mount_point s)) (\<lambda>_.
       st_ok (st_mount_point s)))"

definition hub_secure_mount ::
  "bool \<Rightarrow> ('w, 'b, 'sk, 'pt, 'rk) cdh_env \<Rightarrow> secret_codec \<Rightarrow> 'x volume_os \<Rightarrow> storage \<Rightarrow> ('x, 'w, 'sk, 'rk, string) volume_op" where
  "hub_secure_mount = storage_mount"

definition server_secure_mount ::
  "bool \<Rightarrow> ('w, 'b, 'sk, 'pt, 'rk) cdh_env \<Rightarrow> secret_codec \<Rightarrow> 'x volume_os \<Rightarrow> string \<Rightarrow> (string \<rightharpoonup> string) \<Rightarrow> string list \<Rightarrow> string \<Rightarrow>
    (('x, 'w, 'sk, 'rk) volume_world, rpc_status, string) stateful" where
  "server_secure_mount aliyun E J S volume_type options flags mount_point =
     st_map_err (\<lambda>_. RpcStatus INTERNAL ''[CDH] [ERROR]: secure mount failed'')
       (hub_secure_mount aliyun E J S
         \<lparr>st_volume_type = volume_type, st_options = options, st_flags = flags, st_mount_point = mount_point\<rparr>)"

section \<open>Block devices\<close>

lemma on_hub_iff [result_iff]:
  "on_hub m V = (r, V') \<longleftrightarrow> (\<exists>W. m (vw_hub V) = (r, W) \<and> V' = V\<lparr>vw_hub := W\<rparr>)"
  by (auto simp: on_hub_def split: prod.splits)

lemma on_kernel_iff [result_iff]:
  "on_kernel m V = (r, V') \<longleftrightarrow> (\<exists>k. m (vw_kernel V) = (r, k) \<and> V' = V\<lparr>vw_kernel := k\<rparr>)"
  by (auto simp: on_kernel_def split: prod.splits)

lemma draw_iff [result_iff]:
  "draw f V = (r, V') \<longleftrightarrow> (\<exists>a k. f (vw_kernel V) = (a, k) \<and> r = Inr a \<and> V' = V\<lparr>vw_kernel := k\<rparr>)"
  by (auto simp: draw_def result_iff split: prod.splits)

lemma file_op_iff [result_iff]:
  "file_op S what path f V = (Inr u, V') \<longleftrightarrow>
     vl_io S what path (vw_kernel V) = None \<and> V' = V\<lparr>vw_files := f (vw_files V)\<rparr>"
  by (auto simp: file_op_def split: option.splits)

lemmas file_defs = create_file_def set_mode_def write_file_def sync_file_def

lemma run_command_iff [result_iff]:
  "helper_command S failure cmd args V = (Inr u, V') \<longleftrightarrow>
     (\<exists>fs k. vl_run S cmd args (vw_files V, vw_kernel V) = (Exited True, fs, k) \<and> V' = V\<lparr>vw_files := fs, vw_kernel := k\<rparr>)"
  by (auto simp: helper_command_def split: prod.splits run_result.splits)

lemma plain_storage_key_files:
  "plain_storage_key E J S key V = (Inr k, V') \<Longrightarrow> vw_files V' = vw_files V"
  by (auto simp: plain_storage_key_def random_encrypt_key_def result_iff split: option.splits)

lemma key_file_written:
  assumes "create_storage_key_file E J S path key V = (Inr (), V')"
  shows "\<exists>k V1 V2 mode. plain_storage_key E J S key V1 = (Inr k, V2) \<and> vw_hub V1 = vw_hub V \<and> vw_kernel V1 = vw_kernel V \<and>
    vw_files V' path = Some (k, mode)"
proof -
  obtain V1 k V2 V3 where steps: "create_file S path V = (Inr (), V1)" "plain_storage_key E J S key V1 = (Inr k, V2)"
    "write_file S path k V2 = (Inr (), V3)" "sync_file S path V3 = (Inr (), V')"
    using assms by (auto simp: create_storage_key_file_def result_iff)
  have "vw_files V2 path = vw_files V1 path" using plain_storage_key_files [OF steps(2)] by simp
  moreover have "\<exists>mode. vw_files V1 path = Some ([], mode)" using steps(1) by (auto simp: file_defs result_iff)
  ultimately have "\<exists>mode. vw_files V' path = Some (k, mode)" using steps(3,4) by (auto simp: file_defs result_iff)
  moreover have "vw_hub V1 = vw_hub V \<and> vw_kernel V1 = vw_kernel V" using steps(1) by (auto simp: file_defs result_iff)
  ultimately show ?thesis using steps(2) by blast
qed

lemma only_luks [simp]: "e = LUKS"
  by (cases e) simp

lemma mounted_with_key:
  assumes "block_device_mount E J S options mount_point V = (Inr (), V')"
  shows "\<exists>p name V1 key V2 fs k path mode. block_device_of_options options = Inr p \<and> path = ''/tmp/encrypted_storage_key_'' @ name \<and>
    vl_name S 5 (vw_kernel V) = (name, vw_kernel V1) \<and> vw_hub V1 = vw_hub V \<and>
    plain_storage_key E J S (bp_encryption_key p) V1 = (Inr key, V2) \<and> fs path = Some (key, mode) \<and>
    vl_run S LUKS_ENCRYPT_STORAGE_BIN (luks_arguments p mount_point path) (fs, k) =
      (Exited True, vw_files V', vw_kernel V')"
proof -
  obtain p where p: "block_device_of_options options = Inr p" "secure_device_mount E J S p mount_point V = (Inr (), V')"
    using assms by (auto simp: block_device_mount_def result_iff split: encrypt_type.splits)
  obtain name V0 V3 where name: "draw (vl_name S 5) V = (Inr name, V0)"
    and made: "create_storage_key_file E J S (''/tmp/encrypted_storage_key_'' @ name) (bp_encryption_key p) V0 = (Inr (), V3)"
    and run: "helper_command S BlockDeviceMountFailed LUKS_ENCRYPT_STORAGE_BIN
      (luks_arguments p mount_point (''/tmp/encrypted_storage_key_'' @ name)) V3 = (Inr (), V')"
    using p(2) by (auto simp: secure_device_mount_def result_iff)
  obtain key V1 V2 mode where key: "plain_storage_key E J S (bp_encryption_key p) V1 = (Inr key, V2)"
    and same: "vw_hub V1 = vw_hub V0" "vw_kernel V1 = vw_kernel V0"
    and content: "vw_files V3 (''/tmp/encrypted_storage_key_'' @ name) = Some (key, mode)"
    using key_file_written [OF made] by blast
  have "vl_name S 5 (vw_kernel V) = (name, vw_kernel V1)" "vw_hub V1 = vw_hub V"
    using name same by (auto simp: result_iff)
  moreover have "vl_run S LUKS_ENCRYPT_STORAGE_BIN (luks_arguments p mount_point (''/tmp/encrypted_storage_key_'' @ name))
      (vw_files V3, vw_kernel V3) = (Exited True, vw_files V', vw_kernel V')"
    using run by (auto simp: result_iff)
  ultimately show ?thesis using p(1) key content by blast
qed

text \<open>If the helper cannot be started, the file with the plain key stays behind.\<close>

lemma failed_helper_leaves_key:
  assumes "create_storage_key_file E J S (''/tmp/encrypted_storage_key_'' @ name) (bp_encryption_key p) V0 = (Inr (), V1)"
    and "draw (vl_name S 5) V = (Inr name, V0)"
    and "vl_run S LUKS_ENCRYPT_STORAGE_BIN (luks_arguments p mount_point (''/tmp/encrypted_storage_key_'' @ name)) (vw_files V1, vw_kernel V1)
      = (ForkFailed, vw_files V1, vw_kernel V1)"
  shows "secure_device_mount E J S p mount_point V = (Inl BlockDeviceMountFailed, V1) \<and>
    (\<exists>key mode. vw_files V1 (''/tmp/encrypted_storage_key_'' @ name) = Some (key, mode))"
proof -
  have "secure_device_mount E J S p mount_point V = (Inl BlockDeviceMountFailed, V1)"
    using assms by (simp add: secure_device_mount_def helper_command_def)
  then show ?thesis using key_file_written [OF assms(1)] by blast
qed

section \<open>A sealed key for a block device\<close>

lemma sealed_is_sealed: "to_signed_base64_string J s = Inr t \<Longrightarrow> starts_with ''sealed.'' t"
  by (auto simp: to_signed_base64_string_def result_iff starts_with_iff)

text \<open>
  C22. A key that the command line tool has sealed under a key management service is the content of the
  key file that the helper for LUKS devices reads, when the sealed text is the encryption key of a block
  device and the mount succeeds.
\<close>

theorem sealed_disk_key:
  assumes codec: "codec_law J" and b64: "\<forall>b. ce_b64 E (le_b64_encode L b) = Some b"
    and laws: "gcm_correct S" "same_gcm S R" "appended_tag R" "same_ctr S R" "ke_backend (ce_kbs E) \<in> {Native S, Rust R}"
    and rnd: "length key = 32" "length iv = 12"
    and seal: "seal_secret E L J iv key (EnvelopeCommand cmd key_id file) W = (Inr t, W')"
    and service: "le_provider L cmd = Some (enc, ps, provider)" "ce_decryptors E (lower_str provider) = Some d" "kms_works enc d ps"
    and options: "options ''encryptKey'' = Some t"
    and mount: "block_device_mount E J OS options mount_point V = (Inr (), V')"
  shows "\<exists>device integrity path fs k disk_key mode. options ''deviceId'' = Some device \<and> options ''dataIntegrity'' = Some integrity \<and>
    cw_files W file = Some disk_key \<and> fs path = Some (disk_key, mode) \<and>
    vl_run OS LUKS_ENCRYPT_STORAGE_BIN [device, ''true'', mount_point, path, integrity] (fs, k) = (Exited True, vw_files V', vw_kernel V')"
proof -
  obtain p V1 disk_key V2 fs k path mode where p: "block_device_of_options options = Inr p"
    and key: "plain_storage_key E J OS (bp_encryption_key p) V1 = (Inr disk_key, V2)"
    and held: "fs path = Some (disk_key, mode)"
    and run: "vl_run OS LUKS_ENCRYPT_STORAGE_BIN (luks_arguments p mount_point path) (fs, k) =
      (Exited True, vw_files V', vw_kernel V')"
    using mounted_with_key [OF mount] by blast
  have fields: "options ''deviceId'' = Some (bp_device_id p)" "options ''dataIntegrity'' = Some (bp_data_integrity p)"
    "bp_encryption_key p = Some t"
    using p options by (auto simp: block_device_of_options_def required_def result_iff)
  have "starts_with ''sealed.'' t" using seal by (auto simp: seal_secret_def result_iff intro: sealed_is_sealed)
  then obtain W2 where "unseal_secret E J t (vw_hub V1) = (Inr disk_key, W2)"
    using key fields(3) by (auto simp: plain_storage_key_def get_plaintext_key_def result_iff)
  then have "fst (hub_unseal_secret E J t (vw_hub V1)) = Inr disk_key" by (simp add: hub_unseal_secret_def)
  moreover have "map_option Inr (cw_files W file) = Some (fst (hub_unseal_secret E J t (vw_hub V1)))"
    using sealed_text_unseals [OF codec b64 laws rnd seal] service by simp
  ultimately have "cw_files W file = Some disk_key" by auto
  moreover have "luks_arguments p mount_point path = [bp_device_id p, ''true'', mount_point, path, bp_data_integrity p]"
    by (simp add: luks_arguments_def fields(3))
  ultimately show ?thesis using fields(1,2) held run by metis
qed

section \<open>Buckets\<close>

lemma ossfs_passwd_written:
  assumes "write_ossfs_passwd S path content V = (Inr (), V')"
  shows "vw_files V' path = Some (content, owner_only) \<and> vw_hub V' = vw_hub V"
  using assms by (auto simp: write_ossfs_passwd_def file_defs result_iff)

lemma gocryptfs_passwd_written:
  assumes "write_gocryptfs_passwd S path content V = (Inr (), V')"
  shows "(\<exists>mode. vw_files V' path = Some (content, mode)) \<and> vw_hub V' = vw_hub V"
  using assms by (auto simp: write_gocryptfs_passwd_def file_defs result_iff)

lemma ossfs_run:
  assumes "helper_command S OssfsMountFailed OSSFS_BIN (ossfs_arguments p target path) V = (Inr (), V')"
  shows "vl_run S OSSFS_BIN (ossfs_arguments p target path) (vw_files V, vw_kernel V) = (Exited True, vw_files V', vw_kernel V') \<and>
    vw_hub V' = vw_hub V"
  using assms by (auto simp: result_iff)

lemma random_dir_keeps:
  "create_random_dir S V = (Inr dir, V') \<Longrightarrow> vw_files V' = vw_files V \<and> vw_hub V' = vw_hub V"
  by (auto simp: create_random_dir_def result_iff)

lemma gocryptfs_mounted:
  assumes "mount_gocryptfs E J S p dir path mount_point V = (Inr (), V')" and "vw_files V path = Some c"
  shows "\<exists>target fs k fs1 k1 pw W fs2 k2 mode. fs path = Some c \<and>
    vl_run S OSSFS_BIN (ossfs_arguments p target path) (fs, k) = (Exited True, fs1, k1) \<and>
    get_plaintext_secret E J (op_enc_passwd p) (vw_hub V) = (Inr pw, W) \<and>
    fs2 (dir @ ''/'' @ GOCRYPTFS_PASSWD_FILE) = Some (pw, mode) \<and>
    vl_run S GOCRYPTFS_BIN [target, mount_point, ''-passfile'', dir @ ''/'' @ GOCRYPTFS_PASSWD_FILE, ''-nosyslog''] (fs2, k2)
      = (Exited True, vw_files V', vw_kernel V')"
proof -
  obtain target V1 V2 pw V3 V4 where dir: "create_random_dir S V = (Inr target, V1)"
    and oss: "helper_command S OssfsMountFailed OSSFS_BIN (ossfs_arguments p target path) V1 = (Inr (), V2)"
    and pw: "on_hub (get_plaintext_secret E J (op_enc_passwd p)) V2 = (Inr pw, V3)"
    and passwd: "write_gocryptfs_passwd S (dir @ ''/'' @ GOCRYPTFS_PASSWD_FILE) pw V3 = (Inr (), V4)"
    and run: "helper_command S GocryptfsMountFailed GOCRYPTFS_BIN
      [target, mount_point, ''-passfile'', dir @ ''/'' @ GOCRYPTFS_PASSWD_FILE, ''-nosyslog''] V4 = (Inr (), V')"
    using assms(1) by (auto simp: mount_gocryptfs_def result_iff)
  have "vw_files V1 path = Some c" "vw_hub V1 = vw_hub V" using random_dir_keeps [OF dir] assms(2) by auto
  moreover obtain W where "get_plaintext_secret E J (op_enc_passwd p) (vw_hub V) = (Inr pw, W)"
    using pw ossfs_run [OF oss] random_dir_keeps [OF dir] by (auto simp: result_iff)
  moreover obtain mode where "vw_files V4 (dir @ ''/'' @ GOCRYPTFS_PASSWD_FILE) = Some (pw, mode)"
    using gocryptfs_passwd_written [OF passwd] by blast
  moreover have "vl_run S GOCRYPTFS_BIN [target, mount_point, ''-passfile'', dir @ ''/'' @ GOCRYPTFS_PASSWD_FILE, ''-nosyslog'']
      (vw_files V4, vw_kernel V4) = (Exited True, vw_files V', vw_kernel V')"
    using run by (auto simp: result_iff)
  ultimately show ?thesis using ossfs_run [OF oss] by blast
qed

lemma with_tempdir_ok:
  assumes "with_tempdir S body V = (Inr a, V')"
  shows "\<exists>dir V1 V2. vl_tempdir S (vw_kernel V) = (Inr dir, vw_kernel V1) \<and> vw_hub V1 = vw_hub V \<and> vw_files V1 = vw_files V \<and>
    body dir V1 = (Inr a, V2) \<and> V' = V2\<lparr>vw_files := remove_below dir (vw_files V2)\<rparr>"
proof -
  obtain dir V1 where dir: "st_map_err VolumeIo (on_kernel (vl_tempdir S)) V = (Inr dir, V1)"
    and rest: "(case body dir V1 of (r, V') \<Rightarrow> (r, V'\<lparr>vw_files := remove_below dir (vw_files V')\<rparr>)) = (Inr a, V')"
    using assms by (auto simp: with_tempdir_def result_iff)
  obtain r V2 where body: "body dir V1 = (r, V2)" by (cases "body dir V1") auto
  have "vl_tempdir S (vw_kernel V) = (Inr dir, vw_kernel V1) \<and> vw_hub V1 = vw_hub V \<and> vw_files V1 = vw_files V"
    using dir by (auto simp: result_iff)
  then show ?thesis using rest body by auto
qed


section \<open>Volumes\<close>

lemma unknown_volume_untouched:
  assumes "st_volume_type s \<noteq> ''BlockDevice''" "\<not> aliyun \<or> st_volume_type s \<noteq> ''alibaba-cloud-oss''"
  shows "storage_mount aliyun E J S s V = (Inl StorageTypeNotRecognized, V)"
  using assms by (auto simp: storage_mount_def volume_from_str_def lift_result_def)

section \<open>An example\<close>

text \<open>Commands succeed and leave the files alone; the kernel is a counter.\<close>

definition demo_volume_os :: "nat volume_os" where
  "demo_volume_os = \<lparr>vl_io = (\<lambda>_ _ _. None), vl_random = (\<lambda>n k. (replicate n (CHR ''r''), Suc k)), vl_name = (\<lambda>n k. (''name'', Suc k)),
     vl_tempdir = (\<lambda>k. (Inr ''/tmp/t'', Suc k)), vl_run = (\<lambda>cmd args (fs, k). (Exited True, fs, Suc k)), vl_umode = 420\<rparr>"

definition demo_volumes :: "(nat, nat, nat, nat) volume_world" where
  "demo_volumes = \<lparr>vw_hub = demo_world, vw_files = Map.empty, vw_kernel = 0\<rparr>"

definition demo_oss_options :: "string \<rightharpoonup> string" where
  "demo_oss_options = [''akId'' \<mapsto> ''id'', ''akSecret'' \<mapsto> ''key'', ''bucket'' \<mapsto> ''b'', ''otherOpts'' \<mapsto> '''', ''path'' \<mapsto> ''/'',
     ''readonly'' \<mapsto> ''false'', ''targetPath'' \<mapsto> ''/t'', ''url'' \<mapsto> ''u'', ''volumeId'' \<mapsto> ''v'']"


theorem sealed_disk_key_witness:
  "\<exists>disk_key. cw_files demo_world KEYS_PATH = Some disk_key \<and> disk_key = ''secret''"
proof -
  let ?k = "replicate 32 (CHR ''k'')" and ?iv = "replicate 12 (CHR ''i'')" and ?args = "EnvelopeCommand () ''kid'' KEYS_PATH"
  let ?opts = "[''deviceId'' \<mapsto> ''8:0'', ''encryptType'' \<mapsto> ''LUKS'', ''dataIntegrity'' \<mapsto> ''true'', ''encryptKey'' \<mapsto> demo_sealed_token]"
  obtain W' where seal: "seal_secret demo_hub demo_cli demo_secret_codec ?iv ?k ?args demo_world = (Inr demo_sealed_token, W')"
    using demo_seal unfolding demo_sealed_token_def by (metis prod.collapse)
  have b64: "\<forall>b. ce_b64 demo_hub (le_b64_encode demo_cli b) = Some b"
    and backend: "ke_backend (ce_kbs demo_hub) \<in> {Native demo_ossl, Rust demo_rc}"
    by (simp_all add: demo_hub_def demo_cdh_def demo_cli_def demo_kbs_def)
  have works: "kms_works (\<lambda>key _. st_ok (key, [])) demo_driver []"
    and known: "le_provider demo_cli () = Some (\<lambda>key _. st_ok (key, []), [], ''ehsm'')" "ce_decryptors demo_hub (lower_str ''ehsm'') = Some demo_driver"
    by (simp_all add: kms_works_def demo_driver_def demo_cli_def demo_hub_def lower_str_def to_lower_def)
  have unsealed: "fst (hub_unseal_secret demo_hub demo_secret_codec demo_sealed_token demo_world) = Inr ''secret''"
    using sealed_text_unseals [OF demo_codec_law b64 demo_laws(1-4) backend _ _ seal] works known by (simp add: demo_world_def)
  have "starts_with ''sealed.'' demo_sealed_token" using seal by (auto simp: seal_secret_def result_iff intro: sealed_is_sealed)
  then have key: "\<exists>W. get_plaintext_key demo_hub demo_secret_codec demo_sealed_token demo_world = (Inr ''secret'', W)"
    using unsealed by (auto simp: get_plaintext_key_def hub_unseal_secret_def st_map_err_def result_iff split: prod.splits)
  obtain V' where "block_device_mount demo_hub demo_secret_codec demo_volume_os ?opts ''/mnt'' demo_volumes = (Inr (), V')"
    using key
    by (auto simp: block_device_mount_def block_device_of_options_def required_def parse_encrypt_type_def secure_device_mount_def draw_def
        on_kernel_def create_storage_key_file_def plain_storage_key_def on_hub_def file_defs file_op_def st_then_def st_map_err_def
        helper_command_def lift_result_def demo_volume_os_def demo_volumes_def)
  from sealed_disk_key [OF demo_codec_law b64 demo_laws(1-4) backend _ _ seal known works _ this] show ?thesis
    by (auto simp: demo_world_def)
qed

end
