(* ===== verification/Layer_Unpack.thy ===== *)
theory Layer_Unpack
  imports Byte_Source
begin

text \<open>
  \<open>image-rs/src/unpack.rs\<close>, \<open>stream.rs\<close> and \<open>digest.rs\<close>: the tar stream of a layer is hashed while it is
  unpacked into a directory. The operating system is a parameter: a \<open>kernel\<close> answers a call from the
  calls made before it, and the state of the model is the list of these calls, the latest at the end.
  The tar crate is a parameter as well: it turns the bytes it has read into entries.
\<close>

section \<open>Paths\<close>

datatype path_comp = RootDir | CurDir | ParentDir | NormalComp string

definition piece_comp :: "string \<Rightarrow> path_comp option" where
  "piece_comp p =
     (if p = [] \<or> p = ''.'' then None else if p = ''..'' then Some ParentDir else Some (NormalComp p))"

text \<open>\<open>Path::components\<close>: repeated separators and all but a leading dot disappear.\<close>

definition path_components :: "string \<Rightarrow> path_comp list" where
  "path_components s =
     (let ps = split_on (CHR ''/'') s
      in if starts_with ''/'' s then RootDir # List.map_filter piece_comp (tl ps)
         else if hd ps = ''.'' then CurDir # List.map_filter piece_comp (tl ps)
         else List.map_filter piece_comp ps)"

fun comp_str :: "path_comp \<Rightarrow> string" where
  "comp_str RootDir = []"
| "comp_str CurDir = ''.''"
| "comp_str ParentDir = ''..''"
| "comp_str (NormalComp n) = n"

definition path_string :: "path_comp list \<Rightarrow> string" where
  "path_string cs = (if cs = [RootDir] then ''/'' else join_with (CHR ''/'') (map comp_str cs))"

definition path_file_name :: "string \<Rightarrow> string option" where
  "path_file_name p = (case rev (path_components p) of NormalComp n # _ \<Rightarrow> Some n | _ \<Rightarrow> None)"

definition path_parent :: "string \<Rightarrow> string option" where
  "path_parent p =
     (case rev (path_components p) of
        [] \<Rightarrow> None
      | RootDir # _ \<Rightarrow> None
      | _ # cs \<Rightarrow> Some (path_string (rev cs)))"

definition path_join :: "string \<Rightarrow> string \<Rightarrow> string" where
  "path_join d p =
     (if starts_with ''/'' p then p
      else if d = [] \<or> last d = CHR ''/'' then d @ p else d @ ''/'' @ p)"

section \<open>Calls to the operating system\<close>

datatype entry_kind = RegularEntry | DirEntry | SymlinkEntry | HardLinkEntry | OtherEntry

record tar_entry =
  te_path :: string
  te_uid :: "(string, nat) result"
  te_gid :: "(string, nat) result"
  te_mode :: "nat option"
  te_mtime :: "(string, nat) result"
  te_kind :: entry_kind
  te_is_ustar :: bool
  te_data :: bytes

datatype fs_op =
    RemoveDirAll string
  | CreateDirAll string
  | OpenRead string
  | OpenWrite string
  | SetXattr string string bytes
  | Mknod string
  | Fchown string nat nat
  | Lchown string nat nat
  | Chmod string nat
  | SetFileTimes string int
  | Utimes string int
  | UnpackEntry string tar_entry

record kernel =
  kn_call :: "fs_op list \<Rightarrow> fs_op \<Rightarrow> (string, unit) result"
  kn_exists :: "fs_op list \<Rightarrow> string \<Rightarrow> bool"

datatype unpack_error =
    SysError fs_op string
  | InvalidUnicode string
  | HeaderField string
  | IdTooLarge nat
  | NulByte string
  | WhiteoutParent string
  | WhiteoutPrefix string
  | TarError string

type_synonym 'a unpacking = "(fs_op list, unpack_error, 'a) stateful"

definition sys :: "kernel \<Rightarrow> fs_op \<Rightarrow> unit unpacking" where
  "sys K op tr = (map_err (SysError op) (kn_call K tr op), tr @ [op])"

section \<open>Unpacking\<close>

definition is_attr_available :: "kernel \<Rightarrow> string \<Rightarrow> bool unpacking" where
  "is_attr_available K path =
     st_then (sys K (OpenRead path)) (\<lambda>_ tr.
       case sys K (SetXattr path ''user.overlay.origin'' []) tr of (r, tr') \<Rightarrow> (Inr (is_ok r), tr'))"

definition WHITEOUT_PREFIX :: string where "WHITEOUT_PREFIX = ''.wh.''"
definition WHITEOUT_OPAQUE_DIR :: string where "WHITEOUT_OPAQUE_DIR = ''.wh..wh..opq''"

definition is_whiteout :: "string \<Rightarrow> bool" where
  "is_whiteout name = starts_with WHITEOUT_PREFIX name"

definition cstring_new :: "string \<Rightarrow> (unpack_error, string) result" where
  "cstring_new s = (if CHR 0x00 \<in> set s then Inl (NulByte s) else Inr s)"

datatype chown_type = LChown | FChown

definition set_perms_ownerships ::
  "kernel \<Rightarrow> string \<Rightarrow> chown_type \<Rightarrow> nat \<Rightarrow> nat \<Rightarrow> nat option \<Rightarrow> unit unpacking" where
  "set_perms_ownerships K dst chown uid gid mode =
     st_then (sys K (case chown of FChown \<Rightarrow> Fchown dst uid gid | LChown \<Rightarrow> Lchown dst uid gid)) (\<lambda>_.
     case mode of None \<Rightarrow> st_ok () | Some m \<Rightarrow> sys K (Chmod dst m))"

definition convert_whiteout ::
  "kernel \<Rightarrow> string \<Rightarrow> string \<Rightarrow> nat \<Rightarrow> nat \<Rightarrow> nat option \<Rightarrow> string \<Rightarrow> unit unpacking" where
  "convert_whiteout K name path uid gid mode destination =
     st_then (lift_result (ok_or (WhiteoutParent path) (path_parent path))) (\<lambda>parent.
     if name = WHITEOUT_OPAQUE_DIR
     then sys K (SetXattr (path_join destination parent) ''trusted.overlay.opaque'' ''y'')
     else
       st_then (lift_result (ok_or (WhiteoutPrefix name) (strip_prefix WHITEOUT_PREFIX name))) (\<lambda>original_name.
       let original_path = path_join parent original_name in
       st_then (lift_result (cstring_new
          (from_utf8_lossy destination @ ''/'' @ from_utf8_lossy original_path))) (\<lambda>path.
       st_then (sys K (Mknod path)) (\<lambda>_.
       set_perms_ownerships K path LChown uid gid mode))))"

definition u32_field :: "(string, nat) result \<Rightarrow> (unpack_error, nat) result" where
  "u32_field r = and_then (map_err HeaderField r) (\<lambda>n. if n < 2 ^ 32 then Inr n else Inl (IdTooLarge n))"

text \<open>\<open>as i64\<close> of an unsigned 64-bit number.\<close>

definition as_i64 :: "nat \<Rightarrow> int" where
  "as_i64 n = (if n < 2 ^ 63 then int n else int n - 2 ^ 64)"

definition entry_is_dir :: "tar_entry \<Rightarrow> bool" where
  "entry_is_dir e \<longleftrightarrow>
     te_kind e = DirEntry \<or> \<not> te_is_ustar e \<and> te_path e \<noteq> [] \<and> last (te_path e) = CHR ''/''"

type_synonym dir_times = "(string \<times> int) list"

definition unpack_regular ::
  "kernel \<Rightarrow> string \<Rightarrow> tar_entry \<Rightarrow> nat \<Rightarrow> nat \<Rightarrow> dir_times \<Rightarrow> dir_times unpacking" where
  "unpack_regular K destination e uid gid dirs =
     st_then (sys K (UnpackEntry destination e)) (\<lambda>_.
     st_then (lift_result (cstring_new
        (from_utf8_lossy destination @ ''/'' @ from_utf8_lossy (te_path e)))) (\<lambda>path.
     st_then (lift_result (and_then (map_err HeaderField (te_mtime e)) (\<lambda>t. Inr (as_i64 t)))) (\<lambda>mtime.
     if entry_is_dir e then
       st_then (set_perms_ownerships K path LChown uid gid (te_mode e)) (\<lambda>_.
       st_ok (AList.update path mtime dirs))
     else if te_kind e \<noteq> SymlinkEntry \<and> te_kind e \<noteq> HardLinkEntry then
       st_then (sys K (OpenWrite path)) (\<lambda>_.
       st_then (set_perms_ownerships K path FChown uid gid (te_mode e)) (\<lambda>_.
       st_then (sys K (SetFileTimes path mtime)) (\<lambda>_.
       st_ok dirs)))
     else st_ok dirs)))"

definition unpack_entry ::
  "kernel \<Rightarrow> string \<Rightarrow> bool \<Rightarrow> dir_times \<Rightarrow> (string, tar_entry) result \<Rightarrow> dir_times unpacking" where
  "unpack_entry K destination attr_available dirs file =
     st_then (lift_result (map_err TarError file)) (\<lambda>e.
     st_then (lift_result (ok_or (InvalidUnicode (te_path e))
        (from_utf8 (case path_file_name (te_path e) of None \<Rightarrow> [] | Some n \<Rightarrow> n)))) (\<lambda>entry_name.
     st_then (lift_result (u32_field (te_uid e))) (\<lambda>uid.
     st_then (lift_result (u32_field (te_gid e))) (\<lambda>gid.
     if attr_available \<and> is_whiteout entry_name
     then st_then (convert_whiteout K entry_name (te_path e) uid gid (te_mode e) destination) (\<lambda>_. st_ok dirs)
     else unpack_regular K destination e uid gid dirs))))"

fun unpack_entries ::
  "kernel \<Rightarrow> string \<Rightarrow> bool \<Rightarrow> dir_times \<Rightarrow> (string, tar_entry) result list \<Rightarrow> dir_times unpacking" where
  "unpack_entries K destination attr dirs [] = st_ok dirs"
| "unpack_entries K destination attr dirs (f # fs) =
     st_then (unpack_entry K destination attr dirs f) (\<lambda>dirs'. unpack_entries K destination attr dirs' fs)"

text \<open>The second part of an archive says if its entries could be read at all.\<close>

definition unpack ::
  "kernel \<Rightarrow> (string, (string, tar_entry) result list) result \<Rightarrow> string \<Rightarrow> unit unpacking" where
  "unpack K archive destination =
     st_then (\<lambda>tr. if kn_exists K tr destination then sys K (RemoveDirAll destination) tr else st_ok () tr) (\<lambda>_.
     st_then (sys K (CreateDirAll destination)) (\<lambda>_.
     st_then (is_attr_available K destination) (\<lambda>attr_available.
     st_then (lift_result (map_err TarError archive)) (\<lambda>entries.
     st_then (unpack_entries K destination attr_available [] entries) (\<lambda>dirs.
     st_for (\<lambda>(k, v). sys K (Utimes k v)) dirs)))))"

section \<open>Where an archive writes\<close>

fun op_path :: "fs_op \<Rightarrow> string" where
  "op_path (RemoveDirAll p) = p"
| "op_path (CreateDirAll p) = p"
| "op_path (OpenRead p) = p"
| "op_path (OpenWrite p) = p"
| "op_path (SetXattr p _ _) = p"
| "op_path (Mknod p) = p"
| "op_path (Fchown p _ _) = p"
| "op_path (Lchown p _ _) = p"
| "op_path (Chmod p _) = p"
| "op_path (SetFileTimes p _) = p"
| "op_path (Utimes p _) = p"
| "op_path (UnpackEntry p _) = p"

text \<open>A path that names the directory or, without a step upwards, something in it.\<close>

definition path_below :: "string \<Rightarrow> string \<Rightarrow> bool" where
  "path_below d p \<longleftrightarrow>
     (\<exists>cs. path_components p = path_components d @ cs \<and> ParentDir \<notin> set cs \<and> RootDir \<notin> set cs)"

definition appends :: "('a \<Rightarrow> bool) \<Rightarrow> 'a list \<Rightarrow> 'a list \<Rightarrow> bool" where
  "appends P tr tr' \<longleftrightarrow> (\<exists>ops. tr' = tr @ ops \<and> list_all P ops)"

lemma appends_refl [simp]: "appends P tr tr"
  by (simp add: appends_def)

lemma appends_trans: "appends P a b \<Longrightarrow> appends P b c \<Longrightarrow> appends P a c"
  by (auto simp: appends_def)

lemma framed_appends_then:
  assumes "framed (appends P) m" and "\<And>a s s'. m s = (Inr a, s') \<Longrightarrow> framed (appends P) (f a)"
  shows "framed (appends P) (st_then m f)"
  unfolding framed_def
proof (intro allI)
  fix s
  obtain r s' where m: "m s = (r, s')" by (cases "m s")
  then have first: "appends P s s'" using framedD [OF assms(1)] by blast
  show "appends P s (snd (st_then m f s))"
  proof (cases r)
    case (Inl e)
    then show ?thesis using m first by simp
  next
    case (Inr a)
    then show ?thesis using m first assms(2) [of s a s'] framedD [of "appends P" "f a" s'] appends_trans
      by (metis prod.collapse st_then_ok)
  qed
qed

lemma framed_appends_simps [simp]:
  "framed (appends P) (st_ok a)"
  "framed (appends P) (st_err e)"
  "framed (appends P) (lift_result r)"
  by (simp_all add: framed_def lift_result_def)

lemma framed_appends_sys [simp]: "P op \<Longrightarrow> framed (appends P) (sys K op)"
  by (simp add: framed_def sys_def appends_def)

lemma framed_appends_for:
  "(\<And>x. x \<in> set xs \<Longrightarrow> framed (appends P) (f x)) \<Longrightarrow> framed (appends P) (st_for f xs)"
  by (induction xs) (auto intro: framed_appends_then)

section \<open>Paths below a directory\<close>

lemma split_on_append_gen: "split_on c (p @ c # s) = split_on c p @ split_on c s"
  by (induction p) (auto simp: Let_def split: list.splits)

lemma map_filter_append: "List.map_filter f (xs @ ys) = List.map_filter f xs @ List.map_filter f ys"
  by (simp add: List.map_filter_def)

lemma components_slash:
  "d \<noteq> [] \<Longrightarrow> path_components (d @ CHR ''/'' # q) = path_components d @ List.map_filter piece_comp (split_on (CHR ''/'') q)"
  by (cases d) (auto simp: path_components_def Let_def starts_with_def split_on_append_gen map_filter_append
      hd_append tl_append split: list.splits option.splits)

lemma pieces_not_root: "RootDir \<notin> set (List.map_filter piece_comp ps)" "CurDir \<notin> set (List.map_filter piece_comp ps)"
  by (auto simp: List.map_filter_def piece_comp_def split: if_splits)

lemma pieces_parent_iff: "ParentDir \<in> set (List.map_filter piece_comp ps) \<longleftrightarrow> ''..'' \<in> set ps"
  by (force simp: List.map_filter_def piece_comp_def split: if_splits)

lemma components_parent_iff: "ParentDir \<in> set (path_components p) \<longleftrightarrow> ''..'' \<in> set (split_on (CHR ''/'') p)"
proof -
  have "split_on (CHR ''/'') p \<noteq> []" by simp
  then obtain q qs where ps: "split_on (CHR ''/'') p = q # qs" by (cases "split_on (CHR ''/'') p") auto
  have "q = []" if "starts_with ''/'' p"
    using ps that by (cases p) (auto simp: starts_with_iff)
  then show ?thesis
    by (auto simp: path_components_def ps pieces_parent_iff Let_def piece_comp_def split: option.splits if_splits)
qed

lemma below_join: "d \<noteq> [] \<Longrightarrow> ParentDir \<notin> set (path_components q) \<Longrightarrow> path_below d (d @ CHR ''/'' # q)"
  by (auto simp: path_below_def components_slash pieces_not_root pieces_parent_iff components_parent_iff)

lemma below_self [simp]: "path_below d d"
  by (simp add: path_below_def)

lemma below_open_dir:
  assumes "d \<noteq> []" "\<not> starts_with ''/'' p" "ParentDir \<notin> set (path_components p)"
  shows "path_below d (path_join d p)"
proof (cases "last d = CHR ''/''")
  case False
  then show ?thesis using assms below_join [of d p] by (simp add: path_join_def)
next
  case True
  define d' where "d' = butlast d"
  have d: "d = d' @ ''/''" using True assms(1) by (metis append_butlast_last_id d'_def)
  show ?thesis
  proof (cases "d' = []")
    case True
    then show ?thesis using assms d
      by (auto simp: path_join_def path_below_def path_components_def [of "CHR ''/'' # p"]
          path_components_def [of "''/''"] starts_with_iff pieces_not_root pieces_parent_iff components_parent_iff
          piece_comp_def)
  next
    case False
    then show ?thesis
      using assms d components_slash [of d' p] components_slash [of d' "[]"]
      by (auto simp: path_join_def path_below_def pieces_not_root pieces_parent_iff components_parent_iff
          piece_comp_def)
  qed
qed

text \<open>Lossy printing makes no new step upwards: it replaces bytes that are not ASCII by others.\<close>

lemma utf8_step_cases:
  assumes "s \<noteq> []"
  obtains c t where "s = c # t" "of_char c < (128 :: nat)" "utf8_step s = (True, 1)"
  | b t v where "s = b @ t" "b \<noteq> []" "\<forall>c\<in>set b. 128 \<le> (of_char c :: nat)" "utf8_step s = (v, length b)"
proof (cases "byte_at s 0 < 128")
  case True
  then show ?thesis using assms that(1) by (cases s) (auto simp: utf8_step_ascii)
next
  case False
  let ?n = "snd (utf8_step s)"
  have high: "128 \<le> byte_at s i" if i: "i < ?n" for i
  proof -
    have "?n \<le> 4" by (simp add: utf8_step_def Let_def)
    then consider "i = 0" | "i = 1" "1 < ?n" | "i = 2" "2 < ?n" | "i = 3" "3 < ?n" using i by linarith
    then show ?thesis
      using False by cases (simp_all add: utf8_step_def Let_def cont_byte_def split: if_splits)
  qed
  have "i < length s" if "i < ?n" for i
    using high [OF that] by (cases "i < length s") (simp_all add: byte_at_def)
  then have "?n \<le> length s" using leI by blast
  moreover have "128 \<le> (of_char c :: nat)" if c: "c \<in> set (take ?n s)" for c
  proof -
    obtain i where i: "i < ?n" "i < length s" "c = s ! i" using c by (auto simp: in_set_conv_nth)
    show ?thesis using high [OF i(1)] i by (simp add: byte_at_def)
  qed
  ultimately show ?thesis
    using that(2) [of "take ?n s" "drop ?n s" "fst (utf8_step s)"] assms utf8_step_pos [of s]
    by (auto simp: min_absorb2)
qed

definition lossy_piece :: "string \<Rightarrow> string \<Rightarrow> bool" where
  "lossy_piece p q \<longleftrightarrow> p = q \<or> (\<exists>c\<in>set p. 128 \<le> (of_char c :: nat))"

lemma pieces_prefix:
  "c \<notin> set b \<Longrightarrow> split_on c (b @ s) = (b @ hd (split_on c s)) # tl (split_on c s)"
  by (induction b) (auto simp: hd_Cons_tl)

lemma lossy_pieces:
  "list_all2 lossy_piece (split_on (CHR ''/'') (from_utf8_lossy s)) (split_on (CHR ''/'') s)"
proof (induction s rule: from_utf8_lossy.induct)
  case (1 s)
  show ?case
  proof (cases "s = []")
    case True
    then show ?thesis by (simp add: lossy_piece_def)
  next
    case False
    then show ?thesis
    proof (cases rule: utf8_step_cases)
      case (1 c t)
      have ih: "list_all2 lossy_piece (split_on (CHR ''/'') (from_utf8_lossy t)) (split_on (CHR ''/'') t)"
        using "1.IH" False 1 by simp
      have l: "from_utf8_lossy s = c # from_utf8_lossy t"
        using 1 by (subst from_utf8_lossy.simps) simp
      obtain p ps q qs where sp: "split_on (CHR ''/'') (from_utf8_lossy t) = p # ps" "split_on (CHR ''/'') t = q # qs"
        by (metis list.exhaust split_on_not_Nil)
      have "lossy_piece p q" "list_all2 lossy_piece ps qs" using ih sp by simp_all
      then show ?thesis unfolding l by (auto simp: 1(1) sp lossy_piece_def [of "c # p"] lossy_piece_def [of "[]"] lossy_piece_def [of p q])
    next
      case (2 b t v)
      have ih: "list_all2 lossy_piece (split_on (CHR ''/'') (from_utf8_lossy t)) (split_on (CHR ''/'') t)"
        using "1.IH" False 2 by simp
      define b' where "b' = (if v then b else replacement_char)"
      have l: "from_utf8_lossy s = b' @ from_utf8_lossy t"
        using 2 False by (subst from_utf8_lossy.simps) (auto simp: b'_def)
      have high: "\<exists>c\<in>set b'. 128 \<le> (of_char c :: nat)"
        using 2 by (auto simp: b'_def replacement_char_def of_char_of neq_Nil_conv)
      have all: "\<forall>c\<in>set b'. 128 \<le> (of_char c :: nat)"
        using 2 by (simp add: b'_def replacement_char_def of_char_of)
      have free: "CHR ''/'' \<notin> set b" "CHR ''/'' \<notin> set b'"
        using all 2(3) by (auto dest: bspec)
      obtain p ps q qs where sp: "split_on (CHR ''/'') (from_utf8_lossy t) = p # ps" "split_on (CHR ''/'') t = q # qs"
        by (metis list.exhaust split_on_not_Nil)
      show ?thesis unfolding l pieces_prefix [OF free(2)]
        using ih high by (auto simp: 2(1) pieces_prefix [OF free(1)] sp lossy_piece_def [of "b' @ p"])
    qed
  qed
qed

lemma list_all2_in: "list_all2 P xs ys \<Longrightarrow> x \<in> set xs \<Longrightarrow> \<exists>y\<in>set ys. P x y"
  by (induction rule: list_all2_induct) auto

lemma lossy_parent:
  assumes "ParentDir \<in> set (path_components (from_utf8_lossy s))"
  shows "ParentDir \<in> set (path_components s)"
proof -
  have "''..'' \<in> set (split_on (CHR ''/'') (from_utf8_lossy s))" using assms by (simp add: components_parent_iff)
  then obtain q where "q \<in> set (split_on (CHR ''/'') s)" "lossy_piece ''..'' q"
    using list_all2_in [OF lossy_pieces] by blast
  then show ?thesis by (auto simp: lossy_piece_def components_parent_iff)
qed

text \<open>The components of a path are names without separators, so a path can be put together again.\<close>

lemma component_names:
  "NormalComp n \<in> set (path_components p) \<Longrightarrow> CHR ''/'' \<notin> set n \<and> n \<noteq> [] \<and> n \<noteq> ''.'' \<and> n \<noteq> ''..''"
proof -
  assume n: "NormalComp n \<in> set (path_components p)"
  have "NormalComp n \<in> set (List.map_filter piece_comp (split_on (CHR ''/'') p))"
  proof (cases "split_on (CHR ''/'') p")
    case (Cons q qs)
    have "NormalComp n \<in> set (List.map_filter piece_comp (q # qs))"
      using n Cons by (auto simp: path_components_def Let_def split: if_splits option.splits)
    then show ?thesis using Cons by simp
  qed simp
  then obtain q where "q \<in> set (split_on (CHR ''/'') p)" "piece_comp q = Some (NormalComp n)"
    by (auto simp: List.map_filter_def)
  then show ?thesis using split_on_all_free [of "CHR ''/''" p] by (auto simp: piece_comp_def split: if_splits)
qed

lemma component_text:
  "x \<in> set (path_components p) \<Longrightarrow>
     CHR ''/'' \<notin> set (comp_str x) \<and> (comp_str x = [] \<longleftrightarrow> x = RootDir) \<and> (comp_str x = ''..'' \<longleftrightarrow> x = ParentDir)"
  by (cases x) (auto dest: component_names)

lemma relative_no_root: "\<not> starts_with ''/'' p \<Longrightarrow> RootDir \<notin> set (path_components p)"
  using pieces_not_root(1) by (auto simp: path_components_def Let_def)

lemma path_parentE:
  assumes "path_parent p = Some q"
  obtains cs where "q = path_string cs" "set cs \<subseteq> set (path_components p)"
proof -
  obtain c cs where c: "rev (path_components p) = c # cs" and q: "q = path_string (rev cs)"
    using assms by (auto simp: path_parent_def split: list.splits path_comp.splits)
  then have "path_components p = rev cs @ [c]" by (metis rev.simps(2) rev_rev_ident)
  then show ?thesis using that [of "rev cs"] q by auto
qed

lemma parent_no_step_up:
  assumes "path_parent p = Some q" and "ParentDir \<notin> set (path_components p)"
  shows "ParentDir \<notin> set (path_components q)"
proof -
  obtain cs where q: "q = path_string cs" and sub: "set cs \<subseteq> set (path_components p)"
    using assms(1) by (rule path_parentE)
  have piece: "comp_str x \<noteq> ''..'' \<and> CHR ''/'' \<notin> set (comp_str x)" if "x \<in> set cs" for x
    using component_text [of x p] that sub assms(2) by auto
  have "''..'' \<notin> set (split_on (CHR ''/'') q)"
  proof (cases "cs = [] \<or> cs = [RootDir]")
    case True
    then show ?thesis using q by (auto simp: path_string_def)
  next
    case False
    then have "split_on (CHR ''/'') q = map comp_str cs"
      using q piece by (auto simp: path_string_def intro!: split_on_join)
    then show ?thesis using piece by force
  qed
  then show ?thesis by (simp add: components_parent_iff)
qed

lemma parent_relative:
  assumes "path_parent p = Some q" and "\<not> starts_with ''/'' p"
  shows "\<not> starts_with ''/'' q"
proof -
  obtain cs where q: "q = path_string cs" and sub: "set cs \<subseteq> set (path_components p)"
    using assms(1) by (rule path_parentE)
  have no_root: "RootDir \<notin> set cs" using sub relative_no_root [OF assms(2)] by blast
  show ?thesis
  proof (cases cs)
    case Nil
    then show ?thesis using q by (simp add: path_string_def starts_with_iff)
  next
    case (Cons x xs)
    then have "comp_str x \<noteq> [] \<and> CHR ''/'' \<notin> set (comp_str x)"
      using component_text [of x p] sub no_root by auto
    then show ?thesis
      using q Cons no_root by (cases xs; cases "comp_str x") (auto simp: path_string_def starts_with_iff)
  qed
qed

lemma join_no_step_up:
  assumes "ParentDir \<notin> set (path_components d)" "ParentDir \<notin> set (path_components p)"
  shows "ParentDir \<notin> set (path_components (path_join d p))"
proof (cases "d \<noteq> [] \<and> last d = CHR ''/''")
  case True
  then obtain d' where "d = d' @ ''/''" by (metis append_butlast_last_id)
  then show ?thesis
    using assms by (auto simp: path_join_def components_parent_iff split_on_append_gen)
next
  case False
  then show ?thesis
    using assms by (auto simp: path_join_def components_parent_iff split_on_append_gen)
qed

section \<open>Properties\<close>

text \<open>
  An entry that names nothing outside: its path has no step upwards, neither as it stands nor as the
  name that a whiteout hides, and it does not mark a directory as opaque by an absolute path.
\<close>

definition tame_entry :: "tar_entry \<Rightarrow> bool" where
  "tame_entry e \<longleftrightarrow>
     ParentDir \<notin> set (path_components (te_path e)) \<and>
     path_file_name (te_path e) \<noteq> Some (WHITEOUT_PREFIX @ ''..'') \<and>
     (path_file_name (te_path e) = Some WHITEOUT_OPAQUE_DIR \<longrightarrow> \<not> starts_with ''/'' (te_path e))"

definition below_op :: "string \<Rightarrow> fs_op \<Rightarrow> bool" where
  "below_op d op = path_below d (op_path op)"

lemma framed_perms:
  assumes "P (Fchown dst uid gid)" "P (Lchown dst uid gid)" "\<And>m. P (Chmod dst m)"
  shows "framed (appends P) (set_perms_ownerships K dst ch uid gid mode)"
  unfolding set_perms_ownerships_def
  by (rule framed_appends_then) (auto simp: assms split: option.splits chown_type.splits)

lemma cstring_below:
  assumes "cstring_new (from_utf8_lossy d @ ''/'' @ from_utf8_lossy q) = Inr p"
    and "utf8_valid d" "d \<noteq> []" "ParentDir \<notin> set (path_components q)"
  shows "path_below d p"
proof -
  have "p = d @ CHR ''/'' # from_utf8_lossy q"
    using assms(1,2) by (auto simp: cstring_new_def from_utf8_lossy_valid split: if_splits)
  moreover have "ParentDir \<notin> set (path_components (from_utf8_lossy q))"
    using assms(4) lossy_parent [of q] by blast
  ultimately show ?thesis using assms(3) by (simp add: below_join)
qed

lemma unpack_regular_below:
  assumes "utf8_valid d" "d \<noteq> []" "ParentDir \<notin> set (path_components (te_path e))"
  shows "framed (appends (below_op d)) (unpack_regular K d e uid gid dirs)"
proof -
  have b: "path_below d p" if "cstring_new (from_utf8_lossy d @ ''/'' @ from_utf8_lossy (te_path e)) = Inr p" for p
    using that assms by (rule cstring_below)
  show ?thesis
    unfolding unpack_regular_def
    by (intro framed_appends_then framed_appends_sys framed_appends_simps)
       (auto simp: below_op_def result_iff b intro!: framed_appends_then framed_perms)
qed

lemma file_name_component: "path_file_name p = Some n \<Longrightarrow> NormalComp n \<in> set (path_components p)"
  by (auto simp: path_file_name_def split: list.splits path_comp.splits)

lemma plain_name_components: "CHR ''/'' \<notin> set n \<Longrightarrow> n \<noteq> ''..'' \<Longrightarrow> ParentDir \<notin> set (path_components n)"
  by (simp add: components_parent_iff split_on_free)

lemma convert_whiteout_below:
  assumes d: "utf8_valid d" "d \<noteq> []" and tame: "tame_entry e" and name: "path_file_name (te_path e) = Some name"
  shows "framed (appends (below_op d)) (convert_whiteout K name (te_path e) uid gid mode d)"
proof -
  have up: "ParentDir \<notin> set (path_components (te_path e))" using tame by (simp add: tame_entry_def)
  have opaque: "path_below d (path_join d parent)"
    if "path_parent (te_path e) = Some parent" "name = WHITEOUT_OPAQUE_DIR" for parent
    using that tame name parent_relative parent_no_step_up below_open_dir [OF d(2)] by (simp add: tame_entry_def)
  have hidden: "path_below d p"
    if "path_parent (te_path e) = Some parent" "strip_prefix WHITEOUT_PREFIX name = Some n"
      "cstring_new (from_utf8_lossy d @ ''/'' @ from_utf8_lossy (path_join parent n)) = Inr p" for parent n p
  proof (rule cstring_below [OF that(3) d join_no_step_up])
    show "ParentDir \<notin> set (path_components parent)" using parent_no_step_up [OF that(1) up] .
    have "name = WHITEOUT_PREFIX @ n" using that(2) by (simp add: str_simps)
    then show "ParentDir \<notin> set (path_components n)"
      using tame name component_names [OF file_name_component [OF name]]
      by (intro plain_name_components) (auto simp: tame_entry_def)
  qed
  show ?thesis
    unfolding convert_whiteout_def
    by (rule framed_appends_then)
       (auto simp: result_iff below_op_def opaque Let_def intro!: framed_appends_then framed_perms dest: hidden)
qed

lemma unpack_entry_below:
  assumes "utf8_valid d" "d \<noteq> []" "\<And>e. f = Inr e \<Longrightarrow> tame_entry e"
  shows "framed (appends (below_op d)) (unpack_entry K d attr dirs f)"
proof -
  have w: "path_file_name (te_path e) = Some n"
    if "from_utf8 (case path_file_name (te_path e) of None \<Rightarrow> [] | Some n \<Rightarrow> n) = Some n" "is_whiteout n" for e n
    using that by (auto simp: result_iff is_whiteout_def WHITEOUT_PREFIX_def starts_with_iff split: option.splits)
  show ?thesis
    unfolding unpack_entry_def using assms
    by (intro framed_appends_then framed_appends_simps)
       (auto simp: result_iff tame_entry_def intro!: framed_appends_then unpack_regular_below convert_whiteout_below [OF assms(1,2)] w)
qed

lemma dirs_update: "\<forall>(k, v)\<in>set dirs. P k \<Longrightarrow> P p \<Longrightarrow> \<forall>(k, v)\<in>set (AList.update p t dirs). P k"
  by (induction dirs) auto

lemma unpack_entry_dirs:
  assumes "utf8_valid d" "d \<noteq> []" "\<And>e. f = Inr e \<Longrightarrow> tame_entry e"
    and "\<forall>(k, v)\<in>set dirs. path_below d k" and "unpack_entry K d attr dirs f s = (Inr dirs', s')"
  shows "\<forall>(k, v)\<in>set dirs'. path_below d k"
proof -
  have b: "path_below d p"
    if "f = Inr e" "cstring_new (from_utf8_lossy d @ ''/'' @ from_utf8_lossy (te_path e)) = Inr p" for e p
    using cstring_below [OF that(2) assms(1,2)] assms(3) [OF that(1)] by (simp add: tame_entry_def)
  show ?thesis
    using assms(4,5) by (auto simp: unpack_entry_def unpack_regular_def result_iff split: if_splits dest!: b
        intro!: dirs_update [THEN bspec, of dirs, simplified] dest: dirs_update)
qed

lemma unpack_entries_below:
  assumes "utf8_valid d" "d \<noteq> []" "\<And>e. Inr e \<in> set fs \<Longrightarrow> tame_entry e" "\<forall>(k, v)\<in>set dirs. path_below d k"
  shows "appends (below_op d) s (snd (unpack_entries K d attr dirs fs s)) \<and>
    (\<forall>dirs' s'. unpack_entries K d attr dirs fs s = (Inr dirs', s') \<longrightarrow> (\<forall>(k, v)\<in>set dirs'. path_below d k))"
  using assms(3,4)
proof (induction fs arbitrary: dirs s)
  case Nil
  then show ?case by simp
next
  case (Cons f fs)
  have tame: "\<And>e. f = Inr e \<Longrightarrow> tame_entry e" using Cons.prems(1) by simp
  obtain r s1 where e: "unpack_entry K d attr dirs f s = (r, s1)" by (metis surj_pair)
  have first: "appends (below_op d) s s1"
    using framedD [OF unpack_entry_below [OF assms(1,2) tame] e] .
  show ?case
  proof (cases r)
    case (Inl x)
    then show ?thesis using e first by simp
  next
    case (Inr dirs1)
    have "\<forall>(k, v)\<in>set dirs1. path_below d k"
      using unpack_entry_dirs [OF assms(1,2) tame Cons.prems(2)] e Inr by blast
    then show ?thesis using Cons.IH [of dirs1 s1] Cons.prems(1) e Inr first appends_trans by fastforce
  qed
qed

text \<open>
  C15. Unpacking stays in its directory: whatever the operating system answers, if the entries of the
  archive name nothing outside (no step upwards in a path, no absolute path for an opaque directory),
  then every call names the destination or a path below it. Symbolic links are resolved by the
  operating system and not seen here.
\<close>

theorem unpack_confined:
  assumes "utf8_valid d" "d \<noteq> []"
    and "\<And>entries e. archive = Inr entries \<Longrightarrow> Inr e \<in> set entries \<Longrightarrow> tame_entry e"
    and "unpack K archive d [] = (r, tr)"
  shows "\<forall>op\<in>set tr. path_below d (op_path op)"
proof -
  have entries: "appends (below_op d) s (snd (st_then (unpack_entries K d attr [] es)
      (st_for (\<lambda>(k, v). sys K (Utimes k v))) s))" if "archive = Inr es" for attr es s
  proof -
    obtain q s1 where e: "unpack_entries K d attr [] es s = (q, s1)" by (metis surj_pair)
    have b: "appends (below_op d) s s1" "\<And>dirs. q = Inr dirs \<Longrightarrow> \<forall>(k, v)\<in>set dirs. path_below d k"
      using unpack_entries_below [OF assms(1,2), of es "[]" s K attr] assms(3) [OF that] e by auto
    have "framed (appends (below_op d)) (st_for (\<lambda>(k, v). sys K (Utimes k v)) dirs)" if "q = Inr dirs" for dirs
      using b(2) [OF that] by (intro framed_appends_for) (auto simp: below_op_def)
    then show ?thesis using e b(1) appends_trans by (cases q) (auto simp: framed_def, blast)
  qed
  have front: "framed (appends (below_op d))
      (\<lambda>tr. if kn_exists K tr d then sys K (RemoveDirAll d) tr else st_ok () tr)"
    "framed (appends (below_op d)) (sys K (CreateDirAll d))" "framed (appends (below_op d)) (is_attr_available K d)"
    by (auto simp: is_attr_available_def framed_def sys_def appends_def below_op_def st_then_def
        split: prod.splits sum.splits)
  have "framed (appends (below_op d)) (unpack K archive d)"
    unfolding unpack_def
    by (rule framed_appends_then [OF front(1)], rule framed_appends_then [OF front(2)],
        rule framed_appends_then [OF front(3)], rule framed_appends_then [OF framed_appends_simps(3)])
       (use entries in \<open>simp add: framed_def result_iff\<close>)
  then have "appends (below_op d) [] tr" using assms(4) by (metis framedD)
  then show ?thesis by (auto simp: appends_def list_all_iff below_op_def)
qed

definition demo_kernel :: kernel where
  "demo_kernel = \<lparr>kn_call = (\<lambda>_ _. Inr ()), kn_exists = (\<lambda>_ _. False)\<rparr>"

definition demo_entry :: "string \<Rightarrow> tar_entry" where
  "demo_entry p = \<lparr>te_path = p, te_uid = Inr 7, te_gid = Inr 7, te_mode = Some 420, te_mtime = Inr 5, te_kind = RegularEntry,
     te_is_ustar = True, te_data = ''x''\<rparr>"

lemma demo_paths:
  "path_components ''etc/a'' = [NormalComp ''etc'', NormalComp ''a'']"
  "path_components ''etc/.wh.b'' = [NormalComp ''etc'', NormalComp ''.wh.b'']"
  "path_components ''../../etc/shadow'' = [ParentDir, ParentDir, NormalComp ''etc'', NormalComp ''shadow'']"
  "path_components ''/etc/.wh..wh..opq'' = [RootDir, NormalComp ''etc'', NormalComp ''.wh..wh..opq'']"
  by (simp_all add: path_components_def starts_with_def piece_comp_def)

lemma demo_strings: "is_ascii_str s \<Longrightarrow> from_utf8 s = Some s \<and> from_utf8_lossy s = s \<and> utf8_valid s"
  by (simp add: utf8_valid_ascii from_utf8_lossy_valid from_utf8_def)

lemmas demo_unpack = unpack_def unpack_entry_def unpack_regular_def convert_whiteout_def is_attr_available_def sys_def
  set_perms_ownerships_def demo_kernel_def demo_entry_def demo_paths path_file_name_def path_parent_def path_string_def
  path_join_def demo_strings is_ascii_str_def u32_field_def as_i64_def cstring_new_def is_whiteout_def WHITEOUT_PREFIX_def
  WHITEOUT_OPAQUE_DIR_def entry_is_dir_def starts_with_def st_then_def lift_result_def

theorem unpack_confined_witness:
  "list_all (\<lambda>op. path_below ''/l/0'' (op_path op)) [CreateDirAll ''/l/0'', OpenRead ''/l/0'', SetXattr ''/l/0'' ''user.overlay.origin'' [],
     UnpackEntry ''/l/0'' (demo_entry ''etc/a''), OpenWrite ''/l/0/etc/a'', Fchown ''/l/0/etc/a'' 7 7,
     Chmod ''/l/0/etc/a'' 420, SetFileTimes ''/l/0/etc/a'' 5,
     Mknod ''/l/0/etc/b'', Lchown ''/l/0/etc/b'' 7 7, Chmod ''/l/0/etc/b'' 420]"
proof -
  have run: "unpack demo_kernel (Inr [Inr (demo_entry ''etc/a''), Inr (demo_entry ''etc/.wh.b'')]) ''/l/0'' [] =
    (Inr (), [CreateDirAll ''/l/0'', OpenRead ''/l/0'', SetXattr ''/l/0'' ''user.overlay.origin'' [],
     UnpackEntry ''/l/0'' (demo_entry ''etc/a''), OpenWrite ''/l/0/etc/a'', Fchown ''/l/0/etc/a'' 7 7,
     Chmod ''/l/0/etc/a'' 420, SetFileTimes ''/l/0/etc/a'' 5,
     Mknod ''/l/0/etc/b'', Lchown ''/l/0/etc/b'' 7 7, Chmod ''/l/0/etc/b'' 420])" by (simp add: demo_unpack)
  have "tame_entry (demo_entry ''etc/a'')" "tame_entry (demo_entry ''etc/.wh.b'')"
    by (simp_all add: tame_entry_def demo_unpack)
  moreover have "utf8_valid ''/l/0''" by (simp add: demo_strings is_ascii_str_def)
  ultimately have "\<forall>op\<in>set (snd (unpack demo_kernel (Inr [Inr (demo_entry ''etc/a''), Inr (demo_entry ''etc/.wh.b'')]) ''/l/0'' [])).
      path_below ''/l/0'' (op_path op)"
    using unpack_confined [OF _ _ _ run] unfolding run by fastforce
  then show ?thesis unfolding run list_all_iff by simp
qed

text \<open>
  Without the premise nothing holds the entries back: the tar crate skips an entry with a step
  upwards, but its path is opened, and owner and mode are changed, all the same; and an absolute
  whiteout path replaces the destination.
\<close>

lemma entry_escapes:
  "OpenWrite ''/l/0/../../etc/shadow'' \<in> set (snd (unpack demo_kernel (Inr [Inr (demo_entry ''../../etc/shadow'')]) ''/l/0'' []))"
  "Chmod ''/l/0/../../etc/shadow'' 420 \<in> set (snd (unpack demo_kernel (Inr [Inr (demo_entry ''../../etc/shadow'')]) ''/l/0'' []))"
  "SetXattr ''/etc'' ''trusted.overlay.opaque'' ''y'' \<in>
     set (snd (unpack demo_kernel (Inr [Inr (demo_entry ''/etc/.wh..wh..opq'')]) ''/l/0'' []))"
  by (simp_all add: demo_unpack)

end
