(* ===== verification/Layer_Stream.thy ===== *)
theory Layer_Stream
  imports Layer_Unpack Ocicrypt_Blockcipher
begin

text \<open>
  \<open>image-rs/src/digest.rs\<close>, \<open>stream.rs\<close>, \<open>decoder/mod.rs\<close> and the counting reader of \<open>pull.rs\<close>: the readers
  that a layer passes through on its way from the registry to the directory. A reader is polled with
  the filled part of the buffer and the number of free bytes; a consumer polls it with buffers of its
  choice until it fails or has nothing more.
\<close>

section \<open>Polling a reader to its end\<close>

type_synonym 'r poll_buf = "'r \<Rightarrow> bytes \<Rightarrow> nat \<Rightarrow> (io_error, unit) result poll \<times> bytes \<times> 'r"

definition into_buf :: "'r poll_fn \<Rightarrow> 'r poll_buf" where
  "into_buf prd r filled n =
     (case prd r n of
        (Pending, r') \<Rightarrow> (Pending, filled, r')
      | (Ready (Inl e), r') \<Rightarrow> (Ready (Inl e), filled, r')
      | (Ready (Inr b), r') \<Rightarrow> (Ready (Inr ()), filled @ b, r'))"

text \<open>How a stream ends: normally, with an error, or because the consumer stopped to read.\<close>

datatype stream_end = Eof | Failed io_error | Dropped

type_synonym byte_stream = "bytes \<times> stream_end"

fun poll_drain :: "'r poll_buf \<Rightarrow> nat list \<Rightarrow> 'r \<Rightarrow> byte_stream \<times> 'r" where
  "poll_drain prd [] r = (([], Dropped), r)"
| "poll_drain prd (n # ns) r =
     (case prd r [] n of
        (Pending, _, r') \<Rightarrow> poll_drain prd ns r'
      | (Ready (Inl e), _, r') \<Rightarrow> (([], Failed e), r')
      | (Ready (Inr _), b, r') \<Rightarrow>
          (if b = [] then (([], Eof), r')
           else (case poll_drain prd ns r' of ((bs, en), r'') \<Rightarrow> ((b @ bs, en), r''))))"

text \<open>The output of a decompressor, read in pieces.\<close>

definition stream_poll :: "byte_stream poll_buf" where
  "stream_poll s filled n =
     (case s of (bs, en) \<Rightarrow>
        if bs \<noteq> [] then (Ready (Inr ()), filled @ take n bs, (drop n bs, en))
        else (case en of Failed e \<Rightarrow> (Ready (Inl e), filled, s) | _ \<Rightarrow> (Ready (Inr ()), filled, s)))"

section \<open>Digests of layers\<close>

record 'h hashes =
  sha256_new :: 'h
  sha512_new :: 'h
  sha256_update :: "'h \<Rightarrow> bytes \<Rightarrow> 'h"
  sha512_update :: "'h \<Rightarrow> bytes \<Rightarrow> 'h"
  sha256_hex :: "'h \<Rightarrow> string"
  sha512_hex :: "'h \<Rightarrow> string"

definition DIGEST_SHA256_PREFIX :: string where "DIGEST_SHA256_PREFIX = ''sha256:''"
definition DIGEST_SHA512_PREFIX :: string where "DIGEST_SHA512_PREFIX = ''sha512:''"

datatype 'h layer_digest_hasher = Sha256 'h | Sha512 'h

fun digest_update :: "'h hashes \<Rightarrow> 'h layer_digest_hasher \<Rightarrow> bytes \<Rightarrow> 'h layer_digest_hasher" where
  "digest_update H (Sha256 hasher) buf = Sha256 (sha256_update H hasher buf)"
| "digest_update H (Sha512 hasher) buf = Sha512 (sha512_update H hasher buf)"

fun digest_finalize :: "'h hashes \<Rightarrow> 'h layer_digest_hasher \<Rightarrow> string" where
  "digest_finalize H (Sha256 hasher) = DIGEST_SHA256_PREFIX @ sha256_hex H hasher"
| "digest_finalize H (Sha512 hasher) = DIGEST_SHA512_PREFIX @ sha512_hex H hasher"

text \<open>What a hash promises: data may be fed in pieces.\<close>

definition hash_laws :: "'h hashes \<Rightarrow> bool" where
  "hash_laws H \<longleftrightarrow>
     (\<forall>h x y. sha256_update H h (x @ y) = sha256_update H (sha256_update H h x) y) \<and>
     (\<forall>h. sha256_update H h [] = h) \<and>
     (\<forall>h x y. sha512_update H h (x @ y) = sha512_update H (sha512_update H h x) y) \<and>
     (\<forall>h. sha512_update H h [] = h)"

section \<open>Readers that watch what passes\<close>

definition hash_poll_read :: "'h hashes \<Rightarrow> 'r poll_buf \<Rightarrow> ('r \<times> 'h layer_digest_hasher) poll_buf" where
  "hash_poll_read H prd s filled n =
     (case s of (r, hasher) \<Rightarrow>
        (case prd r filled n of
           (Ready (Inr _), buf, r') \<Rightarrow>
             (Ready (Inr ()), buf, (r', digest_update H hasher (drop (length filled) buf)))
         | (other, buf, r') \<Rightarrow> (other, buf, (r', hasher))))"

text \<open>The counter is an atomic 64-bit integer, whose addition wraps around.\<close>

definition counting_poll_read :: "'r poll_buf \<Rightarrow> ('r \<times> nat) poll_buf" where
  "counting_poll_read prd s filled n =
     (case s of (r, copied) \<Rightarrow>
        (case prd r filled n of
           (Ready (Inr _), buf, r') \<Rightarrow>
             (Ready (Inr ()), buf, (r', (copied + (length buf - length filled)) mod 2 ^ 64))
         | (other, buf, r') \<Rightarrow> (other, buf, (r', copied))))"

section \<open>Decompression\<close>

datatype compression = Uncompressed | Gzip | Zstd

text \<open>The media types of the OCI crates.\<close>

datatype oci_media_type =
    ImageLayer | ImageLayerNonDistributable
  | ImageLayerGzip | ImageLayerNonDistributableGzip
  | ImageLayerZstd | ImageLayerNonDistributableZstd
  | OtherMediaType string

record media_consts =
  mc_from :: "string \<Rightarrow> oci_media_type"
  mc_docker_layer_gzip :: string
  mc_layer :: string
  mc_layer_gzip :: string

record codec_crates =
  cc_gunzip :: "byte_stream \<Rightarrow> byte_stream"
  cc_unzstd :: "byte_stream \<Rightarrow> byte_stream"

definition compression_try_from :: "media_consts \<Rightarrow> string \<Rightarrow> (string, compression) result" where
  "compression_try_from M s =
     (let media_type_str = (if s = mc_docker_layer_gzip M then mc_layer_gzip M else s)
      in (case mc_from M media_type_str of
            ImageLayer \<Rightarrow> Inr Uncompressed
          | ImageLayerNonDistributable \<Rightarrow> Inr Uncompressed
          | ImageLayerGzip \<Rightarrow> Inr Gzip
          | ImageLayerNonDistributableGzip \<Rightarrow> Inr Gzip
          | ImageLayerZstd \<Rightarrow> Inr Zstd
          | ImageLayerNonDistributableZstd \<Rightarrow> Inr Zstd
          | OtherMediaType t \<Rightarrow> Inl t))"

fun async_decompress :: "codec_crates \<Rightarrow> compression \<Rightarrow> byte_stream \<Rightarrow> byte_stream" where
  "async_decompress Z Gzip s = cc_gunzip Z s"
| "async_decompress Z Zstd s = cc_unzstd Z s"
| "async_decompress Z Uncompressed s = s"

section \<open>Processing a stream\<close>

datatype stream_error = BadUncompressedDigest string | RollBackFailed unpack_error | UnpackFailed unpack_error

type_synonym tar_crate = "byte_stream \<Rightarrow> (string, (string, tar_entry) result list) result"

definition async_processing ::
  "'h hashes \<Rightarrow> tar_crate \<Rightarrow> kernel \<Rightarrow> 'r poll_buf \<Rightarrow> nat list \<Rightarrow> 'r \<Rightarrow> 'h layer_digest_hasher \<Rightarrow> string \<Rightarrow>
     (fs_op list, stream_error, string) stateful" where
  "async_processing H tar K prd sizes layer_reader hasher destination ops =
     (case poll_drain (hash_poll_read H prd) sizes (layer_reader, hasher) of
        (s, (_, hasher')) \<Rightarrow>
          (case unpack K (tar s) destination ops of
             (Inl e, ops') \<Rightarrow>
               (case sys K (RemoveDirAll destination) ops' of
                  (Inl e', ops'') \<Rightarrow> (Inl (RollBackFailed e'), ops'')
                | (Inr _, ops'') \<Rightarrow> (Inl (UnpackFailed e), ops''))
           | (Inr _, ops') \<Rightarrow> (Inr (digest_finalize H hasher'), ops')))"

definition hasher_for :: "'h hashes \<Rightarrow> string \<Rightarrow> (stream_error, 'h layer_digest_hasher) result" where
  "hasher_for H diff_id =
     (if starts_with DIGEST_SHA256_PREFIX diff_id then Inr (Sha256 (sha256_new H))
      else if starts_with DIGEST_SHA512_PREFIX diff_id then Inr (Sha512 (sha512_new H))
      else Inl (BadUncompressedDigest diff_id))"

definition stream_processing ::
  "'h hashes \<Rightarrow> tar_crate \<Rightarrow> kernel \<Rightarrow> 'r poll_buf \<Rightarrow> nat list \<Rightarrow> 'r \<Rightarrow> string \<Rightarrow> string \<Rightarrow>
     (fs_op list, stream_error, string) stateful" where
  "stream_processing H tar K prd sizes layer_reader diff_id destination =
     st_then (lift_result (hasher_for H diff_id)) (\<lambda>hasher.
       async_processing H tar K prd sizes layer_reader hasher destination)"

section \<open>What the readers see\<close>

lemma digest_update_pieces:
  "hash_laws H \<Longrightarrow> digest_update H h (x @ y) = digest_update H (digest_update H h x) y"
  "hash_laws H \<Longrightarrow> digest_update H h [] = h"
  by (cases h; simp add: hash_laws_def)+

text \<open>The hashing reader passes everything on and has hashed exactly what has passed.\<close>

lemma hash_drain:
  assumes "hash_laws H"
  shows "poll_drain (hash_poll_read H prd) ns (r, h) =
    (case poll_drain prd ns r of ((bs, en), r') \<Rightarrow> ((bs, en), (r', digest_update H h bs)))"
proof (induction ns arbitrary: r h)
  case Nil
  then show ?case using assms by (simp add: digest_update_pieces)
next
  case (Cons n ns)
  then show ?case using assms
    by (auto simp: hash_poll_read_def digest_update_pieces split: prod.splits poll.splits sum.splits)
qed

lemma count_drain:
  "c < 2 ^ 64 \<Longrightarrow> poll_drain (counting_poll_read prd) ns (r, c) =
    (case poll_drain prd ns r of ((bs, en), r') \<Rightarrow> ((bs, en), (r', (c + length bs) mod 2 ^ 64)))"
proof (induction ns arbitrary: r c)
  case Nil
  then show ?case by simp
next
  case (Cons n ns)
  have "(c + k) mod 2 ^ 64 < (2 :: nat) ^ 64" for k by simp
  then show ?case using Cons
    by (auto simp: counting_poll_read_def mod_simps add.assoc split: prod.splits poll.splits sum.splits)
qed

lemma async_processing_ok:
  assumes "hash_laws H"
  shows "async_processing H tar K prd sizes r h dest ops = (Inr d, ops') \<longleftrightarrow>
    unpack K (tar (fst (poll_drain prd sizes r))) dest ops = (Inr (), ops') \<and>
    d = digest_finalize H (digest_update H h (fst (fst (poll_drain prd sizes r))))"
proof -
  obtain bs en r' where s: "poll_drain prd sizes r = ((bs, en), r')" by (metis surj_pair)
  obtain q o' where u: "unpack K (tar (bs, en)) dest ops = (q, o')" by (metis surj_pair)
  show ?thesis
    using s u by (cases q) (auto simp: async_processing_def hash_drain [OF assms] sys_def map_err_def split: sum.splits)
qed

lemma stream_processing_ok:
  assumes "hash_laws H"
  shows "stream_processing H tar K prd sizes r diff_id dest ops = (Inr d, ops') \<longleftrightarrow>
    (\<exists>h. hasher_for H diff_id = Inr h \<and>
       unpack K (tar (fst (poll_drain prd sizes r))) dest ops = (Inr (), ops') \<and>
       d = digest_finalize H (digest_update H h (fst (fst (poll_drain prd sizes r)))))"
  by (auto simp: stream_processing_def async_processing_ok [OF assms] result_iff)

end
