(* ===== verification/Layer_Pull.thy ===== *)
theory Layer_Pull
  imports Layer_Stream Ocicrypt_Encryption
begin

text \<open>
  \<open>image-rs/src/layer_store.rs\<close>, \<open>decrypt.rs\<close> and \<open>pull.rs\<close>: the layers of an image are fetched
  concurrently, each with up to three attempts, decrypted, decompressed, hashed and unpacked below
  the layer store. What the outside does in attempt \<open>a\<close> for layer \<open>i\<close> (the answer of the registry, the
  sizes of the buffers, a timeout, the operating system) is the \<open>attempt\<close> record of the environment.
\<close>

section \<open>The layer store\<close>

record layer_store =
  ls_data_dir :: string
  ls_index :: nat

record dir_ent =
  de_name :: bytes
  de_is_dir :: "(string, bool) result"

text \<open>\<open>next = n + 1\<close> on \<open>usize\<close>.\<close>

definition layer_index_step :: "nat \<Rightarrow> (string, dir_ent) result \<Rightarrow> (string, nat) result" where
  "layer_index_step next path =
     and_then path (\<lambda>entry_path.
     and_then (de_is_dir entry_path) (\<lambda>is_dir.
     if \<not> is_dir then Inr next
     else (case from_utf8 (de_name entry_path) of
         None \<Rightarrow> Inr next
       | Some file_name \<Rightarrow>
           (case parse_usize file_name of
              None \<Rightarrow> Inr next
            | Some n \<Rightarrow> Inr (if next \<le> n then (n + 1) mod 2 ^ 64 else next)))))"

definition get_layer_index ::
  "bool \<Rightarrow> (string, (string, dir_ent) result list) result \<Rightarrow> (string, nat) result" where
  "get_layer_index exists_dir read_dir =
     (if \<not> exists_dir then Inr 0 else and_then read_dir (try_fold layer_index_step 0))"

definition layer_store_new ::
  "string \<Rightarrow> (string \<Rightarrow> bool) \<Rightarrow> (string \<Rightarrow> (string, (string, dir_ent) result list) result) \<Rightarrow>
     (string, layer_store) result" where
  "layer_store_new work_dir exists_dir read_dir =
     (let data_dir = path_join work_dir ''layers''
      in and_then (get_layer_index (exists_dir data_dir) (read_dir data_dir)) (\<lambda>index.
           Inr \<lparr>ls_data_dir = data_dir, ls_index = index\<rparr>))"

definition new_layer_store_path :: "layer_store \<Rightarrow> string \<times> layer_store" where
  "new_layer_store_path st =
     (path_join (ls_data_dir st) (nat_str (ls_index st)), st\<lparr>ls_index := (ls_index st + 1) mod 2 ^ 64\<rparr>)"

section \<open>Descriptors and metadata\<close>

record oci_descriptor =
  od_media_type :: string
  od_digest :: string
  od_size :: int
  od_annotations :: "annotations option"

record layer_meta =
  lm_decoder :: compression
  lm_encrypted :: bool
  lm_compressed_digest :: string
  lm_uncompressed_digest :: string
  lm_store_path :: string

definition layer_meta_default :: layer_meta where
  "layer_meta_default =
     \<lparr>lm_decoder = Gzip, lm_encrypted = False, lm_compressed_digest = [], lm_uncompressed_digest = [],
      lm_store_path = []\<rparr>"

section \<open>Decryption\<close>

definition MEDIA_TYPE_LAYER_ENC :: string where
  "MEDIA_TYPE_LAYER_ENC = ''application/vnd.oci.image.layer.v1.tar+encrypted''"
definition MEDIA_TYPE_LAYER_GZIP_ENC :: string where
  "MEDIA_TYPE_LAYER_GZIP_ENC = ''application/vnd.oci.image.layer.v1.tar+gzip+encrypted''"
definition MEDIA_TYPE_LAYER_NON_DISTRIBUTABLE_ENC :: string where
  "MEDIA_TYPE_LAYER_NON_DISTRIBUTABLE_ENC = ''application/vnd.oci.image.layer.nondistributable.v1.tar+encrypted''"
definition MEDIA_TYPE_LAYER_NON_DISTRIBUTABLE_GZIP_ENC :: string where
  "MEDIA_TYPE_LAYER_NON_DISTRIBUTABLE_GZIP_ENC =
     ''application/vnd.oci.image.layer.nondistributable.v1.tar+gzip+encrypted''"

record decryptor =
  dr_media_type :: string
  dr_encrypted :: bool

datatype decrypt_error =
    UnencryptedMediaType string
  | EmptyDecryptConfig
  | DecryptConfigFailed config_error
  | DecryptKeyFailed enc_error
  | NoDecryptConfig
  | MissingDecryptor
  | DecryptRead io_error

definition decryptor_from_media_type :: "media_consts \<Rightarrow> string \<Rightarrow> decryptor" where
  "decryptor_from_media_type M media_type =
     (if media_type = MEDIA_TYPE_LAYER_ENC \<or> media_type = MEDIA_TYPE_LAYER_NON_DISTRIBUTABLE_ENC
      then \<lparr>dr_media_type = mc_layer M, dr_encrypted = True\<rparr>
      else if media_type = MEDIA_TYPE_LAYER_GZIP_ENC \<or> media_type = MEDIA_TYPE_LAYER_NON_DISTRIBUTABLE_GZIP_ENC
      then \<lparr>dr_media_type = mc_layer_gzip M, dr_encrypted = True\<rparr>
      else \<lparr>dr_media_type = [], dr_encrypted = False\<rparr>)"

definition get_decrypt_key ::
  "registry \<Rightarrow> codecs \<Rightarrow> fs_env \<Rightarrow> decryptor \<Rightarrow> oci_descriptor \<Rightarrow> string option \<Rightarrow>
     (decrypt_error, bytes) result" where
  "get_decrypt_key R K E d descriptor decrypt_config =
     (if \<not> dr_encrypted d then Inl (UnencryptedMediaType (dr_media_type d))
      else
        (let keys = (case decrypt_config of Some c \<Rightarrow> [c] | None \<Rightarrow> [])
         in and_then (map_err DecryptConfigFailed (create_decrypt_config E keys [])) (\<lambda>cc.
            case cc_decrypt_config cc of
              Some dc \<Rightarrow> map_err DecryptKeyFailed (decrypt_layer_key_opts_data R K dc (od_annotations descriptor))
            | None \<Rightarrow> Inl NoDecryptConfig)))"

definition async_get_plaintext_layer ::
  "codecs \<Rightarrow> ('c, 'm, 'g) crypto \<Rightarrow> 'r \<Rightarrow> oci_descriptor \<Rightarrow> bytes \<Rightarrow> 'g \<Rightarrow>
     (decrypt_error, ('c, 'm, 'r) layer_handler) result" where
  "async_get_plaintext_layer K C encrypted_layer descriptor priv_opts_data g =
     and_then (map_err DecryptKeyFailed
       (fst (async_decrypt_layer K C encrypted_layer (od_annotations descriptor) priv_opts_data g)))
       (\<lambda>(layer_decryptor, dec_digest). Inr layer_decryptor)"

text \<open>The synchronous variant reads from a slice; \<open>sizes\<close> are the buffers of \<open>read_to_end\<close>.\<close>

definition decrypt_layer_data ::
  "registry \<Rightarrow> codecs \<Rightarrow> ('c, 'm, 'g) crypto \<Rightarrow> nat list \<Rightarrow> bytes \<Rightarrow> oci_descriptor \<Rightarrow> crypto_config \<Rightarrow> 'g \<Rightarrow>
     (decrypt_error, bytes \<times> string) result option" where
  "decrypt_layer_data R K C sizes encrypted_layer descriptor cc g =
     (case cc_decrypt_config cc of
        None \<Rightarrow> Some (Inl NoDecryptConfig)
      | Some dc \<Rightarrow>
          (case fst (decrypt_layer R K C dc encrypted_layer (od_annotations descriptor) False g) of
             Inl e \<Rightarrow> Some (Inl (DecryptKeyFailed e))
           | Inr (None, _) \<Rightarrow> Some (Inl MissingDecryptor)
           | Inr (Some h, dec_digest) \<Rightarrow>
               (case read_to_end (handler_read C slice_read) sizes [] h of
                  None \<Rightarrow> None
                | Some (Inl e, _) \<Rightarrow> Some (Inl (DecryptRead e))
                | Some (Inr plaintext, _) \<Rightarrow> Some (Inr (plaintext, dec_digest)))))"

definition get_plaintext_layer ::
  "registry \<Rightarrow> codecs \<Rightarrow> ('c, 'm, 'g) crypto \<Rightarrow> fs_env \<Rightarrow> nat list \<Rightarrow> decryptor \<Rightarrow> oci_descriptor \<Rightarrow> bytes \<Rightarrow>
     string \<Rightarrow> 'g \<Rightarrow> (decrypt_error, bytes) result option" where
  "get_plaintext_layer R K C E sizes d descriptor encrypted_layer decrypt_config g =
     (if \<not> dr_encrypted d then Some (Inl (UnencryptedMediaType (dr_media_type d)))
      else if decrypt_config = [] then Some (Inl EmptyDecryptConfig)
      else (case create_decrypt_config E [decrypt_config] [] of
          Inl e \<Rightarrow> Some (Inl (DecryptConfigFailed e))
        | Inr cc \<Rightarrow>
            map_option (\<lambda>r. and_then r (\<lambda>(plaintext, _). Inr plaintext))
              (decrypt_layer_data R K C sizes encrypted_layer descriptor cc g)))"

section \<open>One attempt\<close>

definition LAYER_PULL_ATTEMPTS :: nat where "LAYER_PULL_ATTEMPTS = 3"

datatype pull_error =
    StreamTimeout
  | StreamOpen string
  | DecryptFailed decrypt_error
  | BadMediaType string
  | ProcessingFailed stream_error
  | UnpackTimeout
  | SizeMismatch int nat
  | DigestMismatch string string
  | AttemptsFailed nat pull_error
  | DiffIdOutOfBounds nat

text \<open>
  The outside during one attempt: the stream of the blob (\<open>None\<close> if it was not opened in time), the
  buffer sizes of the decompressor and of the tar crate, the number of calls done when the unpack
  timeout struck, if it did, the operating system and the random generator.
\<close>

record ('r, 'g) attempt =
  at_stream :: "(string, 'r) result option"
  at_decoder_sizes :: "nat list"
  at_tar_sizes :: "nat list"
  at_unpack_timeout :: "nat option"
  at_kernel :: kernel
  at_rand :: 'g

record ('r, 'c, 'm, 'g, 'h) pull_env =
  le_media :: media_consts
  le_codec :: codec_crates
  le_tar :: tar_crate
  le_hashes :: "'h hashes"
  le_registry :: registry
  le_codecs :: codecs
  le_crypto :: "('c, 'm, 'g) crypto"
  le_fs :: fs_env
  le_poll :: "'r poll_fn"
  le_attempt :: "nat \<Rightarrow> nat \<Rightarrow> ('r, 'g) attempt"

definition async_decompress_unpack_layer ::
  "('r, 'c, 'm, 'g, 'h) pull_env \<Rightarrow> ('r, 'g) attempt \<Rightarrow> byte_stream \<Rightarrow> string \<Rightarrow> string \<Rightarrow> string \<Rightarrow>
     (fs_op list, pull_error, string) stateful" where
  "async_decompress_unpack_layer E A input diff_id media_type destination =
     st_then (lift_result (map_err BadMediaType (compression_try_from (le_media E) media_type))) (\<lambda>decoder.
       st_map_err ProcessingFailed
         (stream_processing (le_hashes E) (le_tar E) (at_kernel A) stream_poll (at_tar_sizes A)
            (async_decompress (le_codec E) decoder input) diff_id destination))"

text \<open>A timeout drops the future at one of its await points.\<close>

definition async_decompress_unpack_layer_with_timeout ::
  "('r, 'c, 'm, 'g, 'h) pull_env \<Rightarrow> ('r, 'g) attempt \<Rightarrow> byte_stream \<Rightarrow> string \<Rightarrow> string \<Rightarrow> string \<Rightarrow>
     (fs_op list, pull_error, string) stateful" where
  "async_decompress_unpack_layer_with_timeout E A input diff_id media_type destination ops =
     (case async_decompress_unpack_layer E A input diff_id media_type destination ops of
        (r, ops') \<Rightarrow>
          (case at_unpack_timeout A of
             None \<Rightarrow> (r, ops')
           | Some k \<Rightarrow> (Inl UnpackTimeout, take (length ops + k) ops')))"

definition handle_layer_body ::
  "('r, 'c, 'm, 'g, 'h) pull_env \<Rightarrow> ('r, 'g) attempt \<Rightarrow> oci_descriptor \<Rightarrow> string \<Rightarrow> string option \<Rightarrow> 'r \<Rightarrow>
     string \<Rightarrow> (fs_op list, pull_error, layer_meta) stateful" where
  "handle_layer_body E A layer diff_id decrypt_config layer_reader destination =
     (let layer_meta = layer_meta_default\<lparr>lm_compressed_digest := od_digest layer,
            lm_store_path := from_utf8_lossy destination\<rparr>;
          d = decryptor_from_media_type (le_media E) (od_media_type layer)
      in st_then
           (if dr_encrypted d then
              st_then (lift_result (map_err DecryptFailed
                 (get_decrypt_key (le_registry E) (le_codecs E) (le_fs E) d layer decrypt_config))) (\<lambda>decrypt_key.
              st_then (lift_result (map_err DecryptFailed
                 (async_get_plaintext_layer (le_codecs E) (le_crypto E) layer_reader layer decrypt_key (at_rand A))))
                (\<lambda>plaintext_layer.
              st_then (async_decompress_unpack_layer_with_timeout E A
                  (fst (poll_drain (handler_poll_read (le_crypto E) (le_poll E)) (at_decoder_sizes A) plaintext_layer))
                  diff_id (dr_media_type d) destination) (\<lambda>uncompressed_digest.
              st_ok (layer_meta\<lparr>lm_uncompressed_digest := uncompressed_digest, lm_encrypted := True\<rparr>))))
            else
              (case poll_drain (counting_poll_read (into_buf (le_poll E))) (at_decoder_sizes A) (layer_reader, 0) of
                 (input, (_, copied)) \<Rightarrow>
                   st_then (async_decompress_unpack_layer_with_timeout E A input diff_id (od_media_type layer)
                       destination) (\<lambda>uncompressed_digest.
                   if 0 < od_size layer \<and> int copied \<noteq> od_size layer
                   then st_err (SizeMismatch (od_size layer) copied)
                   else st_ok (layer_meta\<lparr>lm_uncompressed_digest := uncompressed_digest\<rparr>))))
           (\<lambda>layer_meta.
             if lm_uncompressed_digest layer_meta \<noteq> diff_id
             then st_err (DigestMismatch (lm_uncompressed_digest layer_meta) diff_id)
             else st_ok layer_meta))"

record pull_world =
  pw_store :: layer_store
  pw_ops :: "fs_op list"

definition async_handle_layer ::
  "('r, 'c, 'm, 'g, 'h) pull_env \<Rightarrow> ('r, 'g) attempt \<Rightarrow> (string \<rightharpoonup> layer_meta) \<Rightarrow> oci_descriptor \<Rightarrow> string \<Rightarrow>
     string option \<Rightarrow> 'r \<Rightarrow> (pull_world, pull_error, layer_meta) stateful" where
  "async_handle_layer E A layer_db layer diff_id decrypt_config layer_reader w =
     (case layer_db (od_digest layer) of
        Some layer_meta \<Rightarrow> (Inr layer_meta, w)
      | None \<Rightarrow>
          (case new_layer_store_path (pw_store w) of
             (destination, store) \<Rightarrow>
               (case handle_layer_body E A layer diff_id decrypt_config layer_reader destination [] of
                  (Inr layer_meta, ops) \<Rightarrow>
                    (Inr layer_meta, \<lparr>pw_store = store, pw_ops = pw_ops w @ ops\<rparr>)
                | (Inl e, ops) \<Rightarrow>
                    (Inl e, \<lparr>pw_store = store, pw_ops = pw_ops w @ ops @ [RemoveDirAll destination]\<rparr>))))"

definition pull_layer_once ::
  "('r, 'c, 'm, 'g, 'h) pull_env \<Rightarrow> ('r, 'g) attempt \<Rightarrow> (string \<rightharpoonup> layer_meta) \<Rightarrow> oci_descriptor \<Rightarrow> string \<Rightarrow>
     string option \<Rightarrow> (pull_world, pull_error, layer_meta) stateful" where
  "pull_layer_once E A layer_db layer diff_id decrypt_config =
     (case at_stream A of
        None \<Rightarrow> st_err StreamTimeout
      | Some (Inl e) \<Rightarrow> st_err (StreamOpen e)
      | Some (Inr layer_reader) \<Rightarrow> async_handle_layer E A layer_db layer diff_id decrypt_config layer_reader)"

section \<open>All layers\<close>

text \<open>
  The layer store of the client is only written by the pulls of the client, and the database of the
  layers is not written while they are pulled.
\<close>

record pull_job =
  pj_descs :: "oci_descriptor list"
  pj_diff_ids :: "string list"
  pj_decrypt_config :: "string option"
  pj_layer_db :: "string \<rightharpoonup> layer_meta"
  pj_max :: nat

datatype retry = Finished layer_meta | Again | GaveUp pull_error

text \<open>One round of the loop of \<open>pull_layer_with_retry\<close>, between two of its sleeps.\<close>

definition pull_layer_round ::
  "('r, 'c, 'm, 'g, 'h) pull_env \<Rightarrow> pull_job \<Rightarrow> nat \<Rightarrow> nat \<Rightarrow> pull_world \<Rightarrow> retry \<times> pull_world" where
  "pull_layer_round E J index attempt w =
     (if length (pj_diff_ids J) \<le> index then (GaveUp (DiffIdOutOfBounds index), w)
      else
        (let layer = pj_descs J ! index
         in (case pj_layer_db J (od_digest layer) of
               Some layer_meta \<Rightarrow> (Finished layer_meta, w)
             | None \<Rightarrow>
                 (case pull_layer_once E (le_attempt E index attempt) (pj_layer_db J) layer
                         (pj_diff_ids J ! index) (pj_decrypt_config J) w of
                    (Inr layer_meta, w') \<Rightarrow> (Finished layer_meta, w')
                  | (Inl err, w') \<Rightarrow>
                      (if attempt < LAYER_PULL_ATTEMPTS then Again
                       else GaveUp (AttemptsFailed LAYER_PULL_ATTEMPTS err), w')))))"

record pull_state =
  ps_world :: pull_world
  ps_started :: nat
  ps_running :: "(nat \<times> nat) list"
  ps_done :: "(nat \<times> layer_meta) list"
  ps_failed :: "pull_error option"

definition pull_init :: "pull_world \<Rightarrow> pull_state" where
  "pull_init w = \<lparr>ps_world = w, ps_started = 0, ps_running = [], ps_done = [], ps_failed = None\<rparr>"

definition can_start :: "pull_job \<Rightarrow> pull_state \<Rightarrow> bool" where
  "can_start J s \<longleftrightarrow> ps_started s < length (pj_descs J) \<and> length (ps_running s) < pj_max J"

definition start_layer :: "pull_state \<Rightarrow> pull_state" where
  "start_layer s = s\<lparr>ps_started := Suc (ps_started s), ps_running := ps_running s @ [(ps_started s, 1)]\<rparr>"

text \<open>The future at position \<open>k\<close> makes one round.\<close>

definition run_layer :: "('r, 'c, 'm, 'g, 'h) pull_env \<Rightarrow> pull_job \<Rightarrow> nat \<Rightarrow> pull_state \<Rightarrow> pull_state" where
  "run_layer E J k s =
     (case ps_running s ! k of
        (index, attempt) \<Rightarrow>
          (let others = take k (ps_running s) @ drop (Suc k) (ps_running s)
           in (case pull_layer_round E J index attempt (ps_world s) of
                 (Finished m, w) \<Rightarrow> s\<lparr>ps_world := w, ps_running := others, ps_done := ps_done s @ [(index, m)]\<rparr>
               | (Again, w) \<Rightarrow> s\<lparr>ps_world := w, ps_running := (ps_running s)[k := (index, Suc attempt)]\<rparr>
               | (GaveUp err, w) \<Rightarrow> s\<lparr>ps_world := w, ps_running := others, ps_failed := Some err\<rparr>)))"

text \<open>
  \<open>buffer_unordered\<close>: while layers are left and fewer than the maximum run, the next one is started;
  any of the running ones may be the next to make progress, until the first error.
\<close>

inductive pull_step :: "('r, 'c, 'm, 'g, 'h) pull_env \<Rightarrow> pull_job \<Rightarrow> pull_state \<Rightarrow> pull_state \<Rightarrow> bool"
  for E J where
  start: "ps_failed s = None \<Longrightarrow> can_start J s \<Longrightarrow> pull_step E J s (start_layer s)"
| round: "ps_failed s = None \<Longrightarrow> k < length (ps_running s) \<Longrightarrow> pull_step E J s (run_layer E J k s)"

text \<open>\<open>try_collect\<close>, and the values of the map from indices.\<close>

definition pull_result :: "pull_job \<Rightarrow> pull_state \<Rightarrow> (pull_error, layer_meta list) result option" where
  "pull_result J s =
     (case ps_failed s of
        Some e \<Rightarrow> Some (Inl e)
      | None \<Rightarrow>
          (if ps_started s = length (pj_descs J) \<and> ps_running s = []
           then Some (Inr (map snd (sort_key fst (ps_done s)))) else None))"

text \<open>
  An executable run: the list says which of the running futures is the next, and the value is \<open>None\<close>
  if it ends before the pull does, or if nothing runs and nothing may be started.
\<close>

fun async_pull_layers ::
  "('r, 'c, 'm, 'g, 'h) pull_env \<Rightarrow> pull_job \<Rightarrow> nat list \<Rightarrow> pull_state \<Rightarrow>
     ((pull_error, layer_meta list) result \<times> pull_world) option" where
  "async_pull_layers E J [] s = map_option (\<lambda>r. (r, ps_world s)) (pull_result J s)"
| "async_pull_layers E J (k # ks) s =
     (case pull_result J s of
        Some r \<Rightarrow> Some (r, ps_world s)
      | None \<Rightarrow>
          (if can_start J s then async_pull_layers E J ks (start_layer s)
           else if ps_running s = [] then None
           else async_pull_layers E J ks (run_layer E J (k mod length (ps_running s)) s)))"

datatype bootstrap_error = BootstrapPull pull_error | NoBootstrap

definition pull_bootstrap ::
  "('r, 'c, 'm, 'g, 'h) pull_env \<Rightarrow> (string \<rightharpoonup> layer_meta) \<Rightarrow> nat \<Rightarrow> nat list \<Rightarrow> oci_descriptor \<Rightarrow> string \<Rightarrow>
     string option \<Rightarrow> pull_world \<Rightarrow> ((bootstrap_error, layer_meta) result \<times> pull_world) option" where
  "pull_bootstrap E layer_db max_dl ks desc diff_id decrypt_config w =
     map_option (\<lambda>(r, w'). (and_then (map_err BootstrapPull r) (\<lambda>layer_metas.
         case layer_metas of b # _ \<Rightarrow> Inr b | [] \<Rightarrow> Inl NoBootstrap), w'))
       (async_pull_layers E \<lparr>pj_descs = [desc], pj_diff_ids = [diff_id], pj_decrypt_config = decrypt_config,
          pj_layer_db = layer_db, pj_max = max_dl\<rparr> ks (pull_init w))"

section \<open>Every run ends\<close>

text \<open>
  Every step uses up one of the rounds that are left. A pull without a bound of zero never stands
  still, so each run of the futures ends after at most four steps for a layer.
\<close>

definition rounds_left :: "pull_job \<Rightarrow> pull_state \<Rightarrow> nat" where
  "rounds_left J s =
     (if ps_failed s \<noteq> None then 0
      else 4 * (length (pj_descs J) - ps_started s) + sum_list (map (\<lambda>(_, a). 4 - a) (ps_running s)))"

definition attempts_bounded :: "pull_state \<Rightarrow> bool" where
  "attempts_bounded s \<longleftrightarrow> (\<forall>(_, a)\<in>set (ps_running s). 1 \<le> a \<and> a \<le> LAYER_PULL_ATTEMPTS)"

lemma split_at: "k < length xs \<Longrightarrow> xs = take k xs @ xs ! k # drop (Suc k) xs"
  by (simp add: Cons_nth_drop_Suc)

lemma round_again: "pull_layer_round E J i a w = (Again, w') \<Longrightarrow> a < LAYER_PULL_ATTEMPTS"
  by (auto simp: pull_layer_round_def Let_def split: if_splits option.splits prod.splits sum.splits)

text \<open>What a step does: start the next layer, or one round of a running one.\<close>

lemma pull_step_cases [consumes 1, case_names start finished again gave_up]:
  assumes "pull_step E J s t"
  obtains "ps_failed s = None" "can_start J s" "t = start_layer s"
  | xs i a ys m w where "ps_failed s = None" "ps_running s = xs @ (i, a) # ys"
      "pull_layer_round E J i a (ps_world s) = (Finished m, w)"
      "t = s\<lparr>ps_world := w, ps_running := xs @ ys, ps_done := ps_done s @ [(i, m)]\<rparr>"
  | xs i a ys w where "ps_failed s = None" "ps_running s = xs @ (i, a) # ys" "a < LAYER_PULL_ATTEMPTS"
      "pull_layer_round E J i a (ps_world s) = (Again, w)"
      "t = s\<lparr>ps_world := w, ps_running := xs @ (i, Suc a) # ys\<rparr>"
  | xs i a ys e w where "ps_failed s = None" "ps_running s = xs @ (i, a) # ys"
      "pull_layer_round E J i a (ps_world s) = (GaveUp e, w)"
      "t = s\<lparr>ps_world := w, ps_running := xs @ ys, ps_failed := Some e\<rparr>"
  using assms
proof (cases rule: pull_step.cases)
  case start
  then show ?thesis using that(1) by blast
next
  case (round k)
  obtain i a where ia: "ps_running s ! k = (i, a)" by (cases "ps_running s ! k")
  define xs ys where "xs = take k (ps_running s)" and "ys = drop (Suc k) (ps_running s)"
  have run: "ps_running s = xs @ (i, a) # ys"
    using split_at [OF round(3)] ia by (simp add: xs_def ys_def)
  have upd: "(ps_running s)[k := x] = xs @ x # ys" for x
    using round(3) by (simp add: xs_def ys_def upd_conv_take_nth_drop)
  obtain q w where q: "pull_layer_round E J i a (ps_world s) = (q, w)" by (metis surj_pair)
  show ?thesis
  proof (cases q)
    case (Finished m)
    then show ?thesis using that(2) [OF round(2) run, of m w] q ia round(1)
      by (simp add: run_layer_def xs_def ys_def)
  next
    case Again
    then show ?thesis using that(3) [OF round(2) run, of w] q ia round(1) upd round_again [of E J i a "ps_world s" w]
      by (simp add: run_layer_def)
  next
    case (GaveUp e)
    then show ?thesis using that(4) [OF round(2) run, of e w] q ia round(1)
      by (simp add: run_layer_def xs_def ys_def)
  qed
qed

lemma step_bounded: "pull_step E J s t \<Longrightarrow> attempts_bounded s \<Longrightarrow> attempts_bounded t"
  by (cases rule: pull_step_cases)
     (auto simp: attempts_bounded_def start_layer_def LAYER_PULL_ATTEMPTS_def case_prod_beta ball_Un)

lemma step_decreases:
  assumes "pull_step E J s t" and "attempts_bounded s"
  shows "rounds_left J t < rounds_left J s"
  using assms
proof (cases rule: pull_step_cases)
  case start
  then have "ps_started s < length (pj_descs J)" by (simp add: can_start_def)
  then have "length (pj_descs J) - ps_started s = Suc (length (pj_descs J) - Suc (ps_started s))" by simp
  then show ?thesis using start by (simp add: rounds_left_def start_layer_def)
qed (auto simp: rounds_left_def attempts_bounded_def LAYER_PULL_ATTEMPTS_def)

lemma init_bounded: "attempts_bounded (pull_init w)"
  by (simp add: attempts_bounded_def pull_init_def)

lemma steps_bounded: "(pull_step E J)\<^sup>*\<^sup>* s t \<Longrightarrow> attempts_bounded s \<Longrightarrow> attempts_bounded t"
  by (induction rule: rtranclp_induct) (auto intro: step_bounded)

lemma progress:
  assumes "pull_result J s = None" "0 < pj_max J" "ps_started s \<le> length (pj_descs J)"
  shows "\<exists>t. pull_step E J s t"
proof -
  have "ps_failed s = None" using assms(1) by (auto simp: pull_result_def split: option.splits)
  moreover have "can_start J s \<or> ps_running s \<noteq> []"
    using assms calculation by (auto simp: pull_result_def can_start_def split: if_splits)
  ultimately show ?thesis using pull_step.start [of s J] pull_step.round [of s 0] by blast
qed

text \<open>The executable run takes steps of the relation, and enough entries make it end.\<close>

lemma async_pull_layers_runs:
  "async_pull_layers E J ks s = Some (r, w) \<Longrightarrow>
     \<exists>t. (pull_step E J)\<^sup>*\<^sup>* s t \<and> pull_result J t = Some r \<and> ps_world t = w"
proof (induction ks arbitrary: s)
  case Nil
  then show ?case by auto
next
  case (Cons k ks)
  show ?case
  proof (cases "pull_result J s")
    case (Some r')
    then show ?thesis using Cons.prems by auto
  next
    case None
    have f: "ps_failed s = None" using None by (auto simp: pull_result_def split: option.splits)
    obtain t where "pull_step E J s t" "async_pull_layers E J ks t = Some (r, w)"
      using Cons.prems None f pull_step.start [of s J]
        pull_step.round [of s "k mod length (ps_running s)"]
      by (auto split: if_splits)
    then show ?thesis using Cons.IH by (meson converse_rtranclp_into_rtranclp)
  qed
qed

lemma async_pull_layers_returns:
  assumes "attempts_bounded s" "ps_started s \<le> length (pj_descs J)" "0 < pj_max J" "rounds_left J s \<le> length ks"
  shows "\<exists>r w. async_pull_layers E J ks s = Some (r, w)"
  using assms
proof (induction ks arbitrary: s)
  case Nil
  then have "\<nexists>t. pull_step E J s t" using step_decreases by fastforce
  then show ?case using progress [of J s E] Nil by (cases "pull_result J s") auto
next
  case (Cons k ks)
  show ?case
  proof (cases "pull_result J s")
    case None
    have f: "ps_failed s = None" using None by (auto simp: pull_result_def split: option.splits)
    have go: "\<exists>r w. async_pull_layers E J ks t = Some (r, w)" if st: "pull_step E J s t" for t
    proof (rule Cons.IH)
      show "attempts_bounded t" using step_bounded [OF st Cons.prems(1)] .
      show "rounds_left J t \<le> length ks" using step_decreases [OF st Cons.prems(1)] Cons.prems(4) by simp
      show "ps_started t \<le> length (pj_descs J)"
        using st Cons.prems(2) by (cases rule: pull_step_cases) (auto simp: start_layer_def can_start_def)
    qed (rule Cons.prems(3))
    show ?thesis
    proof (cases "can_start J s")
      case True
      then show ?thesis using None go [OF pull_step.start] f by simp
    next
      case False
      then have "ps_running s \<noteq> []"
        using None f Cons.prems(2,3) by (auto simp: pull_result_def can_start_def split: if_splits)
      then show ?thesis
        using None False f go [OF pull_step.round, of "k mod length (ps_running s)"] by simp
    qed
  qed auto
qed

text \<open>
  C12. Pulling the layers ends: whatever the registry, the timeouts and the operating system do and in
  whatever order the running futures make progress, no run has more than four steps for a layer, and
  if at least one download may run at a time, every run of that length has returned.
\<close>

theorem pull_layers_end:
  assumes "0 < pj_max J"
  shows "(\<forall>k t. ((pull_step E J) ^^ k) (pull_init w) t \<longrightarrow> k \<le> 4 * length (pj_descs J)) \<and>
    (\<forall>ks. 4 * length (pj_descs J) \<le> length ks \<longrightarrow>
       (\<exists>r w'. async_pull_layers E J ks (pull_init w) = Some (r, w')))"
proof -
  have init: "rounds_left J (pull_init w) = 4 * length (pj_descs J)"
    by (simp add: rounds_left_def pull_init_def)
  have steps: "attempts_bounded t \<and> k + rounds_left J t \<le> rounds_left J s"
    if "((pull_step E J) ^^ k) s t" "attempts_bounded s" for s t k
    using that
  proof (induction k arbitrary: t)
    case (Suc k)
    then obtain u where u: "((pull_step E J) ^^ k) s u" "pull_step E J u t" by auto
    then show ?case using Suc.IH [OF u(1) Suc.prems(2)] step_bounded [OF u(2)] step_decreases [OF u(2)] by simp
  qed simp
  have "k \<le> 4 * length (pj_descs J)" if "((pull_step E J) ^^ k) (pull_init w) t" for k t
    using steps [OF that init_bounded] init by auto
  moreover have started: "ps_started (pull_init w) \<le> length (pj_descs J)" by (simp add: pull_init_def)
  moreover have "\<exists>r w'. async_pull_layers E J ks (pull_init w) = Some (r, w')"
    if "4 * length (pj_descs J) \<le> length ks" for ks
    using that by (intro async_pull_layers_returns [OF init_bounded started assms]) (simp add: init)
  ultimately show ?thesis by blast
qed

text \<open>With a maximum of zero, which the configuration accepts, nothing is ever started.\<close>

lemma pull_with_zero_hangs:
  "pj_max J = 0 \<Longrightarrow> pj_descs J \<noteq> [] \<Longrightarrow> \<not> pull_step E J (pull_init w) t"
  "pj_max J = 0 \<Longrightarrow> pj_descs J \<noteq> [] \<Longrightarrow> async_pull_layers E J ks (pull_init w) = None"
  by (auto simp: pull_init_def can_start_def pull_result_def elim!: pull_step.cases) (cases ks; simp add: can_start_def pull_result_def)

section \<open>What a pulled layer is\<close>

text \<open>
  The data of a layer that was fetched: what was unpacked, without an error, into the store path of the
  layer are the entries of a stream whose digest is the one of the image configuration.
\<close>

definition layer_verified ::
  "('r, 'c, 'm, 'g, 'h) pull_env \<Rightarrow> kernel \<Rightarrow> oci_descriptor \<Rightarrow> string \<Rightarrow> string \<Rightarrow> layer_meta \<Rightarrow> bool" where
  "layer_verified E K layer diff_id destination m \<longleftrightarrow>
     lm_compressed_digest m = od_digest layer \<and> lm_uncompressed_digest m = diff_id \<and>
     lm_store_path m = from_utf8_lossy destination \<and>
     lm_encrypted m = dr_encrypted (decryptor_from_media_type (le_media E) (od_media_type layer)) \<and>
     (\<exists>hasher stream ops. hasher_for (le_hashes E) diff_id = Inr hasher \<and>
        diff_id = digest_finalize (le_hashes E) (digest_update (le_hashes E) hasher (fst stream)) \<and>
        unpack K (le_tar E stream) destination [] = (Inr (), ops))"

lemma unpacked_layer:
  assumes "hash_laws (le_hashes E)"
    and "async_decompress_unpack_layer_with_timeout E A input diff_id mt dest [] = (Inr d, ops)"
  shows "\<exists>hasher stream. hasher_for (le_hashes E) diff_id = Inr hasher \<and>
        d = digest_finalize (le_hashes E) (digest_update (le_hashes E) hasher (fst stream)) \<and>
        unpack (at_kernel A) (le_tar E stream) dest [] = (Inr (), ops)"
proof -
  have "async_decompress_unpack_layer E A input diff_id mt dest [] = (Inr d, ops)"
    using assms(2) by (auto simp: async_decompress_unpack_layer_with_timeout_def split: prod.splits option.splits)
  then obtain decoder where "stream_processing (le_hashes E) (le_tar E) (at_kernel A) stream_poll (at_tar_sizes A)
      (async_decompress (le_codec E) decoder input) diff_id dest [] = (Inr d, ops)"
    by (auto simp: async_decompress_unpack_layer_def result_iff)
  from this [unfolded stream_processing_ok [OF assms(1)]] show ?thesis by blast
qed

lemma handle_layer_body_ok:
  assumes "hash_laws (le_hashes E)"
    and run: "handle_layer_body E A layer diff_id cfg reader dest [] = (Inr m, ops)"
  shows "layer_verified E (at_kernel A) layer diff_id dest m"
proof -
  obtain mt input d where u: "async_decompress_unpack_layer_with_timeout E A input diff_id mt dest [] = (Inr d, ops)"
    and m: "d = diff_id" "lm_compressed_digest m = od_digest layer" "lm_uncompressed_digest m = d"
      "lm_store_path m = from_utf8_lossy dest"
      "lm_encrypted m = dr_encrypted (decryptor_from_media_type (le_media E) (od_media_type layer))"
  proof (cases "dr_encrypted (decryptor_from_media_type (le_media E) (od_media_type layer))")
    case True
    from run True obtain h d where
      u: "async_decompress_unpack_layer_with_timeout E A
          (fst (poll_drain (handler_poll_read (le_crypto E) (le_poll E)) (at_decoder_sizes A) h)) diff_id
          (dr_media_type (decryptor_from_media_type (le_media E) (od_media_type layer))) dest [] = (Inr d, ops)"
      and "d = diff_id" "m = layer_meta_default\<lparr>lm_compressed_digest := od_digest layer,
          lm_store_path := from_utf8_lossy dest, lm_uncompressed_digest := d, lm_encrypted := True\<rparr>"
      by (auto simp: handle_layer_body_def Let_def result_iff split: if_splits)
    with that [OF u] True show ?thesis by (simp add: layer_meta_default_def)
  next
    case False
    obtain s r copied where p: "poll_drain (counting_poll_read (into_buf (le_poll E))) (at_decoder_sizes A) (reader, 0)
        = (s, (r, copied))" by (metis surj_pair)
    from run False have
      u: "async_decompress_unpack_layer_with_timeout E A s diff_id (od_media_type layer) dest [] =
        (Inr (lm_uncompressed_digest m), ops)"
      and "lm_uncompressed_digest m = diff_id" "m = layer_meta_default\<lparr>lm_compressed_digest := od_digest layer,
          lm_store_path := from_utf8_lossy dest, lm_uncompressed_digest := lm_uncompressed_digest m\<rparr>"
      by (auto simp: handle_layer_body_def Let_def result_iff p layer_meta_default_def split: if_splits)
    with that [OF u] False show ?thesis by (simp add: layer_meta_default_def)
  qed
  show ?thesis
    using unpacked_layer [OF assms(1) u] m by (auto simp: layer_verified_def)
qed

lemma round_finished:
  assumes "hash_laws (le_hashes E)" and "pull_layer_round E J i a w = (Finished m, w')"
  shows "i < length (pj_diff_ids J)"
    and "pj_layer_db J (od_digest (pj_descs J ! i)) = Some m \<and> w' = w \<or>
      pj_layer_db J (od_digest (pj_descs J ! i)) = None \<and>
      layer_verified E (at_kernel (le_attempt E i a)) (pj_descs J ! i) (pj_diff_ids J ! i)
        (fst (new_layer_store_path (pw_store w))) m \<and>
      pw_store w' = snd (new_layer_store_path (pw_store w))"
proof -
  show "i < length (pj_diff_ids J)"
    using assms(2) by (auto simp: pull_layer_round_def Let_def split: if_splits)
  then show "pj_layer_db J (od_digest (pj_descs J ! i)) = Some m \<and> w' = w \<or>
      pj_layer_db J (od_digest (pj_descs J ! i)) = None \<and>
      layer_verified E (at_kernel (le_attempt E i a)) (pj_descs J ! i) (pj_diff_ids J ! i)
        (fst (new_layer_store_path (pw_store w))) m \<and>
      pw_store w' = snd (new_layer_store_path (pw_store w))"
    using assms(2) handle_layer_body_ok [OF assms(1)]
    by (auto simp: pull_layer_round_def Let_def pull_layer_once_def async_handle_layer_def
        split: if_splits option.splits prod.splits sum.splits)
qed

definition layer_ok :: "('r, 'c, 'm, 'g, 'h) pull_env \<Rightarrow> pull_job \<Rightarrow> nat \<Rightarrow> layer_meta \<Rightarrow> bool" where
  "layer_ok E J i m \<longleftrightarrow>
     pj_layer_db J (od_digest (pj_descs J ! i)) = Some m \<or>
     pj_layer_db J (od_digest (pj_descs J ! i)) = None \<and>
     (\<exists>a destination. layer_verified E (at_kernel (le_attempt E i a)) (pj_descs J ! i) (pj_diff_ids J ! i) destination m)"

definition pull_inv :: "('r, 'c, 'm, 'g, 'h) pull_env \<Rightarrow> pull_job \<Rightarrow> pull_state \<Rightarrow> bool" where
  "pull_inv E J s \<longleftrightarrow>
     (ps_failed s = None \<longrightarrow> distinct (map fst (ps_running s) @ map fst (ps_done s)) \<and>
        set (map fst (ps_running s) @ map fst (ps_done s)) = {..<ps_started s}) \<and>
     (\<forall>(i, m)\<in>set (ps_done s). layer_ok E J i m)"

lemma pull_inv_init: "pull_inv E J (pull_init w)"
  by (simp add: pull_inv_def pull_init_def)

lemma pull_inv_step:
  assumes "hash_laws (le_hashes E)" and "pull_step E J s t" and "pull_inv E J s"
  shows "pull_inv E J t"
  using assms(2,3)
proof (cases rule: pull_step_cases)
  case start
  then have inv: "distinct (map fst (ps_running s) @ map fst (ps_done s))"
    "set (map fst (ps_running s) @ map fst (ps_done s)) = {..<ps_started s}"
    "\<forall>(i, m)\<in>set (ps_done s). layer_ok E J i m"
    using assms(3) by (simp_all add: pull_inv_def)
  from inv(2) have "ps_started s \<notin> set (map fst (ps_running s) @ map fst (ps_done s))" by (metis lessThan_iff less_irrefl)
  moreover have "set (map fst (ps_running s) @ [ps_started s] @ map fst (ps_done s)) = {..<Suc (ps_started s)}"
    unfolding lessThan_Suc inv(2) [symmetric] by auto
  ultimately show ?thesis using inv(1,3) start(3) by (simp add: pull_inv_def start_layer_def)
next
  case (finished xs i a ys m w)
  have "layer_ok E J i m"
    using round_finished(2) [OF assms(1) finished(3)] by (auto simp: layer_ok_def)
  then show ?thesis using finished assms(3) by (auto simp: pull_inv_def)
qed (auto simp: pull_inv_def)

lemma pull_inv_steps:
  assumes "hash_laws (le_hashes E)"
  shows "(pull_step E J)\<^sup>*\<^sup>* s t \<Longrightarrow> pull_inv E J s \<Longrightarrow> pull_inv E J t"
  by (induction rule: rtranclp_induct) (auto intro: pull_inv_step [OF assms])

lemma sorted_by_index:
  assumes "distinct (map fst xs)" "set (map fst xs) = {..<n}"
  shows "map fst (sort_key fst xs) = [0..<n]"
proof (rule sorted_distinct_set_unique)
  show "set (map fst (sort_key fst xs)) = set [0..<n]" using assms(2) by auto
  show "distinct (map fst (sort_key fst xs))" using assms(1) by (simp add: distinct_map)
qed simp_all

lemma sorted_values:
  assumes "distinct (map fst xs)" "set (map fst xs) = {..<n}" "\<forall>(i, m)\<in>set xs. P i m"
  shows "length (map snd (sort_key fst xs)) = n \<and> (\<forall>i<n. P i (map snd (sort_key fst xs) ! i))"
proof -
  have l: "length (sort_key fst xs) = n" using arg_cong [OF sorted_by_index [OF assms(1,2)], of length] by simp
  moreover have "P i (snd (sort_key fst xs ! i))" if "i < n" for i
  proof -
    have "fst (sort_key fst xs ! i) = i"
      using that l sorted_by_index [OF assms(1,2)] by (metis add_0 nth_map nth_upt)
    moreover have "sort_key fst xs ! i \<in> set xs" using that l by (metis nth_mem set_sort)
    ultimately show ?thesis using assms(3) by (metis (mono_tags, lifting) case_prod_beta)
  qed
  ultimately show ?thesis by simp
qed

lemma pulled_layers_ok:
  assumes "hash_laws (le_hashes E)"
    and "async_pull_layers E J ks (pull_init w) = Some (Inr metas, w')"
  shows "length metas = length (pj_descs J) \<and>
    (\<forall>i < length (pj_descs J).
       pj_layer_db J (od_digest (pj_descs J ! i)) = Some (metas ! i) \<or>
       (\<exists>a destination. layer_verified E (at_kernel (le_attempt E i a)) (pj_descs J ! i) (pj_diff_ids J ! i) destination (metas ! i)))"
proof -
  obtain t where t: "(pull_step E J)\<^sup>*\<^sup>* (pull_init w) t" "pull_result J t = Some (Inr metas)"
    using async_pull_layers_runs [OF assms(2)] by blast
  have inv: "pull_inv E J t" using pull_inv_steps [OF assms(1) t(1) pull_inv_init] .
  have fin: "ps_failed t = None" "ps_started t = length (pj_descs J)" "ps_running t = []"
    "metas = map snd (sort_key fst (ps_done t))"
    using t(2) by (auto simp: pull_result_def split: option.splits if_splits)
  have "length metas = length (pj_descs J) \<and> (\<forall>i < length (pj_descs J). layer_ok E J i (metas ! i))"
    unfolding fin(4) using inv fin by (intro sorted_values) (auto simp: pull_inv_def)
  then show ?thesis by (auto simp: layer_ok_def)
qed

text \<open>
  C4. The result of a pull is in the order of the manifest whatever the order in which the downloads
  finish, and every layer of it is what the database holds under its digest, or it was fetched, and then
  the entries that were unpacked without an error into its store path come from a stream with the
  digest that the image configuration gives for this layer.
\<close>

theorem pulled_layers_genuine:
  assumes "hash_laws (le_hashes E)"
    and "async_pull_layers E J ks (pull_init w) = Some (Inr metas, w')"
  shows "length metas = length (pj_descs J) \<and>
    (\<forall>i < length (pj_descs J).
       pj_layer_db J (od_digest (pj_descs J ! i)) = Some (metas ! i) \<or>
       (\<exists>a destination. layer_verified E (at_kernel (le_attempt E i a)) (pj_descs J ! i) (pj_diff_ids J ! i) destination (metas ! i)))"
  using assms by (rule pulled_layers_ok)

section \<open>Store paths\<close>

definition store_path :: "string \<Rightarrow> nat \<Rightarrow> string" where
  "store_path dir k = from_utf8_lossy (path_join dir (nat_str k))"

lemma nat_str_ascii: "is_ascii_str (nat_str n)"
  using nat_str_digits [of n] by (auto simp: is_ascii_str_def is_digit_def list_all_iff)

lemma nat_str_relative: "\<not> starts_with ''/'' (nat_str n)"
  using nat_str_digits [of n] by (auto simp: is_digit_def starts_with_iff)

lemma store_path_inj:
  assumes "is_ascii_str dir"
  shows "store_path dir j = store_path dir k \<longleftrightarrow> j = k"
proof -
  have "store_path dir n = (if dir = [] \<or> last dir = CHR ''/'' then dir @ nat_str n else dir @ ''/'' @ nat_str n)" for n
    using assms nat_str_ascii [of n] nat_str_relative [of n]
    by (auto simp: store_path_def path_join_def is_ascii_str_def intro!: from_utf8_lossy_valid utf8_valid_ascii)
  then show ?thesis by simp
qed

definition is_fresh :: "pull_job \<Rightarrow> nat \<times> layer_meta \<Rightarrow> bool" where
  "is_fresh J p \<longleftrightarrow> pj_layer_db J (od_digest (pj_descs J ! fst p)) = None"

definition paths_inv :: "pull_job \<Rightarrow> layer_store \<Rightarrow> pull_state \<Rightarrow> bool" where
  "paths_inv J st s \<longleftrightarrow>
     ls_data_dir (pw_store (ps_world s)) = ls_data_dir st \<and>
     ls_index st \<le> ls_index (pw_store (ps_world s)) \<and>
     (ps_failed s = None \<longrightarrow> ls_index (pw_store (ps_world s)) + rounds_left J s \<le> ls_index st + 4 * length (pj_descs J)) \<and>
     (\<exists>ns. map (lm_store_path \<circ> snd) (filter (is_fresh J) (ps_done s)) = map (store_path (ls_data_dir st)) ns \<and>
        distinct ns \<and> (\<forall>n\<in>set ns. ls_index st \<le> n \<and> n < ls_index (pw_store (ps_world s))))"

lemma round_store:
  "pull_layer_round E J i a w = (q, w') \<Longrightarrow>
     pw_store w' = pw_store w \<or> pw_store w' = snd (new_layer_store_path (pw_store w))"
  by (auto simp: pull_layer_round_def Let_def pull_layer_once_def async_handle_layer_def
        split: if_splits option.splits prod.splits sum.splits)

lemma paths_inv_step:
  assumes "hash_laws (le_hashes E)" and "pull_step E J s t" and "paths_inv J st s" and "attempts_bounded s"
    and "ls_index st + 4 * length (pj_descs J) < 2 ^ 64"
  shows "paths_inv J st t"
proof -
  have dec: "rounds_left J t < rounds_left J s" using step_decreases [OF assms(2,4)] .
  have next_index: "(ls_index (pw_store (ps_world s)) + 1) mod 2 ^ 64 = ls_index (pw_store (ps_world s)) + 1"
    if "ps_failed s = None"
    using assms(3,5) dec that by (intro mod_less) (simp add: paths_inv_def)
  have idle: "paths_inv J st t"
    if "ps_failed s = None" "ps_done t = ps_done s" "pw_store (ps_world t) = pw_store (ps_world s) \<or>
      pw_store (ps_world t) = snd (new_layer_store_path (pw_store (ps_world s)))"
    using that assms(3) dec next_index [OF that(1)]
    by (auto simp: paths_inv_def new_layer_store_path_def)
       (metis less_Suc_eq le_Suc_eq)+
  show ?thesis
    using assms(2)
  proof (cases rule: pull_step_cases)
    case start
    then show ?thesis by (intro idle) (simp_all add: start_layer_def)
  next
    case (finished xs i a ys m w)
    let ?st = "pw_store (ps_world s)"
    show ?thesis
    proof (cases "is_fresh J (i, m)")
      case True
      then have m: "lm_store_path m = store_path (ls_data_dir st) (ls_index ?st)"
        and w: "pw_store w = snd (new_layer_store_path ?st)"
        using round_finished(2) [OF assms(1) finished(3)] assms(3)
        by (auto simp: is_fresh_def layer_verified_def new_layer_store_path_def store_path_def paths_inv_def)
      from assms(3) obtain ns where
        ns: "map (lm_store_path \<circ> snd) (filter (is_fresh J) (ps_done s)) = map (store_path (ls_data_dir st)) ns"
          "distinct ns" "\<forall>n\<in>set ns. ls_index st \<le> n \<and> n < ls_index ?st" by (auto simp: paths_inv_def)
      have "\<exists>ns'. map (lm_store_path \<circ> snd) (filter (is_fresh J) (ps_done t)) = map (store_path (ls_data_dir st)) ns' \<and>
          distinct ns' \<and> (\<forall>n\<in>set ns'. ls_index st \<le> n \<and> n < Suc (ls_index ?st))"
        using ns True m finished(4) assms(3)
        by (intro exI [of _ "ns @ [ls_index ?st]"]) (auto simp: paths_inv_def less_Suc_eq)
      then show ?thesis
        using finished w assms(3) dec next_index by (simp add: paths_inv_def new_layer_store_path_def)
    next
      case False
      then have "pw_store w = ?st" using round_finished(2) [OF assms(1) finished(3)] by (auto simp: is_fresh_def)
      then show ?thesis using finished False assms(3) dec by (auto simp: paths_inv_def)
    qed
  next
    case (again xs i a ys w)
    then show ?thesis using round_store [OF again(4)] by (intro idle) simp_all
  next
    case (gave_up xs i a ys e w)
    then show ?thesis using round_store [OF gave_up(3)] by (intro idle) simp_all
  qed
qed

lemma paths_inv_init:
  "paths_inv J (pw_store w) (pull_init w)"
  by (simp add: paths_inv_def pull_init_def rounds_left_def)

lemma paths_inv_steps:
  assumes "hash_laws (le_hashes E)" and "ls_index st + 4 * length (pj_descs J) < 2 ^ 64"
  shows "(pull_step E J)\<^sup>*\<^sup>* s t \<Longrightarrow> paths_inv J st s \<and> attempts_bounded s \<Longrightarrow> paths_inv J st t \<and> attempts_bounded t"
  by (induction rule: rtranclp_induct) (auto intro: paths_inv_step [OF assms(1) _ _ _ assms(2)] step_bounded)

text \<open>
  C40. Layers do not overwrite each other: the layers that one pull fetches lie in different
  directories of the store, each numbered at least by the index that the store had before, as long as
  the index does not wrap around.
\<close>

theorem fetched_layers_apart:
  assumes "hash_laws (le_hashes E)" "is_ascii_str (ls_data_dir (pw_store w))"
    and "ls_index (pw_store w) + 4 * length (pj_descs J) < 2 ^ 64"
    and "(pull_step E J)\<^sup>*\<^sup>* (pull_init w) t"
    and "(i, m) \<in> set (ps_done t)" "pj_layer_db J (od_digest (pj_descs J ! i)) = None"
  shows "(\<exists>n. ls_index (pw_store w) \<le> n \<and> lm_store_path m = store_path (ls_data_dir (pw_store w)) n) \<and>
    (\<forall>(j, m')\<in>set (ps_done t). j \<noteq> i \<longrightarrow> pj_layer_db J (od_digest (pj_descs J ! j)) = None \<longrightarrow>
       lm_store_path m' \<noteq> lm_store_path m)"
proof -
  let ?fresh = "filter (is_fresh J) (ps_done t)"
  have "paths_inv J (pw_store w) t"
    using paths_inv_steps [OF assms(1,3,4)] paths_inv_init init_bounded by blast
  then obtain ns where ns: "map (lm_store_path \<circ> snd) ?fresh = map (store_path (ls_data_dir (pw_store w))) ns"
    "distinct ns" "\<forall>n\<in>set ns. ls_index (pw_store w) \<le> n" by (auto simp: paths_inv_def)
  have "inj_on (store_path (ls_data_dir (pw_store w))) (set ns)"
    by (rule inj_onI) (simp add: store_path_inj [OF assms(2)])
  then have "distinct (map (lm_store_path \<circ> snd) ?fresh)" using ns by (simp add: distinct_map)
  then have apart: "inj_on (lm_store_path \<circ> snd) (set ?fresh)" by (simp add: distinct_map)
  have i: "(i, m) \<in> set ?fresh" using assms(5,6) by (simp add: is_fresh_def)
  then have "lm_store_path m \<in> set (map (lm_store_path \<circ> snd) ?fresh)" by force
  moreover have "lm_store_path m' \<noteq> lm_store_path m"
    if "(j, m') \<in> set (ps_done t)" "j \<noteq> i" "pj_layer_db J (od_digest (pj_descs J ! j)) = None" for j m'
    using inj_onD [OF apart, of "(j, m')" "(i, m)"] i that by (auto simp: is_fresh_def)
  ultimately show ?thesis using ns(1,3) by auto
qed

text \<open>The index that a new store starts with is above every numbered directory in it.\<close>

lemma index_step_grows:
  assumes "layer_index_step next p = Inr n'" "\<forall>d k. p = Inr d \<longrightarrow> parse_usize (de_name d) = Some k \<longrightarrow> k + 1 < 2 ^ 64"
  shows "next \<le> n' \<and> (\<forall>d k. p = Inr d \<longrightarrow> de_is_dir d = Inr True \<longrightarrow> utf8_valid (de_name d) \<longrightarrow>
    parse_usize (de_name d) = Some k \<longrightarrow> k < n')"
  using assms by (auto simp: layer_index_step_def result_iff from_utf8_def split: if_splits option.splits)

lemma layer_index_fresh:
  assumes "try_fold layer_index_step n0 ents = Inr n"
    and "\<forall>d k. Inr d \<in> set ents \<longrightarrow> parse_usize (de_name d) = Some k \<longrightarrow> k + 1 < 2 ^ 64"
    and "Inr d \<in> set ents" "de_is_dir d = Inr True" "de_name d = nat_str k" "k < 2 ^ 64"
  shows "n0 \<le> n \<and> k < n"
proof -
  have mono: "n0 \<le> n \<and> (\<forall>d k. Inr d \<in> set ents \<longrightarrow> de_is_dir d = Inr True \<longrightarrow> utf8_valid (de_name d) \<longrightarrow>
    parse_usize (de_name d) = Some k \<longrightarrow> k < n)"
    using assms(1,2)
  proof (induction ents arbitrary: n0)
    case (Cons p ents)
    then obtain n1 where n1: "layer_index_step n0 p = Inr n1" "try_fold layer_index_step n1 ents = Inr n"
      by (auto simp: result_iff)
    then show ?case using index_step_grows [OF n1(1)] Cons.IH [OF n1(2)] Cons.prems(2) by fastforce
  qed simp
  have "utf8_valid (nat_str k)" by (rule utf8_valid_ascii [OF nat_str_ascii])
  then show ?thesis using mono assms(3-6) parse_usize_nat_str by auto
qed

section \<open>An instance\<close>

definition demo_hashes :: "bytes hashes" where
  "demo_hashes = \<lparr>sha256_new = [], sha512_new = [], sha256_update = (@), sha512_update = (@), sha256_hex = id, sha512_hex = id\<rparr>"

lemma demo_hash_laws: "hash_laws demo_hashes"
  by (simp add: hash_laws_def demo_hashes_def)

text \<open>The first layer is not answered in time once; both are plain tar files without entries.\<close>

definition demo_attempt :: "nat \<Rightarrow> nat \<Rightarrow> (string, unit) attempt" where
  "demo_attempt i a = \<lparr>at_stream = (if i = 0 \<and> a = 1 then None else Some (Inr (if i = 0 then ''x'' else ''y''))),
     at_decoder_sizes = [4, 4], at_tar_sizes = [4, 4], at_unpack_timeout = None, at_kernel = demo_kernel, at_rand = ()\<rparr>"

definition demo_pull_env :: "(string, unit, bytes, unit, bytes) pull_env" where
  "demo_pull_env =
     \<lparr>le_media = \<lparr>mc_from = (\<lambda>_. ImageLayer), mc_docker_layer_gzip = ''docker'', mc_layer = ''tar'', mc_layer_gzip = ''tar+gzip''\<rparr>,
      le_codec = \<lparr>cc_gunzip = id, cc_unzstd = id\<rparr>, le_tar = (\<lambda>_. Inr []), le_hashes = demo_hashes,
      le_registry = \<lparr>reg_wrappers = [], reg_annotations = []\<rparr>,
      le_codecs = \<lparr>b64_enc = id, b64_dec = Inr, priv_to_json = (\<lambda>_. Inl ''''), pub_to_json = (\<lambda>_. Inl ''''),
        priv_from_json = (\<lambda>_. Inl ''''), pub_from_json = (\<lambda>_. Inl '''')\<rparr>,
      le_crypto = demo_crypto,
      le_fs = \<lparr>fs_read = (\<lambda>_. Inl ''''), path_exists = (\<lambda>_. False), fd_read = (\<lambda>_. Inl ''''), env_var = Map.empty\<rparr>,
      le_poll = (\<lambda>r n. (Ready (Inr (take n r)), drop n r)), le_attempt = demo_attempt\<rparr>"

definition demo_job :: pull_job where
  "demo_job =
     \<lparr>pj_descs = [\<lparr>od_media_type = ''tar'', od_digest = ''d0'', od_size = 1, od_annotations = None\<rparr>,
                 \<lparr>od_media_type = ''tar'', od_digest = ''d1'', od_size = 0, od_annotations = None\<rparr>],
      pj_diff_ids = [''sha256:x'', ''sha256:y''], pj_decrypt_config = None, pj_layer_db = Map.empty, pj_max = 2\<rparr>"

definition demo_pull_world :: pull_world where
  "demo_pull_world = \<lparr>pw_store = \<lparr>ls_data_dir = ''/w/layers'', ls_index = 4\<rparr>, pw_ops = []\<rparr>"

definition demo_meta :: "string \<Rightarrow> string \<Rightarrow> string \<Rightarrow> layer_meta" where
  "demo_meta digest diff path = \<lparr>lm_decoder = Gzip, lm_encrypted = False, lm_compressed_digest = digest,
     lm_uncompressed_digest = diff, lm_store_path = path\<rparr>"

lemma demo_digits: "nat_str 4 = ''4''" "nat_str 5 = ''5''"
  by code_simp+

lemmas demo_pull_eval = demo_pull_env_def demo_job_def demo_pull_world_def demo_attempt_def demo_hashes_def demo_meta_def
  pull_init_def pull_result_def can_start_def start_layer_def run_layer_def pull_layer_round_def pull_layer_once_def
  async_handle_layer_def handle_layer_body_def new_layer_store_path_def demo_digits layer_meta_default_def
  async_decompress_unpack_layer_with_timeout_def async_decompress_unpack_layer_def compression_try_from_def
  stream_processing_def async_processing_def hasher_for_def hash_poll_read_def stream_poll_def counting_poll_read_def
  into_buf_def decryptor_from_media_type_def MEDIA_TYPE_LAYER_ENC_def MEDIA_TYPE_LAYER_GZIP_ENC_def
  MEDIA_TYPE_LAYER_NON_DISTRIBUTABLE_ENC_def MEDIA_TYPE_LAYER_NON_DISTRIBUTABLE_GZIP_ENC_def
  DIGEST_SHA256_PREFIX_def LAYER_PULL_ATTEMPTS_def unpack_def is_attr_available_def sys_def demo_kernel_def
  path_join_def demo_strings is_ascii_str_def starts_with_def st_then_def lift_result_def st_map_err_def

lemma demo_pull:
  "async_pull_layers demo_pull_env demo_job [0, 0, 0, 1, 0] (pull_init demo_pull_world) =
     Some (Inr [demo_meta ''d0'' ''sha256:x'' ''/w/layers/5'', demo_meta ''d1'' ''sha256:y'' ''/w/layers/4''],
       \<lparr>pw_store = \<lparr>ls_data_dir = ''/w/layers'', ls_index = 6\<rparr>,
        pw_ops = [CreateDirAll ''/w/layers/4'', OpenRead ''/w/layers/4'', SetXattr ''/w/layers/4'' ''user.overlay.origin'' [],
                  CreateDirAll ''/w/layers/5'', OpenRead ''/w/layers/5'', SetXattr ''/w/layers/5'' ''user.overlay.origin'' []]\<rparr>)"
  by (simp add: demo_pull_eval)

theorem pull_layers_end_witness:
  "\<exists>r w'. async_pull_layers demo_pull_env demo_job [0, 0, 0, 1, 0, 7, 7, 7] (pull_init demo_pull_world) = Some (r, w')"
proof -
  have "0 < pj_max demo_job" by (simp add: demo_job_def)
  from pull_layers_end [OF this] have "4 * length (pj_descs demo_job) \<le> length ks \<longrightarrow>
      (\<exists>r w'. async_pull_layers demo_pull_env demo_job ks (pull_init demo_pull_world) = Some (r, w'))" for ks by blast
  then show ?thesis by (rule mp) (simp add: demo_job_def)
qed

theorem pulled_layers_genuine_witness:
  "\<exists>a destination. layer_verified demo_pull_env (at_kernel (demo_attempt 0 a)) (pj_descs demo_job ! 0) ''sha256:x'' destination
     (demo_meta ''d0'' ''sha256:x'' ''/w/layers/5'')"
proof -
  have "hash_laws (le_hashes demo_pull_env)" by (simp add: demo_pull_env_def demo_hash_laws)
  from spec [OF conjunct2 [OF pulled_layers_genuine [OF this demo_pull]], of 0]
  have "\<exists>a destination. layer_verified demo_pull_env (at_kernel (le_attempt demo_pull_env 0 a)) (pj_descs demo_job ! 0)
      ''sha256:x'' destination (demo_meta ''d0'' ''sha256:x'' ''/w/layers/5'')" by (simp add: demo_job_def)
  moreover have "le_attempt demo_pull_env = demo_attempt" by (simp add: demo_pull_env_def)
  ultimately show ?thesis by simp
qed

theorem fetched_layers_apart_witness:
  "\<exists>t. (pull_step demo_pull_env demo_job)\<^sup>*\<^sup>* (pull_init demo_pull_world) t \<and>
     list_all (\<lambda>(i, m). \<exists>n. lm_store_path m = store_path ''/w/layers'' n \<and> (4 :: nat) \<le> n) (ps_done t) \<and> length (ps_done t) = 2"
proof -
  obtain t where t: "(pull_step demo_pull_env demo_job)\<^sup>*\<^sup>* (pull_init demo_pull_world) t"
    "pull_result demo_job t = Some (Inr [demo_meta ''d0'' ''sha256:x'' ''/w/layers/5'', demo_meta ''d1'' ''sha256:y'' ''/w/layers/4''])"
    using async_pull_layers_runs [OF demo_pull] by blast
  have laws: "hash_laws (le_hashes demo_pull_env)" "is_ascii_str (ls_data_dir (pw_store demo_pull_world))"
    "ls_index (pw_store demo_pull_world) + 4 * length (pj_descs demo_job) < 2 ^ 64"
    by (simp_all add: demo_pull_env_def demo_hash_laws demo_pull_world_def demo_job_def is_ascii_str_def)
  have "map snd (sort_key fst (ps_done t)) = [demo_meta ''d0'' ''sha256:x'' ''/w/layers/5'', demo_meta ''d1'' ''sha256:y'' ''/w/layers/4'']"
    using t(2) by (auto simp: pull_result_def split: option.splits if_splits)
  from arg_cong [OF this, of length] have "length (ps_done t) = 2" by simp
  moreover have "\<exists>n\<ge>4. lm_store_path m = store_path ''/w/layers'' n" if "(i, m) \<in> set (ps_done t)" for i m
    using fetched_layers_apart [OF laws t(1) that] by (auto simp: demo_job_def demo_pull_world_def)
  then have "list_all (\<lambda>(i, m). \<exists>n. lm_store_path m = store_path ''/w/layers'' n \<and> (4 :: nat) \<le> n) (ps_done t)"
    by (auto simp: list_all_iff)
  ultimately show ?thesis using t(1) by blast
qed

end
