(* ===== verification/Image_Identity.thy ===== *)
theory Image_Identity
  imports Rust_Prelude
begin

text \<open>
  \<open>image-rs/src/signature/image\<close> and \<open>policy/ref_match.rs\<close>: manifest digests, image references and
  the namespaces they belong to, and the rules that compare the identity claimed by a signature with
  the reference of an image. The type \<open>Reference\<close> and its parser come from the crate \<open>oci_client\<close>:
  the record \<open>oci_reference\<close> holds the results of its accessors and the parser is an argument.
\<close>

section \<open>Digests\<close>

record digest =
  dg_algorithm :: string
  dg_value :: string

datatype digest_error = InvalidFormat | InvalidLength | UnsupportedAlgorithm

datatype algorithm = Sha256 | Sha384 | Sha512

fun algorithm_str :: "algorithm \<Rightarrow> string" where
  "algorithm_str Sha256 = ''sha256''"
| "algorithm_str Sha384 = ''sha384''"
| "algorithm_str Sha512 = ''sha512''"

fun algorithm_length :: "algorithm \<Rightarrow> nat" where
  "algorithm_length Sha256 = 64"
| "algorithm_length Sha384 = 96"
| "algorithm_length Sha512 = 128"

definition algorithm_from_str :: "string \<Rightarrow> algorithm option" where
  "algorithm_from_str s =
     (if s = algorithm_str Sha256 then Some Sha256
      else if s = algorithm_str Sha384 then Some Sha384
      else if s = algorithm_str Sha512 then Some Sha512
      else None)"

text \<open>\<open>hex::decode\<close> succeeds on an even number of hexadecimal digits.\<close>

definition is_hex_digit :: "char \<Rightarrow> bool" where
  "is_hex_digit c \<longleftrightarrow>
     (let n = (of_char c :: nat) in 48 \<le> n \<and> n \<le> 57 \<or> 65 \<le> n \<and> n \<le> 70 \<or> 97 \<le> n \<and> n \<le> 102)"

definition hex_decodes :: "string \<Rightarrow> bool" where
  "hex_decodes s \<longleftrightarrow> even (length s) \<and> list_all is_hex_digit s"

definition digest_default :: digest where
  "digest_default = \<lparr>dg_algorithm = [], dg_value = []\<rparr>"

definition digest_is_empty :: "digest \<Rightarrow> bool" where
  "digest_is_empty d \<longleftrightarrow> dg_algorithm d = [] \<or> dg_value d = []"

definition digest_to_string :: "digest \<Rightarrow> string" where
  "digest_to_string d = dg_algorithm d @ CHR '':'' # dg_value d"

definition digest_try_from :: "string \<Rightarrow> (digest_error, digest) result" where
  "digest_try_from s =
     (case split_on (CHR '':'') s of
        [algorithm, value] \<Rightarrow>
          (if algorithm = [] \<or> value = [] then Inl InvalidFormat
           else if \<not> hex_decodes value then Inl InvalidFormat
           else (case algorithm_from_str algorithm of
               None \<Rightarrow> Inl UnsupportedAlgorithm
             | Some a \<Rightarrow>
                 (if length value \<noteq> algorithm_length a then Inl InvalidLength
                  else Inr \<lparr>dg_algorithm = algorithm, dg_value = value\<rparr>)))
      | _ \<Rightarrow> Inl InvalidFormat)"

section \<open>Images and their namespaces\<close>

record oci_reference =
  ref_whole :: string
  ref_registry :: string
  ref_repository :: string
  ref_tag :: "string option"
  ref_digest :: "string option"

type_synonym ref_parser = "string \<Rightarrow> (string, oci_reference) result"

record image =
  img_reference :: oci_reference
  img_manifest_digest :: digest

definition default_with_reference :: "oci_reference \<Rightarrow> image" where
  "default_with_reference r = \<lparr>img_reference = r, img_manifest_digest = digest_default\<rparr>"

definition transport_name :: "image \<Rightarrow> string" where
  "transport_name img = ''docker''"

definition set_manifest_digest :: "string \<Rightarrow> (image, digest_error, unit) stateful" where
  "set_manifest_digest s img =
     (case digest_try_from s of
        Inl e \<Rightarrow> (Inl e, img)
      | Inr d \<Rightarrow> (Inr (), img\<lparr>img_manifest_digest := d\<rparr>))"

definition get_image_repository_full_name :: "oci_reference \<Rightarrow> string" where
  "get_image_repository_full_name r =
     (if ref_registry r = [] then ref_repository r
      else ref_registry r @ CHR ''/'' # ref_repository r)"

text \<open>The first loop collects the parents of a name and leaves the host in \<open>name\<close>.\<close>

function parent_loop :: "string \<Rightarrow> string list \<times> string" where
  "parent_loop name =
     (case rsplit_once (CHR ''/'') name of
        None \<Rightarrow> ([name], name)
      | Some (parent, _) \<Rightarrow> (case parent_loop parent of (res, host) \<Rightarrow> (name # res, host)))"
  by pat_completeness auto
termination
  by (relation "measure length") (auto simp: rsplit_once_Some_iff)

function wildcard_loop :: "string \<Rightarrow> string list" where
  "wildcard_loop name =
     (case split_once (CHR ''.'') name of
        None \<Rightarrow> []
      | Some (_, rest) \<Rightarrow> (''*.'' @ rest) # wildcard_loop rest)"
  by pat_completeness auto
termination
  by (relation "measure length") (auto simp: split_once_Some_iff)

declare parent_loop.simps [simp del] wildcard_loop.simps [simp del]

definition strip_port :: "string \<Rightarrow> string" where
  "strip_port name = (case rsplit_once (CHR '':'') name of None \<Rightarrow> name | Some (h, _) \<Rightarrow> h)"

definition get_image_namespaces :: "oci_reference \<Rightarrow> string list" where
  "get_image_namespaces r =
     (case parent_loop (get_image_repository_full_name r) of
        (res, host) \<Rightarrow> res @ wildcard_loop (strip_port host))"

section \<open>Rules for the signed identity\<close>

datatype match_type =
    MatchExact
  | MatchRepoDigestOrExact
  | MatchRepository
  | ExactReference string
  | ExactRepository string
  | RemapIdentity string string

datatype match_error =
    DigestInMatchExact
  | MatchReference
  | BadReference string

definition default_match_policy :: match_type where
  "default_match_policy = MatchExact"

definition signed_repository :: "ref_parser \<Rightarrow> string \<Rightarrow> (match_error, string) result" where
  "signed_repository parse s =
     and_then (map_err BadReference (parse s)) (\<lambda>r. Inr (get_image_repository_full_name r))"

definition match_repo_digest_or_exact ::
  "ref_parser \<Rightarrow> oci_reference \<Rightarrow> string \<Rightarrow> (match_error, unit) result" where
  "match_repo_digest_or_exact parse origin signed =
     (if ref_tag origin \<noteq> None \<and> ref_whole origin \<noteq> signed then Inl MatchReference
      else if ref_digest origin \<noteq> None then
        and_then (signed_repository parse signed) (\<lambda>repo.
          if get_image_repository_full_name origin \<noteq> repo then Inl MatchReference else Inr ())
      else Inr ())"

fun matches_docker_reference ::
  "ref_parser \<Rightarrow> match_type \<Rightarrow> oci_reference \<Rightarrow> string \<Rightarrow> (match_error, unit) result" where
  "matches_docker_reference parse MatchExact origin signed =
     (if ref_digest origin \<noteq> None then Inl DigestInMatchExact
      else if ref_whole origin \<noteq> signed then Inl MatchReference
      else Inr ())"
| "matches_docker_reference parse MatchRepoDigestOrExact origin signed =
     match_repo_digest_or_exact parse origin signed"
| "matches_docker_reference parse MatchRepository origin signed =
     and_then (signed_repository parse signed) (\<lambda>repo.
       if get_image_repository_full_name origin \<noteq> repo then Inl MatchReference else Inr ())"
| "matches_docker_reference parse (ExactReference docker_reference) origin signed =
     (if signed \<noteq> docker_reference then Inl MatchReference else Inr ())"
| "matches_docker_reference parse (ExactRepository docker_repository) origin signed =
     and_then (signed_repository parse signed) (\<lambda>repo.
       if repo \<noteq> docker_repository then Inl MatchReference else Inr ())"
| "matches_docker_reference parse (RemapIdentity pre signed_prefix) origin signed =
     (let s = (case strip_prefix pre (ref_whole origin) of
                 Some rest \<Rightarrow> signed_prefix @ rest
               | None \<Rightarrow> ref_whole origin)
      in and_then (map_err BadReference (parse s)) (\<lambda>new_origin.
           match_repo_digest_or_exact parse new_origin signed))"

section \<open>Digest strings\<close>

lemma split_on_two: "split_on c s = [a, b] \<longleftrightarrow> s = a @ c # b \<and> c \<notin> set a \<and> c \<notin> set b"
proof
  assume *: "split_on c s = [a, b]"
  have "s = join_with c (split_on c s)" by (simp add: join_split_on)
  then have "s = a @ c # b" by (simp add: *)
  moreover have "c \<notin> set a" "c \<notin> set b" using split_on_pieces_free [of _ c s] * by auto
  ultimately show "s = a @ c # b \<and> c \<notin> set a \<and> c \<notin> set b" by blast
qed (simp add: split_on_append split_on_free)

lemma algorithm_from_str_Some_iff: "algorithm_from_str s = Some a \<longleftrightarrow> s = algorithm_str a"
  by (cases a) (auto simp: algorithm_from_str_def)

lemma hex_no_colon: "hex_decodes s \<Longrightarrow> CHR '':'' \<notin> set s"
  by (auto simp: hex_decodes_def list_all_iff is_hex_digit_def Let_def)

lemma algorithm_str_no_colon: "CHR '':'' \<notin> set (algorithm_str a)"
  by (cases a) auto

lemma algorithm_str_not_Nil [simp]: "algorithm_str a \<noteq> []" "0 < algorithm_length a"
  by (cases a; simp)+

lemma digest_try_from_Inr_iff:
  "digest_try_from s = Inr d \<longleftrightarrow>
     s = digest_to_string d \<and> hex_decodes (dg_value d) \<and>
     (\<exists>a. dg_algorithm d = algorithm_str a \<and> length (dg_value d) = algorithm_length a)"
proof
  assume *: "digest_try_from s = Inr d"
  then obtain a b where "split_on (CHR '':'') s = [a, b]"
    by (auto simp: digest_try_from_def split: list.splits)
  with * show "s = digest_to_string d \<and> hex_decodes (dg_value d) \<and>
     (\<exists>a. dg_algorithm d = algorithm_str a \<and> length (dg_value d) = algorithm_length a)"
    by (auto simp: digest_try_from_def digest_to_string_def split_on_two algorithm_from_str_Some_iff
        split: if_splits option.splits)
next
  assume *: "s = digest_to_string d \<and> hex_decodes (dg_value d) \<and>
     (\<exists>a. dg_algorithm d = algorithm_str a \<and> length (dg_value d) = algorithm_length a)"
  then obtain a where a: "dg_algorithm d = algorithm_str a" "length (dg_value d) = algorithm_length a" by blast
  then have "dg_value d \<noteq> []" by (metis algorithm_str_not_Nil(2) less_numeral_extra(3) list.size(3))
  moreover have "split_on (CHR '':'') s = [dg_algorithm d, dg_value d]"
    using * a hex_no_colon algorithm_str_no_colon by (simp add: split_on_two digest_to_string_def)
  moreover have "algorithm_from_str (dg_algorithm d) = Some a" using a by (simp add: algorithm_from_str_Some_iff)
  ultimately show "digest_try_from s = Inr d" using * a by (simp add: digest_try_from_def)
qed

text \<open>
  Digest strings: a string parses to a digest exactly when it prints from it, its algorithm is a
  supported one and its value is a hexadecimal string of that algorithm's length. Parsing is thus
  injective and printing a parsed digest gives the same string back.
\<close>

lemma digest_parse_iff:
  "digest_try_from s = Inr d \<longleftrightarrow>
     s = digest_to_string d \<and> hex_decodes (dg_value d) \<and>
     (\<exists>a. dg_algorithm d = algorithm_str a \<and> length (dg_value d) = algorithm_length a)"
  by (rule digest_try_from_Inr_iff)

section \<open>Namespaces of an image\<close>

lemma parent_loop_join:
  assumes "ps \<noteq> []" and "\<forall>p\<in>set ps. CHR ''/'' \<notin> set p"
  shows "parent_loop (join_with (CHR ''/'') ps) =
    (map (\<lambda>k. join_with (CHR ''/'') (take k ps)) (rev [1..<Suc (length ps)]), hd ps)"
  using assms
proof (induction ps rule: rev_induct)
  case Nil
  then show ?case by simp
next
  case (snoc p ps)
  show ?case
  proof (cases "ps = []")
    case True
    with snoc.prems have "rsplit_once (CHR ''/'') p = None" by (simp add: rsplit_once_None_iff)
    with True show ?thesis by (simp add: parent_loop.simps [of p])
  next
    case False
    with snoc.prems have "rsplit_once (CHR ''/'') (join_with (CHR ''/'') (ps @ [p])) =
        Some (join_with (CHR ''/'') ps, p)"
      by (simp add: join_with_snoc rsplit_once_Some_iff)
    then have "parent_loop (join_with (CHR ''/'') (ps @ [p])) =
        (case parent_loop (join_with (CHR ''/'') ps) of (res, host) \<Rightarrow> (join_with (CHR ''/'') (ps @ [p]) # res, host))"
      by (simp add: parent_loop.simps [of "join_with _ (ps @ [p])"])
    with False snoc show ?thesis by (auto simp: hd_append)
  qed
qed

lemma wildcard_loop_join:
  assumes "ls \<noteq> []" and "\<forall>l\<in>set ls. CHR ''.'' \<notin> set l"
  shows "wildcard_loop (join_with (CHR ''.'') ls) =
    map (\<lambda>k. ''*.'' @ join_with (CHR ''.'') (drop k ls)) [1..<length ls]"
  using assms
proof (induction ls)
  case Nil
  then show ?case by simp
next
  case (Cons l ls)
  show ?case
  proof (cases "ls = []")
    case True
    with Cons.prems have "split_once (CHR ''.'') l = None" by (simp add: split_once_None_iff)
    with True show ?thesis by (simp add: wildcard_loop.simps [of l])
  next
    case False
    with Cons.prems have "split_once (CHR ''.'') (join_with (CHR ''.'') (l # ls)) =
        Some (l, join_with (CHR ''.'') ls)"
      by (simp add: join_with_Cons split_once_Some_iff)
    then have "wildcard_loop (join_with (CHR ''.'') (l # ls)) =
        (''*.'' @ join_with (CHR ''.'') ls) # wildcard_loop (join_with (CHR ''.'') ls)"
      by (simp add: wildcard_loop.simps [of "join_with _ (l # ls)"])
    moreover have "[1..<length (l # ls)] = 1 # map Suc [1..<length ls]"
      using False by (simp add: map_Suc_upt upt_conv_Cons Suc_le_eq del: upt_Suc)
    ultimately show ?thesis using False Cons by simp
  qed
qed

text \<open>A host without its last colon and what follows it.\<close>

definition without_port :: "string \<Rightarrow> string" where
  "without_port host =
     (let cs = split_on (CHR '':'') host in if length cs = 1 then host else join_with (CHR '':'') (butlast cs))"

lemma strip_port_eq: "strip_port host = without_port host"
proof (cases "rsplit_once (CHR '':'') host")
  case None
  then have "CHR '':'' \<notin> set host" by (simp add: rsplit_once_None_iff)
  with None show ?thesis by (simp add: strip_port_def without_port_def split_on_free)
next
  case (Some hp)
  then obtain h q where "host = h @ CHR '':'' # q" "CHR '':'' \<notin> set q" "hp = (h, q)"
    by (cases hp) (auto simp: rsplit_once_Some_iff)
  then show ?thesis
    using Some by (simp add: strip_port_def without_port_def split_on_snoc join_split_on)
qed

text \<open>
  The namespaces of an image: for a full name with the path components \<open>ps\<close>, the list holds the
  name and each of its parents, longest first, down to the host, and then a wildcard for every proper
  suffix of the host's domain, with the port removed, longest first; nothing else. Both loops end.
\<close>

lemma image_namespaces_exact:
  "get_image_namespaces r =
     (let ps = split_on (CHR ''/'') (get_image_repository_full_name r);
          ls = split_on (CHR ''.'') (without_port (hd ps))
      in map (\<lambda>k. join_with (CHR ''/'') (take k ps)) (rev [1..<Suc (length ps)]) @
         map (\<lambda>k. ''*.'' @ join_with (CHR ''.'') (drop k ls)) [1..<length ls])"
proof -
  define name where "name = get_image_repository_full_name r"
  define ps where "ps = split_on (CHR ''/'') name"
  define ls where "ls = split_on (CHR ''.'') (strip_port (hd ps))"
  have "parent_loop name = (map (\<lambda>k. join_with (CHR ''/'') (take k ps)) (rev [1..<Suc (length ps)]), hd ps)"
    unfolding ps_def using parent_loop_join [OF split_on_not_Nil split_on_all_free] by (simp only: join_split_on)
  moreover have "wildcard_loop (strip_port (hd ps)) =
      map (\<lambda>k. ''*.'' @ join_with (CHR ''.'') (drop k ls)) [1..<length ls]"
    unfolding ls_def using wildcard_loop_join [OF split_on_not_Nil split_on_all_free] by (simp only: join_split_on)
  ultimately show ?thesis
    by (simp add: get_image_namespaces_def ps_def ls_def name_def Let_def strip_port_eq)
qed

section \<open>Accepted identities\<close>

text \<open>
  What the rules rely on of the reference parser: a parsed reference has a tag (\<open>latest\<close> by default)
  or a digest, and its full form parses to the same reference.
\<close>

definition ref_laws :: "ref_parser \<Rightarrow> bool" where
  "ref_laws parse \<longleftrightarrow>
     (\<forall>s r. parse s = Inr r \<longrightarrow> (ref_tag r \<noteq> None \<or> ref_digest r \<noteq> None) \<and> parse (ref_whole r) = Inr r)"

lemma match_repo_digest_or_exact_repo:
  assumes "ref_laws parse" and "parse s = Inr origin"
    and "match_repo_digest_or_exact parse origin signed = Inr ()"
  shows "signed_repository parse signed = Inr (get_image_repository_full_name origin) \<and>
         (ref_tag origin \<noteq> None \<longrightarrow> signed = ref_whole origin)"
proof -
  from assms(1,2) have t: "ref_tag origin \<noteq> None \<or> ref_digest origin \<noteq> None"
    and w: "parse (ref_whole origin) = Inr origin" by (auto simp: ref_laws_def)
  from assms(3) t w show ?thesis
    by (auto simp: match_repo_digest_or_exact_def result_iff signed_repository_def split: if_splits)
qed

text \<open>
  Under every rule that compares with the image itself, an accepted signature claims the same
  repository as the image that is checked; with \<open>matchExact\<close>, and with
  \<open>matchRepoDigestOrExact\<close> for a reference that has a tag, it claims the very same reference.
\<close>

lemma accepted_identity_same_repository:
  assumes laws: "ref_laws parse" and origin: "parse s = Inr origin"
    and rule: "rule = MatchExact \<or> rule = MatchRepoDigestOrExact \<or> rule = MatchRepository"
    and ok: "matches_docker_reference parse rule origin signed = Inr ()"
  shows "(\<exists>r. parse signed = Inr r \<and> get_image_repository_full_name r = get_image_repository_full_name origin) \<and>
         (rule = MatchExact \<or> rule = MatchRepoDigestOrExact \<and> ref_tag origin \<noteq> None \<longrightarrow> signed = ref_whole origin)"
proof -
  from laws origin have w: "parse (ref_whole origin) = Inr origin" by (auto simp: ref_laws_def)
  note md = match_repo_digest_or_exact_repo [OF laws origin, of signed]
  from rule ok show ?thesis
  proof (elim disjE)
    assume "rule = MatchExact"
    with ok w show ?thesis by (auto split: if_splits)
  next
    assume "rule = MatchRepoDigestOrExact"
    with ok md show ?thesis by (auto simp: signed_repository_def result_iff)
  next
    assume "rule = MatchRepository"
    with ok show ?thesis by (auto simp: signed_repository_def result_iff split: if_splits)
  qed
qed

text \<open>A reference parser for the examples: one registry, one repository, a tag after the colon.\<close>

definition demo_ref :: "string \<Rightarrow> oci_reference" where
  "demo_ref t = \<lparr>ref_whole = ''r.io:5000/a/b:'' @ t, ref_registry = ''r.io:5000'', ref_repository = ''a/b'',
     ref_tag = Some t, ref_digest = None\<rparr>"

definition demo_parse :: ref_parser where
  "demo_parse s =
     (case strip_prefix ''r.io:5000/a/b:'' s of
        Some t \<Rightarrow> Inr (demo_ref t)
      | None \<Rightarrow> Inl ''bad reference'')"

lemma demo_parse_laws: "ref_laws demo_parse"
  by (auto simp: ref_laws_def demo_parse_def demo_ref_def split: option.splits)

lemma accepted_identity_same_repository_witness:
  "\<exists>r. demo_parse ''r.io:5000/a/b:2'' = Inr r \<and> get_image_repository_full_name r = ''r.io:5000/a/b''"
  using accepted_identity_same_repository
    [OF demo_parse_laws, of "''r.io:5000/a/b:1''" "demo_ref ''1''" MatchRepository "''r.io:5000/a/b:2''"]
  by (simp add: demo_parse_def demo_ref_def signed_repository_def get_image_repository_full_name_def)

end
