(* ===== verification/Signature_Policy.thy ===== *)
theory Signature_Policy
  imports Image_Identity
begin

text \<open>
  \<open>image-rs/src/signature/policy\<close>: the image policy and the selection of the requirements for an
  image, and the configuration that says where the simple signing signatures of a namespace are
  stored, with the merging of its files. Both look an image up in a table of namespaces; the locale
  \<open>scoped_table\<close> is what they have in common.
\<close>

section \<open>Lookup in a table of namespaces\<close>

fun first_scope :: "(string \<rightharpoonup> 'v) \<Rightarrow> string list \<Rightarrow> 'v option" where
  "first_scope scopes [] = None"
| "first_scope scopes (name # names) =
     (case scopes name of Some v \<Rightarrow> Some v | None \<Rightarrow> first_scope scopes names)"

lemma first_scope_Some_iff:
  "first_scope scopes ns = Some v \<longleftrightarrow>
     (\<exists>xs k ys. ns = xs @ k # ys \<and> scopes k = Some v \<and> (\<forall>x\<in>set xs. scopes x = None))"
proof (induction ns)
  case Nil
  then show ?case by simp
next
  case (Cons n ns)
  show ?case
  proof (cases "scopes n")
    case None
    then have "first_scope scopes (n # ns) = Some v \<longleftrightarrow> first_scope scopes ns = Some v" by simp
    also have "\<dots> \<longleftrightarrow> (\<exists>xs k ys. ns = xs @ k # ys \<and> scopes k = Some v \<and> (\<forall>x\<in>set xs. scopes x = None))"
      by (rule Cons.IH)
    also have "\<dots> \<longleftrightarrow> (\<exists>xs k ys. n # ns = xs @ k # ys \<and> scopes k = Some v \<and> (\<forall>x\<in>set xs. scopes x = None))"
      using None by (auto simp: Cons_eq_append_conv) (metis set_ConsD)+
    finally show ?thesis .
  next
    case (Some w)
    show ?thesis
    proof
      assume "first_scope scopes (n # ns) = Some v"
      with Some have "n # ns = [] @ n # ns" "scopes n = Some v" by simp_all
      then show "\<exists>xs k ys. n # ns = xs @ k # ys \<and> scopes k = Some v \<and> (\<forall>x\<in>set xs. scopes x = None)"
        by fastforce
    qed (use Some in \<open>auto simp: Cons_eq_append_conv\<close>)
  qed
qed

lemma first_scope_None_iff: "first_scope scopes ns = None \<longleftrightarrow> (\<forall>n\<in>set ns. scopes n = None)"
  by (induction ns) (auto split: option.splits)

lemma first_scope_append:
  "first_scope scopes (ns @ ms) =
     (case first_scope scopes ns of Some v \<Rightarrow> Some v | None \<Rightarrow> first_scope scopes ms)"
  by (induction ns) (auto split: option.splits)

locale scoped_table =
  fixes pick :: "'t \<Rightarrow> 'i \<Rightarrow> 'v"
    and scopes :: "'t \<Rightarrow> string \<rightharpoonup> 'v"
    and candidates :: "'i \<Rightarrow> string list"
    and fallback :: "'t \<Rightarrow> 'v"
  assumes pick_first:
    "pick t i = (case first_scope (scopes t) (candidates i) of Some v \<Rightarrow> v | None \<Rightarrow> fallback t)"
begin

lemma pick_most_specific:
  "candidates i = xs @ k # ys \<Longrightarrow> scopes t k = Some v \<Longrightarrow> \<forall>x\<in>set xs. scopes t x = None \<Longrightarrow> pick t i = v"
proof -
  assume "candidates i = xs @ k # ys" "scopes t k = Some v" "\<forall>x\<in>set xs. scopes t x = None"
  then have "first_scope (scopes t) (candidates i) = Some v" unfolding first_scope_Some_iff by blast
  then show ?thesis by (simp add: pick_first)
qed

lemma pick_fallback: "\<forall>k\<in>set (candidates i). scopes t k = None \<Longrightarrow> pick t i = fallback t"
  by (simp add: pick_first first_scope_None_iff [THEN iffD2])

lemma pick_cases:
  "(\<exists>xs k ys. candidates i = xs @ k # ys \<and> scopes t k = Some (pick t i) \<and> (\<forall>x\<in>set xs. scopes t x = None)) \<or>
   (\<forall>k\<in>set (candidates i). scopes t k = None) \<and> pick t i = fallback t"
proof (cases "first_scope (scopes t) (candidates i)")
  case None
  then have "\<forall>k\<in>set (candidates i). scopes t k = None" by (simp add: first_scope_None_iff)
  then show ?thesis by (simp add: pick_fallback)
next
  case (Some v)
  then have "pick t i = v" by (simp add: pick_first)
  with Some show ?thesis by (auto simp: first_scope_Some_iff)
qed

lemma pick_cong:
  assumes "\<And>k. k \<in> set (candidates i) \<Longrightarrow> scopes t k = scopes t' k" and "fallback t = fallback t'"
  shows "pick t i = pick t' i"
proof -
  have "first_scope (scopes t) ns = first_scope (scopes t') ns" if "set ns \<subseteq> set (candidates i)" for ns
    using that assms(1) by (induction ns) (auto split: option.splits)
  then have "first_scope (scopes t) (candidates i) = first_scope (scopes t') (candidates i)" by simp
  then show ?thesis by (simp only: pick_first assms(2))
qed

end

section \<open>The policy\<close>

record cosign_parameters =
  cos_key_path :: "string option"
  cos_key_data :: "string option"
  cos_signed_identity :: "match_type option"

record simple_parameters =
  simple_key_type :: string
  simple_key_path :: "string option"
  simple_key_data :: "string option"
  simple_signed_identity :: "match_type option"

datatype policy_req =
    Accept
  | Reject
  | SimpleSigning simple_parameters
  | Cosign cosign_parameters

type_synonym transport_scopes = "string \<rightharpoonup> policy_req list"

record policy =
  pol_default :: "policy_req list"
  pol_transports :: "string \<rightharpoonup> transport_scopes"

definition requirements_for_image :: "policy \<Rightarrow> image \<Rightarrow> policy_req list" where
  "requirements_for_image p img =
     (case pol_transports p (transport_name img) of
        Some transport_scopes \<Rightarrow>
          (case transport_scopes (ref_whole (img_reference img)) of
             Some reqs \<Rightarrow> reqs
           | None \<Rightarrow>
               (case first_scope transport_scopes (get_image_namespaces (img_reference img)) of
                  Some reqs \<Rightarrow> reqs
                | None \<Rightarrow>
                    (case transport_scopes '''' of
                       Some reqs \<Rightarrow> reqs
                     | None \<Rightarrow> pol_default p)))
      | None \<Rightarrow> pol_default p)"

text \<open>The table of a policy for the only transport that images have, and the names looked up in it.\<close>

definition docker_scopes :: "policy \<Rightarrow> transport_scopes" where
  "docker_scopes p = (case pol_transports p ''docker'' of Some t \<Rightarrow> t | None \<Rightarrow> Map.empty)"

definition image_scopes :: "image \<Rightarrow> string list" where
  "image_scopes img = ref_whole (img_reference img) # get_image_namespaces (img_reference img) @ ['''']"

lemma first_scope_empty [simp]: "first_scope Map.empty ns = None"
  by (simp add: first_scope_None_iff)

interpretation requirements: scoped_table requirements_for_image docker_scopes image_scopes pol_default
  by unfold_locales
     (auto simp: requirements_for_image_def docker_scopes_def image_scopes_def transport_name_def
        first_scope_append split: option.splits)



section \<open>Where the signatures are stored\<close>

type_synonym sigstore_entry = string

record sigstore_config =
  sc_default :: "sigstore_entry option"
  sc_docker :: "(string \<times> sigstore_entry) list option"

datatype sigstore_error =
    DefaultDockerRepeated
  | NamespaceRepeated string
  | SigstoreIo string
  | SigstorePath
  | SigstoreNotUtf8
  | SigstoreYaml string
  | SigstoreHttp

definition sigstore_default :: sigstore_config where
  "sigstore_default = \<lparr>sc_default = None, sc_docker = None\<rparr>"

definition format_sigstore_name :: "oci_reference \<Rightarrow> digest \<Rightarrow> string" where
  "format_sigstore_name r d =
     ref_repository r @ CHR ''@'' # dg_algorithm d @ CHR ''='' # dg_value d"

definition sc_get_namespace :: "sigstore_config \<Rightarrow> string \<Rightarrow> sigstore_entry option" where
  "sc_get_namespace c ns = (case sc_docker c of Some m \<Rightarrow> map_of m ns | None \<Rightarrow> None)"

definition sc_insert :: "string \<Rightarrow> sigstore_entry \<Rightarrow> sigstore_config \<Rightarrow> sigstore_config" where
  "sc_insert ns e c =
     c\<lparr>sc_docker := Some (case sc_docker c of Some m \<Rightarrow> AList.update ns e m | None \<Rightarrow> [(ns, e)])\<rparr>"

definition sc_merge_step ::
  "sigstore_config \<Rightarrow> string \<times> sigstore_entry \<Rightarrow> (sigstore_error, sigstore_config) result" where
  "sc_merge_step c entry =
     (case entry of (ns_name, ns_config) \<Rightarrow>
        (case sc_get_namespace c ns_name of
           Some namespace \<Rightarrow>
             (if namespace \<noteq> ns_config then Inl (NamespaceRepeated ns_name) else Inr c)
         | None \<Rightarrow> Inr (sc_insert ns_name ns_config c)))"

definition sc_update_self :: "sigstore_config \<Rightarrow> (sigstore_config, sigstore_error, unit) stateful" where
  "sc_update_self input self =
     (case and_then
            (if sc_default input \<noteq> None then
               (if sc_default self \<noteq> None \<and> sc_default input \<noteq> sc_default self
                then Inl DefaultDockerRepeated
                else Inr (self\<lparr>sc_default := sc_default input\<rparr>))
             else Inr self)
            (\<lambda>merged. case sc_docker input of
                None \<Rightarrow> Inr merged
              | Some m \<Rightarrow> try_fold sc_merge_step merged m) of
        Inl e \<Rightarrow> (Inl e, self)
      | Inr merged \<Rightarrow> (Inr (), merged))"

text \<open>The file system calls that the loaders make, and the YAML parser.\<close>

record sigstore_fs =
  sf_read_dir :: "string \<Rightarrow> (string, (string, string) result list) result"
  sf_is_dir :: "string \<Rightarrow> bool"
  sf_read :: "string \<Rightarrow> (string, bytes) result"
  sf_yaml :: "string \<Rightarrow> (string, sigstore_config) result"

text \<open>\<open>Path::extension\<close>: what follows the last dot of the file name, unless it starts the name.\<close>

definition path_file_name :: "string \<Rightarrow> string" where
  "path_file_name path = (case rsplit_once (CHR ''/'') path of Some (_, n) \<Rightarrow> n | None \<Rightarrow> path)"

definition path_extension :: "string \<Rightarrow> string option" where
  "path_extension path =
     (case rsplit_once (CHR ''.'') (path_file_name path) of
        Some (stem, ext) \<Rightarrow> (if stem = [] then None else Some ext)
      | None \<Rightarrow> None)"

text \<open>The configuration that a directory entry contributes; \<open>None\<close> for the entries that are skipped.\<close>

definition entry_config ::
  "sigstore_fs \<Rightarrow> (string, string) result \<Rightarrow> (sigstore_error, sigstore_config option) result" where
  "entry_config F entry =
     and_then (map_err SigstoreIo entry) (\<lambda>path.
       if sf_is_dir F path \<or> path_extension path \<noteq> Some ''yaml'' then Inr None
       else and_then (ok_or SigstorePath (from_utf8 path)) (\<lambda>path_str.
            and_then (map_err SigstoreIo (sf_read F path_str)) (\<lambda>content.
            and_then (ok_or SigstoreNotUtf8 (from_utf8 content)) (\<lambda>yaml.
            and_then (map_err SigstoreYaml (sf_yaml F yaml)) (\<lambda>config. Inr (Some config))))))"

fun load_configs ::
  "sigstore_fs \<Rightarrow> sigstore_config \<Rightarrow> (string, string) result list \<Rightarrow> (sigstore_error, sigstore_config) result" where
  "load_configs F merged [] = Inr merged"
| "load_configs F merged (entry # entries) =
     and_then (entry_config F entry) (\<lambda>config.
       case config of
         None \<Rightarrow> load_configs F merged entries
       | Some c \<Rightarrow>
           (case sc_update_self c merged of
              (Inl e, _) \<Rightarrow> Inl e
            | (Inr _, merged') \<Rightarrow> load_configs F merged' entries))"

definition new_from_configs :: "sigstore_fs \<Rightarrow> string \<Rightarrow> (sigstore_error, sigstore_config) result" where
  "new_from_configs F dir =
     and_then (map_err SigstoreIo (sf_read_dir F dir)) (\<lambda>entries. load_configs F sigstore_default entries)"

definition update_from_path ::
  "sigstore_fs \<Rightarrow> string \<Rightarrow> (sigstore_config, sigstore_error, unit) stateful" where
  "update_from_path F workdir self =
     (case new_from_configs F workdir of
        Inl e \<Rightarrow> (Inl e, self)
      | Inr c \<Rightarrow> sc_update_self c self)"

definition base_url :: "sigstore_config \<Rightarrow> oci_reference \<Rightarrow> string option" where
  "base_url c r =
     (case (case sc_docker c of
              Some m \<Rightarrow> first_scope (map_of m) (ref_whole r # get_image_namespaces r)
            | None \<Rightarrow> None) of
        Some sigstore \<Rightarrow> Some sigstore
      | None \<Rightarrow> sc_default c)"

record url =
  url_scheme :: string
  url_path :: string

fun read_signatures ::
  "sigstore_fs \<Rightarrow> (string, string) result list \<Rightarrow> (sigstore_error, bytes list) result" where
  "read_signatures F [] = Inr []"
| "read_signatures F (entry # entries) =
     and_then (map_err SigstoreIo entry) (\<lambda>path.
       if sf_is_dir F path then read_signatures F entries
       else and_then (ok_or SigstorePath (from_utf8 path)) (\<lambda>path_str.
            and_then (map_err SigstoreIo (sf_read F path_str)) (\<lambda>sig.
            and_then (read_signatures F entries) (\<lambda>res. Inr (sig # res)))))"

definition get_sigs_from_specific_sigstore :: "sigstore_fs \<Rightarrow> url \<Rightarrow> (sigstore_error, bytes list) result" where
  "get_sigs_from_specific_sigstore F uri =
     (if url_scheme uri = ''file'' then
        and_then (map_err SigstoreIo (sf_read_dir F (url_path uri))) (read_signatures F)
      else Inl SigstoreHttp)"

section \<open>Merging sigstore configurations\<close>

lemma sc_get_insert [simp]: "sc_get_namespace (sc_insert ns e c) = (sc_get_namespace c)(ns \<mapsto> e)"
  by (auto simp: sc_get_namespace_def sc_insert_def update_conv' fun_eq_iff split: option.splits)

lemma sc_insert_default [simp]: "sc_default (sc_insert ns e c) = sc_default c"
  by (simp add: sc_insert_def)

lemma sc_get_default_upd [simp]: "sc_get_namespace (c\<lparr>sc_default := d\<rparr>) = sc_get_namespace c"
  by (simp add: sc_get_namespace_def fun_eq_iff)

text \<open>Two tables agree when they do not map a key to different values.\<close>

definition agree :: "('k \<rightharpoonup> 'v) \<Rightarrow> ('k \<rightharpoonup> 'v) \<Rightarrow> bool" where
  "agree m n \<longleftrightarrow> (\<forall>k. m k = None \<or> n k = None \<or> m k = n k)"

lemma agree_sym: "agree m n \<longleftrightarrow> agree n m"
  by (auto simp: agree_def)

lemma agree_upd_right:
  assumes "n k = None"
  shows "agree m (n(k \<mapsto> v)) \<longleftrightarrow> agree m n \<and> (m k = None \<or> m k = Some v)"
proof -
  have split: "(\<forall>x. P x) \<longleftrightarrow> (\<forall>x. x \<noteq> k \<longrightarrow> P x) \<and> P k" for P by metis
  have "agree m (n(k \<mapsto> v)) \<longleftrightarrow>
      (\<forall>k'. k' \<noteq> k \<longrightarrow> m k' = None \<or> n k' = None \<or> m k' = n k') \<and> (m k = None \<or> m k = Some v)"
    unfolding agree_def by (subst split) simp
  also have "(\<forall>k'. k' \<noteq> k \<longrightarrow> m k' = None \<or> n k' = None \<or> m k' = n k') \<longleftrightarrow> agree m n"
    unfolding agree_def by (subst (2) split) (use assms in simp)
  finally show ?thesis .
qed

lemma agree_upd_left:
  "m k = None \<Longrightarrow> agree (m(k \<mapsto> v)) n \<longleftrightarrow> agree m n \<and> (n k = None \<or> n k = Some v)"
  using agree_upd_right [of m k n v] by (simp add: agree_sym)

definition sc_compatible :: "sigstore_config \<Rightarrow> sigstore_config \<Rightarrow> bool" where
  "sc_compatible a b \<longleftrightarrow>
     (sc_default a = None \<or> sc_default b = None \<or> sc_default a = sc_default b) \<and>
     agree (sc_get_namespace a) (sc_get_namespace b)"

definition sc_wf :: "sigstore_config \<Rightarrow> bool" where
  "sc_wf c \<longleftrightarrow> (case sc_docker c of Some m \<Rightarrow> distinct (map fst m) | None \<Rightarrow> True)"

definition or_else :: "'a option \<Rightarrow> 'a option \<Rightarrow> 'a option" where
  "or_else a b = (case a of Some x \<Rightarrow> Some x | None \<Rightarrow> b)"

lemma or_else_simps [simp]: "or_else (Some x) b = Some x" "or_else None b = b"
  by (simp_all add: or_else_def)

lemma or_else_None [simp]: "or_else a None = a"
  by (cases a) simp_all

lemma sc_merge_step_simps:
  "sc_get_namespace c ns = None \<Longrightarrow> sc_merge_step c (ns, e) = Inr (sc_insert ns e c)"
  "sc_get_namespace c ns = Some e' \<Longrightarrow>
     sc_merge_step c (ns, e) = (if e' \<noteq> e then Inl (NamespaceRepeated ns) else Inr c)"
  by (simp_all add: sc_merge_step_def)

lemma merge_fold_ok:
  assumes "distinct (map fst m)" and "agree (sc_get_namespace c) (map_of m)"
  shows "\<exists>c'. try_fold sc_merge_step c m = Inr c' \<and> sc_default c' = sc_default c \<and>
     sc_get_namespace c' = (\<lambda>ns. or_else (sc_get_namespace c ns) (map_of m ns))"
  using assms
proof (induction m arbitrary: c)
  case Nil
  then show ?case by simp
next
  case (Cons x m)
  obtain ns e where x: "x = (ns, e)" by (cases x)
  have ns: "map_of m ns = None" using Cons.prems(1) by (simp add: x map_of_eq_None_iff)
  have a: "agree (sc_get_namespace c) (map_of m)" "sc_get_namespace c ns = None \<or> sc_get_namespace c ns = Some e"
    using Cons.prems(2) ns by (simp_all add: x agree_upd_right del: fun_upd_apply)
  show ?case
  proof (cases "sc_get_namespace c ns")
    case None
    then have "agree (sc_get_namespace (sc_insert ns e c)) (map_of m)"
      using a(1) ns by (simp add: agree_upd_left)
    from Cons.IH [OF _ this] Cons.prems(1) None ns show ?thesis
      by (auto simp: x sc_merge_step_simps fun_eq_iff)
  next
    case (Some e')
    with Cons.IH [OF _ a(1)] Cons.prems(1) a(2) ns show ?thesis
      by (auto simp: x sc_merge_step_simps fun_eq_iff)
  qed
qed

lemma merge_fold_agree:
  assumes "distinct (map fst m)" and "try_fold sc_merge_step c m = Inr c'"
  shows "agree (sc_get_namespace c) (map_of m)"
  using assms
proof (induction m arbitrary: c)
  case Nil
  then show ?case by (simp add: agree_def)
next
  case (Cons x m)
  obtain ns e where x: "x = (ns, e)" by (cases x)
  have ns: "map_of m ns = None" using Cons.prems(1) by (simp add: x map_of_eq_None_iff)
  show ?case
  proof (cases "sc_get_namespace c ns")
    case None
    with Cons.prems(2) have "try_fold sc_merge_step (sc_insert ns e c) m = Inr c'"
      by (simp add: x sc_merge_step_simps)
    from Cons.IH [OF _ this] Cons.prems(1) have "agree (sc_get_namespace (sc_insert ns e c)) (map_of m)"
      by (simp del: fun_upd_apply)
    with None ns show ?thesis by (simp add: x agree_upd_left agree_upd_right del: fun_upd_apply)
  next
    case (Some e')
    with Cons.prems(2) have "e' = e" "try_fold sc_merge_step c m = Inr c'"
      by (simp_all add: x sc_merge_step_simps split: if_splits)
    with Cons Some ns show ?thesis by (simp add: x agree_upd_right del: fun_upd_apply)
  qed
qed

lemma sc_same_default: "sc_default c = d \<Longrightarrow> c\<lparr>sc_default := d\<rparr> = c"
  by (cases c) simp

lemma sc_update_self_cases:
  assumes "sc_wf input"
  shows "if sc_compatible self input
     then \<exists>c'. sc_update_self input self = (Inr (), c') \<and> sc_default c' = or_else (sc_default self) (sc_default input) \<and>
            (\<forall>ns. sc_get_namespace c' ns = or_else (sc_get_namespace self ns) (sc_get_namespace input ns))
     else \<exists>e. sc_update_self input self = (Inl e, self)"
proof -
  let ?m = "case sc_docker input of Some m \<Rightarrow> m | None \<Rightarrow> []"
  have d: "distinct (map fst ?m)" using assms by (auto simp: sc_wf_def split: option.splits)
  have g: "sc_get_namespace input = map_of ?m" by (auto simp: sc_get_namespace_def split: option.splits)
  have t: "(case sc_docker input of None \<Rightarrow> Inr c | Some m \<Rightarrow> try_fold sc_merge_step c m) =
      try_fold sc_merge_step c ?m" for c by (simp split: option.splits)
  let ?dok = "sc_default self = None \<or> sc_default input = None \<or> sc_default self = sc_default input"
  let ?c = "self\<lparr>sc_default := or_else (sc_default self) (sc_default input)\<rparr>"
  have u: "sc_update_self input self =
     (if ?dok then (case try_fold sc_merge_step ?c ?m of Inl e \<Rightarrow> (Inl e, self) | Inr c \<Rightarrow> (Inr (), c))
      else (Inl DefaultDockerRepeated, self))"
    unfolding sc_update_self_def t by (cases "sc_default self"; cases "sc_default input") (auto simp: sc_same_default)
  show ?thesis
  proof (cases "?dok \<and> agree (sc_get_namespace self) (map_of ?m)")
    case True
    with merge_fold_ok [OF d, of ?c] u show ?thesis by (auto simp: sc_compatible_def g)
  next
    case False
    have "\<exists>e. sc_update_self input self = (Inl e, self)"
    proof (cases ?dok)
      case True
      with False merge_fold_agree [OF d, of ?c] have "\<And>c. try_fold sc_merge_step ?c ?m \<noteq> Inr c" by auto
      with True show ?thesis unfolding u by (cases "try_fold sc_merge_step ?c ?m") auto
    qed (simp only: u if_False, blast)
    with False show ?thesis by (auto simp: sc_compatible_def g)
  qed
qed

text \<open>
  Merging is all or nothing: a configuration is merged in exactly when it contradicts the
  current one neither in the default nor in a namespace; then every entry of both is found and
  nothing else, and otherwise the current configuration is left unchanged.
\<close>

lemma sigstore_update_all_or_nothing:
  assumes "sc_wf input"
  shows "if sc_compatible self input
     then \<exists>c'. sc_update_self input self = (Inr (), c') \<and> sc_default c' = or_else (sc_default self) (sc_default input) \<and>
            (\<forall>ns. sc_get_namespace c' ns = or_else (sc_get_namespace self ns) (sc_get_namespace input ns))
     else \<exists>e. sc_update_self input self = (Inl e, self)"
  using assms by (rule sc_update_self_cases)

lemma sigstore_update_all_or_nothing_witness:
  "\<exists>c'. sc_update_self \<lparr>sc_default = None, sc_docker = Some [(''b'', ''file:///2'')]\<rparr>
       \<lparr>sc_default = Some ''file:///d'', sc_docker = Some [(''a'', ''file:///1'')]\<rparr> = (Inr (), c') \<and>
     sc_get_namespace c' ''a'' = Some ''file:///1'' \<and> sc_get_namespace c' ''b'' = Some ''file:///2''"
proof -
  let ?b = "\<lparr>sc_default = None, sc_docker = Some [(''b'', ''file:///2'')]\<rparr>"
  let ?a = "\<lparr>sc_default = Some ''file:///d'', sc_docker = Some [(''a'', ''file:///1'')]\<rparr>"
  have "sc_wf ?b" by (simp add: sc_wf_def)
  moreover have "sc_compatible ?a ?b" by (auto simp: sc_compatible_def agree_def sc_get_namespace_def split: if_splits)
  moreover have "sc_get_namespace ?a ''a'' = Some ''file:///1''" "sc_get_namespace ?a ''b'' = None"
    "sc_get_namespace ?b ''b'' = Some ''file:///2''" by (simp_all add: sc_get_namespace_def)
  ultimately show ?thesis using sigstore_update_all_or_nothing [of ?b ?a] by auto
qed

section \<open>The order of the configuration files\<close>

definition url_scopes :: "sigstore_config \<Rightarrow> string \<rightharpoonup> string option" where
  "url_scopes c ns = map_option Some (sc_get_namespace c ns)"

lemma first_scope_map_option:
  "first_scope (\<lambda>k. map_option f (m k)) ns = map_option f (first_scope m ns)"
  by (induction ns) (auto split: option.splits)

interpretation sigstore: scoped_table base_url url_scopes "\<lambda>r. ref_whole r # get_image_namespaces r" sc_default
proof unfold_locales
  fix c r
  have m: "url_scopes c = (\<lambda>k. map_option Some (sc_get_namespace c k))" by (simp add: url_scopes_def fun_eq_iff)
  have "(case sc_docker c of Some m \<Rightarrow> first_scope (map_of m) ns | None \<Rightarrow> None) = first_scope (sc_get_namespace c) ns" for ns
    by (cases "sc_docker c") (simp_all add: sc_get_namespace_def [abs_def] first_scope_None_iff)
  then show "base_url c r = (case first_scope (url_scopes c) (ref_whole r # get_image_namespaces r) of
      Some v \<Rightarrow> v | None \<Rightarrow> sc_default c)"
    unfolding base_url_def m first_scope_map_option by (simp split: option.splits)
qed

lemma sc_compatible_refl: "sc_compatible c c"
  by (simp add: sc_compatible_def agree_def)

lemma sc_compatible_sym: "sc_compatible a b \<longleftrightarrow> sc_compatible b a"
  by (auto simp: sc_compatible_def agree_sym)

definition opt_agree :: "'a option \<Rightarrow> 'a option \<Rightarrow> bool" where
  "opt_agree x y \<longleftrightarrow> x = None \<or> y = None \<or> x = y"

lemma opt_agree_or_else:
  "opt_agree x y \<Longrightarrow> opt_agree (or_else x y) z \<longleftrightarrow> opt_agree x z \<and> opt_agree y z"
  by (cases x; cases y; cases z) (auto simp: opt_agree_def)

lemma or_else_Some_iff: "opt_agree x y \<Longrightarrow> or_else x y = Some e \<longleftrightarrow> x = Some e \<or> y = Some e"
  by (cases x; cases y) (auto simp: opt_agree_def)

lemma sc_compatible_alt:
  "sc_compatible a b \<longleftrightarrow> opt_agree (sc_default a) (sc_default b) \<and>
     (\<forall>ns. opt_agree (sc_get_namespace a ns) (sc_get_namespace b ns))"
  by (simp add: sc_compatible_def agree_def opt_agree_def)

text \<open>The configurations that a directory listing contributes.\<close>

definition listed_configs :: "sigstore_fs \<Rightarrow> (string, string) result list \<Rightarrow> sigstore_config set" where
  "listed_configs F es = {c. \<exists>e\<in>set es. entry_config F e = Inr (Some c)}"

definition all_compatible :: "sigstore_config set \<Rightarrow> bool" where
  "all_compatible S \<longleftrightarrow> (\<forall>a\<in>S. \<forall>b\<in>S. sc_compatible a b)"

lemma all_compatible_insert:
  "all_compatible (insert c S) \<longleftrightarrow> all_compatible S \<and> (\<forall>a\<in>S. sc_compatible c a)"
  using sc_compatible_refl sc_compatible_sym by (auto simp: all_compatible_def)

text \<open>A configuration provides an entry for a namespace, or for the default.\<close>

definition provides :: "sigstore_config \<Rightarrow> string option \<Rightarrow> sigstore_entry \<Rightarrow> bool" where
  "provides c place e \<longleftrightarrow>
     (case place of None \<Rightarrow> sc_default c = Some e | Some ns \<Rightarrow> sc_get_namespace c ns = Some e)"

lemma sc_update_self_merged:
  assumes "sc_wf c" and "sc_compatible c0 c"
  obtains c1 where "sc_update_self c c0 = (Inr (), c1)"
    "\<And>a. sc_compatible c1 a \<longleftrightarrow> sc_compatible c0 a \<and> sc_compatible c a"
    "\<And>place e. provides c1 place e \<longleftrightarrow> provides c0 place e \<or> provides c place e"
proof -
  from sc_update_self_cases [OF assms(1), of c0] assms(2) obtain c1 where
    u: "sc_update_self c c0 = (Inr (), c1)" and d: "sc_default c1 = or_else (sc_default c0) (sc_default c)"
    and g: "\<And>ns. sc_get_namespace c1 ns = or_else (sc_get_namespace c0 ns) (sc_get_namespace c ns)" by auto
  have ag: "opt_agree (sc_default c0) (sc_default c)" "\<And>ns. opt_agree (sc_get_namespace c0 ns) (sc_get_namespace c ns)"
    using assms(2) by (simp_all add: sc_compatible_alt)
  have "sc_compatible c1 a \<longleftrightarrow> sc_compatible c0 a \<and> sc_compatible c a" for a
    using ag by (auto simp: sc_compatible_alt d g opt_agree_or_else)
  moreover have "provides c1 place e \<longleftrightarrow> provides c0 place e \<or> provides c place e" for place e
    using ag by (cases place) (simp_all add: provides_def d g or_else_Some_iff)
  ultimately show ?thesis using that u by blast
qed

lemma load_configs_cases:
  assumes "\<forall>c\<in>listed_configs F es. sc_wf c"
  shows "if (\<forall>e\<in>set es. is_ok (entry_config F e)) \<and> all_compatible (insert c0 (listed_configs F es))
    then \<exists>c'. load_configs F c0 es = Inr c' \<and>
       (\<forall>place e. provides c' place e \<longleftrightarrow> (\<exists>c\<in>insert c0 (listed_configs F es). provides c place e))
    else \<exists>err. load_configs F c0 es = Inl err"
  using assms
proof (induction es arbitrary: c0)
  case Nil
  then show ?case by (simp add: listed_configs_def all_compatible_def sc_compatible_refl)
next
  case (Cons x es)
  have wf: "\<forall>c\<in>listed_configs F es. sc_wf c" using Cons.prems by (auto simp: listed_configs_def)
  show ?case
  proof (cases "entry_config F x")
    case (Inl err)
    then show ?thesis by simp
  next
    case (Inr oc)
    show ?thesis
    proof (cases oc)
      case None
      then have "listed_configs F (x # es) = listed_configs F es" using Inr by (auto simp: listed_configs_def)
      with Cons.IH [OF wf, of c0] Inr None show ?thesis by (auto split: if_splits)
    next
      case (Some c)
      then have l: "listed_configs F (x # es) = insert c (listed_configs F es)"
        using Inr by (auto simp: listed_configs_def)
      have c: "sc_wf c" using Cons.prems l by simp
      show ?thesis
      proof (cases "sc_compatible c0 c")
        case False
        with sc_update_self_cases [OF c, of c0] Inr Some l show ?thesis by (auto simp: all_compatible_insert)
      next
        case True
        with c obtain c1 where c1: "sc_update_self c c0 = (Inr (), c1)"
          "\<And>a. sc_compatible c1 a \<longleftrightarrow> sc_compatible c0 a \<and> sc_compatible c a"
          "\<And>place e. provides c1 place e \<longleftrightarrow> provides c0 place e \<or> provides c place e"
          by (rule sc_update_self_merged) blast
        then have "all_compatible (insert c0 (listed_configs F (x # es))) \<longleftrightarrow>
            all_compatible (insert c1 (listed_configs F es))"
          using True by (auto simp: l all_compatible_insert)
        with Cons.IH [OF wf, of c1] c1 Inr Some l show ?thesis by (auto split: if_splits)
      qed
    qed
  qed
qed

lemma provides_determines_base_url:
  assumes "\<And>place e. provides a place e \<longleftrightarrow> provides b place e"
  shows "base_url a r = base_url b r"
proof (rule sigstore.pick_cong)
  have "sc_get_namespace a k = sc_get_namespace b k" for k
    using assms [of "Some k"] by (auto simp: provides_def intro: option.expand) (metis option.exhaust)+
  then show "url_scopes a k = url_scopes b k" for k by (simp add: url_scopes_def)
  show "sc_default a = sc_default b"
    using assms [of None] by (auto simp: provides_def) (metis option.exhaust)+
qed

text \<open>
  The order in which the directory lists the configuration files does not matter: loading them
  in any order succeeds or fails alike, and on success every image gets the same signature store.
\<close>

lemma sigstore_order_irrelevant:
  assumes wf: "\<And>s c. sf_yaml F s = Inr c \<Longrightarrow> sc_wf c"
    and dir: "sf_read_dir F dir = Inr es" and same: "set es' = set es"
    and F': "F' = F\<lparr>sf_read_dir := \<lambda>d. if d = dir then Inr es' else sf_read_dir F d\<rparr>"
  shows "(case (new_from_configs F dir, new_from_configs F' dir) of
            (Inr c, Inr c') \<Rightarrow> base_url c r = base_url c' r
          | (Inl _, Inl _) \<Rightarrow> True
          | _ \<Rightarrow> False)"
proof -
  have "sf_is_dir F' = sf_is_dir F" "sf_read F' = sf_read F" "sf_yaml F' = sf_yaml F" by (simp_all add: F')
  then have e: "entry_config F' x = entry_config F x" for x by (simp only: entry_config_def)
  then have load: "load_configs F' c xs = load_configs F c xs" for c xs
    by (induction xs arbitrary: c) (auto simp: and_then_def split: sum.splits option.splits prod.splits)
  have l: "listed_configs F es' = listed_configs F es" by (simp add: listed_configs_def same)
  have "\<forall>c\<in>listed_configs F es. sc_wf c"
    using wf by (auto simp: listed_configs_def entry_config_def result_iff split: if_splits)
  note 1 = load_configs_cases [OF this, of sigstore_default]
    and 2 = load_configs_cases [OF this [folded l], of sigstore_default, unfolded l same]
  show ?thesis
  proof (cases "(\<forall>e\<in>set es. is_ok (entry_config F e)) \<and> all_compatible (insert sigstore_default (listed_configs F es))")
    case True
    from 1 obtain c where c: "load_configs F sigstore_default es = Inr c"
      and p: "\<forall>place e. provides c place e \<longleftrightarrow> (\<exists>c\<in>insert sigstore_default (listed_configs F es). provides c place e)"
      unfolding if_P [OF True] by (elim exE conjE)
    from 2 obtain c' where c': "load_configs F sigstore_default es' = Inr c'"
      and p': "\<forall>place e. provides c' place e \<longleftrightarrow> (\<exists>c\<in>insert sigstore_default (listed_configs F es). provides c place e)"
      unfolding if_P [OF True] by (elim exE conjE)
    have "provides c place e \<longleftrightarrow> provides c' place e" for place e by (simp only: p p')
    then have "base_url c r = base_url c' r" by (intro provides_determines_base_url)
    with c c' dir show ?thesis by (simp add: new_from_configs_def load) (simp add: F')
  next
    case False
    from 1 2 obtain x y where "load_configs F sigstore_default es = Inl x" "load_configs F sigstore_default es' = Inl y"
      unfolding if_not_P [OF False] by blast
    with dir show ?thesis by (simp add: new_from_configs_def load) (simp add: F')
  qed
qed

definition demo_sigstore_fs :: sigstore_fs where
  "demo_sigstore_fs =
     \<lparr>sf_read_dir = \<lambda>d. Inr [Inr ''a.yaml'', Inr ''README'', Inr ''b.yaml''], sf_is_dir = \<lambda>_. False,
      sf_read = \<lambda>p. Inr p,
      sf_yaml = \<lambda>s. Inr (if s = ''a.yaml'' then \<lparr>sc_default = Some ''file:///d'', sc_docker = None\<rparr>
                          else \<lparr>sc_default = None, sc_docker = Some [(''r.io:5000/a'', ''file:///a'')]\<rparr>)\<rparr>"

lemma sigstore_order_irrelevant_witness:
  "\<exists>c. new_from_configs (demo_sigstore_fs\<lparr>sf_read_dir :=
         \<lambda>d. if d = ''/c'' then Inr [Inr ''b.yaml'', Inr ''a.yaml'', Inr ''README''] else sf_read_dir demo_sigstore_fs d\<rparr>) ''/c'' = Inr c \<and>
     base_url c (demo_ref ''1'') = Some ''file:///a''"
proof -
  let ?F' = "demo_sigstore_fs\<lparr>sf_read_dir :=
     \<lambda>d. if d = ''/c'' then Inr [Inr ''b.yaml'', Inr ''a.yaml'', Inr ''README''] else sf_read_dir demo_sigstore_fs d\<rparr>"
  have wf: "\<And>s c. sf_yaml demo_sigstore_fs s = Inr c \<Longrightarrow> sc_wf c"
    by (auto simp: demo_sigstore_fs_def sc_wf_def)
  have 1: "sf_read_dir demo_sigstore_fs ''/c'' = Inr [Inr ''a.yaml'', Inr ''README'', Inr ''b.yaml'']"
    by (simp add: demo_sigstore_fs_def)
  have 2: "set [Inr ''b.yaml'', Inr ''a.yaml'', Inr ''README''] = set [Inr ''a.yaml'', Inr ''README'', Inr ''b.yaml'']"
    by auto
  have "is_ok (new_from_configs demo_sigstore_fs ''/c'') \<and>
      base_url (projr (new_from_configs demo_sigstore_fs ''/c'')) (demo_ref ''1'') = Some ''file:///a''"
    by code_simp
  then obtain c where "new_from_configs demo_sigstore_fs ''/c'' = Inr c" "base_url c (demo_ref ''1'') = Some ''file:///a''"
    by (auto simp: is_ok_iff)
  with sigstore_order_irrelevant [OF wf 1 2 refl, where r = "demo_ref ''1''"] show ?thesis
    by (cases "new_from_configs ?F' ''/c''") auto
qed

end
