(* ===== verification/Signature_Verify.thy ===== *)
theory Signature_Verify
  imports Signature_Policy
begin

text \<open>
  \<open>image-rs/src/signature\<close>: the payload of a signature, verification of a simple signing (GPG)
  signature, the two signature schemes and the validator that enforces the policy. OpenPGP packets,
  the sigstore client, HTTP and base64 belong to other crates: the records \<open>pgp\<close>, \<open>cosign_client\<close>,
  \<open>xrss_http\<close> and \<open>sig_env\<close> hold what the code calls of them.
\<close>

section \<open>Signature payloads\<close>

record payload_optional =
  po_creator :: "string option"
  po_timestamp :: "int option"
  po_extra :: "(string \<times> string) list"

record payload_critical =
  pc_type_name :: string
  pc_docker_manifest_digest :: string
  pc_docker_reference :: string

record sig_payload =
  sp_critical :: payload_critical
  sp_optional :: "payload_optional option"

datatype sig_error =
    SigMatch match_error
  | ManifestDigestMismatch string string
  | PgpParse string
  | WrongKeyIdLength
  | WrongIssuerLength
  | KeyIdMismatch bytes bytes
  | NoPubkeyVerifies
  | PayloadNotUtf8
  | PayloadJson string
  | NoLiteral
  | UnknownKeyType
  | NoKeyGiven
  | TwoKeysGiven
  | KeyBase64 string
  | KeyResource string
  | SignaturesRejected "sig_error list"
  | NoSignatures
  | SigstoreConfigNotSet
  | MissingImageDigest
  | ReferenceDigest digest_error
  | NoSigstoreAndNoSignatures
  | BaseUrlNone
  | SigstoreUri string
  | SigstoreFailed sigstore_error
  | XrssAuthMissing
  | XrssFailed string
  | FeatureDisabled string
  | CosignRuleDenied
  | CosignFailed string
  | PolicyReject
  | ImageReference string
  | ImageDigest digest_error
  | NoRequirements
  | ValidatorConfig string

definition validate_signed_docker_reference ::
  "ref_parser \<Rightarrow> sig_payload \<Rightarrow> oci_reference \<Rightarrow> match_type \<Rightarrow> (sig_error, unit) result" where
  "validate_signed_docker_reference parse p image_ref match_policy =
     map_err SigMatch
       (matches_docker_reference parse match_policy image_ref (pc_docker_reference (sp_critical p)))"

definition validate_signed_docker_manifest_digest :: "sig_payload \<Rightarrow> string \<Rightarrow> (sig_error, unit) result" where
  "validate_signed_docker_manifest_digest p ref_manifest_digest =
     (if pc_docker_manifest_digest (sp_critical p) \<noteq> ref_manifest_digest
      then Inl (ManifestDigestMismatch ref_manifest_digest (pc_docker_manifest_digest (sp_critical p)))
      else Inr ())"

text \<open>The payload type of the sigstore crate, and its conversion.\<close>

record cosign_payload =
  cp_type_name :: string
  cp_digest :: string
  cp_reference :: string
  cp_optional :: "(string option \<times> int option \<times> (string \<times> string) list) option"

definition payload_from_cosign :: "cosign_payload \<Rightarrow> sig_payload" where
  "payload_from_cosign s =
     \<lparr>sp_critical = \<lparr>pc_type_name = cp_type_name s, pc_docker_manifest_digest = cp_digest s,
                     pc_docker_reference = cp_reference s\<rparr>,
      sp_optional = map_option
        (\<lambda>(creator, timestamp, extra). \<lparr>po_creator = creator, po_timestamp = timestamp, po_extra = extra\<rparr>)
        (cp_optional s)\<rparr>"

section \<open>Verification of a GPG signature\<close>

datatype ('k, 's) packet =
    OnePassSig bytes
  | PublicKey 'k
  | SignaturePacket 's
  | LiteralPacket bytes
  | OtherPacket

record ('p, 'k, 's) pgp =
  pgp_from_bytes :: "bytes \<Rightarrow> (string, 'p) result"
  pgp_descendants :: "'p \<Rightarrow> ('k, 's) packet list"
  pgp_path_ref :: "'p \<Rightarrow> nat list \<Rightarrow> ('k, 's) packet option"
  pgp_verify_signature :: "'s \<Rightarrow> 'k \<Rightarrow> bool"
  pgp_fingerprint :: "'k \<Rightarrow> bytes"
  pgp_payload_json :: "string \<Rightarrow> (string, sig_payload) result"

definition GPG_KEY_ID_BYTES_LENGTH :: nat where "GPG_KEY_ID_BYTES_LENGTH = 20"
definition GPG_KEY_ID_SUFFIX_BYTES_LENGTH_IN_SIG :: nat where "GPG_KEY_ID_SUFFIX_BYTES_LENGTH_IN_SIG = 8"

record sig_key_ids =
  trusted_key_id :: bytes
  sig_info_key_id :: bytes

definition sig_key_ids_default :: sig_key_ids where
  "sig_key_ids_default = \<lparr>trusted_key_id = [], sig_info_key_id = []\<rparr>"

definition sig_key_ids_validate :: "sig_key_ids \<Rightarrow> (sig_error, unit) result" where
  "sig_key_ids_validate ids =
     (if length (trusted_key_id ids) \<noteq> GPG_KEY_ID_BYTES_LENGTH then Inl WrongKeyIdLength
      else if length (sig_info_key_id ids) \<noteq> GPG_KEY_ID_SUFFIX_BYTES_LENGTH_IN_SIG then Inl WrongIssuerLength
      else if sig_info_key_id ids =
          drop (GPG_KEY_ID_BYTES_LENGTH - GPG_KEY_ID_SUFFIX_BYTES_LENGTH_IN_SIG) (trusted_key_id ids)
        then Inr ()
        else Inl (KeyIdMismatch (trusted_key_id ids) (sig_info_key_id ids)))"

text \<open>The loop over the packets of the key ring.\<close>

definition verify_step ::
  "('p, 'k, 's) pgp \<Rightarrow> 'p \<Rightarrow> sig_key_ids \<Rightarrow> ('k, 's) packet \<Rightarrow> (sig_error, sig_key_ids) result" where
  "verify_step G sig_packet ids packet =
     (case packet of
        PublicKey pubkey \<Rightarrow>
          (case pgp_path_ref G sig_packet [0, 2] of
             Some (SignaturePacket signature) \<Rightarrow>
               (if pgp_verify_signature G signature pubkey then
                  (let ids' = ids\<lparr>trusted_key_id := pgp_fingerprint G pubkey\<rparr>
                   in and_then (sig_key_ids_validate ids') (\<lambda>_. Inr ids'))
                else Inr ids)
           | _ \<Rightarrow> Inr ids)
      | _ \<Rightarrow> Inr ids)"

definition verify_sig_and_extract_payload ::
  "('p, 'k, 's) pgp \<Rightarrow> bytes \<Rightarrow> bytes \<Rightarrow> (sig_error, sig_payload) result" where
  "verify_sig_and_extract_payload G pubkey_ring sig =
     and_then (map_err PgpParse (pgp_from_bytes G pubkey_ring)) (\<lambda>keyring_packet.
     and_then (map_err PgpParse (pgp_from_bytes G sig)) (\<lambda>sig_packet.
     let ids = (case pgp_path_ref G sig_packet [0, 0] of
                  Some (OnePassSig issuer) \<Rightarrow> sig_key_ids_default\<lparr>sig_info_key_id := issuer\<rparr>
                | _ \<Rightarrow> sig_key_ids_default)
     in and_then (try_fold (verify_step G sig_packet) ids (pgp_descendants G keyring_packet)) (\<lambda>ids'.
          if trusted_key_id ids' = [] then Inl NoPubkeyVerifies
          else (case pgp_path_ref G sig_packet [0, 1] of
                  Some (LiteralPacket body) \<Rightarrow>
                    and_then (ok_or PayloadNotUtf8 (from_utf8 body)) (\<lambda>body_message.
                    map_err PayloadJson (pgp_payload_json G body_message))
                | _ \<Rightarrow> Inl NoLiteral))))"

definition judge_single_signature ::
  "ref_parser \<Rightarrow> ('p, 'k, 's) pgp \<Rightarrow> image \<Rightarrow> match_type option \<Rightarrow> bytes \<Rightarrow> bytes \<Rightarrow> (sig_error, unit) result" where
  "judge_single_signature parse G img signed_identity pubkey_ring sig =
     and_then (verify_sig_and_extract_payload G pubkey_ring sig) (\<lambda>sig_payload.
     let rule = (case signed_identity of Some rule \<Rightarrow> rule | None \<Rightarrow> MatchRepoDigestOrExact)
     in and_then (validate_signed_docker_reference parse sig_payload (img_reference img) rule) (\<lambda>_.
        validate_signed_docker_manifest_digest sig_payload (digest_to_string (img_manifest_digest img))))"

section \<open>Signatures stored in a registry\<close>

datatype registry_auth = Anonymous | Basic string string

record token_response =
  tr_token :: string
  tr_access_token :: string
  tr_expires_in :: nat
  tr_issued_at :: string

record registry_signature =
  rs_schema_version :: nat
  rs_name :: string
  rs_type :: string
  rs_content :: string

record xrss_http =
  xh_header :: "string \<Rightarrow> string \<Rightarrow> (string, string option) result"
  xh_token :: "string \<Rightarrow> (string \<times> string) list \<Rightarrow> string \<Rightarrow> string \<Rightarrow> (string, token_response) result"
  xh_signatures :: "string \<Rightarrow> string \<Rightarrow> (string, registry_signature list) result"

definition get_oauth_token_for_registry ::
  "xrss_http \<Rightarrow> image \<Rightarrow> registry_auth \<Rightarrow> (sig_error, string) result" where
  "get_oauth_token_for_registry H img auth =
     (case auth of
        Anonymous \<Rightarrow> Inl XrssAuthMissing
      | Basic username password \<Rightarrow>
          (let scope = ''repository:'' @ ref_repository (img_reference img) @ '':pull''
           in and_then
                (map_err XrssFailed
                   (xh_token H (''https://'' @ ref_registry (img_reference img) @ ''/oauth/token'')
                      [(''account'', username), (''scope'', scope), (''service'', ''registry'')]
                      username password))
                (\<lambda>body. Inr (tr_token body))))"

definition format_registry_signatures_extension_url :: "oci_reference \<Rightarrow> digest \<Rightarrow> string" where
  "format_registry_signatures_extension_url r d =
     ''https://'' @ ref_registry r @ ''/extensions/v2/'' @ ref_repository r @ ''/signatures/'' @
     dg_algorithm d @ CHR '':'' # dg_value d"

definition get_signatures_from_registry ::
  "xrss_http \<Rightarrow> (string \<Rightarrow> (string, bytes) result) \<Rightarrow> image \<Rightarrow> digest \<Rightarrow> registry_auth \<Rightarrow>
     (sig_error, bytes list) result" where
  "get_signatures_from_registry H b64 img d auth =
     and_then (map_err XrssFailed (xh_header H (''https://'' @ ref_registry (img_reference img) @ ''/v2/'')
                 ''x-registry-supports-signatures'')) (\<lambda>supports.
       if supports = Some ''1'' then
         and_then (get_oauth_token_for_registry H img auth) (\<lambda>oauth_token.
         and_then (map_err XrssFailed
             (xh_signatures H (format_registry_signatures_extension_url (img_reference img) d) oauth_token)) (\<lambda>sigs.
         try_map (\<lambda>s. map_err XrssFailed (b64 (rs_content s))) sigs))
       else Inr [])"

section \<open>The validator\<close>

text \<open>
  The sigstore client: reference parsing, construction from the proxies and the certificates, finding
  the signature image, fetching its layers, the public key verifier and the verification constraint.
\<close>

record ('l, 'v) cosign_client =
  cc_reference :: "string \<Rightarrow> (string, string) result"
  cc_build :: "string option \<Rightarrow> string option \<Rightarrow> bytes list \<Rightarrow> (string, unit) result"
  cc_triangulate :: "string \<Rightarrow> registry_auth \<Rightarrow> (string, string \<times> string) result"
  cc_trusted_layers :: "registry_auth \<Rightarrow> string \<Rightarrow> string \<Rightarrow> (string, 'l list) result"
  cc_verifier :: "bytes \<Rightarrow> (string, 'v) result"
  cc_verify_constraints :: "'l list \<Rightarrow> 'v \<Rightarrow> (string, unit) result"
  cc_simple_signing :: "'l \<Rightarrow> cosign_payload"

record ('p, 'k, 's, 'l, 'v) sig_env =
  se_parse_ref :: ref_parser
  se_pgp :: "('p, 'k, 's) pgp"
  se_cosign :: "('l, 'v) cosign_client"
  se_xrss :: xrss_http
  se_fs :: sigstore_fs
  se_b64 :: "string \<Rightarrow> (string, bytes) result"
  se_url :: "string \<Rightarrow> (string, url) result"
  se_get_resource :: "string \<Rightarrow> (string, bytes) result"
  se_create_dir_all :: "string \<Rightarrow> (string, unit) result"
  se_policy_json :: "bytes \<Rightarrow> (string, policy) result"
  se_sigstore_yaml :: "bytes \<Rightarrow> (string, sigstore_config) result"
  se_feat_simple :: bool
  se_feat_cosign :: bool
  se_feat_xrss :: bool

record validator =
  sv_policy :: policy
  sv_no_proxy :: "string option"
  sv_https_proxy :: "string option"
  sv_sigstore_config :: "sigstore_config option"
  sv_certificates :: "bytes list"

definition get_signatures ::
  "('p, 'k, 's, 'l, 'v) sig_env \<Rightarrow> validator \<Rightarrow> image \<Rightarrow> registry_auth \<Rightarrow> (sig_error, bytes list) result" where
  "get_signatures E V img auth =
     and_then (ok_or SigstoreConfigNotSet (sv_sigstore_config V)) (\<lambda>config.
     and_then
       (if \<not> digest_is_empty (img_manifest_digest img) then Inr (img_manifest_digest img)
        else (case ref_digest (img_reference img) of
            Some d \<Rightarrow> map_err ReferenceDigest (digest_try_from d)
          | None \<Rightarrow> Inl MissingImageDigest)) (\<lambda>image_digest.
     and_then
       (if se_feat_xrss E then
          and_then (get_signatures_from_registry (se_xrss E) (se_b64 E) img image_digest auth) (\<lambda>registry_sigs.
            if config = sigstore_default then
              (if registry_sigs = [] then Inl NoSigstoreAndNoSignatures else Inr (True, registry_sigs))
            else Inr (False, registry_sigs))
        else Inr (False, [])) (\<lambda>(finished, sigs).
     if finished then Inr sigs
     else and_then (ok_or BaseUrlNone (base_url config (img_reference img))) (\<lambda>sigstore_base_url.
          and_then (map_err SigstoreUri
              (se_url E (sigstore_base_url @ CHR ''/'' # format_sigstore_name (img_reference img) image_digest))) (\<lambda>uri.
          and_then (map_err SigstoreFailed (get_sigs_from_specific_sigstore (se_fs E) uri)) (\<lambda>sigstore_sigs.
          Inr (sigs @ sigstore_sigs)))))))"

fun try_signatures ::
  "(bytes \<Rightarrow> (sig_error, unit) result) \<Rightarrow> sig_error list \<Rightarrow> bytes list \<Rightarrow> (sig_error, unit) result" where
  "try_signatures judge reject_reasons [] =
     Inl (SignaturesRejected (if reject_reasons = [] then [NoSignatures] else reject_reasons))"
| "try_signatures judge reject_reasons (sig # sigs) =
     (case judge sig of
        Inr _ \<Rightarrow> Inr ()
      | Inl e \<Rightarrow> try_signatures judge (reject_reasons @ [e]) sigs)"

definition simple_pubkey_ring ::
  "('p, 'k, 's, 'l, 'v) sig_env \<Rightarrow> simple_parameters \<Rightarrow> (sig_error, bytes) result" where
  "simple_pubkey_ring E parameters =
     (case (simple_key_path parameters, simple_key_data parameters) of
        (None, None) \<Rightarrow> Inl NoKeyGiven
      | (Some _, Some _) \<Rightarrow> Inl TwoKeysGiven
      | (None, Some key_data) \<Rightarrow> map_err KeyBase64 (se_b64 E key_data)
      | (Some key_path, None) \<Rightarrow> map_err KeyResource (se_get_resource E key_path))"

definition simple_signing_allows_image ::
  "('p, 'k, 's, 'l, 'v) sig_env \<Rightarrow> validator \<Rightarrow> simple_parameters \<Rightarrow> image \<Rightarrow> registry_auth \<Rightarrow>
     (sig_error, unit) result" where
  "simple_signing_allows_image E V parameters img auth =
     (if \<not> se_feat_simple E then Inl (FeatureDisabled ''signature-simple'')
      else if simple_key_type parameters \<noteq> ''GPGKeys'' then Inl UnknownKeyType
      else and_then (simple_pubkey_ring E parameters) (\<lambda>pubkey_ring.
           and_then (get_signatures E V img auth) (\<lambda>sigs.
           try_signatures
             (judge_single_signature (se_parse_ref E) (se_pgp E) img (simple_signed_identity parameters) pubkey_ring)
             [] sigs)))"

definition check_reference_rule_types :: "cosign_parameters \<Rightarrow> (sig_error, unit) result" where
  "check_reference_rule_types p =
     (case cos_signed_identity p of
        Some MatchRepository \<Rightarrow> Inr ()
      | Some (ExactRepository _) \<Rightarrow> Inr ()
      | Some _ \<Rightarrow> Inl CosignRuleDenied
      | None \<Rightarrow> Inr ())"

definition verify_signature_and_get_payload ::
  "('l, 'v) cosign_client \<Rightarrow> image \<Rightarrow> registry_auth \<Rightarrow> bytes \<Rightarrow> bytes list \<Rightarrow> string option \<Rightarrow> string option \<Rightarrow>
     (sig_error, sig_payload list) result" where
  "verify_signature_and_get_payload S img auth key certificates no_proxy https_proxy =
     map_err CosignFailed
       (and_then (cc_reference S (ref_whole (img_reference img))) (\<lambda>image_ref.
        and_then (cc_build S no_proxy https_proxy certificates) (\<lambda>_.
        and_then (cc_triangulate S image_ref auth) (\<lambda>(cosign_image, source_image_digest).
        and_then (cc_trusted_layers S auth source_image_digest cosign_image) (\<lambda>signature_layers.
        and_then (cc_verifier S key) (\<lambda>pub_key_verifier.
        and_then (cc_verify_constraints S signature_layers pub_key_verifier) (\<lambda>_.
        Inr (map (\<lambda>layer. payload_from_cosign (cc_simple_signing S layer)) signature_layers))))))))"

definition cosign_check_payload ::
  "ref_parser \<Rightarrow> cosign_parameters \<Rightarrow> image \<Rightarrow> unit \<Rightarrow> sig_payload \<Rightarrow> (sig_error, unit) result" where
  "cosign_check_payload parse p img u payload =
     and_then
       (case cos_signed_identity p of
          Some rule \<Rightarrow> validate_signed_docker_reference parse payload (img_reference img) rule
        | None \<Rightarrow> Inr ()) (\<lambda>_.
     validate_signed_docker_manifest_digest payload (digest_to_string (img_manifest_digest img)))"

definition cosign_key :: "('p, 'k, 's, 'l, 'v) sig_env \<Rightarrow> cosign_parameters \<Rightarrow> (sig_error, bytes) result" where
  "cosign_key E p =
     (case (cos_key_data p, cos_key_path p) of
        (None, None) \<Rightarrow> Inl NoKeyGiven
      | (None, Some key_path) \<Rightarrow> map_err KeyResource (se_get_resource E key_path)
      | (Some key_data, None) \<Rightarrow> Inr key_data
      | (Some _, Some _) \<Rightarrow> Inl TwoKeysGiven)"

definition cosign_check_image_signature ::
  "('p, 'k, 's, 'l, 'v) sig_env \<Rightarrow> validator \<Rightarrow> cosign_parameters \<Rightarrow> image \<Rightarrow> registry_auth \<Rightarrow>
     (sig_error, unit) result" where
  "cosign_check_image_signature E V p img auth =
     and_then (check_reference_rule_types p) (\<lambda>_.
     and_then (cosign_key E p) (\<lambda>key.
     and_then (verify_signature_and_get_payload (se_cosign E) img auth key (sv_certificates V)
                 (sv_no_proxy V) (sv_https_proxy V)) (\<lambda>payloads.
     try_fold (cosign_check_payload (se_parse_ref E) p img) () payloads)))"

definition cosign_allows_image ::
  "('p, 'k, 's, 'l, 'v) sig_env \<Rightarrow> validator \<Rightarrow> cosign_parameters \<Rightarrow> image \<Rightarrow> registry_auth \<Rightarrow>
     (sig_error, unit) result" where
  "cosign_allows_image E V p img auth =
     (if \<not> se_feat_cosign E then Inl (FeatureDisabled ''signature-cosign'')
      else cosign_check_image_signature E V p img auth)"

definition check_image_requirement ::
  "('p, 'k, 's, 'l, 'v) sig_env \<Rightarrow> validator \<Rightarrow> image \<Rightarrow> registry_auth \<Rightarrow> policy_req \<Rightarrow> (sig_error, unit) result" where
  "check_image_requirement E V img auth req =
     (case req of
        Accept \<Rightarrow> Inr ()
      | Reject \<Rightarrow> Inl PolicyReject
      | SimpleSigning inner \<Rightarrow> simple_signing_allows_image E V inner img auth
      | Cosign inner \<Rightarrow> cosign_allows_image E V inner img auth)"

definition check_image_signature ::
  "('p, 'k, 's, 'l, 'v) sig_env \<Rightarrow> validator \<Rightarrow> string \<Rightarrow> string \<Rightarrow> registry_auth \<Rightarrow> (sig_error, unit) result" where
  "check_image_signature E V image_reference image_digest auth =
     and_then (map_err ImageReference (se_parse_ref E image_reference)) (\<lambda>reference.
     case set_manifest_digest image_digest (default_with_reference reference) of
       (Inl e, _) \<Rightarrow> Inl (ImageDigest e)
     | (Inr _, img) \<Rightarrow>
         (let reqs = requirements_for_image (sv_policy V) img
          in if reqs = [] then Inl NoRequirements
             else try_fold (\<lambda>_ req. check_image_requirement E V img auth req) () reqs))"

definition validator_new ::
  "('p, 'k, 's, 'l, 'v) sig_env \<Rightarrow> bytes \<Rightarrow> bytes option \<Rightarrow> string \<Rightarrow> string option \<Rightarrow> string option \<Rightarrow>
     string list \<Rightarrow> (sig_error, validator) result" where
  "validator_new E policy_data sigstore_data workdir no_proxy https_proxy certificates =
     and_then (map_err ValidatorConfig (se_policy_json E policy_data)) (\<lambda>policy.
     and_then (map_err ValidatorConfig (se_create_dir_all E (workdir @ ''/image-security''))) (\<lambda>_.
     and_then
       (if \<not> se_feat_simple E then Inr None
        else (case sigstore_data of
            None \<Rightarrow> Inr None
          | Some cfg \<Rightarrow>
              (let dir = workdir @ ''/image-security/simple_signing/sigstore_config''
               in and_then (map_err ValidatorConfig (se_create_dir_all E dir)) (\<lambda>_.
                  and_then (map_err ValidatorConfig (se_sigstore_yaml E cfg)) (\<lambda>config.
                  case update_from_path (se_fs E) dir config of
                    (Inl e, _) \<Rightarrow> Inl (SigstoreFailed e)
                  | (Inr _, config') \<Rightarrow> Inr (Some config')))))) (\<lambda>sigstore.
     Inr \<lparr>sv_policy = policy, sv_no_proxy = no_proxy, sv_https_proxy = https_proxy,
          sv_sigstore_config = sigstore,
          sv_certificates = (if se_feat_cosign E then certificates else [])\<rparr>)))"

section \<open>Acceptance of a GPG signature\<close>

definition issuer_of :: "('p, 'k, 's) pgp \<Rightarrow> 'p \<Rightarrow> bytes" where
  "issuer_of G sp = (case pgp_path_ref G sp [0, 0] of Some (OnePassSig issuer) \<Rightarrow> issuer | _ \<Rightarrow> [])"

definition key_verifies :: "('p, 'k, 's) pgp \<Rightarrow> 'p \<Rightarrow> 'k \<Rightarrow> bool" where
  "key_verifies G sp k \<longleftrightarrow>
     (case pgp_path_ref G sp [0, 2] of Some (SignaturePacket s) \<Rightarrow> pgp_verify_signature G s k | _ \<Rightarrow> False)"

text \<open>The issuer named in the signature is the tail of a version 4 fingerprint.\<close>

definition issuer_matches :: "bytes \<Rightarrow> bytes \<Rightarrow> bool" where
  "issuer_matches issuer fingerprint \<longleftrightarrow>
     length fingerprint = 20 \<and> length issuer = 8 \<and> issuer = drop 12 fingerprint"

lemma sig_key_ids_validate_iff:
  "sig_key_ids_validate ids = Inr () \<longleftrightarrow> issuer_matches (sig_info_key_id ids) (trusted_key_id ids)"
  by (auto simp: sig_key_ids_validate_def issuer_matches_def GPG_KEY_ID_BYTES_LENGTH_def
      GPG_KEY_ID_SUFFIX_BYTES_LENGTH_IN_SIG_def)

lemma verify_step_eq:
  "verify_step G sp ids pkt =
     (case pkt of
        PublicKey k \<Rightarrow>
          (if key_verifies G sp k then
             and_then (sig_key_ids_validate (ids\<lparr>trusted_key_id := pgp_fingerprint G k\<rparr>))
               (\<lambda>_. Inr (ids\<lparr>trusted_key_id := pgp_fingerprint G k\<rparr>))
           else Inr ids)
      | _ \<Rightarrow> Inr ids)"
  by (auto simp: verify_step_def key_verifies_def Let_def split: packet.splits option.splits)

definition ring_verifies :: "('p, 'k, 's) pgp \<Rightarrow> 'p \<Rightarrow> ('k, 's) packet list \<Rightarrow> bool" where
  "ring_verifies G sp pkts \<longleftrightarrow> (\<exists>k. PublicKey k \<in> set pkts \<and> key_verifies G sp k)"

definition ring_consistent :: "('p, 'k, 's) pgp \<Rightarrow> 'p \<Rightarrow> bytes \<Rightarrow> ('k, 's) packet list \<Rightarrow> bool" where
  "ring_consistent G sp issuer pkts \<longleftrightarrow>
     (\<forall>k. PublicKey k \<in> set pkts \<longrightarrow> key_verifies G sp k \<longrightarrow> issuer_matches issuer (pgp_fingerprint G k))"

lemma ring_Cons:
  "ring_verifies G sp (pkt # pkts) \<longleftrightarrow>
     (case pkt of PublicKey k \<Rightarrow> key_verifies G sp k | _ \<Rightarrow> False) \<or> ring_verifies G sp pkts"
  "ring_consistent G sp issuer (pkt # pkts) \<longleftrightarrow>
     (case pkt of PublicKey k \<Rightarrow> key_verifies G sp k \<longrightarrow> issuer_matches issuer (pgp_fingerprint G k) | _ \<Rightarrow> True) \<and>
     ring_consistent G sp issuer pkts"
  by (cases pkt; auto simp: ring_verifies_def ring_consistent_def)+

lemma issuer_matches_not_Nil: "issuer_matches i f \<Longrightarrow> f \<noteq> []"
  by (auto simp: issuer_matches_def)

lemma verify_fold:
  "if ring_consistent G sp (sig_info_key_id ids) pkts
   then \<exists>ids'. try_fold (verify_step G sp) ids pkts = Inr ids' \<and>
          (trusted_key_id ids' = [] \<longleftrightarrow> trusted_key_id ids = [] \<and> \<not> ring_verifies G sp pkts)
   else \<exists>e. try_fold (verify_step G sp) ids pkts = Inl e"
proof (induction pkts arbitrary: ids)
  case Nil
  then show ?case by (simp add: ring_consistent_def ring_verifies_def)
next
  case (Cons pkt pkts)
  show ?case
  proof (cases "\<exists>k. pkt = PublicKey k \<and> key_verifies G sp k")
    case False
    then have "verify_step G sp ids pkt = Inr ids" by (auto simp: verify_step_eq split: packet.splits)
    with False Cons.IH [of ids] show ?thesis by (auto simp: ring_Cons split: packet.splits if_splits)
  next
    case True
    then obtain k where k: "pkt = PublicKey k" "key_verifies G sp k" by blast
    let ?ids = "ids\<lparr>trusted_key_id := pgp_fingerprint G k\<rparr>"
    show ?thesis
    proof (cases "issuer_matches (sig_info_key_id ids) (pgp_fingerprint G k)")
      case m: True
      then have "verify_step G sp ids pkt = Inr ?ids"
        using k sig_key_ids_validate_iff [of ?ids] by (simp add: verify_step_eq)
      with k m Cons.IH [of ?ids] issuer_matches_not_Nil [OF m] show ?thesis
        by (auto simp: ring_Cons split: if_splits)
    next
      case m: False
      then obtain e where "sig_key_ids_validate ?ids = Inl e"
        using sig_key_ids_validate_iff [of ?ids] by (cases "sig_key_ids_validate ?ids") auto
      with k m show ?thesis by (simp add: verify_step_eq ring_Cons)
    qed
  qed
qed

text \<open>
  C30. A GPG signature is accepted, with a payload, exactly when both files parse, some public key of
  the ring verifies the signature, every key of the ring that verifies it has a 20-byte fingerprint
  ending in the 8-byte issuer that the signature names, and the literal packet holds the payload as
  UTF-8 JSON.
\<close>

theorem gpg_signature_accepted_iff:
  "verify_sig_and_extract_payload G pubkey_ring sig = Inr payload \<longleftrightarrow>
     (\<exists>kr sp body. pgp_from_bytes G pubkey_ring = Inr kr \<and> pgp_from_bytes G sig = Inr sp \<and>
        ring_verifies G sp (pgp_descendants G kr) \<and>
        ring_consistent G sp (issuer_of G sp) (pgp_descendants G kr) \<and>
        pgp_path_ref G sp [0, 1] = Some (LiteralPacket body) \<and> utf8_valid body \<and>
        pgp_payload_json G body = Inr payload)"
proof (cases "\<exists>kr sp. pgp_from_bytes G pubkey_ring = Inr kr \<and> pgp_from_bytes G sig = Inr sp")
  case False
  then show ?thesis by (auto simp: verify_sig_and_extract_payload_def result_iff)
next
  case True
  then obtain kr sp where p: "pgp_from_bytes G pubkey_ring = Inr kr" "pgp_from_bytes G sig = Inr sp" by blast
  let ?ids = "sig_key_ids_default\<lparr>sig_info_key_id := issuer_of G sp\<rparr>"
  have ids: "(case pgp_path_ref G sp [0, 0] of
        Some (OnePassSig issuer) \<Rightarrow> sig_key_ids_default\<lparr>sig_info_key_id := issuer\<rparr>
      | _ \<Rightarrow> sig_key_ids_default) = ?ids"
    by (simp add: issuer_of_def sig_key_ids_default_def split: option.splits packet.splits)
  have "verify_sig_and_extract_payload G pubkey_ring sig = Inr payload \<longleftrightarrow>
      (\<exists>ids'. try_fold (verify_step G sp) ?ids (pgp_descendants G kr) = Inr ids' \<and> trusted_key_id ids' \<noteq> []) \<and>
      (\<exists>body. pgp_path_ref G sp [0, 1] = Some (LiteralPacket body) \<and> utf8_valid body \<and>
        pgp_payload_json G body = Inr payload)"
    unfolding verify_sig_and_extract_payload_def p map_err_simps and_then_simps ids Let_def
    by (auto simp: result_iff split: if_splits option.splits packet.splits)
  also have "(\<exists>ids'. try_fold (verify_step G sp) ?ids (pgp_descendants G kr) = Inr ids' \<and> trusted_key_id ids' \<noteq> []) \<longleftrightarrow>
      ring_verifies G sp (pgp_descendants G kr) \<and> ring_consistent G sp (issuer_of G sp) (pgp_descendants G kr)"
    using verify_fold [of G sp ?ids "pgp_descendants G kr"]
    by (auto simp: sig_key_ids_default_def split: if_splits)
  finally show ?thesis by (auto simp: p)
qed

section \<open>What the validator accepts\<close>

lemma try_fold_unit_iff: "try_fold (\<lambda>_ x. f x) () xs = Inr () \<longleftrightarrow> (\<forall>x\<in>set xs. f x = Inr ())"
  by (induction xs) (auto simp: result_iff)

lemma try_signatures_iff: "try_signatures judge rs sigs = Inr () \<longleftrightarrow> (\<exists>sig\<in>set sigs. judge sig = Inr ())"
  by (induction sigs arbitrary: rs) (auto split: sum.splits)

definition payload_fits :: "ref_parser \<Rightarrow> image \<Rightarrow> match_type \<Rightarrow> sig_payload \<Rightarrow> bool" where
  "payload_fits parse img rule p \<longleftrightarrow>
     matches_docker_reference parse rule (img_reference img) (pc_docker_reference (sp_critical p)) = Inr () \<and>
     pc_docker_manifest_digest (sp_critical p) = digest_to_string (img_manifest_digest img)"

lemma judge_iff:
  "judge_single_signature parse G img identity ring sig = Inr () \<longleftrightarrow>
     (\<exists>p. verify_sig_and_extract_payload G ring sig = Inr p \<and>
          payload_fits parse img (case identity of Some r \<Rightarrow> r | None \<Rightarrow> MatchRepoDigestOrExact) p)"
  by (auto simp: judge_single_signature_def Let_def result_iff payload_fits_def
      validate_signed_docker_reference_def validate_signed_docker_manifest_digest_def split: if_splits)

text \<open>
  What it takes to satisfy a requirement: a signature from the configured store that verifies under
  the configured ring and whose payload fits the image, or a verified cosign signature image all of
  whose payloads fit.
\<close>

fun satisfies :: "('p, 'k, 's, 'l, 'v) sig_env \<Rightarrow> validator \<Rightarrow> image \<Rightarrow> registry_auth \<Rightarrow> policy_req \<Rightarrow> bool" where
  "satisfies E V img auth Accept = True"
| "satisfies E V img auth Reject = False"
| "satisfies E V img auth (SimpleSigning ps) =
     (se_feat_simple E \<and> simple_key_type ps = ''GPGKeys'' \<and>
      (\<exists>ring sigs sig payload. simple_pubkey_ring E ps = Inr ring \<and> get_signatures E V img auth = Inr sigs \<and>
         sig \<in> set sigs \<and> verify_sig_and_extract_payload (se_pgp E) ring sig = Inr payload \<and>
         payload_fits (se_parse_ref E) img
           (case simple_signed_identity ps of Some r \<Rightarrow> r | None \<Rightarrow> MatchRepoDigestOrExact) payload))"
| "satisfies E V img auth (Cosign ps) =
     (se_feat_cosign E \<and>
      (cos_signed_identity ps = None \<or> cos_signed_identity ps = Some MatchRepository \<or>
       (\<exists>r. cos_signed_identity ps = Some (ExactRepository r))) \<and>
      (\<exists>key payloads. cosign_key E ps = Inr key \<and>
         verify_signature_and_get_payload (se_cosign E) img auth key (sv_certificates V) (sv_no_proxy V)
           (sv_https_proxy V) = Inr payloads \<and>
         (\<forall>p\<in>set payloads. pc_docker_manifest_digest (sp_critical p) = digest_to_string (img_manifest_digest img) \<and>
            (\<forall>rule. cos_signed_identity ps = Some rule \<longrightarrow>
               matches_docker_reference (se_parse_ref E) rule (img_reference img)
                 (pc_docker_reference (sp_critical p)) = Inr ()))))"

lemma check_reference_rule_types_iff:
  "check_reference_rule_types p = Inr () \<longleftrightarrow>
     cos_signed_identity p = None \<or> cos_signed_identity p = Some MatchRepository \<or>
     (\<exists>r. cos_signed_identity p = Some (ExactRepository r))"
  by (auto simp: check_reference_rule_types_def split: option.splits match_type.splits)

lemma cosign_check_payload_iff:
  "cosign_check_payload parse ps img u p = Inr () \<longleftrightarrow>
     pc_docker_manifest_digest (sp_critical p) = digest_to_string (img_manifest_digest img) \<and>
     (\<forall>rule. cos_signed_identity ps = Some rule \<longrightarrow>
        matches_docker_reference parse rule (img_reference img) (pc_docker_reference (sp_critical p)) = Inr ())"
  by (cases "cos_signed_identity ps")
     (auto simp: cosign_check_payload_def result_iff validate_signed_docker_reference_def
        validate_signed_docker_manifest_digest_def split: if_splits)

lemma cosign_check_payloads_iff:
  "try_fold (cosign_check_payload parse ps img) () payloads = Inr () \<longleftrightarrow>
     (\<forall>p\<in>set payloads. pc_docker_manifest_digest (sp_critical p) = digest_to_string (img_manifest_digest img) \<and>
        (\<forall>rule. cos_signed_identity ps = Some rule \<longrightarrow>
           matches_docker_reference parse rule (img_reference img) (pc_docker_reference (sp_critical p)) = Inr ()))"
  by (induction payloads) (auto simp: result_iff cosign_check_payload_iff)

lemma check_image_requirement_iff:
  "check_image_requirement E V img auth req = Inr () \<longleftrightarrow> satisfies E V img auth req"
proof (cases req)
  case (SimpleSigning ps)
  then show ?thesis
    by (auto simp: check_image_requirement_def simple_signing_allows_image_def result_iff try_signatures_iff
        judge_iff)
next
  case (Cosign ps)
  then show ?thesis
    by (auto simp: check_image_requirement_def cosign_allows_image_def cosign_check_image_signature_def
        result_iff cosign_check_payloads_iff check_reference_rule_types_iff)
qed (simp_all add: check_image_requirement_def)

text \<open>
  C29. Policy enforcement: an image is accepted exactly when its reference and its digest parse, the
  policy has requirements for it and every one of them is satisfied. A \<open>reject\<close> requirement and an
  empty list are never satisfied, and an accepted signature always names the digest of the manifest
  that was pulled.
\<close>

theorem validator_exact:
  "check_image_signature E V image_reference image_digest auth = Inr () \<longleftrightarrow>
     (\<exists>r d. se_parse_ref E image_reference = Inr r \<and> digest_try_from image_digest = Inr d \<and>
        digest_to_string d = image_digest \<and>
        (let img = \<lparr>img_reference = r, img_manifest_digest = d\<rparr>; reqs = requirements_for_image (sv_policy V) img
         in reqs \<noteq> [] \<and> (\<forall>q\<in>set reqs. satisfies E V img auth q)))"
proof -
  have s: "set_manifest_digest image_digest (default_with_reference r) = (case digest_try_from image_digest of
      Inl e \<Rightarrow> (Inl e, default_with_reference r) | Inr d \<Rightarrow> (Inr (), \<lparr>img_reference = r, img_manifest_digest = d\<rparr>))" for r
    by (simp add: set_manifest_digest_def default_with_reference_def split: sum.splits)
  have d: "digest_try_from image_digest = Inr d \<Longrightarrow> digest_to_string d = image_digest" for d
    by (simp add: digest_try_from_Inr_iff)
  show ?thesis
    unfolding check_image_signature_def s
    by (cases "se_parse_ref E image_reference"; cases "digest_try_from image_digest")
       (auto simp: Let_def try_fold_unit_iff check_image_requirement_iff d)
qed

text \<open>An instance: one key that signed the image \<open>r.io:5000/a/b:1\<close>, with its signature in a file.\<close>

definition demo_digest :: string where
  "demo_digest = ''sha256:'' @ replicate 64 (CHR ''a'')"

definition demo_pgp :: "(bytes, bytes, bytes) pgp" where
  "demo_pgp =
     \<lparr>pgp_from_bytes = \<lambda>b. Inr b, pgp_descendants = \<lambda>p. [OtherPacket, PublicKey p],
      pgp_path_ref = \<lambda>p path. if path = [0, 0] then Some (OnePassSig (replicate 8 (CHR ''k'')))
        else if path = [0, 1] then Some (LiteralPacket ''payload'') else Some (SignaturePacket p),
      pgp_verify_signature = \<lambda>s k. s = ''sig'' \<and> k = ''ring'', pgp_fingerprint = \<lambda>k. replicate 20 (CHR ''k''),
      pgp_payload_json = \<lambda>s. Inr \<lparr>sp_critical = \<lparr>pc_type_name = ''atomic container signature'',
         pc_docker_manifest_digest = demo_digest, pc_docker_reference = ''r.io:5000/a/b:1''\<rparr>, sp_optional = None\<rparr>\<rparr>"

definition demo_sig_env :: "(bytes, bytes, bytes, unit, unit) sig_env" where
  "demo_sig_env =
     \<lparr>se_parse_ref = demo_parse, se_pgp = demo_pgp,
      se_cosign = \<lparr>cc_reference = \<lambda>s. Inr s, cc_build = \<lambda>_ _ _. Inr (), cc_triangulate = \<lambda>_ _. Inl ''none'',
        cc_trusted_layers = \<lambda>_ _ _. Inr [], cc_verifier = \<lambda>_. Inr (), cc_verify_constraints = \<lambda>_ _. Inl ''none'',
        cc_simple_signing = \<lambda>_. \<lparr>cp_type_name = [], cp_digest = [], cp_reference = [], cp_optional = None\<rparr>\<rparr>,
      se_xrss = \<lparr>xh_header = \<lambda>_ _. Inr None, xh_token = \<lambda>_ _ _ _. Inl ''none'', xh_signatures = \<lambda>_ _. Inr []\<rparr>,
      se_fs = \<lparr>sf_read_dir = \<lambda>d. Inr [Inr ''/s/bad'', Inr ''/s/good''], sf_is_dir = \<lambda>_. False,
        sf_read = \<lambda>p. Inr (if p = ''/s/good'' then ''sig'' else ''other''), sf_yaml = \<lambda>s. Inl ''none''\<rparr>,
      se_b64 = \<lambda>s. Inr s, se_url = \<lambda>s. Inr \<lparr>url_scheme = ''file'', url_path = s\<rparr>,
      se_get_resource = \<lambda>s. Inl ''none'', se_create_dir_all = \<lambda>s. Inr (), se_policy_json = \<lambda>b. Inl ''none'',
      se_sigstore_yaml = \<lambda>b. Inl ''none'', se_feat_simple = True, se_feat_cosign = True, se_feat_xrss = False\<rparr>"

definition demo_validator :: validator where
  "demo_validator =
     \<lparr>sv_policy = \<lparr>pol_default = [Reject], pol_transports = [''docker'' \<mapsto> [''r.io:5000'' \<mapsto>
        [SimpleSigning \<lparr>simple_key_type = ''GPGKeys'', simple_key_path = None, simple_key_data = Some ''ring'',
           simple_signed_identity = None\<rparr>]]]\<rparr>,
      sv_no_proxy = None, sv_https_proxy = None,
      sv_sigstore_config = Some \<lparr>sc_default = Some ''file:///s'', sc_docker = None\<rparr>, sv_certificates = []\<rparr>"

lemma demo_verify: "verify_sig_and_extract_payload demo_pgp ''ring'' ''sig'' =
    Inr \<lparr>sp_critical = \<lparr>pc_type_name = ''atomic container signature'',
         pc_docker_manifest_digest = demo_digest, pc_docker_reference = ''r.io:5000/a/b:1''\<rparr>, sp_optional = None\<rparr>"
  by (simp add: verify_sig_and_extract_payload_def demo_pgp_def verify_step_def sig_key_ids_validate_def
      sig_key_ids_default_def GPG_KEY_ID_BYTES_LENGTH_def GPG_KEY_ID_SUFFIX_BYTES_LENGTH_IN_SIG_def
      from_utf8_def utf8_valid_ascii is_ascii_str_def)

theorem validator_exact_witness:
  "check_image_signature demo_sig_env demo_validator ''r.io:5000/a/b:1'' demo_digest Anonymous = Inr ()"
proof -
  let ?d = "\<lparr>dg_algorithm = ''sha256'', dg_value = replicate 64 (CHR ''a'')\<rparr>"
  let ?img = "\<lparr>img_reference = demo_ref ''1'', img_manifest_digest = ?d\<rparr>"
  let ?ps = "\<lparr>simple_key_type = ''GPGKeys'', simple_key_path = None, simple_key_data = Some ''ring'',
           simple_signed_identity = None\<rparr>"
  have s: "digest_to_string ?d = demo_digest" by (simp add: digest_to_string_def demo_digest_def)
  have d: "digest_try_from demo_digest = Inr ?d" by code_simp
  have r: "demo_parse ''r.io:5000/a/b:1'' = Inr (demo_ref ''1'')" by (simp add: demo_parse_def)
  have n: "get_image_namespaces (demo_ref ''1'') = [''r.io:5000/a/b'', ''r.io:5000/a'', ''r.io:5000'', ''*.io'']"
    by code_simp
  have q: "requirements_for_image (sv_policy demo_validator) ?img = [SimpleSigning ?ps]"
    by (simp add: requirements_for_image_def demo_validator_def transport_name_def n demo_ref_def [THEN arg_cong, of ref_whole])
  have sigs: "get_signatures demo_sig_env demo_validator ?img Anonymous = Inr [''other'', ''sig'']"
    by (simp add: get_signatures_def demo_validator_def demo_sig_env_def digest_is_empty_def base_url_def
        get_sigs_from_specific_sigstore_def from_utf8_def utf8_valid_ascii is_ascii_str_def)
  have "satisfies demo_sig_env demo_validator ?img Anonymous (SimpleSigning ?ps)"
  proof -
    have E: "se_feat_simple demo_sig_env" "se_pgp demo_sig_env = demo_pgp" "se_parse_ref demo_sig_env = demo_parse"
      "simple_pubkey_ring demo_sig_env ?ps = Inr ''ring''"
      by (simp_all add: demo_sig_env_def simple_pubkey_ring_def)
    have "payload_fits demo_parse ?img MatchRepoDigestOrExact \<lparr>sp_critical = \<lparr>pc_type_name = ''atomic container signature'',
         pc_docker_manifest_digest = demo_digest, pc_docker_reference = ''r.io:5000/a/b:1''\<rparr>, sp_optional = None\<rparr>"
      using s by (simp add: payload_fits_def match_repo_digest_or_exact_def demo_ref_def)
    moreover have "''sig'' \<in> set [''other'', ''sig'']" by simp
    ultimately show ?thesis
      unfolding satisfies.simps using sigs demo_verify E(1) by (simp add: E) blast
  qed
  with d r q s validator_exact [of demo_sig_env demo_validator "''r.io:5000/a/b:1''" demo_digest Anonymous]
  show ?thesis by (auto simp: demo_sig_env_def Let_def)
qed

end
