(* ===== verification/Registry_Auth.thy ===== *)
theory Registry_Auth
  imports Signature_Verify
begin

text \<open>
  \<open>image-rs/src/auth\<close>: the credential for a registry out of a \<open>config.json\<close> file. The map of the file is
  a list in the order in which the hash map happens to be iterated; base64 is a parameter, and so is
  \<open>resolve_registry\<close> of the reference.
\<close>

section \<open>Definitions\<close>

datatype auth_error = AuthBase64 | AuthNotUtf8 | IllegalAuth string

definition full_name :: "oci_reference \<Rightarrow> string" where
  "full_name r =
     (if ref_registry r = [] then ref_repository r else ref_registry r @ ''/'' @ ref_repository r)"

definition normalize_registry :: "string \<Rightarrow> string" where
  "normalize_registry registry =
     (if registry = ''registry-1.docker.io'' \<or> registry = ''docker.io'' then ''index.docker.io'' else registry)"

definition normalize_key_to_registry :: "string \<Rightarrow> string" where
  "normalize_key_to_registry key =
     (let stripped = (case strip_prefix ''http://'' key of Some s \<Rightarrow> s | None \<Rightarrow> key);
          stripped = (case strip_prefix ''https://'' key of Some s \<Rightarrow> s | None \<Rightarrow> stripped);
          stripped = (if stripped \<noteq> key
                      then (case split_once (CHR ''/'') stripped of Some (h, _) \<Rightarrow> h | None \<Rightarrow> stripped)
                      else stripped)
      in normalize_registry stripped)"

definition trim_newlines :: "string \<Rightarrow> string" where
  "trim_newlines s = rev (dropWhile (\<lambda>c. c = CHR 0x0A) (rev (dropWhile (\<lambda>c. c = CHR 0x0A) s)))"

definition decode_auth :: "(string \<Rightarrow> bytes option) \<Rightarrow> string \<Rightarrow> (auth_error, string \<times> string) result" where
  "decode_auth b64 auth =
     and_then (ok_or AuthBase64 (b64 auth)) (\<lambda>decoded.
     and_then (ok_or AuthNotUtf8 (from_utf8 decoded)) (\<lambda>auth.
     and_then (ok_or (IllegalAuth auth) (split_once (CHR '':'') auth)) (\<lambda>(username, password).
      Inr (username, trim_newlines password))))"

function auth_keys_for_key :: "string \<Rightarrow> string list" where
  "auth_keys_for_key key =
     key # (case rsplit_once (CHR ''/'') key of None \<Rightarrow> [] | Some (parent, _) \<Rightarrow> auth_keys_for_key parent)"
  by pat_completeness auto
termination
  by (relation "measure length") (auto simp: rsplit_once_Some_iff)

declare auth_keys_for_key.simps [simp del]

definition basic_auth :: "(string \<Rightarrow> bytes option) \<Rightarrow> string \<Rightarrow> (auth_error, registry_auth) result" where
  "basic_auth b64 auth_str = and_then (decode_auth b64 auth_str) (\<lambda>(u, p). Inr (Basic u p))"

definition credential_from_auth_config ::
  "(string \<Rightarrow> bytes option) \<Rightarrow> (oci_reference \<Rightarrow> string) \<Rightarrow> oci_reference \<Rightarrow> (string \<times> string) list \<Rightarrow>
    (auth_error, registry_auth) result" where
  "credential_from_auth_config b64 resolve reference auths =
     (case List.map_filter (map_of auths) (auth_keys_for_key (full_name reference)) of
        auth_str # _ \<Rightarrow> basic_auth b64 auth_str
      | [] \<Rightarrow>
          (case List.find (\<lambda>(key, _). normalize_key_to_registry key = normalize_registry (resolve reference)) auths of
             Some (_, auth_str) \<Rightarrow> basic_auth b64 auth_str
           | None \<Rightarrow> Inr Anonymous))"

section \<open>Properties\<close>

text \<open>The keys are the image name and its ancestors, the longest first.\<close>

lemma auth_keys_prefixes:
  "k \<in> set (auth_keys_for_key name) \<longleftrightarrow> k = name \<or> (\<exists>rest. name = k @ CHR ''/'' # rest)"
proof (induction name rule: auth_keys_for_key.induct)
  case (1 name)
  show ?case
  proof (cases "rsplit_once (CHR ''/'') name")
    case None
    then have "CHR ''/'' \<notin> set name" by (simp add: rsplit_once_None_iff)
    then show ?thesis using None by (auto simp: auth_keys_for_key.simps [of name])
  next
    case (Some p)
    then obtain parent last where p: "p = (parent, last)" by (cases p)
    then have name: "name = parent @ CHR ''/'' # last" "CHR ''/'' \<notin> set last"
      using Some by (auto simp: rsplit_once_Some_iff)
    have "(\<exists>rest. name = k @ CHR ''/'' # rest) \<longleftrightarrow> k = parent \<or> (\<exists>rest. parent = k @ CHR ''/'' # rest)"
      using name by (auto simp: append_eq_append_conv2 append_eq_Cons_conv Cons_eq_append_conv)
    then show ?thesis using 1 [OF Some, of parent last] Some p by (simp add: auth_keys_for_key.simps [of name])
  qed
qed

lemma basic_auth_ok: "basic_auth b64 s = Inr c \<Longrightarrow> \<exists>u p. c = Basic u p \<and> decode_auth b64 s = Inr (u, p)"
  by (auto simp: basic_auth_def result_iff)



end
