(* ===== verification/Shared_Rootfs.thy ===== *)
theory Shared_Rootfs
  imports Layer_Unpack
begin

text \<open>
  \<open>image-rs/src/shared_rootfs.rs\<close> and \<open>coco_image_share.rs\<close>: the image virtual machine turns the root file
  system of a bundle into a disk image, shares its memory and remembers the share in files named after
  the image. The machine is a state with files and directories; the operating system may refuse any
  call, the external commands and the share driver are parameters, and so is JSON.
\<close>

section \<open>The machine\<close>

record host_file =
  hf_data :: bytes
  hf_mtime :: nat

record host =
  h_files :: "string \<rightharpoonup> host_file"
  h_dirs :: "string \<Rightarrow> bool"
  h_now :: nat
  h_device :: "(nat \<times> nat \<times> nat) option"
  h_mounts :: "string list"

datatype host_call =
    HRead string | HWrite string | HRename string string | HRemove string | HMkdir string | HStat string
  | HControl

datatype host_error = NotFoundError | IoFailure string

record shared_image =
  si_share_id :: nat
  si_source_rd_addr :: nat
  si_image_size :: nat
  si_page_count :: nat

record cache_entry =
  sre_image_ref :: string
  sre_image_id :: string
  sre_fs_type :: string
  sre_image_size :: nat
  sre_block_size :: nat
  sre_rootfs_digest :: string
  sre_oci_config_json :: bytes
  sre_source_rd_addr :: nat
  sre_share_id :: nat
  sre_page_count :: nat
  sre_rootfs_image_path :: string

record bundle_entry =
  sbe_image_ref :: string
  sbe_image_id :: string
  sbe_bundle_path :: string

record digest_sidecar =
  ds_size :: nat
  ds_modified :: nat
  ds_sha256 :: string

record walk_entry =
  we_path :: string
  we_metadata :: "(string, nat option) result"

text \<open>
  \<open>hs_refuse\<close> is the refusal of a call, \<open>hs_torn\<close> what a write that failed leaves of the file. A command
  returns its standard output or an error. The driver answers the ioctl that shares a file, and it makes
  the block device, whose node and contents it provides, and drops it again.
\<close>

record host_env =
  hs_refuse :: "host \<Rightarrow> host_call \<Rightarrow> string option"
  hs_torn :: "host \<Rightarrow> string \<Rightarrow> bytes \<Rightarrow> host_file option"
  hs_env :: "string \<Rightarrow> string option"
  hs_command :: "string \<Rightarrow> string list \<Rightarrow> host \<Rightarrow> (string, bytes) result \<times> host"
  hs_walk :: "host \<Rightarrow> string \<Rightarrow> (string, walk_entry) result list"
  hs_sha256 :: "bytes \<Rightarrow> string"
  hs_entry_to_json :: "cache_entry \<Rightarrow> bytes"
  hs_entry_from_json :: "bytes \<Rightarrow> cache_entry option"
  hs_bundle_to_json :: "bundle_entry \<Rightarrow> bytes"
  hs_bundle_from_json :: "bytes \<Rightarrow> bundle_entry option"
  hs_sidecar_to_json :: "digest_sidecar \<Rightarrow> bytes"
  hs_sidecar_from_json :: "bytes \<Rightarrow> digest_sidecar option"
  hs_share_file :: "host \<Rightarrow> bytes \<Rightarrow> (string, shared_image) result"
  hs_make_device :: "host \<Rightarrow> nat \<times> nat \<times> nat \<Rightarrow> (string, host_file) result"
  hs_drop_device :: "host \<Rightarrow> string option"

datatype share_error =
    HostError host_call host_error
  | CommandFailed string "string list" string
  | ParseError string
  | EmptyImageRef | EmptyImageId
  | InvalidDescriptor nat nat
  | InvalidSize nat nat
  | NoRootfsImage string
  | ImageSizeChanged string
  | NoBundle string
  | NoRootfs string
  | NoSourceDirectory string
  | NoImagePath string
  | NoFormat "(string \<times> share_error) list"
  | WalkFailed string
  | PathNotUtf8 string
  | PathTooLong nat
  | ShareFailed string
  | DeviceFailed string

type_synonym 'a hosted = "(host, share_error, 'a) stateful"

definition is_file :: "host \<Rightarrow> string \<Rightarrow> bool" where
  "is_file h p = (h_files h p \<noteq> None)"

definition is_dir :: "host \<Rightarrow> string \<Rightarrow> bool" where
  "is_dir h p = h_dirs h p"

definition host_read :: "host_env \<Rightarrow> string \<Rightarrow> host \<Rightarrow> (host_error, bytes) result" where
  "host_read V p h =
     (case hs_refuse V h (HRead p) of
        Some e \<Rightarrow> Inl (IoFailure e)
      | None \<Rightarrow> (case h_files h p of None \<Rightarrow> Inl NotFoundError | Some f \<Rightarrow> Inr (hf_data f)))"

definition host_write :: "host_env \<Rightarrow> string \<Rightarrow> bytes \<Rightarrow> unit hosted" where
  "host_write V p data h =
     (case hs_refuse V h (HWrite p) of
        Some e \<Rightarrow> (Inl (HostError (HWrite p) (IoFailure e)), h\<lparr>h_files := (h_files h)(p := hs_torn V h p data)\<rparr>)
      | None \<Rightarrow> (Inr (), h\<lparr>h_files := (h_files h)(p \<mapsto> \<lparr>hf_data = data, hf_mtime = h_now h\<rparr>)\<rparr>))"

definition host_rename :: "host_env \<Rightarrow> string \<Rightarrow> string \<Rightarrow> unit hosted" where
  "host_rename V p q h =
     (case hs_refuse V h (HRename p q) of
        Some e \<Rightarrow> (Inl (HostError (HRename p q) (IoFailure e)), h)
      | None \<Rightarrow>
          (case h_files h p of
             None \<Rightarrow> (Inl (HostError (HRename p q) NotFoundError), h)
           | Some f \<Rightarrow> (Inr (), h\<lparr>h_files := ((h_files h)(p := None))(q \<mapsto> f)\<rparr>)))"

definition host_remove :: "host_env \<Rightarrow> string \<Rightarrow> unit hosted" where
  "host_remove V p h =
     (case hs_refuse V h (HRemove p) of
        Some e \<Rightarrow> (Inl (HostError (HRemove p) (IoFailure e)), h)
      | None \<Rightarrow>
          (if is_file h p then (Inr (), h\<lparr>h_files := (h_files h)(p := None)\<rparr>)
           else (Inl (HostError (HRemove p) NotFoundError), h)))"

definition host_mkdir :: "host_env \<Rightarrow> string \<Rightarrow> unit hosted" where
  "host_mkdir V p h =
     (case hs_refuse V h (HMkdir p) of
        Some e \<Rightarrow> (Inl (HostError (HMkdir p) (IoFailure e)), h)
      | None \<Rightarrow> (Inr (), h\<lparr>h_dirs := (h_dirs h)(p := True)\<rparr>))"

definition host_stat :: "host_env \<Rightarrow> string \<Rightarrow> (nat \<times> nat) hosted" where
  "host_stat V p h =
     (case hs_refuse V h (HStat p) of
        Some e \<Rightarrow> (Inl (HostError (HStat p) (IoFailure e)), h)
      | None \<Rightarrow>
          (case h_files h p of
             None \<Rightarrow> (Inl (HostError (HStat p) NotFoundError), h)
           | Some f \<Rightarrow> (Inr (length (hf_data f), hf_mtime f), h)))"

text \<open>\<open>let _ = f()\<close>: the result is dropped, the effect stays.\<close>

definition ignore_result :: "'a hosted \<Rightarrow> unit hosted" where
  "ignore_result m h = (Inr (), snd (m h))"

definition run_command :: "host_env \<Rightarrow> string \<Rightarrow> string list \<Rightarrow> unit hosted" where
  "run_command V program args h =
     (case hs_command V program args h of
        (Inl e, h') \<Rightarrow> (Inl (CommandFailed program args e), h') | (Inr _, h') \<Rightarrow> (Inr (), h'))"

text \<open>ASCII white space is what \<open>trim\<close> meets in the output of these commands.\<close>

definition is_space :: "char \<Rightarrow> bool" where
  "is_space c \<longleftrightarrow> c = CHR '' '' \<or> (9 \<le> (of_char c :: nat) \<and> (of_char c :: nat) \<le> 13)"

definition trim :: "string \<Rightarrow> string" where
  "trim s = rev (dropWhile is_space (rev (dropWhile is_space s)))"

definition run_command_capture :: "host_env \<Rightarrow> string \<Rightarrow> string list \<Rightarrow> string hosted" where
  "run_command_capture V program args h =
     (case hs_command V program args h of
        (Inl e, h') \<Rightarrow> (Inl (CommandFailed program args e), h')
      | (Inr out, h') \<Rightarrow> (Inr (trim (from_utf8_lossy out)), h'))"

definition lower_char :: "char \<Rightarrow> char" where
  "lower_char c = (if 65 \<le> (of_char c :: nat) \<and> (of_char c :: nat) \<le> 90 then char_of (of_char c + 32 :: nat) else c)"

definition env_truthy :: "host_env \<Rightarrow> string \<Rightarrow> bool" where
  "env_truthy V key =
     (case hs_env V key of
        None \<Rightarrow> False
      | Some value \<Rightarrow> map lower_char (trim value) \<in> {''1'', ''true'', ''yes'', ''on''})"

definition command_available :: "host_env \<Rightarrow> host \<Rightarrow> string \<Rightarrow> bool" where
  "command_available V h program =
     (if CHR ''/'' \<in> set program then is_file h program
      else (case hs_env V ''PATH'' of
          None \<Rightarrow> False
        | Some paths \<Rightarrow> list_ex (\<lambda>dir. is_file h (path_join dir program)) (split_on (CHR '':'') paths)))"

section \<open>Disk images\<close>

definition ONE_MIB :: nat where "ONE_MIB = 1024 * 1024"
definition EXT4_MIN_HEADROOM_MB :: nat where "EXT4_MIN_HEADROOM_MB = 8"
definition EXT4_MIN_IMAGE_SIZE_MB :: nat where "EXT4_MIN_IMAGE_SIZE_MB = 16"
definition U64_MAX :: nat where "U64_MAX = 2 ^ 64 - 1"

definition sat_add :: "nat \<Rightarrow> nat \<Rightarrow> nat" where "sat_add a b = min (a + b) U64_MAX"
definition sat_mul :: "nat \<Rightarrow> nat \<Rightarrow> nat" where "sat_mul a b = min (a * b) U64_MAX"

datatype rootfs_format = Erofs | Squashfs | Ext4

fun as_fs_type :: "rootfs_format \<Rightarrow> string" where
  "as_fs_type Erofs = ''erofs''"
| "as_fs_type Squashfs = ''squashfs''"
| "as_fs_type Ext4 = ''ext4''"

record build_options =
  bo_rootfs_dir :: string
  bo_output_image :: string
  bo_format :: rootfs_format
  bo_image_size_mb :: nat
  bo_squashfs_compressor :: string
  bo_hash_image :: bool

definition build_options_for :: "rootfs_format \<Rightarrow> string \<Rightarrow> string \<Rightarrow> build_options" where
  "build_options_for fmt rootfs_dir output_image =
     \<lparr>bo_rootfs_dir = rootfs_dir, bo_output_image = output_image, bo_format = fmt,
      bo_image_size_mb = (case fmt of Erofs \<Rightarrow> 0 | Squashfs \<Rightarrow> 64 | Ext4 \<Rightarrow> EXT4_MIN_IMAGE_SIZE_MB),
      bo_squashfs_compressor = ''gzip'', bo_hash_image = True\<rparr>"

definition rootfs_image_format_candidates :: "host_env \<Rightarrow> host \<Rightarrow> rootfs_format list" where
  "rootfs_image_format_candidates V h =
     (if command_available V h ''mkfs.erofs'' then [Erofs] else []) @
     (if command_available V h ''mksquashfs'' then [Squashfs] else []) @ [Ext4]"

record image_info =
  ii_path :: string
  ii_format :: rootfs_format
  ii_size :: nat
  ii_sha256 :: string
  ii_digest_cache_hit :: bool

definition path_arg :: "string \<Rightarrow> string" where
  "path_arg p = from_utf8_lossy p"

text \<open>\<open>Path::set_file_name\<close>: the parent of a path that ends in a name, joined with the new name.\<close>

definition set_file_name :: "string \<Rightarrow> string \<Rightarrow> string" where
  "set_file_name p name =
     (case path_file_name p of
        None \<Rightarrow> path_join p name
      | Some _ \<Rightarrow> path_join (case path_parent p of None \<Rightarrow> [] | Some d \<Rightarrow> d) name)"

definition rootfs_digest_sidecar_path :: "string \<Rightarrow> string" where
  "rootfs_digest_sidecar_path p =
     set_file_name p
       (case path_file_name p of
          Some name \<Rightarrow> from_utf8_lossy name @ ''.sha256.json''
        | None \<Rightarrow> ''rootfs.sha256.json'')"

definition sidecar_tmp_path :: "string \<Rightarrow> string" where
  "sidecar_tmp_path sidecar =
     set_file_name sidecar
       ((case path_file_name sidecar of
           Some name \<Rightarrow> from_utf8_lossy name | None \<Rightarrow> ''rootfs.sha256.json'') @ ''.tmp'')"

definition read_rootfs_digest_sidecar :: "host_env \<Rightarrow> string \<Rightarrow> nat \<Rightarrow> nat \<Rightarrow> string option hosted" where
  "read_rootfs_digest_sidecar V p sz modified h =
     (let sidecar_path = rootfs_digest_sidecar_path p
      in (case host_read V sidecar_path h of
            Inl NotFoundError \<Rightarrow> (Inr None, h)
          | Inl e \<Rightarrow> (Inl (HostError (HRead sidecar_path) e), h)
          | Inr data \<Rightarrow>
              (case hs_sidecar_from_json V data of
                 None \<Rightarrow> (Inr None, h)
               | Some sidecar \<Rightarrow>
                   (if ds_size sidecar \<noteq> sz \<or> ds_modified sidecar \<noteq> modified \<or> length (ds_sha256 sidecar) \<noteq> 64
                    then (Inr None, h) else (Inr (Some (ds_sha256 sidecar)), h)))))"

definition write_rootfs_digest_sidecar :: "host_env \<Rightarrow> string \<Rightarrow> nat \<Rightarrow> nat \<Rightarrow> string \<Rightarrow> unit hosted" where
  "write_rootfs_digest_sidecar V p sz modified sha =
     (let sidecar_path = rootfs_digest_sidecar_path p;
          tmp_path = sidecar_tmp_path sidecar_path
      in st_then (host_write V tmp_path
            (hs_sidecar_to_json V \<lparr>ds_size = sz, ds_modified = modified, ds_sha256 = sha\<rparr>)) (\<lambda>_.
         host_rename V tmp_path sidecar_path))"

definition sha256_file :: "host_env \<Rightarrow> string \<Rightarrow> string hosted" where
  "sha256_file V p h =
     (case host_read V p h of
        Inl e \<Rightarrow> (Inl (HostError (HRead p) e), h) | Inr data \<Rightarrow> (Inr (hs_sha256 V data), h))"

definition rootfs_digest_for_image :: "host_env \<Rightarrow> string \<Rightarrow> nat \<Rightarrow> nat \<Rightarrow> (string \<times> bool) hosted" where
  "rootfs_digest_for_image V p sz modified =
     st_then (read_rootfs_digest_sidecar V p sz modified) (\<lambda>cached.
     case cached of
       Some sha \<Rightarrow> st_ok (sha, True)
     | None \<Rightarrow>
         st_then (sha256_file V p) (\<lambda>sha.
         st_then (write_rootfs_digest_sidecar V p sz modified sha) (\<lambda>_. st_ok (sha, False))))"

definition build_erofs_image :: "host_env \<Rightarrow> build_options \<Rightarrow> unit hosted" where
  "build_erofs_image V opts =
     run_command V ''mkfs.erofs''
       ((if env_truthy V ''COCO_SHARED_ROOTFS_EROFS_PRESERVE_XATTRS'' then [] else [''-x-1'']) @
        [path_arg (bo_output_image opts), path_arg (bo_rootfs_dir opts)])"

definition build_squashfs_image :: "host_env \<Rightarrow> build_options \<Rightarrow> unit hosted" where
  "build_squashfs_image V opts =
     run_command V ''mksquashfs''
       [path_arg (bo_rootfs_dir opts), path_arg (bo_output_image opts), ''-noappend'', ''-comp'',
        bo_squashfs_compressor opts, ''-all-root'', ''-no-xattrs'']"

text \<open>The walk yields the directory itself and everything below it, without following links.\<close>

definition estimate_step :: "nat \<Rightarrow> (string, walk_entry) result \<Rightarrow> (share_error, nat) result" where
  "estimate_step acc entry =
     (case entry of
        Inl e \<Rightarrow> Inl (WalkFailed e)
      | Inr w \<Rightarrow>
          (case we_metadata w of
             Inl e \<Rightarrow> Inl (HostError (HStat (we_path w)) (IoFailure e))
           | Inr None \<Rightarrow> Inr (sat_add acc 4096)
           | Inr (Some len) \<Rightarrow> Inr (sat_add (sat_add acc 4096) len)))"

definition estimate_rootfs_content_size :: "host_env \<Rightarrow> host \<Rightarrow> string \<Rightarrow> (share_error, nat) result" where
  "estimate_rootfs_content_size V h rootfs_dir = try_fold estimate_step 0 (hs_walk V h rootfs_dir)"

definition ext4_size_of_content :: "nat \<Rightarrow> nat \<Rightarrow> nat" where
  "ext4_size_of_content image_size_mb content_size =
     (let headroom = EXT4_MIN_HEADROOM_MB * ONE_MIB;
          target_size = sat_add (sat_mul content_size 3 div 2) headroom;
          estimated_mb = sat_add target_size (ONE_MIB - 1) div ONE_MIB
      in max image_size_mb (max estimated_mb 1))"

definition ext4_image_size_mb :: "host_env \<Rightarrow> host \<Rightarrow> build_options \<Rightarrow> (share_error, nat) result" where
  "ext4_image_size_mb V h opts =
     and_then (estimate_rootfs_content_size V h (bo_rootfs_dir opts)) (\<lambda>content_size.
       Inr (ext4_size_of_content (bo_image_size_mb opts) content_size))"

definition build_ext4_image :: "host_env \<Rightarrow> build_options \<Rightarrow> unit hosted" where
  "build_ext4_image V opts h =
     st_then (lift_result (ext4_image_size_mb V h opts)) (\<lambda>image_size_mb.
     st_then (run_command V ''truncate'' [''-s'', nat_str image_size_mb @ ''M'', path_arg (bo_output_image opts)]) (\<lambda>_.
     run_command V ''mkfs.ext4''
       [''-q'', ''-F'', ''-d'', path_arg (bo_rootfs_dir opts), path_arg (bo_output_image opts)])) h"

definition build_image :: "host_env \<Rightarrow> build_options \<Rightarrow> unit hosted" where
  "build_image V opts =
     (case bo_format opts of
        Erofs \<Rightarrow> build_erofs_image V opts
      | Squashfs \<Rightarrow> build_squashfs_image V opts
      | Ext4 \<Rightarrow> build_ext4_image V opts)"

definition image_digest :: "host_env \<Rightarrow> bool \<Rightarrow> string \<Rightarrow> nat \<Rightarrow> nat \<Rightarrow> (string \<times> bool) hosted" where
  "image_digest V hash_image p sz modified =
     (if hash_image then rootfs_digest_for_image V p sz modified else st_ok ([], False))"

definition build_rootfs_image :: "host_env \<Rightarrow> build_options \<Rightarrow> image_info hosted" where
  "build_rootfs_image V opts h =
     (if \<not> is_dir h (bo_rootfs_dir opts) then (Inl (NoSourceDirectory (bo_rootfs_dir opts)), h)
      else
        st_then (case path_parent (bo_output_image opts) of None \<Rightarrow> st_ok () | Some parent \<Rightarrow> host_mkdir V parent) (\<lambda>_.
        st_then (\<lambda>h. if is_file h (bo_output_image opts) \<or> is_dir h (bo_output_image opts)
                     then host_remove V (bo_output_image opts) h else (Inr (), h)) (\<lambda>_.
        st_then (ignore_result (host_remove V (rootfs_digest_sidecar_path (bo_output_image opts)))) (\<lambda>_.
        st_then (build_image V opts) (\<lambda>_.
        st_then (host_stat V (bo_output_image opts)) (\<lambda>(sz, modified).
        st_then (image_digest V (bo_hash_image opts) (bo_output_image opts) sz modified) (\<lambda>(sha, hit).
        st_ok \<lparr>ii_path = bo_output_image opts, ii_format = bo_format opts, ii_size = sz, ii_sha256 = sha,
               ii_digest_cache_hit = hit\<rparr>)))))) h)"

definition shared_rootfs_hash_image_enabled :: "host_env \<Rightarrow> bool" where
  "shared_rootfs_hash_image_enabled V = env_truthy V ''COCO_SHARED_ROOTFS_HASH_IMAGE''"

text \<open>An image that is there already is used as it is; otherwise the formats are tried in turn.\<close>

fun prepare_with_formats ::
  "host_env \<Rightarrow> string \<Rightarrow> string \<Rightarrow> string \<Rightarrow> (string \<times> share_error) list \<Rightarrow> rootfs_format list \<Rightarrow> image_info hosted" where
  "prepare_with_formats V rootfs_dir images_dir safe_image_id failures [] = st_err (NoFormat failures)"
| "prepare_with_formats V rootfs_dir images_dir safe_image_id failures (fmt # fmts) =
     (\<lambda>h. let path = path_join images_dir (safe_image_id @ ''.'' @ as_fs_type fmt)
          in (if is_file h path \<or> is_dir h path then
                st_then (host_stat V path) (\<lambda>(sz, modified).
                st_then (image_digest V (shared_rootfs_hash_image_enabled V) path sz modified) (\<lambda>(sha, hit).
                st_ok \<lparr>ii_path = path, ii_format = fmt, ii_size = sz, ii_sha256 = sha, ii_digest_cache_hit = hit\<rparr>)) h
              else
                (case build_rootfs_image V
                        ((build_options_for fmt rootfs_dir path)\<lparr>bo_hash_image := shared_rootfs_hash_image_enabled V\<rparr>) h of
                   (Inr info, h') \<Rightarrow> (Inr info, h')
                 | (Inl err, h') \<Rightarrow>
                     prepare_with_formats V rootfs_dir images_dir safe_image_id (failures @ [(as_fs_type fmt, err)]) fmts h')))"

definition prepare_shared_rootfs_image :: "host_env \<Rightarrow> string \<Rightarrow> string \<Rightarrow> string \<Rightarrow> image_info hosted" where
  "prepare_shared_rootfs_image V rootfs_dir images_dir safe_image_id h =
     prepare_with_formats V rootfs_dir images_dir safe_image_id [] (rootfs_image_format_candidates V h) h"

section \<open>Names in the shared directory\<close>

definition sanitize_char :: "string \<Rightarrow> string" where
  "sanitize_char ch =
     (case ch of
        [c] \<Rightarrow>
          (let n = (of_char c :: nat)
           in if 48 \<le> n \<and> n \<le> 57 \<or> 65 \<le> n \<and> n \<le> 90 \<or> 97 \<le> n \<and> n \<le> 122 \<or> c \<in> {CHR ''.'', CHR ''-'', CHR ''_''}
              then [c] else ''_'')
      | _ \<Rightarrow> ''_'')"

definition sanitize_path_component :: "string \<Rightarrow> string" where
  "sanitize_path_component input =
     (let out = concat (map sanitize_char (utf8_chars input)) in if out = [] then ''image'' else out)"

definition shared_rootfs_dir :: "host_env \<Rightarrow> string" where
  "shared_rootfs_dir V =
     (case hs_env V ''COCO_SHARED_ROOTFS_DIR'' of Some d \<Rightarrow> d | None \<Rightarrow> ''/tmp/run/image-rs/shared-rootfs'')"

definition shared_rootfs_images_dir :: "host_env \<Rightarrow> string" where
  "shared_rootfs_images_dir V = path_join (shared_rootfs_dir V) ''images''"

definition shared_rootfs_bundles_dir :: "host_env \<Rightarrow> string" where
  "shared_rootfs_bundles_dir V = path_join (shared_rootfs_dir V) ''bundles''"

definition cache_dir :: "host_env \<Rightarrow> string" where
  "cache_dir V = path_join (shared_rootfs_dir V) ''cache''"

definition cache_path :: "host_env \<Rightarrow> string \<Rightarrow> string \<Rightarrow> string" where
  "cache_path V key suffix = path_join (cache_dir V) (sanitize_path_component key @ ''.'' @ suffix)"

definition bundle_index_dir :: "host_env \<Rightarrow> string" where
  "bundle_index_dir V = path_join (shared_rootfs_dir V) ''bundle-index''"

definition bundle_index_path :: "host_env \<Rightarrow> string \<Rightarrow> string" where
  "bundle_index_path V key = path_join (bundle_index_dir V) (sanitize_path_component key @ ''.bundle.json'')"

text \<open>
  \<open>with_extension\<close> replaces what follows the last dot, so the temporary file of a bundle entry keeps the
  word \<open>bundle\<close> twice.
\<close>

definition cache_tmp_path :: "host_env \<Rightarrow> string \<Rightarrow> string" where
  "cache_tmp_path V key = path_join (cache_dir V) (sanitize_path_component key @ ''.json.tmp'')"

definition bundle_tmp_path :: "host_env \<Rightarrow> string \<Rightarrow> string" where
  "bundle_tmp_path V key = path_join (bundle_index_dir V) (sanitize_path_component key @ ''.bundle.bundle.json.tmp'')"

section \<open>Entries of the cache\<close>

definition validate_cache_entry :: "host_env \<Rightarrow> cache_entry \<Rightarrow> host \<Rightarrow> (share_error, unit) result" where
  "validate_cache_entry V entry h =
     (if sre_image_ref entry = [] then Inl EmptyImageRef
      else if sre_image_id entry = [] then Inl EmptyImageId
      else if sre_share_id entry = 0 \<or> sre_source_rd_addr entry = 0
      then Inl (InvalidDescriptor (sre_share_id entry) (sre_source_rd_addr entry))
      else if sre_image_size entry = 0 \<or> sre_page_count entry = 0
      then Inl (InvalidSize (sre_image_size entry) (sre_page_count entry))
      else if \<not> is_file h (sre_rootfs_image_path entry) then Inl (NoRootfsImage (sre_rootfs_image_path entry))
      else and_then (fst (host_stat V (sre_rootfs_image_path entry) h)) (\<lambda>(len, _).
        if len \<noteq> sre_image_size entry then Inl (ImageSizeChanged (sre_rootfs_image_path entry)) else Inr ()))"

definition read_cache_entry :: "host_env \<Rightarrow> string \<Rightarrow> host \<Rightarrow> (share_error, cache_entry option) result" where
  "read_cache_entry V key h =
     (let path = cache_path V key ''json''
      in (case host_read V path h of
            Inl NotFoundError \<Rightarrow> Inr None
          | Inl e \<Rightarrow> Inl (HostError (HRead path) e)
          | Inr data \<Rightarrow>
              and_then (ok_or (ParseError path) (hs_entry_from_json V data)) (\<lambda>entry.
              and_then (validate_cache_entry V entry h) (\<lambda>_. Inr (Some entry)))))"

definition write_cache_entry_for_key :: "host_env \<Rightarrow> string \<Rightarrow> cache_entry \<Rightarrow> unit hosted" where
  "write_cache_entry_for_key V key entry =
     st_then (host_mkdir V (cache_dir V)) (\<lambda>_.
     st_then (host_write V (cache_tmp_path V key) (hs_entry_to_json V entry)) (\<lambda>_.
     host_rename V (cache_tmp_path V key) (cache_path V key ''json'')))"

definition write_cache_entry :: "host_env \<Rightarrow> cache_entry \<Rightarrow> unit hosted" where
  "write_cache_entry V entry h =
     st_then (lift_result (validate_cache_entry V entry h)) (\<lambda>_.
     st_then (write_cache_entry_for_key V (sre_image_ref entry) entry) (\<lambda>_.
     if sre_image_id entry \<noteq> sre_image_ref entry
     then write_cache_entry_for_key V (sre_image_id entry) entry else st_ok ())) h"

definition validate_bundle_entry :: "bundle_entry \<Rightarrow> host \<Rightarrow> (share_error, unit) result" where
  "validate_bundle_entry entry h =
     (if sbe_image_ref entry = [] then Inl EmptyImageRef
      else if sbe_image_id entry = [] then Inl EmptyImageId
      else if \<not> is_dir h (sbe_bundle_path entry) then Inl (NoBundle (sbe_bundle_path entry))
      else if \<not> is_dir h (path_join (sbe_bundle_path entry) ''rootfs'')
      then Inl (NoRootfs (path_join (sbe_bundle_path entry) ''rootfs''))
      else Inr ())"

definition read_bundle_entry :: "host_env \<Rightarrow> string \<Rightarrow> host \<Rightarrow> (share_error, bundle_entry option) result" where
  "read_bundle_entry V key h =
     (let path = bundle_index_path V key
      in (case host_read V path h of
            Inl NotFoundError \<Rightarrow> Inr None
          | Inl e \<Rightarrow> Inl (HostError (HRead path) e)
          | Inr data \<Rightarrow>
              and_then (ok_or (ParseError path) (hs_bundle_from_json V data)) (\<lambda>entry.
              and_then (validate_bundle_entry entry h) (\<lambda>_. Inr (Some entry)))))"

definition write_bundle_entry_for_key :: "host_env \<Rightarrow> string \<Rightarrow> bundle_entry \<Rightarrow> unit hosted" where
  "write_bundle_entry_for_key V key entry =
     st_then (host_mkdir V (bundle_index_dir V)) (\<lambda>_.
     st_then (host_write V (bundle_tmp_path V key) (hs_bundle_to_json V entry)) (\<lambda>_.
     host_rename V (bundle_tmp_path V key) (bundle_index_path V key)))"

definition write_bundle_entry :: "host_env \<Rightarrow> bundle_entry \<Rightarrow> unit hosted" where
  "write_bundle_entry V entry h =
     st_then (lift_result (validate_bundle_entry entry h)) (\<lambda>_.
     st_then (write_bundle_entry_for_key V (sbe_image_ref entry) entry) (\<lambda>_.
     if sbe_image_id entry \<noteq> sbe_image_ref entry
     then write_bundle_entry_for_key V (sbe_image_id entry) entry else st_ok ())) h"

section \<open>The pending mark\<close>

definition mark_cache_pending :: "host_env \<Rightarrow> string \<Rightarrow> unit hosted" where
  "mark_cache_pending V image_ref =
     st_then (host_mkdir V (cache_dir V)) (\<lambda>_.
     host_write V (cache_path V image_ref ''pending'') (''pending'' @ [CHR 0x0A]))"

definition clear_cache_pending :: "host_env \<Rightarrow> string \<Rightarrow> host \<Rightarrow> host" where
  "clear_cache_pending V image_ref h = snd (host_remove V (cache_path V image_ref ''pending'') h)"

definition cache_pending :: "host_env \<Rightarrow> string \<Rightarrow> host \<Rightarrow> bool" where
  "cache_pending V image_ref h = is_file h (cache_path V image_ref ''pending'')"

text \<open>
  \<open>seen n\<close> is the machine as the loop finds it in its round \<open>n\<close> (others work on it meanwhile) and
  \<open>elapsed n\<close> the time since the start, both numbers in milliseconds. The value is \<open>None\<close> if the loop
  does not end.
\<close>

partial_function (option) wait_for_cache_entry ::
  "host_env \<Rightarrow> string \<Rightarrow> nat \<Rightarrow> (nat \<Rightarrow> nat) \<Rightarrow> (nat \<Rightarrow> host) \<Rightarrow> nat \<Rightarrow>
     (share_error, cache_entry option) result option" where
  "wait_for_cache_entry V image_ref timeout elapsed seen n =
     (case read_cache_entry V image_ref (seen n) of
        Inl e \<Rightarrow> Some (Inl e)
      | Inr (Some entry) \<Rightarrow> Some (Inr (Some entry))
      | Inr None \<Rightarrow>
          (if \<not> cache_pending V image_ref (seen n) then Some (Inr None)
           else if timeout \<le> elapsed n then Some (Inr None)
           else wait_for_cache_entry V image_ref timeout elapsed seen (Suc n)))"

section \<open>Sharing an image\<close>

definition COCO_IMAGE_SHARE_PATH_MAX :: nat where "COCO_IMAGE_SHARE_PATH_MAX = 256"

text \<open>The path ends in at least one zero byte.\<close>

definition copy_path :: "string \<Rightarrow> (share_error, bytes) result" where
  "copy_path path =
     and_then (ok_or (PathNotUtf8 path) (from_utf8 path)) (\<lambda>bs.
       if COCO_IMAGE_SHARE_PATH_MAX \<le> length bs then Inl (PathTooLong (length bs))
       else Inr (bs @ replicate (COCO_IMAGE_SHARE_PATH_MAX - length bs) (CHR 0x00)))"

definition open_control :: "host_env \<Rightarrow> host \<Rightarrow> (share_error, unit) result" where
  "open_control V h =
     (case hs_refuse V h HControl of Some e \<Rightarrow> Inl (HostError HControl (IoFailure e)) | None \<Rightarrow> Inr ())"

definition create_from_file :: "host_env \<Rightarrow> string \<Rightarrow> shared_image hosted" where
  "create_from_file V path h =
     (and_then (open_control V h) (\<lambda>_.
      and_then (copy_path path) (\<lambda>buf.
      map_err ShareFailed (hs_share_file V h buf))), h)"

definition create_device :: "host_env \<Rightarrow> shared_image \<Rightarrow> unit hosted" where
  "create_device V img h =
     (case open_control V h of
        Inl e \<Rightarrow> (Inl e, h)
      | Inr _ \<Rightarrow>
          (let req = (si_share_id img, si_source_rd_addr img, si_image_size img)
           in (case hs_make_device V h req of
                 Inl e \<Rightarrow> (Inl (DeviceFailed e), h)
               | Inr f \<Rightarrow> (Inr (), h\<lparr>h_device := Some req, h_files := (h_files h)(''/dev/cocoimg0'' \<mapsto> f)\<rparr>))))"

definition destroy_device :: "host_env \<Rightarrow> unit hosted" where
  "destroy_device V h =
     (case open_control V h of
        Inl e \<Rightarrow> (Inl e, h)
      | Inr _ \<Rightarrow>
          (case hs_drop_device V h of
             Some e \<Rightarrow> (Inl (DeviceFailed e), h) | None \<Rightarrow> (Inr (), h\<lparr>h_device := None, h_files := (h_files h)(''/dev/cocoimg0'' := None)\<rparr>)))"

definition shared_rootfs_digest :: "image_info \<Rightarrow> string \<Rightarrow> string" where
  "shared_rootfs_digest info image_id =
     (if ii_sha256 info = [] then ''image-id:'' @ image_id else ''sha256:'' @ ii_sha256 info)"

definition prepare_cache_from_bundle_inner ::
  "host_env \<Rightarrow> string \<Rightarrow> string \<Rightarrow> string \<Rightarrow> cache_entry hosted" where
  "prepare_cache_from_bundle_inner V image_ref image_id bundle_dir h =
     (let rootfs_dir = path_join bundle_dir ''rootfs'';
          images_dir = shared_rootfs_images_dir V
      in (if \<not> is_dir h rootfs_dir then (Inl (NoRootfs rootfs_dir), h)
          else
            st_then (host_mkdir V images_dir) (\<lambda>_.
            st_then (prepare_shared_rootfs_image V rootfs_dir images_dir (sanitize_path_component image_id)) (\<lambda>info.
            st_then (create_from_file V (ii_path info)) (\<lambda>share h.
            let config_json = (case host_read V (path_join bundle_dir ''config.json'') h of Inr d \<Rightarrow> d | Inl _ \<Rightarrow> []);
                entry = \<lparr>sre_image_ref = image_ref, sre_image_id = image_id,
                  sre_fs_type = as_fs_type (ii_format info), sre_image_size = ii_size info, sre_block_size = 4096,
                  sre_rootfs_digest = shared_rootfs_digest info image_id, sre_oci_config_json = config_json,
                  sre_source_rd_addr = si_source_rd_addr share, sre_share_id = si_share_id share,
                  sre_page_count = si_page_count share, sre_rootfs_image_path = ii_path info\<rparr>
            in st_then (write_cache_entry V entry) (\<lambda>_. st_ok entry) h))) h))"

definition prepare_cache_from_bundle ::
  "host_env \<Rightarrow> string \<Rightarrow> string \<Rightarrow> string \<Rightarrow> cache_entry hosted" where
  "prepare_cache_from_bundle V image_ref image_id bundle_dir h =
     (case read_cache_entry V image_ref h of
        Inl e \<Rightarrow> (Inl e, h)
      | Inr (Some entry) \<Rightarrow> (Inr entry, h)
      | Inr None \<Rightarrow>
          (case read_cache_entry V image_id h of
             Inl e \<Rightarrow> (Inl e, h)
           | Inr (Some entry) \<Rightarrow>
               (let aliased = entry\<lparr>sre_image_ref := image_ref, sre_image_id := image_id\<rparr>
                in st_then (write_cache_entry V aliased) (\<lambda>_. st_ok aliased) h)
           | Inr None \<Rightarrow>
               (case mark_cache_pending V image_ref h of
                  (Inl e, h') \<Rightarrow> (Inl e, h')
                | (Inr _, h') \<Rightarrow>
                    (case prepare_cache_from_bundle_inner V image_ref image_id bundle_dir h' of
                       (r, h'') \<Rightarrow> (r, clear_cache_pending V image_ref h'')))))"


section \<open>Mounting\<close>

record mount_options =
  mo_image_path :: string
  mo_work_dir :: string
  mo_fs_type :: "string option"
  mo_direct_block_device :: bool

definition mount_options_new :: "string \<Rightarrow> string \<Rightarrow> mount_options" where
  "mount_options_new image_path work_dir =
     \<lparr>mo_image_path = image_path, mo_work_dir = work_dir, mo_fs_type = None, mo_direct_block_device = False\<rparr>"

record mounted_rootfs =
  mr_loop_device :: string
  mr_lower_dir :: string
  mr_upper_dir :: string
  mr_overlay_work_dir :: string
  mr_rootfs_dir :: string

definition is_mountpoint :: "host_env \<Rightarrow> string \<Rightarrow> host \<Rightarrow> bool" where
  "is_mountpoint V path h \<longleftrightarrow>
     (is_file h path \<or> is_dir h path) \<and> is_ok (fst (hs_command V ''mountpoint'' [''-q'', path] h))"

definition when_mounted :: "host_env \<Rightarrow> string \<Rightarrow> unit hosted" where
  "when_mounted V dir h =
     (if is_mountpoint V dir h then run_command V ''umount'' [path_arg dir] h else (Inr (), h))"

definition cleanup_shared_rootfs_mount :: "host_env \<Rightarrow> string \<Rightarrow> unit hosted" where
  "cleanup_shared_rootfs_mount V work_dir =
     (let lower_dir = path_join work_dir ''lower'';
          rootfs_dir = path_join work_dir ''rootfs'';
          state_loopdev = path_join (path_join work_dir ''state'') ''loopdev''
      in st_then (when_mounted V rootfs_dir) (\<lambda>_.
         st_then (when_mounted V lower_dir) (\<lambda>_ h.
         if \<not> is_file h state_loopdev then (Inr (), h)
         else
           (case and_then (host_read V state_loopdev h) (\<lambda>d. ok_or (IoFailure ''invalid UTF-8'') (from_utf8 d)) of
              Inl e \<Rightarrow> (Inl (HostError (HRead state_loopdev) e), h)
            | Inr text \<Rightarrow>
                (let loopdev = trim text
                 in st_then (if loopdev \<noteq> [] then ignore_result (run_command V ''losetup'' [''-d'', loopdev]) else st_ok ()) (\<lambda>_.
                    ignore_result (host_remove V state_loopdev)) h)))))"

definition attach_image :: "host_env \<Rightarrow> mount_options \<Rightarrow> string \<Rightarrow> string hosted" where
  "attach_image V opts state_dir =
     (if mo_direct_block_device opts then st_ok (path_arg (mo_image_path opts))
      else
        st_then (run_command_capture V ''losetup''
            [''--find'', ''--show'', ''--read-only'', path_arg (mo_image_path opts)]) (\<lambda>loop_device.
        st_then (host_write V (path_join state_dir ''loopdev'') loop_device) (\<lambda>_.
        st_ok loop_device)))"

definition mount_shared_rootfs_image :: "host_env \<Rightarrow> mount_options \<Rightarrow> mounted_rootfs hosted" where
  "mount_shared_rootfs_image V opts h =
     (let lower_dir = path_join (mo_work_dir opts) ''lower'';
          upper_dir = path_join (mo_work_dir opts) ''upper'';
          overlay_work_dir = path_join (mo_work_dir opts) ''work'';
          rootfs_dir = path_join (mo_work_dir opts) ''rootfs'';
          state_dir = path_join (mo_work_dir opts) ''state'';
          fs_type = (case mo_fs_type opts of Some t \<Rightarrow> t | None \<Rightarrow> ''auto'')
      in if \<not> is_file h (mo_image_path opts) \<and> \<not> is_dir h (mo_image_path opts)
         then (Inl (NoImagePath (mo_image_path opts)), h)
         else
           st_then (st_for (host_mkdir V) [lower_dir, upper_dir, overlay_work_dir, rootfs_dir, state_dir]) (\<lambda>_.
           st_then (cleanup_shared_rootfs_mount V (mo_work_dir opts)) (\<lambda>_.
           st_then (attach_image V opts state_dir) (\<lambda>mount_device.
           st_then (run_command V ''mount''
              ((if fs_type = ''auto'' then [] else [''-t'', fs_type]) @
               [''-o'', ''ro'', mount_device, path_arg lower_dir])) (\<lambda>_.
           st_then (run_command V ''mount''
              [''-t'', ''overlay'', ''overlay'', ''-o'',
               ''lowerdir='' @ from_utf8_lossy lower_dir @ '',upperdir='' @ from_utf8_lossy upper_dir @
               '',workdir='' @ from_utf8_lossy overlay_work_dir,
               path_arg rootfs_dir]) (\<lambda>_.
           st_ok \<lparr>mr_loop_device = (if mo_direct_block_device opts then [] else mount_device),
                  mr_lower_dir = lower_dir, mr_upper_dir = upper_dir, mr_overlay_work_dir = overlay_work_dir,
                  mr_rootfs_dir = rootfs_dir\<rparr>))))) h)"

section \<open>Properties of the names\<close>

lemma sanitize_chars: "c \<in> set (sanitize_path_component s) \<Longrightarrow> c \<noteq> CHR ''/'' \<and> (of_char c :: nat) < 128"
proof -
  have "c \<noteq> CHR ''/'' \<and> (of_char c :: nat) < 128" if "c \<in> set (sanitize_char ch)" for ch
    using that by (auto simp: sanitize_char_def Let_def split: list.splits if_splits)
  then show "c \<in> set (sanitize_path_component s) \<Longrightarrow> c \<noteq> CHR ''/'' \<and> (of_char c :: nat) < 128"
    by (auto simp: sanitize_path_component_def Let_def split: if_splits)
qed

lemma sanitize_not_Nil [simp]: "sanitize_path_component s \<noteq> []"
  by (simp add: sanitize_path_component_def Let_def)

lemma sanitize_relative [simp]: "\<not> starts_with ''/'' (sanitize_path_component s @ t)"
proof -
  obtain c cs where c: "sanitize_path_component s = c # cs"
    using sanitize_not_Nil [of s] by (cases "sanitize_path_component s") simp_all
  then have "c \<noteq> CHR ''/''" using sanitize_chars [of c s] by simp
  then show ?thesis using c by (auto simp: starts_with_iff)
qed

lemma path_join_inj [simp]:
  "\<not> starts_with ''/'' a \<Longrightarrow> \<not> starts_with ''/'' b \<Longrightarrow> path_join d a = path_join d b \<longleftrightarrow> a = b"
  by (simp add: path_join_def)

lemma last_append_eq: "x @ u = y @ v \<Longrightarrow> u \<noteq> [] \<Longrightarrow> v \<noteq> [] \<Longrightarrow> last u = last v"
  by (metis last_appendR)

lemma cache_paths_eq [simp]:
  "cache_path V k s = cache_path V k' s \<longleftrightarrow> sanitize_path_component k = sanitize_path_component k'"
  "cache_tmp_path V k \<noteq> cache_path V k' ''json''"
  "cache_path V k' ''json'' \<noteq> cache_tmp_path V k"
  "cache_path V k ''pending'' \<noteq> cache_path V k' ''json''"
  "cache_path V k' ''json'' \<noteq> cache_path V k ''pending''"
  "cache_path V k ''pending'' \<noteq> cache_tmp_path V k'"
  by (auto simp: cache_path_def cache_tmp_path_def dest!: last_append_eq)

section \<open>Writing and reading entries\<close>

text \<open>A method that changes nothing but files in a set.\<close>

definition files_outside :: "string set \<Rightarrow> host \<Rightarrow> host \<Rightarrow> bool" where
  "files_outside S h h' \<longleftrightarrow> (\<forall>p. p \<notin> S \<longrightarrow> h_files h' p = h_files h p)"

lemma files_outside_refl [simp]: "files_outside S h h"
  by (simp add: files_outside_def)

lemma files_outside_trans: "files_outside S h h1 \<Longrightarrow> files_outside S h1 h2 \<Longrightarrow> files_outside S h h2"
  by (simp add: files_outside_def)

lemma host_write_outside: "host_write V p d h = (r, h') \<Longrightarrow> p \<in> S \<Longrightarrow> files_outside S h h'"
  by (auto simp: host_write_def files_outside_def split: option.splits)

lemma host_rename_outside: "host_rename V p q h = (r, h') \<Longrightarrow> p \<in> S \<Longrightarrow> q \<in> S \<Longrightarrow> files_outside S h h'"
  by (auto simp: host_rename_def files_outside_def split: option.splits)

lemma host_mkdir_outside: "host_mkdir V p h = (r, h') \<Longrightarrow> files_outside S h h'"
  by (auto simp: host_mkdir_def files_outside_def split: option.splits)

lemma write_for_key_outside:
  "write_cache_entry_for_key V k e h = (r, h') \<Longrightarrow> files_outside {cache_tmp_path V k, cache_path V k ''json''} h h'"
  by (auto simp: write_cache_entry_for_key_def st_then_def split: prod.splits sum.splits
      dest!: host_write_outside [where S = "{cache_tmp_path V k, cache_path V k ''json''}"]
        host_rename_outside [where S = "{cache_tmp_path V k, cache_path V k ''json''}"]
        host_mkdir_outside [where S = "{cache_tmp_path V k, cache_path V k ''json''}"]
      intro: files_outside_trans)

lemma write_for_key_ok:
  assumes "write_cache_entry_for_key V k e h = (Inr (), h')"
  shows "\<exists>t. h_files h' (cache_path V k ''json'') = Some \<lparr>hf_data = hs_entry_to_json V e, hf_mtime = t\<rparr>"
  using assms
  by (auto simp: write_cache_entry_for_key_def result_iff host_write_def host_rename_def host_mkdir_def
      split: option.splits)

text \<open>The files that hold an entry.\<close>

definition entry_files :: "host_env \<Rightarrow> cache_entry \<Rightarrow> string set" where
  "entry_files V e = (\<Union>k\<in>{sre_image_ref e, sre_image_id e}. {cache_tmp_path V k, cache_path V k ''json''})"

lemma validate_same_file:
  assumes "h_files h' (sre_rootfs_image_path e) = h_files h (sre_rootfs_image_path e)"
    and "hs_refuse V h' (HStat (sre_rootfs_image_path e)) = None"
    and "validate_cache_entry V e h = Inr ()"
  shows "validate_cache_entry V e h' = Inr ()"
  using assms
  by (auto simp: validate_cache_entry_def is_file_def host_stat_def result_iff split: if_splits option.splits)

lemma write_cache_entry_ok:
  assumes "write_cache_entry V e h = (Inr (), h')"
  shows "validate_cache_entry V e h = Inr ()" "files_outside (entry_files V e) h h'"
    "k \<in> {sre_image_ref e, sre_image_id e} \<Longrightarrow>
       \<exists>t. h_files h' (cache_path V k ''json'') = Some \<lparr>hf_data = hs_entry_to_json V e, hf_mtime = t\<rparr>"
proof -
  let ?K = "{sre_image_ref e, sre_image_id e}"
  show v: "validate_cache_entry V e h = Inr ()" using assms by (auto simp: write_cache_entry_def result_iff)
  obtain h1 where one: "write_cache_entry_for_key V (sre_image_ref e) e h = (Inr (), h1)"
    and two: "if sre_image_id e \<noteq> sre_image_ref e then write_cache_entry_for_key V (sre_image_id e) e h1 = (Inr (), h')
      else h' = h1"
    using assms by (auto simp: write_cache_entry_def result_iff split: if_splits)
  have sub: "files_outside (entry_files V e) a b"
    if "write_cache_entry_for_key V k e a = (r, b)" "k \<in> ?K" for k a b r
    using write_for_key_outside [OF that(1)] that(2) by (auto simp: files_outside_def entry_files_def)
  show "files_outside (entry_files V e) h h'"
    using sub [OF one] two files_outside_trans sub by (metis insertCI)
  show "\<exists>t. h_files h' (cache_path V k ''json'') = Some \<lparr>hf_data = hs_entry_to_json V e, hf_mtime = t\<rparr>" if "k \<in> ?K"
  proof (cases "sre_image_id e = sre_image_ref e")
    case True
    then show ?thesis using that two write_for_key_ok [OF one] by auto
  next
    case False
    then have w: "write_cache_entry_for_key V (sre_image_id e) e h1 = (Inr (), h')" using two by simp
    show ?thesis
    proof (cases "cache_path V k ''json'' = cache_path V (sre_image_id e) ''json''")
      case True
      show ?thesis unfolding True by (rule write_for_key_ok [OF w])
    next
      case False
      then have "k = sre_image_ref e" using that by auto
      then have "h_files h' (cache_path V k ''json'') = h_files h1 (cache_path V k ''json'')"
        using write_for_key_outside [OF w] False by (simp add: files_outside_def)
      then show ?thesis using write_for_key_ok [OF one] \<open>k = sre_image_ref e\<close> by simp
    qed
  qed
qed

definition entry_law :: "host_env \<Rightarrow> cache_entry \<Rightarrow> bool" where
  "entry_law V e \<longleftrightarrow> hs_entry_from_json V (hs_entry_to_json V e) = Some e"

lemma read_written_entry:
  assumes "entry_law V e" and "write_cache_entry V e h = (Inr (), h')"
    and "sre_rootfs_image_path e \<notin> entry_files V e"
    and "\<And>p. hs_refuse V h' (HStat p) = None" "\<And>p. hs_refuse V h' (HRead p) = None"
    and "sanitize_path_component key \<in> sanitize_path_component ` {sre_image_ref e, sre_image_id e}"
  shows "read_cache_entry V key h' = Inr (Some e)"
proof -
  obtain k where k: "k \<in> {sre_image_ref e, sre_image_id e}" "sanitize_path_component key = sanitize_path_component k"
    using assms(6) by auto
  then have path: "cache_path V key ''json'' = cache_path V k ''json''" by simp
  obtain t where "h_files h' (cache_path V k ''json'') = Some \<lparr>hf_data = hs_entry_to_json V e, hf_mtime = t\<rparr>"
    using write_cache_entry_ok(3) [OF assms(2) k(1)] by blast
  moreover have "validate_cache_entry V e h' = Inr ()"
  proof (rule validate_same_file)
    show "h_files h' (sre_rootfs_image_path e) = h_files h (sre_rootfs_image_path e)"
      using write_cache_entry_ok(2) [OF assms(2)] assms(3) unfolding files_outside_def by blast
    show "hs_refuse V h' (HStat (sre_rootfs_image_path e)) = None" by (rule assms(4))
    show "validate_cache_entry V e h = Inr ()" by (rule write_cache_entry_ok(1) [OF assms(2)])
  qed
  ultimately show ?thesis
    using assms(1,5) unfolding read_cache_entry_def path by (simp add: host_read_def entry_law_def)
qed

text \<open>
  An entry of the cache that was written is found again: under its reference, under its image
  identity, and under every other name that differs from one of these only in characters that the
  names of files do not keep.
\<close>

lemma cache_entry_roundtrip:
  assumes "entry_law V e" and "write_cache_entry V e h = (Inr (), h')"
    and "sre_rootfs_image_path e \<notin> entry_files V e"
    and "\<And>p. hs_refuse V h' (HStat p) = None" "\<And>p. hs_refuse V h' (HRead p) = None"
    and "sanitize_path_component key \<in> sanitize_path_component ` {sre_image_ref e, sre_image_id e}"
  shows "read_cache_entry V key h' = Inr (Some e)"
  using assms by (rule read_written_entry)

lemma wait_step:
  "wait_for_cache_entry V image_ref timeout elapsed seen n =
     (if read_cache_entry V image_ref (seen n) = Inr None \<and> cache_pending V image_ref (seen n) \<and> elapsed n < timeout
      then wait_for_cache_entry V image_ref timeout elapsed seen (Suc n)
      else Some (read_cache_entry V image_ref (seen n)))"
  by (subst wait_for_cache_entry.simps) (auto split: sum.splits option.splits)

lemma wait_from:
  assumes "0 < poll" and slow: "\<And>n. poll * n \<le> elapsed n"
  shows "\<exists>k. n \<le> k \<and> wait_for_cache_entry V image_ref timeout elapsed seen n = Some (read_cache_entry V image_ref (seen k)) \<and>
    (\<forall>j. n \<le> j \<and> j < k \<longrightarrow> read_cache_entry V image_ref (seen j) = Inr None \<and> cache_pending V image_ref (seen j) \<and>
       elapsed j < timeout)"
proof (induction "timeout - n" arbitrary: n rule: less_induct)
  case less
  show ?case
  proof (cases "read_cache_entry V image_ref (seen n) = Inr None \<and> cache_pending V image_ref (seen n) \<and> elapsed n < timeout")
    case True
    have "n \<le> poll * n" using assms(1) by (cases poll) simp_all
    then have "n < timeout" using slow [of n] True by linarith
    then have "timeout - Suc n < timeout - n" by simp
    from less [OF this] obtain k where k: "Suc n \<le> k"
      "wait_for_cache_entry V image_ref timeout elapsed seen (Suc n) = Some (read_cache_entry V image_ref (seen k))"
      "\<forall>j. Suc n \<le> j \<and> j < k \<longrightarrow> read_cache_entry V image_ref (seen j) = Inr None \<and> cache_pending V image_ref (seen j) \<and>
         elapsed j < timeout" by blast
    have "wait_for_cache_entry V image_ref timeout elapsed seen n = Some (read_cache_entry V image_ref (seen k))"
      using True k(2) by (subst wait_step) simp
    moreover have "read_cache_entry V image_ref (seen j) = Inr None \<and> cache_pending V image_ref (seen j) \<and> elapsed j < timeout"
      if "n \<le> j" "j < k" for j
      using that k(3) True by (cases "j = n") auto
    ultimately show ?thesis using k(1) by (meson Suc_leD)
  next
    case False
    then have "wait_for_cache_entry V image_ref timeout elapsed seen n = Some (read_cache_entry V image_ref (seen n))"
      by (subst wait_step) (rule if_not_P [OF False])
    then show ?thesis by (intro exI [of _ n]) auto
  qed
qed

text \<open>
  The wait for an entry that another request prepares ends, if a round takes at least the time it
  sleeps: after at most one round per interval of the time limit it returns what the last of its reads
  found, and all reads before found nothing but the pending mark.
\<close>

lemma wait_for_entry_ends:
  assumes "0 < poll" and "\<And>n. poll * n \<le> elapsed n"
  shows "\<exists>k. wait_for_cache_entry V image_ref timeout elapsed seen 0 = Some (read_cache_entry V image_ref (seen k)) \<and>
    poll * k < timeout + poll \<and>
    (\<forall>j. j < k \<longrightarrow> read_cache_entry V image_ref (seen j) = Inr None \<and> cache_pending V image_ref (seen j))"
proof -
  obtain k where k: "wait_for_cache_entry V image_ref timeout elapsed seen 0 = Some (read_cache_entry V image_ref (seen k))"
    "\<forall>j. j < k \<longrightarrow> read_cache_entry V image_ref (seen j) = Inr None \<and> cache_pending V image_ref (seen j) \<and>
       elapsed j < timeout"
    using wait_from [OF assms, where n = 0] by (metis le0)
  have "poll * k < timeout + poll"
  proof (cases k)
    case (Suc i)
    then have "elapsed i < timeout" using k(2) by simp
    then show ?thesis using assms(2) [of i] Suc by simp
  qed (use assms(1) in simp)
  then show ?thesis using k by blast
qed

section \<open>The size of an ext4 image\<close>

definition entry_size :: "walk_entry \<Rightarrow> nat" where
  "entry_size w = 4096 + (case we_metadata w of Inr (Some len) \<Rightarrow> len | _ \<Rightarrow> 0)"

lemma estimate_exact:
  "list_all (\<lambda>w. is_ok (we_metadata w)) ws \<Longrightarrow> acc + sum_list (map entry_size ws) \<le> U64_MAX \<Longrightarrow>
     try_fold estimate_step acc (map Inr ws) = Inr (acc + sum_list (map entry_size ws))"
proof (induction ws arbitrary: acc)
  case (Cons w ws)
  then obtain m where m: "we_metadata w = Inr m" by (cases "we_metadata w") auto
  then have "estimate_step acc (Inr w) = Inr (acc + entry_size w)"
    using Cons.prems(2) by (auto simp: estimate_step_def entry_size_def sat_add_def split: option.splits)
  then show ?case using Cons.IH [of "acc + entry_size w"] Cons.prems by simp
qed simp

lemma div_ceiling: "(0::nat) < m \<Longrightarrow> n \<le> (n + (m - 1)) div m * m \<and> (n + (m - 1)) div m * m < n + m"
proof -
  assume m: "0 < m"
  have "(n + (m - 1)) div m * m + (n + (m - 1)) mod m = n + (m - 1)" by simp
  moreover have "(n + (m - 1)) mod m < m" using m by simp
  ultimately show ?thesis using m by linarith
qed

text \<open>
  The size of an ext4 image is the configured one or the least number of mebibytes that holds one
  and a half times the content, four kibibytes per entry included, and eight mebibytes more; for
  contents up to 2 to the 62 bytes nothing saturates.
\<close>

lemma ext4_image_holds_content:
  assumes "hs_walk V h (bo_rootfs_dir opts) = map Inr ws" and "list_all (\<lambda>w. is_ok (we_metadata w)) ws"
    and "sum_list (map entry_size ws) \<le> 2 ^ 62"
  shows "\<exists>mb. ext4_image_size_mb V h opts = Inr mb \<and>
    sum_list (map entry_size ws) * 3 div 2 + 8 * ONE_MIB \<le> mb * ONE_MIB \<and>
    (mb = bo_image_size_mb opts \<or> mb * ONE_MIB < sum_list (map entry_size ws) * 3 div 2 + 9 * ONE_MIB)"
proof -
  define n where "n = sum_list (map entry_size ws)"
  define t where "t = n * 3 div 2 + 8 * ONE_MIB"
  define mb where "mb = (t + (ONE_MIB - 1)) div ONE_MIB"
  have n: "n \<le> 2 ^ 62" using assms(3) by (simp add: n_def)
  have "estimate_rootfs_content_size V h (bo_rootfs_dir opts) = Inr n"
    using estimate_exact [OF assms(2), of 0] n by (simp add: estimate_rootfs_content_size_def assms(1) n_def U64_MAX_def)
  moreover have "sat_add (sat_mul n 3 div 2) (EXT4_MIN_HEADROOM_MB * ONE_MIB) = t"
    using n by (simp add: sat_add_def sat_mul_def U64_MAX_def EXT4_MIN_HEADROOM_MB_def ONE_MIB_def t_def)
  moreover have "sat_add t (ONE_MIB - 1) = t + (ONE_MIB - 1)"
    using n by (simp add: sat_add_def U64_MAX_def ONE_MIB_def t_def)
  ultimately have size: "ext4_image_size_mb V h opts = Inr (max (bo_image_size_mb opts) (max mb 1))"
    by (simp add: ext4_image_size_mb_def ext4_size_of_content_def mb_def Let_def)
  have ceil: "t \<le> mb * ONE_MIB" "mb * ONE_MIB < t + ONE_MIB"
    unfolding mb_def using div_ceiling [of ONE_MIB t] by (simp_all add: ONE_MIB_def)
  then have "1 \<le> mb" by (cases mb) (simp_all add: t_def ONE_MIB_def)
  then have "max mb 1 = mb" by simp
  then show ?thesis
    using size ceil unfolding n_def [symmetric] t_def
    by (cases "mb \<le> bo_image_size_mb opts") (auto simp: max_def ONE_MIB_def)
qed

section \<open>Preparing an entry\<close>

lemma write_cache_entry_outside:
  "write_cache_entry V e h = (r, h') \<Longrightarrow> files_outside (entry_files V e) h h'"
proof -
  have sub: "files_outside (entry_files V e) a b"
    if "write_cache_entry_for_key V k e a = (r, b)" "k \<in> {sre_image_ref e, sre_image_id e}" for k a b r
    using write_for_key_outside [OF that(1)] that(2) by (auto simp: files_outside_def entry_files_def)
  show "write_cache_entry V e h = (r, h') \<Longrightarrow> files_outside (entry_files V e) h h'"
    by (auto simp: write_cache_entry_def st_then_def lift_result_def split: prod.splits sum.splits if_splits
        dest!: sub intro: files_outside_trans)
qed

lemma pending_not_entry_file: "cache_path V key ''pending'' \<notin> entry_files V e"
  by (auto simp: entry_files_def)

lemma clear_pending_files:
  assumes "\<And>h c. hs_refuse V h c = None"
  shows "h_files (clear_cache_pending V key h) = (h_files h)(cache_path V key ''pending'' := None)"
  using assms by (auto simp: clear_cache_pending_def host_remove_def is_file_def)

lemma mark_pending_succeeds:
  assumes "\<And>h c. hs_refuse V h c = None"
  shows "\<exists>h'. mark_cache_pending V key h = (Inr (), h')"
  using assms by (simp add: mark_cache_pending_def st_then_def host_mkdir_def host_write_def)

lemma inner_entry_written:
  assumes "prepare_cache_from_bundle_inner V image_ref image_id dir h = (Inr e, h')"
  shows "\<exists>h1. write_cache_entry V e h1 = (Inr (), h')" "sre_image_ref e = image_ref"
  using assms
  by (auto simp: prepare_cache_from_bundle_inner_def Let_def result_iff split: if_splits)

lemma entry_still_read:
  assumes "\<And>h c. hs_refuse V h c = None" and "read_cache_entry V key h = Inr (Some e)"
    and "h_files h' (cache_path V key ''json'') = h_files h (cache_path V key ''json'')"
    and "h_files h' (sre_rootfs_image_path e) = h_files h (sre_rootfs_image_path e)"
  shows "read_cache_entry V key h' = Inr (Some e)"
proof -
  have v: "validate_cache_entry V e h = Inr ()"
    and r: "and_then (ok_or (ParseError (cache_path V key ''json''))
        (case h_files h (cache_path V key ''json'') of None \<Rightarrow> None | Some f \<Rightarrow> hs_entry_from_json V (hf_data f)))
        (\<lambda>e. Inr e) = Inr e"
    using assms(1,2)
    by (auto simp: read_cache_entry_def host_read_def Let_def result_iff split: option.splits)
  have "validate_cache_entry V e h' = Inr ()" by (rule validate_same_file [OF assms(4,1) v])
  then show ?thesis
    using r assms(1,3) by (auto simp: read_cache_entry_def host_read_def Let_def result_iff split: option.splits)
qed

lemma pending_mark_cleared:
  assumes ok: "\<And>h c. hs_refuse V h c = None" and "prepare_cache_from_bundle V image_ref image_id dir h = (r, h')"
    and "cache_pending V image_ref h'"
  shows "cache_pending V image_ref h"
proof (cases "read_cache_entry V image_ref h = Inr None \<and> read_cache_entry V image_id h = Inr None")
  case True
  obtain h1 where "mark_cache_pending V image_ref h = (Inr (), h1)" using mark_pending_succeeds [OF ok] by blast
  then obtain h2 where "h' = clear_cache_pending V image_ref h2"
    using assms(2) True by (auto simp: prepare_cache_from_bundle_def split: prod.splits)
  then have "\<not> cache_pending V image_ref h'" by (simp add: cache_pending_def is_file_def clear_pending_files [OF ok])
  then show ?thesis using assms(3) by simp
next
  case False
  have outside: "cache_pending V image_ref h = cache_pending V image_ref h'" if "files_outside (entry_files V e) h h'" for e
    using that pending_not_entry_file [of V image_ref e] by (simp add: files_outside_def cache_pending_def is_file_def)
  from False assms(2) consider "h' = h" | e x where "write_cache_entry V e h = (x, h')"
    by (auto simp: prepare_cache_from_bundle_def Let_def st_then_def split: sum.splits option.splits prod.splits)
  then show ?thesis using outside write_cache_entry_outside assms(3) by metis
qed

lemma prepared_entry_read:
  assumes "entry_law V e" and "\<And>h c. hs_refuse V h c = None"
    and "prepare_cache_from_bundle V image_ref image_id dir h = (Inr e, h')"
    and "sre_rootfs_image_path e \<notin> insert (cache_path V image_ref ''pending'') (entry_files V e)"
  shows "read_cache_entry V image_ref h' = Inr (Some e)"
proof -
  have found: "read_cache_entry V image_ref h2 = Inr (Some e)"
    if "write_cache_entry V e h1 = (Inr (), h2)" "sre_image_ref e = image_ref" for h1 h2
    using read_written_entry [OF assms(1) that(1)] assms(2,4) that(2) by auto
  from assms(3) consider
      "read_cache_entry V image_ref h = Inr (Some e)" "h' = h"
    | "write_cache_entry V e h = (Inr (), h')" "sre_image_ref e = image_ref"
    | h1 h2 where "prepare_cache_from_bundle_inner V image_ref image_id dir h1 = (Inr e, h2)"
        "h' = clear_cache_pending V image_ref h2"
    by (auto simp: prepare_cache_from_bundle_def Let_def result_iff split: sum.splits option.splits prod.splits)
  then show ?thesis
  proof cases
    case 3
    then have "read_cache_entry V image_ref h2 = Inr (Some e)" using inner_entry_written found by blast
    then show ?thesis
      by (rule entry_still_read [OF assms(2)]) (use 3(2) assms(4) in \<open>auto simp: clear_pending_files [OF assms(2)]\<close>)
  qed (use found in auto)
qed

text \<open>
  The entry that a request has prepared is what every later request for the same reference
  finds, whether it was there, stood under the identity of the image, or was built and shared; and no
  pending mark stays behind.
\<close>

lemma prepared_entry_found:
  assumes "entry_law V e" and "\<And>h c. hs_refuse V h c = None"
    and "prepare_cache_from_bundle V image_ref image_id dir h = (Inr e, h')"
    and "sre_rootfs_image_path e \<notin> insert (cache_path V image_ref ''pending'') (entry_files V e)"
  shows "read_cache_entry V image_ref h' = Inr (Some e) \<and> (cache_pending V image_ref h' \<longrightarrow> cache_pending V image_ref h)"
  using prepared_entry_read [OF assms] pending_mark_cleared [OF assms(2,3)] by blast

section \<open>Behaviour that surprises\<close>

text \<open>Two images share an entry: \<open>a/b\<close> and \<open>a_b\<close> have one file.\<close>

lemma names_collide: "cache_path V ''a/b'' sfx = cache_path V ''a_b'' sfx"
proof -
  have "sanitize_path_component ''a/b'' = sanitize_path_component ''a_b''" by code_simp
  then show ?thesis by (simp add: cache_path_def)
qed

text \<open>
  A file that a format's command has left behind, whole or not, is taken for the image by the next
  request: no command runs.
\<close>

lemma leftover_image_used:
  assumes "h_files h (path_join images_dir (safe_id @ ''.'' @ as_fs_type fmt)) = Some f"
    and "\<not> shared_rootfs_hash_image_enabled V"
    and "hs_refuse V h (HStat (path_join images_dir (safe_id @ ''.'' @ as_fs_type fmt))) = None"
  shows "prepare_with_formats V rootfs_dir images_dir safe_id failures (fmt # fmts) h =
    (Inr \<lparr>ii_path = path_join images_dir (safe_id @ ''.'' @ as_fs_type fmt), ii_format = fmt,
      ii_size = length (hf_data f), ii_sha256 = [], ii_digest_cache_hit = False\<rparr>, h)"
  using assms by (simp add: is_file_def st_then_def host_stat_def image_digest_def Let_def)

text \<open>An entry that is not valid any more is never replaced: every later request fails on it.\<close>

lemma invalid_entry_stays:
  "read_cache_entry V image_ref h = Inl err \<Longrightarrow> prepare_cache_from_bundle V image_ref image_id dir h = (Inl err, h)"
  by (simp add: prepare_cache_from_bundle_def)

section \<open>Examples\<close>

definition demo_cache_entry :: cache_entry where
  "demo_cache_entry = \<lparr>sre_image_ref = ''r/a'', sre_image_id = ''id'', sre_fs_type = ''erofs'', sre_image_size = 3,
     sre_block_size = 4096, sre_rootfs_digest = ''image-id:id'', sre_oci_config_json = ''{}'',
     sre_source_rd_addr = 7, sre_share_id = 1, sre_page_count = 1,
     sre_rootfs_image_path = ''/tmp/run/image-rs/shared-rootfs/images/id.erofs''\<rparr>"

definition demo_host_env :: host_env where
  "demo_host_env = \<lparr>hs_refuse = \<lambda>h c. None, hs_torn = \<lambda>h p d. None,
     hs_env = \<lambda>key. if key = ''PATH'' then Some ''/bin'' else None,
     hs_command = \<lambda>program args h.
       (Inr [], if program = ''mkfs.erofs''
                then h\<lparr>h_files := (h_files h)(hd (tl args) \<mapsto> \<lparr>hf_data = ''fs!'', hf_mtime = 0\<rparr>)\<rparr> else h),
     hs_walk = \<lambda>h d. map Inr [\<lparr>we_path = d, we_metadata = Inr None\<rparr>,
       \<lparr>we_path = d @ ''/a'', we_metadata = Inr (Some 5)\<rparr>],
     hs_sha256 = \<lambda>b. b, hs_entry_to_json = \<lambda>e. ''{}'', hs_entry_from_json = \<lambda>b. Some demo_cache_entry,
     hs_bundle_to_json = \<lambda>e. [], hs_bundle_from_json = \<lambda>b. None,
     hs_sidecar_to_json = \<lambda>e. [], hs_sidecar_from_json = \<lambda>b. None,
     hs_share_file = \<lambda>h buf. Inr \<lparr>si_share_id = 1, si_source_rd_addr = 7, si_image_size = 3, si_page_count = 1\<rparr>,
     hs_make_device = \<lambda>h req. Inl ''no device'', hs_drop_device = \<lambda>h. None\<rparr>"

definition demo_host :: host where
  "demo_host = \<lparr>h_files = [''/bin/mkfs.erofs'' \<mapsto> \<lparr>hf_data = [], hf_mtime = 0\<rparr>,
       ''/b/config.json'' \<mapsto> \<lparr>hf_data = ''{}'', hf_mtime = 0\<rparr>],
     h_dirs = (\<lambda>d. d = ''/b/rootfs''), h_now = 0, h_device = None, h_mounts = []\<rparr>"

definition demo_shared_host :: host where
  "demo_shared_host = demo_host\<lparr>h_files := (h_files demo_host)
     (sre_rootfs_image_path demo_cache_entry \<mapsto> \<lparr>hf_data = ''fs!'', hf_mtime = 0\<rparr>)\<rparr>"

lemma demo_no_refusal [simp]: "hs_refuse demo_host_env h c = None"
  by (simp add: demo_host_env_def)

lemma demo_entry_law [simp]: "entry_law demo_host_env demo_cache_entry"
  by (simp add: entry_law_def demo_host_env_def)

lemma demo_image_apart: "sre_rootfs_image_path demo_cache_entry \<notin> insert (cache_path demo_host_env ''r/a'' ''pending'') (entry_files demo_host_env demo_cache_entry)"
  by code_simp

lemma demo_written: "fst (write_cache_entry demo_host_env demo_cache_entry demo_shared_host) = Inr ()"
  by code_simp

lemma demo_prepared: "fst (prepare_cache_from_bundle demo_host_env ''r/a'' ''id'' ''/b'' demo_host) = Inr demo_cache_entry"
  by code_simp

lemma cache_entry_roundtrip_witness:
  "read_cache_entry demo_host_env ''r_a'' (snd (write_cache_entry demo_host_env demo_cache_entry demo_shared_host)) =
     Inr (Some demo_cache_entry)"
proof (rule cache_entry_roundtrip)
  show "write_cache_entry demo_host_env demo_cache_entry demo_shared_host =
      (Inr (), snd (write_cache_entry demo_host_env demo_cache_entry demo_shared_host))"
    using demo_written by (simp add: prod_eq_iff)
  show "sanitize_path_component ''r_a'' \<in> sanitize_path_component ` {sre_image_ref demo_cache_entry, sre_image_id demo_cache_entry}"
    by code_simp
qed (use demo_image_apart in simp_all)

lemma prepared_entry_found_witness:
  "read_cache_entry demo_host_env ''r/a'' (snd (prepare_cache_from_bundle demo_host_env ''r/a'' ''id'' ''/b'' demo_host)) =
     Inr (Some demo_cache_entry)"
proof -
  have "prepare_cache_from_bundle demo_host_env ''r/a'' ''id'' ''/b'' demo_host =
      (Inr demo_cache_entry, snd (prepare_cache_from_bundle demo_host_env ''r/a'' ''id'' ''/b'' demo_host))"
    using demo_prepared by (simp add: prod_eq_iff)
  from prepared_entry_found [OF demo_entry_law demo_no_refusal this demo_image_apart] show ?thesis by blast
qed

lemma wait_for_entry_ends_witness:
  "\<exists>k. wait_for_cache_entry demo_host_env ''r/a'' 1000 (\<lambda>n. 200 * n) (\<lambda>n. demo_host) 0 =
       Some (read_cache_entry demo_host_env ''r/a'' demo_host) \<and> 200 * k < (1200 :: nat)"
  using wait_for_entry_ends [of 200 "\<lambda>n. 200 * n" demo_host_env "''r/a''" 1000 "\<lambda>n. demo_host"] by auto

lemma ext4_image_holds_content_witness:
  "\<exists>mb. ext4_image_size_mb demo_host_env demo_host (build_options_for Ext4 ''/b/rootfs'' ''/i'') = Inr mb \<and>
     8197 * 3 div 2 + 8 * ONE_MIB \<le> mb * ONE_MIB"
  using ext4_image_holds_content [of demo_host_env demo_host "build_options_for Ext4 ''/b/rootfs'' ''/i''"
      "[\<lparr>we_path = ''/b/rootfs'', we_metadata = Inr None\<rparr>, \<lparr>we_path = ''/b/rootfs/a'', we_metadata = Inr (Some 5)\<rparr>]"]
  by (auto simp: demo_host_env_def build_options_for_def entry_size_def)

end
