(* ===== verification/Runtime_Bundle.thy ===== *)
theory Runtime_Bundle
  imports Shared_Rootfs
begin

text \<open>
  \<open>image-rs/src/bundle.rs\<close>: the configuration of an image becomes the runtime configuration of a bundle.
  The defaults of the runtime specification and the JSON of both are parameters; fields that the code
  does not touch are the field \<open>rt_rest\<close>.
\<close>

section \<open>Configurations\<close>

record container_config =
  cfg_working_dir :: "string option"
  cfg_env :: "string list option"
  cfg_entrypoint :: "string list option"
  cfg_cmd :: "string list option"
  cfg_labels :: "(string \<rightharpoonup> string) option"
  cfg_stop_signal :: "string option"
  cfg_exposed_ports :: "string list option"
  cfg_volumes :: "string list option"

text \<open>The operating system and the architecture are kept as the words they are printed as.\<close>

record image_configuration =
  im_config :: "container_config option"
  im_os :: string
  im_os_version :: "string option"
  im_os_features :: "string list option"
  im_architecture :: string
  im_variant :: "string option"
  im_author :: "string option"
  im_created :: "string option"
  im_diff_ids :: "string list"

record runtime_process =
  rp_cwd :: string
  rp_env :: "string list option"
  rp_args :: "string list option"

record runtime_mount =
  rm_destination :: string
  rm_type :: "string option"
  rm_source :: "string option"
  rm_options :: "string list option"

record runtime_spec =
  rt_hostname :: "string option"
  rt_process :: "runtime_process option"
  rt_mounts :: "runtime_mount list option"
  rt_annotations :: "(string \<rightharpoonup> string) option"
  rt_rest :: bytes

record bundle_env =
  be_default_spec :: runtime_spec
  be_default_process :: runtime_process
  be_default_mount :: runtime_mount
  be_json_strings :: "string list \<Rightarrow> string option"
  be_spec_json :: "runtime_spec \<Rightarrow> bytes"

definition BUNDLE_CONFIG :: string where "BUNDLE_CONFIG = ''config.json''"
definition BUNDLE_ROOTFS :: string where "BUNDLE_ROOTFS = ''rootfs''"
definition BUNDLE_HOSTNAME :: string where "BUNDLE_HOSTNAME = ''image-rs''"

definition ANNOTATION_OS :: string where "ANNOTATION_OS = ''org.opencontainers.image.os''"
definition ANNOTATION_OS_VERSION :: string where "ANNOTATION_OS_VERSION = ''org.opencontainers.image.os.version''"
definition ANNOTATION_OS_FEATURES :: string where "ANNOTATION_OS_FEATURES = ''org.opencontainers.image.os.features''"
definition ANNOTATION_ARCH :: string where "ANNOTATION_ARCH = ''org.opencontainers.image.architecture''"
definition ANNOTATION_VARIANT :: string where "ANNOTATION_VARIANT = ''org.opencontainers.image.variant''"
definition ANNOTATION_AUTHOR :: string where "ANNOTATION_AUTHOR = ''org.opencontainers.image.author''"
definition ANNOTATION_CREATED :: string where "ANNOTATION_CREATED = ''org.opencontainers.image.created''"
definition ANNOTATION_STOP_SIGNAL :: string where "ANNOTATION_STOP_SIGNAL = ''org.opencontainers.image.stopSignal''"
definition ANNOTATION_EXPOSED_PORTS :: string where "ANNOTATION_EXPOSED_PORTS = ''org.opencontainers.image.exposedPorts''"

section \<open>The conversion\<close>

definition bundle_process :: "bundle_env \<Rightarrow> container_config \<Rightarrow> runtime_process" where
  "bundle_process B config =
     (let p = be_default_process B;
          p = (case cfg_working_dir config of Some d \<Rightarrow> p\<lparr>rp_cwd := d\<rparr> | None \<Rightarrow> p);
          p = (case cfg_env config of Some env \<Rightarrow> p\<lparr>rp_env := Some env\<rparr> | None \<Rightarrow> p);
          args = (case cfg_entrypoint config of Some e \<Rightarrow> e | None \<Rightarrow> []) @ (case cfg_cmd config of Some c \<Rightarrow> c | None \<Rightarrow> [])
      in if args \<noteq> [] then p\<lparr>rp_args := Some args\<rparr> else p)"

definition volume_mount :: "bundle_env \<Rightarrow> string \<Rightarrow> runtime_mount" where
  "volume_mount B v =
     (be_default_mount B)\<lparr>rm_destination := v, rm_type := Some ''tmpfs'', rm_source := None,
       rm_options := Some [''nosuid'', ''noexec'', ''nodev'', ''relatime'', ''rw'']\<rparr>"

definition bundle_mounts :: "bundle_env \<Rightarrow> container_config \<Rightarrow> runtime_mount list option" where
  "bundle_mounts B config =
     (case cfg_volumes config of
        None \<Rightarrow> rt_mounts (be_default_spec B)
      | Some volumes \<Rightarrow>
          (let mounts = map (volume_mount B) volumes
           in if mounts \<noteq> []
              then Some (mounts @ (case rt_mounts (be_default_spec B) of Some ms \<Rightarrow> ms | None \<Rightarrow> []))
              else rt_mounts (be_default_spec B)))"

definition bundle_labels :: "image_configuration \<Rightarrow> string \<rightharpoonup> string" where
  "bundle_labels im =
     (case im_config im of
        None \<Rightarrow> Map.empty
      | Some config \<Rightarrow> (case cfg_labels config of Some l \<Rightarrow> l | None \<Rightarrow> Map.empty))"

text \<open>\<open>if !labels.contains_key(key) { if let Some(value) = .. { insert } }\<close>\<close>

definition unless_labelled ::
  "(string \<rightharpoonup> string) \<Rightarrow> string \<Rightarrow> string option \<Rightarrow> (string \<rightharpoonup> string) \<Rightarrow> (string \<rightharpoonup> string)" where
  "unless_labelled labels key value annotations =
     (if labels key = None then (case value of Some v \<Rightarrow> annotations(key \<mapsto> v) | None \<Rightarrow> annotations) else annotations)"

definition config_annotations :: "image_configuration \<Rightarrow> string \<rightharpoonup> string" where
  "config_annotations im =
     (case im_config im of
        None \<Rightarrow> Map.empty
      | Some config \<Rightarrow>
          (let labels = bundle_labels im;
               annotations = unless_labelled labels ANNOTATION_STOP_SIGNAL (cfg_stop_signal config) labels
           in (case cfg_exposed_ports config of
                 Some ports \<Rightarrow> annotations(ANNOTATION_EXPOSED_PORTS \<mapsto> join_with (CHR '','') ports)
               | None \<Rightarrow> annotations)))"

definition bundle_annotations :: "bundle_env \<Rightarrow> image_configuration \<Rightarrow> string \<rightharpoonup> string" where
  "bundle_annotations B im =
     (let labels = bundle_labels im
      in unless_labelled labels ANNOTATION_CREATED (im_created im)
        (unless_labelled labels ANNOTATION_AUTHOR (im_author im)
        (unless_labelled labels ANNOTATION_VARIANT (im_variant im)
        (unless_labelled labels ANNOTATION_ARCH (Some (im_architecture im))
        (unless_labelled labels ANNOTATION_OS_FEATURES (Option.bind (im_os_features im) (be_json_strings B))
        (unless_labelled labels ANNOTATION_OS_VERSION (im_os_version im)
        (unless_labelled labels ANNOTATION_OS (Some (im_os im)) (config_annotations im))))))))"

definition runtime_spec_for :: "bundle_env \<Rightarrow> image_configuration \<Rightarrow> runtime_spec" where
  "runtime_spec_for B im =
     (let spec = (be_default_spec B)\<lparr>rt_hostname := Some BUNDLE_HOSTNAME\<rparr>;
          spec = (case im_config im of
                    None \<Rightarrow> spec
                  | Some config \<Rightarrow> spec\<lparr>rt_process := Some (bundle_process B config), rt_mounts := bundle_mounts B config\<rparr>)
      in spec\<lparr>rt_annotations := Some (bundle_annotations B im)\<rparr>)"

datatype bundle_error = ConfigExists string | ConfigSave share_error

definition create_runtime_config ::
  "bundle_env \<Rightarrow> host_env \<Rightarrow> image_configuration \<Rightarrow> string \<Rightarrow> (host, bundle_error, string) stateful" where
  "create_runtime_config B V im bundle_path h =
     (let bundle_config = path_join bundle_path BUNDLE_CONFIG
      in if is_file h bundle_config \<or> is_dir h bundle_config then (Inl (ConfigExists bundle_config), h)
         else st_then (st_map_err ConfigSave (host_write V bundle_config (be_spec_json B (runtime_spec_for B im))))
           (\<lambda>_. st_ok bundle_config) h)"

section \<open>Annotations\<close>

lemmas annotation_names = ANNOTATION_OS_def ANNOTATION_OS_VERSION_def ANNOTATION_OS_FEATURES_def
  ANNOTATION_ARCH_def ANNOTATION_VARIANT_def ANNOTATION_AUTHOR_def ANNOTATION_CREATED_def
  ANNOTATION_STOP_SIGNAL_def ANNOTATION_EXPOSED_PORTS_def

lemma annotation_names_distinct:
  "distinct [ANNOTATION_OS, ANNOTATION_OS_VERSION, ANNOTATION_OS_FEATURES, ANNOTATION_ARCH, ANNOTATION_VARIANT,
    ANNOTATION_AUTHOR, ANNOTATION_CREATED, ANNOTATION_STOP_SIGNAL, ANNOTATION_EXPOSED_PORTS]"
  unfolding annotation_names by code_simp

lemma annotation_names_neq [simp]:
  "ANNOTATION_OS \<noteq> ANNOTATION_OS_VERSION" "ANNOTATION_OS \<noteq> ANNOTATION_OS_FEATURES" "ANNOTATION_OS \<noteq> ANNOTATION_ARCH"
  "ANNOTATION_OS \<noteq> ANNOTATION_VARIANT" "ANNOTATION_OS \<noteq> ANNOTATION_AUTHOR" "ANNOTATION_OS \<noteq> ANNOTATION_CREATED"
  "ANNOTATION_OS \<noteq> ANNOTATION_STOP_SIGNAL" "ANNOTATION_OS \<noteq> ANNOTATION_EXPOSED_PORTS" "ANNOTATION_OS_VERSION \<noteq> ANNOTATION_OS"
  "ANNOTATION_OS_VERSION \<noteq> ANNOTATION_OS_FEATURES" "ANNOTATION_OS_VERSION \<noteq> ANNOTATION_ARCH" "ANNOTATION_OS_VERSION \<noteq> ANNOTATION_VARIANT"
  "ANNOTATION_OS_VERSION \<noteq> ANNOTATION_AUTHOR" "ANNOTATION_OS_VERSION \<noteq> ANNOTATION_CREATED" "ANNOTATION_OS_VERSION \<noteq> ANNOTATION_STOP_SIGNAL"
  "ANNOTATION_OS_VERSION \<noteq> ANNOTATION_EXPOSED_PORTS" "ANNOTATION_OS_FEATURES \<noteq> ANNOTATION_OS" "ANNOTATION_OS_FEATURES \<noteq> ANNOTATION_OS_VERSION"
  "ANNOTATION_OS_FEATURES \<noteq> ANNOTATION_ARCH" "ANNOTATION_OS_FEATURES \<noteq> ANNOTATION_VARIANT" "ANNOTATION_OS_FEATURES \<noteq> ANNOTATION_AUTHOR"
  "ANNOTATION_OS_FEATURES \<noteq> ANNOTATION_CREATED" "ANNOTATION_OS_FEATURES \<noteq> ANNOTATION_STOP_SIGNAL" "ANNOTATION_OS_FEATURES \<noteq> ANNOTATION_EXPOSED_PORTS"
  "ANNOTATION_ARCH \<noteq> ANNOTATION_OS" "ANNOTATION_ARCH \<noteq> ANNOTATION_OS_VERSION" "ANNOTATION_ARCH \<noteq> ANNOTATION_OS_FEATURES"
  "ANNOTATION_ARCH \<noteq> ANNOTATION_VARIANT" "ANNOTATION_ARCH \<noteq> ANNOTATION_AUTHOR" "ANNOTATION_ARCH \<noteq> ANNOTATION_CREATED"
  "ANNOTATION_ARCH \<noteq> ANNOTATION_STOP_SIGNAL" "ANNOTATION_ARCH \<noteq> ANNOTATION_EXPOSED_PORTS" "ANNOTATION_VARIANT \<noteq> ANNOTATION_OS"
  "ANNOTATION_VARIANT \<noteq> ANNOTATION_OS_VERSION" "ANNOTATION_VARIANT \<noteq> ANNOTATION_OS_FEATURES" "ANNOTATION_VARIANT \<noteq> ANNOTATION_ARCH"
  "ANNOTATION_VARIANT \<noteq> ANNOTATION_AUTHOR" "ANNOTATION_VARIANT \<noteq> ANNOTATION_CREATED" "ANNOTATION_VARIANT \<noteq> ANNOTATION_STOP_SIGNAL"
  "ANNOTATION_VARIANT \<noteq> ANNOTATION_EXPOSED_PORTS" "ANNOTATION_AUTHOR \<noteq> ANNOTATION_OS" "ANNOTATION_AUTHOR \<noteq> ANNOTATION_OS_VERSION"
  "ANNOTATION_AUTHOR \<noteq> ANNOTATION_OS_FEATURES" "ANNOTATION_AUTHOR \<noteq> ANNOTATION_ARCH" "ANNOTATION_AUTHOR \<noteq> ANNOTATION_VARIANT"
  "ANNOTATION_AUTHOR \<noteq> ANNOTATION_CREATED" "ANNOTATION_AUTHOR \<noteq> ANNOTATION_STOP_SIGNAL" "ANNOTATION_AUTHOR \<noteq> ANNOTATION_EXPOSED_PORTS"
  "ANNOTATION_CREATED \<noteq> ANNOTATION_OS" "ANNOTATION_CREATED \<noteq> ANNOTATION_OS_VERSION" "ANNOTATION_CREATED \<noteq> ANNOTATION_OS_FEATURES"
  "ANNOTATION_CREATED \<noteq> ANNOTATION_ARCH" "ANNOTATION_CREATED \<noteq> ANNOTATION_VARIANT" "ANNOTATION_CREATED \<noteq> ANNOTATION_AUTHOR"
  "ANNOTATION_CREATED \<noteq> ANNOTATION_STOP_SIGNAL" "ANNOTATION_CREATED \<noteq> ANNOTATION_EXPOSED_PORTS" "ANNOTATION_STOP_SIGNAL \<noteq> ANNOTATION_OS"
  "ANNOTATION_STOP_SIGNAL \<noteq> ANNOTATION_OS_VERSION" "ANNOTATION_STOP_SIGNAL \<noteq> ANNOTATION_OS_FEATURES" "ANNOTATION_STOP_SIGNAL \<noteq> ANNOTATION_ARCH"
  "ANNOTATION_STOP_SIGNAL \<noteq> ANNOTATION_VARIANT" "ANNOTATION_STOP_SIGNAL \<noteq> ANNOTATION_AUTHOR" "ANNOTATION_STOP_SIGNAL \<noteq> ANNOTATION_CREATED"
  "ANNOTATION_STOP_SIGNAL \<noteq> ANNOTATION_EXPOSED_PORTS" "ANNOTATION_EXPOSED_PORTS \<noteq> ANNOTATION_OS" "ANNOTATION_EXPOSED_PORTS \<noteq> ANNOTATION_OS_VERSION"
  "ANNOTATION_EXPOSED_PORTS \<noteq> ANNOTATION_OS_FEATURES" "ANNOTATION_EXPOSED_PORTS \<noteq> ANNOTATION_ARCH" "ANNOTATION_EXPOSED_PORTS \<noteq> ANNOTATION_VARIANT"
  "ANNOTATION_EXPOSED_PORTS \<noteq> ANNOTATION_AUTHOR" "ANNOTATION_EXPOSED_PORTS \<noteq> ANNOTATION_CREATED" "ANNOTATION_EXPOSED_PORTS \<noteq> ANNOTATION_STOP_SIGNAL"
  using annotation_names_distinct by auto

text \<open>What an image says of itself without labels, as a table.\<close>

definition implicit_annotations :: "bundle_env \<Rightarrow> image_configuration \<Rightarrow> (string \<times> string option) list" where
  "implicit_annotations B im =
     [(ANNOTATION_OS, Some (im_os im)), (ANNOTATION_OS_VERSION, im_os_version im),
      (ANNOTATION_OS_FEATURES, Option.bind (im_os_features im) (be_json_strings B)),
      (ANNOTATION_ARCH, Some (im_architecture im)), (ANNOTATION_VARIANT, im_variant im),
      (ANNOTATION_AUTHOR, im_author im), (ANNOTATION_CREATED, im_created im),
      (ANNOTATION_STOP_SIGNAL, Option.bind (im_config im) cfg_stop_signal)]"

lemma unless_labelled_apply:
  "unless_labelled labels key value annotations k =
     (if k = key \<and> labels key = None \<and> value \<noteq> None then value else annotations k)"
  by (auto simp: unless_labelled_def split: option.splits)

definition exposed_ports :: "image_configuration \<Rightarrow> string list option" where
  "exposed_ports im = Option.bind (im_config im) cfg_exposed_ports"

lemma config_annotations_apply:
  "config_annotations im k =
     (if k = ANNOTATION_EXPOSED_PORTS \<and> exposed_ports im \<noteq> None then map_option (join_with (CHR '','')) (exposed_ports im)
      else if bundle_labels im k \<noteq> None then bundle_labels im k
      else if k = ANNOTATION_STOP_SIGNAL then Option.bind (im_config im) cfg_stop_signal else None)"
proof (cases "im_config im")
  case None
  then show ?thesis by (simp add: config_annotations_def bundle_labels_def exposed_ports_def)
next
  case (Some config)
  then show ?thesis
    by (cases "cfg_exposed_ports config")
      (auto simp: config_annotations_def exposed_ports_def unless_labelled_apply Let_def)
qed

text \<open>
  The annotations of a bundle are the labels of the image and, where there is no label of the name,
  what the image says of itself; only the exposed ports replace even a label.
\<close>

lemma bundle_annotations_exact:
  "rt_annotations (runtime_spec_for B im) = Some (\<lambda>k.
     if k = ANNOTATION_EXPOSED_PORTS \<and> exposed_ports im \<noteq> None then map_option (join_with (CHR '','')) (exposed_ports im)
     else case bundle_labels im k of
            Some v \<Rightarrow> Some v
          | None \<Rightarrow> (case map_of (implicit_annotations B im) k of Some v \<Rightarrow> v | None \<Rightarrow> None))"
proof -
  have "bundle_annotations B im k =
     (if k = ANNOTATION_EXPOSED_PORTS \<and> exposed_ports im \<noteq> None then map_option (join_with (CHR '','')) (exposed_ports im)
      else case bundle_labels im k of
            Some v \<Rightarrow> Some v
          | None \<Rightarrow> (case map_of (implicit_annotations B im) k of Some v \<Rightarrow> v | None \<Rightarrow> None))" for k
  proof (cases "k \<in> {ANNOTATION_OS, ANNOTATION_OS_VERSION, ANNOTATION_OS_FEATURES, ANNOTATION_ARCH, ANNOTATION_VARIANT,
      ANNOTATION_AUTHOR, ANNOTATION_CREATED, ANNOTATION_STOP_SIGNAL, ANNOTATION_EXPOSED_PORTS}")
    case True
    then show ?thesis
      unfolding bundle_annotations_def Let_def unless_labelled_apply config_annotations_apply implicit_annotations_def
      by (elim insertE emptyE) (simp_all split: option.split)
  next
    case False
    then show ?thesis
      unfolding bundle_annotations_def Let_def unless_labelled_apply config_annotations_apply implicit_annotations_def
      by (simp split: option.split)
  qed
  then show ?thesis by (auto simp: runtime_spec_for_def Let_def fun_eq_iff split: option.splits)
qed

text \<open>A process gets the arguments of both fields in this order, and none if both are empty.\<close>

lemma bundle_args:
  "im_config im = Some config \<Longrightarrow>
     \<exists>p. rt_process (runtime_spec_for B im) = Some p \<and>
       rp_args p = (let args = concat (map (\<lambda>x. case x of Some a \<Rightarrow> a | None \<Rightarrow> []) [cfg_entrypoint config, cfg_cmd config])
                    in if args = [] then rp_args (be_default_process B) else Some args)"
  by (auto simp: runtime_spec_for_def bundle_process_def Let_def split: option.splits)

text \<open>A label for the exposed ports is lost, against the precedence that the comment demands.\<close>

lemma exposed_ports_override_label:
  assumes "exposed_ports im = Some ports"
  shows "rt_annotations (runtime_spec_for B im) = Some a \<Longrightarrow> a ANNOTATION_EXPOSED_PORTS = Some (join_with (CHR '','') ports)"
proof -
  have "bundle_annotations B im ANNOTATION_EXPOSED_PORTS = Some (join_with (CHR '','') ports)"
    unfolding bundle_annotations_def Let_def unless_labelled_apply config_annotations_apply
    using assms by simp
  then show "rt_annotations (runtime_spec_for B im) = Some a \<Longrightarrow> a ANNOTATION_EXPOSED_PORTS = Some (join_with (CHR '','') ports)"
    by (auto simp: runtime_spec_for_def Let_def split: option.splits)
qed

end
