(* ===== verification/Image_Resource.thy ===== *)
theory Image_Resource
  imports Shared_Rootfs Signature_Policy
begin

text \<open>
  \<open>image-rs/src/resource/mod.rs\<close> and \<open>resource/kbs/mod.rs\<close>: policies, credentials and sigstore
  configurations are read from local files or from the key broker, and what the broker has answered once
  is kept in a file and served from it for ever. The service behind the broker, URLs and SHA-256 are
  parameters.
\<close>

section \<open>The secure channel\<close>

definition STORAGE_PATH :: string where "STORAGE_PATH = ''image-security/kbs''"

datatype resource_error =
    ResourceHost share_error
  | ResourceClient string
  | ResourceUrl string
  | KbsNotEnabled string
  | UnknownScheme string

record secure_channel =
  sch_storage_path :: string

record resource_env =
  rsv_host :: host_env
  rsv_client :: "string \<Rightarrow> host \<Rightarrow> (string, bytes) result"
  rsv_url :: "string \<Rightarrow> (string, url) result"
  rsv_feat_kbs :: bool

definition secure_channel_new :: "resource_env \<Rightarrow> string \<Rightarrow> (host, resource_error, secure_channel) stateful" where
  "secure_channel_new R work_dir =
     (let storage_path = path_join work_dir STORAGE_PATH
      in st_then (st_map_err ResourceHost (host_mkdir (rsv_host R) storage_path))
           (\<lambda>_. st_ok \<lparr>sch_storage_path = storage_path\<rparr>))"

definition get_filepath :: "resource_env \<Rightarrow> secure_channel \<Rightarrow> string \<Rightarrow> string" where
  "get_filepath R ch uri = path_join (sch_storage_path ch) (hs_sha256 (rsv_host R) uri)"

definition check_local :: "resource_env \<Rightarrow> secure_channel \<Rightarrow> string \<Rightarrow> host \<Rightarrow> (resource_error, bytes option) result" where
  "check_local R ch uri h =
     (let file_path = get_filepath R ch uri
      in if is_file h file_path \<or> is_dir h file_path
         then (case host_read (rsv_host R) file_path h of
                 Inl e \<Rightarrow> Inl (ResourceHost (HostError (HRead file_path) e)) | Inr contents \<Rightarrow> Inr (Some contents))
         else Inr None)"

definition channel_get_resource :: "resource_env \<Rightarrow> secure_channel \<Rightarrow> string \<Rightarrow> (host, resource_error, bytes) stateful" where
  "channel_get_resource R ch resource_uri h =
     st_then (lift_result (check_local R ch resource_uri h)) (\<lambda>local.
     case local of
       Some res \<Rightarrow> st_ok res
     | None \<Rightarrow>
         st_then (lift_result (map_err ResourceClient (rsv_client R resource_uri h))) (\<lambda>res.
         st_then (st_map_err ResourceHost (host_write (rsv_host R) (get_filepath R ch resource_uri) res)) (\<lambda>_.
         st_ok res))) h"

section \<open>The provider\<close>

type_synonym resource_provider = "secure_channel option"

definition provider_new :: "resource_env \<Rightarrow> string \<Rightarrow> (host, resource_error, resource_provider) stateful" where
  "provider_new R work_dir =
     (if rsv_feat_kbs R then st_then (secure_channel_new R work_dir) (\<lambda>ch. st_ok (Some ch)) else st_ok None)"

definition provider_get_resource :: "resource_env \<Rightarrow> resource_provider \<Rightarrow> string \<Rightarrow> (host, resource_error, bytes) stateful" where
  "provider_get_resource R p uri0 h =
     (let uri = (if split_once_str ''://'' uri0 \<noteq> None then uri0 else ''file://'' @ uri0)
      in (case rsv_url R uri of
            Inl e \<Rightarrow> (Inl (ResourceUrl e), h)
          | Inr url \<Rightarrow>
              (if url_scheme url = ''kbs''
               then (case p of None \<Rightarrow> (Inl (KbsNotEnabled uri), h) | Some ch \<Rightarrow> channel_get_resource R ch uri h)
               else if url_scheme url = ''file''
               then (case host_read (rsv_host R) (url_path url) h of
                       Inl e \<Rightarrow> (Inl (ResourceHost (HostError (HRead (url_path url)) e)), h) | Inr content \<Rightarrow> (Inr content, h))
               else (Inl (UnknownScheme (url_scheme url)), h))))"

section \<open>What is kept\<close>

lemma channel_get_cases:
  "channel_get_resource R ch uri h =
     (case check_local R ch uri h of
        Inl e \<Rightarrow> (Inl e, h)
      | Inr (Some res) \<Rightarrow> (Inr res, h)
      | Inr None \<Rightarrow>
          (case rsv_client R uri h of
             Inl e \<Rightarrow> (Inl (ResourceClient e), h)
           | Inr res \<Rightarrow>
               (case host_write (rsv_host R) (get_filepath R ch uri) res h of
                  (Inl e, h') \<Rightarrow> (Inl (ResourceHost e), h') | (Inr _, h') \<Rightarrow> (Inr res, h'))))"
  by (simp add: channel_get_resource_def st_then_def lift_result_def st_map_err_def map_err_def
      split: sum.split option.split prod.split)

lemma local_after_get:
  assumes "channel_get_resource R ch uri h = (Inr res, h')" and "\<And>h p. hs_refuse (rsv_host R) h (HRead p) = None"
  shows "\<exists>f. h_files h' (get_filepath R ch uri) = Some f \<and> hf_data f = res"
  using assms
  by (auto simp: channel_get_cases check_local_def Let_def host_read_def host_write_def is_file_def
      split: sum.splits option.splits if_splits prod.splits)

text \<open>
  A resource that was served once is served the same for ever, whatever the broker has to say by
  then, as long as its file stays as it is: the broker is asked at most once for a resource.
\<close>

lemma resource_served_from_file:
  assumes "channel_get_resource R ch uri h = (Inr res, h')" and "\<And>h p. hs_refuse (rsv_host R) h (HRead p) = None"
    and "h_files h2 (get_filepath R ch uri) = h_files h' (get_filepath R ch uri)"
    and "rsv_host R' = rsv_host R"
  shows "channel_get_resource R' ch uri h2 = (Inr res, h2)"
proof -
  have "get_filepath R' ch uri = get_filepath R ch uri" by (simp add: get_filepath_def assms(4))
  then show ?thesis
    using local_after_get [OF assms(1,2)] assms(2-4)
    by (auto simp: channel_get_cases check_local_def Let_def host_read_def is_file_def)
qed

text \<open>
  What a write that failed leaves behind is served as the resource from then on: the file is written in
  place.
\<close>

lemma torn_resource_served:
  assumes "hs_refuse (rsv_host R) h (HWrite (get_filepath R ch uri)) = Some e"
    and "hs_torn (rsv_host R) h (get_filepath R ch uri) res = Some f" and "rsv_client R uri h = Inr res"
    and "\<not> is_file h (get_filepath R ch uri)" "\<not> is_dir h (get_filepath R ch uri)"
    and "\<And>h p. hs_refuse (rsv_host R) h (HRead p) = None"
  shows "\<exists>err h'. channel_get_resource R ch uri h = (Inl err, h') \<and> channel_get_resource R ch uri h' = (Inr (hf_data f), h')"
  using assms
  by (auto simp: channel_get_cases check_local_def Let_def host_read_def host_write_def is_file_def is_dir_def)

section \<open>An example\<close>

definition demo_resource_env :: "(string \<Rightarrow> host \<Rightarrow> (string, bytes) result) \<Rightarrow> resource_env" where
  "demo_resource_env client = \<lparr>rsv_host = demo_host_env, rsv_client = client,
     rsv_url = \<lambda>s. Inr \<lparr>url_scheme = ''kbs'', url_path = s\<rparr>, rsv_feat_kbs = True\<rparr>"

lemma resource_served_from_file_witness:
  "channel_get_resource (demo_resource_env (\<lambda>u h. Inl ''gone'')) \<lparr>sch_storage_path = ''/c''\<rparr> ''kbs:///a/b/c''
     (snd (channel_get_resource (demo_resource_env (\<lambda>u h. Inr ''policy'')) \<lparr>sch_storage_path = ''/c''\<rparr> ''kbs:///a/b/c'' demo_host)) =
   (Inr ''policy'',
     snd (channel_get_resource (demo_resource_env (\<lambda>u h. Inr ''policy'')) \<lparr>sch_storage_path = ''/c''\<rparr> ''kbs:///a/b/c'' demo_host))"
proof (rule resource_served_from_file)
  show "channel_get_resource (demo_resource_env (\<lambda>u h. Inr ''policy'')) \<lparr>sch_storage_path = ''/c''\<rparr> ''kbs:///a/b/c'' demo_host =
      (Inr ''policy'',
       snd (channel_get_resource (demo_resource_env (\<lambda>u h. Inr ''policy'')) \<lparr>sch_storage_path = ''/c''\<rparr> ''kbs:///a/b/c'' demo_host))"
    by (simp add: channel_get_cases check_local_def Let_def demo_resource_env_def host_write_def get_filepath_def
        is_file_def is_dir_def demo_host_def demo_host_env_def path_join_def starts_with_iff)
qed (simp_all add: demo_resource_env_def)

end
