(* ===== verification/Image_Config.thy ===== *)
theory Image_Config
  imports Rust_Prelude
begin

text \<open>
  \<open>image-rs/src/config.rs\<close>: the configuration of the image client, its defaults and its validation. The
  fields that exist with the feature \<open>keywrap-native\<close> only are left out; JSON is a parameter.
\<close>

datatype snapshot_type = Unknown | Overlay | OcclumUnionfs

fun snapshot_str :: "snapshot_type \<Rightarrow> string" where
  "snapshot_str Unknown = ''unknown''"
| "snapshot_str Overlay = ''overlay''"
| "snapshot_str OcclumUnionfs = ''occlum_unionfs''"

record fuse_config =
  fu_fail_over_policy :: string
  fu_fuse_threads :: nat
  fu_localfs_dir :: "string option"
  fu_prefetch_files :: "string list option"
  fu_virtual_mountpoint :: "string option"

record fscache_config =
  fsc_fscache :: "string option"
  fsc_fscache_tag :: "string option"
  fsc_fscache_threads :: nat

record nydus_config =
  ny_driver_type :: string
  ny_id :: "string option"
  ny_fuse_config :: "fuse_config option"
  ny_fscache_config :: "fscache_config option"

record image_cfg =
  ic_work_dir :: string
  ic_default_snapshot :: snapshot_type
  ic_image_security_policy_uri :: "string option"
  ic_sigstore_config_uri :: "string option"
  ic_authenticated_registry_credentials_uri :: "string option"
  ic_max_concurrent_layer_downloads_per_image :: nat
  ic_image_pull_proxy :: "string option"
  ic_skip_proxy_ips :: "string option"
  ic_extra_root_certificates :: "string list"
  ic_insecure_registry_hosts :: "string list"
  ic_nydus_config :: "nydus_config option"

definition DEFAULT_WORK_DIR :: string where "DEFAULT_WORK_DIR = ''/tmp/run/image-rs/''"
definition DEFAULT_MAX_CONCURRENT_DOWNLOAD :: nat where "DEFAULT_MAX_CONCURRENT_DOWNLOAD = 3"
definition CONFIGURATION_FILE_NAME :: string where "CONFIGURATION_FILE_NAME = ''config.json''"

definition fuse_default :: fuse_config where
  "fuse_default = \<lparr>fu_fail_over_policy = ''flush'', fu_fuse_threads = 4, fu_localfs_dir = None,
     fu_prefetch_files = None, fu_virtual_mountpoint = Some ''/''\<rparr>"

definition fscache_default :: fscache_config where
  "fscache_default = \<lparr>fsc_fscache = None, fsc_fscache_tag = None, fsc_fscache_threads = 4\<rparr>"

definition nydus_default :: nydus_config where
  "nydus_default = \<lparr>ny_driver_type = ''fuse'', ny_id = None, ny_fuse_config = Some fuse_default, ny_fscache_config = None\<rparr>"

definition is_fuse :: "nydus_config \<Rightarrow> bool" where "is_fuse n \<longleftrightarrow> ny_driver_type n = ''fuse''"
definition is_fscache :: "nydus_config \<Rightarrow> bool" where "is_fscache n \<longleftrightarrow> ny_driver_type n = ''fscache''"

definition get_fuse_config :: "nydus_config \<Rightarrow> (string, fuse_config) result" where
  "get_fuse_config n = ok_or ''no configuration information for fuse'' (ny_fuse_config n)"

definition get_fscache_config :: "nydus_config \<Rightarrow> (string, fscache_config) result" where
  "get_fscache_config n = ok_or ''no configuration information for fscache'' (ny_fscache_config n)"

definition nydus_validate :: "nydus_config \<Rightarrow> bool" where
  "nydus_validate n =
     (if ny_driver_type n \<noteq> ''fuse'' \<and> ny_driver_type n \<noteq> ''fscache'' then False
      else if is_fuse n \<and> ny_fuse_config n = None then False
      else if is_fscache n \<and> ny_fscache_config n = None then False
      else True)"

text \<open>\<open>overlay\<close> and \<open>nydus\<close> are the features \<open>snapshot-overlayfs\<close> and \<open>nydus\<close>.\<close>

definition image_cfg_default :: "bool \<Rightarrow> bool \<Rightarrow> image_cfg" where
  "image_cfg_default overlay nydus =
     \<lparr>ic_work_dir = DEFAULT_WORK_DIR, ic_default_snapshot = (if overlay then Overlay else Unknown),
      ic_image_security_policy_uri = None, ic_sigstore_config_uri = None,
      ic_authenticated_registry_credentials_uri = None,
      ic_max_concurrent_layer_downloads_per_image = DEFAULT_MAX_CONCURRENT_DOWNLOAD,
      ic_image_pull_proxy = None, ic_skip_proxy_ips = None, ic_extra_root_certificates = [],
      ic_insecure_registry_hosts = [], ic_nydus_config = (if nydus then Some nydus_default else None)\<rparr>"

definition image_cfg_new :: "bool \<Rightarrow> bool \<Rightarrow> string \<Rightarrow> image_cfg" where
  "image_cfg_new overlay nydus image_work_dir = (image_cfg_default overlay nydus)\<lparr>ic_work_dir := image_work_dir\<rparr>"

definition image_cfg_validate :: "image_cfg \<Rightarrow> bool" where
  "image_cfg_validate c =
     (case ic_nydus_config c of Some n \<Rightarrow> (if \<not> nydus_validate n then False else True) | None \<Rightarrow> True)"

definition get_nydus_config :: "image_cfg \<Rightarrow> (string, nydus_config) result" where
  "get_nydus_config c = ok_or ''no configuration information for nydus'' (ic_nydus_config c)"

datatype config_load_error = ConfigOpen string | ConfigInvalid | ConfigParse string

text \<open>\<open>file\<close> is what opening and reading the file gives.\<close>

definition image_cfg_try_from ::
  "(bytes \<Rightarrow> (string, image_cfg) result) \<Rightarrow> (string, bytes) result \<Rightarrow> (config_load_error, image_cfg) result" where
  "image_cfg_try_from json file =
     and_then (map_err ConfigOpen file) (\<lambda>data.
       case json data of
         Inr image_config \<Rightarrow> (if image_cfg_validate image_config then Inr image_config else Inl ConfigInvalid)
       | Inl e \<Rightarrow> Inl (ConfigParse e))"

text \<open>A configuration that was loaded has what the driver it names needs.\<close>

lemma loaded_config_has_driver:
  assumes "image_cfg_try_from json file = Inr c" and "ic_nydus_config c = Some n"
  shows "is_fuse n \<and> (\<exists>f. get_fuse_config n = Inr f) \<or> is_fscache n \<and> (\<exists>f. get_fscache_config n = Inr f)"
proof -
  obtain data where "(case json data of
        Inr image_config \<Rightarrow> (if image_cfg_validate image_config then Inr image_config else Inl ConfigInvalid)
      | Inl e \<Rightarrow> Inl (ConfigParse e)) = Inr c"
    using assms(1) by (auto simp: image_cfg_try_from_def result_iff)
  then have "image_cfg_validate c" by (cases "json data") (auto split: if_split_asm)
  then have "nydus_validate n" using assms(2) by (simp add: image_cfg_validate_def split: if_split_asm)
  then show ?thesis
    by (auto simp: nydus_validate_def is_fuse_def is_fscache_def get_fuse_config_def get_fscache_config_def ok_or_def
        split: if_split_asm option.split)
qed

lemma default_config_valid: "image_cfg_validate (image_cfg_default overlay nydus)"
  by (simp add: image_cfg_validate_def image_cfg_default_def nydus_validate_def nydus_default_def is_fuse_def is_fscache_def)

end
