(* ===== verification/Image_Client.thy ===== *)
theory Image_Client
  imports Layer_Pull Registry_Auth Runtime_Bundle Image_Resource Image_Config
begin

text \<open>
  \<open>image-rs/src/image.rs\<close>, \<open>meta_store.rs\<close>, \<open>snapshots/overlay.rs\<close> and \<open>builder.rs\<close>: the image client, which
  finds credentials, checks the image against the policy, pulls its layers, remembers them in the meta
  store and mounts them as a bundle. The features are \<open>snapshot-overlayfs\<close> and \<open>signature\<close>, without
  \<open>nydus\<close> and \<open>snapshot-unionfs\<close>. The registry, JSON, the clock and the mount call are parameters.
\<close>

section \<open>The meta store\<close>

record image_meta =
  imt_id :: string
  imt_digest :: string
  imt_reference :: string
  imt_config :: image_configuration
  imt_signed :: bool
  imt_layers :: "layer_meta list"

record meta_store =
  ms_image_db :: "string \<rightharpoonup> image_meta"
  ms_layer_db :: "string \<rightharpoonup> layer_meta"
  ms_snapshot_db :: "string \<rightharpoonup> nat"

definition METAFILE :: string where "METAFILE = ''meta_store.json''"

definition meta_store_default :: meta_store where
  "meta_store_default = \<lparr>ms_image_db = Map.empty, ms_layer_db = Map.empty, ms_snapshot_db = Map.empty\<rparr>"

record image_manifest =
  mf_config_digest :: string
  mf_layers :: "oci_descriptor list"

record mount_point =
  mp_type :: string
  mp_mount_path :: string
  mp_work_dir :: string

record image_client =
  cl_auth :: "(string \<times> string) list option"
  cl_validator :: "validator option"
  cl_meta :: meta_store
  cl_snapshots :: "snapshot_type \<rightharpoonup> string"
  cl_config :: image_cfg
  cl_store :: layer_store
  cl_host :: host
  cl_ops :: "fs_op list"

record ('p, 'k, 's, 'l, 'v, 'r, 'c, 'm, 'g, 'h) image_env =
  ie_sig :: "('p, 'k, 's, 'l, 'v) sig_env"
  ie_pull :: "('r, 'c, 'm, 'g, 'h) pull_env"
  ie_schedule :: "nat list"
  ie_bundle :: bundle_env
  ie_resource :: resource_env
  ie_auth_json :: "bytes \<Rightarrow> (string, (string \<times> string) list) result"
  ie_auth_b64 :: "string \<Rightarrow> bytes option"
  ie_resolve :: "oci_reference \<Rightarrow> string"
  ie_registry_client :: "image_cfg \<Rightarrow> (string, unit) result"
  ie_manifest :: "oci_reference \<Rightarrow> registry_auth \<Rightarrow> (string, image_manifest \<times> string \<times> string) result"
  ie_config_json :: "string \<Rightarrow> (string, image_configuration) result"
  ie_cfg_json :: "bytes \<Rightarrow> (string, image_cfg) result"
  ie_store_json :: "meta_store \<Rightarrow> (string, bytes) result"
  ie_store_from_json :: "bytes \<Rightarrow> (string, meta_store) result"
  ie_mount :: "string \<Rightarrow> string \<Rightarrow> string \<Rightarrow> string \<Rightarrow> host \<Rightarrow> (string, unit) result \<times> host"
  ie_clock :: "host \<Rightarrow> nat \<times> nat"
  ie_exists_dir :: "host \<Rightarrow> string \<Rightarrow> bool"
  ie_read_dir :: "host \<Rightarrow> string \<Rightarrow> (string, (string, dir_ent) result list) result"

abbreviation ie_host :: "('p, 'k, 's, 'l, 'v, 'r, 'c, 'm, 'g, 'h) image_env \<Rightarrow> host_env" where
  "ie_host E \<equiv> rsv_host (ie_resource E)"

datatype client_error =
    BadReference string
  | BadAuthInfo string
  | CredentialFailed auth_error
  | RegistryClientFailed string
  | ManifestFailed string
  | NoSnapshot snapshot_type
  | NotAccepted sig_error
  | ImageConfigFailed string
  | LayerCountMismatch
  | LayersFailed pull_error
  | LayersMissing nat
  | HostFailed share_error
  | OverlayMountFailed string string
  | UnsupportedOs string
  | RuntimeConfigFailed bundle_error
  | StoreJson string
  | NoBundleRootfs string
  | ResourceFailed resource_error
  | AuthJson string
  | ValidatorFailed sig_error
  | LayerStoreFailed string

definition meta_store_try_from :: "('p, 'k, 's, 'l, 'v, 'r, 'c, 'm, 'g, 'h) image_env \<Rightarrow> string \<Rightarrow> host \<Rightarrow> (client_error, meta_store) result" where
  "meta_store_try_from E path h =
     (case host_read (ie_host E) path h of
        Inl e \<Rightarrow> Inl (HostFailed (HostError (HRead path) e))
      | Inr data \<Rightarrow> map_err StoreJson (ie_store_from_json E data))"

text \<open>The file is emptied before the store is printed.\<close>

definition meta_store_write_to_file ::
  "('p, 'k, 's, 'l, 'v, 'r, 'c, 'm, 'g, 'h) image_env \<Rightarrow> meta_store \<Rightarrow> string \<Rightarrow> (host, client_error, unit) stateful" where
  "meta_store_write_to_file E ms path =
     (case ie_store_json E ms of
        Inr data \<Rightarrow> st_map_err HostFailed (host_write (ie_host E) path data)
      | Inl e \<Rightarrow> st_then (st_map_err HostFailed (host_write (ie_host E) path [])) (\<lambda>_. st_err (StoreJson e)))"

section \<open>Overlay mounts and bundles\<close>

definition mkdir_unless_exists :: "host_env \<Rightarrow> string \<Rightarrow> unit hosted" where
  "mkdir_unless_exists V path h = (if is_file h path \<or> is_dir h path then (Inr (), h) else host_mkdir V path h)"

definition mount_index ::
  "('p, 'k, 's, 'l, 'v, 'r, 'c, 'm, 'g, 'h) image_env \<Rightarrow> string list \<Rightarrow> string \<Rightarrow> host \<Rightarrow> string" where
  "mount_index E layer_path mount_path h =
     (case ie_clock E h of (secs, nanos) \<Rightarrow>
        hs_sha256 (ie_host E) (concat layer_path @ mount_path @ le_bytes 8 secs @ le_bytes 4 nanos))"

definition overlay_options :: "string list \<Rightarrow> string \<Rightarrow> string" where
  "overlay_options layer_path work_dir =
     ''lowerdir='' @ join_with (CHR '':'') layer_path @
     '',upperdir='' @ from_utf8_lossy (path_join work_dir ''upperdir'') @
     '',workdir='' @ from_utf8_lossy (path_join work_dir ''workdir'')"

definition mount_call ::
  "('p, 'k, 's, 'l, 'v, 'r, 'c, 'm, 'g, 'h) image_env \<Rightarrow> string \<Rightarrow> string \<Rightarrow> (host, client_error, unit) stateful" where
  "mount_call E mount_path options h =
     (case ie_mount E ''overlay'' mount_path ''overlay'' options h of
        (Inl e, h') \<Rightarrow> (Inl (OverlayMountFailed mount_path e), h') | (Inr _, h') \<Rightarrow> (Inr (), h'))"

definition overlay_mount ::
  "('p, 'k, 's, 'l, 'v, 'r, 'c, 'm, 'g, 'h) image_env \<Rightarrow> string \<Rightarrow> string list \<Rightarrow> string \<Rightarrow>
     (host, client_error, mount_point) stateful" where
  "overlay_mount E data_dir layer_path mount_path h =
     (let V = ie_host E;
          work_dir = path_join data_dir (mount_index E layer_path mount_path h)
      in st_then (st_map_err HostFailed (mkdir_unless_exists V data_dir)) (\<lambda>_.
         st_then (st_map_err HostFailed (host_mkdir V (path_join work_dir ''upperdir''))) (\<lambda>_.
         st_then (st_map_err HostFailed (host_mkdir V (path_join work_dir ''workdir''))) (\<lambda>_.
         st_then (st_map_err HostFailed (mkdir_unless_exists V mount_path)) (\<lambda>_.
         st_then (mount_call E mount_path (overlay_options layer_path work_dir)) (\<lambda>_.
         st_ok \<lparr>mp_type = ''overlay'', mp_mount_path = mount_path, mp_work_dir = work_dir\<rparr>))))) h)"

definition create_bundle ::
  "('p, 'k, 's, 'l, 'v, 'r, 'c, 'm, 'g, 'h) image_env \<Rightarrow> string \<Rightarrow> image_meta \<Rightarrow> string \<Rightarrow>
     (host, client_error, string) stateful" where
  "create_bundle E data_dir image_data bundle_dir =
     st_then (overlay_mount E data_dir (map lm_store_path (rev (imt_layers image_data))) (path_join bundle_dir BUNDLE_ROOTFS)) (\<lambda>_.
     if im_os (imt_config image_data) \<noteq> ''linux'' then st_err (UnsupportedOs (im_os (imt_config image_data)))
     else
       st_then (st_map_err RuntimeConfigFailed
          (create_runtime_config (ie_bundle E) (ie_host E) (imt_config image_data) bundle_dir)) (\<lambda>_.
       st_ok (imt_id image_data)))"

section \<open>The metadata of an image\<close>

text \<open>Only the first of the layers with the same digest is kept.\<close>

fun unique_layers :: "string list \<Rightarrow> (string \<times> oci_descriptor) list \<Rightarrow> (oci_descriptor \<times> string) list" where
  "unique_layers digests [] = []"
| "unique_layers digests ((diff_id, layer) # rest) =
     (if od_digest layer \<in> set digests then unique_layers digests rest
      else (layer, diff_id) # unique_layers (od_digest layer # digests) rest)"

definition create_image_meta ::
  "('p, 'k, 's, 'l, 'v, 'r, 'c, 'm, 'g, 'h) image_env \<Rightarrow> string \<Rightarrow> string \<Rightarrow> image_manifest \<Rightarrow> string \<Rightarrow> string \<Rightarrow>
     (client_error, image_meta \<times> (oci_descriptor \<times> string) list) result" where
  "create_image_meta E image_id image_url manifest manifest_digest image_config =
     and_then (map_err ImageConfigFailed (ie_config_json E image_config)) (\<lambda>config.
       if length (im_diff_ids config) \<noteq> length (mf_layers manifest) then Inl LayerCountMismatch
       else Inr (\<lparr>imt_id = image_id, imt_digest = manifest_digest, imt_reference = image_url, imt_config = config,
                  imt_signed = False, imt_layers = []\<rparr>,
                 unique_layers [] (zip (im_diff_ids config) (mf_layers manifest))))"

section \<open>Pulling an image\<close>

definition choose_auth ::
  "('p, 'k, 's, 'l, 'v, 'r, 'c, 'm, 'g, 'h) image_env \<Rightarrow> image_client \<Rightarrow> oci_reference \<Rightarrow> string option \<Rightarrow>
     (client_error, registry_auth) result" where
  "choose_auth E c reference auth_info =
     (case auth_info of
        Some input_auth \<Rightarrow>
          (case split_once (CHR '':'') input_auth of
             Some (username, password) \<Rightarrow> Inr (Basic username password)
           | None \<Rightarrow> Inl (BadAuthInfo input_auth))
      | None \<Rightarrow>
          (case cl_auth c of
             Some auths \<Rightarrow>
               map_err CredentialFailed (credential_from_auth_config (ie_auth_b64 E) (ie_resolve E) reference auths)
           | None \<Rightarrow> Inr Anonymous))"

record image_request =
  iq_auth :: registry_auth
  iq_manifest :: image_manifest
  iq_digest :: string
  iq_config :: string
  iq_data_dir :: string

definition image_request_for ::
  "('p, 'k, 's, 'l, 'v, 'r, 'c, 'm, 'g, 'h) image_env \<Rightarrow> image_client \<Rightarrow> string \<Rightarrow> string option \<Rightarrow>
     (client_error, image_request) result" where
  "image_request_for E c image_url auth_info =
     and_then (map_err BadReference (se_parse_ref (ie_sig E) image_url)) (\<lambda>reference.
     and_then (choose_auth E c reference auth_info) (\<lambda>auth.
     and_then (map_err RegistryClientFailed (ie_registry_client E (cl_config c))) (\<lambda>_.
     and_then (map_err ManifestFailed (ie_manifest E reference auth)) (\<lambda>(manifest, digest, config).
     and_then (ok_or (NoSnapshot (ic_default_snapshot (cl_config c)))
         (cl_snapshots c (ic_default_snapshot (cl_config c)))) (\<lambda>data_dir.
     Inr \<lparr>iq_auth = auth, iq_manifest = manifest, iq_digest = digest, iq_config = config, iq_data_dir = data_dir\<rparr>)))))"

definition on_host :: "(host, client_error, 'a) stateful \<Rightarrow> (image_client, client_error, 'a) stateful" where
  "on_host m c = (case m (cl_host c) of (r, h) \<Rightarrow> (r, c\<lparr>cl_host := h\<rparr>))"

definition check_policy ::
  "('p, 'k, 's, 'l, 'v, 'r, 'c, 'm, 'g, 'h) image_env \<Rightarrow> image_client \<Rightarrow> string \<Rightarrow> image_request \<Rightarrow>
     (client_error, unit) result" where
  "check_policy E c image_url q =
     (case cl_validator c of
        Some v \<Rightarrow> map_err NotAccepted (check_image_signature (ie_sig E) v image_url (iq_digest q) (iq_auth q))
      | None \<Rightarrow> Inr ())"

definition layer_job :: "image_client \<Rightarrow> (oci_descriptor \<times> string) list \<Rightarrow> string option \<Rightarrow> pull_job" where
  "layer_job c layers decrypt_config =
     \<lparr>pj_descs = map fst layers, pj_diff_ids = map snd layers, pj_decrypt_config = decrypt_config,
      pj_layer_db = ms_layer_db (cl_meta c),
      pj_max = ic_max_concurrent_layer_downloads_per_image (cl_config c)\<rparr>"

definition pull_layers ::
  "('p, 'k, 's, 'l, 'v, 'r, 'c, 'm, 'g, 'h) image_env \<Rightarrow> (oci_descriptor \<times> string) list \<Rightarrow> string option \<Rightarrow>
     image_client \<Rightarrow> ((client_error, layer_meta list) result \<times> image_client) option" where
  "pull_layers E layers decrypt_config c =
     map_option (\<lambda>(r, w). (map_err LayersFailed r, c\<lparr>cl_store := pw_store w, cl_ops := pw_ops w\<rparr>))
       (async_pull_layers (ie_pull E) (layer_job c layers decrypt_config) (ie_schedule E)
          (pull_init \<lparr>pw_store = cl_store c, pw_ops = cl_ops c\<rparr>))"

definition extend_layer_db :: "layer_meta list \<Rightarrow> image_client \<Rightarrow> image_client" where
  "extend_layer_db metas c =
     c\<lparr>cl_meta := (cl_meta c)\<lparr>ms_layer_db := ms_layer_db (cl_meta c) ++
        map_of (rev (map (\<lambda>l. (lm_compressed_digest l, l)) metas))\<rparr>\<rparr>"

definition insert_image :: "image_meta \<Rightarrow> image_client \<Rightarrow> image_client" where
  "insert_image image_data c =
     c\<lparr>cl_meta := (cl_meta c)\<lparr>ms_image_db := (ms_image_db (cl_meta c))(imt_id image_data \<mapsto> image_data)\<rparr>\<rparr>"

definition store_image ::
  "('p, 'k, 's, 'l, 'v, 'r, 'c, 'm, 'g, 'h) image_env \<Rightarrow> string \<Rightarrow> image_meta \<Rightarrow> nat \<Rightarrow> layer_meta list \<Rightarrow> string \<Rightarrow>
     (image_client, client_error, string) stateful" where
  "store_image E data_dir image_data0 wanted metas bundle_dir c0 =
     (let image_data = image_data0\<lparr>imt_layers := metas\<rparr>;
          c = extend_layer_db metas c0
      in if wanted \<noteq> length metas then (Inl (LayersMissing (wanted - length metas)), c)
         else
           st_then (on_host (create_bundle E data_dir image_data bundle_dir)) (\<lambda>image_id c.
           st_then (on_host (meta_store_write_to_file E (cl_meta (insert_image image_data c))
               (from_utf8_lossy (path_join (ic_work_dir (cl_config c)) METAFILE)))) (\<lambda>_.
           st_ok image_id) (insert_image image_data c)) c)"

definition pull_new_image ::
  "('p, 'k, 's, 'l, 'v, 'r, 'c, 'm, 'g, 'h) image_env \<Rightarrow> string \<Rightarrow> image_request \<Rightarrow> string \<Rightarrow> string option \<Rightarrow>
     image_client \<Rightarrow> ((client_error, string) result \<times> image_client) option" where
  "pull_new_image E image_url q bundle_dir decrypt_config c =
     (case create_image_meta E (mf_config_digest (iq_manifest q)) image_url (iq_manifest q) (iq_digest q) (iq_config q) of
        Inl e \<Rightarrow> Some (Inl e, c)
      | Inr (image_data, layers) \<Rightarrow>
          (case pull_layers E layers decrypt_config c of
             None \<Rightarrow> None
           | Some (Inl e, c') \<Rightarrow> Some (Inl e, c')
           | Some (Inr metas, c') \<Rightarrow>
               Some (store_image E (iq_data_dir q) image_data (length layers) metas bundle_dir c')))"

text \<open>\<open>None\<close>: the pull does not end. An image that is stored already is only mounted.\<close>

definition pull_image ::
  "('p, 'k, 's, 'l, 'v, 'r, 'c, 'm, 'g, 'h) image_env \<Rightarrow> string \<Rightarrow> string \<Rightarrow> string option \<Rightarrow> string option \<Rightarrow>
     image_client \<Rightarrow> ((client_error, string) result \<times> image_client) option" where
  "pull_image E image_url bundle_dir auth_info decrypt_config c =
     (case image_request_for E c image_url auth_info of
        Inl e \<Rightarrow> Some (Inl e, c)
      | Inr q \<Rightarrow>
          (case ms_image_db (cl_meta c) (mf_config_digest (iq_manifest q)) of
             Some image_data \<Rightarrow> Some (on_host (create_bundle E (iq_data_dir q) image_data bundle_dir) c)
           | None \<Rightarrow>
               (case check_policy E c image_url q of
                  Inl e \<Rightarrow> Some (Inl e, c)
                | Inr _ \<Rightarrow> pull_new_image E image_url q bundle_dir decrypt_config c)))"

definition pull_and_build_image ::
  "('p, 'k, 's, 'l, 'v, 'r, 'c, 'm, 'g, 'h) image_env \<Rightarrow> string \<Rightarrow> string \<Rightarrow> string \<Rightarrow> string option \<Rightarrow> string option \<Rightarrow>
     image_client \<Rightarrow> ((client_error, image_info) result \<times> image_client) option" where
  "pull_and_build_image E image_url bundle_dir output_image auth_info decrypt_config c =
     (case pull_image E image_url bundle_dir auth_info decrypt_config c of
        None \<Rightarrow> None
      | Some (Inl e, c') \<Rightarrow> Some (Inl e, c')
      | Some (Inr _, c') \<Rightarrow>
          (let rootfs_dir = path_join bundle_dir BUNDLE_ROOTFS
           in if \<not> is_dir (cl_host c') rootfs_dir then Some (Inl (NoBundleRootfs rootfs_dir), c')
              else Some (on_host (st_map_err HostFailed (build_rootfs_image (ie_host E)
                     \<lparr>bo_rootfs_dir = rootfs_dir, bo_output_image = output_image, bo_format = Squashfs,
                      bo_image_size_mb = 64, bo_squashfs_compressor = ''gzip'', bo_hash_image = True\<rparr>)) c')))"

section \<open>Making a client\<close>

definition init_snapshots :: "string \<Rightarrow> snapshot_type \<rightharpoonup> string" where
  "init_snapshots work_dir = [Overlay \<mapsto> path_join work_dir (snapshot_str Overlay)]"

definition image_client_new ::
  "('p, 'k, 's, 'l, 'v, 'r, 'c, 'm, 'g, 'h) image_env \<Rightarrow> string \<Rightarrow> host \<Rightarrow> image_client" where
  "image_client_new E work_dir h =
     (let config = (case image_cfg_try_from (ie_cfg_json E)
              (case host_read (ie_host E) (path_join work_dir CONFIGURATION_FILE_NAME) h of
                 Inl NotFoundError \<Rightarrow> Inl ''not found'' | Inl (IoFailure e) \<Rightarrow> Inl e | Inr d \<Rightarrow> Inr d) of
            Inr c \<Rightarrow> c | Inl _ \<Rightarrow> image_cfg_new True False work_dir);
          meta_store = (case meta_store_try_from E (path_join work_dir METAFILE) h of
            Inr ms \<Rightarrow> ms | Inl _ \<Rightarrow> meta_store_default);
          store = (case layer_store_new work_dir (ie_exists_dir E h) (ie_read_dir E h) of
            Inr st \<Rightarrow> st | Inl _ \<Rightarrow> \<lparr>ls_data_dir = [], ls_index = 0\<rparr>)
      in \<lparr>cl_auth = None, cl_validator = None, cl_meta = meta_store, cl_snapshots = init_snapshots (ic_work_dir config),
          cl_config = config, cl_store = store, cl_host = h, cl_ops = []\<rparr>)"

definition optional_resource ::
  "('p, 'k, 's, 'l, 'v, 'r, 'c, 'm, 'g, 'h) image_env \<Rightarrow> resource_provider \<Rightarrow> string option \<Rightarrow>
     (host, client_error, bytes option) stateful" where
  "optional_resource E p uri =
     (case uri of
        None \<Rightarrow> st_ok None
      | Some u \<Rightarrow>
          st_then (st_map_err ResourceFailed (provider_get_resource (ie_resource E) p u)) (\<lambda>b. st_ok (Some b)))"

definition builder_build ::
  "('p, 'k, 's, 'l, 'v, 'r, 'c, 'm, 'g, 'h) image_env \<Rightarrow> image_cfg \<Rightarrow> (host, client_error, image_client) stateful" where
  "builder_build E config =
     st_then (st_map_err ResourceFailed (provider_new (ie_resource E) (ic_work_dir config))) (\<lambda>provider.
     st_then (optional_resource E provider (ic_authenticated_registry_credentials_uri config)) (\<lambda>auth_bytes.
     st_then (case auth_bytes of
         None \<Rightarrow> st_ok None
       | Some b \<Rightarrow> st_then (lift_result (map_err AuthJson (ie_auth_json E b))) (\<lambda>a. st_ok (Some a))) (\<lambda>auth.
     st_then (optional_resource E provider (ic_sigstore_config_uri config)) (\<lambda>sigstore_config.
     st_then (optional_resource E provider (ic_image_security_policy_uri config)) (\<lambda>policy_bytes.
     st_then (case policy_bytes of
         None \<Rightarrow> st_ok None
       | Some b \<Rightarrow>
           st_then (lift_result (map_err ValidatorFailed (validator_new (ie_sig E) b sigstore_config (ic_work_dir config)
             (ic_skip_proxy_ips config) (ic_image_pull_proxy config) (ic_extra_root_certificates config)))) (\<lambda>v.
           st_ok (Some v))) (\<lambda>validator h.
     st_then (lift_result (map_err LayerStoreFailed
         (layer_store_new (ic_work_dir config) (ie_exists_dir E h) (ie_read_dir E h)))) (\<lambda>store.
     st_ok \<lparr>cl_auth = auth, cl_validator = validator,
       cl_meta = (case meta_store_try_from E (path_join (ic_work_dir config) METAFILE) h of
          Inr ms \<Rightarrow> ms | Inl _ \<Rightarrow> meta_store_default),
       cl_snapshots = init_snapshots (ic_work_dir config), cl_config = config, cl_store = store, cl_host = h, cl_ops = []\<rparr>) h))))))"

section \<open>What a pull changes\<close>

lemma on_host_changes: "on_host m c = (r, c') \<Longrightarrow> \<exists>h. c' = c\<lparr>cl_host := h\<rparr>"
  by (auto simp: on_host_def split: prod.splits)

lemma client_same_host [simp]: "c\<lparr>cl_host := cl_host c\<rparr> = (c :: image_client)"
  by simp

lemma store_image_cases:
  assumes "store_image E data_dir img wanted metas bundle_dir c0 = (r, c')"
  shows "(\<exists>h. c' = (extend_layer_db metas c0)\<lparr>cl_host := h\<rparr>) \<or>
    (\<exists>h. c' = (insert_image (img\<lparr>imt_layers := metas\<rparr>) (extend_layer_db metas c0))\<lparr>cl_host := h\<rparr>)"
proof (cases "wanted = length metas")
  case True
  let ?c = "extend_layer_db metas c0" and ?img = "img\<lparr>imt_layers := metas\<rparr>"
  obtain b c1 where b: "on_host (create_bundle E data_dir ?img bundle_dir) ?c = (b, c1)" by fastforce
  obtain h1 where c1: "c1 = ?c\<lparr>cl_host := h1\<rparr>" using on_host_changes [OF b] by blast
  have swap: "insert_image ?img (?c\<lparr>cl_host := h\<rparr>) = (insert_image ?img ?c)\<lparr>cl_host := h\<rparr>" for h
    by (simp add: insert_image_def)
  show ?thesis
  proof (cases b)
    case (Inl e)
    then have "c' = c1" using assms True b by (simp add: store_image_def Let_def)
    then show ?thesis using c1 by blast
  next
    case (Inr image_id)
    let ?w = "meta_store_write_to_file E (cl_meta (insert_image ?img c1))
        (from_utf8_lossy (path_join (ic_work_dir (cl_config c1)) METAFILE))"
    obtain w c2 where w: "on_host ?w (insert_image ?img c1) = (w, c2)" by fastforce
    then have "c' = c2" using assms True b Inr by (cases w) (simp_all add: store_image_def Let_def)
    then show ?thesis using on_host_changes [OF w] by (auto simp: c1 swap)
  qed
next
  case False
  then have "c' = extend_layer_db metas c0" using assms by (simp add: store_image_def Let_def)
  then show ?thesis by (metis client_same_host)
qed

lemma pull_image_cases:
  assumes "pull_image E url bundle_dir auth_info decrypt_config c = Some (r, c')"
  obtains h where "c' = c\<lparr>cl_host := h\<rparr>"
  | q img layers pr c1 where "image_request_for E c url auth_info = Inr q" "check_policy E c url q = Inr ()"
      "create_image_meta E (mf_config_digest (iq_manifest q)) url (iq_manifest q) (iq_digest q) (iq_config q) = Inr (img, layers)"
      "pull_layers E layers decrypt_config c = Some (pr, c1)"
      "case pr of Inl e \<Rightarrow> c' = c1 | Inr metas \<Rightarrow> store_image E (iq_data_dir q) img (length layers) metas bundle_dir c1 = (r, c')"
proof -
  consider "c' = c"
    | q img where "image_request_for E c url auth_info = Inr q"
        "on_host (create_bundle E (iq_data_dir q) img bundle_dir) c = (r, c')"
    | q where "image_request_for E c url auth_info = Inr q" "check_policy E c url q = Inr ()"
        "pull_new_image E url q bundle_dir decrypt_config c = Some (r, c')"
    using assms by (auto simp: pull_image_def split: sum.splits option.splits)
  then show thesis
  proof cases
    case 1
    then show thesis using that(1) [of "cl_host c"] by simp
  next
    case 2
    then show thesis using that(1) on_host_changes by metis
  next
    case 3
    show thesis
    proof (cases "create_image_meta E (mf_config_digest (iq_manifest q)) url (iq_manifest q) (iq_digest q) (iq_config q)")
      case (Inl e)
      then have "c' = c" using 3(3) by (simp add: pull_new_image_def)
      then show thesis using that(1) [of "cl_host c"] by simp
    next
      case (Inr p)
      then obtain img layers where p: "create_image_meta E (mf_config_digest (iq_manifest q)) url (iq_manifest q) (iq_digest q) (iq_config q) = Inr (img, layers)"
        by (cases p) simp
      then obtain pr c1 where l: "pull_layers E layers decrypt_config c = Some (pr, c1)"
        using 3(3) by (auto simp: pull_new_image_def split: option.splits)
      show thesis
        by (rule that(2) [OF 3(1,2) p l]) (use 3(3) p l in \<open>auto simp: pull_new_image_def split: sum.splits\<close>)
    qed
  qed
qed

section \<open>Everything that is stored was verified\<close>

text \<open>\<open>Es\<close> are the environments in which the pulls of the client have run.\<close>

definition layer_trusted :: "('p, 'k, 's, 'l, 'v, 'r, 'c, 'm, 'g, 'h) image_env set \<Rightarrow> layer_meta \<Rightarrow> bool" where
  "layer_trusted Es m \<longleftrightarrow> (\<exists>E\<in>Es. \<exists>K layer diff_id destination. layer_verified (ie_pull E) K layer diff_id destination m)"

definition image_accepted ::
  "('p, 'k, 's, 'l, 'v, 'r, 'c, 'm, 'g, 'h) image_env set \<Rightarrow> validator option \<Rightarrow> string \<Rightarrow> image_meta \<Rightarrow> bool" where
  "image_accepted Es V image_id m \<longleftrightarrow>
     imt_id m = image_id \<and>
     (\<exists>E\<in>Es. \<exists>reference auth manifest config.
        se_parse_ref (ie_sig E) (imt_reference m) = Inr reference \<and>
        ie_manifest E reference auth = Inr (manifest, imt_digest m, config) \<and> mf_config_digest manifest = image_id \<and>
        ie_config_json E config = Inr (imt_config m) \<and>
        (\<forall>v. V = Some v \<longrightarrow> check_image_signature (ie_sig E) v (imt_reference m) (imt_digest m) auth = Inr ()))"

definition client_trusted ::
  "('p, 'k, 's, 'l, 'v, 'r, 'c, 'm, 'g, 'h) image_env set \<Rightarrow> validator option \<Rightarrow> image_client \<Rightarrow> bool" where
  "client_trusted Es V c \<longleftrightarrow> cl_validator c = V \<and>
     (\<forall>d m. ms_layer_db (cl_meta c) d = Some m \<longrightarrow> layer_trusted Es m) \<and>
     (\<forall>i m. ms_image_db (cl_meta c) i = Some m \<longrightarrow>
        image_accepted Es V i m \<and> (\<forall>l\<in>set (imt_layers m). layer_trusted Es l))"

inductive client_run ::
  "('p, 'k, 's, 'l, 'v, 'r, 'c, 'm, 'g, 'h) image_env set \<Rightarrow> validator option \<Rightarrow> image_client \<Rightarrow> bool"
  for Es V where
  fresh: "cl_validator c = V \<Longrightarrow> cl_meta c = meta_store_default \<Longrightarrow> client_run Es V c"
| pull: "client_run Es V c \<Longrightarrow> E \<in> Es \<Longrightarrow>
    pull_image E url bundle_dir auth_info decrypt_config c = Some (r, c') \<Longrightarrow> client_run Es V c'"
| elsewhere: "client_run Es V c \<Longrightarrow> client_run Es V (c\<lparr>cl_host := h\<rparr>)"

lemma client_trusted_host [simp]: "client_trusted Es V (c\<lparr>cl_host := h\<rparr>) = client_trusted Es V c"
  by (simp add: client_trusted_def)

lemma pulled_trusted:
  assumes "hash_laws (le_hashes (ie_pull E))" and "E \<in> Es" and "client_trusted Es V c"
    and "pull_layers E layers decrypt_config c = Some (Inr metas, c1)" and "m \<in> set metas"
  shows "layer_trusted Es m"
proof -
  let ?J = "layer_job c layers decrypt_config"
  obtain w where "async_pull_layers (ie_pull E) ?J (ie_schedule E)
      (pull_init \<lparr>pw_store = cl_store c, pw_ops = cl_ops c\<rparr>) = Some (Inr metas, w)"
    using assms(4) by (auto simp: pull_layers_def result_iff)
  note ok = pulled_layers_ok [OF assms(1) this]
  obtain i where "i < length metas" "m = metas ! i" using assms(5) by (metis in_set_conv_nth)
  then have "pj_layer_db ?J (od_digest (pj_descs ?J ! i)) = Some m \<or>
      (\<exists>a destination. layer_verified (ie_pull E) (at_kernel (le_attempt (ie_pull E) i a)) (pj_descs ?J ! i)
        (pj_diff_ids ?J ! i) destination m)" using ok by auto
  then show ?thesis
  proof
    assume "pj_layer_db ?J (od_digest (pj_descs ?J ! i)) = Some m"
    then show ?thesis using assms(3) by (simp add: layer_job_def client_trusted_def)
  next
    assume "\<exists>a destination. layer_verified (ie_pull E) (at_kernel (le_attempt (ie_pull E) i a)) (pj_descs ?J ! i)
        (pj_diff_ids ?J ! i) destination m"
    then show ?thesis using assms(2) unfolding layer_trusted_def by blast
  qed
qed

lemma request_checked:
  assumes "image_request_for E c url auth_info = Inr q" "check_policy E c url q = Inr ()" "E \<in> Es"
    and "create_image_meta E (mf_config_digest (iq_manifest q)) url (iq_manifest q) (iq_digest q) (iq_config q) = Inr (img, layers)"
  shows "image_accepted Es (cl_validator c) (mf_config_digest (iq_manifest q)) (img\<lparr>imt_layers := metas\<rparr>)"
    "imt_id img = mf_config_digest (iq_manifest q)"
proof -
  obtain reference where q: "se_parse_ref (ie_sig E) url = Inr reference"
    "ie_manifest E reference (iq_auth q) = Inr (iq_manifest q, iq_digest q, iq_config q)"
    using assms(1) by (auto simp: image_request_for_def result_iff split: prod.split_asm)
  have img: "imt_id img = mf_config_digest (iq_manifest q)" "imt_reference img = url" "imt_digest img = iq_digest q"
    "ie_config_json E (iq_config q) = Inr (imt_config img)"
    using assms(4) by (auto simp: create_image_meta_def result_iff split: if_splits)
  have "check_image_signature (ie_sig E) v url (iq_digest q) (iq_auth q) = Inr ()" if "cl_validator c = Some v" for v
    using assms(2) that by (simp add: check_policy_def result_iff)
  then show "image_accepted Es (cl_validator c) (mf_config_digest (iq_manifest q)) (img\<lparr>imt_layers := metas\<rparr>)"
    using q img assms(3) unfolding image_accepted_def by (auto intro!: bexI [of _ E])
  show "imt_id img = mf_config_digest (iq_manifest q)" by (rule img)
qed

lemma extended_trusted:
  assumes "client_trusted Es V c" "\<forall>m\<in>set metas. layer_trusted Es m"
  shows "client_trusted Es V (extend_layer_db metas c)"
  using assms
  by (auto simp: client_trusted_def extend_layer_db_def map_add_Some_iff dest!: map_of_SomeD)

lemma inserted_trusted:
  assumes "client_trusted Es V c" "image_accepted Es V (imt_id img) img" "\<forall>m\<in>set (imt_layers img). layer_trusted Es m"
  shows "client_trusted Es V (insert_image img c)"
  using assms by (auto simp: client_trusted_def insert_image_def)

lemma pull_keeps_trust:
  assumes "client_trusted Es V c" "E \<in> Es" "hash_laws (le_hashes (ie_pull E))"
    and "pull_image E url bundle_dir auth_info decrypt_config c = Some (r, c')"
  shows "client_trusted Es V c'"
  using assms(4)
proof (cases rule: pull_image_cases)
  case (2 q img layers pr c1)
  have V: "V = cl_validator c" using assms(1) by (simp add: client_trusted_def)
  have c1: "client_trusted Es V c1"
    using 2(4) assms(1) by (auto simp: pull_layers_def client_trusted_def)
  show ?thesis
  proof (cases pr)
    case (Inr metas)
    have metas: "\<forall>m\<in>set metas. layer_trusted Es m"
      using pulled_trusted [OF assms(3,2,1)] 2(4) Inr by blast
    note ext = extended_trusted [OF c1 metas]
    have "image_accepted Es V (imt_id (img\<lparr>imt_layers := metas\<rparr>)) (img\<lparr>imt_layers := metas\<rparr>)"
      using request_checked(1) [OF 2(1,2) assms(2) 2(3), of metas] request_checked(2) [OF 2(1,2) assms(2) 2(3)] V by simp
    then have "client_trusted Es V (insert_image (img\<lparr>imt_layers := metas\<rparr>) (extend_layer_db metas c1))"
      by (intro inserted_trusted [OF ext]) (simp_all add: metas)
    then show ?thesis using ext store_image_cases 2(5) Inr by fastforce
  qed (use 2(5) c1 in simp)
qed (use assms(1) in simp)

lemma run_trusted:
  assumes "\<And>E. E \<in> Es \<Longrightarrow> hash_laws (le_hashes (ie_pull E))"
  shows "client_run Es V c \<Longrightarrow> client_trusted Es V c"
proof (induction rule: client_run.induct)
  case (fresh c)
  then show ?case by (simp add: client_trusted_def meta_store_default_def)
next
  case (pull c E url bundle_dir auth_info decrypt_config r c')
  then show ?case using pull_keeps_trust assms by blast
qed simp

text \<open>
  After any sequence of pulls, successful or not, every image in the store was accepted under its
  own reference by the policy the client was built with, for the digest of the manifest whose
  configuration is its identity, and every layer of it was unpacked from a stream with the digest it had
  to have.
\<close>

lemma stored_images_verified:
  assumes "\<And>E. E \<in> Es \<Longrightarrow> hash_laws (le_hashes (ie_pull E))" and "client_run Es V c"
    and "ms_image_db (cl_meta c) i = Some m"
  shows "image_accepted Es V i m \<and> list_all (layer_trusted Es) (imt_layers m)"
  using run_trusted [OF assms(1,2)] assms(3) by (auto simp: client_trusted_def list_all_iff)

section \<open>What a successful pull leaves\<close>

definition bundle_ready ::
  "('p, 'k, 's, 'l, 'v, 'r, 'c, 'm, 'g, 'h) image_env \<Rightarrow> string \<Rightarrow> image_meta \<Rightarrow> string \<Rightarrow> host \<Rightarrow> bool" where
  "bundle_ready E data_dir m bundle_dir h \<longleftrightarrow>
     im_os (imt_config m) = ''linux'' \<and>
     (\<exists>t. h_files h (path_join bundle_dir ''config.json'') =
        Some \<lparr>hf_data = be_spec_json (ie_bundle E) (runtime_spec_for (ie_bundle E) (imt_config m)), hf_mtime = t\<rparr>) \<and>
     (\<exists>work_dir h1 h2. ie_mount E ''overlay'' (path_join bundle_dir ''rootfs'') ''overlay''
        (overlay_options (map lm_store_path (rev (imt_layers m))) (path_join data_dir work_dir)) h1 = (Inr (), h2))"

lemma mount_call_ok: "mount_call E mount_path options h = (Inr x, h') \<Longrightarrow> ie_mount E ''overlay'' mount_path ''overlay'' options h = (Inr (), h')"
  by (auto simp: mount_call_def split: prod.split_asm sum.split_asm)

lemma create_bundle_ok:
  assumes "create_bundle E data_dir m bundle_dir h = (Inr i, h')"
  shows "i = imt_id m" "bundle_ready E data_dir m bundle_dir h'"
proof -
  let ?root = "path_join bundle_dir ''rootfs''" and ?config = "path_join bundle_dir ''config.json''"
  obtain p h1 s h2 where mount: "overlay_mount E data_dir (map lm_store_path (rev (imt_layers m))) ?root h = (Inr p, h1)"
    and linux: "im_os (imt_config m) = ''linux''" and i: "i = imt_id m"
    and config: "create_runtime_config (ie_bundle E) (ie_host E) (imt_config m) bundle_dir h1 = (Inr s, h')"
    using assms by (auto simp: create_bundle_def result_iff BUNDLE_ROOTFS_def split: if_splits)
  have "\<exists>t. h_files h' ?config = Some \<lparr>hf_data = be_spec_json (ie_bundle E) (runtime_spec_for (ie_bundle E) (imt_config m)), hf_mtime = t\<rparr>"
    using config
    by (auto simp: create_runtime_config_def BUNDLE_CONFIG_def Let_def result_iff host_write_def split: if_splits option.splits)
  moreover have "\<exists>work_dir h1 h2. ie_mount E ''overlay'' ?root ''overlay''
      (overlay_options (map lm_store_path (rev (imt_layers m))) (path_join data_dir work_dir)) h1 = (Inr (), h2)"
    using mount mount_call_ok by (fastforce simp: overlay_mount_def Let_def result_iff)
  ultimately show "i = imt_id m" "bundle_ready E data_dir m bundle_dir h'"
    using linux i by (simp_all add: bundle_ready_def)
qed

lemma bundle_ready_keep:
  "bundle_ready E data_dir m bundle_dir h \<Longrightarrow>
     h_files h' (path_join bundle_dir ''config.json'') = h_files h (path_join bundle_dir ''config.json'') \<Longrightarrow>
     bundle_ready E data_dir m bundle_dir h'"
  by (simp add: bundle_ready_def)

lemma meta_store_written:
  "meta_store_write_to_file E ms path h = (Inr (), h') \<Longrightarrow> p \<noteq> path \<Longrightarrow> h_files h' p = h_files h p"
  by (auto simp: meta_store_write_to_file_def result_iff host_write_def split: sum.split_asm option.split_asm)

lemma on_host_ok: "on_host m c = (Inr a, c') \<Longrightarrow> \<exists>h. m (cl_host c) = (Inr a, h) \<and> c' = c\<lparr>cl_host := h\<rparr>"
  by (auto simp: on_host_def split: prod.splits)

lemma store_image_ok:
  assumes "store_image E data_dir img wanted metas bundle_dir c0 = (Inr i, c')"
    and "path_join bundle_dir ''config.json'' \<noteq> from_utf8_lossy (path_join (ic_work_dir (cl_config c0)) METAFILE)"
  shows "i = imt_id img \<and> ms_image_db (cl_meta c') i = Some (img\<lparr>imt_layers := metas\<rparr>) \<and>
    bundle_ready E data_dir (img\<lparr>imt_layers := metas\<rparr>) bundle_dir (cl_host c')"
proof -
  let ?img = "img\<lparr>imt_layers := metas\<rparr>" and ?c = "extend_layer_db metas c0"
  let ?file = "\<lambda>c. from_utf8_lossy (path_join (ic_work_dir (cl_config c)) METAFILE)"
  obtain c1 w where b: "on_host (create_bundle E data_dir ?img bundle_dir) ?c = (Inr i, c1)"
    and w: "on_host (meta_store_write_to_file E (cl_meta (insert_image ?img c1)) (?file c1)) (insert_image ?img c1) = (Inr w, c')"
    using assms(1) by (auto simp: store_image_def Let_def result_iff split: if_splits)
  obtain h1 where h1: "create_bundle E data_dir ?img bundle_dir (cl_host c0) = (Inr i, h1)" "c1 = ?c\<lparr>cl_host := h1\<rparr>"
    using on_host_ok [OF b] by (auto simp: extend_layer_db_def)
  obtain h2 where h2: "meta_store_write_to_file E (cl_meta (insert_image ?img c1)) (?file c1) h1 = (Inr (), h2)"
      "c' = (insert_image ?img c1)\<lparr>cl_host := h2\<rparr>"
    using on_host_ok [OF w] h1(2) by (auto simp: insert_image_def)
  have "path_join bundle_dir ''config.json'' \<noteq> ?file c1" using assms(2) h1(2) by (simp add: extend_layer_db_def)
  then have "bundle_ready E data_dir ?img bundle_dir h2"
    using bundle_ready_keep [OF create_bundle_ok(2) [OF h1(1)]] meta_store_written [OF h2(1)] by metis
  then show ?thesis using create_bundle_ok(1) [OF h1(1)] h2(2) by (simp add: insert_image_def)
qed

lemma pull_new_image_ok:
  assumes "pull_new_image E url q bundle_dir decrypt_config c = Some (Inr i, c')"
  shows "\<exists>img layers metas c1.
    create_image_meta E (mf_config_digest (iq_manifest q)) url (iq_manifest q) (iq_digest q) (iq_config q) = Inr (img, layers) \<and>
    pull_layers E layers decrypt_config c = Some (Inr metas, c1) \<and>
    store_image E (iq_data_dir q) img (length layers) metas bundle_dir c1 = (Inr i, c')"
proof (cases "create_image_meta E (mf_config_digest (iq_manifest q)) url (iq_manifest q) (iq_digest q) (iq_config q)")
  case (Inr p)
  obtain img layers where p: "p = (img, layers)" by (cases p)
  then have pulled: "(case pull_layers E layers decrypt_config c of None \<Rightarrow> None | Some (Inl e, c') \<Rightarrow> Some (Inl e, c')
      | Some (Inr metas, c') \<Rightarrow> Some (store_image E (iq_data_dir q) img (length layers) metas bundle_dir c')) = Some (Inr i, c')"
    using assms Inr by (simp add: pull_new_image_def)
  then obtain r c1 where r: "pull_layers E layers decrypt_config c = Some (r, c1)"
    by (cases "pull_layers E layers decrypt_config c") auto
  then show ?thesis using pulled Inr p by (cases r) auto
qed (use assms in \<open>simp add: pull_new_image_def\<close>)


section \<open>Behaviour that surprises\<close>

text \<open>
  The policy is a policy of references, but an image whose configuration is in the store is mounted
  without a look at it, under whatever reference it is asked for.
\<close>

lemma stored_image_skips_policy:
  "image_request_for E c url auth_info = Inr q \<Longrightarrow> ms_image_db (cl_meta c) (mf_config_digest (iq_manifest q)) = Some m \<Longrightarrow>
     pull_image E url bundle_dir auth_info decrypt_config c = Some (on_host (create_bundle E (iq_data_dir q) m bundle_dir) c)"
  by (simp add: pull_image_def)

lemma refused_image_changes_nothing:
  "image_request_for E c url auth_info = Inr q \<Longrightarrow> ms_image_db (cl_meta c) (mf_config_digest (iq_manifest q)) = None \<Longrightarrow>
     check_policy E c url q = Inl e \<Longrightarrow> pull_image E url bundle_dir auth_info decrypt_config c = Some (Inl e, c)"
  by (simp add: pull_image_def)

text \<open>An image of the layers A, B, A is mounted as A, B: what B has changed of A stays changed.\<close>

lemma duplicate_layer_dropped:
  "od_digest a \<noteq> od_digest b \<Longrightarrow> unique_layers [] [(x, a), (y, b), (x, a)] = [(a, x), (b, y)]"
  by auto

lemma unique_layers_distinct: "distinct (map (od_digest \<circ> fst) (unique_layers ds ls)) \<and> set ds \<inter> set (map (od_digest \<circ> fst) (unique_layers ds ls)) = {}"
  by (induction ds ls rule: unique_layers.induct) auto

text \<open>The layers are mounted before the configuration is written, so a second bundle in a directory leaves its mount.\<close>

lemma failed_bundle_stays_mounted:
  assumes "overlay_mount E data_dir (map lm_store_path (rev (imt_layers m))) (path_join bundle_dir BUNDLE_ROOTFS) h = (Inr p, h1)"
    and "is_file h1 (path_join bundle_dir BUNDLE_CONFIG)" and "im_os (imt_config m) = ''linux''"
  shows "create_bundle E data_dir m bundle_dir h =
    (Inl (RuntimeConfigFailed (ConfigExists (path_join bundle_dir BUNDLE_CONFIG))), h1)"
  using assms by (simp add: create_bundle_def st_then_def create_runtime_config_def st_map_err_def)

section \<open>An example\<close>

definition demo_image_configuration :: image_configuration where
  "demo_image_configuration = \<lparr>im_config = None, im_os = ''linux'', im_os_version = None, im_os_features = None,
     im_architecture = ''amd64'', im_variant = None, im_author = None, im_created = None,
     im_diff_ids = [''sha256:x'', ''sha256:y'']\<rparr>"

definition demo_runtime_spec :: runtime_spec where
  "demo_runtime_spec = \<lparr>rt_hostname = None, rt_process = None, rt_mounts = None, rt_annotations = None, rt_rest = []\<rparr>"

definition demo_bundle_env :: bundle_env where
  "demo_bundle_env = \<lparr>be_default_spec = demo_runtime_spec,
     be_default_process = \<lparr>rp_cwd = ''/'', rp_env = None, rp_args = None\<rparr>,
     be_default_mount = \<lparr>rm_destination = [], rm_type = None, rm_source = None, rm_options = None\<rparr>,
     be_json_strings = \<lambda>s. None, be_spec_json = \<lambda>s. ''spec''\<rparr>"

definition demo_image_env :: "(bytes, bytes, bytes, unit, unit, string, unit, bytes, unit, bytes) image_env" where
  "demo_image_env = \<lparr>ie_sig = demo_sig_env, ie_pull = demo_pull_env, ie_schedule = [0, 0, 0, 1, 0],
     ie_bundle = demo_bundle_env, ie_resource = (demo_resource_env (\<lambda>u h. Inl ''gone''))\<lparr>rsv_host := demo_host_env\<lparr>hs_sha256 := \<lambda>b. ''7e5''\<rparr>\<rparr>,
     ie_auth_json = \<lambda>b. Inl ''none'', ie_auth_b64 = \<lambda>s. None, ie_resolve = ref_registry,
     ie_registry_client = \<lambda>c. Inr (),
     ie_manifest = \<lambda>r a. Inr (\<lparr>mf_config_digest = ''cfg'', mf_layers = pj_descs demo_job\<rparr>, demo_digest, ''conf''),
     ie_config_json = \<lambda>s. Inr demo_image_configuration, ie_cfg_json = \<lambda>b. Inl ''none'',
     ie_store_json = \<lambda>m. Inr ''{}'', ie_store_from_json = \<lambda>b. Inl ''none'',
     ie_mount = \<lambda>s t f opts h. (Inr (), h), ie_clock = \<lambda>h. (1, 2),
     ie_exists_dir = \<lambda>h d. False, ie_read_dir = \<lambda>h d. Inr []\<rparr>"

definition demo_accepting_validator :: validator where
  "demo_accepting_validator = demo_validator\<lparr>sv_policy := \<lparr>pol_default = [Accept], pol_transports = Map.empty\<rparr>,
     sv_sigstore_config := None\<rparr>"

definition demo_image_cfg :: image_cfg where
  "demo_image_cfg = (image_cfg_new True False ''/w'')\<lparr>ic_max_concurrent_layer_downloads_per_image := 2,
     ic_image_security_policy_uri := Some ''kbs:///a/b/c''\<rparr>"

definition demo_image_client :: image_client where
  "demo_image_client = \<lparr>cl_auth = None, cl_validator = Some demo_accepting_validator, cl_meta = meta_store_default,
     cl_snapshots = init_snapshots ''/w'', cl_config = demo_image_cfg,
     cl_store = \<lparr>ls_data_dir = ''/w/layers'', ls_index = 4\<rparr>, cl_host = demo_host, cl_ops = []\<rparr>"

definition demo_image_meta :: image_meta where
  "demo_image_meta = \<lparr>imt_id = ''cfg'', imt_digest = demo_digest, imt_reference = ''r.io:5000/a/b:1'',
     imt_config = demo_image_configuration, imt_signed = False,
     imt_layers = [demo_meta ''d0'' ''sha256:x'' ''/w/layers/5'', demo_meta ''d1'' ''sha256:y'' ''/w/layers/4'']\<rparr>"

lemma demo_accepted:
  "check_image_signature demo_sig_env demo_accepting_validator ''r.io:5000/a/b:1'' demo_digest Anonymous = Inr ()"
proof -
  let ?d = "\<lparr>dg_algorithm = ''sha256'', dg_value = replicate 64 (CHR ''a'')\<rparr>"
  have d: "digest_try_from demo_digest = Inr ?d" by code_simp
  have r: "se_parse_ref demo_sig_env ''r.io:5000/a/b:1'' = Inr (demo_ref ''1'')"
    by (simp add: demo_sig_env_def demo_parse_def)
  show ?thesis
    by (simp add: check_image_signature_def r set_manifest_digest_def d demo_accepting_validator_def
        requirements_for_image_def check_image_requirement_def)
qed

definition demo_request :: image_request where
  "demo_request = \<lparr>iq_auth = Anonymous, iq_manifest = \<lparr>mf_config_digest = ''cfg'', mf_layers = pj_descs demo_job\<rparr>,
     iq_digest = demo_digest, iq_config = ''conf'', iq_data_dir = ''/w/overlay''\<rparr>"

lemma demo_request_made: "image_request_for demo_image_env demo_image_client ''r.io:5000/a/b:1'' None = Inr demo_request"
  by (simp add: image_request_for_def demo_image_env_def demo_sig_env_def demo_parse_def choose_auth_def
      demo_image_client_def demo_image_cfg_def init_snapshots_def image_cfg_new_def image_cfg_default_def path_join_def starts_with_iff demo_request_def)

lemma demo_layers_pulled:
  "pull_layers demo_image_env (zip (pj_descs demo_job) (pj_diff_ids demo_job)) None demo_image_client =
     Some (Inr (imt_layers demo_image_meta), demo_image_client\<lparr>cl_store := \<lparr>ls_data_dir = ''/w/layers'', ls_index = 6\<rparr>,
       cl_ops := [CreateDirAll ''/w/layers/4'', OpenRead ''/w/layers/4'', SetXattr ''/w/layers/4'' ''user.overlay.origin'' [],
                  CreateDirAll ''/w/layers/5'', OpenRead ''/w/layers/5'', SetXattr ''/w/layers/5'' ''user.overlay.origin'' []]\<rparr>)"
proof -
  have "layer_job demo_image_client (zip (pj_descs demo_job) (pj_diff_ids demo_job)) None = demo_job"
    by (simp add: layer_job_def demo_job_def demo_image_client_def demo_image_cfg_def meta_store_default_def)
  moreover have "\<lparr>pw_store = cl_store demo_image_client, pw_ops = cl_ops demo_image_client\<rparr> = demo_pull_world"
    by (simp add: demo_image_client_def demo_image_cfg_def demo_pull_world_def)
  moreover have "ie_pull demo_image_env = demo_pull_env" "ie_schedule demo_image_env = [0, 0, 0, 1, 0]"
    by (simp_all add: demo_image_env_def)
  ultimately show ?thesis unfolding pull_layers_def by (simp only: demo_pull) (simp add: demo_image_meta_def)
qed

definition demo_pulled :: "(client_error, string) result \<times> image_client" where
  "demo_pulled = store_image demo_image_env ''/w/overlay'' (demo_image_meta\<lparr>imt_layers := []\<rparr>) 2 (imt_layers demo_image_meta) ''/b2''
     (snd (the (pull_layers demo_image_env (zip (pj_descs demo_job) (pj_diff_ids demo_job)) None demo_image_client)))"

lemma demo_pull_image: "pull_image demo_image_env ''r.io:5000/a/b:1'' ''/b2'' None None demo_image_client = Some demo_pulled"
proof -
  have meta: "create_image_meta demo_image_env ''cfg'' ''r.io:5000/a/b:1'' \<lparr>mf_config_digest = ''cfg'', mf_layers = pj_descs demo_job\<rparr>
      demo_digest ''conf'' = Inr (demo_image_meta\<lparr>imt_layers := []\<rparr>, zip (pj_descs demo_job) (pj_diff_ids demo_job))"
    by (simp add: create_image_meta_def demo_image_env_def demo_image_configuration_def demo_job_def demo_image_meta_def)
  have ok: "check_policy demo_image_env demo_image_client ''r.io:5000/a/b:1'' demo_request = Inr ()"
    using demo_accepted by (simp add: check_policy_def demo_image_client_def demo_image_cfg_def demo_request_def demo_image_env_def)
  have len: "length (zip (pj_descs demo_job) (pj_diff_ids demo_job)) = 2" by (simp add: demo_job_def)
  have f: "iq_manifest demo_request = \<lparr>mf_config_digest = ''cfg'', mf_layers = pj_descs demo_job\<rparr>"
    "iq_digest demo_request = demo_digest" "iq_config demo_request = ''conf''" "iq_data_dir demo_request = ''/w/overlay''"
    by (simp_all add: demo_request_def)
  have none: "ms_image_db (cl_meta demo_image_client) ''cfg'' = None"
    by (simp add: demo_image_client_def demo_image_cfg_def meta_store_default_def)
  have "pull_new_image demo_image_env ''r.io:5000/a/b:1'' demo_request ''/b2'' None demo_image_client = Some demo_pulled"
    unfolding pull_new_image_def f image_manifest.simps meta sum.case prod.case demo_layers_pulled option.case
      demo_pulled_def len option.sel snd_conv by (rule refl)
  then show ?thesis by (simp add: pull_image_def demo_request_made f none ok)
qed

lemma demo_image_host:
  "hs_refuse (ie_host demo_image_env) h c = None" "hs_sha256 (ie_host demo_image_env) b = ''7e5''"
  by (simp_all add: demo_image_env_def demo_resource_env_def demo_host_env_def)

lemma demo_bundle_made: "fst (create_bundle demo_image_env ''/w/overlay'' demo_image_meta ''/b2'' demo_host) = Inr ''cfg''"
proof -
  have mount: "mount_call demo_image_env p opts h = (Inr (), h)" for p opts h
    by (simp add: mount_call_def demo_image_env_def)
  have index: "mount_index demo_image_env ls p h = ''7e5''" for ls p h
    by (simp add: mount_index_def demo_image_host split: prod.split)
  have mkdir: "host_mkdir (ie_host demo_image_env) p h = (Inr (), h\<lparr>h_dirs := (h_dirs h)(p := True)\<rparr>)" for p h
    by (simp add: host_mkdir_def demo_image_host)
  have "overlay_mount demo_image_env ''/w/overlay'' ls ''/b2/rootfs'' demo_host =
      (Inr \<lparr>mp_type = ''overlay'', mp_mount_path = ''/b2/rootfs'', mp_work_dir = ''/w/overlay/7e5''\<rparr>,
       demo_host\<lparr>h_dirs := (h_dirs demo_host)(''/w/overlay'' := True, ''/w/overlay/7e5/upperdir'' := True,
         ''/w/overlay/7e5/workdir'' := True, ''/b2/rootfs'' := True)\<rparr>)" for ls
    by (simp add: overlay_mount_def st_then_def st_map_err_def mkdir_unless_exists_def mkdir mount index path_join_def
        starts_with_iff is_file_def is_dir_def demo_host_def)
  then show ?thesis
    by (simp add: create_bundle_def st_then_def BUNDLE_ROOTFS_def BUNDLE_CONFIG_def path_join_def starts_with_iff
        create_runtime_config_def Let_def is_file_def is_dir_def demo_host_def host_write_def demo_image_host st_map_err_def
        demo_image_meta_def demo_image_configuration_def)
qed

lemma demo_meta_written: "fst (meta_store_write_to_file demo_image_env ms path h) = Inr ()"
proof -
  have "ie_store_json demo_image_env ms = Inr ''{}''" by (simp add: demo_image_env_def)
  then show ?thesis by (simp add: meta_store_write_to_file_def st_map_err_def host_write_def demo_image_host)
qed

lemma store_image_succeeds:
  assumes "fst (create_bundle E data_dir (img\<lparr>imt_layers := metas\<rparr>) bundle_dir (cl_host c)) = Inr i"
    and "\<And>ms path h. fst (meta_store_write_to_file E ms path h) = Inr ()" and "wanted = length metas"
  shows "fst (store_image E data_dir img wanted metas bundle_dir c) = Inr i"
proof -
  have h: "cl_host (extend_layer_db metas c) = cl_host c" by (simp add: extend_layer_db_def)
  have w: "fst (on_host (meta_store_write_to_file E ms path) c') = Inr ()" for ms path c'
    using assms(2) [of ms path "cl_host c'"] by (cases "meta_store_write_to_file E ms path (cl_host c')") (simp add: on_host_def)
  obtain c1 where "on_host (create_bundle E data_dir (img\<lparr>imt_layers := metas\<rparr>) bundle_dir) (extend_layer_db metas c) = (Inr i, c1)"
    using assms(1) by (cases "create_bundle E data_dir (img\<lparr>imt_layers := metas\<rparr>) bundle_dir (cl_host c)") (simp add: on_host_def h)
  moreover obtain c2 where "on_host (meta_store_write_to_file E (cl_meta (insert_image (img\<lparr>imt_layers := metas\<rparr>) c1))
      (from_utf8_lossy (path_join (ic_work_dir (cl_config c1)) METAFILE))) (insert_image (img\<lparr>imt_layers := metas\<rparr>) c1) = (Inr (), c2)"
    using w by (metis prod.collapse)
  ultimately show ?thesis using assms(3) by (simp add: store_image_def Let_def)
qed

lemma demo_pulled_ok: "fst demo_pulled = Inr ''cfg''"
  unfolding demo_pulled_def
proof (rule store_image_succeeds)
  have "demo_image_meta\<lparr>imt_layers := imt_layers demo_image_meta\<rparr> = demo_image_meta" by simp
  moreover have "cl_host (snd (the (pull_layers demo_image_env (zip (pj_descs demo_job) (pj_diff_ids demo_job)) None demo_image_client))) = demo_host"
    by (simp only: demo_layers_pulled) (simp add: demo_image_client_def demo_image_cfg_def)
  ultimately show "fst (create_bundle demo_image_env ''/w/overlay'' (demo_image_meta\<lparr>imt_layers := [], imt_layers := imt_layers demo_image_meta\<rparr>)
      ''/b2'' (cl_host (snd (the (pull_layers demo_image_env (zip (pj_descs demo_job) (pj_diff_ids demo_job)) None demo_image_client))))) = Inr ''cfg''"
    using demo_bundle_made by simp
qed (simp_all add: demo_meta_written, simp add: demo_image_meta_def)

lemma demo_paths_apart:
  "path_join ''/b2'' ''config.json'' \<noteq> from_utf8_lossy (path_join (ic_work_dir (cl_config demo_image_client)) METAFILE)"
proof -
  have "ic_work_dir (cl_config demo_image_client) = ''/w''" by (simp add: demo_image_client_def demo_image_cfg_def image_cfg_new_def)
  moreover have "path_join ''/b2'' ''config.json'' \<noteq> from_utf8_lossy (path_join ''/w'' METAFILE)" by code_simp
  ultimately show ?thesis by simp
qed


lemma stored_images_verified_witness:
  "\<exists>m. ms_image_db (cl_meta (snd demo_pulled)) ''cfg'' = Some m \<and>
     image_accepted {demo_image_env} (Some demo_accepting_validator) ''cfg'' m"
proof -
  let ?Es = "{demo_image_env}" and ?V = "Some demo_accepting_validator"
  have laws: "hash_laws (le_hashes (ie_pull E))" if "E \<in> ?Es" for E
    using that demo_hash_laws by (simp add: demo_image_env_def demo_pull_env_def)
  have "client_run ?Es ?V demo_image_client" by (rule client_run.fresh) (simp_all add: demo_image_client_def demo_image_cfg_def)
  then have run: "client_run ?Es ?V (snd demo_pulled)"
    using client_run.pull [of ?Es ?V demo_image_client demo_image_env] demo_pull_image by (metis insertI1 prod.collapse)
  have "store_image demo_image_env ''/w/overlay'' (demo_image_meta\<lparr>imt_layers := []\<rparr>) 2 (imt_layers demo_image_meta) ''/b2''
      (snd (the (pull_layers demo_image_env (zip (pj_descs demo_job) (pj_diff_ids demo_job)) None demo_image_client))) =
      (Inr ''cfg'', snd demo_pulled)"
    using demo_pulled_ok by (simp add: prod_eq_iff demo_pulled_def)
  moreover have "path_join ''/b2'' ''config.json'' \<noteq> from_utf8_lossy (path_join (ic_work_dir (cl_config
      (snd (the (pull_layers demo_image_env (zip (pj_descs demo_job) (pj_diff_ids demo_job)) None demo_image_client))))) METAFILE)"
    using demo_paths_apart unfolding demo_layers_pulled by simp
  ultimately have "\<exists>m. ms_image_db (cl_meta (snd demo_pulled)) ''cfg'' = Some m"
    using store_image_ok by blast
  then show ?thesis using stored_images_verified [OF laws run] by blast
qed

section \<open>The builder\<close>

text \<open>
  A client that was built from a configuration with a policy checks every image; \<open>ImageClient::new\<close> makes
  one that checks none, whatever the configuration it loads says of a policy.
\<close>

lemma built_client_has_policy:
  assumes "builder_build E config h = (Inr c, h')" and "ic_image_security_policy_uri config = Some uri"
  shows "\<exists>v. cl_validator c = Some v"
  using assms by (auto simp: builder_build_def optional_resource_def result_iff)

lemma new_client_has_no_policy: "cl_validator (image_client_new E work_dir h) = None"
  by (simp add: image_client_new_def Let_def)

end
