(* ===== verification/Rootfs_Server.thy ===== *)
theory Rootfs_Server
  imports Shared_Rootfs "HOL-Library.Multiset"
begin

text \<open>
  \<open>hub/src/bin/vsock-ttrpc-server.rs\<close>, the service of the image virtual machine that prepares shared root
  file systems, and \<open>image-rs/src/vsock_ttrpc_client/mod.rs\<close>, its client in the guest: the request
  handler with its cache, the frames of the fast connection, and the slots for a connection and a reply
  that are made ahead of time. Protobuf, the image pull service of the data hub and the other requests
  that run beside this one are parameters.
\<close>

section \<open>Frames\<close>

datatype frame_error = UnexpectedEof | FrameTooLarge nat

definition FAST_MAX_MESSAGE_SIZE :: nat where "FAST_MAX_MESSAGE_SIZE = 1024 * 1024"

definition read_exact :: "nat \<Rightarrow> bytes \<Rightarrow> (frame_error, bytes \<times> bytes) result" where
  "read_exact n s = (if n \<le> length s then Inr (take n s, drop n s) else Inl UnexpectedEof)"

definition write_frame :: "bytes \<Rightarrow> (frame_error, bytes) result" where
  "write_frame payload =
     (if FAST_MAX_MESSAGE_SIZE < length payload then Inl (FrameTooLarge (length payload))
      else Inr (be_bytes 4 (length payload) @ payload))"

definition read_status :: "bytes \<Rightarrow> (frame_error, nat \<times> bytes) result" where
  "read_status s = and_then (read_exact 1 s) (\<lambda>(b, s). Inr (of_char (b ! 0), s))"

definition read_frame :: "bytes \<Rightarrow> (frame_error, bytes \<times> bytes) result" where
  "read_frame s =
     and_then (read_exact 4 s) (\<lambda>(len_buf, s).
       let len = be_value len_buf
       in if FAST_MAX_MESSAGE_SIZE < len then Inl (FrameTooLarge len) else read_exact len s)"

definition read_fast_frame :: "bytes \<Rightarrow> (frame_error, bytes \<times> bytes) result" where
  "read_fast_frame s =
     and_then (read_exact 4 s) (\<lambda>(len_buf, s).
       let len = be_value len_buf
       in if FAST_MAX_MESSAGE_SIZE < len then Inl (FrameTooLarge len) else read_exact len s)"

definition write_fast_status_and_frame :: "nat \<Rightarrow> bytes \<Rightarrow> (frame_error, bytes) result" where
  "write_fast_status_and_frame status payload =
     (if FAST_MAX_MESSAGE_SIZE < length payload then Inl (FrameTooLarge (length payload))
      else Inr ([char_of status] @ be_bytes 4 (length payload) @ payload))"

section \<open>The request handler\<close>

record rootfs_reply =
  rr_image_id :: string
  rr_fs_type :: string
  rr_image_size :: nat
  rr_block_size :: nat
  rr_rootfs_digest :: string
  rr_oci_config_json :: bytes
  rr_source_rd_addr :: nat
  rr_share_id :: nat
  rr_page_count :: nat

datatype server_status =
    WaitFailed string share_error
  | PrepareFailed string share_error
  | BundleDirFailed string share_error
  | ImagesDirFailed string share_error
  | PullFailed string string

text \<open>
  \<open>sv_others n\<close> is what the rest of the machine does while this request sleeps for the \<open>n\<close>-th time, and
  \<open>sv_elapsed n\<close> the milliseconds it has waited after that sleep. \<open>sv_pull\<close> is the image pull service of
  the data hub, which leaves the bundle in the directory it is told and returns the identity of the image.
\<close>

record server_env =
  sv_host :: host_env
  sv_others :: "nat \<Rightarrow> host \<Rightarrow> host"
  sv_elapsed :: "nat \<Rightarrow> nat"
  sv_pull :: "string \<Rightarrow> string \<Rightarrow> host \<Rightarrow> (string, string) result \<times> host"
  sv_now_millis :: "host \<Rightarrow> nat"
  sv_status_text :: "server_status \<Rightarrow> string"

definition reply_from_cache_entry :: "cache_entry \<Rightarrow> rootfs_reply" where
  "reply_from_cache_entry entry =
     \<lparr>rr_image_id = sre_image_id entry, rr_fs_type = sre_fs_type entry, rr_image_size = sre_image_size entry,
      rr_block_size = sre_block_size entry, rr_rootfs_digest = sre_rootfs_digest entry,
      rr_oci_config_json = sre_oci_config_json entry, rr_source_rd_addr = sre_source_rd_addr entry,
      rr_share_id = sre_share_id entry, rr_page_count = sre_page_count entry\<rparr>"

definition PENDING_CACHE_WAIT_MS :: nat where "PENDING_CACHE_WAIT_MS = 180 * 1000"
definition PENDING_CACHE_POLL_MS :: nat where "PENDING_CACHE_POLL_MS = 200"

partial_function (option) wait_for_pending ::
  "server_env \<Rightarrow> string \<Rightarrow> nat \<Rightarrow> host \<Rightarrow> ((server_status, cache_entry option) result \<times> host) option" where
  "wait_for_pending E image_ref n h =
     (let h' = sv_others E n h
      in (case read_cache_entry (sv_host E) image_ref h' of
            Inr (Some entry) \<Rightarrow> Some (Inr (Some entry), h')
          | Inl err \<Rightarrow> Some (Inl (WaitFailed image_ref err), h')
          | Inr None \<Rightarrow>
              (if \<not> cache_pending (sv_host E) image_ref h' then Some (Inr None, h')
               else if PENDING_CACHE_WAIT_MS \<le> sv_elapsed E n then Some (Inr None, h')
               else wait_for_pending E image_ref (Suc n) h')))"

text \<open>An entry that is not valid counts as none in the first look, and is an error in the later ones.\<close>

definition lookup_cached_shared_rootfs ::
  "server_env \<Rightarrow> string \<Rightarrow> host \<Rightarrow> ((server_status, cache_entry option) result \<times> host) option" where
  "lookup_cached_shared_rootfs E image_ref h =
     (case read_cache_entry (sv_host E) image_ref h of
        Inr (Some entry) \<Rightarrow> Some (Inr (Some entry), h)
      | _ \<Rightarrow> (if \<not> cache_pending (sv_host E) image_ref h then Some (Inr None, h)
              else wait_for_pending E image_ref 0 h))"

definition lookup_pulled_bundle :: "server_env \<Rightarrow> string \<Rightarrow> host \<Rightarrow> bundle_entry option" where
  "lookup_pulled_bundle E image_ref h =
     (case read_bundle_entry (sv_host E) image_ref h of Inr e \<Rightarrow> e | Inl _ \<Rightarrow> None)"

definition prepare_entry_from_bundle ::
  "server_env \<Rightarrow> string \<Rightarrow> string \<Rightarrow> string \<Rightarrow> (host, server_status, cache_entry) stateful" where
  "prepare_entry_from_bundle E image_ref image_id bundle_path =
     st_map_err (PrepareFailed image_ref) (prepare_cache_from_bundle (sv_host E) image_ref image_id bundle_path)"

definition clear_if :: "server_env \<Rightarrow> bool \<Rightarrow> string \<Rightarrow> host \<Rightarrow> host" where
  "clear_if E marked_pending image_ref h =
     (if marked_pending then clear_cache_pending (sv_host E) image_ref h else h)"

definition pull_bundle :: "server_env \<Rightarrow> string \<Rightarrow> string \<Rightarrow> (host, server_status, cache_entry) stateful" where
  "pull_bundle E image_ref bundle_path h =
     (case mark_cache_pending (sv_host E) image_ref h of
        (mark, h1) \<Rightarrow>
          (case sv_pull E image_ref (from_utf8_lossy bundle_path) h1 of
             (Inl err, h2) \<Rightarrow> (Inl (PullFailed image_ref err), clear_if E (is_ok mark) image_ref h2)
           | (Inr image_id, h2) \<Rightarrow>
               (let h3 = snd (write_bundle_entry (sv_host E)
                      \<lparr>sbe_image_ref = image_ref, sbe_image_id = image_id, sbe_bundle_path = bundle_path\<rparr> h2)
                in (case prepare_entry_from_bundle E image_ref image_id bundle_path h3 of
                      (r, h4) \<Rightarrow> (r, clear_if E (is_ok mark) image_ref h4)))))"

definition pull_and_prepare :: "server_env \<Rightarrow> string \<Rightarrow> (host, server_status, cache_entry) stateful" where
  "pull_and_prepare E image_ref h =
     (let V = sv_host E;
          bundle_path = path_join (shared_rootfs_bundles_dir V)
            (sanitize_path_component image_ref @ ''-'' @ nat_str (sv_now_millis E h))
      in st_then (st_map_err (BundleDirFailed bundle_path) (host_mkdir V bundle_path)) (\<lambda>_.
         st_then (st_map_err (ImagesDirFailed (shared_rootfs_images_dir V)) (host_mkdir V (shared_rootfs_images_dir V))) (\<lambda>_.
         pull_bundle E image_ref bundle_path)) h)"

definition prepare_missing :: "server_env \<Rightarrow> string \<Rightarrow> (host, server_status, cache_entry) stateful" where
  "prepare_missing E image_ref h =
     (case lookup_pulled_bundle E image_ref h of
        Some b \<Rightarrow> prepare_entry_from_bundle E image_ref (sbe_image_id b) (sbe_bundle_path b) h
      | None \<Rightarrow> pull_and_prepare E image_ref h)"

definition prepare_rootfs_response ::
  "server_env \<Rightarrow> string \<Rightarrow> host \<Rightarrow> ((server_status, rootfs_reply) result \<times> host) option" where
  "prepare_rootfs_response E image_ref h =
     (case lookup_cached_shared_rootfs E image_ref h of
        None \<Rightarrow> None
      | Some (Inl err, h') \<Rightarrow> Some (Inl err, h')
      | Some (Inr (Some entry), h') \<Rightarrow> Some (Inr (reply_from_cache_entry entry), h')
      | Some (Inr None, h') \<Rightarrow>
          Some (st_then (prepare_missing E image_ref) (\<lambda>entry. st_ok (reply_from_cache_entry entry)) h'))"

section \<open>The fast connection\<close>

record rootfs_codec =
  rc_encode_request :: "string \<Rightarrow> bytes"
  rc_decode_request :: "bytes \<Rightarrow> string option"
  rc_encode_reply :: "rootfs_reply \<Rightarrow> bytes"
  rc_decode_reply :: "bytes \<Rightarrow> rootfs_reply option"

datatype connection_error = RequestUnreadable frame_error | RequestUndecodable | ReplyUnwritable frame_error

text \<open>The server reads from the bytes it has received; the second part of the result is what it sends.\<close>

definition handle_fast_vsock_connection ::
  "server_env \<Rightarrow> rootfs_codec \<Rightarrow> bytes \<Rightarrow> host \<Rightarrow> ((connection_error, unit) result \<times> bytes \<times> host) option" where
  "handle_fast_vsock_connection E C received h =
     (case read_fast_frame received of
        Inl e \<Rightarrow> Some (Inl (RequestUnreadable e), [], h)
      | Inr (req_bytes, _) \<Rightarrow>
          (case rc_decode_request C req_bytes of
             None \<Rightarrow> Some (Inl RequestUndecodable, [], h)
           | Some image_ref \<Rightarrow>
               (case prepare_rootfs_response E image_ref h of
                  None \<Rightarrow> None
                | Some (reply, h') \<Rightarrow>
                    (case (case reply of
                             Inr r \<Rightarrow> write_fast_status_and_frame 0 (rc_encode_reply C r)
                           | Inl status \<Rightarrow> write_fast_status_and_frame 1 (sv_status_text E status)) of
                       Inl e \<Rightarrow> Some (Inl (ReplyUnwritable e), [], h')
                     | Inr frame \<Rightarrow> Some (Inr (), frame, h')))))"

section \<open>The client\<close>

record 'w fast_client =
  fc_preconnected :: bool
  fc_prepared :: "(string \<times> rootfs_reply) option"
  fc_world :: 'w

datatype fast_error =
    ConnectFailed string
  | FastFrame frame_error
  | FastRefused string
  | ReplyUndecodable

text \<open>
  The peer: whether a connection is made, and what comes back for the bytes that were sent, if anything
  ever does.
\<close>

record 'w fast_peer =
  fp_connect :: "'w \<Rightarrow> string option"
  fp_answer :: "bytes \<Rightarrow> 'w \<Rightarrow> (bytes \<times> 'w) option"

definition preconnect_fast_image_share :: "'w fast_peer \<Rightarrow> 'w fast_client \<Rightarrow> 'w fast_client" where
  "preconnect_fast_image_share P c =
     (case fp_connect P (fc_world c) of None \<Rightarrow> c\<lparr>fc_preconnected := True\<rparr> | Some _ \<Rightarrow> c)"

definition take_prefetched_rootfs :: "string \<Rightarrow> 'w fast_client \<Rightarrow> rootfs_reply option \<times> 'w fast_client" where
  "take_prefetched_rootfs image_ref c =
     (case fc_prepared c of
        Some (r, reply) \<Rightarrow> (if r = image_ref then (Some reply, c\<lparr>fc_prepared := None\<rparr>) else (None, c))
      | None \<Rightarrow> (None, c))"

definition cached_prefetched_rootfs_matches :: "string \<Rightarrow> 'w fast_client \<Rightarrow> bool" where
  "cached_prefetched_rootfs_matches image_ref c =
     (case fc_prepared c of Some (r, _) \<Rightarrow> r = image_ref | None \<Rightarrow> False)"

definition take_connection :: "'w fast_peer \<Rightarrow> ('w fast_client, fast_error, unit) stateful" where
  "take_connection P c =
     (if fc_preconnected c then (Inr (), c\<lparr>fc_preconnected := False\<rparr>)
      else (case fp_connect P (fc_world c) of Some e \<Rightarrow> (Inl (ConnectFailed e), c) | None \<Rightarrow> (Inr (), c)))"

definition read_reply :: "rootfs_codec \<Rightarrow> bytes \<Rightarrow> (fast_error, rootfs_reply) result" where
  "read_reply C s =
     and_then (map_err FastFrame (read_status s)) (\<lambda>(status, s).
     and_then (map_err FastFrame (read_frame s)) (\<lambda>(body, _).
     if status \<noteq> 0 then Inl (FastRefused (from_utf8_lossy body))
     else ok_or ReplyUndecodable (rc_decode_reply C body)))"

definition prepare_rootfs_fast_uncached ::
  "rootfs_codec \<Rightarrow> 'w fast_peer \<Rightarrow> string \<Rightarrow> 'w fast_client \<Rightarrow>
     ((fast_error, rootfs_reply) result \<times> 'w fast_client) option" where
  "prepare_rootfs_fast_uncached C P image_ref c =
     (case take_connection P c of
        (Inl e, c') \<Rightarrow> Some (Inl e, c')
      | (Inr _, c') \<Rightarrow>
          (case write_frame (rc_encode_request C image_ref) of
             Inl e \<Rightarrow> Some (Inl (FastFrame e), c')
           | Inr frame \<Rightarrow>
               (case fp_answer P frame (fc_world c') of
                  None \<Rightarrow> None
                | Some (answer, w) \<Rightarrow> Some (read_reply C answer, c'\<lparr>fc_world := w\<rparr>))))"

text \<open>\<open>meanwhile\<close> is what the other tasks do to the slots while this one waits for the lock.\<close>

definition prepare_rootfs_fast ::
  "rootfs_codec \<Rightarrow> 'w fast_peer \<Rightarrow> ('w fast_client \<Rightarrow> 'w fast_client) \<Rightarrow> string \<Rightarrow> 'w fast_client \<Rightarrow>
     ((fast_error, rootfs_reply) result \<times> 'w fast_client) option" where
  "prepare_rootfs_fast C P meanwhile image_ref c =
     (case take_prefetched_rootfs image_ref c of
        (Some reply, c') \<Rightarrow> Some (Inr reply, c')
      | (None, c') \<Rightarrow>
          (case take_prefetched_rootfs image_ref (meanwhile c') of
             (Some reply, c'') \<Rightarrow> Some (Inr reply, c'')
           | (None, c'') \<Rightarrow> prepare_rootfs_fast_uncached C P image_ref c''))"

text \<open>
  A prefetch that takes longer than three seconds, which \<open>late\<close> says, is given up: the peer goes on, its
  reply is lost, and so is the connection. The state after it is the one once the peer is done.
\<close>

definition prefetch_prepare_rootfs_fast ::
  "rootfs_codec \<Rightarrow> 'w fast_peer \<Rightarrow> ('w fast_client \<Rightarrow> bool) \<Rightarrow> string \<Rightarrow> 'w fast_client \<Rightarrow> 'w fast_client" where
  "prefetch_prepare_rootfs_fast C P late image_ref c =
     (if image_ref = [] then c
      else if cached_prefetched_rootfs_matches image_ref c then c
      else
        (case prepare_rootfs_fast_uncached C P image_ref c of
           None \<Rightarrow> c\<lparr>fc_preconnected := False\<rparr>
         | Some (Inr reply, c') \<Rightarrow> (if late c then c' else c'\<lparr>fc_prepared := Some (image_ref, reply)\<rparr>)
         | Some (Inl _, c') \<Rightarrow> c'))"

text \<open>The server as the peer of a client; an error closes the connection after what was sent.\<close>

definition server_peer :: "server_env \<Rightarrow> rootfs_codec \<Rightarrow> (host \<Rightarrow> string option) \<Rightarrow> host fast_peer" where
  "server_peer E C connect =
     \<lparr>fp_connect = connect,
      fp_answer = (\<lambda>sent h. map_option snd (handle_fast_vsock_connection E C sent h))\<rparr>"

section \<open>Framing\<close>

text \<open>
  A way to put messages on a connection: \<open>put\<close> makes the bytes of a message, \<open>get\<close> takes one message
  from the front of what was received.
\<close>

locale framing =
  fixes put :: "'m \<Rightarrow> (frame_error, bytes) result"
    and get :: "bytes \<Rightarrow> (frame_error, 'm \<times> bytes) result"
  assumes get_put: "put m = Inr f \<Longrightarrow> get (f @ rest) = Inr (m, rest)"
    and get_part: "put m = Inr f \<Longrightarrow> n < length f \<Longrightarrow> get (take n f) = Inl UnexpectedEof"
begin

lemma unambiguous: "put m = Inr f \<Longrightarrow> put m' = Inr f' \<Longrightarrow> f @ r = f' @ r' \<Longrightarrow> m = m' \<and> r = r'"
  using get_put [of m f r] get_put [of m' f' r'] by simp

lemma get_sent: "put m = Inr f \<Longrightarrow> get f = Inr (m, [])"
  using get_put [of m f "[]"] by simp

lemma get_any_part:
  "put m = Inr f \<Longrightarrow> get (take n f) = (if n < length f then Inl UnexpectedEof else Inr (m, []))"
  by (simp add: get_part get_sent)

end

lemma read_exact_append: "n = length a \<Longrightarrow> read_exact n (a @ b) = Inr (a, b)"
  by (simp add: read_exact_def)

lemma read_exact_short: "length s < n \<Longrightarrow> read_exact n s = Inl UnexpectedEof"
  by (simp add: read_exact_def)

lemma be_value_length: "length p \<le> FAST_MAX_MESSAGE_SIZE \<Longrightarrow> be_value (be_bytes 4 (length p)) = length p"
  by (simp add: be_value_be_bytes FAST_MAX_MESSAGE_SIZE_def)

lemma read_frame_put:
  "length p \<le> FAST_MAX_MESSAGE_SIZE \<Longrightarrow> read_frame (be_bytes 4 (length p) @ p @ rest) = Inr (p, rest)"
  by (simp add: read_frame_def read_exact_append be_value_length)

lemma read_frame_part:
  assumes "length p \<le> FAST_MAX_MESSAGE_SIZE" "n < 4 + length p"
  shows "read_frame (take n (be_bytes 4 (length p)) @ take (n - 4) p) = Inl UnexpectedEof"
proof (cases "n < 4")
  case False
  then show ?thesis
    using assms by (simp add: read_frame_def read_exact_append read_exact_short be_value_length)
qed (use assms in \<open>simp add: read_frame_def read_exact_short\<close>)

lemma read_fast_frame_same: "read_fast_frame = read_frame"
  by (rule ext) (simp add: read_fast_frame_def read_frame_def)

interpretation request_frames: framing write_frame read_fast_frame
  by unfold_locales
    (auto simp: write_frame_def read_fast_frame_same read_frame_put read_frame_part split: if_splits)

text \<open>The message of an answer is its status with its body.\<close>

definition write_answer :: "nat \<times> bytes \<Rightarrow> (frame_error, bytes) result" where
  "write_answer m = (if fst m < 256 then write_fast_status_and_frame (fst m) (snd m) else Inl UnexpectedEof)"

definition read_answer :: "bytes \<Rightarrow> (frame_error, (nat \<times> bytes) \<times> bytes) result" where
  "read_answer s =
     and_then (read_status s) (\<lambda>(status, s). and_then (read_frame s) (\<lambda>(body, s). Inr ((status, body), s)))"

lemma read_status_put: "k < 256 \<Longrightarrow> read_status (char_of k # s) = Inr (k, s)"
  by (simp add: read_status_def read_exact_def)

interpretation answer_frames: framing write_answer read_answer
proof
  fix m f rest n
  assume w: "write_answer m = Inr f"
  then have m: "fst m < 256" "length (snd m) \<le> FAST_MAX_MESSAGE_SIZE"
    and f: "f = char_of (fst m) # be_bytes 4 (length (snd m)) @ snd m"
    by (auto simp: write_answer_def write_fast_status_and_frame_def split: if_splits)
  show "read_answer (f @ rest) = Inr (m, rest)"
    using m f by (simp add: read_answer_def read_status_put read_frame_put)
  show "read_answer (take n f) = Inl UnexpectedEof" if "n < length f"
  proof (cases n)
    case 0
    then show ?thesis by (simp add: read_answer_def read_status_def read_exact_short)
  next
    case (Suc k)
    then show ?thesis
      using m f that read_frame_part [OF m(2), of k] by (simp add: read_answer_def read_status_put)
  qed
qed

lemma read_reply_answer:
  "read_reply C s = and_then (map_err FastFrame (read_answer s)) (\<lambda>((status, body), _).
     if status \<noteq> 0 then Inl (FastRefused (from_utf8_lossy body)) else ok_or ReplyUndecodable (rc_decode_reply C body))"
  by (auto simp: read_reply_def read_answer_def and_then_def map_err_def split: sum.splits prod.splits)

lemma read_reply_sent:
  "write_answer (status, body) = Inr f \<Longrightarrow> read_reply C f =
     (if status \<noteq> 0 then Inl (FastRefused (from_utf8_lossy body)) else ok_or ReplyUndecodable (rc_decode_reply C body))"
  by (simp add: read_reply_answer answer_frames.get_sent)

lemma read_reply_cut:
  "write_answer m = Inr f \<Longrightarrow> n < length f \<Longrightarrow> read_reply C (take n f) = Inl (FastFrame UnexpectedEof)"
  by (simp add: read_reply_answer answer_frames.get_part)

section \<open>The exchange\<close>

text \<open>What protobuf promises of a request and of what is answered to it.\<close>

definition reply_law :: "rootfs_codec \<Rightarrow> string \<Rightarrow> (server_status, rootfs_reply) result \<Rightarrow> bool" where
  "reply_law C image_ref r \<longleftrightarrow> rc_decode_request C (rc_encode_request C image_ref) = Some image_ref \<and>
     (case r of Inr reply \<Rightarrow> rc_decode_reply C (rc_encode_reply C reply) = Some reply | Inl _ \<Rightarrow> True)"

definition answer_of :: "server_env \<Rightarrow> rootfs_codec \<Rightarrow> (server_status, rootfs_reply) result \<Rightarrow> nat \<times> bytes" where
  "answer_of E C r = (case r of Inr reply \<Rightarrow> (0, rc_encode_reply C reply) | Inl status \<Rightarrow> (1, sv_status_text E status))"

lemma server_answers:
  assumes "reply_law C image_ref r" and "write_frame (rc_encode_request C image_ref) = Inr sent"
    and "prepare_rootfs_response E image_ref h = Some (r, h')"
  shows "fp_answer (server_peer E C connect) sent h =
    Some (case write_answer (answer_of E C r) of Inr frame \<Rightarrow> frame | Inl _ \<Rightarrow> [], h')"
  using assms request_frames.get_sent [OF assms(2)]
  by (auto simp: server_peer_def handle_fast_vsock_connection_def reply_law_def write_answer_def answer_of_def
      split: sum.splits)

lemma fast_exchange:
  assumes "reply_law C image_ref r" and "length (rc_encode_request C image_ref) \<le> FAST_MAX_MESSAGE_SIZE"
    and "prepare_rootfs_response E image_ref (fc_world c) = Some (r, h')"
    and "fc_preconnected c \<or> connect (fc_world c) = None"
  shows "prepare_rootfs_fast_uncached C (server_peer E C connect) image_ref c =
    Some (if FAST_MAX_MESSAGE_SIZE < length (snd (answer_of E C r)) then Inl (FastFrame UnexpectedEof)
          else (case r of Inr reply \<Rightarrow> Inr reply
                | Inl status \<Rightarrow> Inl (FastRefused (from_utf8_lossy (sv_status_text E status)))),
          c\<lparr>fc_preconnected := False, fc_world := h'\<rparr>)"
proof -
  obtain sent where sent: "write_frame (rc_encode_request C image_ref) = Inr sent"
    using assms(2) by (simp add: write_frame_def)
  have conn: "take_connection (server_peer E C connect) c = (Inr (), c\<lparr>fc_preconnected := False\<rparr>)"
    using assms(4) by (cases "fc_preconnected c") (auto simp: take_connection_def server_peer_def)
  define answer where "answer = (case write_answer (answer_of E C r) of Inr frame \<Rightarrow> frame | Inl _ \<Rightarrow> [])"
  have "prepare_rootfs_fast_uncached C (server_peer E C connect) image_ref c =
      Some (read_reply C answer, c\<lparr>fc_preconnected := False, fc_world := h'\<rparr>)"
    using server_answers [OF assms(1) sent, where E = E and h = "fc_world c"] assms(3)
    by (simp add: prepare_rootfs_fast_uncached_def conn sent answer_def)
  moreover have "read_reply C answer =
      (if FAST_MAX_MESSAGE_SIZE < length (snd (answer_of E C r)) then Inl (FastFrame UnexpectedEof)
       else (case r of Inr reply \<Rightarrow> Inr reply
             | Inl status \<Rightarrow> Inl (FastRefused (from_utf8_lossy (sv_status_text E status)))))"
  proof (cases "FAST_MAX_MESSAGE_SIZE < length (snd (answer_of E C r))")
    case True
    then have "answer = []"
      by (auto simp: answer_def write_answer_def write_fast_status_and_frame_def split: sum.splits)
    then show ?thesis using True by (simp add: read_reply_def read_status_def read_exact_short)
  next
    case False
    have "fst (answer_of E C r) < 256" by (simp add: answer_of_def split: sum.splits)
    then obtain frame where f: "write_answer (answer_of E C r) = Inr frame"
      using False by (auto simp: write_answer_def write_fast_status_and_frame_def)
    then have "read_reply C answer = read_reply C frame" by (simp add: answer_def)
    then show ?thesis
      using False assms(1) read_reply_sent [of "fst (answer_of E C r)" "snd (answer_of E C r)" frame C] f
      by (auto simp: answer_of_def reply_law_def split: sum.splits)
  qed
  ultimately show ?thesis by simp
qed

text \<open>
  C11. Over the fast connection the client gets exactly what the server's handler has decided: the reply
  itself, or the text of the status as an error. Only if request or answer are longer than a mebibyte is
  the request not sent, or the connection closed without an answer.
\<close>

theorem fast_exchange_exact:
  assumes "reply_law C image_ref r" and "length (rc_encode_request C image_ref) \<le> FAST_MAX_MESSAGE_SIZE"
    and "prepare_rootfs_response E image_ref (fc_world c) = Some (r, h')"
    and "fc_preconnected c \<or> connect (fc_world c) = None"
  shows "prepare_rootfs_fast_uncached C (server_peer E C connect) image_ref c =
    Some (if FAST_MAX_MESSAGE_SIZE < length (snd (answer_of E C r)) then Inl (FastFrame UnexpectedEof)
          else (case r of Inr reply \<Rightarrow> Inr reply
                | Inl status \<Rightarrow> Inl (FastRefused (from_utf8_lossy (sv_status_text E status)))),
          c\<lparr>fc_preconnected := False, fc_world := h'\<rparr>)"
  using assms by (rule fast_exchange)

section \<open>What the handler promises\<close>

lemma wait_pending_step:
  "wait_for_pending E image_ref n h =
     (let h' = sv_others E n h; found = read_cache_entry (sv_host E) image_ref h'
      in if found = Inr None \<and> cache_pending (sv_host E) image_ref h' \<and> sv_elapsed E n < PENDING_CACHE_WAIT_MS
         then wait_for_pending E image_ref (Suc n) h'
         else Some (map_err (WaitFailed image_ref) found, h'))"
  by (subst wait_for_pending.simps) (auto simp: Let_def map_err_def split: sum.splits option.splits)

lemma wait_pending_from:
  assumes "\<And>n. PENDING_CACHE_POLL_MS * n \<le> sv_elapsed E n"
  shows "\<exists>h'. wait_for_pending E image_ref n h = Some (map_err (WaitFailed image_ref) (read_cache_entry (sv_host E) image_ref h'), h')"
proof (induction "PENDING_CACHE_WAIT_MS - n" arbitrary: n h rule: less_induct)
  case less
  let ?h = "sv_others E n h"
  show ?case
  proof (cases "read_cache_entry (sv_host E) image_ref ?h = Inr None \<and> cache_pending (sv_host E) image_ref ?h \<and>
      sv_elapsed E n < PENDING_CACHE_WAIT_MS")
    case True
    then have "n < PENDING_CACHE_WAIT_MS" using assms [of n] unfolding PENDING_CACHE_POLL_MS_def by linarith
    then have "PENDING_CACHE_WAIT_MS - Suc n < PENDING_CACHE_WAIT_MS - n" by simp
    from less [OF this, of ?h] show ?thesis using True by (subst wait_pending_step) (simp add: Let_def)
  next
    case False
    then show ?thesis by (subst wait_pending_step) (auto simp: Let_def)
  qed
qed

lemma lookup_ends:
  assumes "\<And>n. PENDING_CACHE_POLL_MS * n \<le> sv_elapsed E n"
  shows "\<exists>r h'. lookup_cached_shared_rootfs E image_ref h = Some (r, h') \<and>
    (\<forall>e. r = Inr (Some e) \<longrightarrow> read_cache_entry (sv_host E) image_ref h' = Inr (Some e))"
proof (cases "\<exists>e. read_cache_entry (sv_host E) image_ref h = Inr (Some e)")
  case True
  then show ?thesis by (auto simp: lookup_cached_shared_rootfs_def)
next
  case False
  then have miss: "lookup_cached_shared_rootfs E image_ref h =
      (if \<not> cache_pending (sv_host E) image_ref h then Some (Inr None, h) else wait_for_pending E image_ref 0 h)"
    by (auto simp: lookup_cached_shared_rootfs_def split: sum.splits option.splits)
  obtain h' where "wait_for_pending E image_ref 0 h =
      Some (map_err (WaitFailed image_ref) (read_cache_entry (sv_host E) image_ref h'), h')"
    using wait_pending_from [OF assms] by blast
  then show ?thesis by (auto simp: miss result_iff)
qed

lemma pull_bundle_ok:
  "pull_bundle E image_ref path h = (Inr e, h') \<Longrightarrow>
     \<exists>i a b m. prepare_entry_from_bundle E image_ref i path a = (Inr e, b) \<and> h' = clear_if E m image_ref b"
  by (auto simp: pull_bundle_def Let_def split: prod.split_asm sum.split_asm)

lemma pull_and_prepare_ok:
  "pull_and_prepare E image_ref h = (Inr e, h') \<Longrightarrow>
     \<exists>i p a b m. prepare_entry_from_bundle E image_ref i p a = (Inr e, b) \<and> h' = clear_if E m image_ref b"
  by (auto simp: pull_and_prepare_def Let_def result_iff dest!: pull_bundle_ok) blast

lemma missing_prepared:
  assumes ok: "\<And>h c. hs_refuse (sv_host E) h c = None" and law: "entry_law (sv_host E) e"
    and apart: "sre_rootfs_image_path e \<notin> insert (cache_path (sv_host E) image_ref ''pending'') (entry_files (sv_host E) e)"
    and "prepare_missing E image_ref h = (Inr e, h')"
  shows "read_cache_entry (sv_host E) image_ref h' = Inr (Some e)"
proof -
  have prep: "read_cache_entry (sv_host E) image_ref b = Inr (Some e)"
    if "prepare_entry_from_bundle E image_ref i p a = (Inr e, b)" for i p a b
    using that prepared_entry_read [OF law ok _ apart]
    by (auto simp: prepare_entry_from_bundle_def result_iff)
  have clear: "read_cache_entry (sv_host E) image_ref (clear_if E m image_ref b) = Inr (Some e)"
    if "read_cache_entry (sv_host E) image_ref b = Inr (Some e)" for m b
  proof (cases m)
    case True
    show ?thesis
      by (rule entry_still_read [OF ok that]) (use apart True in \<open>auto simp: clear_if_def clear_pending_files [OF ok]\<close>)
  qed (use that in \<open>simp add: clear_if_def\<close>)
  show ?thesis
    using assms(4) prep clear pull_and_prepare_ok
    by (force simp: prepare_missing_def split: option.split_asm)
qed


section \<open>The slots of the client\<close>

definition asked_by :: "rootfs_codec \<Rightarrow> 'w fast_peer \<Rightarrow> string \<Rightarrow> 'w fast_client \<Rightarrow> (string \<times> rootfs_reply) list" where
  "asked_by C P image_ref c =
     (case prepare_rootfs_fast_uncached C P image_ref c of Some (Inr reply, _) \<Rightarrow> [(image_ref, reply)] | _ \<Rightarrow> [])"

text \<open>
  The runs of a client, in which other things may happen to the peer at any time, with the replies the
  peer has made and the replies the client has given to its callers. A request that waits for the lock
  does nothing before it has it, so it is one step.
\<close>

inductive fast_run ::
  "rootfs_codec \<Rightarrow> 'w fast_peer \<Rightarrow> (string \<times> rootfs_reply) list \<Rightarrow> (string \<times> rootfs_reply) list \<Rightarrow> 'w fast_client \<Rightarrow> bool"
  for C P where
  start: "fc_prepared c = None \<Longrightarrow> fast_run C P [] [] c"
| elsewhere: "fast_run C P asked given c \<Longrightarrow> fast_run C P asked given (c\<lparr>fc_world := w\<rparr>)"
| preconnect: "fast_run C P asked given c \<Longrightarrow> fast_run C P asked given (preconnect_fast_image_share P c)"
| prefetch: "fast_run C P asked given c \<Longrightarrow>
    fast_run C P (asked @ (if image_ref = [] \<or> cached_prefetched_rootfs_matches image_ref c then []
                           else asked_by C P image_ref c)) given
      (prefetch_prepare_rootfs_fast C P late image_ref c)"
| prepare: "fast_run C P asked given c \<Longrightarrow> prepare_rootfs_fast C P id image_ref c = Some (r, c') \<Longrightarrow>
    fast_run C P (asked @ (if cached_prefetched_rootfs_matches image_ref c then [] else asked_by C P image_ref c))
      (given @ (case r of Inr reply \<Rightarrow> [(image_ref, reply)] | Inl _ \<Rightarrow> [])) c'"

lemma prepare_after_waiting:
  "\<not> cached_prefetched_rootfs_matches image_ref c \<Longrightarrow>
     prepare_rootfs_fast C P meanwhile image_ref c = prepare_rootfs_fast C P id image_ref (meanwhile c)"
  by (auto simp: prepare_rootfs_fast_def take_prefetched_rootfs_def cached_prefetched_rootfs_matches_def
      split: option.splits prod.splits if_splits)

lemma uncached_keeps_slot:
  "prepare_rootfs_fast_uncached C P image_ref c = Some (r, c') \<Longrightarrow> fc_prepared c' = fc_prepared c"
  by (auto simp: prepare_rootfs_fast_uncached_def take_connection_def split: if_splits option.splits sum.splits prod.splits)

definition slot :: "'w fast_client \<Rightarrow> (string \<times> rootfs_reply) multiset" where
  "slot c = (case fc_prepared c of Some x \<Rightarrow> {#x#} | None \<Rightarrow> {#})"

lemma slot_simps [simp]:
  "slot (c\<lparr>fc_world := w\<rparr>) = slot c" "slot (c\<lparr>fc_preconnected := b\<rparr>) = slot c"
  "slot (c\<lparr>fc_prepared := Some x\<rparr>) = {#x#}" "slot (c\<lparr>fc_prepared := None\<rparr>) = {#}"
  by (simp_all add: slot_def)

lemma slot_preconnect [simp]: "slot (preconnect_fast_image_share P c) = slot c"
  by (simp add: preconnect_fast_image_share_def split: option.split)

lemma slot_uncached: "prepare_rootfs_fast_uncached C P image_ref c = Some (r, c') \<Longrightarrow> slot c' = slot c"
  using uncached_keeps_slot [of C P image_ref c r c'] by (simp add: slot_def)

lemma prefetch_slot:
  "slot (prefetch_prepare_rootfs_fast C P late image_ref c) \<subseteq>#
     slot c + mset (if image_ref = [] \<or> cached_prefetched_rootfs_matches image_ref c then [] else asked_by C P image_ref c)"
  by (auto simp: prefetch_prepare_rootfs_fast_def asked_by_def slot_uncached
      split: option.splits prod.splits sum.splits)

lemma prepare_slot:
  assumes "prepare_rootfs_fast C P id image_ref c = Some (r, c')"
  shows "slot c' + mset (case r of Inr reply \<Rightarrow> [(image_ref, reply)] | Inl _ \<Rightarrow> []) =
    slot c + mset (if cached_prefetched_rootfs_matches image_ref c then [] else asked_by C P image_ref c)"
proof (cases "cached_prefetched_rootfs_matches image_ref c")
  case True
  then show ?thesis
    using assms by (auto simp: prepare_rootfs_fast_def take_prefetched_rootfs_def cached_prefetched_rootfs_matches_def slot_def
        split: option.splits)
next
  case False
  then have "prepare_rootfs_fast_uncached C P image_ref c = Some (r, c')"
    using assms by (auto simp: prepare_rootfs_fast_def take_prefetched_rootfs_def cached_prefetched_rootfs_matches_def
        split: option.splits prod.splits if_splits)
  then show ?thesis using False slot_uncached by (auto simp: asked_by_def split: sum.splits)
qed

text \<open>
  C14. Every reply that a client gives to a caller is one that the server has made for the same
  reference, and no reply is given twice, however prefetches and requests follow each other.
\<close>

theorem replies_given_once:
  assumes "fast_run C P asked given c"
  shows "mset given + slot c \<subseteq># mset asked"
  using assms
proof (induction rule: fast_run.induct)
  case (start c)
  then show ?case by (simp add: slot_def)
next
  case (prefetch asked given c image_ref late)
  then show ?case
    using prefetch_slot [of C P late image_ref c]
    by (smt (verit) mset_append subset_mset.add_left_mono subset_mset.add_right_mono subset_mset.order_trans union_assoc)
next
  case (prepare asked given c image_ref r c')
  have "mset (given @ (case r of Inr reply \<Rightarrow> [(image_ref, reply)] | Inl _ \<Rightarrow> [])) + slot c' =
      mset given + slot c + mset (if cached_prefetched_rootfs_matches image_ref c then [] else asked_by C P image_ref c)"
    using prepare_slot [OF prepare.hyps(2)] by (simp add: ac_simps)
  then show ?case using prepare.IH by (simp only: mset_append subset_mset.add_right_mono)
qed simp_all

section \<open>Examples\<close>

definition demo_reply :: rootfs_reply where
  "demo_reply = reply_from_cache_entry demo_cache_entry"

definition demo_server_env :: server_env where
  "demo_server_env = \<lparr>sv_host = demo_host_env, sv_others = \<lambda>n h. h, sv_elapsed = \<lambda>n. 200 * Suc n,
     sv_pull = \<lambda>r p h. (Inl ''no registry'', h), sv_now_millis = \<lambda>h. 5, sv_status_text = \<lambda>s. ''refused''\<rparr>"

definition demo_reply_codec :: rootfs_codec where
  "demo_reply_codec = \<lparr>rc_encode_request = \<lambda>r. r, rc_decode_request = Some, rc_encode_reply = \<lambda>r. ''reply'',
     rc_decode_reply = \<lambda>b. Some demo_reply\<rparr>"

definition demo_cached_host :: host where
  "demo_cached_host = snd (write_cache_entry demo_host_env demo_cache_entry demo_shared_host)"

definition demo_client :: "host fast_client" where
  "demo_client = \<lparr>fc_preconnected = False, fc_prepared = None, fc_world = demo_cached_host\<rparr>"

lemma demo_server_host [simp]: "sv_host demo_server_env = demo_host_env"
  by (simp add: demo_server_env_def)

lemma demo_response:
  "prepare_rootfs_response demo_server_env ''r/a'' demo_cached_host = Some (Inr demo_reply, demo_cached_host)"
proof -
  have "read_cache_entry demo_host_env ''r/a'' demo_cached_host = Inr (Some demo_cache_entry)"
    unfolding demo_cached_host_def
  proof (rule read_written_entry)
    show "write_cache_entry demo_host_env demo_cache_entry demo_shared_host =
        (Inr (), snd (write_cache_entry demo_host_env demo_cache_entry demo_shared_host))"
      using demo_written by (simp add: prod_eq_iff)
    show "sanitize_path_component ''r/a'' \<in> sanitize_path_component ` {sre_image_ref demo_cache_entry, sre_image_id demo_cache_entry}"
      by code_simp
  qed (use demo_image_apart in simp_all)
  then show ?thesis
    by (simp add: prepare_rootfs_response_def lookup_cached_shared_rootfs_def demo_reply_def)
qed

lemma demo_reply_law: "reply_law demo_reply_codec ''r/a'' (Inr demo_reply)"
  by (simp add: reply_law_def demo_reply_codec_def)

lemma demo_sizes:
  "length (rc_encode_request demo_reply_codec ''r/a'') \<le> FAST_MAX_MESSAGE_SIZE"
  "length (snd (answer_of demo_server_env demo_reply_codec (Inr demo_reply))) \<le> FAST_MAX_MESSAGE_SIZE"
  by (simp_all add: demo_reply_codec_def answer_of_def FAST_MAX_MESSAGE_SIZE_def)

definition demo_fast_peer :: "host fast_peer" where
  "demo_fast_peer = server_peer demo_server_env demo_reply_codec (\<lambda>h. None)"

lemma demo_client_exact: "demo_client\<lparr>fc_preconnected := False, fc_world := demo_cached_host\<rparr> = demo_client"
  by (simp add: demo_client_def)

theorem fast_exchange_exact_witness:
  "prepare_rootfs_fast_uncached demo_reply_codec demo_fast_peer ''r/a'' demo_client = Some (Inr demo_reply, demo_client)"
  using fast_exchange_exact [of demo_reply_codec "''r/a''" "Inr demo_reply" demo_server_env demo_client demo_cached_host "\<lambda>h. None"]
    demo_reply_law demo_sizes demo_response demo_client_exact
  by (simp add: demo_fast_peer_def demo_client_def)

lemma demo_uncached:
  "prepare_rootfs_fast_uncached demo_reply_codec demo_fast_peer ''r/a'' demo_client = Some (Inr demo_reply, demo_client)"
  using fast_exchange [of demo_reply_codec "''r/a''" "Inr demo_reply" demo_server_env demo_client demo_cached_host "\<lambda>h. None"]
    demo_reply_law demo_sizes demo_response demo_client_exact
  by (simp add: demo_fast_peer_def demo_client_def)


lemma demo_fast_run:
  "fast_run demo_reply_codec demo_fast_peer [(''r/a'', demo_reply)] [(''r/a'', demo_reply)] demo_client"
proof -
  let ?c = "demo_client\<lparr>fc_prepared := Some (''r/a'', demo_reply)\<rparr>"
  have empty: "fc_prepared demo_client = None" by (simp add: demo_client_def)
  have "asked_by demo_reply_codec demo_fast_peer ''r/a'' demo_client = [(''r/a'', demo_reply)]"
    by (simp add: asked_by_def demo_uncached)
  moreover have "prefetch_prepare_rootfs_fast demo_reply_codec demo_fast_peer (\<lambda>c. False) ''r/a'' demo_client = ?c"
    by (simp add: prefetch_prepare_rootfs_fast_def cached_prefetched_rootfs_matches_def empty demo_uncached)
  ultimately have "fast_run demo_reply_codec demo_fast_peer [(''r/a'', demo_reply)] [] ?c"
    using fast_run.prefetch [OF fast_run.start [OF empty], of demo_reply_codec demo_fast_peer "''r/a''" "\<lambda>c. False"]
    by (simp add: cached_prefetched_rootfs_matches_def empty)
  moreover have "prepare_rootfs_fast demo_reply_codec demo_fast_peer id ''r/a'' ?c = Some (Inr demo_reply, demo_client)"
    by (simp add: prepare_rootfs_fast_def take_prefetched_rootfs_def demo_client_def)
  ultimately show ?thesis
    using fast_run.prepare [of demo_reply_codec demo_fast_peer "[(''r/a'', demo_reply)]" "[]" ?c "''r/a''" "Inr demo_reply" demo_client]
    by (simp add: cached_prefetched_rootfs_matches_def)
qed

theorem replies_given_once_witness:
  "mset [(''r/a'', demo_reply)] + slot demo_client \<subseteq># mset [(''r/a'', demo_reply)]"
  by (rule replies_given_once [OF demo_fast_run])

end
