(* ===== verification/Guest_Rootfs.thy ===== *)
theory Guest_Rootfs
  imports Rootfs_Server
begin

text \<open>
  The guest side of \<open>image-rs/src/image.rs\<close>: a container's root file system comes from the image virtual
  machine as a shared device, which is checked and mounted below the bundle. The peer of the fast
  connection and the gRPC fallback are parameters.
\<close>

section \<open>Mounting what was prepared\<close>

definition RUNTIME_SHARED_ROOTFS_BLOCK_DEVICE :: string where
  "RUNTIME_SHARED_ROOTFS_BLOCK_DEVICE = ''/dev/cocoimg0''"

datatype guest_error =
    GuestHost share_error
  | ConnectServer string
  | ServerRefused string
  | NoDescriptor string
  | EmptyImage
  | DeviceTooShort
  | BadErofsMagic bytes
  | BadSquashfsMagic bytes

definition write_runtime_config_from_image_cvm :: "host_env \<Rightarrow> string \<Rightarrow> bytes \<Rightarrow> (host, guest_error, unit) stateful" where
  "write_runtime_config_from_image_cvm V bundle_dir config_json =
     (if config_json = [] then st_ok ()
      else st_map_err GuestHost (host_write V (path_join bundle_dir ''config.json'') config_json))"

definition slice :: "nat \<Rightarrow> nat \<Rightarrow> bytes \<Rightarrow> bytes" where
  "slice a b buf = take (b - a) (drop a buf)"

definition u32_from_le_bytes :: "bytes \<Rightarrow> nat" where
  "u32_from_le_bytes b = be_value (rev b)"

definition EROFS_MAGIC :: nat where "EROFS_MAGIC = 0xE0F5E1E2"

definition magic_ok :: "string \<Rightarrow> bytes \<Rightarrow> (guest_error, unit) result" where
  "magic_ok fs_type buf =
     (if fs_type = ''erofs'' \<and> u32_from_le_bytes (slice 1024 1028 buf) \<noteq> EROFS_MAGIC
      then Inl (BadErofsMagic (slice 1024 1028 buf))
      else if fs_type = ''squashfs'' \<and> slice 0 4 buf \<noteq> ''hsqs'' then Inl (BadSquashfsMagic (slice 0 4 buf))
      else Inr ())"

definition preflight_shared_rootfs_block_device :: "host_env \<Rightarrow> string \<Rightarrow> string \<Rightarrow> host \<Rightarrow> (guest_error, unit) result" where
  "preflight_shared_rootfs_block_device V path fs_type h =
     (case host_read V path h of
        Inl e \<Rightarrow> Inl (GuestHost (HostError (HRead path) e))
      | Inr data \<Rightarrow> (if length data < 4096 then Inl DeviceTooShort else magic_ok fs_type (take 4096 data)))"

definition mount_prepared_shared_rootfs_fast_path ::
  "host_env \<Rightarrow> shared_image \<Rightarrow> string \<Rightarrow> string \<Rightarrow> (host, guest_error, unit) stateful" where
  "mount_prepared_shared_rootfs_fast_path V img bundle_dir fs_type =
     (if si_image_size img = 0 then st_err EmptyImage
      else
        st_then (st_map_err GuestHost (ignore_result (destroy_device V))) (\<lambda>_.
        st_then (st_map_err GuestHost (create_device V img)) (\<lambda>_.
        st_then (\<lambda>h. lift_result (preflight_shared_rootfs_block_device V RUNTIME_SHARED_ROOTFS_BLOCK_DEVICE fs_type h) h) (\<lambda>_.
        st_then (st_map_err GuestHost (mount_shared_rootfs_image V
          ((mount_options_new RUNTIME_SHARED_ROOTFS_BLOCK_DEVICE bundle_dir)
             \<lparr>mo_fs_type := Some fs_type, mo_direct_block_device := True\<rparr>))) (\<lambda>_.
        st_ok ())))))"

section \<open>The request\<close>

record 'w guest =
  gu_client :: "'w fast_client"
  gu_host :: host

record 'w guest_env =
  ge_host :: host_env
  ge_codec :: rootfs_codec
  ge_peer :: "'w fast_peer"
  ge_meanwhile :: "'w fast_client \<Rightarrow> 'w fast_client"
  ge_connect :: "'w \<Rightarrow> string option"
  ge_rpc :: "string \<Rightarrow> 'w \<Rightarrow> (string, rootfs_reply) result \<times> 'w"

definition prepare_rootfs_rpc :: "'w guest_env \<Rightarrow> string \<Rightarrow> ('w fast_client, guest_error, rootfs_reply) stateful" where
  "prepare_rootfs_rpc G image_url c =
     (case ge_connect G (fc_world c) of
        Some e \<Rightarrow> (Inl (ConnectServer e), c)
      | None \<Rightarrow>
          (case ge_rpc G image_url (fc_world c) of
             (r, w) \<Rightarrow> (map_err ServerRefused r, c\<lparr>fc_world := w\<rparr>)))"

definition prepare_with_fallback ::
  "'w guest_env \<Rightarrow> string \<Rightarrow> 'w fast_client \<Rightarrow> ((guest_error, rootfs_reply) result \<times> 'w fast_client) option" where
  "prepare_with_fallback G image_url c =
     (case prepare_rootfs_fast (ge_codec G) (ge_peer G) (ge_meanwhile G) image_url c of
        None \<Rightarrow> None
      | Some (Inr prepared, c') \<Rightarrow> Some (Inr prepared, c')
      | Some (Inl _, c') \<Rightarrow> Some (prepare_rootfs_rpc G image_url c'))"

definition install_rootfs :: "host_env \<Rightarrow> string \<Rightarrow> string \<Rightarrow> rootfs_reply \<Rightarrow> (host, guest_error, string) stateful" where
  "install_rootfs V image_url bundle_dir prepared =
     st_then (st_map_err GuestHost (host_mkdir V bundle_dir)) (\<lambda>_.
     st_then (write_runtime_config_from_image_cvm V bundle_dir (rr_oci_config_json prepared)) (\<lambda>_.
     if rr_share_id prepared = 0 \<or> rr_source_rd_addr prepared = 0 then st_err (NoDescriptor image_url)
     else
       st_then (mount_prepared_shared_rootfs_fast_path V
         \<lparr>si_share_id = rr_share_id prepared, si_source_rd_addr = rr_source_rd_addr prepared,
          si_image_size = rr_image_size prepared, si_page_count = rr_page_count prepared\<rparr> bundle_dir (rr_fs_type prepared)) (\<lambda>_.
       st_ok (rr_image_id prepared))))"

definition guest_mount_shared_rootfs ::
  "'w guest_env \<Rightarrow> string \<Rightarrow> string \<Rightarrow> 'w guest \<Rightarrow> ((guest_error, string) result \<times> 'w guest) option" where
  "guest_mount_shared_rootfs G image_url bundle_dir g =
     (case prepare_with_fallback G image_url (gu_client g) of
        None \<Rightarrow> None
      | Some (Inl e, c) \<Rightarrow> Some (Inl e, g\<lparr>gu_client := c\<rparr>)
      | Some (Inr prepared, c) \<Rightarrow>
          (case install_rootfs (ge_host G) image_url bundle_dir prepared (gu_host g) of
             (r, h) \<Rightarrow> Some (r, \<lparr>gu_client = c, gu_host = h\<rparr>)))"

section \<open>What is mounted\<close>

text \<open>
  The device was made for the share of the reply, its first block has the magic number of the file system,
  and a mount of exactly this device has succeeded.
\<close>

definition rootfs_mounted :: "host_env \<Rightarrow> rootfs_reply \<Rightarrow> string \<Rightarrow> bool" where
  "rootfs_mounted V prepared bundle_dir \<longleftrightarrow>
     rr_share_id prepared \<noteq> 0 \<and> rr_source_rd_addr prepared \<noteq> 0 \<and> rr_image_size prepared \<noteq> 0 \<and>
     (\<exists>h f. hs_make_device V h (rr_share_id prepared, rr_source_rd_addr prepared, rr_image_size prepared) = Inr f \<and>
        4096 \<le> length (hf_data f) \<and> magic_ok (rr_fs_type prepared) (take 4096 (hf_data f)) = Inr ()) \<and>
     (\<exists>h out h'. hs_command V ''mount''
        ((if rr_fs_type prepared = ''auto'' then [] else [''-t'', rr_fs_type prepared]) @
         [''-o'', ''ro'', path_arg RUNTIME_SHARED_ROOTFS_BLOCK_DEVICE, path_arg (path_join bundle_dir ''lower'')]) h = (Inr out, h'))"

lemma run_command_ok: "run_command V program args h = (Inr u, h') \<Longrightarrow> \<exists>out. hs_command V program args h = (Inr out, h')"
  by (auto simp: run_command_def split: prod.split_asm sum.split_asm)

lemma create_device_ok:
  "create_device V img h = (Inr u, h') \<Longrightarrow>
     \<exists>f. hs_make_device V h (si_share_id img, si_source_rd_addr img, si_image_size img) = Inr f \<and>
       h_files h' ''/dev/cocoimg0'' = Some f"
  by (auto simp: create_device_def Let_def split: sum.split_asm)

lemma preflight_ok:
  "preflight_shared_rootfs_block_device V ''/dev/cocoimg0'' fs_type h = Inr () \<Longrightarrow> h_files h ''/dev/cocoimg0'' = Some f \<Longrightarrow>
     4096 \<le> length (hf_data f) \<and> magic_ok fs_type (take 4096 (hf_data f)) = Inr ()"
  by (auto simp: preflight_shared_rootfs_block_device_def host_read_def split: option.split_asm if_split_asm)

lemma mount_image_ok:
  assumes "mount_shared_rootfs_image V opts h = (Inr m, h')" and "mo_direct_block_device opts" and "mo_fs_type opts = Some t"
  shows "\<exists>h out h'. hs_command V ''mount''
    ((if t = ''auto'' then [] else [''-t'', t]) @
     [''-o'', ''ro'', path_arg (mo_image_path opts), path_arg (path_join (mo_work_dir opts) ''lower'')]) h = (Inr out, h')"
proof -
  obtain u a b where "run_command V ''mount''
    ((if t = ''auto'' then [] else [''-t'', t]) @
     [''-o'', ''ro'', path_arg (mo_image_path opts), path_arg (path_join (mo_work_dir opts) ''lower'')]) a = (Inr u, b)"
    using assms by (auto simp: mount_shared_rootfs_image_def attach_image_def Let_def result_iff split: if_split_asm)
  then show ?thesis using run_command_ok by blast
qed

lemma installed_mounted:
  assumes "install_rootfs V image_url bundle_dir prepared h = (Inr i, h')"
  shows "i = rr_image_id prepared \<and> rootfs_mounted V prepared bundle_dir"
proof -
  let ?img = "\<lparr>si_share_id = rr_share_id prepared, si_source_rd_addr = rr_source_rd_addr prepared,
      si_image_size = rr_image_size prepared, si_page_count = rr_page_count prepared\<rparr>"
  obtain h1 where i: "i = rr_image_id prepared" and desc: "rr_share_id prepared \<noteq> 0" "rr_source_rd_addr prepared \<noteq> 0"
    and m: "mount_prepared_shared_rootfs_fast_path V ?img bundle_dir (rr_fs_type prepared) h1 = (Inr (), h')"
    using assms by (auto simp: install_rootfs_def result_iff split: if_split_asm)
  then obtain h2 h3 u p where dev: "create_device V ?img h2 = (Inr u, h3)" and size: "rr_image_size prepared \<noteq> 0"
    and pre: "preflight_shared_rootfs_block_device V ''/dev/cocoimg0'' (rr_fs_type prepared) h3 = Inr ()"
    and mount: "mount_shared_rootfs_image V ((mount_options_new RUNTIME_SHARED_ROOTFS_BLOCK_DEVICE bundle_dir)
             \<lparr>mo_fs_type := Some (rr_fs_type prepared), mo_direct_block_device := True\<rparr>) h3 = (Inr p, h')"
    by (auto simp: mount_prepared_shared_rootfs_fast_path_def result_iff RUNTIME_SHARED_ROOTFS_BLOCK_DEVICE_def split: if_split_asm)
  from create_device_ok [OF dev] obtain f where f:
    "hs_make_device V h2 (rr_share_id prepared, rr_source_rd_addr prepared, rr_image_size prepared) = Inr f"
    "h_files h3 ''/dev/cocoimg0'' = Some f" by auto
  from mount_image_ok [OF mount] have "\<exists>h out h'. hs_command V ''mount''
      ((if rr_fs_type prepared = ''auto'' then [] else [''-t'', rr_fs_type prepared]) @
       [''-o'', ''ro'', path_arg RUNTIME_SHARED_ROOTFS_BLOCK_DEVICE, path_arg (path_join bundle_dir ''lower'')]) h = (Inr out, h')"
    by (simp add: mount_options_new_def)
  then show ?thesis using i desc size f preflight_ok [OF pre f(2)] unfolding rootfs_mounted_def by blast
qed


text \<open>The configuration of the container is written before the descriptor of the share is looked at.\<close>

lemma config_written_before_check:
  assumes "rr_share_id prepared = 0" and "rr_oci_config_json prepared \<noteq> []" and "\<And>h c. hs_refuse V h c = None"
  shows "\<exists>h' t. install_rootfs V image_url bundle_dir prepared h = (Inl (NoDescriptor image_url), h') \<and>
    h_files h' (path_join bundle_dir ''config.json'') = Some \<lparr>hf_data = rr_oci_config_json prepared, hf_mtime = t\<rparr>"
  using assms
  by (simp add: install_rootfs_def st_then_def st_map_err_def host_mkdir_def write_runtime_config_from_image_cvm_def host_write_def)

section \<open>An example\<close>

definition demo_device :: host_file where
  "demo_device = \<lparr>hf_data = replicate 1024 (CHR 0x00) @ [CHR 0xE2, CHR 0xE1, CHR 0xF5, CHR 0xE0] @ replicate 3068 (CHR 0x00),
     hf_mtime = 0\<rparr>"

definition demo_guest_host_env :: host_env where
  "demo_guest_host_env = demo_host_env\<lparr>hs_make_device := \<lambda>h req. Inr demo_device,
     hs_command := \<lambda>program args h. if program = ''mountpoint'' then (Inl ''no'', h) else (Inr [], h)\<rparr>"

definition demo_guest_env :: "host guest_env" where
  "demo_guest_env = \<lparr>ge_host = demo_guest_host_env, ge_codec = demo_reply_codec, ge_peer = demo_fast_peer, ge_meanwhile = id,
     ge_connect = \<lambda>w. None, ge_rpc = \<lambda>r w. (Inl ''down'', w)\<rparr>"

definition demo_guest :: "host guest" where
  "demo_guest = \<lparr>gu_client = demo_client, gu_host = demo_host\<rparr>"

lemma demo_magic: "magic_ok ''erofs'' (take 4096 (hf_data demo_device)) = Inr ()"
  by (simp add: magic_ok_def slice_def demo_device_def u32_from_le_bytes_def EROFS_MAGIC_def be_value_def)

lemma demo_preflight:
  "h_files h ''/dev/cocoimg0'' = Some demo_device \<Longrightarrow>
     preflight_shared_rootfs_block_device demo_guest_host_env ''/dev/cocoimg0'' ''erofs'' h = Inr ()"
  using demo_magic
  by (simp add: preflight_shared_rootfs_block_device_def host_read_def demo_guest_host_env_def)
    (simp add: demo_device_def)

lemma demo_guest_simps:
  "hs_refuse demo_guest_host_env h c = None" "hs_make_device demo_guest_host_env h req = Inr demo_device"
  "hs_drop_device demo_guest_host_env h = None"
  "hs_command demo_guest_host_env program args h = (if program = ''mountpoint'' then (Inl ''no'', h) else (Inr [], h))"
  by (simp_all add: demo_guest_host_env_def demo_host_env_def)

lemma demo_mount_succeeds:
  assumes "is_file h (mo_image_path opts)" and "mo_direct_block_device opts" and "mo_work_dir opts = ''/c''"
    and "h_files h ''/c/state/loopdev'' = None"
  shows "\<exists>m h'. mount_shared_rootfs_image demo_guest_host_env opts h = (Inr m, h')"
proof -
  have mp: "\<not> is_mountpoint demo_guest_host_env p h" for p h by (simp add: is_mountpoint_def demo_guest_simps)
  have run: "run_command demo_guest_host_env ''mount'' args h = (Inr (), h)" for args h
    by (simp add: run_command_def demo_guest_simps)
  show ?thesis
    using assms
    by (simp add: mount_shared_rootfs_image_def Let_def host_mkdir_def demo_guest_simps st_then_def
        cleanup_shared_rootfs_mount_def when_mounted_def mp is_file_def attach_image_def run path_join_def starts_with_iff)
qed

lemma demo_installed:
  "\<exists>h'. install_rootfs demo_guest_host_env ''r/a'' ''/c'' demo_reply demo_host = (Inr ''id'', h')"
proof -
  let ?img = "\<lparr>si_share_id = 1, si_source_rd_addr = 7, si_image_size = 3, si_page_count = 1\<rparr>"
  have fast: "\<exists>h'. mount_prepared_shared_rootfs_fast_path demo_guest_host_env ?img ''/c'' ''erofs'' h = (Inr (), h')"
    if "h_files h ''/c/state/loopdev'' = None" for h
  proof -
    let ?h = "h\<lparr>h_device := Some (1, 7, 3), h_files := (h_files h)(''/dev/cocoimg0'' \<mapsto> demo_device)\<rparr>"
    have "\<exists>m h'. mount_shared_rootfs_image demo_guest_host_env
        ((mount_options_new RUNTIME_SHARED_ROOTFS_BLOCK_DEVICE ''/c'')\<lparr>mo_fs_type := Some ''erofs'', mo_direct_block_device := True\<rparr>) ?h
        = (Inr m, h')"
      by (rule demo_mount_succeeds)
        (use that in \<open>simp_all add: is_file_def mount_options_new_def RUNTIME_SHARED_ROOTFS_BLOCK_DEVICE_def\<close>)
    then show ?thesis
      using demo_preflight [of ?h]
      by (auto simp: mount_prepared_shared_rootfs_fast_path_def st_then_def st_map_err_def ignore_result_def destroy_device_def
          create_device_def open_control_def demo_guest_simps lift_result_def RUNTIME_SHARED_ROOTFS_BLOCK_DEVICE_def)
  qed
  have reply: "rr_share_id demo_reply = 1" "rr_source_rd_addr demo_reply = 7" "rr_image_size demo_reply = 3"
    "rr_page_count demo_reply = 1" "rr_fs_type demo_reply = ''erofs''" "rr_image_id demo_reply = ''id''"
    "rr_oci_config_json demo_reply = ''{}''"
    by (simp_all add: demo_reply_def reply_from_cache_entry_def demo_cache_entry_def)
  obtain h1 where "write_runtime_config_from_image_cvm demo_guest_host_env ''/c'' ''{}'' (demo_host\<lparr>h_dirs := (h_dirs demo_host)(''/c'' := True)\<rparr>) = (Inr (), h1)"
    "h_files h1 ''/c/state/loopdev'' = None"
    by (simp add: write_runtime_config_from_image_cvm_def st_map_err_def host_write_def demo_guest_simps demo_host_def path_join_def starts_with_iff)
  then show ?thesis
    using fast [of h1] by (auto simp: install_rootfs_def st_then_def st_map_err_def host_mkdir_def demo_guest_simps reply)
qed


end
