(* ===== verification/Image_Service.thy ===== *)
theory Image_Service
  imports Hub_Server Secure_Mount Image_Client Guest_Rootfs
begin

text \<open>
  The image services of the data hub (\<open>hub/src/hub.rs\<close> and \<open>bin/ttrpc_server/mod.rs\<close>), which make their
  image client at the first request, and the programs around the hub: its server (\<open>bin/ttrpc-cdh.rs\<close>), the
  one-shot version (\<open>bin/cdh-oneshot.rs\<close>) and the command line client (\<open>bin/ttrpc-cdh-tool.rs\<close>). Requests
  wait for each other at the mutex of the client, so a history of the services is a sequence of requests.
\<close>

section \<open>The image client of the hub\<close>

datatype pull_source = FromClient client_error | FromGuest guest_error

datatype image_hub_error = InitializationFailed client_error | ImagePull pull_source

text \<open>The cell with the client, and the connection to the image virtual machine with the host the hub runs on.\<close>

record 'w hub_images =
  hi_client :: "image_client option"
  hi_guest :: "'w guest"

definition hi_host :: "'w hub_images \<Rightarrow> host" where "hi_host s = gu_host (hi_guest s)"

definition set_host :: "host \<Rightarrow> 'w hub_images \<Rightarrow> 'w hub_images" where
  "set_host h s = s\<lparr>hi_guest := (hi_guest s)\<lparr>gu_host := h\<rparr>\<rparr>"

definition initialize_image_client ::
  "('p, 'k, 's, 'l, 'v, 'r, 'c, 'm, 'g, 'h) image_env \<Rightarrow> image_cfg \<Rightarrow> (host, image_hub_error, image_client) stateful" where
  "initialize_image_client E config = st_map_err InitializationFailed (builder_build E config)"

text \<open>\<open>OnceCell::get_or_try_init\<close>: a client that could not be made is tried again at the next request.\<close>

definition get_or_try_init ::
  "('p, 'k, 's, 'l, 'v, 'r, 'c, 'm, 'g, 'h) image_env \<Rightarrow> image_cfg \<Rightarrow> ('w hub_images, image_hub_error, image_client) stateful" where
  "get_or_try_init E config s =
     (case hi_client s of
        Some c \<Rightarrow> (Inr c, s)
      | None \<Rightarrow>
          (case initialize_image_client E config (hi_host s) of
             (Inl e, h) \<Rightarrow> (Inl e, set_host h s)
           | (Inr c, h) \<Rightarrow> (Inr c, (set_host h s)\<lparr>hi_client := Some c\<rparr>)))"

definition with_image_client ::
  "('p, 'k, 's, 'l, 'v, 'r, 'c, 'm, 'g, 'h) image_env \<Rightarrow> image_cfg \<Rightarrow>
     (image_client \<Rightarrow> ((client_error, 'a) result \<times> image_client) option) \<Rightarrow>
     'w hub_images \<Rightarrow> ((image_hub_error, 'a) result \<times> 'w hub_images) option" where
  "with_image_client E config m s =
     (case get_or_try_init E config s of
        (Inl e, s') \<Rightarrow> Some (Inl e, s')
      | (Inr c, s') \<Rightarrow>
          map_option (\<lambda>(r, c'). (map_err (ImagePull \<circ> FromClient) r, (set_host (cl_host c') s')\<lparr>hi_client := Some c'\<rparr>))
            (m (c\<lparr>cl_host := hi_host s'\<rparr>)))"

text \<open>\<open>ImageClient::pull_content\<close> pulls the image as a bundle, as \<open>pull_image\<close> does.\<close>

definition pull_content ::
  "('p, 'k, 's, 'l, 'v, 'r, 'c, 'm, 'g, 'h) image_env \<Rightarrow> string \<Rightarrow> string \<Rightarrow> string option \<Rightarrow> string option \<Rightarrow>
     image_client \<Rightarrow> ((client_error, string) result \<times> image_client) option" where
  "pull_content E image_url content_dir auth_info decrypt_config =
     pull_image E image_url content_dir auth_info decrypt_config"

definition hub_pull_image ::
  "('p, 'k, 's, 'l, 'v, 'r, 'c, 'm, 'g, 'h) image_env \<Rightarrow> image_cfg \<Rightarrow> string \<Rightarrow> string \<Rightarrow>
     'w hub_images \<Rightarrow> ((image_hub_error, string) result \<times> 'w hub_images) option" where
  "hub_pull_image E config image_url bundle_path =
     with_image_client E config (pull_image E image_url bundle_path None None)"

definition hub_pull_content ::
  "('p, 'k, 's, 'l, 'v, 'r, 'c, 'm, 'g, 'h) image_env \<Rightarrow> image_cfg \<Rightarrow> string \<Rightarrow> string \<Rightarrow>
     'w hub_images \<Rightarrow> ((image_hub_error, string) result \<times> 'w hub_images) option" where
  "hub_pull_content E config image_url content_path =
     with_image_client E config (pull_content E image_url content_path None None)"

text \<open>The guest's variant makes the client too, but the root file system comes from the image virtual machine.\<close>

definition guest_pull_image ::
  "'w guest_env \<Rightarrow> string \<Rightarrow> string \<Rightarrow> 'w guest \<Rightarrow> ((guest_error, string) result \<times> 'w guest) option" where
  "guest_pull_image G image_url bundle_dir = guest_mount_shared_rootfs G image_url bundle_dir"

definition hub_guest_pull_image ::
  "('p, 'k, 's, 'l, 'v, 'r, 'c, 'm, 'g, 'h) image_env \<Rightarrow> image_cfg \<Rightarrow> 'w guest_env \<Rightarrow> string \<Rightarrow> string \<Rightarrow>
     'w hub_images \<Rightarrow> ((image_hub_error, string) result \<times> 'w hub_images) option" where
  "hub_guest_pull_image E config G image_url bundle_path s =
     (case get_or_try_init E config s of
        (Inl e, s') \<Rightarrow> Some (Inl e, s')
      | (Inr c, s') \<Rightarrow>
          map_option (\<lambda>(r, g). (map_err (ImagePull \<circ> FromGuest) r, s'\<lparr>hi_guest := g\<rparr>))
            (guest_pull_image G image_url bundle_path (hi_guest s')))"

section \<open>The services\<close>

definition with_status ::
  "string \<Rightarrow> ((image_hub_error, 'a) result \<times> 's) option \<Rightarrow> ((rpc_status, 'a) result \<times> 's) option" where
  "with_status message = map_option (\<lambda>(r, s). (map_err (\<lambda>_. RpcStatus INTERNAL message) r, s))"

definition server_pull_image ::
  "('p, 'k, 's, 'l, 'v, 'r, 'c, 'm, 'g, 'h) image_env \<Rightarrow> image_cfg \<Rightarrow> string \<Rightarrow> string \<Rightarrow>
     'w hub_images \<Rightarrow> ((rpc_status, string) result \<times> 'w hub_images) option" where
  "server_pull_image E config image_url bundle_path s =
     with_status ''[CDH] [ERROR]: pull image failed'' (hub_pull_image E config image_url bundle_path s)"

definition server_pull_content ::
  "('p, 'k, 's, 'l, 'v, 'r, 'c, 'm, 'g, 'h) image_env \<Rightarrow> image_cfg \<Rightarrow> string \<Rightarrow> string \<Rightarrow>
     'w hub_images \<Rightarrow> ((rpc_status, string) result \<times> 'w hub_images) option" where
  "server_pull_content E config image_url content_path s =
     with_status ''[CDH] [ERROR]: pull image failed'' (hub_pull_content E config image_url content_path s)"

definition server_guest_pull_image ::
  "('p, 'k, 's, 'l, 'v, 'r, 'c, 'm, 'g, 'h) image_env \<Rightarrow> image_cfg \<Rightarrow> 'w guest_env \<Rightarrow> string \<Rightarrow> string \<Rightarrow>
     'w hub_images \<Rightarrow> ((rpc_status, string) result \<times> 'w hub_images) option" where
  "server_guest_pull_image E config G image_url bundle_path s =
     with_status ''[CDH] [ERROR]: guest_pull_image failed'' (hub_guest_pull_image E config G image_url bundle_path s)"

datatype image_request_kind = ImagePullRequest | ContentPullRequest | GuestImagePullRequest

definition image_pull_service ::
  "('p, 'k, 's, 'l, 'v, 'r, 'c, 'm, 'g, 'h) image_env \<Rightarrow> image_cfg \<Rightarrow> 'w guest_env \<Rightarrow> image_request_kind \<Rightarrow> string \<Rightarrow> string \<Rightarrow>
     'w hub_images \<Rightarrow> ((rpc_status, string) result \<times> 'w hub_images) option" where
  "image_pull_service E config G kind =
     (case kind of
        ImagePullRequest \<Rightarrow> server_pull_image E config
      | ContentPullRequest \<Rightarrow> server_pull_content E config
      | GuestImagePullRequest \<Rightarrow> server_guest_pull_image E config G)"

section \<open>The server\<close>

record 'v socket_os =
  so_exists :: "string \<Rightarrow> 'v \<Rightarrow> bool"
  so_create_dir_all :: "string \<Rightarrow> ('v, string, unit) stateful"
  so_remove_file :: "string \<Rightarrow> ('v, string, unit) stateful"
  so_bind :: "string \<Rightarrow> ('v, string, unit) stateful"

definition UNIX_SOCKET_PREFIX :: string where "UNIX_SOCKET_PREFIX = ''unix://''"

definition create_socket_parent_directory :: "'v socket_os \<Rightarrow> string \<Rightarrow> ('v, string, unit) stateful" where
  "create_socket_parent_directory S unix_socket_file =
     st_then (lift_result (ok_or ''The file path does not have a parent directory.'' (path_parent unix_socket_file)))
       (\<lambda>parent_directory. so_create_dir_all S parent_directory)"

definition clean_previous_socket :: "'v socket_os \<Rightarrow> string \<Rightarrow> ('v, string, unit) stateful" where
  "clean_previous_socket S unix_socket_file v =
     (if so_exists S unix_socket_file v then so_remove_file S unix_socket_file v else (Inr (), v))"

definition cdh_server_main ::
  "('w, 'b, 'sk, 'pt, 'rk) cdh_env \<Rightarrow> hub_fs \<Rightarrow> ('w, 'sk, 'rk) cdh_world socket_os \<Rightarrow> (config_error, 'i cdh_config) result \<Rightarrow>
     (('w, 'sk, 'rk) cdh_world, string, (string \<times> string) list \<times> 'i cdh_config) stateful" where
  "cdh_server_main E F S config_read =
     st_then (lift_result (map_err (\<lambda>_. ''config'') config_read)) (\<lambda>config.
     st_then (lift_result (ok_or ''socket address scheme is not expected'' (strip_prefix UNIX_SOCKET_PREFIX (cc_socket config)))) (\<lambda>path.
     st_then (create_socket_parent_directory S path) (\<lambda>_.
     st_then (clean_previous_socket S path) (\<lambda>_.
     st_then (st_map_err (\<lambda>_. ''create CDH instance'') (hub_new E F config)) (\<lambda>hub.
     st_then (st_map_err (\<lambda>_. ''cannot bind cdh ttrpc service'') (so_bind S (cc_socket config))) (\<lambda>_.
     st_ok hub))))))"

section \<open>The one-shot version\<close>

text \<open>
  A failed call is repeated until it has failed more often than the option \<open>retry\<close> says; the number of
  the attempt is a \<open>u32\<close>, and wraps in a release build. \<open>None\<close>: the loop does not end.
\<close>

partial_function (option) oneshot_attempts ::
  "('v, 'e, 'a) stateful \<Rightarrow> 32 word \<Rightarrow> 32 word \<Rightarrow> 'v \<Rightarrow> (('e, 'a) result \<times> 'v) option" where
  "oneshot_attempts call retry tried v =
     (case call v of
        (Inr a, v') \<Rightarrow> Some (Inr a, v')
      | (Inl e, v') \<Rightarrow> if retry < tried then Some (Inl e, v') else oneshot_attempts call retry (tried + 1) v')"

definition attempt_and_print ::
  "(bytes \<Rightarrow> string) \<Rightarrow> string \<Rightarrow> ('v, 'e, bytes) stateful \<Rightarrow> 32 word \<Rightarrow> 'v \<Rightarrow> ((string, string) result \<times> 'v) option" where
  "attempt_and_print base64 panic call retry v =
     map_option (\<lambda>(r, v'). (case r of Inr b \<Rightarrow> Inr (base64 b) | Inl _ \<Rightarrow> Inl panic, v')) (oneshot_attempts call retry 1 v)"

datatype oneshot_operation = UnsealSecretOp string | UnwrapKeyOp string | GetResourceOp string

text \<open>The operations of the hub that are repeated; \<open>Inl\<close> is a panic, \<open>Inr\<close> the line that is printed.\<close>

definition oneshot_operate ::
  "('w, 'b, 'sk, 'pt, 'rk) cdh_env \<Rightarrow> secret_codec \<Rightarrow> (bytes \<Rightarrow> annotation_packet_v2 option) \<Rightarrow> (bytes \<Rightarrow> string) \<Rightarrow> 32 word \<Rightarrow>
     oneshot_operation \<Rightarrow> ('w, 'sk, 'rk) cdh_world \<Rightarrow> ((string, string) result \<times> ('w, 'sk, 'rk) cdh_world) option" where
  "oneshot_operate E J from_json base64 retry op W =
     (case op of
        UnsealSecretOp path \<Rightarrow>
          (case cw_files W path of
             None \<Rightarrow> Some (Inl ''read secret file'', W)
           | Some secret \<Rightarrow> attempt_and_print base64 ''failed to unseal secret'' (hub_unseal_secret E J secret) retry W)
      | UnwrapKeyOp path \<Rightarrow>
          (case cw_files W path of
             None \<Rightarrow> Some (Inl ''read annotation packet file'', W)
           | Some packet \<Rightarrow> attempt_and_print base64 ''failed to unwrap key'' (hub_unwrap_key E from_json packet) retry W)
      | GetResourceOp uri \<Rightarrow> attempt_and_print base64 ''failed to get resource'' (hub_get_resource E uri) retry W)"

definition oneshot_main ::
  "('w, 'b, 'sk, 'pt, 'rk) cdh_env \<Rightarrow> hub_fs \<Rightarrow> secret_codec \<Rightarrow> (bytes \<Rightarrow> annotation_packet_v2 option) \<Rightarrow> (bytes \<Rightarrow> string) \<Rightarrow>
     (config_error, 'i cdh_config) result \<Rightarrow> 32 word \<Rightarrow> oneshot_operation \<Rightarrow>
     ('w, 'sk, 'rk) cdh_world \<Rightarrow> ((string, string) result \<times> ('w, 'sk, 'rk) cdh_world) option" where
  "oneshot_main E F J from_json base64 config_read retry op W =
     (case config_read of
        Inl _ \<Rightarrow> Some (Inl ''failed to initialize cdh config'', W)
      | Inr config \<Rightarrow>
          (case hub_new E F config (W\<lparr>cw_env := set_configuration_envs config (cw_env W)\<rparr>) of
             (Inl _, W') \<Rightarrow> Some (Inl ''failed to start CDH'', W')
           | (Inr _, W') \<Rightarrow> oneshot_operate E J from_json base64 retry op W'))"

text \<open>Mounting and pulling are tried once.\<close>

definition oneshot_secure_mount ::
  "bool \<Rightarrow> ('w, 'b, 'sk, 'pt, 'rk) cdh_env \<Rightarrow> secret_codec \<Rightarrow> 'x volume_os \<Rightarrow> (bytes \<Rightarrow> storage option) \<Rightarrow> bytes option \<Rightarrow>
     (('x, 'w, 'sk, 'rk) volume_world, string, string) stateful" where
  "oneshot_secure_mount aliyun E J S storage_json manifest_file =
     st_then (lift_result (ok_or ''read file'' manifest_file)) (\<lambda>storage_manifest.
     st_then (lift_result (ok_or ''deserialize Storage'' (storage_json storage_manifest))) (\<lambda>s.
     st_then (st_map_err (\<lambda>_. ''failed to secure mount'') (hub_secure_mount aliyun E J S s)) (\<lambda>res.
     st_ok (''mount path: '' @ res))))"

definition oneshot_pull_image ::
  "('p, 'k, 's, 'l, 'v, 'r, 'c, 'm, 'g, 'h) image_env \<Rightarrow> image_cfg \<Rightarrow> string \<Rightarrow> string \<Rightarrow>
     'w hub_images \<Rightarrow> ((string, string) result \<times> 'w hub_images) option" where
  "oneshot_pull_image E config image_url bundle_path s =
     map_option (\<lambda>(r, s'). (case r of Inr d \<Rightarrow> Inr (''image digest: '' @ d) | Inl _ \<Rightarrow> Inl ''failed to pull image'', s'))
       (hub_pull_image E config image_url bundle_path s)"

section \<open>The command line client\<close>

text \<open>
  The services as the client sees them; each call has a time limit in nanoseconds, an \<open>i64\<close>. What the
  client prints of its requests while it works is left out.
\<close>

record 'v cdh_rpc =
  rpc_unseal_secret :: "64 word \<Rightarrow> bytes \<Rightarrow> ('v, rpc_status, bytes) stateful"
  rpc_un_wrap_key :: "64 word \<Rightarrow> bytes \<Rightarrow> ('v, rpc_status, bytes) stateful"
  rpc_get_resource :: "64 word \<Rightarrow> string \<Rightarrow> ('v, rpc_status, bytes) stateful"
  rpc_secure_mount :: "64 word \<Rightarrow> storage \<Rightarrow> ('v, rpc_status, string) stateful"
  rpc_image_pull :: "64 word \<Rightarrow> image_request_kind \<Rightarrow> string \<Rightarrow> string \<Rightarrow> ('v, rpc_status, string) stateful"

definition NANO_PER_SECOND :: "64 word" where "NANO_PER_SECOND = 1000 * 1000 * 1000"

text \<open>\<open>ImagePullService::new\<close> multiplies the time limit, which \<open>main\<close> has in nanoseconds already.\<close>

definition image_pull_service_timeout :: "64 word \<Rightarrow> 64 word" where
  "image_pull_service_timeout timeout = timeout * NANO_PER_SECOND"

datatype tool_operation =
    ToolUnsealSecret "bytes option"
  | ToolUnwrapKey "bytes option"
  | ToolGetResource string
  | ToolSecureMount "bytes option"
  | ToolPull image_request_kind string string

definition tool_pull_message :: "image_request_kind \<Rightarrow> string" where
  "tool_pull_message kind =
     (case kind of
        ImagePullRequest \<Rightarrow> ''image pull success:''
      | ContentPullRequest \<Rightarrow> ''content pull success:''
      | GuestImagePullRequest \<Rightarrow> ''guest pull image success:'')"

definition tool_unwrap_key ::
  "'v cdh_rpc \<Rightarrow> (bytes \<Rightarrow> string) \<Rightarrow> 64 word \<Rightarrow> bytes option \<Rightarrow> ('v, string, string) stateful" where
  "tool_unwrap_key R base64 timeout_image_pull input_file =
     st_then (lift_result (ok_or ''read file'' input_file)) (\<lambda>input.
     st_then (st_map_err (\<lambda>_. ''request to CDH'') (rpc_un_wrap_key R timeout_image_pull input)) (\<lambda>output.
     st_ok (base64 output)))"

definition tool_main ::
  "'v cdh_rpc \<Rightarrow> (bytes \<Rightarrow> string) \<Rightarrow> (bytes \<Rightarrow> storage option) \<Rightarrow> 64 word \<Rightarrow> tool_operation \<Rightarrow> ('v, string, string list) stateful" where
  "tool_main R base64 storage_json timeout op =
     (let request_timeout = timeout * NANO_PER_SECOND;
          timeout_image_pull = image_pull_service_timeout request_timeout
      in case op of
        ToolUnsealSecret secret_file \<Rightarrow>
          st_then (lift_result (ok_or ''read file'' secret_file)) (\<lambda>secret.
          st_then (st_map_err (\<lambda>_. ''request to CDH'') (rpc_unseal_secret R request_timeout secret)) (\<lambda>plaintext.
          st_ok [base64 plaintext]))
      | ToolUnwrapKey input_file \<Rightarrow>
          st_then (tool_unwrap_key R base64 timeout_image_pull input_file) (\<lambda>res. st_ok [res, res])
      | ToolGetResource uri \<Rightarrow>
          st_then (st_map_err (\<lambda>_. ''request to CDH'') (rpc_get_resource R request_timeout uri)) (\<lambda>resource.
          st_ok [base64 resource])
      | ToolSecureMount manifest_file \<Rightarrow>
          st_then (lift_result (ok_or ''read file'' manifest_file)) (\<lambda>storage_manifest.
          st_then (lift_result (ok_or ''deserialize Storage'' (storage_json storage_manifest))) (\<lambda>s.
          st_then (st_map_err (\<lambda>_. ''request to CDH'') (rpc_secure_mount R request_timeout s)) (\<lambda>mount_path.
          st_ok [''mount path: '' @ mount_path])))
      | ToolPull kind image_url path \<Rightarrow>
          st_then (st_map_err (\<lambda>_. ''pull'') (rpc_image_pull R timeout_image_pull kind image_url path)) (\<lambda>digest.
          st_ok [tool_pull_message kind @ digest]))"

section \<open>What the services keep\<close>

text \<open>
  A history of the services: requests in any order, successful or not, in environments of \<open>Es\<close>, while
  everything else of the host and of the connection may change between them. The image client finds no
  images of an earlier client on the disk when it is made.
\<close>

definition made_empty :: "('p, 'k, 's, 'l, 'v, 'r, 'c, 'm, 'g, 'h) image_env \<Rightarrow> image_cfg \<Rightarrow> 'w hub_images \<Rightarrow> bool" where
  "made_empty E config s \<longleftrightarrow>
     (case fst (initialize_image_client E config (hi_host s)) of Inr c \<Rightarrow> cl_meta c = meta_store_default | Inl _ \<Rightarrow> True)"

inductive service_run ::
  "('p, 'k, 's, 'l, 'v, 'r, 'c, 'm, 'g, 'h) image_env set \<Rightarrow> image_cfg \<Rightarrow> 'w hub_images \<Rightarrow> bool" for Es config where
  start: "hi_client s = None \<Longrightarrow> service_run Es config s"
| request: "service_run Es config s \<Longrightarrow> E \<in> Es \<Longrightarrow> hi_client s = None \<longrightarrow> made_empty E config s \<Longrightarrow>
    image_pull_service E config G kind image_url path s = Some (r, s') \<Longrightarrow> service_run Es config s'"
| elsewhere: "service_run Es config s \<Longrightarrow> service_run Es config (s\<lparr>hi_guest := g\<rparr>)"

text \<open>The policy of a client is the one that the resource provider gave for the URI of the configuration.\<close>

definition configured_policy ::
  "('p, 'k, 's, 'l, 'v, 'r, 'c, 'm, 'g, 'h) image_env set \<Rightarrow> image_cfg \<Rightarrow> validator option \<Rightarrow> bool" where
  "configured_policy Es config V \<longleftrightarrow>
     (case ic_image_security_policy_uri config of
        None \<Rightarrow> V = None
      | Some uri \<Rightarrow> (\<exists>E\<in>Es. \<exists>provider policy sigstore h h' v. V = Some v \<and>
          provider_get_resource (ie_resource E) provider uri h = (Inr policy, h') \<and>
          validator_new (ie_sig E) policy sigstore (ic_work_dir config) (ic_skip_proxy_ips config)
            (ic_image_pull_proxy config) (ic_extra_root_certificates config) = Inr v))"

lemma built_client_policy:
  assumes "builder_build E config h = (Inr c, h')" and "E \<in> Es"
  shows "configured_policy Es config (cl_validator c)"
proof (cases "ic_image_security_policy_uri config")
  case None
  then show ?thesis using assms(1) by (auto simp: builder_build_def optional_resource_def result_iff configured_policy_def)
next
  case (Some uri)
  then have "\<exists>provider policy sigstore h h' v. cl_validator c = Some v \<and>
      provider_get_resource (ie_resource E) provider uri h = (Inr policy, h') \<and>
      validator_new (ie_sig E) policy sigstore (ic_work_dir config) (ic_skip_proxy_ips config)
        (ic_image_pull_proxy config) (ic_extra_root_certificates config) = Inr v"
    using assms(1) by (fastforce simp: builder_build_def optional_resource_def result_iff)
  then show ?thesis using assms(2) by (simp add: configured_policy_def Some) (rule bexI [of _ E], blast+)
qed

lemma init_cases:
  assumes "get_or_try_init E config s = (x, s1)"
  obtains (failed) e where "x = Inl e" "hi_client s1 = None"
    | (found) c where "x = Inr c" "hi_client s = Some c" "s1 = s"
    | (made) c h where "x = Inr c" "hi_client s = None" "hi_client s1 = Some c"
        "initialize_image_client E config (hi_host s) = (Inr c, h)"
  using assms
  by (auto simp: get_or_try_init_def set_host_def split: option.split_asm prod.split_asm sum.split_asm)

lemma with_client_cases:
  assumes "with_image_client E config m s = Some (r, s')"
  obtains (failed) "hi_client s' = None"
    | (used) c s1 h r' c' where "get_or_try_init E config s = (Inr c, s1)" "m (c\<lparr>cl_host := h\<rparr>) = Some (r', c')"
        "hi_client s' = Some c'"
proof (cases "get_or_try_init E config s")
  case (Pair x s1)
  then show ?thesis
  proof (cases x)
    case (Inl e)
    have "hi_client s1 = None" using Pair Inl by (cases rule: init_cases) auto
    then show ?thesis using assms Pair Inl failed by (simp add: with_image_client_def)
  next
    case (Inr c)
    then show ?thesis using assms Pair used by (auto simp: with_image_client_def)
  qed
qed

definition service_invariant ::
  "('p, 'k, 's, 'l, 'v, 'r, 'c, 'm, 'g, 'h) image_env set \<Rightarrow> image_cfg \<Rightarrow> image_client option \<Rightarrow> bool" where
  "service_invariant Es config cell \<longleftrightarrow>
     (\<forall>c. cell = Some c \<longrightarrow> configured_policy Es config (cl_validator c) \<and> client_run Es (cl_validator c) c)"

lemma init_keeps_invariant:
  assumes "get_or_try_init E config s = (x, s1)" and "service_invariant Es config (hi_client s)" and "E \<in> Es"
    and "hi_client s = None \<longrightarrow> made_empty E config s"
  shows "service_invariant Es config (hi_client s1)" "x = Inr c \<Longrightarrow> hi_client s1 = Some c"
proof -
  show "service_invariant Es config (hi_client s1)"
    using assms(1)
  proof (cases rule: init_cases)
    case (made c h)
    then have "builder_build E config (hi_host s) = (Inr c, h)" by (simp add: initialize_image_client_def result_iff)
    from built_client_policy [OF this assms(3)] have "configured_policy Es config (cl_validator c)" .
    moreover have "client_run Es (cl_validator c) c"
      using made assms(4) by (auto simp: made_empty_def intro: client_run.fresh)
    ultimately show ?thesis using made(3) by (simp add: service_invariant_def)
  qed (use assms(2) in \<open>simp_all add: service_invariant_def\<close>)
  show "x = Inr c \<Longrightarrow> hi_client s1 = Some c" using assms(1) by (cases rule: init_cases) auto
qed

lemma pull_keeps_invariant:
  assumes "\<And>E. E \<in> Es \<Longrightarrow> hash_laws (le_hashes (ie_pull E))" and "E \<in> Es" and "service_invariant Es config (Some c)"
    and "pull_image E image_url path None None (c\<lparr>cl_host := h\<rparr>) = Some (r, c')"
  shows "service_invariant Es config (Some c')"
proof -
  have run: "client_run Es (cl_validator c) c" using assms(3) by (simp add: service_invariant_def)
  have "client_run Es (cl_validator c) c'"
    by (rule client_run.pull [OF client_run.elsewhere [OF run, of h] assms(2,4)])
  moreover from run_trusted [OF assms(1) this] have "cl_validator c' = cl_validator c" by (simp add: client_trusted_def)
  ultimately show ?thesis using assms(3) by (simp add: service_invariant_def)
qed

lemma request_keeps_invariant:
  assumes laws: "\<And>E. E \<in> Es \<Longrightarrow> hash_laws (le_hashes (ie_pull E))" and E: "E \<in> Es"
    and inv: "service_invariant Es config (hi_client s)" and empty: "hi_client s = None \<longrightarrow> made_empty E config s"
    and req: "image_pull_service E config G kind image_url path s = Some (r, s')"
  shows "service_invariant Es config (hi_client s')"
proof -
  have pull: "service_invariant Es config (hi_client s')"
    if "with_image_client E config (pull_image E image_url path None None) s = Some (r', s')" for r'
    using that
  proof (cases rule: with_client_cases)
    case failed
    then show ?thesis by (simp add: service_invariant_def)
  next
    case (used c s1 h r' c')
    note init = init_keeps_invariant [OF used(1) inv E empty]
    from init(1) init(2) [OF refl] have "service_invariant Es config (Some c)" by simp
    from pull_keeps_invariant [OF laws E this used(2)] show ?thesis using used(3) by simp
  qed
  have guest: "service_invariant Es config (hi_client s')"
    if hub: "hub_guest_pull_image E config G image_url path s = Some (r', s')" for r'
  proof -
    obtain x s1 where init: "get_or_try_init E config s = (x, s1)" by fastforce
    then have "hi_client s' = hi_client s1"
      using hub by (auto simp: hub_guest_pull_image_def split: sum.split_asm)
    then show ?thesis using init_keeps_invariant(1) [OF init inv E empty] by simp
  qed
  show ?thesis
  proof (cases kind)
    case GuestImagePullRequest
    then show ?thesis using req guest by (auto simp: image_pull_service_def server_guest_pull_image_def with_status_def)
  qed (use req pull in \<open>auto simp: image_pull_service_def server_pull_image_def server_pull_content_def hub_pull_image_def
      hub_pull_content_def pull_content_def [abs_def] with_status_def\<close>)
qed

lemma service_run_invariant:
  assumes "\<And>E. E \<in> Es \<Longrightarrow> hash_laws (le_hashes (ie_pull E))"
  shows "service_run Es config s \<Longrightarrow> service_invariant Es config (hi_client s)"
proof (induction rule: service_run.induct)
  case (start s)
  then show ?case by (simp add: service_invariant_def)
next
  case (request s E G kind image_url path r s')
  show ?case by (rule request_keeps_invariant [OF assms request.hyps(2) request.IH request.hyps(3,4)])
qed simp


section \<open>Repeated attempts\<close>

primrec after_calls :: "('v, 'e, 'a) stateful \<Rightarrow> nat \<Rightarrow> 'v \<Rightarrow> 'v" where
  "after_calls call 0 v = v"
| "after_calls call (Suc n) v = after_calls call n (snd (call v))"

text \<open>From attempt \<open>tried\<close> on, a bounded number of calls decides: all but the last fail.\<close>

lemma attempts_from:
  assumes "retry \<noteq> -1" and "unat tried + k = unat retry + 1"
  shows "\<exists>n\<le>k. oneshot_attempts call retry tried v = Some (call (after_calls call n v)) \<and>
    (\<forall>j<n. \<not> is_ok (fst (call (after_calls call j v)))) \<and> (is_ok (fst (call (after_calls call n v))) \<or> n = k)"
  using assms
proof (induction k arbitrary: tried v)
  case 0
  then have "retry < tried" by (simp add: word_less_nat_alt)
  then show ?case by (simp add: oneshot_attempts.simps split: prod.split sum.split)
next
  case (Suc k)
  then have le: "\<not> retry < tried" by (simp add: word_less_nat_alt)
  have "retry < -1" using Suc.prems(1) word_order.not_eq_extremum by auto
  then have max: "unat retry < unat (-1 :: 32 word)" by (simp add: word_less_nat_alt)
  moreover have "unat (-1 :: 32 word) = 4294967295" by (simp add: unsigned_minus_1_eq_mask mask_eq_exp_minus_1)
  ultimately have next_tried: "unat (tried + 1) + k = unat retry + 1"
    using Suc.prems(2) by (simp add: unat_word_ariths)
  show ?case
  proof (cases "call v")
    case (Pair r v')
    show ?thesis
    proof (cases r)
      case (Inr a)
      then have "oneshot_attempts call retry tried v = Some (call v)"
        using Pair by (subst oneshot_attempts.simps) simp
      then show ?thesis using Pair Inr by (intro exI [of _ 0]) simp
    next
      case (Inl e)
      have step: "oneshot_attempts call retry tried v = oneshot_attempts call retry (tried + 1) v'"
        using Pair Inl le by (subst oneshot_attempts.simps) simp
      obtain n where n: "n \<le> k" "oneshot_attempts call retry (tried + 1) v' = Some (call (after_calls call n v'))"
        "\<forall>j<n. \<not> is_ok (fst (call (after_calls call j v')))" "is_ok (fst (call (after_calls call n v'))) \<or> n = k"
        using Suc.IH [OF Suc.prems(1) next_tried] by blast
      have "\<forall>j<Suc n. \<not> is_ok (fst (call (after_calls call j v)))"
        using n(3) Pair Inl by (auto simp: less_Suc_eq_0_disj)
      then show ?thesis using n step Pair by (intro exI [of _ "Suc n"]) simp
    qed
  qed
qed

text \<open>
  The one-shot version makes at most one call more than its option says, ends with the result of the
  last one, and stops at the first success, unless the option is the greatest number of its type.
\<close>

lemma oneshot_calls_bounded:
  assumes "retry \<noteq> -1"
  shows "\<exists>n\<le>unat retry. oneshot_attempts call retry 1 v = Some (call (after_calls call n v)) \<and>
    (\<forall>j<n. \<not> is_ok (fst (call (after_calls call j v)))) \<and> (is_ok (fst (call (after_calls call n v))) \<or> n = unat retry)"
  using attempts_from [OF assms, of 1 "unat retry" call v] by simp

text \<open>With the greatest number the counter wraps before the comparison can succeed: the loop never ends.\<close>

lemma oneshot_greatest_retry_hangs:
  fixes call :: "('v, 'e, 'a) stateful"
  assumes "\<And>v. \<not> is_ok (fst (call v))"
  shows "oneshot_attempts call (-1) tried v = None"
proof -
  have "retry \<noteq> -1" if run: "oneshot_attempts call retry tried v = Some y" and fails: "\<forall>v. \<not> is_ok (fst (call v))"
    for call :: "('v, 'e, 'a) stateful" and retry tried v y
  proof -
    have "(\<forall>v. \<not> is_ok (fst (call v))) \<longrightarrow> retry \<noteq> -1"
    proof (rule oneshot_attempts.raw_induct [of "\<lambda>call retry tried v y. (\<forall>v. \<not> is_ok (fst (call v))) \<longrightarrow> retry \<noteq> -1", OF _ run], rule impI)
      fix again :: "('v, 'e, 'a) stateful \<Rightarrow> 32 word \<Rightarrow> 32 word \<Rightarrow> 'v \<Rightarrow> (('e, 'a) result \<times> 'v) option"
        and call :: "('v, 'e, 'a) stateful" and retry tried v y
      assume IH: "\<And>call retry tried v y. again call retry tried v = Some y \<Longrightarrow> (\<forall>v. \<not> is_ok (fst (call v))) \<longrightarrow> retry \<noteq> -1"
        and body: "(case call v of (Inl e, v') \<Rightarrow> if retry < tried then Some (Inl e, v') else again call retry (tried + 1) v'
          | (Inr a, v') \<Rightarrow> Some (Inr a, v')) = Some y"
        and fails: "\<forall>v. \<not> is_ok (fst (call v))"
      obtain e v' where v: "call v = (Inl e, v')" using fails [THEN spec, of v] by (cases "call v"; cases "fst (call v)") auto
      show "retry \<noteq> -1"
      proof (cases "retry < tried")
        case True
        then show ?thesis using word_order.extremum_strict by blast
      next
        case False
        then show ?thesis using body v IH [of call retry "tried + 1" v' y] fails by simp
      qed
    qed
    then show ?thesis using fails by blast
  qed
  then show ?thesis using assms by (cases "oneshot_attempts call (-1) tried v") blast+
qed

text \<open>The default time limit of fifty seconds becomes negative for the image services and \<open>UnwrapKey\<close>.\<close>

lemma tool_timeout_negative: "sint (image_pull_service_timeout (50 * NANO_PER_SECOND)) < 0"
  by (simp add: image_pull_service_timeout_def NANO_PER_SECOND_def)

section \<open>An example history\<close>

text \<open>The registry is out of reach at the first request, so the client is made and nothing pulled.\<close>

definition demo_offline_env :: "(bytes, bytes, bytes, unit, unit, string, unit, bytes, unit, bytes) image_env" where
  "demo_offline_env = demo_image_env\<lparr>
     ie_sig := demo_sig_env\<lparr>se_policy_json := \<lambda>b. Inr \<lparr>pol_default = [Accept], pol_transports = Map.empty\<rparr>\<rparr>,
     ie_resource := demo_resource_env (\<lambda>u h. Inr ''policy''),
     ie_registry_client := \<lambda>c. Inl ''offline'',
     ie_exists_dir := \<lambda>h d. True, ie_read_dir := \<lambda>h d. Inr [Inr \<lparr>de_name = ''3'', de_is_dir = Inr True\<rparr>]\<rparr>"

definition demo_hub_images :: "'w guest \<Rightarrow> 'w hub_images" where
  "demo_hub_images g = \<lparr>hi_client = None, hi_guest = g\<lparr>gu_host := demo_host\<rparr>\<rparr>"

lemma demo_client_built:
  "\<exists>h. builder_build demo_offline_env demo_image_cfg demo_host = (Inr (demo_image_client\<lparr>cl_host := h\<rparr>), h)"
proof -
  have cfg: "ic_work_dir demo_image_cfg = ''/w''" "ic_authenticated_registry_credentials_uri demo_image_cfg = None"
    "ic_sigstore_config_uri demo_image_cfg = None" "ic_image_security_policy_uri demo_image_cfg = Some ''kbs:///a/b/c''"
    "ic_skip_proxy_ips demo_image_cfg = None" "ic_image_pull_proxy demo_image_cfg = None"
    "ic_extra_root_certificates demo_image_cfg = []"
    by (simp_all add: demo_image_cfg_def image_cfg_new_def image_cfg_default_def)
  let ?R = "demo_resource_env (\<lambda>u h. Inr ''policy'')"
  let ?h1 = "demo_host\<lparr>h_dirs := (h_dirs demo_host)(''/w/image-security/kbs'' := True)\<rparr>"
  let ?h2 = "?h1\<lparr>h_files := (h_files ?h1)(''/w/image-security/kbs/kbs:///a/b/c'' \<mapsto> \<lparr>hf_data = ''policy'', hf_mtime = 0\<rparr>)\<rparr>"
  let ?ch = "\<lparr>sch_storage_path = ''/w/image-security/kbs''\<rparr>"
  have new: "provider_new ?R ''/w'' demo_host = (Inr (Some ?ch), ?h1)"
    by (simp add: provider_new_def secure_channel_new_def demo_resource_env_def st_then_def st_map_err_def host_mkdir_def
        STORAGE_PATH_def path_join_def starts_with_iff Let_def)
  have path: "get_filepath ?R ?ch ''kbs:///a/b/c'' = ''/w/image-security/kbs/kbs:///a/b/c''"
    by (simp add: get_filepath_def demo_resource_env_def demo_host_env_def path_join_def starts_with_iff)
  have get: "provider_get_resource ?R (Some ?ch) ''kbs:///a/b/c'' ?h1 = (Inr ''policy'', ?h2)"
    by (simp add: provider_get_resource_def Let_def demo_resource_env_def channel_get_cases check_local_def path
        [unfolded demo_resource_env_def] is_file_def is_dir_def demo_host_def host_write_def split_once_str.simps)
  have valid: "validator_new (ie_sig demo_offline_env) ''policy'' None ''/w'' None None [] = Inr demo_accepting_validator"
    by (simp add: validator_new_def demo_offline_env_def demo_sig_env_def demo_accepting_validator_def demo_validator_def)
  have "utf8_valid ''3''" by (rule utf8_valid_ascii) (simp add: is_ascii_str_def)
  moreover have "nat_str 3 = ''3''" by code_simp
  ultimately have three: "from_utf8 ''3'' = Some ''3''" "parse_usize ''3'' = Some 3"
    using parse_usize_nat_str [of 3] by (simp_all add: from_utf8_def)
  have store: "layer_store_new ''/w'' (ie_exists_dir demo_offline_env h) (ie_read_dir demo_offline_env h) =
      Inr \<lparr>ls_data_dir = ''/w/layers'', ls_index = 4\<rparr>" for h
    by (simp add: demo_offline_env_def layer_store_new_def Let_def get_layer_index_def layer_index_step_def three path_join_def
        starts_with_iff)
  have meta: "\<exists>e. meta_store_try_from demo_offline_env (path_join ''/w'' METAFILE) ?h2 = Inl e"
    by (simp add: meta_store_try_from_def demo_offline_env_def demo_resource_env_def host_read_def METAFILE_def path_join_def
        starts_with_iff demo_host_def)
  show ?thesis
    using meta
    by (auto simp: builder_build_def cfg optional_resource_def st_then_def st_map_err_def lift_result_def new get valid store
        demo_image_client_def demo_offline_env_def [THEN arg_cong, of ie_resource])
qed

lemma demo_offline_pull:
  "\<exists>e. pull_image demo_offline_env ''r.io:5000/a/b:1'' ''/b2'' None None (demo_image_client\<lparr>cl_host := h\<rparr>) =
     Some (Inl e, demo_image_client\<lparr>cl_host := h\<rparr>)"
  by (simp add: pull_image_def image_request_for_def demo_offline_env_def demo_image_env_def demo_sig_env_def demo_parse_def
      choose_auth_def demo_image_client_def)

lemma demo_first_request:
  "\<exists>r h s. image_pull_service demo_offline_env demo_image_cfg G ImagePullRequest ''r.io:5000/a/b:1'' ''/b2'' (demo_hub_images g) =
     Some (r, s) \<and> hi_client s = Some (demo_image_client\<lparr>cl_host := h\<rparr>)"
proof -
  obtain h where "builder_build demo_offline_env demo_image_cfg demo_host = (Inr (demo_image_client\<lparr>cl_host := h\<rparr>), h)"
    using demo_client_built by blast
  then have "get_or_try_init demo_offline_env demo_image_cfg (demo_hub_images g) =
      (Inr (demo_image_client\<lparr>cl_host := h\<rparr>), (set_host h (demo_hub_images g))\<lparr>hi_client := Some (demo_image_client\<lparr>cl_host := h\<rparr>)\<rparr>)"
    by (simp add: get_or_try_init_def demo_hub_images_def initialize_image_client_def st_map_err_def hi_host_def)
  then show ?thesis
    using demo_offline_pull [of h]
    by (auto simp: image_pull_service_def server_pull_image_def with_status_def hub_pull_image_def with_image_client_def
        hi_host_def set_host_def)
qed

lemma demo_second_request:
  assumes "hi_client s = Some (demo_image_client\<lparr>cl_host := h\<rparr>)" and "hi_host s = demo_host"
  shows "\<exists>r s'. image_pull_service demo_image_env demo_image_cfg G ImagePullRequest ''r.io:5000/a/b:1'' ''/b2'' s = Some (r, s') \<and>
     hi_client s' = Some (snd demo_pulled)"
proof -
  have "demo_image_client\<lparr>cl_host := demo_host\<rparr> = demo_image_client" by (simp add: demo_image_client_def)
  moreover obtain r c where p: "demo_pulled = (r, c)" by fastforce
  ultimately show ?thesis
    using assms demo_pull_image [unfolded p]
    by (simp add: p image_pull_service_def server_pull_image_def with_status_def hub_pull_image_def
        with_image_client_def get_or_try_init_def set_host_def)
qed


definition counting_down :: "(nat, unit, string) stateful" where
  "counting_down n = (if n = 0 then (Inr ''key'', 0) else (Inl (), n - 1))"

lemma oneshot_calls_bounded_witness: "oneshot_attempts counting_down 3 1 2 = Some (Inr ''key'', 0)"
proof -
  obtain n where n: "n \<le> unat (3 :: 32 word)" "oneshot_attempts counting_down 3 1 2 = Some (counting_down (after_calls counting_down n 2))"
    "\<forall>j<n. \<not> is_ok (fst (counting_down (after_calls counting_down j 2)))"
    "is_ok (fst (counting_down (after_calls counting_down n 2))) \<or> n = unat (3 :: 32 word)"
    using oneshot_calls_bounded [of 3 counting_down 2] by auto
  have two: "after_calls counting_down 2 2 = 0" "after_calls counting_down 1 2 = 1"
    by (simp_all add: numeral_2_eq_2 counting_down_def)
  have "\<not> 2 < n" using n(3) two by (auto simp: counting_down_def)
  moreover have "\<not> is_ok (fst (counting_down (after_calls counting_down 0 2)))"
    "\<not> is_ok (fst (counting_down (after_calls counting_down 1 2)))" "unat (3 :: 32 word) = 3"
    using two by (simp_all add: counting_down_def)
  then have "n \<noteq> 0 \<and> n \<noteq> 1" using n(4) by (metis zero_neq_numeral one_eq_numeral_iff num.distinct(3))
  ultimately have "n = 2" by linarith
  then show ?thesis using n(2) two by (simp add: counting_down_def)
qed

end
