(* ===== verification/Coco_Keyprovider.thy ===== *)
theory Coco_Keyprovider
  imports Hub_Server
begin

text \<open>
  \<open>attestation-agent/coco_keyprovider\<close>: the key provider that encrypts the key of an image layer and
  writes the annotation packet for it. Randomness, files, the signature of the registration token and
  the HTTP client are parameters; the calls into the crates \<open>aes_gcm\<close> and \<open>ctr\<close> are those of the guest
  crypto theory.
\<close>

section \<open>Encryption\<close>

datatype kp_algorithm = A256GCM | A256CTR

fun kp_algorithm_str :: "kp_algorithm \<Rightarrow> string" where
  "kp_algorithm_str A256GCM = ''A256GCM''"
| "kp_algorithm_str A256CTR = ''A256CTR''"

definition kp_algorithm_try_from :: "string \<Rightarrow> kp_algorithm option" where
  "kp_algorithm_try_from s =
     (if s = ''A256GCM'' then Some A256GCM else if s = ''A256CTR'' then Some A256CTR else None)"

definition kp_algorithm_default :: kp_algorithm where "kp_algorithm_default = A256GCM"

fun kp_encrypt ::
  "('sk, 'pt, 'rk) rust_crates \<Rightarrow> bytes \<Rightarrow> bytes \<Rightarrow> bytes \<Rightarrow> kp_algorithm \<Rightarrow> (crypto_error, bytes) result" where
  "kp_encrypt R data key iv A256GCM =
     and_then (array_from_slice 32 key) (\<lambda>encryption_key.
     and_then (array_from_slice 12 iv) (\<lambda>nonce.
      ok_or (CryptoLib ''Decrypt failed'') (rc_encrypt R encryption_key nonce data)))"
| "kp_encrypt R data key iv A256CTR =
     and_then (array_from_slice 32 key) (\<lambda>key.
     and_then (array_from_slice 16 iv) (\<lambda>iv. Inr (rc_keystream R key iv data)))"

section \<open>Parameters\<close>

record input_params =
  ip_sample :: bool
  ip_keyid :: "string option"
  ip_keypath :: "string option"
  ip_algorithm :: kp_algorithm

definition input_fields :: "string \<Rightarrow> string \<rightharpoonup> string" where
  "input_fields input = map_of (rev (List.map_filter (split_once (CHR ''='')) (split_str ''::'' input)))"

text \<open>The algorithm is looked up under the key of the path.\<close>

definition parse_input_params :: "string \<Rightarrow> input_params" where
  "parse_input_params input =
     (let m = input_fields input
      in \<lparr>ip_sample = (m ''sample'' = Some ''true''), ip_keyid = m ''keyid'', ip_keypath = m ''keypath'',
          ip_algorithm = (case m ''keypath'' of
             None \<Rightarrow> kp_algorithm_default
           | Some alg \<Rightarrow> (case kp_algorithm_try_from alg of None \<Rightarrow> kp_algorithm_default | Some a \<Rightarrow> a))\<rparr>)"

definition HARDCODED_KEY :: bytes where
  "HARDCODED_KEY = map char_of
     [217, 155, 119, 5, 176, 186, 122, 22, 130, 149, 179, 163, 54, 114, 112, 176, 221, 155, 55, 27,
      245, 20, 202, 139, 155, 167, 240, 163, 55, 17, 218, 234 :: nat]"

definition HARD_CODED_KEYID :: string where "HARD_CODED_KEYID = ''kbs:///default/test-key/1''"
definition DEFAULT_KEY_REPO_PATH :: string where "DEFAULT_KEY_REPO_PATH = ''/default/image-kek''"
definition KBS_RESOURCE_URL_PREFIX :: string where "KBS_RESOURCE_URL_PREFIX = ''kbs://''"

record coco_packet =
  cp_kid :: string
  cp_wrapped_data :: string
  cp_iv :: string
  cp_wrap_type :: string

record post_request =
  pr_url :: url
  pr_content_type :: string
  pr_token :: string
  pr_body :: bytes

datatype provider_error =
    ReadKeyFailed string
  | RngFailed
  | BadResourcePath string
  | EncryptFailed crypto_error
  | SignFailed string
  | RegisterFailed string
  | SerializeAnnotation
  | NoParameterPanic

record ('w, 'sk, 'pt, 'rk) provider_env =
  pe_crates :: "('sk, 'pt, 'rk) rust_crates"
  pe_read :: "string \<rightharpoonup> bytes"
  pe_iv :: "bytes option"
  pe_key :: "bytes option"
  pe_uuid :: string
  pe_sign :: "(string, string) result"
  pe_post :: "post_request \<Rightarrow> ('w, string, nat) stateful"
  pe_b64_encode :: "bytes \<Rightarrow> string"
  pe_packet_json :: "coco_packet \<Rightarrow> string option"

definition key_id :: "('w, 'sk, 'pt, 'rk) provider_env \<Rightarrow> input_params \<Rightarrow> string" where
  "key_id G p = (case ip_keyid p of Some kid \<Rightarrow> kid | None \<Rightarrow> DEFAULT_KEY_REPO_PATH @ ''/'' @ pe_uuid G)"

definition generate_key_parameters ::
  "('w, 'sk, 'pt, 'rk) provider_env \<Rightarrow> input_params \<Rightarrow> (provider_error, bytes \<times> bytes \<times> string) result" where
  "generate_key_parameters G p =
     (if ip_sample p then Inr (HARDCODED_KEY, replicate 12 (CHR 0x00), HARD_CODED_KEYID)
      else (case ip_keypath p of
              Some kpath \<Rightarrow>
                and_then (ok_or (ReadKeyFailed kpath) (pe_read G kpath)) (\<lambda>key.
                and_then (ok_or RngFailed (pe_iv G)) (\<lambda>iv. Inr (key, iv, key_id G p)))
            | None \<Rightarrow>
                and_then (ok_or RngFailed (pe_iv G)) (\<lambda>iv.
                and_then (ok_or RngFailed (pe_key G)) (\<lambda>key. Inr (key, iv, key_id G p)))))"

definition normalize_path :: "string \<Rightarrow> (provider_error, string \<times> string) result" where
  "normalize_path keyid =
     (let path = (case strip_prefix KBS_RESOURCE_URL_PREFIX keyid of Some p \<Rightarrow> p | None \<Rightarrow> keyid);
          values = split_on (CHR ''/'') path
      in if length values = 4
         then Inr (values ! 0, values ! 1 @ ''/'' @ values ! 2 @ ''/'' @ values ! 3)
         else Inl (BadResourcePath keyid))"

section \<open>The annotation\<close>

definition KBS_URL_PATH_PREFIX :: string where "KBS_URL_PATH_PREFIX = ''kbs/v0/resource''"

text \<open>The status of the response is not looked at.\<close>

definition register_kek ::
  "('w, 'sk, 'pt, 'rk) provider_env \<Rightarrow> url \<Rightarrow> bytes \<Rightarrow> string \<Rightarrow> ('w, provider_error, unit) stateful" where
  "register_kek G kbs_addr key kid =
     (let kid = (case strip_prefix ''/'' kid of Some k \<Rightarrow> k | None \<Rightarrow> kid)
      in st_then (lift_result (map_err SignFailed (pe_sign G))) (\<lambda>token.
         st_then (st_map_err RegisterFailed (pe_post G
             \<lparr>pr_url = kbs_addr\<lparr>u_path := ''/'' @ KBS_URL_PATH_PREFIX @ ''/'' @ kid\<rparr>,
              pr_content_type = ''application/octet-stream'', pr_token = token, pr_body = key\<rparr>)) (\<lambda>_.
          st_ok ())))"

text \<open>Registration takes place if both an address and a private key are configured.\<close>

definition enc_optsdata_gen_anno ::
  "('w, 'sk, 'pt, 'rk) provider_env \<Rightarrow> url option \<times> bool \<Rightarrow> bytes \<Rightarrow> string list \<Rightarrow>
    ('w, provider_error, string) stateful" where
  "enc_optsdata_gen_anno G kbs_parameter optsdata params =
     (case params of
        [] \<Rightarrow> st_err NoParameterPanic
      | p # _ \<Rightarrow>
         (let input_params = parse_input_params p
          in st_then (lift_result (generate_key_parameters G input_params)) (\<lambda>(key, iv, kid).
             st_then (lift_result (normalize_path kid)) (\<lambda>(kbs_addr, k_path).
             st_then (lift_result (map_err EncryptFailed
                 (kp_encrypt (pe_crates G) optsdata key iv (ip_algorithm input_params)))) (\<lambda>encrypt_optsdata.
             st_then (case kbs_parameter of
                 (Some addr, True) \<Rightarrow> if ip_sample input_params then st_ok () else register_kek G addr key k_path
               | _ \<Rightarrow> st_ok ()) (\<lambda>_.
              lift_result (ok_or SerializeAnnotation (pe_packet_json G
                \<lparr>cp_kid = KBS_RESOURCE_URL_PREFIX @ kbs_addr @ ''/'' @ k_path,
                 cp_wrapped_data = pe_b64_encode G encrypt_optsdata, cp_iv = pe_b64_encode G iv,
                 cp_wrap_type = kp_algorithm_str (ip_algorithm input_params)\<rparr>))))))))"

section \<open>The service\<close>

record key_provider =
  kpr_auth_private_key :: bool
  kpr_kbs :: "url option"

definition key_provider_new :: "(string \<Rightarrow> url option) \<Rightarrow> bool \<Rightarrow> string option \<Rightarrow> key_provider" where
  "key_provider_new parse auth_private_key kbs =
     \<lparr>kpr_auth_private_key = auth_private_key,
      kpr_kbs = (case kbs of Some addr \<Rightarrow> parse addr | None \<Rightarrow> None)\<rparr>"

definition decoded_params :: "kp_json \<Rightarrow> string list \<Rightarrow> string list" where
  "decoded_params P ps = List.map_filter (\<lambda>p. Option.bind (kj_b64 P p) from_utf8) ps"

definition wrap_key ::
  "('w, 'sk, 'pt, 'rk) provider_env \<Rightarrow> kp_json \<Rightarrow> key_provider \<Rightarrow> bytes \<Rightarrow> ('w, rpc_status, bytes) stateful" where
  "wrap_key G P K request =
     st_then (lift_result (ok_or (RpcStatus INVALID_ARGUMENT ''not legal utf8 string'') (from_utf8 request))) (\<lambda>input_string.
     st_then (lift_result (ok_or (RpcStatus INVALID_ARGUMENT ''parse key provider input failed'') (kj_input P input_string))) (\<lambda>input.
     st_then (lift_result (ok_or (RpcStatus INVALID_ARGUMENT ''without optsdata'') (kpi_optsdata input))) (\<lambda>optsdata.
     st_then (lift_result (ok_or (RpcStatus INVALID_ARGUMENT ''without ec'') (kpi_ec input))) (\<lambda>ec.
     st_then (lift_result (ok_or (RpcStatus INVALID_ARGUMENT ''without attestation-agent'')
         (em_parameters ec ''attestation-agent''))) (\<lambda>params.
     st_then (lift_result (ok_or (RpcStatus ABORTED ''base64 decode'') (kj_b64 P optsdata))) (\<lambda>data.
     st_then (st_map_err (\<lambda>_. RpcStatus INTERNAL ''encrypt failed'')
         (enc_optsdata_gen_anno G (kpr_kbs K, kpr_auth_private_key K) data (decoded_params P params))) (\<lambda>annotation.
      lift_result (ok_or (RpcStatus INTERNAL ''serde json failed'') (kj_wrap_output P annotation)))))))))"

definition un_wrap_key :: "bytes \<Rightarrow> ('w, rpc_status, bytes) stateful" where
  "un_wrap_key request = st_err (RpcStatus UNIMPLEMENTED ''UnWrapKey API of sample-kbs is unimplemented!'')"

section \<open>Which algorithm\<close>

lemma kp_encrypt_ok:
  "kp_encrypt R data key iv alg = Inr c \<Longrightarrow> length key = 32 \<and> length iv = (case alg of A256GCM \<Rightarrow> 12 | A256CTR \<Rightarrow> 16)"
  by (cases alg) (auto simp: result_iff array_from_slice_def split: if_splits)

lemma generated_iv:
  assumes "generate_key_parameters G p = Inr (key, iv, kid)" and "\<forall>b. pe_iv G = Some b \<longrightarrow> length b = 12"
  shows "length iv = 12"
  using assms by (auto simp: generate_key_parameters_def result_iff split: if_splits option.splits)

lemma algorithm_default_unless_path:
  "ip_algorithm (parse_input_params s) = A256CTR \<longleftrightarrow> input_fields s ''keypath'' = Some ''A256CTR''"
  by (auto simp: parse_input_params_def Let_def kp_algorithm_default_def kp_algorithm_try_from_def split: option.splits)

text \<open>What a successful run has done.\<close>

lemma gen_anno_run:
  assumes "enc_optsdata_gen_anno G kbs optsdata params w = (Inr anno, w')"
  obtains p ps key iv kid addr path c where "params = p # ps"
    "generate_key_parameters G (parse_input_params p) = Inr (key, iv, kid)"
    "normalize_path kid = Inr (addr, path)"
    "kp_encrypt (pe_crates G) optsdata key iv (ip_algorithm (parse_input_params p)) = Inr c"
    "pe_packet_json G \<lparr>cp_kid = KBS_RESOURCE_URL_PREFIX @ addr @ ''/'' @ path,
       cp_wrapped_data = pe_b64_encode G c, cp_iv = pe_b64_encode G iv,
       cp_wrap_type = kp_algorithm_str (ip_algorithm (parse_input_params p))\<rparr> = Some anno"
  using assms by (auto simp: enc_optsdata_gen_anno_def Let_def result_iff split: list.splits)

lemma gen_anno_gcm:
  assumes "enc_optsdata_gen_anno G kbs optsdata (p # ps) w = (Inr anno, w')" and "\<forall>b. pe_iv G = Some b \<longrightarrow> length b = 12"
  shows "ip_algorithm (parse_input_params p) = A256GCM"
proof -
  from assms(1) obtain p' ps' key iv kid addr path c where "p # ps = p' # ps'"
    and gen: "generate_key_parameters G (parse_input_params p') = Inr (key, iv, kid)"
    and enc: "kp_encrypt (pe_crates G) optsdata key iv (ip_algorithm (parse_input_params p')) = Inr c"
    by (rule gen_anno_run)
  then show ?thesis
    using generated_iv [OF gen assms(2)] kp_encrypt_ok [OF enc] by (cases "ip_algorithm (parse_input_params p)") auto
qed

text \<open>
  The algorithm of an annotation packet is always A256GCM, whatever the parameter \<open>algorithm\<close> says:
  the field is read under another name, and the only other value it can have ends in a panic because
  counter mode needs a longer vector than the one that is generated.
\<close>

lemma keyprovider_only_gcm:
  assumes "\<forall>b. pe_iv G = Some b \<longrightarrow> length b = 12"
  shows "(enc_optsdata_gen_anno G kbs optsdata (p # ps) w = (Inr anno, w') \<longrightarrow>
      (\<exists>packet. pe_packet_json G packet = Some anno \<and> cp_wrap_type packet = wrap_type_str Aes256Gcm)) \<and>
    (input_fields p ''keypath'' = Some ''A256CTR'' \<longrightarrow> \<not> is_ok (fst (enc_optsdata_gen_anno G kbs optsdata (p # ps) w))) \<and>
    (input_fields p ''keypath'' \<noteq> Some ''A256CTR'' \<longrightarrow>
      ip_algorithm (parse_input_params p) = A256GCM)"
proof (intro conjI impI)
  assume run: "enc_optsdata_gen_anno G kbs optsdata (p # ps) w = (Inr anno, w')"
  show "\<exists>packet. pe_packet_json G packet = Some anno \<and> cp_wrap_type packet = wrap_type_str Aes256Gcm"
    using gen_anno_gcm [OF run assms] by (rule_tac gen_anno_run [OF run]) auto
next
  assume "input_fields p ''keypath'' = Some ''A256CTR''"
  then have "ip_algorithm (parse_input_params p) \<noteq> A256GCM" by (simp flip: algorithm_default_unless_path)
  then show "\<not> is_ok (fst (enc_optsdata_gen_anno G kbs optsdata (p # ps) w))"
    using gen_anno_gcm [OF _ assms, of kbs optsdata p ps w]
    by (cases "enc_optsdata_gen_anno G kbs optsdata (p # ps) w") (auto simp: is_ok_iff)
next
  assume "input_fields p ''keypath'' \<noteq> Some ''A256CTR''"
  then show "ip_algorithm (parse_input_params p) = A256GCM"
    using algorithm_default_unless_path [of p] by (cases "ip_algorithm (parse_input_params p)") auto
qed

text \<open>Registration is reported as a success whatever the key broker answers.\<close>

lemma register_kek_ignores_status:
  assumes "pe_sign G = Inr token" and "\<And>q w. \<exists>status. fst (pe_post G q w) = Inr status"
  shows "fst (register_kek G addr key kid w) = Inr ()"
proof -
  have "\<exists>status w'. pe_post G q w = (Inr status, w')" for q w using assms(2) [of q w] by (metis prod.collapse)
  then show ?thesis
    using assms(1)
    by (auto simp: register_kek_def Let_def st_then_def lift_result_def st_map_err_def split: prod.splits sum.splits)
       (metis map_err_simps(2) prod.inject sum.distinct(1))
qed

section \<open>Unwrapping in the guest\<close>

lemma normalize_path_whole:
  assumes "normalize_path kid = Inr (ru_kbs_addr r, resource_path r)" and "ru_query r = None"
  shows "KBS_RESOURCE_URL_PREFIX @ ru_kbs_addr r @ ''/'' @ resource_path r = whole_uri r"
  using assms by (simp add: whole_uri_def KBS_RESOURCE_URL_PREFIX_def SCHEME_def resource_path_def)

text \<open>
  The hub's reader fills the fields that the packets of the key provider do not have with their
  defaults.
\<close>

definition packet_law ::
  "('w, 'sk, 'pt, 'rk) provider_env \<Rightarrow> (bytes \<Rightarrow> annotation_packet_v2 option) \<Rightarrow> bool" where
  "packet_law G from_json \<longleftrightarrow>
     (\<forall>p t. pe_packet_json G p = Some t \<longrightarrow> from_json t = Some
        \<lparr>a2_version = DEFAULT_VERSION, a2_kid = cp_kid p, a2_wrapped_data = cp_wrapped_data p, a2_provider = default_provider,
         a2_iv = Some (cp_iv p), a2_wrap_type = Some (cp_wrap_type p), a2_provider_settings = [], a2_annotations = []\<rparr>)"

text \<open>Getting the key is what the hub does for a resource request.\<close>

lemma v1_unwrap_key_spec:
  assumes "fst (hub_get_resource E (whole_uri (a1_kid p)) W) = Inr kek"
    and "wrap_type_try_from (a1_wrap_type p) = Some t"
    and "ce_b64 E (a1_wrapped_data p) = Some data" and "ce_b64 E (a1_iv p) = Some iv"
    and "crypto_decrypt (ke_backend (ce_kbs E)) kek data iv t = Inr d"
  shows "fst (v1_unwrap_key E p W) = Inr d"
proof -
  have "lower_str ''Kbs'' = ''kbs''" "lower_str ''kbs'' = ''kbs''" by code_simp+
  then have "new_getter E ''Kbs'' [] = new_getter E ''kbs'' []" by (simp add: new_getter_def)
  moreover obtain h W1 where "new_getter E ''kbs'' [] W = (Inr h, W1)" and get: "fst (get_secret E h (whole_uri (a1_kid p)) [] W1) = Inr kek"
    using assms(1) by (auto simp: hub_get_resource_def st_then_def st_map_err_def map_err_def split: prod.splits sum.splits)
  moreover from get obtain W2 where "get_secret E h (whole_uri (a1_kid p)) [] W1 = (Inr kek, W2)" by (metis prod.collapse)
  ultimately show ?thesis
    using assms(2-5) by (simp add: v1_unwrap_key_def st_then_def lift_result_def st_map_err_def)
qed

lemma annotation_unwraps:
  assumes laws: "gcm_correct S" "same_gcm S R" "appended_tag R" "same_ctr S R"
    and builds: "pe_crates G = R" "ke_backend (ce_kbs E) \<in> {Native S, Rust R}"
    and codecs: "packet_law G from_json" "\<forall>b. ce_b64 E (pe_b64_encode G b) = Some b" "url_law (ce_url_parse E)"
    and rng: "\<forall>b. pe_iv G = Some b \<longrightarrow> length b = 12"
    and gen: "generate_key_parameters G (parse_input_params p) = Inr (key, iv, kid)"
    and name: "normalize_path kid = Inr (ru_kbs_addr r, resource_path r)" "ru_query r = None" "plain_resource host port r"
    and run: "enc_optsdata_gen_anno G kbs optsdata (p # ps) w = (Inr anno, w')"
    and held: "fst (hub_get_resource E (whole_uri r) W) = Inr key"
  shows "fst (hub_unwrap_key E from_json anno W) = Inr optsdata"
proof -
  have alg: "ip_algorithm (parse_input_params p) = A256GCM" by (rule gen_anno_gcm [OF run rng])
  obtain c where enc: "kp_encrypt R optsdata key iv A256GCM = Inr c"
    and json: "pe_packet_json G \<lparr>cp_kid = whole_uri r, cp_wrapped_data = pe_b64_encode G c,
       cp_iv = pe_b64_encode G iv, cp_wrap_type = ''A256GCM''\<rparr> = Some anno"
    using alg gen name(1) builds(1) normalize_path_whole [OF name(1,2)] by (rule_tac gen_anno_run [OF run]) auto
  have "crypto_decrypt (ke_backend (ce_kbs E)) key c iv Aes256Gcm = Inr optsdata"
  proof (rule crypto_decrypt_encrypt [OF laws, of "Rust R"])
    show "crypto_encrypt (Rust R) key optsdata iv Aes256Gcm = Inr c"
      using enc by (auto simp: rust_gcm_encrypt_def array_from_slice_def result_iff split: if_splits)
  qed (use builds kp_encrypt_ok [OF enc] in \<open>simp_all add: iv_length_def\<close>)
  then have "fst (v1_unwrap_key E \<lparr>a1_kid = r, a1_wrapped_data = pe_b64_encode G c, a1_iv = pe_b64_encode G iv,
      a1_wrap_type = ''A256GCM''\<rparr> W) = Inr optsdata"
    using codecs(2) held by (intro v1_unwrap_key_spec) (auto simp: wrap_type_try_from_def)
  moreover have "from_json anno = Some
        \<lparr>a2_version = DEFAULT_VERSION, a2_kid = whole_uri r, a2_wrapped_data = pe_b64_encode G c, a2_provider = default_provider,
         a2_iv = Some (pe_b64_encode G iv), a2_wrap_type = Some ''A256GCM'', a2_provider_settings = [], a2_annotations = []\<rparr>"
    using codecs(1) json by (simp add: packet_law_def)
  ultimately show ?thesis
    using uri_parses [OF codecs(3) name(3)]
    by (simp add: hub_unwrap_key_def image_unwrap_key_def st_then_def lift_result_def v2_unwrap_key_def
        default_provider_def v2_try_into_def)
qed

section \<open>Requests of ocicrypt-rs\<close>

text \<open>
  The library of this repository cannot encrypt with this key provider: it sends the key options, a
  JSON object, as they are, while the provider decodes base64, whose alphabet has no brace. So wrapping
  fails whatever the provider's configuration.
\<close>

lemma ocicrypt_wrap_rejected:
  assumes law: "protocol_law T P" and alphabet: "\<And>s. CHR ''{'' \<in> set s \<Longrightarrow> kj_b64 P s = None"
    and conf: "attr_cmd (kp_attrs w) = None" "attr_grpc (kp_attrs w) = Some addr"
    and served: "\<And>b. grpc_call T Wrap addr b = map_err (\<lambda>_. ''status'') (fst (wrap_key G P K b W))"
    and opts: "CHR ''{'' \<in> set opts_data"
  shows "\<not> is_ok (kp_wrap_keys F T w ec opts_data)"
proof
  assume "is_ok (kp_wrap_keys F T w ec opts_data)"
  then obtain b reply where ser: "ser_input T \<lparr>pi_op = op_key_str Wrap,
        pi_key_wrap_params = \<lparr>kwp_ec = Some ec, kwp_opts_data = Some opts_data\<rparr>,
        pi_key_unwrap_params = \<lparr>kup_dc = None, kup_annotation = None\<rparr>\<rparr> = Some b"
    and reply: "grpc_call T Wrap addr b = Inr reply"
    using conf by (auto simp: kp_wrap_keys_def Let_def is_ok_iff result_iff wrap_key_grpc_def from_grpc_def split: if_splits)
  obtain k where k: "kj_input P b = Some k" "kpi_optsdata k = Some opts_data"
    using law ser unfolding protocol_law_def by fastforce
  have "fst (wrap_key G P K b W) = Inr reply" using reply by (simp add: served result_iff)
  then obtain W' where "wrap_key G P K b W = (Inr reply, W')" by (metis prod.collapse)
  then show False using k alphabet [OF opts] by (auto simp: wrap_key_def result_iff)
qed

section \<open>A concrete image key\<close>

definition demo_packet :: coco_packet where
  "demo_packet = \<lparr>cp_kid = ''kbs:///alice/key/1'', cp_wrapped_data = ''lek'' @ replicate 16 (CHR ''k''),
     cp_iv = replicate 12 (CHR ''i''), cp_wrap_type = ''A256GCM''\<rparr>"

definition demo_provider :: "(nat, nat, nat, nat) provider_env" where
  "demo_provider = \<lparr>pe_crates = demo_rc, pe_read = [''/key'' \<mapsto> replicate 32 (CHR ''k'')],
     pe_iv = Some (replicate 12 (CHR ''i'')), pe_key = None, pe_uuid = ''0'', pe_sign = Inr ''jwt'',
     pe_post = (\<lambda>_. st_ok 401), pe_b64_encode = (\<lambda>b. b),
     pe_packet_json = (\<lambda>p. if p = demo_packet then Some ''packet'' else None)\<rparr>"

definition demo_param :: string where
  "demo_param = ''keypath=/key::keyid=kbs:///alice/key/1::algorithm=A256CTR''"

lemma demo_fields: "input_fields demo_param = [''keypath'' \<mapsto> ''/key'', ''keyid'' \<mapsto> ''kbs:///alice/key/1'', ''algorithm'' \<mapsto> ''A256CTR'']"
proof -
  have "split_str ''::'' demo_param = [''keypath=/key'', ''keyid=kbs:///alice/key/1'', ''algorithm=A256CTR'']"
    by (simp add: demo_param_def split_str.simps)
  then show ?thesis by (simp add: input_fields_def fun_eq_iff)
qed

lemma demo_input: "parse_input_params demo_param =
    \<lparr>ip_sample = False, ip_keyid = Some ''kbs:///alice/key/1'', ip_keypath = Some ''/key'', ip_algorithm = A256GCM\<rparr>"
  by (simp add: parse_input_params_def demo_fields kp_algorithm_default_def kp_algorithm_try_from_def)

lemma demo_gen: "generate_key_parameters demo_provider (parse_input_params demo_param) =
    Inr (replicate 32 (CHR ''k''), replicate 12 (CHR ''i''), ''kbs:///alice/key/1'')"
  by (simp add: demo_input generate_key_parameters_def demo_provider_def key_id_def)

lemma demo_normal: "normalize_path ''kbs:///alice/key/1'' = Inr ([], ''alice/key/1'')"
  by (simp add: normalize_path_def KBS_RESOURCE_URL_PREFIX_def)

lemma demo_encrypt: "kp_encrypt demo_rc ''lek'' (replicate 32 (CHR ''k'')) (replicate 12 (CHR ''i'')) A256GCM =
    Inr (''lek'' @ replicate 16 (CHR ''k''))"
  by (simp add: demo_rc_def array_from_slice_def vec_resize_def)

lemma demo_anno: "enc_optsdata_gen_anno demo_provider (None, False) ''lek'' [demo_param] 0 = (Inr ''packet'', 0)"
proof -
  have "pe_crates demo_provider = demo_rc" "\<And>b. pe_b64_encode demo_provider b = b"
    "pe_packet_json demo_provider demo_packet = Some ''packet''" by (simp_all add: demo_provider_def)
  then show ?thesis
    by (simp add: enc_optsdata_gen_anno_def Let_def demo_gen [unfolded demo_input] demo_normal st_then_def lift_result_def demo_input
        demo_encrypt demo_packet_def KBS_RESOURCE_URL_PREFIX_def del: kp_encrypt.simps)
qed

lemma keyprovider_only_gcm_witness:
  "(\<exists>packet. pe_packet_json demo_provider packet = Some ''packet'' \<and> cp_wrap_type packet = ''A256GCM'') \<and>
   input_fields demo_param ''algorithm'' = Some ''A256CTR'' \<and> ip_algorithm (parse_input_params demo_param) = A256GCM"
  using keyprovider_only_gcm [of demo_provider "(None, False)" "''lek''" demo_param "[]" 0 "''packet''" 0] demo_anno
  by (simp add: demo_fields del: replicate.simps) (simp add: demo_provider_def)

text \<open>A wire format that tags an annotation and key options by their first character.\<close>

definition demo_kp_json :: kp_json where
  "demo_kp_json = \<lparr>
     kj_input = (\<lambda>b. case b of [] \<Rightarrow> None | c # s \<Rightarrow> Some \<lparr>kpi_op = [],
        kpi_ec = Some \<lparr>em_parameters = [''attestation-agent'' \<mapsto> [concat (map hex_char demo_param)]], em_decrypt_config = Map.empty\<rparr>,
        kpi_optsdata = (if c = CHR ''w'' then Some s else None), kpi_dc = None,
        kpi_annotation = (if c = CHR ''u'' then Some s else None)\<rparr>),
     kj_wrap_output = Some, kj_unwrap_output = Some,
     kj_b64 = (\<lambda>s. if CHR ''{'' \<in> set s then None else case hex_decode s of Inl _ \<Rightarrow> None | Inr b \<Rightarrow> Some b)\<rparr>"

definition demo_from_json :: "bytes \<Rightarrow> annotation_packet_v2 option" where
  "demo_from_json b = (if b = ''packet'' then Some
     \<lparr>a2_version = DEFAULT_VERSION, a2_kid = cp_kid demo_packet, a2_wrapped_data = cp_wrapped_data demo_packet,
      a2_provider = default_provider, a2_iv = Some (cp_iv demo_packet), a2_wrap_type = Some (cp_wrap_type demo_packet),
      a2_provider_settings = [], a2_annotations = []\<rparr> else None)"

definition demo_kek_world :: "(nat, nat, nat) cdh_world" where
  "demo_kek_world = demo_world\<lparr>cw_kbs := Some (OfflineFs [''alice/key/1'' \<mapsto> replicate 32 (CHR ''k'')])\<rparr>"

definition demo_service :: key_provider where
  "demo_service = \<lparr>kpr_auth_private_key = False, kpr_kbs = None\<rparr>"

definition demo_wire :: transports where
  "demo_wire = demo_transports\<lparr>
     ser_input := (\<lambda>i. case (kup_annotation (pi_key_unwrap_params i), kwp_opts_data (pi_key_wrap_params i)) of
        (Some a, None) \<Rightarrow> Some (CHR ''u'' # a) | (None, Some s) \<Rightarrow> Some (CHR ''w'' # s) | _ \<Rightarrow> None),
     de_output := (\<lambda>b. Some \<lparr>po_key_wrap_results = None, po_key_unwrap_results = Some b\<rparr>),
     b64_encode := (\<lambda>b. concat (map hex_char b)),
     grpc_call := (\<lambda>_ _ b. map_err (\<lambda>_. ''status'') (fst (wrap_key demo_provider demo_kp_json demo_service b 0))),
     ttrpc_call := (\<lambda>_ _ b. map_err (\<lambda>_. ''status'')
        (fst (server_un_wrap_key demo_cdh demo_kp_json demo_from_json b demo_kek_world)))\<rparr>"

definition demo_kp :: "string option \<Rightarrow> string option \<Rightarrow> kp_wrapper" where
  "demo_kp grpc ttrpc = \<lparr>kp_provider = ''attestation-agent'',
     kp_attrs = \<lparr>attr_cmd = None, attr_grpc = grpc, attr_ttrpc = ttrpc, attr_native = None\<rparr>, kp_runner = None\<rparr>"

lemma demo_protocol_law: "protocol_law demo_wire demo_kp_json"
proof -
  have "CHR ''{'' \<notin> set (concat (map hex_char b))" for b
    using hex_char_free [of "CHR ''{''"] by simp
  then show ?thesis
    by (auto simp: protocol_law_def demo_wire_def demo_kp_json_def hex_decode_encode split: option.splits)
qed

lemma ocicrypt_wrap_rejected_witness:
  "\<not> is_ok (kp_wrap_keys demo_features demo_wire (demo_kp (Some ''http://kp'') None) demo_ec ''{}'')"
  by (rule ocicrypt_wrap_rejected [OF demo_protocol_law, where addr = "''http://kp''" and G = demo_provider and K = demo_service and W = 0])
    (simp_all add: demo_kp_json_def demo_kp_def demo_wire_def)

definition demo_key_name :: resource_uri where
  "demo_key_name = \<lparr>ru_kbs_addr = [], ru_repository = ''alice'', ru_type = ''key'', ru_tag = ''1'', ru_query = None\<rparr>"

lemma demo_key_name_plain: "plain_resource [] None demo_key_name" "whole_uri demo_key_name = ''kbs:///alice/key/1''"
  by (simp_all add: plain_resource_def demo_key_name_def authority_def plain_segment_def unreserved_def whole_uri_def SCHEME_def)

lemma demo_kek_held: "fst (hub_get_resource demo_cdh (whole_uri demo_key_name) demo_kek_world) = Inr (replicate 32 (CHR ''k''))"
proof -
  have parse: "ce_url_parse demo_cdh = demo_url_parse" by (simp add: demo_cdh_def)
  have lower: "lower_str ''kbs'' = ''kbs''" by code_simp
  show ?thesis
    by (simp add: hub_get_resource_def demo_key_name_plain new_getter_def lower kbc_client_new_def ensure_client_def
        demo_kek_world_def st_then_def st_map_err_def get_secret_def kbs_get_secret_def parse demo_uri lift_result_def
        offline_get_resource_def resource_path_def del: replicate.simps)
qed

lemma demo_packet_law: "packet_law demo_provider demo_from_json"
  by (auto simp: packet_law_def demo_provider_def demo_from_json_def split: if_splits)

end
