(* ===== verification/Rest_Api.thy ===== *)
theory Rest_Api
  imports Rust_Prelude
begin

text \<open>
  \<open>api-server-rest/src\<close>: the HTTP server in front of the data hub and the attestation agent. A router
  finds the client of a path prefix, and the client checks the sender and the method before it forwards
  the request. HTTP, the decoding of query strings and the two services are parameters.
\<close>

section \<open>Requests and responses\<close>

datatype rest_method = MethodGet | MethodOther string

record rest_request =
  rq_loopback :: bool
  rq_method :: rest_method
  rq_path :: string
  rq_query :: "string option"

record rest_response =
  rp_status :: nat
  rp_content_type :: "string option"
  rp_body :: bytes

definition octet_stream_response :: "bytes \<Rightarrow> rest_response" where
  "octet_stream_response data = \<lparr>rp_status = 200, rp_content_type = Some ''application/octet-stream'', rp_body = data\<rparr>"

definition json_response :: "string \<Rightarrow> rest_response" where
  "json_response json = \<lparr>rp_status = 200, rp_content_type = Some ''application/json'', rp_body = json\<rparr>"

definition bad_request :: rest_response where
  "bad_request = \<lparr>rp_status = 400, rp_content_type = None, rp_body = ''BAD REQUEST''\<rparr>"

definition forbidden :: rest_response where
  "forbidden = \<lparr>rp_status = 403, rp_content_type = None, rp_body = ''Forbidden''\<rparr>"

definition not_found :: rest_response where
  "not_found = \<lparr>rp_status = 404, rp_content_type = None, rp_body = ''URL NOT FOUND''\<rparr>"

definition not_allowed :: rest_response where
  "not_allowed = \<lparr>rp_status = 405, rp_content_type = None, rp_body = ''Method Not Allowed''\<rparr>"

definition internal_error :: "string \<Rightarrow> rest_response" where
  "internal_error body = \<lparr>rp_status = 500, rp_content_type = None, rp_body = body\<rparr>"

definition empty_404 :: rest_response where
  "empty_404 = \<lparr>rp_status = 404, rp_content_type = None, rp_body = []\<rparr>"

section \<open>Paths\<close>

text \<open>\<open>match_indices\<close>: the positions of the slashes.\<close>

definition slash_positions :: "string \<Rightarrow> nat list" where
  "slash_positions url = filter (\<lambda>i. url ! i = CHR ''/'') [0..<length url]"

definition split_nth_slash :: "string \<Rightarrow> nat \<Rightarrow> (string \<times> string) option" where
  "split_nth_slash url n =
     (if n = 0 then None
      else if n \<le> length (slash_positions url)
      then (let i = slash_positions url ! (n - 1) in Some (take i url, drop i url))
      else None)"

section \<open>The clients\<close>

definition AA_ROOT :: string where "AA_ROOT = ''/aa''"
definition AA_TOKEN_URL :: string where "AA_TOKEN_URL = ''/token''"
definition AA_EVIDENCE_URL :: string where "AA_EVIDENCE_URL = ''/evidence''"
definition CDH_ROOT :: string where "CDH_ROOT = ''/cdh''"
definition CDH_RESOURCE_URL :: string where "CDH_RESOURCE_URL = ''/resource''"
definition REST_KBS_PREFIX :: string where "REST_KBS_PREFIX = ''kbs://''"

text \<open>
  The state \<open>'w\<close> is that of the two services. \<open>rs_form\<close> decodes a query string into pairs. Collecting
  them into a map keeps one entry for every name, with its last value.
\<close>

record 'w rest_services =
  rs_get_token :: "string \<Rightarrow> 'w \<Rightarrow> (string, bytes) result \<times> 'w"
  rs_get_evidence :: "bytes \<Rightarrow> 'w \<Rightarrow> (string, bytes) result \<times> 'w"
  rs_get_resource :: "string \<Rightarrow> 'w \<Rightarrow> (string, bytes) result \<times> 'w"
  rs_form :: "string \<Rightarrow> (string \<times> string) list"

definition answer_with :: "('w \<Rightarrow> (string, bytes) result \<times> 'w) \<Rightarrow> 'w \<Rightarrow> rest_response \<times> 'w" where
  "answer_with call w =
     (case call w of (Inr results, w') \<Rightarrow> (octet_stream_response results, w') | (Inl e, w') \<Rightarrow> (internal_error e, w'))"

definition query_params :: "'w rest_services \<Rightarrow> rest_request \<Rightarrow> (string \<times> string) list" where
  "query_params R req = (case rq_query req of Some v \<Rightarrow> AList.updates (map fst (rs_form R v)) (map snd (rs_form R v)) [] | None \<Rightarrow> [])"

definition aa_handle_request ::
  "'w rest_services \<Rightarrow> rest_method list \<Rightarrow> string \<Rightarrow> rest_request \<Rightarrow> 'w \<Rightarrow> rest_response \<times> 'w" where
  "aa_handle_request R accepted_method url_path req w =
     (if \<not> rq_loopback req then (forbidden, w)
      else if rq_method req \<notin> set accepted_method then (not_allowed, w)
      else
        (let params = query_params R req
         in if length params \<noteq> 1 then (not_allowed, w)
            else if url_path = AA_TOKEN_URL then
              (case map_of params ''token_type'' of
                 Some token_type \<Rightarrow> answer_with (rs_get_token R token_type) w | None \<Rightarrow> (bad_request, w))
            else if url_path = AA_EVIDENCE_URL then
              (case map_of params ''runtime_data'' of
                 Some runtime_data \<Rightarrow> answer_with (rs_get_evidence R runtime_data) w | None \<Rightarrow> (bad_request, w))
            else (not_found, w)))"

definition cdh_get_resource :: "'w rest_services \<Rightarrow> string \<Rightarrow> 'w \<Rightarrow> (string, bytes) result \<times> 'w" where
  "cdh_get_resource R resource_path = rs_get_resource R (REST_KBS_PREFIX @ resource_path)"

definition cdh_handle_request ::
  "'w rest_services \<Rightarrow> rest_method list \<Rightarrow> string \<Rightarrow> rest_request \<Rightarrow> 'w \<Rightarrow> rest_response \<times> 'w" where
  "cdh_handle_request R accepted_method url_path req w =
     (if \<not> rq_loopback req then (forbidden, w)
      else if rq_method req \<notin> set accepted_method then (not_allowed, w)
      else
        (case split_nth_slash url_path 2 of
           Some (api, resource_path) \<Rightarrow>
             (if api = CDH_RESOURCE_URL then answer_with (cdh_get_resource R resource_path) w else (not_found, w))
         | None \<Rightarrow> (empty_404, w)))"

section \<open>The router\<close>

datatype rest_handler = CdhClient "rest_method list" | AaClient "rest_method list"

fun handle_request :: "'w rest_services \<Rightarrow> rest_handler \<Rightarrow> string \<Rightarrow> rest_request \<Rightarrow> 'w \<Rightarrow> rest_response \<times> 'w" where
  "handle_request R (CdhClient ms) = cdh_handle_request R ms"
| "handle_request R (AaClient ms) = aa_handle_request R ms"

type_synonym router = "string \<rightharpoonup> rest_handler"

definition register_route :: "string \<Rightarrow> rest_handler \<Rightarrow> router \<Rightarrow> router" where
  "register_route path handler routes = routes(path \<mapsto> handler)"

definition route :: "'w rest_services \<Rightarrow> router \<Rightarrow> rest_request \<Rightarrow> 'w \<Rightarrow> rest_response \<times> 'w" where
  "route R routes req w =
     (case split_nth_slash (rq_path req) 2 of
        Some (root_path, url_path) \<Rightarrow>
          (case routes root_path of
             Some handler \<Rightarrow> handle_request R handler url_path req w
           | None \<Rightarrow> (empty_404, w))
      | None \<Rightarrow> (empty_404, w))"

text \<open>The routes of \<open>main\<close>; any other word ends the program.\<close>

definition routes_for_features :: "string \<Rightarrow> router option" where
  "routes_for_features features =
     (if features = ''resource'' then Some (register_route CDH_ROOT (CdhClient [MethodGet]) Map.empty)
      else if features = ''attestation'' then Some (register_route AA_ROOT (AaClient [MethodGet]) Map.empty)
      else if features = ''all''
      then Some (register_route AA_ROOT (AaClient [MethodGet]) (register_route CDH_ROOT (CdhClient [MethodGet]) Map.empty))
      else None)"

section \<open>Splitting\<close>

lemma slash_positions_append:
  "slash_positions (a @ b) = slash_positions a @ map ((+) (length a)) (slash_positions b)"
proof -
  have "[0..<length (a @ b)] = [0..<length a] @ map ((+) (length a)) [0..<length b]"
    by (rule nth_equalityI) (auto simp: nth_append)
  moreover have "filter (\<lambda>i. (a @ b) ! i = CHR ''/'') [0..<length a] = slash_positions a"
    unfolding slash_positions_def by (rule filter_cong) (simp_all add: nth_append)
  moreover have "filter (\<lambda>i. (a @ b) ! i = CHR ''/'') (map ((+) (length a)) [0..<length b]) =
      map ((+) (length a)) (slash_positions b)"
    unfolding slash_positions_def filter_map by (simp add: comp_def)
  ultimately show ?thesis unfolding slash_positions_def [of "a @ b"] by simp
qed

lemma slash_positions_free:
  assumes "CHR ''/'' \<notin> set a"
  shows "slash_positions a = []"
proof -
  have "a ! i \<noteq> CHR ''/''" if "i < length a" for i
    using nth_mem [OF that] assms by metis
  then show ?thesis unfolding slash_positions_def filter_empty_conv by simp
qed

lemma slash_positions_slash: "slash_positions (CHR ''/'' # b) = 0 # map Suc (slash_positions b)"
  using slash_positions_append [of "''/''" b] by (simp add: slash_positions_def)

lemma split_second_slash:
  assumes "CHR ''/'' \<notin> set root"
  shows "split_nth_slash (CHR ''/'' # root @ CHR ''/'' # rest) 2 = Some (CHR ''/'' # root, CHR ''/'' # rest)"
  using assms
  by (simp add: split_nth_slash_def slash_positions_slash slash_positions_append slash_positions_free Let_def)

lemma split_nth_slash_parts: "split_nth_slash url n = Some (a, b) \<Longrightarrow> url = a @ b \<and> (\<exists>c. b = CHR ''/'' # c)"
proof -
  assume s: "split_nth_slash url n = Some (a, b)"
  then obtain i where i: "i = slash_positions url ! (n - 1)" "n \<noteq> 0" "n \<le> length (slash_positions url)"
    "a = take i url" "b = drop i url"
    by (auto simp: split_nth_slash_def Let_def split: if_splits)
  have "i \<in> set (slash_positions url)" using i by simp
  then have "i < length url" "url ! i = CHR ''/''" by (simp_all add: slash_positions_def)
  then show ?thesis using i(4,5) by (metis Cons_nth_drop_Suc append_take_drop_id)
qed

section \<open>Who is served what\<close>

lemma handle_request_guard:
  assumes "handler \<in> {CdhClient [MethodGet], AaClient [MethodGet]}" and "\<not> (rq_loopback req \<and> rq_method req = MethodGet)"
  shows "handle_request R handler rest req w \<in> {(forbidden, w), (not_allowed, w)}"
  using assms by (cases "rq_loopback req") (auto simp: aa_handle_request_def cdh_handle_request_def)

lemma route_resource:
  assumes "routes CDH_ROOT = Some (CdhClient ms)" and "rq_loopback req" "rq_method req \<in> set ms"
    and "rq_path req = ''/cdh/resource/'' @ p"
  shows "route R routes req w =
    (case rs_get_resource R (''kbs:///'' @ p) w of
       (Inr data, w') \<Rightarrow> (octet_stream_response data, w') | (Inl e, w') \<Rightarrow> (internal_error e, w'))"
proof -
  have "split_nth_slash (rq_path req) 2 = Some (''/cdh'', ''/resource/'' @ p)"
    using split_second_slash [of "''cdh''" "''resource/'' @ p"] by (simp add: assms(4))
  moreover have "split_nth_slash (''/resource/'' @ p) 2 = Some (''/resource'', ''/'' @ p)"
    using split_second_slash [of "''resource''" p] by simp
  ultimately show ?thesis
    using assms(1-3)
    by (simp add: route_def cdh_handle_request_def CDH_ROOT_def CDH_RESOURCE_URL_def answer_with_def cdh_get_resource_def REST_KBS_PREFIX_def)
qed

text \<open>
  C16. Whatever the features, a service is called, and a request answered with status 200, only for a
  sender on the loopback interface that uses GET; everybody else gets an error and changes nothing.
\<close>

theorem rest_serves_loopback_get:
  assumes "routes_for_features features = Some routes" and "route R routes req w = (resp, w')"
    and "rp_status resp = 200 \<or> w' \<noteq> w"
  shows "rq_loopback req \<and> rq_method req = MethodGet \<and>
    (\<exists>root rest. rq_path req = root @ rest \<and> root \<in> {CDH_ROOT, AA_ROOT} \<and> routes root \<noteq> None)"
proof -
  obtain root rest handler where split: "split_nth_slash (rq_path req) 2 = Some (root, rest)"
    and handler: "routes root = Some handler" and run: "handle_request R handler rest req w = (resp, w')"
    using assms(2,3) by (auto simp: route_def empty_404_def split: option.splits)
  have known: "root \<in> {CDH_ROOT, AA_ROOT} \<and> handler \<in> {CdhClient [MethodGet], AaClient [MethodGet]}"
    using assms(1) handler
    by (auto simp: routes_for_features_def register_route_def split: if_split_asm)
  have "rq_loopback req \<and> rq_method req = MethodGet"
  proof (rule ccontr)
    assume no: "\<not> (rq_loopback req \<and> rq_method req = MethodGet)"
    have "(resp, w') \<in> {(forbidden, w), (not_allowed, w)}"
      using run handle_request_guard [of handler req R rest w] known no by auto
    then show False using assms(3) by (auto simp: forbidden_def not_allowed_def)
  qed
  moreover have "rq_path req = root @ rest" using split_nth_slash_parts [OF split] by simp
  ultimately show ?thesis using known handler by blast
qed

text \<open>
  A request for a resource is answered with what the data hub returns for the URI of this path, as
  octets or as an internal error; the URI is the prefix of the key broker with the rest of the path,
  slashes and dots included.
\<close>

lemma rest_resource_exact:
  assumes "routes CDH_ROOT = Some (CdhClient ms)" and "rq_loopback req" "rq_method req \<in> set ms"
    and "rq_path req = ''/cdh/resource/'' @ p"
  shows "route R routes req w =
    (case rs_get_resource R (''kbs:///'' @ p) w of
       (Inr data, w') \<Rightarrow> (octet_stream_response data, w') | (Inl e, w') \<Rightarrow> (internal_error e, w'))"
  using assms by (rule route_resource)

text \<open>A query with no or two parameters is answered with 405, which is documented for a wrong method.\<close>

lemma two_parameters_not_allowed:
  assumes "rq_loopback req" "rq_method req \<in> set ms" "length (query_params R req) \<noteq> 1"
  shows "aa_handle_request R ms url req w = (not_allowed, w)"
  using assms by (simp add: aa_handle_request_def)

section \<open>An example\<close>

definition demo_rest_services :: "nat rest_services" where
  "demo_rest_services = \<lparr>rs_get_token = \<lambda>t w. (Inl ''no token'', w), rs_get_evidence = \<lambda>d w. (Inr d, w),
     rs_get_resource = \<lambda>u w. (Inr u, Suc w), rs_form = \<lambda>q. []\<rparr>"

definition demo_rest_request :: rest_request where
  "demo_rest_request = \<lparr>rq_loopback = True, rq_method = MethodGet, rq_path = ''/cdh/resource/a/b/c'', rq_query = None\<rparr>"

lemma rest_resource_exact_witness:
  "route demo_rest_services [CDH_ROOT \<mapsto> CdhClient [MethodGet]] demo_rest_request 0 =
     (octet_stream_response ''kbs:///a/b/c'', Suc 0)"
  using rest_resource_exact [of "[CDH_ROOT \<mapsto> CdhClient [MethodGet]]" "[MethodGet]" demo_rest_request "''a/b/c''" demo_rest_services 0]
  by (simp add: demo_rest_request_def demo_rest_services_def)

theorem rest_serves_loopback_get_witness: "rq_loopback demo_rest_request \<and> rq_method demo_rest_request = MethodGet"
proof -
  have "routes_for_features ''resource'' = Some [CDH_ROOT \<mapsto> CdhClient [MethodGet]]"
    by (simp add: routes_for_features_def register_route_def)
  moreover have "route demo_rest_services [CDH_ROOT \<mapsto> CdhClient [MethodGet]] demo_rest_request 0 =
      (octet_stream_response ''kbs:///a/b/c'', Suc 0)"
    using route_resource [of "[CDH_ROOT \<mapsto> CdhClient [MethodGet]]" "[MethodGet]" demo_rest_request "''a/b/c''" demo_rest_services 0]
    by (simp add: demo_rest_request_def demo_rest_services_def)
  ultimately show ?thesis
    using rest_serves_loopback_get [of "''resource''" "[CDH_ROOT \<mapsto> CdhClient [MethodGet]]" demo_rest_services demo_rest_request 0
      "octet_stream_response ''kbs:///a/b/c''" "Suc 0"]
    by (simp add: octet_stream_response_def)
qed

end
