(* ===== verification/Verity_Device.thy ===== *)
theory Verity_Device
  imports Image_Identity "HOL-Library.Word"
begin

text \<open>
  \<open>image-rs/src/verity\<close>: the options of a dm-verity device, their validation, the table handed to the
  device mapper, and the mount of the verified device. The 64-bit integers are words, so every sum and
  product wraps as in a release build. The device mapper, the mounts, JSON and base64 are parameters.
\<close>

section \<open>Options\<close>

text \<open>\<open>VerityPanic\<close> stands for an index out of bounds; the other errors are values of \<open>anyhow\<close>.\<close>

datatype verity_error = VerityPanic | InvalidHash | UnsupportedAlgorithm | InvalidBlockCount | UnsupportedBlockSize
  | InvalidOffset | VerityParse | VerityDecode | VerityDevice string | VerityMount string

record dm_verity_option =
  vo_hashtype :: string
  vo_hash :: string
  vo_blocknum :: "64 word"
  vo_blocksize :: "64 word"
  vo_hashsize :: "64 word"
  vo_offset :: "64 word"

definition ascii_lower :: "char \<Rightarrow> char" where
  "ascii_lower c = (let n = of_char c :: nat in if 65 \<le> n \<and> n \<le> 90 then char_of (n + 32) else c)"

definition is_valid_block_size :: "64 word \<Rightarrow> bool" where
  "is_valid_block_size block_size \<longleftrightarrow> list_ex (\<lambda>order. block_size = push_bit order 1) [9..<20]"

text \<open>
  The match on the algorithm. No character outside ASCII has one of the letters of \<open>sha\<close> as its lower
  case, so lowering the ASCII letters decides the match.
\<close>

definition hash_size_ok :: "dm_verity_option \<Rightarrow> (verity_error, unit) result" where
  "hash_size_ok v =
     (let hashtype = map ascii_lower (vo_hashtype v)
      in if hashtype = ''sha256''
         then (if length (vo_hash v) \<noteq> 64 \<or> \<not> hex_decodes (vo_hash v) then Inl InvalidHash else Inr ())
         else if hashtype = ''sha1''
         then (if length (vo_hash v) \<noteq> 40 \<or> \<not> hex_decodes (vo_hash v) then Inl InvalidHash else Inr ())
         else Inl UnsupportedAlgorithm)"

definition verity_validate :: "dm_verity_option \<Rightarrow> (verity_error, unit) result" where
  "verity_validate v =
     and_then (hash_size_ok v) (\<lambda>_.
       if vo_blocknum v = 0 \<or> 4294967295 < vo_blocknum v then Inl InvalidBlockCount
       else if \<not> is_valid_block_size (vo_blocksize v) \<or> \<not> is_valid_block_size (vo_hashsize v) then Inl UnsupportedBlockSize
       else if vo_offset v mod vo_hashsize v \<noteq> 0 \<or> vo_offset v < vo_blocksize v * vo_blocknum v then Inl InvalidOffset
       else Inr ())"

section \<open>Parsing\<close>

function trim_start_matches :: "string \<Rightarrow> string \<Rightarrow> string" where
  "trim_start_matches p s =
     (if p = [] then s else case strip_prefix p s of None \<Rightarrow> s | Some r \<Rightarrow> trim_start_matches p r)"
  by pat_completeness auto
termination
  by (relation "measure (length \<circ> snd)") (auto simp: strip_prefix_Some_iff)

declare trim_start_matches.simps [simp del]

definition parse_u64 :: "string \<Rightarrow> (verity_error, 64 word) result" where
  "parse_u64 s = (case parse_usize s of Some n \<Rightarrow> Inr (of_nat n) | None \<Rightarrow> Inl VerityParse)"

definition part_at :: "string list \<Rightarrow> nat \<Rightarrow> (verity_error, string) result" where
  "part_at parts i = (if i < length parts then Inr (parts ! i) else Inl VerityPanic)"

definition parse_tarfs_options :: "string \<Rightarrow> (verity_error, dm_verity_option) result" where
  "parse_tarfs_options source_option =
     (let ps = split_on (CHR '','') source_option;
          parts = (if length ps = 3 then ps[2 := trim_start_matches ''sha256:'' (ps ! 2)] else ps)
      in and_then (and_then (part_at parts 0) parse_u64) (\<lambda>blocknum.
         and_then (and_then (part_at parts 1) parse_u64) (\<lambda>offset.
         and_then (part_at parts 2) (\<lambda>hash.
           Inr \<lparr>vo_hashtype = ''sha256'', vo_hash = hash, vo_blocknum = blocknum, vo_blocksize = 512,
                vo_hashsize = 4096, vo_offset = offset\<rparr>))))"

record verity_codecs =
  vc_json :: "bytes \<Rightarrow> dm_verity_option option"
  vc_base64 :: "string \<Rightarrow> bytes option"

definition verity_try_from :: "verity_codecs \<Rightarrow> string \<Rightarrow> (verity_error, dm_verity_option) result" where
  "verity_try_from C value =
     and_then
       (if split_once_str ''sha256:'' value \<noteq> None then parse_tarfs_options value
        else case vc_json C value of Some v \<Rightarrow> Inr v
        | None \<Rightarrow> and_then (ok_or VerityDecode (vc_base64 C value)) (\<lambda>decoded. ok_or VerityDecode (vc_json C decoded)))
       (\<lambda>option. and_then (verity_validate option) (\<lambda>_. Inr option))"

section \<open>The device\<close>

text \<open>
  A table entry of the device mapper: start, length in sectors, target and its parameters. The world
  \<open>'w\<close> holds the devices and mounts.
\<close>

type_synonym dm_table = "(64 word \<times> 64 word \<times> string \<times> string) list"

record 'w device_mapper =
  dm_open :: "('w, string, unit) stateful"
  dm_name_ok :: "string \<Rightarrow> bool"
  dm_create :: "string \<Rightarrow> ('w, string, unit) stateful"
  dm_load :: "string \<Rightarrow> dm_table \<Rightarrow> ('w, string, unit) stateful"
  dm_resume :: "string \<Rightarrow> ('w, string, unit) stateful"
  dm_remove :: "string \<Rightarrow> ('w, string, unit) stateful"
  dm_mount_ro :: "string \<Rightarrow> string \<Rightarrow> string \<Rightarrow> ('w, string, unit) stateful"
  dm_umount :: "string \<Rightarrow> ('w, string, unit) stateful"

definition verity_hash_start :: "dm_verity_option \<Rightarrow> 64 word" where
  "verity_hash_start v = (vo_offset v + vo_hashsize v - 1) div vo_hashsize v"

definition u64_str :: "64 word \<Rightarrow> string" where
  "u64_str w = nat_str (unat w)"

definition verity_params :: "dm_verity_option \<Rightarrow> string \<Rightarrow> string" where
  "verity_params v source_device_path =
     join_with (CHR '' '') [''1'', source_device_path, source_device_path, u64_str (vo_blocksize v), u64_str (vo_hashsize v),
       u64_str (vo_blocknum v), u64_str (verity_hash_start v), vo_hashtype v, vo_hash v, ''-'']"

definition verity_sectors :: "dm_verity_option \<Rightarrow> 64 word" where
  "verity_sectors v = vo_blocknum v * vo_blocksize v div 512"

definition verity_path :: "dm_verity_option \<Rightarrow> string" where
  "verity_path v = ''/dev/mapper/'' @ vo_hash v"

definition create_verity_device ::
  "'w device_mapper \<Rightarrow> dm_verity_option \<Rightarrow> string \<Rightarrow> ('w, verity_error, string) stateful" where
  "create_verity_device D v source_device_path =
     st_map_err VerityDevice
       (st_then (dm_open D) (\<lambda>_.
        st_then (if dm_name_ok D (vo_hash v) then st_ok () else st_err ''name'') (\<lambda>_.
        st_then (dm_create D (vo_hash v)) (\<lambda>_.
        st_then (dm_load D (vo_hash v) [(0, verity_sectors v, ''verity'', verity_params v source_device_path)]) (\<lambda>_.
        st_then (dm_resume D (vo_hash v)) (\<lambda>_. st_ok (verity_path v)))))))"

definition destroy_verity_device :: "'w device_mapper \<Rightarrow> string \<Rightarrow> ('w, verity_error, unit) stateful" where
  "destroy_verity_device D name =
     st_map_err VerityDevice
       (st_then (dm_open D) (\<lambda>_.
        st_then (if dm_name_ok D name then st_ok () else st_err ''name'') (\<lambda>_. dm_remove D name)))"

definition get_verity_device_name :: "verity_codecs \<Rightarrow> string \<Rightarrow> (verity_error, string) result" where
  "get_verity_device_name C verity_options = and_then (verity_try_from C verity_options) (\<lambda>option. Inr (vo_hash option))"

definition create_dmverity_device ::
  "verity_codecs \<Rightarrow> 'w device_mapper \<Rightarrow> string \<Rightarrow> string \<Rightarrow> ('w, verity_error, string) stateful" where
  "create_dmverity_device C D verity_options source_device_path =
     st_then (lift_result (verity_try_from C verity_options)) (\<lambda>parsed. create_verity_device D parsed source_device_path)"

definition destroy_dmverity_device :: "'w device_mapper \<Rightarrow> string \<Rightarrow> ('w, verity_error, unit) stateful" where
  "destroy_dmverity_device = destroy_verity_device"

definition mount_image_block_with_integrity ::
  "verity_codecs \<Rightarrow> 'w device_mapper \<Rightarrow> string \<Rightarrow> string \<Rightarrow> string \<Rightarrow> string \<Rightarrow> ('w, verity_error, string) stateful" where
  "mount_image_block_with_integrity C D verity_options source_device_path mount_path mount_type =
     st_then (create_dmverity_device C D verity_options source_device_path) (\<lambda>verity_device_path.
     st_then (st_map_err VerityMount (dm_mount_ro D verity_device_path mount_path mount_type)) (\<lambda>_.
       st_ok verity_device_path))"

definition umount_image_block_with_integrity ::
  "'w device_mapper \<Rightarrow> string \<Rightarrow> string \<Rightarrow> ('w, verity_error, unit) stateful" where
  "umount_image_block_with_integrity D mount_path verity_device_name =
     st_then (st_map_err VerityMount (dm_umount D mount_path)) (\<lambda>_. destroy_dmverity_device D verity_device_name)"

definition get_image_name_from_remote :: "verity_codecs \<Rightarrow> string \<Rightarrow> (verity_error, string) result" where
  "get_image_name_from_remote C image_url =
     and_then (ok_or VerityDecode (vc_base64 C (trim_start_matches ''imageurl='' image_url)))
       (\<lambda>decoded. Inr (from_utf8_lossy decoded))"

section \<open>The layout of the device\<close>

lemma valid_block_size_dvd:
  assumes "is_valid_block_size b"
  shows "unat b dvd 2 ^ 64 \<and> 512 dvd unat b \<and> 512 \<le> unat b \<and> unat b \<le> 524288"
proof -
  have "b \<in> {512, 1024, 2048, 4096, 8192, 16384, 32768, 65536, 131072, 262144, 524288}"
    using assms by (simp add: is_valid_block_size_def upt_rec)
  then show ?thesis by auto
qed

lemma hash_start_block_exact:
  fixes off hs :: "64 word"
  assumes "unat hs dvd 2 ^ 64" "0 < unat hs" "off mod hs = 0"
  shows "unat ((off + hs - 1) div hs) * unat hs = unat off"
proof -
  define o' h where "o' = unat off" and "h = unat hs"
  have "o' mod h = 0" using assms(3) unfolding o'_def h_def by (metis unat_0 unat_mod_distrib)
  then obtain q where q: "o' = q * h" by (metis dvd_def dvd_eq_mod_eq_0 mult.commute)
  obtain m where m: "(2 :: nat) ^ 64 = m * h" using assms(1) unfolding h_def by (metis dvd_def mult.commute)
  have "o' < 2 ^ 64" unfolding o'_def using unsigned_less [of off] by simp
  then have "q * h < m * h" using q m by simp
  then have "q < m" by simp
  then have "(q + 1) * h \<le> m * h" by (intro mult_right_mono) simp_all
  then have bound: "o' + (h - 1) < 2 ^ 64" using q m assms(2) by (simp add: h_def)
  have "off + hs - 1 = of_nat (o' + (h - 1))"
    using assms(2) by (simp add: o'_def h_def of_nat_diff Suc_leI)
  then have "unat (off + hs - 1) = o' + (h - 1)" using bound by (simp add: unat_of_nat del: of_nat_add)
  then have "unat ((off + hs - 1) div hs) = (q * h + (h - 1)) div h"
    by (simp add: unat_div_distrib h_def q)
  also have "\<dots> = q" using assms(2) by (intro div_nat_eqI) (auto simp: h_def algebra_simps)
  finally show ?thesis using q by (simp add: o'_def h_def)
qed

lemma unat_mult_small:
  fixes a b :: "64 word"
  assumes "unat a \<le> 524288" "unat b \<le> 4294967295"
  shows "unat (a * b) = unat a * unat b"
proof -
  have "unat a * unat b \<le> 524288 * 4294967295" using assms by (intro mult_mono) simp_all
  then show ?thesis by (simp add: unat_word_ariths)
qed

lemma verity_validate_iff:
  "verity_validate v = Inr () \<longleftrightarrow>
     hash_size_ok v = Inr () \<and> vo_blocknum v \<noteq> 0 \<and> vo_blocknum v \<le> 4294967295 \<and>
     is_valid_block_size (vo_blocksize v) \<and> is_valid_block_size (vo_hashsize v) \<and>
     vo_offset v mod vo_hashsize v = 0 \<and> vo_blocksize v * vo_blocknum v \<le> vo_offset v"
  by (auto simp: verity_validate_def result_iff not_less)

lemma validated_layout:
  assumes "verity_validate v = Inr ()"
  shows "unat (verity_hash_start v) * unat (vo_hashsize v) = unat (vo_offset v) \<and>
    unat (vo_blocknum v) * unat (vo_blocksize v) \<le> unat (vo_offset v) \<and>
    unat (verity_sectors v) * 512 = unat (vo_blocknum v) * unat (vo_blocksize v) \<and> 0 < unat (verity_sectors v)"
proof -
  note v = assms [unfolded verity_validate_iff]
  note bs = valid_block_size_dvd [of "vo_blocksize v"] and hs = valid_block_size_dvd [of "vo_hashsize v"]
  have num: "unat (vo_blocknum v) \<le> 4294967295" using v by (simp add: word_le_nat_alt)
  have pos: "0 < unat (vo_blocknum v)" using v by (simp add: unat_gt_0)
  have prod: "unat (vo_blocksize v * vo_blocknum v) = unat (vo_blocksize v) * unat (vo_blocknum v)"
    using bs v num by (intro unat_mult_small) simp_all
  have "unat (verity_hash_start v) * unat (vo_hashsize v) = unat (vo_offset v)"
    unfolding verity_hash_start_def using hs v by (intro hash_start_block_exact) auto
  moreover have "unat (vo_blocknum v) * unat (vo_blocksize v) \<le> unat (vo_offset v)"
    using v prod by (simp add: word_le_nat_alt mult.commute)
  moreover have sectors: "unat (verity_sectors v) = unat (vo_blocknum v) * unat (vo_blocksize v) div 512"
    using prod by (simp add: verity_sectors_def unat_div_distrib mult.commute)
  moreover have "512 dvd unat (vo_blocknum v) * unat (vo_blocksize v)" using bs v by simp
  moreover have "0 < unat (vo_blocknum v) * unat (vo_blocksize v)" using bs v pos by simp
  ultimately show ?thesis by (metis dvd_div_mult_self nat_0_less_mult_iff)
qed

lemma validated_table_words:
  assumes "verity_validate v = Inr ()" and "CHR '' '' \<notin> set dev"
  shows "split_on (CHR '' '') (verity_params v dev) =
    [''1'', dev, dev, u64_str (vo_blocksize v), u64_str (vo_hashsize v), u64_str (vo_blocknum v),
     u64_str (verity_hash_start v), vo_hashtype v, vo_hash v, ''-'']"
proof -
  have free: "CHR '' '' \<notin> set (u64_str w)" for w
    unfolding u64_str_def by (rule nat_str_free) (simp add: is_digit_def)
  have ok: "map ascii_lower (vo_hashtype v) \<in> {''sha256'', ''sha1''} \<and> hex_decodes (vo_hash v)"
    using assms(1) by (auto simp: verity_validate_iff hash_size_ok_def Let_def split: if_split_asm)
  have "CHR '' '' \<notin> set (vo_hash v)" using ok by (auto simp: hex_decodes_def list_all_iff is_hex_digit_def Let_def)
  moreover have "CHR '' '' \<notin> set (vo_hashtype v)"
  proof
    assume "CHR '' '' \<in> set (vo_hashtype v)"
    then have "ascii_lower (CHR '' '') \<in> set (map ascii_lower (vo_hashtype v))" by simp
    then show False using ok by (auto simp: ascii_lower_def)
  qed
  ultimately show ?thesis using assms(2) free unfolding verity_params_def by (intro split_on_join) auto
qed

section \<open>Parsing\<close>

lemma parse_u64_no_letter:
  assumes "parse_u64 s = Inr n"
  shows "CHR ''s'' \<notin> set s"
proof -
  obtain c cs where s: "s = c # cs" and "list_all is_digit cs" and "is_digit c \<or> c = CHR ''+''"
    using assms by (auto simp: parse_u64_def parse_usize_def parse_digits_def split: list.splits option.splits if_split_asm)
  then show ?thesis by (auto simp: list_all_iff is_digit_def)
qed

lemma split_once_str_contains: "split_once_str sep s = Some (a, b) \<Longrightarrow> set sep \<subseteq> set s"
proof (induction sep s arbitrary: a b rule: split_once_str.induct)
  case (1 sep)
  then show ?case by (auto split: if_split_asm)
next
  case (2 sep c s)
  show ?case
  proof (cases "strip_prefix sep (c # s)")
    case None
    then show ?thesis using 2 by fastforce
  next
    case (Some r)
    then have "set (c # s) = set sep \<union> set r" by (metis set_append strip_prefix_Some_iff)
    then show ?thesis by simp
  qed
qed

lemma split_once_str_found: "split_once_str sep (a @ sep @ b) \<noteq> None"
proof (induction a)
  case Nil
  then show ?case by (cases "sep @ b") (auto simp: strip_prefix_append split: option.splits dest: arg_cong [of _ _ "strip_prefix sep"])
next
  case (Cons c a)
  then show ?case by (auto split: option.splits)
qed

lemma tarfs_no_panic:
  assumes "split_once_str ''sha256:'' value = Some (a, b)"
  shows "parse_tarfs_options value \<noteq> Inl VerityPanic"
proof
  assume panic: "parse_tarfs_options value = Inl VerityPanic"
  define ps where "ps = split_on (CHR '','') value"
  have "CHR ''s'' \<in> set value" using split_once_str_contains [OF assms] by simp
  then have "CHR ''s'' \<in> set (join_with (CHR '','') ps)" by (simp add: ps_def join_split_on)
  then obtain p where p: "p \<in> set ps" "CHR ''s'' \<in> set p"
    using join_with_free [of ps "CHR ''s''" "CHR '',''"] by auto
  have no_panic: "parse_u64 s \<noteq> Inl VerityPanic" for s by (simp add: parse_u64_def split: option.splits)
  have ne: "ps \<noteq> []" by (simp add: ps_def)
  have short: "length ps < 3"
    using panic no_panic ne
    by (auto simp: parse_tarfs_options_def ps_def [symmetric] Let_def part_at_def result_iff split: if_split_asm)
  have "\<forall>i<length ps. \<exists>n. parse_u64 (ps ! i) = Inr n"
    using panic no_panic ne short
    by (auto simp: parse_tarfs_options_def ps_def [symmetric] Let_def part_at_def result_iff less_Suc_eq numeral_3_eq_3
        split: if_split_asm)
  then show False using p parse_u64_no_letter by (auto simp: in_set_conv_nth)
qed

text \<open>
  Whatever options a verity device is given, parsing them is not a panic: where the split is used
  without a check of its length, an earlier part has failed to be a number.
\<close>

lemma verity_options_no_panic: "verity_try_from C value \<noteq> Inl VerityPanic"
proof -
  have sized: "hash_size_ok v \<noteq> Inl VerityPanic" for v by (simp add: hash_size_ok_def Let_def)
  have "verity_validate v \<noteq> Inl VerityPanic" for v
    using sized by (auto simp: verity_validate_def result_iff split: if_split_asm)
  then show ?thesis
    using tarfs_no_panic by (auto simp: verity_try_from_def result_iff split: if_split_asm option.splits)
qed

lemma tarfs_options_read:
  assumes "length h = 64" "hex_decodes h" and "0 < n" "n < 2 ^ 32" and "off < 2 ^ 64" "4096 dvd off" "512 * n \<le> off"
  shows "verity_try_from C (nat_str n @ '','' @ nat_str off @ '',sha256:'' @ h) =
    Inr \<lparr>vo_hashtype = ''sha256'', vo_hash = h, vo_blocknum = of_nat n, vo_blocksize = 512, vo_hashsize = 4096,
         vo_offset = of_nat off\<rparr>" (is "verity_try_from C ?s = Inr ?v")
proof -
  have free: "CHR '','' \<notin> set (nat_str k)" for k by (rule nat_str_free) (simp add: is_digit_def)
  have hex: "c \<in> set h \<Longrightarrow> is_hex_digit c" for c using assms(2) by (simp add: hex_decodes_def list_all_iff)
  have "CHR '','' \<notin> set h" "CHR ''s'' \<notin> set h" using hex by (auto simp: is_hex_digit_def Let_def dest!: hex)
  moreover from this have "trim_start_matches ''sha256:'' h = h"
    by (auto simp: trim_start_matches.simps [of _ h] strip_prefix_Some_iff split: option.splits)
  ultimately have split: "split_on (CHR '','') ?s = [nat_str n, nat_str off, ''sha256:'' @ h]"
    and trimmed: "trim_start_matches ''sha256:'' (''sha256:'' @ h) = h"
    using free by (simp_all add: split_on_append split_on_free trim_start_matches.simps [of _ "_ # _"])
  have tarfs: "parse_tarfs_options ?s = Inr ?v"
    unfolding parse_tarfs_options_def split
    using trimmed assms(4,5) by (simp add: part_at_def parse_u64_def parse_usize_nat_str Let_def)
  have "split_once_str ''sha256:'' ?s \<noteq> None"
    using split_once_str_found [of "''sha256:''" "nat_str n @ '','' @ nat_str off @ '',''" h] by simp
  moreover have "verity_validate ?v = Inr ()"
  proof -
    have u: "unat (of_nat n :: 64 word) = n" "unat (of_nat off :: 64 word) = off" using assms(4,5) by (simp_all add: unat_of_nat)
    have "unat (512 * of_nat n :: 64 word) = 512 * n"
      using unat_mult_small [of 512 "of_nat n"] u assms(4) by simp
    moreover have "of_nat n \<noteq> (0 :: 64 word)" using u(1) assms(3) by (metis unat_0 less_numeral_extra(3))
    moreover have "unat (of_nat off mod 4096 :: 64 word) = 0" using assms(6) u by (simp add: unat_mod_distrib)
    ultimately show ?thesis
      using assms(1-3,4,7) u
      by (simp add: verity_validate_iff hash_size_ok_def ascii_lower_def is_valid_block_size_def upt_rec word_le_nat_alt
          unat_eq_0 unsigned_eq_0_iff [symmetric])
  qed
  ultimately show ?thesis using tarfs by (simp add: verity_try_from_def)
qed

text \<open>
  The options of a block image that a tool writes as block count, offset and hash are read back,
  with the default block sizes, if the hash is one of SHA-256, the count is one of 32 bits and not zero,
  and the offset is a multiple of 4096 behind the data.
\<close>

lemma tarfs_options_roundtrip:
  assumes "length h = 64" "hex_decodes h" and "0 < n" "n < 2 ^ 32" and "off < 2 ^ 64" "4096 dvd off" "512 * n \<le> off"
  shows "verity_try_from C (nat_str n @ '','' @ nat_str off @ '',sha256:'' @ h) =
    Inr \<lparr>vo_hashtype = ''sha256'', vo_hash = h, vo_blocknum = of_nat n, vo_blocksize = 512, vo_hashsize = 4096,
         vo_offset = of_nat off\<rparr>"
  using assms by (rule tarfs_options_read)

section \<open>Mounting\<close>

text \<open>
  C17. A block image is reported as mounted only after its options were validated and the device mapper
  has created, loaded and started a device named by the root hash, whose table covers exactly the data
  blocks and whose hash tree begins at the offset, behind the data; the device is what is mounted,
  read-only. The table splits into its ten words if the path of the device has no blank.
\<close>

theorem verity_mount_checked:
  assumes "mount_image_block_with_integrity C D opts dev path fs w = (Inr p, w')"
  shows "\<exists>v w1 w2 w3 w4. verity_try_from C opts = Inr v \<and> verity_validate v = Inr () \<and> p = ''/dev/mapper/'' @ vo_hash v \<and>
    dm_create D (vo_hash v) w1 = (Inr (), w2) \<and>
    dm_load D (vo_hash v) [(0, verity_sectors v, ''verity'', verity_params v dev)] w2 = (Inr (), w3) \<and>
    dm_resume D (vo_hash v) w3 = (Inr (), w4) \<and> dm_mount_ro D p path fs w4 = (Inr (), w') \<and>
    (CHR '' '' \<notin> set dev \<longrightarrow> split_on (CHR '' '') (verity_params v dev) =
      [''1'', dev, dev, u64_str (vo_blocksize v), u64_str (vo_hashsize v), u64_str (vo_blocknum v),
       u64_str (verity_hash_start v), vo_hashtype v, vo_hash v, ''-''])"
proof -
  obtain v where v: "verity_try_from C opts = Inr v" and valid: "verity_validate v = Inr ()"
    and made: "\<exists>wa. create_verity_device D v dev w = (Inr p, wa) \<and> dm_mount_ro D p path fs wa = (Inr (), w')"
    using assms by (auto simp: mount_image_block_with_integrity_def create_dmverity_device_def result_iff verity_try_from_def)
  obtain w1 w2 w3 w4 where "p = ''/dev/mapper/'' @ vo_hash v" "dm_create D (vo_hash v) w1 = (Inr (), w2)"
    "dm_load D (vo_hash v) [(0, verity_sectors v, ''verity'', verity_params v dev)] w2 = (Inr (), w3)"
    "dm_resume D (vo_hash v) w3 = (Inr (), w4)" "dm_mount_ro D p path fs w4 = (Inr (), w')"
    using made by (auto simp: create_verity_device_def verity_path_def result_iff split: if_split_asm)
  then show ?thesis using v valid validated_table_words [OF valid] by blast
qed

text \<open>
  C18. For accepted options neither the length of the device nor the start of its hash tree wraps around:
  the sectors hold exactly the data blocks, and the hash tree starts exactly at the offset, behind the
  data, although the sum with the block size may pass the largest 64-bit number.
\<close>

theorem verity_layout_exact:
  assumes "verity_validate v = Inr ()"
  shows "unat (verity_hash_start v) * unat (vo_hashsize v) = unat (vo_offset v) \<and>
    unat (vo_blocknum v) * unat (vo_blocksize v) \<le> unat (vo_offset v) \<and>
    unat (verity_sectors v) * 512 = unat (vo_blocknum v) * unat (vo_blocksize v) \<and> 0 < unat (verity_sectors v)"
  using assms by (rule validated_layout)

text \<open>If the mount fails, the device stays behind and its name is taken.\<close>

lemma failed_mount_keeps_device:
  assumes "create_dmverity_device C D opts dev w = (Inr p, w1)" "dm_mount_ro D p path fs w1 = (Inl e, w2)"
  shows "mount_image_block_with_integrity C D opts dev path fs w = (Inl (VerityMount e), w2)"
  using assms by (simp add: mount_image_block_with_integrity_def st_map_err_def)

section \<open>An example\<close>

definition demo_verity_codecs :: verity_codecs where
  "demo_verity_codecs = \<lparr>vc_json = \<lambda>_. None, vc_base64 = \<lambda>s. Some s\<rparr>"

text \<open>A world that logs the calls.\<close>

definition logged :: "string \<Rightarrow> (string list, string, unit) stateful" where
  "logged call w = (Inr (), w @ [call])"

definition demo_device_mapper :: "string list device_mapper" where
  "demo_device_mapper = \<lparr>dm_open = logged ''open'', dm_name_ok = \<lambda>n. n \<noteq> [], dm_create = \<lambda>n. logged ''create'',
     dm_load = \<lambda>n t. logged (concat (map (\<lambda>(a, b, c, d). d) t)), dm_resume = \<lambda>n. logged ''resume'',
     dm_remove = \<lambda>n. logged ''remove'', dm_mount_ro = \<lambda>d p f. logged ''mount'', dm_umount = \<lambda>p. logged ''umount''\<rparr>"

definition demo_verity :: dm_verity_option where
  "demo_verity = \<lparr>vo_hashtype = ''sha256'', vo_hash = replicate 64 (CHR ''a''), vo_blocknum = 1024, vo_blocksize = 512,
     vo_hashsize = 4096, vo_offset = 524288\<rparr>"

definition demo_verity_options :: string where
  "demo_verity_options = nat_str 1024 @ '','' @ nat_str 524288 @ '',sha256:'' @ replicate 64 (CHR ''a'')"

lemma demo_hash: "length (replicate 64 (CHR ''a'')) = 64" "hex_decodes (replicate 64 (CHR ''a''))"
  by (simp_all add: hex_decodes_def list_all_iff is_hex_digit_def)

lemma demo_verity_read: "verity_try_from C demo_verity_options = Inr demo_verity"
  using tarfs_options_read [OF demo_hash, of 1024 524288 C] by (simp add: demo_verity_options_def demo_verity_def)

lemma demo_verity_valid: "verity_validate demo_verity = Inr ()"
  using demo_verity_read [of demo_verity_codecs] by (auto simp: verity_try_from_def result_iff)

lemma tarfs_options_roundtrip_witness:
  "verity_try_from demo_verity_codecs demo_verity_options = Inr demo_verity"
  using tarfs_options_roundtrip [OF demo_hash, of 1024 524288 demo_verity_codecs]
  by (simp add: demo_verity_options_def demo_verity_def)

theorem verity_layout_exact_witness:
  "unat (verity_hash_start demo_verity) * 4096 = 524288 \<and> unat (verity_sectors demo_verity) * 512 = 524288"
  using verity_layout_exact [OF demo_verity_valid] by (simp add: demo_verity_def)

theorem verity_mount_checked_witness:
  "\<exists>v w4 w'. verity_try_from demo_verity_codecs demo_verity_options = Inr v \<and> verity_validate v = Inr () \<and>
    dm_mount_ro demo_device_mapper (verity_path demo_verity) ''/mnt'' ''ext4'' w4 = (Inr (), w')"
proof -
  obtain w' where "mount_image_block_with_integrity demo_verity_codecs demo_device_mapper demo_verity_options ''/dev/loop0'' ''/mnt''
      ''ext4'' [] = (Inr (verity_path demo_verity), w')"
    by (simp add: mount_image_block_with_integrity_def create_dmverity_device_def demo_verity_read create_verity_device_def
        st_then_def st_map_err_def lift_result_def demo_device_mapper_def logged_def demo_verity_def)
  from verity_mount_checked [OF this] show ?thesis unfolding verity_path_def by blast
qed

end
