(* ===== verification/Key_Brokers.thy ===== *)
theory Key_Brokers
  imports Data_Hub
begin

text \<open>
  \<open>attestation-agent/kbc/src\<close>, \<open>attestation-agent/deps/sev\<close> and the SEV client of
  \<open>confidential-data-hub/kms/src/plugins/kbs/sev/client.rs\<close>: the key broker client modules of the
  attestation agent with their registry, the injected secrets of SEV guests, and the client of the SEV
  key broker. Files, commands, JSON, bincode, UUIDs and the gRPC call are parameters.
\<close>

section \<open>The environment\<close>

datatype kbc_error = KbcPanic string | KbcFailed string | KbcCrypto crypto_error | KbcKbs kbs_error | KbcBuild build_error

record sev_connection =
  sc_client_id :: string
  sc_key :: string

record request_details =
  rd_guid :: string
  rd_format :: string
  rd_secret_type :: string
  rd_id :: string

record online_secret_request =
  oq_client_id :: string
  oq_secret_requests :: "request_details list"

record online_secret_response =
  or_payload :: string
  or_iv :: string

text \<open>
  \<open>kb_status\<close> runs a command and tells whether it exited with 0; \<open>kb_json_map\<close> and \<open>kb_bincode\<close> give the
  entries of a hash map, every key once; \<open>kb_uri\<close> is the check of a URI; \<open>kb_native_provider\<close> makes the
  evidence provider of a client.
\<close>

record ('w, 'b, 'sk, 'pt, 'rk) kbc_env =
  kb_backend :: "('sk, 'pt, 'rk) backend"
  kb_b64 :: "string \<Rightarrow> bytes option"
  kb_json_map :: "bytes \<Rightarrow> (string \<times> string) list option"
  kb_read :: "string \<Rightarrow> ('w, string, bytes) stateful"
  kb_remove :: "string \<Rightarrow> ('w, string, unit) stateful"
  kb_status :: "string \<Rightarrow> string list \<Rightarrow> ('w, string, bool) stateful"
  kb_connection_json :: "bytes \<Rightarrow> sev_connection option"
  kb_uuid :: "'w \<Rightarrow> string \<times> 'w"
  kb_uri :: "string \<Rightarrow> bool"
  kb_online_secret :: "string \<Rightarrow> online_secret_request \<Rightarrow> ('w, string, online_secret_response) stateful"
  kb_bincode :: "bytes \<Rightarrow> (string \<times> bytes) list option"
  kb_native_provider :: "('w, string, unit) stateful"
  kb_kbs :: "('w, 'b, 'sk, 'pt, 'rk) kbs_env"
  kb_cert_ok :: "string \<Rightarrow> bool"
  kb_sample_file :: "string \<Rightarrow> bytes"

definition decode_b64 :: "('w, 'b, 'sk, 'pt, 'rk) kbc_env \<Rightarrow> string \<Rightarrow> (kbc_error, bytes) result" where
  "decode_b64 E s = ok_or (KbcFailed ''base64'') (kb_b64 E s)"

section \<open>Secrets injected into SEV guests\<close>

definition SECRET_MODULE_NAME :: string where "SECRET_MODULE_NAME = ''efi_secret''"
definition MODPROBE_PATH :: string where "MODPROBE_PATH = ''/sbin/modprobe''"
definition MOUNT_PATH :: string where "MOUNT_PATH = ''/bin/mount''"

definition command_ok ::
  "('w, 'b, 'sk, 'pt, 'rk) kbc_env \<Rightarrow> string \<Rightarrow> string list \<Rightarrow> string \<Rightarrow> ('w, kbc_error, unit) stateful" where
  "command_ok E cmd args failure =
     st_then (st_map_err KbcFailed (kb_status E cmd args)) (\<lambda>success. if success then st_ok () else st_err (KbcFailed failure))"

definition mount_security_fs :: "('w, 'b, 'sk, 'pt, 'rk) kbc_env \<Rightarrow> ('w, kbc_error, unit) stateful" where
  "mount_security_fs E =
     command_ok E MOUNT_PATH [''-t'', ''securityfs'', ''securityfs'', ''/sys/kernel/security''] ''mount''"

definition secret_module_new :: "('w, 'b, 'sk, 'pt, 'rk) kbc_env \<Rightarrow> ('w, kbc_error, unit) stateful" where
  "secret_module_new E = command_ok E MODPROBE_PATH [SECRET_MODULE_NAME] ''load''"

text \<open>The destructor looks only at whether the command could be run.\<close>

definition secret_module_drop :: "('w, 'b, 'sk, 'pt, 'rk) kbc_env \<Rightarrow> ('w, kbc_error, unit) stateful" where
  "secret_module_drop E w =
     (case kb_status E MODPROBE_PATH [''-r'', SECRET_MODULE_NAME] w of
        (Inl e, w') \<Rightarrow> (Inl (KbcPanic e), w') | (Inr _, w') \<Rightarrow> (Inr (), w'))"

text \<open>The module is held until the body has returned, failed or panicked.\<close>

definition with_secret_module ::
  "('w, 'b, 'sk, 'pt, 'rk) kbc_env \<Rightarrow> ('w, kbc_error, 'a) stateful \<Rightarrow> ('w, kbc_error, 'a) stateful" where
  "with_secret_module E body =
     st_then (mount_security_fs E) (\<lambda>_. st_then (secret_module_new E) (\<lambda>_ w.
       (case body w of (r, w') \<Rightarrow>
          (case secret_module_drop E w' of (Inl p, w'') \<Rightarrow> (Inl p, w'') | (Inr _, w'') \<Rightarrow> (r, w'')))))"

definition read_secret_file :: "('w, 'b, 'sk, 'pt, 'rk) kbc_env \<Rightarrow> string \<Rightarrow> ('w, kbc_error, bytes) stateful" where
  "read_secret_file E path =
     st_then (st_map_err KbcFailed (kb_read E path)) (\<lambda>json.
     st_then (st_map_err KbcPanic (kb_remove E path)) (\<lambda>_. st_ok json))"

section \<open>Modules that hold the keys\<close>

definition decode_entries ::
  "('w, 'b, 'sk, 'pt, 'rk) kbc_env \<Rightarrow> bytes \<Rightarrow> (kbc_error, string \<rightharpoonup> bytes) result" where
  "decode_entries E json =
     and_then (ok_or (KbcFailed ''parse JSON'') (kb_json_map E json)) (\<lambda>encoded.
     and_then (try_map (\<lambda>(k, v). and_then (decode_b64 E v) (\<lambda>key. Inr (k, key))) encoded) (\<lambda>decoded. Inr (map_of decoded)))"

definition load_fs_file ::
  "('w, 'b, 'sk, 'pt, 'rk) kbc_env \<Rightarrow> string \<Rightarrow> ('w, kbc_error, string \<rightharpoonup> bytes) stateful" where
  "load_fs_file E file_name =
     st_then (st_map_err KbcFailed (kb_read E file_name)) (\<lambda>json. lift_result (decode_entries E json))"

record offline_fs_kbc =
  of_keys :: "(kbc_error, string \<rightharpoonup> bytes) result"
  of_resources :: "(kbc_error, string \<rightharpoonup> bytes) result"

definition FS_KEYS_PATH :: string where "FS_KEYS_PATH = ''/etc/aa-offline_fs_kbc-keys.json''"
definition FS_RESOURCES_PATH :: string where "FS_RESOURCES_PATH = ''/etc/aa-offline_fs_kbc-resources.json''"

definition offline_fs_kbc_new :: "('w, 'b, 'sk, 'pt, 'rk) kbc_env \<Rightarrow> 'w \<Rightarrow> offline_fs_kbc \<times> 'w" where
  "offline_fs_kbc_new E w =
     (case load_fs_file E FS_KEYS_PATH w of (keys, w1) \<Rightarrow>
        (case load_fs_file E FS_RESOURCES_PATH w1 of (resources, w2) \<Rightarrow>
           (\<lparr>of_keys = keys, of_resources = resources\<rparr>, w2)))"

definition lookup_loaded :: "(kbc_error, string \<rightharpoonup> bytes) result \<Rightarrow> string \<Rightarrow> (kbc_error, bytes) result" where
  "lookup_loaded loaded name = and_then loaded (\<lambda>m. ok_or (KbcFailed ''unknown name'') (m name))"

definition offline_fs_get_key :: "offline_fs_kbc \<Rightarrow> resource_uri \<Rightarrow> (kbc_error, bytes) result" where
  "offline_fs_get_key k kid = lookup_loaded (of_keys k) (resource_path kid)"

definition offline_fs_get_resource :: "offline_fs_kbc \<Rightarrow> resource_uri \<Rightarrow> (kbc_error, bytes) result" where
  "offline_fs_get_resource k rid = lookup_loaded (of_resources k) (resource_path rid)"

text \<open>The decryption that all modules but the sample share once they have the key.\<close>

definition unwrap_packet ::
  "('w, 'b, 'sk, 'pt, 'rk) kbc_env \<Rightarrow> annotation_packet_v1 \<Rightarrow> bytes \<Rightarrow> (kbc_error, bytes) result" where
  "unwrap_packet E p key =
     and_then (ok_or (KbcFailed ''wrap type'') (wrap_type_try_from (a1_wrap_type p))) (\<lambda>wrap_type.
     and_then (decode_b64 E (a1_wrapped_data p)) (\<lambda>data.
     and_then (decode_b64 E (a1_iv p)) (\<lambda>iv.
       map_err KbcCrypto (crypto_decrypt (kb_backend E) key data iv wrap_type))))"

definition offline_fs_decrypt_payload ::
  "('w, 'b, 'sk, 'pt, 'rk) kbc_env \<Rightarrow> annotation_packet_v1 \<Rightarrow> offline_fs_kbc \<Rightarrow> (kbc_error, bytes) result" where
  "offline_fs_decrypt_payload E p k = and_then (offline_fs_get_key k (a1_kid p)) (unwrap_packet E p)"

definition SEV_KEYS_PATH :: string where
  "SEV_KEYS_PATH = ''/sys/kernel/security/secrets/coco/e6f5a162-d67f-4750-a67c-5d065f2a9910''"

definition load_sev_keys :: "('w, 'b, 'sk, 'pt, 'rk) kbc_env \<Rightarrow> string \<Rightarrow> ('w, kbc_error, string \<rightharpoonup> bytes) stateful" where
  "load_sev_keys E keyfile_name =
     with_secret_module E (st_then (read_secret_file E keyfile_name) (\<lambda>json. lift_result (decode_entries E json)))"

record offline_sev_kbc = os_keys :: "(kbc_error, string \<rightharpoonup> bytes) result"

text \<open>A panic while the keys are loaded ends the constructor; any other error is kept.\<close>

definition catch_error :: "('w, kbc_error, 'a) stateful \<Rightarrow> ('w, kbc_error, (kbc_error, 'a) result) stateful" where
  "catch_error m w =
     (case m w of (Inl (KbcPanic e), w') \<Rightarrow> (Inl (KbcPanic e), w') | (r, w') \<Rightarrow> (Inr r, w'))"

definition offline_sev_kbc_new :: "('w, 'b, 'sk, 'pt, 'rk) kbc_env \<Rightarrow> ('w, kbc_error, offline_sev_kbc) stateful" where
  "offline_sev_kbc_new E = st_then (catch_error (load_sev_keys E SEV_KEYS_PATH)) (\<lambda>keys. st_ok \<lparr>os_keys = keys\<rparr>)"

definition offline_sev_get_key :: "offline_sev_kbc \<Rightarrow> resource_uri \<Rightarrow> (kbc_error, bytes) result" where
  "offline_sev_get_key k kid = lookup_loaded (os_keys k) (resource_path kid)"

definition offline_sev_decrypt_payload ::
  "('w, 'b, 'sk, 'pt, 'rk) kbc_env \<Rightarrow> annotation_packet_v1 \<Rightarrow> offline_sev_kbc \<Rightarrow> (kbc_error, bytes) result" where
  "offline_sev_decrypt_payload E p k = and_then (offline_sev_get_key k (a1_kid p)) (unwrap_packet E p)"

section \<open>The sample module\<close>

definition KBC_HARDCODED_KEY :: bytes where
  "KBC_HARDCODED_KEY = map char_of
     [217, 155, 119, 5, 176, 186, 122, 22, 130, 149, 179, 163, 54, 114, 112, 176, 221, 155, 55, 27,
      245, 20, 202, 139, 155, 167, 240, 163, 55, 17, 218, 234 :: nat]"

record sample_kbc = sk_kbs_info :: "string \<rightharpoonup> string"

definition sample_kbc_new :: "string \<Rightarrow> sample_kbc" where
  "sample_kbc_new kbs_uri = \<lparr>sk_kbs_info = [''kbs_uri'' \<mapsto> kbs_uri]\<rparr>"

text \<open>The wrap type of the packet is not looked at.\<close>

definition sample_decrypt_payload ::
  "('w, 'b, 'sk, 'pt, 'rk) kbc_env \<Rightarrow> annotation_packet_v1 \<Rightarrow> (kbc_error, bytes) result" where
  "sample_decrypt_payload E p =
     and_then (decode_b64 E (a1_wrapped_data p)) (\<lambda>data.
     and_then (decode_b64 E (a1_iv p)) (\<lambda>iv.
       map_err KbcCrypto (crypto_decrypt (kb_backend E) KBC_HARDCODED_KEY data iv Aes256Gcm)))"

definition sample_files :: "string \<rightharpoonup> string" where
  "sample_files = [''security-policy'' \<mapsto> ''policy.json'', ''sigstore-config'' \<mapsto> ''sigstore_config.yaml'',
     ''gpg-public-config'' \<mapsto> ''pubkey.gpg'', ''cosign-public-key'' \<mapsto> ''cosign.pub'', ''credential'' \<mapsto> ''auth.json'']"

definition sample_get_resource ::
  "('w, 'b, 'sk, 'pt, 'rk) kbc_env \<Rightarrow> resource_uri \<Rightarrow> (kbc_error, bytes) result" where
  "sample_get_resource E rid = map_err KbcFailed (ok_or ''type'' (map_option (kb_sample_file E) (sample_files (ru_type rid))))"

section \<open>The module of the key broker service\<close>

record ('sk, 'rk) cc_kbc =
  cc_token :: "string option"
  cc_client :: "('sk, 'rk) kbs_client"

definition in_network :: "('w, 'e, 'a) stateful \<Rightarrow> ('w network, 'e, 'a) stateful" where
  "in_network m n = (case m (net_world n) of (r, w) \<Rightarrow> (r, n\<lparr>net_world := w\<rparr>))"

definition kbc_cc_new ::
  "('w, 'b, 'sk, 'pt, 'rk) kbc_env \<Rightarrow> string \<Rightarrow> ('w network, kbc_error, ('sk, 'rk) cc_kbc) stateful" where
  "kbc_cc_new E kbs_uri =
     st_then (st_map_err KbcFailed (in_network (kb_native_provider E))) (\<lambda>_.
     st_then (lift_result (map_err KbcBuild (build (kb_kbs E) (kb_cert_ok E) (builder_with_provider kbs_uri)))) (\<lambda>client.
       st_ok \<lparr>cc_token = None, cc_client = client\<rparr>))"

definition cc_kbc_get_resource ::
  "('w, 'b, 'sk, 'pt, 'rk) kbc_env \<Rightarrow> resource_uri \<Rightarrow> (('sk, 'rk) cc_kbc \<times> 'w network, kbc_error, bytes) stateful" where
  "cc_kbc_get_resource E rid s =
     (case rcar_get_resource (kb_kbs E) rid (cc_client (fst s), snd s) of
        (r, (c, n)) \<Rightarrow> (map_err KbcKbs r, ((fst s)\<lparr>cc_client := c\<rparr>, n)))"

definition cc_kbc_decrypt_payload ::
  "('w, 'b, 'sk, 'pt, 'rk) kbc_env \<Rightarrow> annotation_packet_v1 \<Rightarrow> (('sk, 'rk) cc_kbc \<times> 'w network, kbc_error, bytes) stateful" where
  "cc_kbc_decrypt_payload E p = st_then (cc_kbc_get_resource E (a1_kid p)) (\<lambda>key. lift_result (unwrap_packet E p key))"

section \<open>The module of the SEV key broker\<close>

definition ONLINE_KEYS_PATH :: string where
  "ONLINE_KEYS_PATH = ''/sys/kernel/security/secrets/coco/1ee27366-0c87-43a6-af48-28543eaf7cb0''"

record online_sev_kbc =
  on_kbs_uri :: string
  on_connection :: "(kbc_error, sev_connection) result"

definition load_connection :: "('w, 'b, 'sk, 'pt, 'rk) kbc_env \<Rightarrow> ('w, kbc_error, sev_connection) stateful" where
  "load_connection E =
     with_secret_module E (st_then (read_secret_file E ONLINE_KEYS_PATH) (\<lambda>json.
       lift_result (ok_or (KbcFailed ''connection'') (kb_connection_json E json))))"

definition online_sev_kbc_new ::
  "('w, 'b, 'sk, 'pt, 'rk) kbc_env \<Rightarrow> string \<Rightarrow> ('w, kbc_error, online_sev_kbc) stateful" where
  "online_sev_kbc_new E kbs_uri =
     st_then (catch_error (load_connection E)) (\<lambda>connection. st_ok \<lparr>on_kbs_uri = kbs_uri, on_connection = connection\<rparr>)"

definition new_guid :: "('w, 'b, 'sk, 'pt, 'rk) kbc_env \<Rightarrow> ('w, kbc_error, string) stateful" where
  "new_guid E w = (case kb_uuid E w of (guid, w') \<Rightarrow> (Inr guid, w'))"

definition secret_request :: "string \<Rightarrow> string \<Rightarrow> string \<Rightarrow> string \<Rightarrow> online_secret_request" where
  "secret_request client_id guid secret_type secret_id =
     \<lparr>oq_client_id = client_id,
      oq_secret_requests = [\<lparr>rd_guid = guid, rd_format = ''binary'', rd_secret_type = secret_type, rd_id = secret_id\<rparr>]\<rparr>"

text \<open>The answer is decrypted and its entry for the request is taken out.\<close>

definition open_secret ::
  "('w, 'b, 'sk, 'pt, 'rk) kbc_env \<Rightarrow> bytes \<Rightarrow> string \<Rightarrow> online_secret_response \<Rightarrow> (kbc_error, bytes) result" where
  "open_secret E key guid response =
     and_then (decode_b64 E (or_payload response)) (\<lambda>payload.
     and_then (decode_b64 E (or_iv response)) (\<lambda>iv.
     and_then (map_err KbcCrypto (crypto_decrypt (kb_backend E) key payload iv Aes256Gcm)) (\<lambda>decrypted_payload.
     and_then (ok_or (KbcFailed ''bincode'') (kb_bincode E decrypted_payload)) (\<lambda>payload_dict.
       ok_or (KbcFailed ''Secret UUID not found'') (map_of payload_dict guid)))))"

definition query_kbs ::
  "('w, 'b, 'sk, 'pt, 'rk) kbc_env \<Rightarrow> online_sev_kbc \<Rightarrow> string \<Rightarrow> string \<Rightarrow> ('w, kbc_error, bytes) stateful" where
  "query_kbs E k secret_type secret_id =
     st_then (if kb_uri E (''http://'' @ on_kbs_uri k) then st_ok () else st_err (KbcFailed ''uri'')) (\<lambda>_.
     st_then (lift_result (on_connection k)) (\<lambda>connection.
     st_then (new_guid E) (\<lambda>guid.
     st_then (st_map_err KbcFailed (kb_online_secret E (''http://'' @ on_kbs_uri k)
         (secret_request (sc_client_id connection) guid secret_type secret_id))) (\<lambda>response.
       lift_result (and_then (decode_b64 E (sc_key connection)) (\<lambda>key. open_secret E key guid response))))))"

definition get_key_from_kbs ::
  "('w, 'b, 'sk, 'pt, 'rk) kbc_env \<Rightarrow> online_sev_kbc \<Rightarrow> resource_uri \<Rightarrow> ('w, kbc_error, bytes) stateful" where
  "get_key_from_kbs E k rid = query_kbs E k ''key'' (resource_path rid)"

definition get_resource_from_kbs ::
  "('w, 'b, 'sk, 'pt, 'rk) kbc_env \<Rightarrow> online_sev_kbc \<Rightarrow> resource_uri \<Rightarrow> ('w, kbc_error, bytes) stateful" where
  "get_resource_from_kbs E k rid = query_kbs E k ''resource'' (resource_path rid)"

definition online_sev_decrypt_payload ::
  "('w, 'b, 'sk, 'pt, 'rk) kbc_env \<Rightarrow> annotation_packet_v1 \<Rightarrow> online_sev_kbc \<Rightarrow> ('w, kbc_error, bytes) stateful" where
  "online_sev_decrypt_payload E p k = st_then (get_key_from_kbs E k (a1_kid p)) (\<lambda>key. lift_result (unwrap_packet E p key))"

definition online_sev_get_resource ::
  "('w, 'b, 'sk, 'pt, 'rk) kbc_env \<Rightarrow> resource_uri \<Rightarrow> online_sev_kbc \<Rightarrow> ('w, kbc_error, bytes) stateful" where
  "online_sev_get_resource E rid k =
     (if ru_type rid = ''client-id''
      then st_then (lift_result (on_connection k)) (\<lambda>connection. st_ok (sc_client_id connection))
      else get_resource_from_kbs E k rid)"

section \<open>The registry of modules\<close>

record kbc_features =
  ft_sample :: bool
  ft_cc :: bool
  ft_offline_fs :: bool
  ft_offline_sev :: bool
  ft_online_sev :: bool

datatype ('sk, 'rk) kbc_instance =
    SampleKbc sample_kbc
  | CcKbc "('sk, 'rk) cc_kbc"
  | OfflineFsKbc offline_fs_kbc
  | OfflineSevKbc offline_sev_kbc
  | OnlineSevKbc online_sev_kbc

type_synonym ('w, 'sk, 'rk) instantiate = "string \<Rightarrow> ('w network, kbc_error, ('sk, 'rk) kbc_instance) stateful"

definition unwrap_or_panic :: "('s, kbc_error, 'a) stateful \<Rightarrow> ('s, kbc_error, 'a) stateful" where
  "unwrap_or_panic m = st_map_err (\<lambda>_. KbcPanic ''unwrap'') m"

definition insert_module :: "bool \<Rightarrow> string \<Rightarrow> 'f \<Rightarrow> (string \<rightharpoonup> 'f) \<Rightarrow> (string \<rightharpoonup> 'f)" where
  "insert_module feature name f mod_list = (if feature then mod_list(name \<mapsto> f) else mod_list)"

definition module_list_new ::
  "('w, 'b, 'sk, 'pt, 'rk) kbc_env \<Rightarrow> kbc_features \<Rightarrow> string \<rightharpoonup> ('w, 'sk, 'rk) instantiate" where
  "module_list_new E F =
     (insert_module (ft_online_sev F) ''online_sev_kbc''
        (\<lambda>kbs_uri. st_then (in_network (online_sev_kbc_new E kbs_uri)) (\<lambda>k. st_ok (OnlineSevKbc k)))
     (insert_module (ft_offline_sev F) ''offline_sev_kbc''
        (\<lambda>_. st_then (in_network (offline_sev_kbc_new E)) (\<lambda>k. st_ok (OfflineSevKbc k)))
     (insert_module (ft_offline_fs F) ''offline_fs_kbc''
        (\<lambda>_. in_network (\<lambda>w. case offline_fs_kbc_new E w of (k, w') \<Rightarrow> (Inr (OfflineFsKbc k), w')))
     (insert_module (ft_cc F) ''cc_kbc'' (\<lambda>kbs_uri. st_then (unwrap_or_panic (kbc_cc_new E kbs_uri)) (\<lambda>k. st_ok (CcKbc k)))
     (insert_module (ft_sample F) ''sample_kbc'' (\<lambda>kbs_uri. st_ok (SampleKbc (sample_kbc_new kbs_uri))) Map.empty)))))"

definition get_func :: "(string \<rightharpoonup> 'f) \<Rightarrow> string \<Rightarrow> (kbc_error, 'f) result" where
  "get_func mod_list kbc_name = ok_or (KbcFailed ''AA does not support the given KBC module!'') (mod_list kbc_name)"

text \<open>The calls of the interface on an instance.\<close>

fun instance_decrypt_payload ::
  "('w, 'b, 'sk, 'pt, 'rk) kbc_env \<Rightarrow> annotation_packet_v1 \<Rightarrow>
    (('sk, 'rk) kbc_instance \<times> 'w network, kbc_error, bytes) stateful" where
  "instance_decrypt_payload E p (SampleKbc k, n) = (sample_decrypt_payload E p, (SampleKbc k, n))"
| "instance_decrypt_payload E p (OfflineFsKbc k, n) = (offline_fs_decrypt_payload E p k, (OfflineFsKbc k, n))"
| "instance_decrypt_payload E p (OfflineSevKbc k, n) = (offline_sev_decrypt_payload E p k, (OfflineSevKbc k, n))"
| "instance_decrypt_payload E p (OnlineSevKbc k, n) =
     (case in_network (online_sev_decrypt_payload E p k) n of (r, n') \<Rightarrow> (r, (OnlineSevKbc k, n')))"
| "instance_decrypt_payload E p (CcKbc k, n) =
     (case cc_kbc_decrypt_payload E p (k, n) of (r, (k', n')) \<Rightarrow> (r, (CcKbc k', n')))"

fun instance_get_resource ::
  "('w, 'b, 'sk, 'pt, 'rk) kbc_env \<Rightarrow> resource_uri \<Rightarrow>
    (('sk, 'rk) kbc_instance \<times> 'w network, kbc_error, bytes) stateful" where
  "instance_get_resource E rid (SampleKbc k, n) = (sample_get_resource E rid, (SampleKbc k, n))"
| "instance_get_resource E rid (OfflineFsKbc k, n) = (offline_fs_get_resource k rid, (OfflineFsKbc k, n))"
| "instance_get_resource E rid (OfflineSevKbc k, n) = (Inl (KbcFailed ''unimplement''), (OfflineSevKbc k, n))"
| "instance_get_resource E rid (OnlineSevKbc k, n) =
     (case in_network (online_sev_get_resource E rid k) n of (r, n') \<Rightarrow> (r, (OnlineSevKbc k, n')))"
| "instance_get_resource E rid (CcKbc k, n) =
     (case cc_kbc_get_resource E rid (k, n) of (r, (k', n')) \<Rightarrow> (r, (CcKbc k', n')))"

text \<open>\<open>check\<close>, without the key broker service's, which is not implemented.\<close>

fun instance_check :: "('sk, 'rk) kbc_instance \<Rightarrow> (kbc_error, string \<rightharpoonup> string) result" where
  "instance_check (SampleKbc k) = Inr (sk_kbs_info k)"
| "instance_check (CcKbc k) = Inl (KbcFailed ''Check API of this KBC is unimplemented.'')"
| "instance_check (OfflineFsKbc k) = Inr Map.empty"
| "instance_check (OfflineSevKbc k) = Inr Map.empty"
| "instance_check (OnlineSevKbc k) = Inr Map.empty"

section \<open>The SEV client of the data hub\<close>

record real_kbc =
  rk_client_id :: string
  rk_key :: bytes
  rk_kbs_uri :: string

text \<open>The client of the hub is a static that starts empty.\<close>

record 'w sev_static =
  ss_kbc :: "real_kbc option"
  ss_world :: 'w

definition in_static :: "('w, 'e, 'a) stateful \<Rightarrow> ('w sev_static, 'e, 'a) stateful" where
  "in_static m s = (case m (ss_world s) of (r, w) \<Rightarrow> (r, s\<lparr>ss_world := w\<rparr>))"

definition real_kbc_new :: "('w, 'b, 'sk, 'pt, 'rk) kbc_env \<Rightarrow> string \<Rightarrow> ('w, kbc_error, real_kbc) stateful" where
  "real_kbc_new E kbs_uri =
     with_secret_module E (st_then (read_secret_file E ONLINE_KEYS_PATH) (\<lambda>json.
     st_then (lift_result (ok_or (KbcFailed ''deserialze keys failed'') (kb_connection_json E json))) (\<lambda>connection.
     st_then (lift_result (decode_b64 E (sc_key connection))) (\<lambda>key.
     st_then (if kb_uri E (''http://'' @ kbs_uri) then st_ok () else st_err (KbcFailed ''parse kbs uri failed'')) (\<lambda>_.
       st_ok \<lparr>rk_client_id = sc_client_id connection, rk_key = key, rk_kbs_uri = ''http://'' @ kbs_uri\<rparr>)))))"

text \<open>The condition of the source, which initializes only what is already there.\<close>

definition hub_sev_new :: "('w, 'b, 'sk, 'pt, 'rk) kbc_env \<Rightarrow> string \<Rightarrow> ('w sev_static, kbc_error, unit) stateful" where
  "hub_sev_new E kbs_uri s =
     (if \<not> (ss_kbc s = None)
      then st_then (in_static (real_kbc_new E kbs_uri)) (\<lambda>kbc s. (Inr (), s\<lparr>ss_kbc := Some kbc\<rparr>)) s
      else (Inr (), s))"

definition must_be_initialized :: "('w sev_static, kbc_error, real_kbc) stateful" where
  "must_be_initialized s =
     (case ss_kbc s of None \<Rightarrow> (Inl (KbcPanic ''Must be initialized''), s) | Some kbc \<Rightarrow> (Inr kbc, s))"

definition hub_sev_query ::
  "('w, 'b, 'sk, 'pt, 'rk) kbc_env \<Rightarrow> resource_uri \<Rightarrow> string \<Rightarrow> ('w sev_static, kbc_error, bytes) stateful" where
  "hub_sev_query E resource_uri secret_type =
     st_then must_be_initialized (\<lambda>kbc.
     in_static (st_then (new_guid E) (\<lambda>guid.
     st_then (st_map_err KbcFailed (kb_online_secret E (rk_kbs_uri kbc)
         (secret_request (rk_client_id kbc) guid secret_type (resource_path resource_uri)))) (\<lambda>response.
       lift_result (open_secret E (rk_key kbc) guid response)))))"

definition hub_sev_get_resource ::
  "('w, 'b, 'sk, 'pt, 'rk) kbc_env \<Rightarrow> resource_uri \<Rightarrow> ('w sev_static, kbc_error, bytes) stateful" where
  "hub_sev_get_resource E rid =
     st_then must_be_initialized (\<lambda>kbc.
       if ru_type rid = ''client-id'' then st_ok (rk_client_id kbc) else hub_sev_query E rid ''resource'')"
section \<open>The payload of a packet\<close>

text \<open>
  What the modules promise of a payload: they decrypt it with the key they hold or fetch for its key id.
\<close>

locale payload_module =
  fixes decrypt_payload :: "annotation_packet_v1 \<Rightarrow> ('s, kbc_error, bytes) stateful"
    and get_key :: "resource_uri \<Rightarrow> ('s, kbc_error, bytes) stateful"
    and E :: "('w, 'b, 'sk, 'pt, 'rk) kbc_env"
  assumes payload: "decrypt_payload p s = st_then (get_key (a1_kid p)) (\<lambda>key. lift_result (unwrap_packet E p key)) s"
begin

lemma opens:
  assumes "get_key (a1_kid p) s = (Inr key, s')" and "unwrap_packet E p key = Inr d"
  shows "decrypt_payload p s = (Inr d, s')"
  using assms by (simp add: payload lift_result_def)

lemma needs_key: "get_key (a1_kid p) s = (Inl e, s') \<Longrightarrow> decrypt_payload p s = (Inl e, s')"
  by (simp add: payload)

end

interpretation fs: payload_module "\<lambda>p k. (offline_fs_decrypt_payload E p k, k)" "\<lambda>kid k. (offline_fs_get_key k kid, k)" E for E
  by unfold_locales (auto simp: offline_fs_decrypt_payload_def st_then_def lift_result_def split: sum.splits)

interpretation sev: payload_module "\<lambda>p k. (offline_sev_decrypt_payload E p k, k)" "\<lambda>kid k. (offline_sev_get_key k kid, k)" E for E
  by unfold_locales (auto simp: offline_sev_decrypt_payload_def st_then_def lift_result_def split: sum.splits)

interpretation online: payload_module "\<lambda>p. online_sev_decrypt_payload E p k" "get_key_from_kbs E k" E for E k
  by unfold_locales (simp add: online_sev_decrypt_payload_def)

interpretation cc: payload_module "cc_kbc_decrypt_payload E" "cc_kbc_get_resource E" E for E
  by unfold_locales (simp add: cc_kbc_decrypt_payload_def)

text \<open>The key a module uses for a key id.\<close>

fun instance_get_key ::
  "('w, 'b, 'sk, 'pt, 'rk) kbc_env \<Rightarrow> resource_uri \<Rightarrow> (('sk, 'rk) kbc_instance \<times> 'w network, kbc_error, bytes) stateful" where
  "instance_get_key E kid (SampleKbc k, n) = (Inr KBC_HARDCODED_KEY, (SampleKbc k, n))"
| "instance_get_key E kid (OfflineFsKbc k, n) = (offline_fs_get_key k kid, (OfflineFsKbc k, n))"
| "instance_get_key E kid (OfflineSevKbc k, n) = (offline_sev_get_key k kid, (OfflineSevKbc k, n))"
| "instance_get_key E kid (OnlineSevKbc k, n) =
     (case in_network (get_key_from_kbs E k kid) n of (r, n') \<Rightarrow> (r, (OnlineSevKbc k, n')))"
| "instance_get_key E kid (CcKbc k, n) =
     (case cc_kbc_get_resource E kid (k, n) of (r, (k', n')) \<Rightarrow> (r, (CcKbc k', n')))"

lemma unwrap_packet_opens:
  assumes laws: "gcm_correct S" "same_gcm S R" "appended_tag R" "same_ctr S R"
    and builds: "B \<in> {Native S, Rust R}" "kb_backend E \<in> {Native S, Rust R}"
    and lens: "length key = 32" "length iv = iv_length w"
    and enc: "crypto_encrypt B key d iv w = Inr c"
    and packet: "kb_b64 E (a1_wrapped_data p) = Some c" "kb_b64 E (a1_iv p) = Some iv" "a1_wrap_type p = wrap_type_str w"
  shows "unwrap_packet E p key = Inr d"
  using crypto_decrypt_encrypt [OF laws builds lens enc] packet
  by (cases w) (simp_all add: unwrap_packet_def decode_b64_def wrap_type_try_from_def)

lemma sample_opens:
  assumes "unwrap_packet E p KBC_HARDCODED_KEY = Inr d" "a1_wrap_type p = wrap_type_str Aes256Gcm"
  shows "sample_decrypt_payload E p = Inr d"
  using assms by (auto simp: sample_decrypt_payload_def unwrap_packet_def result_iff wrap_type_try_from_def)


section \<open>The secrets of SEV guests\<close>

lemma with_secret_module_ends:
  assumes "with_secret_module E body w = (r, w')"
    and "mount_security_fs E w = (Inr (), w1)" "secret_module_new E w1 = (Inr (), w2)"
  shows "\<exists>r' w3 u. body w2 = (r', w3) \<and> kb_status E MODPROBE_PATH [''-r'', SECRET_MODULE_NAME] w3 = (u, w') \<and>
    (is_ok r \<longrightarrow> r' = r)"
proof -
  obtain r' w3 where body: "body w2 = (r', w3)" by (cases "body w2") auto
  obtain u w4 where drop: "kb_status E MODPROBE_PATH [''-r'', SECRET_MODULE_NAME] w3 = (u, w4)"
    by (cases "kb_status E MODPROBE_PATH [''-r'', SECRET_MODULE_NAME] w3") auto
  show ?thesis
    using assms body drop
    by (cases u) (auto simp: with_secret_module_def secret_module_drop_def)
qed


text \<open>A module that fails to unload goes unnoticed, although the comment of the source promises a panic.\<close>

lemma failed_unload_unnoticed:
  assumes "kb_status E MODPROBE_PATH [''-r'', SECRET_MODULE_NAME] w = (Inr False, w')"
  shows "secret_module_drop E w = (Inr (), w')"
  using assms by (simp add: secret_module_drop_def)

text \<open>
  What the module of the SEV key broker returns is the entry for the request it has just sent, under
  the fresh identifier and the client id that was injected, in an answer that the injected key decrypts.
\<close>

lemma online_secret_own_entry:
  assumes "query_kbs E k secret_type secret_id w = (Inr data, w')"
  shows "\<exists>conn guid wg resp key payload iv plain dict. on_connection k = Inr conn \<and> kb_uuid E w = (guid, wg) \<and>
    kb_online_secret E (''http://'' @ on_kbs_uri k) (secret_request (sc_client_id conn) guid secret_type secret_id) wg = (Inr resp, w') \<and>
    kb_b64 E (sc_key conn) = Some key \<and> kb_b64 E (or_payload resp) = Some payload \<and> kb_b64 E (or_iv resp) = Some iv \<and>
    crypto_decrypt (kb_backend E) key payload iv Aes256Gcm = Inr plain \<and> kb_bincode E plain = Some dict \<and> map_of dict guid = Some data"
  using assms
  by (auto simp: query_kbs_def open_secret_def new_guid_def decode_b64_def result_iff split: if_split_asm prod.splits)

section \<open>The client of the hub is never ready\<close>

datatype sev_call = SevNew string | SevGet resource_uri

fun run_sev_calls ::
  "('w, 'b, 'sk, 'pt, 'rk) kbc_env \<Rightarrow> sev_call list \<Rightarrow> 'w sev_static \<Rightarrow> (kbc_error, bytes option) result list \<times> 'w sev_static" where
  "run_sev_calls E [] s = ([], s)"
| "run_sev_calls E (SevNew uri # cs) s =
     (case hub_sev_new E uri s of (r, s') \<Rightarrow>
        (case run_sev_calls E cs s' of (rs, s'') \<Rightarrow> (and_then r (\<lambda>_. Inr None) # rs, s'')))"
| "run_sev_calls E (SevGet rid # cs) s =
     (case hub_sev_get_resource E rid s of (r, s') \<Rightarrow>
        (case run_sev_calls E cs s' of (rs, s'') \<Rightarrow> (and_then r (\<lambda>d. Inr (Some d)) # rs, s'')))"

text \<open>
  C20. The SEV client of the data hub is never initialized: however often it is created, with whatever
  environment, every creation succeeds without reading the injected secret, and every resource that is
  asked for ends in a panic.
\<close>

theorem sev_client_never_ready:
  assumes "ss_kbc s = None"
  shows "run_sev_calls E calls s =
    (map (\<lambda>c. case c of SevNew _ \<Rightarrow> Inr None | SevGet _ \<Rightarrow> Inl (KbcPanic ''Must be initialized'')) calls, s)"
proof (induction calls)
  case (Cons c calls)
  then show ?case
    using assms by (cases c) (simp_all add: hub_sev_new_def hub_sev_get_resource_def must_be_initialized_def st_then_def)
qed simp

section \<open>An example\<close>

text \<open>A world counts the commands and calls; the secret file is there until it is removed, which counts as 100.\<close>

definition demo_kbc :: "(nat, string, nat, nat, nat) kbc_env" where
  "demo_kbc = \<lparr>kb_backend = Rust demo_rc, kb_b64 = Some, kb_json_map = (\<lambda>b. Some [(''alice/key/1'', b)]),
     kb_read = (\<lambda>path w. if 100 \<le> w then (Inl ''gone'', w) else (Inr (replicate 32 (CHR ''k'')), w)),
     kb_remove = (\<lambda>path w. (Inr (), w + 100)), kb_status = (\<lambda>cmd args w. (Inr True, Suc w)),
     kb_connection_json = (\<lambda>b. Some \<lparr>sc_client_id = ''id'', sc_key = b\<rparr>), kb_uuid = (\<lambda>w. (''guid'', w)), kb_uri = (\<lambda>_. True),
     kb_online_secret = (\<lambda>uri q w. (Inr \<lparr>or_payload = ''data'' @ replicate 16 (CHR ''k''), or_iv = replicate 12 (CHR ''i'')\<rparr>, Suc w)),
     kb_bincode = (\<lambda>b. Some [(''guid'', b)]), kb_native_provider = st_ok (), kb_kbs = demo_kbs, kb_cert_ok = (\<lambda>_. True),
     kb_sample_file = (\<lambda>f. f)\<rparr>"

definition demo_kid :: resource_uri where
  "demo_kid = \<lparr>ru_kbs_addr = ''host'', ru_repository = ''alice'', ru_type = ''key'', ru_tag = ''1'', ru_query = None\<rparr>"

definition demo_packet_v1 :: annotation_packet_v1 where
  "demo_packet_v1 = \<lparr>a1_kid = demo_kid, a1_wrapped_data = ''lek'' @ replicate 16 (CHR ''k''), a1_iv = replicate 12 (CHR ''i''),
     a1_wrap_type = ''A256GCM''\<rparr>"

definition demo_fs_kbc :: offline_fs_kbc where
  "demo_fs_kbc = \<lparr>of_keys = Inr [''alice/key/1'' \<mapsto> replicate 32 (CHR ''k'')], of_resources = Inr Map.empty\<rparr>"


lemma demo_sev_load:
  "load_sev_keys demo_kbc SEV_KEYS_PATH 0 =
     (Inr [''alice/key/1'' \<mapsto> replicate 32 (CHR ''k'')], 103)"
  by (simp add: load_sev_keys_def with_secret_module_def mount_security_fs_def secret_module_new_def secret_module_drop_def command_ok_def
      read_secret_file_def decode_entries_def decode_b64_def demo_kbc_def st_then_def st_map_err_def lift_result_def MODPROBE_PATH_def MOUNT_PATH_def)


definition demo_online :: online_sev_kbc where
  "demo_online = \<lparr>on_kbs_uri = ''kbs'', on_connection = Inr \<lparr>sc_client_id = ''id'', sc_key = replicate 32 (CHR ''k'')\<rparr>\<rparr>"

lemma online_secret_own_entry_witness:
  "\<exists>plain dict. kb_bincode demo_kbc plain = Some dict \<and> map_of dict ''guid'' = Some ''data''"
proof -
  have "query_kbs demo_kbc demo_online ''key'' ''alice/key/1'' 0 = (Inr ''data'', 1)"
    by (simp add: query_kbs_def demo_kbc_def demo_online_def st_then_def st_map_err_def lift_result_def new_guid_def open_secret_def
        decode_b64_def rust_gcm_decrypt_def array_from_slice_def demo_rc_def vec_resize_def)
  from online_secret_own_entry [OF this] show ?thesis
    by (auto simp: demo_kbc_def)
qed

theorem sev_client_never_ready_witness:
  "run_sev_calls demo_kbc [SevNew ''kbs'', SevGet demo_kid] \<lparr>ss_kbc = None, ss_world = 0\<rparr> =
     ([Inr None, Inl (KbcPanic ''Must be initialized'')], \<lparr>ss_kbc = None, ss_world = 0\<rparr>)"
  using sev_client_never_ready [of "\<lparr>ss_kbc = None, ss_world = 0\<rparr>" demo_kbc "[SevNew ''kbs'', SevGet demo_kid]"] by simp

end
