(* ===== verification/Kms_Drivers.thy ===== *)
theory Kms_Drivers
  imports Secret_Cli
begin

text \<open>
  \<open>confidential-data-hub/kms/src/plugins/aliyun\<close> and \<open>plugins/ehsm\<close>: the clients of the key management
  services of Alibaba Cloud (by client key, by the role of the machine and by a token of its security token
  service) and of eHSM, with their requests and signatures, as the drivers that the data hub and the
  command line tool use. JSON, protobuf, HTTP, PKCS#12, signatures and the services are parameters.
\<close>

section \<open>The environment\<close>

record encrypt_request =
  er_key_id :: string
  er_plaintext :: bytes
  er_algorithm :: string
  er_aad :: bytes
  er_iv :: bytes
  er_padding_mode :: string

record decrypt_request =
  dq_ciphertext_blob :: bytes
  dq_key_id :: string
  dq_algorithm :: string
  dq_aad :: bytes
  dq_iv :: bytes
  dq_padding_mode :: string

record secret_value_request =
  sv_secret_name :: string
  sv_version_stage :: string
  sv_version_id :: string
  sv_fetch_extended_config :: bool

text \<open>The bags of a PKCS#12 file; a shrouded key is opened with the password.\<close>

datatype safe_bag = ShroudedKey bytes | CertBag bytes | OtherBag

type_synonym headers = "(string \<times> string) list"

record ehsm_credential =
  ec_base_url :: string
  ec_appid :: string
  ec_apikey :: string

record 'w kms_env =
  ka_var :: "string \<Rightarrow> string option"
  ka_read :: "string \<Rightarrow> (string, string) result"
  ka_json :: "string \<Rightarrow> json option"
  ka_b64_encode :: "bytes \<Rightarrow> string"
  ka_b64_decode :: "string \<Rightarrow> bytes option"
  ka_pfx_bags :: "bytes \<Rightarrow> string \<Rightarrow> safe_bag list option"
  ka_decrypt_pbe :: "bytes \<Rightarrow> bytes \<Rightarrow> bytes option"
  ka_rsa_sign :: "bytes \<Rightarrow> string \<Rightarrow> bytes option"
  ka_hmac_sha1 :: "bytes \<Rightarrow> string \<Rightarrow> bytes"
  ka_sha256_hex :: "bytes \<Rightarrow> string"
  ka_byte_serialize :: "bytes \<Rightarrow> string"
  ka_cert_ok :: "string \<Rightarrow> bool"
  ka_header_ok :: "string \<Rightarrow> bool"
  ka_package :: string
  ka_http_date :: "'w \<Rightarrow> string"
  ka_iso_date :: "'w \<Rightarrow> string"
  ka_nonce :: "'w \<Rightarrow> bytes \<times> 'w"
  ka_pb_encrypt :: "encrypt_request \<Rightarrow> bytes"
  ka_pb_decrypt :: "decrypt_request \<Rightarrow> bytes"
  ka_pb_secret :: "secret_value_request \<Rightarrow> bytes"
  ka_pb_encrypted :: "bytes \<Rightarrow> (bytes \<times> bytes) option"
  ka_pb_decrypted :: "bytes \<Rightarrow> bytes option"
  ka_pb_secret_data :: "bytes \<Rightarrow> string option"
  ka_post :: "string \<Rightarrow> headers \<Rightarrow> bytes \<Rightarrow> ('w, string, bool \<times> bytes) stateful"
  ka_get :: "string \<Rightarrow> ('w, string, bool \<times> string) stateful"
  ka_ehsm_encrypt :: "ehsm_credential \<Rightarrow> string \<Rightarrow> string \<Rightarrow> ('w, string, string) stateful"
  ka_ehsm_decrypt :: "ehsm_credential \<Rightarrow> string \<Rightarrow> string \<Rightarrow> ('w, string, string) stateful"

section \<open>Settings\<close>

text \<open>A structure of strings is read out of a JSON object: unknown fields are ignored.\<close>

definition string_field :: "settings \<Rightarrow> string \<Rightarrow> (string, string) result" where
  "string_field m name = ok_or (''field '' @ name) (Option.bind (map_of m name) as_str)"

definition string_field_or_empty :: "settings \<Rightarrow> string \<Rightarrow> (string, string) result" where
  "string_field_or_empty m name =
     (case map_of m name of None \<Rightarrow> Inr [] | Some v \<Rightarrow> ok_or (''field '' @ name) (as_str v))"

fun object_of :: "json \<Rightarrow> settings option" where
  "object_of (JObj m) = Some m"
| "object_of _ = None"

definition read_object :: "'w kms_env \<Rightarrow> string \<Rightarrow> (string, settings) result" where
  "read_object X text = ok_or ''JSON'' (Option.bind (ka_json X text) object_of)"

definition ALIYUN_IN_GUEST_DEFAULT_KEY_PATH :: string where
  "ALIYUN_IN_GUEST_DEFAULT_KEY_PATH = ''/run/confidential-containers/cdh/kms-credential/aliyun''"

definition EHSM_IN_GUEST_DEFAULT_KEY_PATH :: string where
  "EHSM_IN_GUEST_DEFAULT_KEY_PATH = ''/run/confidential-containers/cdh/kms-credential/ehsm''"

definition key_path :: "'w kms_env \<Rightarrow> string \<Rightarrow> string \<Rightarrow> string" where
  "key_path X var default_path = (case ka_var X var of Some p \<Rightarrow> p | None \<Rightarrow> default_path)"

record ali_secret_annotations =
  an_version_stage :: string
  an_version_id :: string

definition ali_secret_annotations_of :: "settings \<Rightarrow> (string, ali_secret_annotations) result" where
  "ali_secret_annotations_of m =
     and_then (string_field_or_empty m ''version_stage'') (\<lambda>stage.
     and_then (string_field_or_empty m ''version_id'') (\<lambda>version.
       Inr \<lparr>an_version_stage = stage, an_version_id = version\<rparr>))"

section \<open>Client keys\<close>

record credential_client_key =
  ck_client_key_id :: string
  ck_private_key :: bytes

text \<open>The code points of a string and their UTF-16 code units.\<close>

definition code_point :: "string \<Rightarrow> nat" where
  "code_point c =
     (let b = map of_char c :: nat list
      in case b of
           [b0] \<Rightarrow> b0
         | [b0, b1] \<Rightarrow> (b0 mod 32) * 64 + b1 mod 64
         | [b0, b1, b2] \<Rightarrow> (b0 mod 16) * 4096 + (b1 mod 64) * 64 + b2 mod 64
         | [b0, b1, b2, b3] \<Rightarrow> (b0 mod 8) * 262144 + (b1 mod 64) * 4096 + (b2 mod 64) * 64 + b3 mod 64
         | _ \<Rightarrow> 0)"

definition utf16_units :: "nat \<Rightarrow> nat list" where
  "utf16_units n = (if n < 65536 then [n] else [55296 + (n - 65536) div 1024, 56320 + (n - 65536) mod 1024])"

definition bmp_string :: "string \<Rightarrow> bytes" where
  "bmp_string s =
     concat (map (\<lambda>c. [char_of (c div 256), char_of (c mod 256)]) (concat (map (utf16_units \<circ> code_point) (utf8_chars s))))
       @ [CHR 0x00, CHR 0x00]"

text \<open>The first shrouded key decides.\<close>

fun key_of_bags :: "'w kms_env \<Rightarrow> string \<Rightarrow> safe_bag list \<Rightarrow> (string, bytes) result" where
  "key_of_bags X password [] = Inl ''no private key found!''"
| "key_of_bags X password (ShroudedKey k # bags) = ok_or ''decrypt pbe failed'' (ka_decrypt_pbe X k (bmp_string password))"
| "key_of_bags X password (_ # bags) = key_of_bags X password bags"

definition parse_private_key :: "'w kms_env \<Rightarrow> string \<Rightarrow> string \<Rightarrow> (string, bytes) result" where
  "parse_private_key X private_key_data password =
     and_then (ok_or ''base64'' (ka_b64_decode X private_key_data)) (\<lambda>der.
     and_then (ok_or ''pkcs12'' (ka_pfx_bags X der password)) (key_of_bags X password))"

definition credential_new :: "'w kms_env \<Rightarrow> string \<Rightarrow> string \<Rightarrow> (string, credential_client_key) result" where
  "credential_new X client_key pswd =
     and_then (read_object X client_key) (\<lambda>ck.
     and_then (string_field ck ''KeyId'') (\<lambda>key_id.
     and_then (string_field ck ''PrivateKeyData'') (\<lambda>private_key_data.
     and_then (parse_private_key X private_key_data (trim_end pswd)) (\<lambda>private_key.
       Inr \<lparr>ck_client_key_id = key_id, ck_private_key = private_key\<rparr>))))"

definition credential_sign :: "'w kms_env \<Rightarrow> credential_client_key \<Rightarrow> string \<Rightarrow> (string, string) result" where
  "credential_sign X c str_to_sign =
     and_then (ok_or ''signing failed'' (ka_rsa_sign X (ck_private_key c) str_to_sign)) (\<lambda>signature.
       Inr (ka_b64_encode X signature))"

record client_key_client =
  kc_credential :: credential_client_key
  kc_kms_instance_id :: string
  kc_endpoint :: string

definition client_key_new :: "'w kms_env \<Rightarrow> string \<Rightarrow> string \<Rightarrow> string \<Rightarrow> string \<Rightarrow> (string, client_key_client) result" where
  "client_key_new X client_key kms_instance_id password cert_pem =
     and_then (credential_new X client_key password) (\<lambda>credential.
     if ka_cert_ok X cert_pem
     then Inr \<lparr>kc_credential = credential, kc_kms_instance_id = kms_instance_id,
               kc_endpoint = kms_instance_id @ ''.cryptoservice.kms.aliyuncs.com''\<rparr>
     else Inl ''read kms instance ca cert failed'')"

definition client_key_from_settings :: "'w kms_env \<Rightarrow> settings \<Rightarrow> (string, client_key_client) result" where
  "client_key_from_settings X provider_settings =
     (let path = key_path X ''ALIYUN_IN_GUEST_KEY_PATH'' ALIYUN_IN_GUEST_DEFAULT_KEY_PATH
      in and_then (string_field provider_settings ''client_key_id'') (\<lambda>client_key_id.
         and_then (string_field provider_settings ''kms_instance_id'') (\<lambda>kms_instance_id.
         and_then (ka_read X (path @ ''/PrivateKmsCA_'' @ kms_instance_id @ ''.pem'')) (\<lambda>cert_pem.
         and_then (ka_read X (path @ ''/password_'' @ client_key_id @ ''.json'')) (\<lambda>pswd.
         and_then (ka_read X (path @ ''/clientKey_'' @ client_key_id @ ''.json'')) (\<lambda>client_key.
           client_key_new X client_key kms_instance_id pswd cert_pem))))))"

definition client_key_export :: "client_key_client \<Rightarrow> settings" where
  "client_key_export c =
     [(''client_key_id'', JStr (ck_client_key_id (kc_credential c))), (''kms_instance_id'', JStr (kc_kms_instance_id c))]"

subsection \<open>Requests\<close>

definition KMS_API_VERSION :: string where "KMS_API_VERSION = ''dkms-gcs-0.2''"
definition KMS_SIGNATURE_METHOD :: string where "KMS_SIGNATURE_METHOD = ''RSA_PKCS1_SHA_256''"
definition KMS_CONTENT_TYPE :: string where "KMS_CONTENT_TYPE = ''application/x-protobuf''"

definition insert_header :: "'w kms_env \<Rightarrow> string \<Rightarrow> string \<Rightarrow> headers \<Rightarrow> (string, headers) result" where
  "insert_header X name v headers = (if ka_header_ok X v then Inr (btree_insert name v headers) else Inl ''header'')"

text \<open>\<open>to_str\<close> reads only visible ASCII.\<close>

definition visible_ascii :: "string \<Rightarrow> bool" where
  "visible_ascii s = list_all (\<lambda>c. let n = of_char c :: nat in 32 \<le> n \<and> n < 127 \<or> n = 9) s"

definition canonicalized_headers :: "headers \<Rightarrow> string" where
  "canonicalized_headers headers =
     concat (map (\<lambda>(k, v). k @ '':'' @ trim_ws v @ [CHR 0x0A])
       (filter (\<lambda>(k, v). starts_with ''x-kms-'' k \<and> visible_ascii v) headers))"

definition base_headers :: "'w kms_env \<Rightarrow> client_key_client \<Rightarrow> string \<Rightarrow> bytes \<Rightarrow> string \<Rightarrow> (string \<times> string) list" where
  "base_headers X c api_name body date =
     [(''accept'', ''application/x-protobuf''), (''host'', kc_endpoint c), (''date'', date), (''user-agent'', ka_package X),
      (''x-kms-apiversion'', KMS_API_VERSION), (''x-kms-apiname'', api_name), (''x-kms-signaturemethod'', KMS_SIGNATURE_METHOD),
      (''x-kms-acccesskeyid'', ck_client_key_id (kc_credential c)), (''content-type'', ''application/x-protobuf''),
      (''content-length'', nat_str (length body)), (''content-sha256'', ka_sha256_hex X body)]"

definition string_to_sign :: "'w kms_env \<Rightarrow> bytes \<Rightarrow> string \<Rightarrow> headers \<Rightarrow> string" where
  "string_to_sign X body date headers =
     ''POST'' @ [CHR 0x0A] @ ka_sha256_hex X body @ [CHR 0x0A] @ KMS_CONTENT_TYPE @ [CHR 0x0A] @ date @ [CHR 0x0A]
       @ canonicalized_headers headers @ ''/''"

definition build_headers :: "'w kms_env \<Rightarrow> client_key_client \<Rightarrow> string \<Rightarrow> bytes \<Rightarrow> string \<Rightarrow> (string, headers) result" where
  "build_headers X c api_name body date =
     and_then (try_fold (\<lambda>hs (k, v). insert_header X k v hs) [] (base_headers X c api_name body date)) (\<lambda>headers.
     and_then (credential_sign X (kc_credential c) (string_to_sign X body date headers)) (\<lambda>string_signed.
       insert_header X ''authorization'' (''Bearer '' @ string_signed) headers))"

definition do_request :: "'w kms_env \<Rightarrow> client_key_client \<Rightarrow> bytes \<Rightarrow> headers \<Rightarrow> ('w, string, bytes) stateful" where
  "do_request X c body headers =
     st_then (ka_post X (''https://'' @ kc_endpoint c) headers body) (\<lambda>(success, response).
       if success then st_ok response else st_err ''do request fail'')"

definition call_kms :: "'w kms_env \<Rightarrow> client_key_client \<Rightarrow> string \<Rightarrow> bytes \<Rightarrow> ('w, string, bytes) stateful" where
  "call_kms X c api_name body w =
     st_then (lift_result (build_headers X c api_name body (ka_http_date X w))) (\<lambda>headers. do_request X c body headers) w"

definition client_key_encrypt ::
  "'w kms_env \<Rightarrow> client_key_client \<Rightarrow> bytes \<Rightarrow> string \<Rightarrow> ('w, string, bytes \<times> settings) stateful" where
  "client_key_encrypt X c data key_id =
     st_then (call_kms X c ''Encrypt'' (ka_pb_encrypt X \<lparr>er_key_id = key_id, er_plaintext = data, er_algorithm = ''AES_GCM'',
         er_aad = [], er_iv = [], er_padding_mode = []\<rparr>)) (\<lambda>res.
     st_then (lift_result (ok_or ''protobuf'' (ka_pb_encrypted X res))) (\<lambda>(ciphertext_blob, iv).
       st_ok (ciphertext_blob, [(''iv'', JStr (ka_b64_encode X iv))])))"

definition client_key_decrypt ::
  "'w kms_env \<Rightarrow> client_key_client \<Rightarrow> bytes \<Rightarrow> string \<Rightarrow> settings \<Rightarrow> ('w, string, bytes) stateful" where
  "client_key_decrypt X c ciphertext key_id annotations =
     st_then (lift_result (string_field annotations ''iv'')) (\<lambda>iv.
     st_then (lift_result (ok_or ''decode iv for decryption failed'' (ka_b64_decode X iv))) (\<lambda>iv.
     st_then (call_kms X c ''Decrypt'' (ka_pb_decrypt X \<lparr>dq_ciphertext_blob = ciphertext, dq_key_id = key_id,
         dq_algorithm = ''AES_GCM'', dq_aad = [], dq_iv = iv, dq_padding_mode = []\<rparr>)) (\<lambda>res.
       lift_result (ok_or ''protobuf'' (ka_pb_decrypted X res)))))"

definition client_key_get_secret ::
  "'w kms_env \<Rightarrow> client_key_client \<Rightarrow> string \<Rightarrow> settings \<Rightarrow> ('w, string, bytes) stateful" where
  "client_key_get_secret X c name annotations =
     st_then (lift_result (ali_secret_annotations_of annotations)) (\<lambda>a.
     st_then (call_kms X c ''GetSecretValue'' (ka_pb_secret X \<lparr>sv_secret_name = name, sv_version_stage = an_version_stage a,
         sv_version_id = an_version_id a, sv_fetch_extended_config = True\<rparr>)) (\<lambda>res.
       lift_result (ok_or ''protobuf'' (ka_pb_secret_data X res))))"

section \<open>Security tokens\<close>

record sts_credential =
  sts_ak :: string
  sts_sk :: string
  sts_token :: string

record sts_client =
  st_credential :: sts_credential
  st_endpoint :: string
  st_region_id :: string

definition region_endpoint :: "string \<Rightarrow> string" where
  "region_endpoint region_id = ''kms.'' @ region_id @ ''.aliyuncs.com''"

definition from_sts_token :: "sts_credential \<Rightarrow> string \<Rightarrow> string \<Rightarrow> sts_client" where
  "from_sts_token sts endpoint region_id = \<lparr>st_credential = sts, st_endpoint = endpoint, st_region_id = region_id\<rparr>"

definition sts_from_settings :: "'w kms_env \<Rightarrow> settings \<Rightarrow> (string, sts_client) result" where
  "sts_from_settings X provider_settings =
     and_then (string_field provider_settings ''token_path'') (\<lambda>token_path.
     and_then (string_field provider_settings ''region_id'') (\<lambda>region_id.
     and_then (ka_read X token_path) (\<lambda>credential.
       (case split_on (CHR '':'') credential of
          [ak, sk, sts] \<Rightarrow> Inr (from_sts_token \<lparr>sts_ak = ak, sts_sk = sk, sts_token = sts\<rparr> (region_endpoint region_id) region_id)
        | _ \<Rightarrow> Inl ''Unexpected credential format. should be ak:sk:sts''))))"

text \<open>\<open>str::replace\<close>, from left to right.\<close>

function replace_str :: "string \<Rightarrow> string \<Rightarrow> string \<Rightarrow> string" where
  "replace_str pat to [] = []"
| "replace_str pat to (c # s) =
     (case (if pat = [] then None else strip_prefix pat (c # s)) of
        Some r \<Rightarrow> to @ replace_str pat to r | None \<Rightarrow> c # replace_str pat to s)"
  by pat_completeness auto
termination
  by (relation "measure (\<lambda>(_, _, s). length s)")
    (auto simp: strip_prefix_Some_iff Cons_eq_append_conv split: if_splits)

definition urlencode_openapi :: "'w kms_env \<Rightarrow> string \<Rightarrow> string" where
  "urlencode_openapi X s =
     replace_str ''%7E'' ''~'' (replace_str ''*'' ''%2A'' (replace_str ''+'' ''%20'' (ka_byte_serialize X s)))"

definition sts_sign :: "'w kms_env \<Rightarrow> string \<Rightarrow> string \<Rightarrow> string" where
  "sts_sign X str_to_sign secret = ka_b64_encode X (ka_hmac_sha1 X secret str_to_sign)"

definition STS_API_VERSION :: string where "STS_API_VERSION = ''2016-01-20''"
definition STS_SIGNATURE_METHOD :: string where "STS_SIGNATURE_METHOD = ''HMAC-SHA1''"

definition sts_headers :: "'w kms_env \<Rightarrow> string \<Rightarrow> (string, headers) result" where
  "sts_headers X api_name =
     try_fold (\<lambda>hs (k, v). insert_header X k v hs) []
       [(''user-agent'', ka_package X), (''x-acs-version'', STS_API_VERSION), (''x-acs-action'', api_name),
        (''x-sdk-invoke-type'', ''normal''), (''x-sdk-client'', ''python/2.0.0'')]"

definition hex_digit_upper :: "nat \<Rightarrow> char" where
  "hex_digit_upper n = (if n < 10 then char_of (48 + n) else char_of (55 + n))"

definition hex_upper :: "char \<Rightarrow> string" where
  "hex_upper c = [hex_digit_upper (of_char c div 16), hex_digit_upper (of_char c mod 16)]"

text \<open>The parameters of a request are kept in the order of their names.\<close>

definition sts_params :: "sts_client \<Rightarrow> string \<Rightarrow> string \<Rightarrow> bytes \<Rightarrow> (string \<times> string) list \<Rightarrow> (string \<times> string) list" where
  "sts_params c api_name timestamp nonce params =
     fold (\<lambda>(k, v). btree_insert k v)
       [(''Version'', STS_API_VERSION), (''Action'', api_name), (''Format'', ''json''), (''RegionId'', st_region_id c),
        (''Timestamp'', timestamp), (''SignatureMethod'', STS_SIGNATURE_METHOD), (''SignatureType'', ''''), (''SignatureVersion'', ''1.0''),
        (''SignatureNonce'', concat (map hex_upper nonce)), (''AccessKeyId'', sts_ak (st_credential c)),
        (''SecurityToken'', sts_token (st_credential c))] params"

definition canonicalized_params :: "'w kms_env \<Rightarrow> (string \<times> string) list \<Rightarrow> string" where
  "canonicalized_params X params =
     join_with (CHR ''&'') (map (\<lambda>(k, v). urlencode_openapi X k @ ''='' @ urlencode_openapi X v) params)"

definition sts_string_to_sign :: "'w kms_env \<Rightarrow> (string \<times> string) list \<Rightarrow> string" where
  "sts_string_to_sign X params = ''POST&%2F&'' @ urlencode_openapi X (canonicalized_params X params)"

definition build_params ::
  "'w kms_env \<Rightarrow> sts_client \<Rightarrow> string \<Rightarrow> (string \<times> string) list \<Rightarrow> 'w \<Rightarrow> (string \<times> string) list \<times> 'w" where
  "build_params X c api_name params w =
     (case ka_nonce X w of (nonce, w') \<Rightarrow>
        (let ps = sts_params c api_name (ka_iso_date X w) nonce params
         in (btree_insert ''Signature'' (sts_sign X (sts_string_to_sign X ps) (sts_sk (st_credential c) @ ''&'')) ps, w')))"

definition sts_do_request :: "'w kms_env \<Rightarrow> sts_client \<Rightarrow> headers \<Rightarrow> (string \<times> string) list \<Rightarrow> ('w, string, bytes) stateful" where
  "sts_do_request X c headers params =
     st_then (ka_post X (''https://'' @ st_endpoint c @ ''/?'' @ canonicalized_params X params) headers []) (\<lambda>(success, response).
       if success then st_ok response else st_err ''do request fail'')"

definition secret_data_of :: "'w kms_env \<Rightarrow> bytes \<Rightarrow> (string, bytes) result" where
  "secret_data_of X res =
     and_then (ok_or ''from_utf8'' (from_utf8 res)) (\<lambda>text.
     and_then (ok_or ''serde_json'' (ka_json X text)) (\<lambda>value.
       ok_or ''get SecretData failed'' (Option.bind (jget ''SecretData'' value) as_str)))"

definition sts_get_secret :: "'w kms_env \<Rightarrow> sts_client \<Rightarrow> string \<Rightarrow> settings \<Rightarrow> ('w, string, bytes) stateful" where
  "sts_get_secret X c name secret_settings =
     st_then (lift_result (ali_secret_annotations_of secret_settings)) (\<lambda>a.
     st_then (lift_result (sts_headers X ''GetSecretValue'')) (\<lambda>headers w.
       (case build_params X c ''GetSecretValue''
          (fold (\<lambda>(k, v). btree_insert k v) [(''SecretName'', name), (''VersionStage'', an_version_stage a), (''VersionId'', an_version_id a),
             (''FetchExtendedConfig'', ''true'')] []) w of
          (params, w') \<Rightarrow> st_then (sts_do_request X c headers params) (\<lambda>res. lift_result (secret_data_of X res)) w')))"

section \<open>The role of the machine\<close>

record ecs_client =
  ecs_role_name :: string
  ecs_region_id :: string
  ecs_endpoint :: string

definition ecs_new :: "string \<Rightarrow> string \<Rightarrow> ecs_client" where
  "ecs_new name region_id = \<lparr>ecs_role_name = name, ecs_region_id = region_id, ecs_endpoint = region_endpoint region_id\<rparr>"

definition ecs_from_settings :: "'w kms_env \<Rightarrow> settings \<Rightarrow> (string, ecs_client) result" where
  "ecs_from_settings X provider_settings =
     and_then (ka_read X (key_path X ''ALIYUN_IN_GUEST_KEY_PATH'' ALIYUN_IN_GUEST_DEFAULT_KEY_PATH @ ''/ecsRamRole.json'')) (\<lambda>text.
     and_then (read_object X text) (\<lambda>m.
     and_then (string_field m ''ecs_ram_role_name'') (\<lambda>name.
     and_then (string_field m ''region_id'') (\<lambda>region_id. Inr (ecs_new name region_id)))))"

definition sts_credential_of :: "'w kms_env \<Rightarrow> string \<Rightarrow> (string, sts_credential) result" where
  "sts_credential_of X body =
     and_then (read_object X body) (\<lambda>m.
     and_then (string_field m ''AccessKeyId'') (\<lambda>ak.
     and_then (string_field m ''AccessKeySecret'') (\<lambda>sk.
     and_then (string_field m ''SecurityToken'') (\<lambda>sts. Inr \<lparr>sts_ak = ak, sts_sk = sk, sts_token = sts\<rparr>))))"

definition get_session_credential :: "'w kms_env \<Rightarrow> ecs_client \<Rightarrow> ('w, string, sts_credential) stateful" where
  "get_session_credential X c =
     st_then (ka_get X (''http://100.100.100.200/latest/meta-data/ram/security-credentials/'' @ ecs_role_name c)) (\<lambda>(success, body).
       if success then lift_result (sts_credential_of X body) else st_err ''Request session_credential failed'')"

definition ecs_get_secret :: "'w kms_env \<Rightarrow> ecs_client \<Rightarrow> string \<Rightarrow> settings \<Rightarrow> ('w, string, bytes) stateful" where
  "ecs_get_secret X c name annotations =
     st_then (get_session_credential X c) (\<lambda>sts.
       sts_get_secret X (from_sts_token sts (ecs_endpoint c) (ecs_region_id c)) name annotations)"

section \<open>The Aliyun client\<close>

datatype aliyun_client = ClientKey client_key_client | EcsRamRole ecs_client | StsToken sts_client

definition aliyun_from_settings :: "'w kms_env \<Rightarrow> settings \<Rightarrow> (string, aliyun_client) result" where
  "aliyun_from_settings X provider_settings =
     and_then (string_field provider_settings ''client_type'') (\<lambda>client_type.
       if client_type = ''client_key'' then and_then (client_key_from_settings X provider_settings) (\<lambda>c. Inr (ClientKey c))
       else if client_type = ''ecs_ram_role'' then and_then (ecs_from_settings X provider_settings) (\<lambda>c. Inr (EcsRamRole c))
       else if client_type = ''sts_token'' then and_then (sts_from_settings X provider_settings) (\<lambda>c. Inr (StsToken c))
       else Inl ''client type invalid.'')"

fun aliyun_export :: "aliyun_client \<Rightarrow> settings" where
  "aliyun_export (ClientKey c) = btree_insert ''client_type'' (JStr ''client_key'') (client_key_export c)"
| "aliyun_export (EcsRamRole c) = btree_insert ''client_type'' (JStr ''ecs_ram_role'') []"
| "aliyun_export (StsToken c) = btree_insert ''client_type'' (JStr ''sts_token'') []"

fun aliyun_encrypt :: "'w kms_env \<Rightarrow> aliyun_client \<Rightarrow> 'w encrypter" where
  "aliyun_encrypt X (ClientKey c) data key_id = client_key_encrypt X c data key_id"
| "aliyun_encrypt X (EcsRamRole c) data key_id = st_err ''Encrypter does not suppot accessing through Aliyun EcsRamRole''"
| "aliyun_encrypt X (StsToken c) data key_id = st_err ''Encrypter does not suppot accessing through Aliyun StsToken''"

fun aliyun_decrypt :: "'w kms_env \<Rightarrow> aliyun_client \<Rightarrow> bytes \<Rightarrow> string \<Rightarrow> settings \<Rightarrow> ('w, string, bytes) stateful" where
  "aliyun_decrypt X (ClientKey c) ciphertext key_id annotations = client_key_decrypt X c ciphertext key_id annotations"
| "aliyun_decrypt X (EcsRamRole c) ciphertext key_id annotations = st_err ''Encrypter does not suppot accessing through Aliyun EcsRamRole''"
| "aliyun_decrypt X (StsToken c) ciphertext key_id annotations = st_err ''Encrypter does not suppot accessing through Aliyun StsToken''"

fun aliyun_get_secret :: "'w kms_env \<Rightarrow> aliyun_client \<Rightarrow> string \<Rightarrow> settings \<Rightarrow> ('w, string, bytes) stateful" where
  "aliyun_get_secret X (ClientKey c) name annotations = client_key_get_secret X c name annotations"
| "aliyun_get_secret X (EcsRamRole c) name annotations = ecs_get_secret X c name annotations"
| "aliyun_get_secret X (StsToken c) name annotations = sts_get_secret X c name annotations"

section \<open>eHSM\<close>

definition ehsm_new :: "string \<Rightarrow> string \<Rightarrow> string \<Rightarrow> ehsm_credential" where
  "ehsm_new app_id api_key endpoint = \<lparr>ec_base_url = endpoint, ec_appid = app_id, ec_apikey = api_key\<rparr>"

text \<open>The field \<open>_app_id\<close> of the credential is called \<open>AppId\<close> in the file.\<close>

definition ehsm_from_settings :: "'w kms_env \<Rightarrow> settings \<Rightarrow> (string, ehsm_credential) result" where
  "ehsm_from_settings X provider_settings =
     and_then (string_field provider_settings ''app_id'') (\<lambda>app_id.
     and_then (string_field provider_settings ''endpoint'') (\<lambda>endpoint.
     and_then (ka_read X (key_path X ''EHSM_IN_GUEST_KEY_PATH'' EHSM_IN_GUEST_DEFAULT_KEY_PATH @ ''/credential_'' @ app_id @ ''.json'')) (\<lambda>cred.
     and_then (read_object X cred) (\<lambda>m.
     and_then (string_field m ''AppId'') (\<lambda>_.
     and_then (string_field m ''ApiKey'') (\<lambda>api_key. Inr (ehsm_new app_id api_key endpoint)))))))"

definition ehsm_export :: "ehsm_credential \<Rightarrow> settings" where
  "ehsm_export c = [(''app_id'', JStr (ec_appid c)), (''endpoint'', JStr (ec_base_url c))]"

definition ehsm_encrypt :: "'w kms_env \<Rightarrow> ehsm_credential \<Rightarrow> 'w encrypter" where
  "ehsm_encrypt X c data key_id =
     st_then (ka_ehsm_encrypt X c key_id (ka_b64_encode X data)) (\<lambda>ciphertext. st_ok (ciphertext, []))"

definition ehsm_decrypt :: "'w kms_env \<Rightarrow> ehsm_credential \<Rightarrow> bytes \<Rightarrow> string \<Rightarrow> settings \<Rightarrow> ('w, string, bytes) stateful" where
  "ehsm_decrypt X c ciphertext key_id annotations =
     st_then (lift_result (ok_or ''decrypt &[u8] to &str failed'' (from_utf8 ciphertext))) (\<lambda>text.
     st_then (ka_ehsm_decrypt X c key_id text) (\<lambda>plaintext_b64.
       lift_result (ok_or ''decode plaintext'' (ka_b64_decode X plaintext_b64))))"

section \<open>The drivers\<close>

definition aliyun_driver :: "'w kms_env \<Rightarrow> 'w driver" where
  "aliyun_driver X = \<lparr>dr_new = (\<lambda>s. st_then (lift_result (aliyun_from_settings X s)) (\<lambda>_. st_ok ())),
     dr_call = (\<lambda>s c kid an. st_then (lift_result (aliyun_from_settings X s)) (\<lambda>k. aliyun_decrypt X k c kid an))\<rparr>"

definition ehsm_driver :: "'w kms_env \<Rightarrow> 'w driver" where
  "ehsm_driver X = \<lparr>dr_new = (\<lambda>s. st_then (lift_result (ehsm_from_settings X s)) (\<lambda>_. st_ok ())),
     dr_call = (\<lambda>s c kid an. st_then (lift_result (ehsm_from_settings X s)) (\<lambda>k. ehsm_decrypt X k c kid an))\<rparr>"

definition aliyun_vault :: "'w kms_env \<Rightarrow> 'w driver" where
  "aliyun_vault X = \<lparr>dr_new = (\<lambda>s. st_then (lift_result (aliyun_from_settings X s)) (\<lambda>_. st_ok ())),
     dr_call = (\<lambda>s c name an. st_then (lift_result (aliyun_from_settings X s)) (\<lambda>k. aliyun_get_secret X k name an))\<rparr>"

text \<open>The providers that the hub knows when both features are built.\<close>

definition decryptor_providers :: "'w kms_env \<Rightarrow> string \<rightharpoonup> 'w driver" where
  "decryptor_providers X = [''aliyun'' \<mapsto> aliyun_driver X, ''ehsm'' \<mapsto> ehsm_driver X]"

definition vault_providers :: "'w kms_env \<Rightarrow> string \<rightharpoonup> 'w driver" where
  "vault_providers X = [''aliyun'' \<mapsto> aliyun_vault X]"
section \<open>The drivers decrypt what the encrypters encrypt\<close>

text \<open>
  What the services promise: plain text that was encrypted under a key id is what decryption under this
  key id returns later, given the cipher text and the initialisation vector of the answer. base64 decodes
  what it encodes, and eHSM's cipher texts are text.
\<close>

definition aliyun_service_law :: "'w kms_env \<Rightarrow> client_key_client \<Rightarrow> bool" where
  "aliyun_service_law X c \<longleftrightarrow>
     (\<forall>b. ka_b64_decode X (ka_b64_encode X b) = Some b) \<and>
     (\<forall>w w' data kid res blob iv.
        call_kms X c ''Encrypt'' (ka_pb_encrypt X \<lparr>er_key_id = kid, er_plaintext = data, er_algorithm = ''AES_GCM'',
          er_aad = [], er_iv = [], er_padding_mode = []\<rparr>) w = (Inr res, w') \<longrightarrow> ka_pb_encrypted X res = Some (blob, iv) \<longrightarrow>
        (\<forall>v. Option.bind (case fst (call_kms X c ''Decrypt'' (ka_pb_decrypt X \<lparr>dq_ciphertext_blob = blob, dq_key_id = kid,
          dq_algorithm = ''AES_GCM'', dq_aad = [], dq_iv = iv, dq_padding_mode = []\<rparr>) v) of Inl _ \<Rightarrow> None | Inr r \<Rightarrow> Some r)
            (ka_pb_decrypted X) = Some data))"

definition ehsm_service_law :: "'w kms_env \<Rightarrow> ehsm_credential \<Rightarrow> bool" where
  "ehsm_service_law X c \<longleftrightarrow>
     (\<forall>b. ka_b64_decode X (ka_b64_encode X b) = Some b) \<and>
     (\<forall>w w' text kid ct. ka_ehsm_encrypt X c kid text w = (Inr ct, w') \<longrightarrow>
        utf8_valid ct \<and> (\<forall>v. fst (ka_ehsm_decrypt X c kid ct v) = Inr text))"

lemma fst_st_then_Inr: "fst (m w) = Inr a \<Longrightarrow> fst (st_then m f w) = fst (f a (snd (m w)))"
  by (auto simp: st_then_def split: prod.splits)

lemma client_key_roundtrip:
  assumes law: "aliyun_service_law X c" and enc: "client_key_encrypt X c data kid w = (Inr (blob, an), w')"
  shows "fst (client_key_decrypt X c blob kid an v) = Inr data"
proof -
  obtain res iv where call: "call_kms X c ''Encrypt'' (ka_pb_encrypt X \<lparr>er_key_id = kid, er_plaintext = data,
      er_algorithm = ''AES_GCM'', er_aad = [], er_iv = [], er_padding_mode = []\<rparr>) w = (Inr res, w')"
    and res: "ka_pb_encrypted X res = Some (blob, iv)" and an: "an = [(''iv'', JStr (ka_b64_encode X iv))]"
    using enc by (auto simp: client_key_encrypt_def result_iff)
  let ?dec = "call_kms X c ''Decrypt'' (ka_pb_decrypt X \<lparr>dq_ciphertext_blob = blob, dq_key_id = kid,
      dq_algorithm = ''AES_GCM'', dq_aad = [], dq_iv = iv, dq_padding_mode = []\<rparr>)"
  obtain r where r: "fst (?dec v) = Inr r" "ka_pb_decrypted X r = Some data"
    using law [unfolded aliyun_service_law_def, THEN conjunct2, rule_format, OF call res, of v]
    by (auto simp: bind_eq_Some_conv split: sum.splits)
  have "ka_b64_decode X (ka_b64_encode X iv) = Some iv" using law by (simp add: aliyun_service_law_def)
  then show ?thesis
    using r(2) by (simp add: client_key_decrypt_def an string_field_def lift_result_def fst_st_then_Inr [of ?dec v, OF r(1)])
qed

lemma aliyun_export_type: "string_field (aliyun_export (ClientKey c)) ''client_type'' = Inr ''client_key''"
  by (simp add: string_field_def)

lemma aliyun_export_fields:
  "string_field (aliyun_export (ClientKey c)) ''client_key_id'' = Inr (ck_client_key_id (kc_credential c))"
  "string_field (aliyun_export (ClientKey c)) ''kms_instance_id'' = Inr (kc_kms_instance_id c)"
  by (simp_all add: string_field_def client_key_export_def)

lemma aliyun_reads_exported:
  assumes "client_key_from_settings X s = Inr c"
    and "string_field s ''client_key_id'' = Inr (ck_client_key_id (kc_credential c))"
  shows "aliyun_from_settings X (aliyun_export (ClientKey c)) = Inr (ClientKey c)"
proof -
  have "kc_kms_instance_id c = i" if "string_field s ''kms_instance_id'' = Inr i" for i
    using assms(1) that by (auto simp: client_key_from_settings_def client_key_new_def Let_def result_iff split: if_split_asm)
  moreover obtain i where "string_field s ''kms_instance_id'' = Inr i"
    using assms(1) by (auto simp: client_key_from_settings_def Let_def result_iff)
  ultimately have "client_key_from_settings X (aliyun_export (ClientKey c)) = Inr c"
    using assms unfolding client_key_from_settings_def aliyun_export_fields by (simp add: Let_def)
  then show ?thesis unfolding aliyun_from_settings_def aliyun_export_type by simp
qed

lemma aliyun_client_key_works:
  assumes law: "aliyun_service_law X c" and guest: "aliyun_from_settings X (aliyun_export (ClientKey c)) = Inr (ClientKey c)"
  shows "kms_works (aliyun_encrypt X (ClientKey c)) (aliyun_driver X) (aliyun_export (ClientKey c))"
  unfolding kms_works_def
proof (intro conjI allI impI)
  fix w show "fst (dr_new (aliyun_driver X) (aliyun_export (ClientKey c)) w) = Inr ()"
    using guest by (simp add: aliyun_driver_def lift_result_def del: aliyun_export.simps)
next
  fix w key kid ct an w' assume "fst (aliyun_encrypt X (ClientKey c) key kid w) = Inr (ct, an)"
  then obtain w1 where "client_key_encrypt X c key kid w = (Inr (ct, an), w1)" by (auto simp: prod_eq_iff)
  from client_key_roundtrip [OF law this] show "fst (dr_call (aliyun_driver X) (aliyun_export (ClientKey c)) ct kid an w') = Inr key"
    using guest by (simp add: aliyun_driver_def lift_result_def del: aliyun_export.simps)
qed

lemma ehsm_roundtrip:
  assumes "ehsm_service_law X c" and "ehsm_encrypt X c data kid w = (Inr (ct, an), w')"
  shows "fst (ehsm_decrypt X c ct kid an' v) = Inr data"
proof -
  have enc: "ka_ehsm_encrypt X c kid (ka_b64_encode X data) w = (Inr ct, w')"
    using assms(2) by (auto simp: ehsm_encrypt_def result_iff)
  then have held: "utf8_valid ct" "fst (ka_ehsm_decrypt X c kid ct v) = Inr (ka_b64_encode X data)"
    "ka_b64_decode X (ka_b64_encode X data) = Some data"
    using assms(1) by (auto simp: ehsm_service_law_def)
  then show ?thesis by (simp add: ehsm_decrypt_def from_utf8_def lift_result_def fst_st_then_Inr [of "ka_ehsm_decrypt X c kid ct" v, OF held(2)])
qed

lemma ehsm_works:
  assumes law: "ehsm_service_law X c" and guest: "ehsm_from_settings X (ehsm_export c) = Inr c"
  shows "kms_works (ehsm_encrypt X c) (ehsm_driver X) (ehsm_export c)"
  unfolding kms_works_def
proof (intro conjI allI impI)
  fix w show "fst (dr_new (ehsm_driver X) (ehsm_export c) w) = Inr ()"
    using guest by (simp add: ehsm_driver_def lift_result_def)
next
  fix w key kid ct an w' assume "fst (ehsm_encrypt X c key kid w) = Inr (ct, an)"
  then obtain w1 where "ehsm_encrypt X c key kid w = (Inr (ct, an), w1)" by (auto simp: prod_eq_iff)
  from ehsm_roundtrip [OF law this] show "fst (dr_call (ehsm_driver X) (ehsm_export c) ct kid an w') = Inr key"
    using guest by (simp add: ehsm_driver_def lift_result_def)
qed


text \<open>What a client with a security token exports cannot be read back: the path of the token is missing.\<close>

lemma sts_export_unreadable: "aliyun_from_settings X (aliyun_export (StsToken c)) = Inl ''field token_path''"
  by (simp add: aliyun_from_settings_def string_field_def sts_from_settings_def)

section \<open>Percent encoding\<close>

text \<open>The byte serializer of \<open>application/x-www-form-urlencoded\<close>, as it is documented.\<close>

definition form_plain :: "char \<Rightarrow> bool" where
  "form_plain c \<longleftrightarrow> (let n = of_char c :: nat in 48 \<le> n \<and> n \<le> 57 \<or> 65 \<le> n \<and> n \<le> 90 \<or> 97 \<le> n \<and> n \<le> 122 \<or> n = 45 \<or> n = 46 \<or> n = 95)"

definition form_byte :: "char \<Rightarrow> string" where
  "form_byte c =
     (if form_plain c \<or> c = CHR ''*'' then [c] else if c = CHR '' '' then ''+'' else CHR ''%'' # hex_upper c)"

definition byte_serialize_law :: "'w kms_env \<Rightarrow> bool" where
  "byte_serialize_law X \<longleftrightarrow> (\<forall>s. ka_byte_serialize X s = concat (map form_byte s))"

definition openapi_byte :: "char \<Rightarrow> string" where
  "openapi_byte c = (if form_plain c \<or> c = CHR ''~'' then [c] else CHR ''%'' # hex_upper c)"

lemma hex_digit_upper_value: "n < 16 \<Longrightarrow> (of_char (hex_digit_upper n) :: nat) = (if n < 10 then 48 + n else 55 + n)"
  by (simp add: hex_digit_upper_def of_char_of)

lemma hex_upper_values:
  "\<exists>h l. hex_upper c = [h, l] \<and>
     (of_char h :: nat) = (if of_char c div 16 < (10 :: nat) then 48 + of_char c div 16 else 55 + of_char c div 16) \<and>
     (of_char l :: nat) = (if of_char c mod 16 < (10 :: nat) then 48 + of_char c mod 16 else 55 + of_char c mod 16)"
proof -
  have "(of_char c :: nat) < 256" by simp
  then have "(of_char c :: nat) div 16 < 16" "(of_char c :: nat) mod 16 < 16" by (simp_all add: less_mult_imp_div_less)
  then show ?thesis unfolding hex_upper_def by (simp add: hex_digit_upper_value)
qed

lemma hex_upper_chars:
  assumes "x \<in> set (hex_upper c)"
  shows "48 \<le> (of_char x :: nat) \<and> (of_char x :: nat) \<le> 70 \<and> form_plain x"
proof -
  obtain h l where hl: "hex_upper c = [h, l]"
    "(of_char h :: nat) = (if of_char c div 16 < (10 :: nat) then 48 + of_char c div 16 else 55 + of_char c div 16)"
    "(of_char l :: nat) = (if of_char c mod 16 < (10 :: nat) then 48 + of_char c mod 16 else 55 + of_char c mod 16)"
    using hex_upper_values by blast
  have "(of_char c :: nat) < 256" by simp
  then have "(of_char c :: nat) div 16 < 16" "(of_char c :: nat) mod 16 < 16" by (simp_all add: less_mult_imp_div_less)
  then show ?thesis using assms hl by (auto simp: form_plain_def Let_def split: if_split_asm)
qed

lemma hex_upper_inject: "hex_upper c = hex_upper d \<Longrightarrow> c = d"
proof -
  assume eq: "hex_upper c = hex_upper d"
  obtain h l where c: "hex_upper c = [h, l]"
    "(of_char h :: nat) = (if of_char c div 16 < (10 :: nat) then 48 + of_char c div 16 else 55 + of_char c div 16)"
    "(of_char l :: nat) = (if of_char c mod 16 < (10 :: nat) then 48 + of_char c mod 16 else 55 + of_char c mod 16)"
    using hex_upper_values by blast
  obtain h' l' where d: "hex_upper d = [h', l']"
    "(of_char h' :: nat) = (if of_char d div 16 < (10 :: nat) then 48 + of_char d div 16 else 55 + of_char d div 16)"
    "(of_char l' :: nat) = (if of_char d mod 16 < (10 :: nat) then 48 + of_char d mod 16 else 55 + of_char d mod 16)"
    using hex_upper_values by blast
  have "h = h'" "l = l'" using eq c(1) d(1) by simp_all
  then have "(of_char c :: nat) div 16 = of_char d div 16" "(of_char c :: nat) mod 16 = of_char d mod 16"
    using c(2,3) d(2,3) by (auto split: if_split_asm)
  then have "(of_char c :: nat) = of_char d" by (metis div_mult_mod_eq)
  then show ?thesis by simp
qed

lemma form_plain_not: "form_plain c \<Longrightarrow> c \<noteq> CHR ''%'' \<and> c \<noteq> CHR ''+'' \<and> c \<noteq> CHR ''*'' \<and> c \<noteq> CHR ''&'' \<and> c \<noteq> CHR ''=''"
  by (auto simp: form_plain_def)

lemma replace_char: "replace_str [c] to s = concat (map (\<lambda>x. if x = c then to else [x]) s)"
  by (induction s) auto

lemma concat_map_concat: "concat (map f (concat xs)) = concat (map (\<lambda>x. concat (map f x)) xs)"
  by (induction xs) auto

lemma two_replaced:
  "concat (map (\<lambda>x. if x = CHR ''*'' then ''%2A'' else [x]) (concat (map (\<lambda>x. if x = CHR ''+'' then ''%20'' else [x]) (form_byte c)))) =
     (if form_plain c then [c] else CHR ''%'' # hex_upper c)"
proof -
  have hex: "concat (map (\<lambda>x. if x = CHR ''*'' then ''%2A'' else [x]) (concat (map (\<lambda>x. if x = CHR ''+'' then ''%20'' else [x]) (hex_upper c)))) = hex_upper c"
  proof -
    obtain h l where hl: "hex_upper c = [h, l]" using hex_upper_values by blast
    have "form_plain h" "form_plain l" using hex_upper_chars [of _ c] hl by auto
    then show ?thesis using hl form_plain_not by auto
  qed
  have "hex_upper (CHR ''*'') = ''2A''" "hex_upper (CHR '' '') = ''20''" by code_simp+
  moreover have "\<not> form_plain (CHR ''*'')" "\<not> form_plain (CHR '' '')" by (simp_all add: form_plain_def)
  ultimately show ?thesis using hex form_plain_not by (auto simp: form_byte_def)
qed

lemma replace_tilde:
  "replace_str ''%7E'' ''~'' (concat (map (\<lambda>c. if form_plain c then [c] else CHR ''%'' # hex_upper c) s)) = concat (map openapi_byte s)"
proof (induction s)
  case (Cons c s)
  show ?case
  proof (cases "form_plain c")
    case True
    then show ?thesis using Cons form_plain_not [OF True] by (auto simp: openapi_byte_def)
  next
    case False
    obtain h l where hl: "hex_upper c = [h, l]" using hex_upper_values by blast
    have "form_plain h" "form_plain l" using hex_upper_chars [of _ c] hl by auto
    then have plain: "h \<noteq> CHR ''%''" "l \<noteq> CHR ''%''" using form_plain_not by auto
    have tilde: "hex_upper (CHR ''~'') = ''7E''" by code_simp
    then have "c = CHR ''~'' \<longleftrightarrow> h = CHR ''7'' \<and> l = CHR ''E''" using hl hex_upper_inject [of c "CHR ''~''"] by auto
    then show ?thesis using Cons False hl plain by (auto simp: openapi_byte_def)
  qed
qed simp

lemma replace_char_map:
  "replace_str [a] to (concat (map f s)) = concat (map (\<lambda>c. concat (map (\<lambda>x. if x = a then to else [x]) (f c))) s)"
  unfolding replace_char concat_map_concat by (simp add: comp_def)

lemma urlencode_bytes: "byte_serialize_law X \<Longrightarrow> urlencode_openapi X s = concat (map openapi_byte s)"
  unfolding urlencode_openapi_def byte_serialize_law_def by (simp only: replace_char_map two_replaced replace_tilde)

lemma openapi_append_inject:
  "concat (map openapi_byte s) = concat (map openapi_byte t) \<Longrightarrow> s = t"
proof (induction s arbitrary: t)
  case Nil
  then show ?case by (cases t) (auto simp: openapi_byte_def split: if_split_asm)
next
  case (Cons c s)
  then obtain d t' where t: "t = d # t'" by (cases t) (auto simp: openapi_byte_def split: if_split_asm)
  have len: "length (hex_upper x) = 2" for x by (simp add: hex_upper_def)
  have no: "form_plain x \<or> x = CHR ''~'' \<Longrightarrow> x \<noteq> CHR ''%''" for x using form_plain_not by auto
  have eq: "openapi_byte c @ concat (map openapi_byte s) = openapi_byte d @ concat (map openapi_byte t')"
    using Cons.prems t by simp
  then have "openapi_byte c = openapi_byte d \<and> concat (map openapi_byte s) = concat (map openapi_byte t')"
    using no len by (auto simp: openapi_byte_def append_eq_append_conv split: if_split_asm)
  moreover from this have "c = d" using no hex_upper_inject by (auto simp: openapi_byte_def split: if_split_asm)
  ultimately show ?case using Cons.IH t by simp
qed

lemma openapi_free: "x \<in> set (concat (map openapi_byte s)) \<Longrightarrow> x \<noteq> CHR ''&'' \<and> x \<noteq> CHR ''=''"
  using form_plain_not hex_upper_chars by (fastforce simp: openapi_byte_def split: if_split_asm)

section \<open>Signed requests\<close>

lemma canonicalized_params_inject:
  assumes law: "byte_serialize_law X" and ne: "ps \<noteq> []" "qs \<noteq> []"
    and eq: "canonicalized_params X ps = canonicalized_params X qs"
  shows "ps = qs"
proof -
  let ?f = "\<lambda>(k, v). urlencode_openapi X k @ ''='' @ urlencode_openapi X v"
  have free: "CHR ''&'' \<notin> set (urlencode_openapi X s)" "CHR ''='' \<notin> set (urlencode_openapi X s)" for s
    using openapi_free [of _ s] by (auto simp: urlencode_bytes [OF law])
  have "split_on (CHR ''&'') (join_with (CHR ''&'') (map ?f xs)) = map ?f xs" if "xs \<noteq> []" for xs
    using that free(1) by (intro split_on_join) auto
  then have maps: "map ?f ps = map ?f qs" using eq ne unfolding canonicalized_params_def by metis
  have "inj_on ?f (set ps \<union> set qs)"
  proof (rule inj_onI, clarify)
    fix k v k' v' assume same: "urlencode_openapi X k @ ''='' @ urlencode_openapi X v = urlencode_openapi X k' @ ''='' @ urlencode_openapi X v'"
    have "split_once (CHR ''='') (urlencode_openapi X a @ ''='' @ b) = Some (urlencode_openapi X a, b)" for a b
      using free(2) by (simp add: split_once_Some_iff)
    then have "urlencode_openapi X k = urlencode_openapi X k' \<and> urlencode_openapi X v = urlencode_openapi X v'"
      using same by (metis option.inject prod.inject)
    then show "k = k' \<and> v = v'" using openapi_append_inject by (simp add: urlencode_bytes [OF law])
  qed
  then show ?thesis by (rule map_inj_on [OF maps])
qed

lemma string_to_sign_inject:
  assumes "byte_serialize_law X" "ps \<noteq> []" "qs \<noteq> []" "sts_string_to_sign X ps = sts_string_to_sign X qs"
  shows "ps = qs"
proof -
  have "canonicalized_params X ps = canonicalized_params X qs"
    using assms(4) openapi_append_inject by (simp add: sts_string_to_sign_def urlencode_bytes [OF assms(1)])
  then show ?thesis using canonicalized_params_inject assms(1-3) by blast
qed

lemma btree_insert_not_Nil: "btree_insert k v m \<noteq> []"
  by (cases m) (auto split: if_splits)

lemma sts_params_not_Nil: "sts_params c api t n ps \<noteq> []"
  by (simp add: sts_params_def btree_insert_not_Nil)

lemma sts_params_fields:
  "map_of (sts_params c api t n ps) ''Action'' = Some api \<and>
   map_of (sts_params c api t n ps) ''AccessKeyId'' = Some (sts_ak (st_credential c)) \<and>
   map_of (sts_params c api t n ps) ''SecurityToken'' = Some (sts_token (st_credential c)) \<and>
   map_of (sts_params c api t n ps) ''SignatureNonce'' = Some (concat (map hex_upper n))"
  by (simp add: sts_params_def)

text \<open>
  C25. A request with a security token is signed as a whole: its signature is the keyed hash of a text that
  no other list of parameters has, and the signed parameters name the operation, the key and the token,
  and the fresh nonce.
\<close>

theorem sts_request_signed:
  assumes law: "byte_serialize_law X" and run: "build_params X c api_name params w = (sent, w')"
  shows "\<exists>signed nonce. ka_nonce X w = (nonce, w') \<and>
    sent = btree_insert ''Signature'' (sts_sign X (sts_string_to_sign X signed) (sts_sk (st_credential c) @ ''&'')) signed \<and>
    (\<forall>other. other \<noteq> [] \<longrightarrow> sts_string_to_sign X other = sts_string_to_sign X signed \<longrightarrow> other = signed) \<and>
    map_of signed ''Action'' = Some api_name \<and> map_of signed ''AccessKeyId'' = Some (sts_ak (st_credential c)) \<and>
    map_of signed ''SecurityToken'' = Some (sts_token (st_credential c)) \<and> map_of signed ''SignatureNonce'' = Some (concat (map hex_upper nonce))"
proof -
  obtain nonce where nonce: "ka_nonce X w = (nonce, w')"
    and sent: "sent = btree_insert ''Signature'' (sts_sign X (sts_string_to_sign X (sts_params c api_name (ka_iso_date X w) nonce params))
      (sts_sk (st_credential c) @ ''&'')) (sts_params c api_name (ka_iso_date X w) nonce params)"
    using run by (auto simp: build_params_def Let_def split: prod.splits)
  have "other = sts_params c api_name (ka_iso_date X w) nonce params"
    if "other \<noteq> []" "sts_string_to_sign X other = sts_string_to_sign X (sts_params c api_name (ka_iso_date X w) nonce params)" for other
    using string_to_sign_inject [OF law that(1) sts_params_not_Nil that(2)] .
  then show ?thesis using nonce sent sts_params_fields by blast
qed

section \<open>Examples\<close>

text \<open>Services that keep nothing secret: eHSM answers with the text it got, and no PKCS#12 file can be opened.\<close>

definition demo_kms :: "nat kms_env" where
  "demo_kms = \<lparr>ka_var = (\<lambda>_. None), ka_read = (\<lambda>_. Inr ''credential''),
     ka_json = (\<lambda>_. Some (JObj [(''AppId'', JStr ''app''), (''ApiKey'', JStr ''secret'')])),
     ka_b64_encode = (\<lambda>b. concat (map hex_char b)),
     ka_b64_decode = (\<lambda>s. case hex_decode s of Inl _ \<Rightarrow> None | Inr b \<Rightarrow> Some b),
     ka_pfx_bags = (\<lambda>_ _. None), ka_decrypt_pbe = (\<lambda>_ _. None), ka_rsa_sign = (\<lambda>_ _. None),
     ka_hmac_sha1 = (\<lambda>key m. key @ m), ka_sha256_hex = (\<lambda>b. b), ka_byte_serialize = (\<lambda>s. concat (map form_byte s)),
     ka_cert_ok = (\<lambda>_. True), ka_header_ok = (\<lambda>_. True), ka_package = ''kms'', ka_http_date = (\<lambda>_. ''date''),
     ka_iso_date = (\<lambda>_. ''date''), ka_nonce = (\<lambda>w. (''nonce'', w)),
     ka_pb_encrypt = (\<lambda>_. []), ka_pb_decrypt = (\<lambda>_. []), ka_pb_secret = (\<lambda>_. []), ka_pb_encrypted = (\<lambda>_. None),
     ka_pb_decrypted = (\<lambda>_. None), ka_pb_secret_data = (\<lambda>_. None),
     ka_post = (\<lambda>_ _ _. st_err ''offline''), ka_get = (\<lambda>_. st_err ''offline''),
     ka_ehsm_encrypt = (\<lambda>_ _ text. if utf8_valid text then st_ok text else st_err ''not text''),
     ka_ehsm_decrypt = (\<lambda>_ _ text. st_ok text)\<rparr>"

definition demo_ehsm :: ehsm_credential where
  "demo_ehsm = \<lparr>ec_base_url = ''https://ehsm'', ec_appid = ''app'', ec_apikey = ''secret''\<rparr>"

definition demo_kms_hub :: "(nat, string, nat, nat, nat) cdh_env" where
  "demo_kms_hub = demo_cdh\<lparr>ce_decryptors := decryptor_providers demo_kms\<rparr>"

definition demo_kms_cli :: "(nat, unit) cli_env" where
  "demo_kms_cli = \<lparr>le_provider = (\<lambda>_. Some (ehsm_encrypt demo_kms demo_ehsm, ehsm_export demo_ehsm, ''ehsm'')),
     le_b64_encode = (\<lambda>b. b), le_settings = (\<lambda>_. None)\<rparr>"

definition demo_kms_sealed :: secret where
  "demo_kms_sealed = \<lparr>sec_version = SECRET_VERSION, sec_type = Envelope
     \<lparr>es_key_id = ''kid'', es_encrypted_key = concat (map hex_char (replicate 32 (CHR ''k''))),
       es_encrypted_data = ''secret'' @ replicate 16 (CHR ''k''), es_wrap_type = Aes256Gcm, es_iv = replicate 12 (CHR ''i''),
       es_provider = ''ehsm'', es_provider_settings = ehsm_export demo_ehsm, es_annotations = []\<rparr>\<rparr>"

definition demo_kms_codec :: secret_codec where
  "demo_kms_codec = \<lparr>sc_b64url_encode = (\<lambda>b. concat (map hex_char b)),
     sc_b64url_decode = (\<lambda>s. case hex_decode s of Inl _ \<Rightarrow> None | Inr b \<Rightarrow> Some b),
     sc_to_json = (\<lambda>s. if s = demo_kms_sealed then Some ''{}'' else None), sc_from_json = (\<lambda>_. Some demo_kms_sealed)\<rparr>"

lemma demo_kms_codec_law: "codec_law demo_kms_codec"
  using hex_char_free [of "CHR ''.''"]
  by (auto simp: codec_law_def demo_kms_codec_def hex_decode_encode hex_encode_ascii split: if_splits)

lemma demo_ehsm_law: "ehsm_service_law demo_kms demo_ehsm"
  by (auto simp: ehsm_service_law_def demo_kms_def hex_decode_encode split: if_splits)

lemma demo_ehsm_export: "ehsm_from_settings demo_kms (ehsm_export demo_ehsm) = Inr demo_ehsm"
  by (simp add: ehsm_from_settings_def ehsm_export_def demo_kms_def demo_ehsm_def string_field_def read_object_def ehsm_new_def)

lemma demo_key_text: "utf8_valid (concat (map hex_char (replicate 32 (CHR ''k''))))"
  by code_simp

lemma demo_kms_seal:
  "fst (seal_secret demo_kms_hub demo_kms_cli demo_kms_codec (replicate 12 (CHR ''i'')) (replicate 32 (CHR ''k''))
     (EnvelopeCommand () ''kid'' KEYS_PATH) demo_world) = Inr demo_sealed_token"
  using demo_key_text
  by (simp add: seal_secret_def seal_envelope_def st_then_def lift_result_def st_map_err_def on_network_def
      demo_kms_hub_def demo_cdh_def demo_kbs_def demo_kms_cli_def demo_world_def rust_gcm_encrypt_def array_from_slice_def
      demo_rc_def vec_resize_def to_signed_base64_string_def demo_kms_codec_def demo_kms_sealed_def demo_sealed_token_def
      ehsm_encrypt_def demo_kms_def del: concat.simps list.map)


definition demo_sts :: sts_client where
  "demo_sts = from_sts_token \<lparr>sts_ak = ''ak'', sts_sk = ''sk'', sts_token = ''token''\<rparr> (region_endpoint ''region'') ''region''"

theorem sts_request_signed_witness:
  "\<exists>signed. fst (build_params demo_kms demo_sts ''GetSecretValue'' [] 0) =
       btree_insert ''Signature'' (sts_sign demo_kms (sts_string_to_sign demo_kms signed) ''sk&'') signed \<and>
     map_of signed ''Action'' = Some ''GetSecretValue'' \<and> map_of signed ''SecurityToken'' = Some ''token''"
proof -
  have law: "byte_serialize_law demo_kms" by (simp add: byte_serialize_law_def demo_kms_def)
  have sk: "sts_sk (st_credential demo_sts) @ ''&'' = ''sk&''" "sts_token (st_credential demo_sts) = ''token''"
    by (simp_all add: demo_sts_def from_sts_token_def)
  show ?thesis
    using sts_request_signed [OF law prod.collapse [symmetric], where c = demo_sts and api_name = "''GetSecretValue''" and params = "[]" and w = 0]
    unfolding sk by blast
qed

end
