(* ===== verification/Tee_Attesters.thy ===== *)
theory Tee_Attesters
  imports Kbs_Client
begin

text \<open>
  \<open>attestation-agent/attester/src\<close>: the detection of the TEE, the attesters of all platforms with the
  evidence they produce, and the reports of the kernel's TSM interface, which is a directory of
  attributes that other processes may write at the same time. Kernel, firmware, vTPM and network are the
  records \<open>tsm_fs\<close> and \<open>tee_env\<close> over a world.
\<close>

section \<open>TSM reports\<close>

datatype tsm_provider = TsmCca | TsmTdx | TsmSev

datatype tsm_error =
    NoTsmReports
  | TsmOpen string
  | TsmAccess string string
  | TsmParse
  | MissingProvider tsm_provider tsm_provider
  | UnknownProvider
  | InblobConflict nat
  | InblobLen

datatype tsm_data = CcaData bytes | TdxData bytes | SevData char bytes

record 'w tsm_fs =
  tf_exists :: "string \<Rightarrow> 'w \<Rightarrow> bool"
  tf_tempdir :: "string \<Rightarrow> ('w, string, string) stateful"
  tf_rmdir :: "string \<Rightarrow> ('w, string, unit) stateful"
  tf_write :: "string \<Rightarrow> bytes \<Rightarrow> ('w, string, unit) stateful"
  tf_read :: "string \<Rightarrow> ('w, string, bytes) stateful"

definition TSM_REPORT_PATH :: string where "TSM_REPORT_PATH = ''/sys/kernel/config/tsm/report''"

definition provider_from_str :: "string \<Rightarrow> tsm_provider option" where
  "provider_from_str s =
     (if s = ''arm_cca_guest'' @ [CHR 0x0A] then Some TsmCca
      else if s = ''tdx_guest'' @ [CHR 0x0A] then Some TsmTdx
      else if s = ''sev_guest'' @ [CHR 0x0A] then Some TsmSev
      else None)"

definition read_to_string :: "'w tsm_fs \<Rightarrow> string \<Rightarrow> ('w, string, string) stateful" where
  "read_to_string F path = st_then (tf_read F path) (\<lambda>b. lift_result (ok_or ''invalid utf-8'' (from_utf8 b)))"

definition parse_u32 :: "string \<Rightarrow> nat option" where
  "parse_u32 s = (case parse_usize s of Some n \<Rightarrow> if n < 2 ^ 32 then Some n else None | None \<Rightarrow> None)"

definition trim_newlines :: "string \<Rightarrow> string" where
  "trim_newlines s = rev (dropWhile (\<lambda>c. c = CHR 0x0A) (rev (dropWhile (\<lambda>c. c = CHR 0x0A) s)))"

definition check_inblob_write_race :: "'w tsm_fs \<Rightarrow> string \<Rightarrow> ('w, tsm_error, unit) stateful" where
  "check_inblob_write_race F report_path =
     st_then (st_map_err (TsmAccess ''generation'') (read_to_string F (report_path @ ''/generation''))) (\<lambda>g.
     st_then (lift_result (ok_or TsmParse (parse_u32 (trim_newlines g)))) (\<lambda>generation.
       if generation > 1 then st_err (InblobConflict generation) else st_ok ()))"

definition check_tsm_report_provider :: "'w tsm_fs \<Rightarrow> string \<Rightarrow> tsm_provider \<Rightarrow> ('w, tsm_error, unit) stateful" where
  "check_tsm_report_provider F report_path wanted =
     st_then (st_map_err (TsmAccess ''provider'') (read_to_string F (report_path @ ''/provider''))) (\<lambda>s.
     st_then (lift_result (ok_or UnknownProvider (provider_from_str s))) (\<lambda>provider.
       if provider = wanted then st_ok () else st_err (MissingProvider wanted provider)))"

text \<open>A report directory is removed when its value is dropped; a failure is only logged.\<close>

definition tsm_drop :: "'w tsm_fs \<Rightarrow> string \<Rightarrow> 'w \<Rightarrow> 'w" where
  "tsm_drop F path w = snd (tf_rmdir F path w)"

definition tsm_new :: "'w tsm_fs \<Rightarrow> tsm_provider \<Rightarrow> ('w, tsm_error, string) stateful" where
  "tsm_new F wanted w =
     (if \<not> tf_exists F TSM_REPORT_PATH w then (Inl NoTsmReports, w)
      else st_then (st_map_err TsmOpen (tf_tempdir F TSM_REPORT_PATH)) (\<lambda>path w1.
        (case check_tsm_report_provider F path wanted w1 of
           (Inl e, w2) \<Rightarrow> (Inl e, tsm_drop F path w2) | (Inr _, w2) \<Rightarrow> (Inr path, w2))) w)"

fun report_data_of :: "'w tsm_fs \<Rightarrow> string \<Rightarrow> tsm_data \<Rightarrow> ('w, tsm_error, bytes) stateful" where
  "report_data_of F report_path (CcaData inblob) = st_ok inblob"
| "report_data_of F report_path (TdxData inblob) = st_ok inblob"
| "report_data_of F report_path (SevData privlevel inblob) =
     st_then (st_map_err (TsmAccess ''privlevel'') (tf_write F (report_path @ ''/privlevel'') [privlevel])) (\<lambda>_. st_ok inblob)"

definition attestation_report :: "'w tsm_fs \<Rightarrow> string \<Rightarrow> tsm_data \<Rightarrow> ('w, tsm_error, bytes) stateful" where
  "attestation_report F report_path provider_data =
     st_then (report_data_of F report_path provider_data) (\<lambda>report_data.
     if report_data = [] then st_err InblobLen
     else st_then (st_map_err (TsmAccess ''inblob'') (tf_write F (report_path @ ''/inblob'') report_data)) (\<lambda>_.
          st_then (st_map_err (TsmAccess ''outblob'') (tf_read F (report_path @ ''/outblob''))) (\<lambda>q.
          st_then (check_inblob_write_race F report_path) (\<lambda>_. st_ok q))))"

definition supplemental_data :: "'w tsm_fs \<Rightarrow> string \<Rightarrow> ('w, tsm_error, bytes) stateful" where
  "supplemental_data F report_path =
     st_then (st_map_err (TsmAccess ''auxblob'') (tf_read F (report_path @ ''/auxblob''))) (\<lambda>aux.
     st_then (check_inblob_write_race F report_path) (\<lambda>_. st_ok aux))"

section \<open>The platforms\<close>

text \<open>
  Reports of firmware and vTPM are JSON values as they are serialized; \<open>te_dcap_quote\<close> is there with the
  feature \<open>tdx-attest-dcap-ioctls\<close>. The Secure Execution attester reads a request and gives the answer of
  the ultravisor to a blob, the user data and two sizes.
\<close>

record se_request =
  sr_request_blob :: bytes
  sr_measurement_size :: nat
  sr_additional_size :: nat
  sr_encr_measurement_key :: bytes
  sr_encr_request_nonce :: bytes
  sr_image_hdr_tags :: bytes

record uv_answer =
  ua_measurement :: bytes
  ua_additional :: "bytes option"
  ua_cuid :: bytes

record 'w tee_env =
  te_fs :: "'w tsm_fs"
  te_var :: "string \<Rightarrow> string option"
  te_aarch64 :: bool
  te_b64 :: "bytes \<Rightarrow> string"
  te_json :: "json \<Rightarrow> string option"
  te_tdx :: "'w tdx_platform"
  te_dcap_quote :: "(bytes \<Rightarrow> ('w, string, bytes) stateful) option"
  te_snp_report :: "bytes \<Rightarrow> ('w, string, json \<times> json) stateful"
  te_snp_host_data :: "bytes \<Rightarrow> ('w, string, bytes) stateful"
  te_az_is_tdx :: "'w \<Rightarrow> (string, bool) result"
  te_az_is_snp :: "'w \<Rightarrow> (string, bool) result"
  te_az_hcl_report :: "bytes \<Rightarrow> ('w, string, bytes) stateful"
  te_az_td_quote :: "bytes \<Rightarrow> ('w, string, bytes) stateful"
  te_az_report :: "('w, string, bytes) stateful"
  te_az_vcek :: "('w, string, string) stateful"
  te_vtpm_quote :: "bytes \<Rightarrow> ('w, string, json) stateful"
  te_vtpm_extend :: "nat \<Rightarrow> bytes \<Rightarrow> ('w, string, unit) stateful"
  te_occlum_quote :: "bytes \<Rightarrow> ('w, string, bytes) stateful"
  te_csv_report :: "bytes \<Rightarrow> ('w, string, json \<times> bytes \<times> bytes) stateful"
  te_https_get :: "string \<Rightarrow> ('w, string, bytes) stateful"
  te_csv_certs :: "bytes \<Rightarrow> (json \<times> json) option"
  te_csv_pek :: "bytes \<Rightarrow> json option"
  te_pv_bit :: "'w \<Rightarrow> bool"
  te_se_request :: "bytes \<Rightarrow> se_request option"
  te_uv_attest :: "bytes \<Rightarrow> bytes \<Rightarrow> nat \<Rightarrow> nat \<Rightarrow> ('w, string, uv_answer) stateful"

definition serialize :: "'w tee_env \<Rightarrow> json \<Rightarrow> ('w, string, string) stateful" where
  "serialize E evidence = lift_result (ok_or ''serialize evidence'' (te_json E evidence))"

definition jbytes :: "bytes \<Rightarrow> json" where
  "jbytes b = JArr (map (\<lambda>c. JNum (of_char c)) b)"

definition jopt :: "string option \<Rightarrow> json" where
  "jopt x = (case x of None \<Rightarrow> JNull | Some s \<Rightarrow> JStr s)"

text \<open>An attester is a trait object; two of its operations read and extend registers.\<close>

record 'w tee_attester =
  ta_registers :: "'w attester"
  ta_get_evidence :: "bytes \<Rightarrow> ('w, string, string) stateful"
  ta_bind_init_data :: "bytes \<Rightarrow> ('w, string, init_data_result) stateful"

definition default_registers :: "'w attester" where
  "default_registers = \<lparr>at_get_runtime_measurement = (\<lambda>_ _. Inl ''Unimplemented''), at_extend_runtime_measurement = (\<lambda>_ _. st_err ''Unimplemented'')\<rparr>"

definition default_bind_init_data :: "bytes \<Rightarrow> ('w, string, init_data_result) stateful" where
  "default_bind_init_data init_data_digest = st_ok InitDataUnsupported"

text \<open>Report data of at most 64 bytes, filled up with zero bytes.\<close>

definition report_data_64 :: "bytes \<Rightarrow> (string, bytes) result" where
  "report_data_64 d = (if length d > 64 then Inl ''Report data must be no more than 64 bytes'' else Inr (vec_resize 64 (CHR 0x00) d))"

subsection \<open>Sample, TDX and CCA\<close>

definition sample_get_evidence :: "'w tee_env \<Rightarrow> bytes \<Rightarrow> ('w, string, string) stateful" where
  "sample_get_evidence E report_data =
     serialize E (JObj [(''svn'', JStr ''1''), (''report_data'', JStr (te_b64 E report_data))])"

definition CCEL_PATH :: string where "CCEL_PATH = ''/sys/firmware/acpi/tables/data/CCEL''"
definition TDX_GUEST_IOCTL :: string where "TDX_GUEST_IOCTL = ''/dev/tdx_guest''"
definition AA_EVENTLOG_PATH :: string where "AA_EVENTLOG_PATH = ''/run/attestation-agent/eventlog''"

definition get_quote_ioctl :: "'w tee_env \<Rightarrow> bytes \<Rightarrow> ('w, string, bytes) stateful" where
  "get_quote_ioctl E report_data =
     (case te_dcap_quote E of None \<Rightarrow> st_err ''TDX DCAP ioctls: support not available'' | Some quote \<Rightarrow> quote report_data)"

definition tsm_report_once :: "'w tsm_fs \<Rightarrow> string \<Rightarrow> tsm_data \<Rightarrow> ('w, tsm_error, bytes) stateful" where
  "tsm_report_once F path data w = (case attestation_report F path data w of (r, w') \<Rightarrow> (r, tsm_drop F path w'))"

definition tdx_quote :: "'w tee_env \<Rightarrow> bytes \<Rightarrow> ('w, string, bytes) stateful" where
  "tdx_quote E report_data w =
     (case tsm_new (te_fs E) TsmTdx w of
        (Inl _, w') \<Rightarrow> get_quote_ioctl E report_data w'
      | (Inr path, w') \<Rightarrow> st_map_err (\<lambda>_. ''quote generation using TSM reports failed'')
          (tsm_report_once (te_fs E) path (TdxData report_data)) w')"

text \<open>\<open>Result::ok\<close> of a fallible call.\<close>

definition optional :: "('w, 'e, 'a) stateful \<Rightarrow> ('w, 'e, 'a option) stateful" where
  "optional m w = (case m w of (r, w') \<Rightarrow> (Inr (case r of Inl _ \<Rightarrow> None | Inr a \<Rightarrow> Some a), w'))"

definition tdx_evidence :: "string option \<Rightarrow> string \<Rightarrow> string option \<Rightarrow> json" where
  "tdx_evidence cc_eventlog quote aa_eventlog =
     JObj [(''cc_eventlog'', jopt cc_eventlog), (''quote'', JStr quote), (''aa_eventlog'', jopt aa_eventlog)]"

definition tdx_get_evidence :: "'w tee_env \<Rightarrow> bytes \<Rightarrow> ('w, string, string) stateful" where
  "tdx_get_evidence E report_data =
     st_then (lift_result (report_data_64 report_data)) (\<lambda>report_data.
     st_then (tdx_quote E report_data) (\<lambda>quote_bytes.
     st_then (optional (tf_read (te_fs E) CCEL_PATH)) (\<lambda>ccel.
     st_then (optional (read_to_string (te_fs E) AA_EVENTLOG_PATH)) (\<lambda>aa_eventlog.
       serialize E (tdx_evidence (map_option (te_b64 E) ccel) (te_b64 E quote_bytes) aa_eventlog)))))"

definition tsm_available :: "'w tsm_fs \<Rightarrow> tsm_provider \<Rightarrow> 'w \<Rightarrow> bool \<times> 'w" where
  "tsm_available F wanted w =
     (case tsm_new F wanted w of (Inl _, w') \<Rightarrow> (False, w') | (Inr path, w') \<Rightarrow> (True, tsm_drop F path w'))"

definition tdx_detect_platform :: "'w tee_env \<Rightarrow> 'w \<Rightarrow> bool \<times> 'w" where
  "tdx_detect_platform E w =
     (case tsm_available (te_fs E) TsmTdx w of
        (True, w') \<Rightarrow> (True, w') | (False, w') \<Rightarrow> (tf_exists (te_fs E) TDX_GUEST_IOCTL w', w'))"

definition cca_detect_platform :: "'w tee_env \<Rightarrow> 'w \<Rightarrow> bool \<times> 'w" where
  "cca_detect_platform E w = (if te_aarch64 E then tsm_available (te_fs E) TsmCca w else (False, w))"

definition cca_get_evidence :: "'w tee_env \<Rightarrow> bytes \<Rightarrow> ('w, string, string) stateful" where
  "cca_get_evidence E challenge =
     st_then (lift_result (report_data_64 challenge)) (\<lambda>challenge.
     st_then (st_map_err (\<lambda>_. ''TSM report'') (tsm_new (te_fs E) TsmCca)) (\<lambda>path w.
       (case tsm_report_once (te_fs E) path (CcaData challenge) w of
          (Inl _, w') \<Rightarrow> (Inl ''TSM report'', w')
        | (Inr token, w') \<Rightarrow> serialize E (JObj [(''token'', jbytes token)]) w')))"

subsection \<open>SNP, CSV and SGX\<close>

definition snp_get_evidence :: "'w tee_env \<Rightarrow> bytes \<Rightarrow> ('w, string, string) stateful" where
  "snp_get_evidence E report_data =
     st_then (lift_result (report_data_64 report_data)) (\<lambda>report_data.
     st_then (te_snp_report E report_data) (\<lambda>(report, certs).
       serialize E (JObj [(''attestation_report'', report), (''cert_chain'', certs)])))"

definition get_snp_host_data :: "'w tee_env \<Rightarrow> ('w, string, bytes) stateful" where
  "get_snp_host_data E = te_snp_host_data E (replicate 64 (CHR 0x00))"

definition snp_bind_init_data :: "'w tee_env \<Rightarrow> bytes \<Rightarrow> ('w, string, init_data_result) stateful" where
  "snp_bind_init_data E init_data_digest =
     st_then (get_snp_host_data E) (\<lambda>hostdata.
       if pad 32 init_data_digest \<noteq> hostdata then st_err ''HOSTDATA does not match.'' else st_ok InitDataOk)"

definition trim_end_zeros :: "string \<Rightarrow> string" where
  "trim_end_zeros s = rev (dropWhile (\<lambda>c. c = CHR 0x00) (rev s))"

definition download_hskcek_from_kds :: "'w tee_env \<Rightarrow> bytes \<Rightarrow> ('w, string, bytes) stateful" where
  "download_hskcek_from_kds E sn =
     st_then (lift_result (ok_or ''invalid utf-8'' (from_utf8 sn))) (\<lambda>sn.
       te_https_get E (''https://cert.hygon.cn/hsk_cek?snumber='' @ trim_end_zeros sn))"

definition csv_get_evidence :: "'w tee_env \<Rightarrow> bytes \<Rightarrow> ('w, string, string) stateful" where
  "csv_get_evidence E report_data =
     st_then (lift_result (report_data_64 report_data)) (\<lambda>report_data.
     st_then (te_csv_report E report_data) (\<lambda>(report, sn, pek_cert).
     st_then (download_hskcek_from_kds E sn) (\<lambda>cert_data.
     st_then (lift_result (ok_or ''called Result::unwrap() on an Err value'' (te_csv_certs E cert_data))) (\<lambda>(hsk, cek).
     st_then (lift_result (ok_or ''decode pek'' (te_csv_pek E pek_cert))) (\<lambda>pek.
       serialize E (JObj [(''attestation_report'', report),
         (''cert_chain'', JObj [(''hsk'', hsk), (''cek'', cek), (''pek'', pek)]), (''serial_number'', jbytes sn)]))))))"

datatype libos_type = LibOsInvalid | Occlum | Gramine

definition ATTESTATION_TYPE_PATH :: string where "ATTESTATION_TYPE_PATH = ''/dev/attestation/attestation_type''"

definition get_libos_type :: "'w tee_env \<Rightarrow> 'w \<Rightarrow> libos_type \<times> 'w" where
  "get_libos_type E w =
     (if te_var E ''OCCLUM'' \<noteq> None then (Occlum, w)
      else (case read_to_string (te_fs E) ATTESTATION_TYPE_PATH w of
              (r, w') \<Rightarrow> (if r = Inr ''dcap'' then Gramine else LibOsInvalid, w')))"

definition gramine_quote :: "'w tee_env \<Rightarrow> bytes \<Rightarrow> ('w, string, bytes) stateful" where
  "gramine_quote E report_data =
     st_then (tf_write (te_fs E) ''/dev/attestation/user_report_data'' report_data) (\<lambda>_.
       tf_read (te_fs E) ''/dev/attestation/quote'')"

definition sgx_quote :: "'w tee_env \<Rightarrow> bytes \<Rightarrow> ('w, string, bytes) stateful" where
  "sgx_quote E report_data w =
     (case get_libos_type E w of
        (LibOsInvalid, w') \<Rightarrow> (Inl ''not implemented: empty quote'', w')
      | (Occlum, w') \<Rightarrow> te_occlum_quote E report_data w'
      | (Gramine, w') \<Rightarrow> gramine_quote E report_data w')"

definition sgx_get_evidence :: "'w tee_env \<Rightarrow> bytes \<Rightarrow> ('w, string, string) stateful" where
  "sgx_get_evidence E report_data =
     st_then (lift_result (report_data_64 report_data)) (\<lambda>report_data.
     st_then (sgx_quote E report_data) (\<lambda>quote. serialize E (JObj [(''quote'', JStr (te_b64 E quote))])))"

definition sgx_detect_platform :: "'w tee_env \<Rightarrow> 'w \<Rightarrow> bool \<times> 'w" where
  "sgx_detect_platform E w = (case get_libos_type E w of (t, w') \<Rightarrow> (t \<noteq> LibOsInvalid, w'))"

subsection \<open>Azure and Secure Execution\<close>

definition INIT_DATA_PCR :: nat where "INIT_DATA_PCR = 8"

definition az_bind_init_data :: "'w tee_env \<Rightarrow> bytes \<Rightarrow> ('w, string, init_data_result) stateful" where
  "az_bind_init_data E init_data_digest =
     st_then (az_extend_pcr (te_vtpm_extend E) init_data_digest INIT_DATA_PCR) (\<lambda>_. st_ok InitDataOk)"

definition az_snp_get_evidence :: "'w tee_env \<Rightarrow> bytes \<Rightarrow> ('w, string, string) stateful" where
  "az_snp_get_evidence E report_data =
     st_then (te_az_report E) (\<lambda>report.
     st_then (te_vtpm_quote E report_data) (\<lambda>quote.
     st_then (te_az_vcek E) (\<lambda>vcek.
       serialize E (JObj [(''quote'', quote), (''report'', jbytes report), (''vcek'', JStr vcek)]))))"

definition az_tdx_get_evidence :: "'w tee_env \<Rightarrow> bytes \<Rightarrow> ('w, string, string) stateful" where
  "az_tdx_get_evidence E report_data =
     st_then (te_az_hcl_report E report_data) (\<lambda>hcl_report.
     st_then (te_az_td_quote E hcl_report) (\<lambda>td_quote.
     st_then (te_vtpm_quote E report_data) (\<lambda>tpm_quote.
       serialize E (JObj [(''tpm_quote'', tpm_quote), (''hcl_report'', jbytes hcl_report), (''td_quote'', jbytes td_quote)]))))"

text \<open>A platform whose detection fails is not there.\<close>

definition az_detect :: "(string, bool) result \<Rightarrow> bool" where
  "az_detect r = (r = Inr True)"

definition DIGEST_FILE :: string where "DIGEST_FILE = ''/run/peerpod/initdata.digest''"

definition se_user_data :: "'w tee_env \<Rightarrow> ('w, string, bytes) stateful" where
  "se_user_data E w = (if tf_exists (te_fs E) DIGEST_FILE w then tf_read (te_fs E) DIGEST_FILE w else (Inr [CHR 0x00], w))"

definition se_response :: "'w tee_env \<Rightarrow> se_request \<Rightarrow> uv_answer \<Rightarrow> bytes \<Rightarrow> bytes \<Rightarrow> json" where
  "se_response E r a user_data additional_data =
     JObj [(''measurement'', JStr (te_b64 E (ua_measurement a))), (''additional_data'', JStr (te_b64 E additional_data)),
           (''user_data'', JStr (te_b64 E user_data)), (''cuid'', JStr (te_b64 E (ua_cuid a))),
           (''encr_measurement_key'', JStr (te_b64 E (sr_encr_measurement_key r))),
           (''encr_request_nonce'', JStr (te_b64 E (sr_encr_request_nonce r))),
           (''image_hdr_tags'', JStr (te_b64 E (sr_image_hdr_tags r)))]"

definition se_get_evidence :: "'w tee_env \<Rightarrow> bytes \<Rightarrow> ('w, string, string) stateful" where
  "se_get_evidence E req =
     st_then (lift_result (ok_or ''JSON'' (te_se_request E req))) (\<lambda>request.
     st_then (se_user_data E) (\<lambda>user_data.
     st_then (te_uv_attest E (sr_request_blob request) user_data (sr_measurement_size request) (sr_additional_size request)) (\<lambda>uvc.
     st_then (lift_result (ok_or ''Failed to get additinal data.'' (ua_additional uvc))) (\<lambda>additional_data.
       serialize E (se_response E request uvc user_data additional_data)))))"

section \<open>The choice of the attester\<close>

record attester_features =
  af_tdx :: bool
  af_sgx :: bool
  af_az_tdx :: bool
  af_az_snp :: bool
  af_snp :: bool
  af_csv :: bool
  af_cca :: bool
  af_se :: bool

text \<open>The names of the TEEs beside Secure Execution.\<close>

definition tee_sample :: tee where "tee_sample = OtherTee ''sample''"
definition tee_tdx :: tee where "tee_tdx = OtherTee ''tdx''"
definition tee_sgx :: tee where "tee_sgx = OtherTee ''sgx''"
definition tee_az_tdx :: tee where "tee_az_tdx = OtherTee ''aztdxvtpm''"
definition tee_az_snp :: tee where "tee_az_snp = OtherTee ''azsnpvtpm''"
definition tee_snp :: tee where "tee_snp = OtherTee ''snp''"
definition tee_csv :: tee where "tee_csv = OtherTee ''csv''"
definition tee_cca :: tee where "tee_cca = OtherTee ''cca''"

lemmas tee_names = tee_sample_def tee_tdx_def tee_sgx_def tee_az_tdx_def tee_az_snp_def tee_snp_def tee_csv_def tee_cca_def

text \<open>What is built of a list whose entries depend on features.\<close>

definition enabled :: "(bool \<times> 'a) list \<Rightarrow> 'a list" where
  "enabled xs = map snd (filter fst xs)"

text \<open>The platforms in the order in which they are tried, those of features that are not built left out.\<close>

definition detections :: "attester_features \<Rightarrow> 'w tee_env \<Rightarrow> (tee \<times> ('w \<Rightarrow> bool \<times> 'w)) list" where
  "detections F E =
     enabled
       [(af_tdx F, (tee_tdx, tdx_detect_platform E)), (af_sgx F, (tee_sgx, sgx_detect_platform E)),
        (af_az_tdx F, (tee_az_tdx, \<lambda>w. (az_detect (te_az_is_tdx E w), w))),
        (af_az_snp F, (tee_az_snp, \<lambda>w. (az_detect (te_az_is_snp E w), w))),
        (af_snp F, (tee_snp, \<lambda>w. (tf_exists (te_fs E) ''/sys/devices/platform/sev-guest'' w, w))),
        (af_csv F, (tee_csv, \<lambda>w. (tf_exists (te_fs E) ''/dev/csv-guest'' w, w))),
        (af_cca F, (tee_cca, cca_detect_platform E)), (af_se F, (Se, \<lambda>w. (te_pv_bit E w, w)))]"

fun detect_first :: "(tee \<times> ('w \<Rightarrow> bool \<times> 'w)) list \<Rightarrow> 'w \<Rightarrow> tee \<times> 'w" where
  "detect_first [] w = (tee_sample, w)"
| "detect_first ((tee, detect) # ds) w =
     (case detect w of (True, w') \<Rightarrow> (tee, w') | (False, w') \<Rightarrow> detect_first ds w')"

definition detect_tee_type :: "attester_features \<Rightarrow> 'w tee_env \<Rightarrow> 'w \<Rightarrow> tee \<times> 'w" where
  "detect_tee_type F E = detect_first (detections F E)"

definition az_registers :: "'w tee_env \<Rightarrow> 'w attester" where
  "az_registers E = default_registers\<lparr>at_extend_runtime_measurement :=
     (\<lambda>digest i. az_extend_runtime_measurement (te_vtpm_extend E) digest (of_nat i))\<rparr>"

definition stateless :: "('w \<Rightarrow> (string, 'a) result) \<Rightarrow> ('w, string, 'a) stateful" where
  "stateless f w = (f w, w)"

definition attesters :: "attester_features \<Rightarrow> 'w tee_env \<Rightarrow> (tee \<times> 'w tee_attester) list" where
  "attesters F E =
     enabled
       [(True, (tee_sample, \<lparr>ta_registers = default_registers, ta_get_evidence = sample_get_evidence E, ta_bind_init_data = default_bind_init_data\<rparr>)),
        (af_tdx F, (tee_tdx, \<lparr>ta_registers = tdx_attester (te_tdx E), ta_get_evidence = tdx_get_evidence E,
           ta_bind_init_data = (\<lambda>d. stateless (\<lambda>w. tdx_bind_init_data (te_tdx E) w d))\<rparr>)),
        (af_sgx F, (tee_sgx, \<lparr>ta_registers = default_registers, ta_get_evidence = sgx_get_evidence E, ta_bind_init_data = default_bind_init_data\<rparr>)),
        (af_az_snp F, (tee_az_snp, \<lparr>ta_registers = az_registers E, ta_get_evidence = az_snp_get_evidence E, ta_bind_init_data = az_bind_init_data E\<rparr>)),
        (af_az_tdx F, (tee_az_tdx, \<lparr>ta_registers = az_registers E, ta_get_evidence = az_tdx_get_evidence E, ta_bind_init_data = az_bind_init_data E\<rparr>)),
        (af_cca F, (tee_cca, \<lparr>ta_registers = default_registers, ta_get_evidence = cca_get_evidence E, ta_bind_init_data = default_bind_init_data\<rparr>)),
        (af_snp F, (tee_snp, \<lparr>ta_registers = default_registers, ta_get_evidence = snp_get_evidence E, ta_bind_init_data = snp_bind_init_data E\<rparr>)),
        (af_csv F, (tee_csv, \<lparr>ta_registers = default_registers, ta_get_evidence = csv_get_evidence E, ta_bind_init_data = default_bind_init_data\<rparr>)),
        (af_se F, (Se, \<lparr>ta_registers = default_registers, ta_get_evidence = se_get_evidence E, ta_bind_init_data = default_bind_init_data\<rparr>))]"

definition boxed_attester :: "attester_features \<Rightarrow> 'w tee_env \<Rightarrow> tee \<Rightarrow> (string, 'w tee_attester) result" where
  "boxed_attester F E tee = ok_or ''TEE is not supported!'' (map_of (attesters F E) tee)"

section \<open>The native evidence provider\<close>

definition native_provider_new :: "attester_features \<Rightarrow> 'w tee_env \<Rightarrow> ('w, string, 'w tee_attester) stateful" where
  "native_provider_new F E w = (case detect_tee_type F E w of (tee, w') \<Rightarrow> (boxed_attester F E tee, w'))"

definition native_get_evidence :: "'w tee_attester \<Rightarrow> bytes \<Rightarrow> ('w, string, string) stateful" where
  "native_get_evidence A runtime_data = ta_get_evidence A runtime_data"

definition native_get_tee_type :: "attester_features \<Rightarrow> 'w tee_env \<Rightarrow> ('w, string, tee) stateful" where
  "native_get_tee_type F E w = (case detect_tee_type F E w of (tee, w') \<Rightarrow> (Inr tee, w'))"

section \<open>The report of a trust domain\<close>

text \<open>
  The packed structure behind the report of TDX: the MAC structure and the information on the TCB take 256
  bytes each, and of the 512 bytes that follow, the eight-byte fields at 64 and 208 are the configuration
  and the four measurement registers.
\<close>

definition le_word :: "bytes \<Rightarrow> 64 word" where
  "le_word b = of_nat (be_value (rev b))"

definition td_words :: "nat \<Rightarrow> bytes \<Rightarrow> 64 word list" where
  "td_words n d = map (\<lambda>j. le_word (take 8 (drop (8 * j) d))) [0..<n]"

definition td_report_of :: "bytes \<Rightarrow> td_report" where
  "td_report_of d = \<lparr>tr_mrconfigid = take 48 (drop 576 d), tr_rtmr = td_words 24 (take 192 (drop 720 d))\<rparr>"

lemma be_value_less: "be_value b < 256 ^ length b"
proof (induction b rule: rev_induct)
  case (snoc c b)
  have "(of_char c :: nat) < 256" by simp
  then have "256 * be_value b + of_char c < 256 * Suc (be_value b)" by simp
  also have "\<dots> \<le> 256 * 256 ^ length b" using snoc by (intro mult_le_mono2) simp
  finally show ?case by simp
qed simp

lemma be_bytes_be_value: "be_bytes (length b) (be_value b) = b"
proof (induction b rule: rev_induct)
  case Nil
  then show ?case by (simp add: be_bytes_def le_bytes_def)
next
  case (snoc c b)
  have "(of_char c :: nat) < 256" by simp
  then have "(256 * be_value b + of_char c) div 256 = be_value b" "(256 * be_value b + of_char c) mod 256 = of_char c" by simp_all
  then show ?case using snoc by (simp add: be_bytes_Suc)
qed

lemma le_word_bytes: "length b = 8 \<Longrightarrow> le_bytes 8 (unat (le_word b)) = b"
proof -
  assume len: "length b = 8"
  have "be_value (rev b) < 2 ^ 64" using be_value_less [of "rev b"] len by simp
  then have "unat (le_word b) = be_value (rev b)" by (simp add: le_word_def unat_of_nat take_bit_nat_eq_self)
  moreover have "be_bytes 8 (be_value (rev b)) = rev b" using be_bytes_be_value [of "rev b"] len by simp
  ultimately show ?thesis by (simp add: be_bytes_def)
qed

lemma concat_slices: "8 * n \<le> length d \<Longrightarrow> concat (map (\<lambda>j. take 8 (drop (8 * j) d)) [0..<n]) = take (8 * n) d"
proof (induction n)
  case (Suc n)
  have "take (8 * Suc n) d = take (8 * n + 8) d" by (simp add: add.commute)
  also have "\<dots> = take (8 * n) d @ take 8 (drop (8 * n) d)" by (rule take_add)
  finally show ?case using Suc by simp
qed simp

text \<open>A register is the 48 bytes at its place in the report, whatever the byte order of the words.\<close>

lemma td_report_register:
  assumes len: "length d = 1024" and i: "i \<le> 3"
  shows "get_rtmr (td_report_of d) i = take 48 (drop (720 + 48 * i) d)"
proof -
  let ?D = "take 192 (drop 720 d)" and ?E = "take 48 (drop (720 + 48 * i) d)"
  have sub: "take 8 (drop (8 * (i * 6 + j)) ?D) = take 8 (drop (8 * j) ?E)" if "j < 6" for j
  proof -
    have "take 8 (drop (8 * (i * 6 + j)) ?D) = take 8 (drop (720 + 48 * i + 8 * j) d)"
      using that i by (simp add: drop_take ac_simps)
    moreover have "take 8 (drop (8 * j) ?E) = take 8 (drop (720 + 48 * i + 8 * j) d)"
      using that by (simp add: drop_take ac_simps)
    ultimately show ?thesis by simp
  qed
  have seg: "take 6 (drop (i * 6) (td_words 24 ?D)) = map (\<lambda>j. le_word (take 8 (drop (8 * j) ?E))) [0..<6]"
  proof (rule nth_equalityI)
    show "length (take 6 (drop (i * 6) (td_words 24 ?D))) = length (map (\<lambda>j. le_word (take 8 (drop (8 * j) ?E))) [0..<6])"
      using i by (simp add: td_words_def)
  next
    fix j assume "j < length (take 6 (drop (i * 6) (td_words 24 ?D)))"
    then have j: "j < 6" by simp
    then have "take 6 (drop (i * 6) (td_words 24 ?D)) ! j = le_word (take 8 (drop (8 * (i * 6 + j)) ?D))"
      using i by (simp add: td_words_def del: upt_Suc drop_drop)
    then show "take 6 (drop (i * 6) (td_words 24 ?D)) ! j = map (\<lambda>j. le_word (take 8 (drop (8 * j) ?E))) [0..<6] ! j"
      using j sub [OF j] by (simp del: upt_Suc drop_drop)
  qed
  have "length (take 8 (drop (8 * j) ?E)) = 8" if "j < 6" for j using that len i by simp
  then have "concat (map (\<lambda>w. le_bytes 8 (unat w)) (map (\<lambda>j. le_word (take 8 (drop (8 * j) ?E))) [0..<6])) =
      concat (map (\<lambda>j. take 8 (drop (8 * j) ?E)) [0..<6])"
    using le_word_bytes by (intro arg_cong [where f = concat]) (simp del: upt_Suc upt_conv_Cons)
  also have "\<dots> = ?E" using concat_slices [of 6 ?E] len i by simp
  finally show ?thesis using seg by (simp only: get_rtmr_def td_report_of_def td_report.simps)
qed

section \<open>Fresh reports\<close>

text \<open>
  The kernel interface, as it is documented, with other writers at any time: every successful write of an
  attribute moves the generation of the directory on, a report is made of the last input as long as the
  generation stays, and the generation is printed as a line.
\<close>

definition tsm_laws :: "'w tsm_fs \<Rightarrow> ('w \<Rightarrow> string \<Rightarrow> nat) \<Rightarrow> ('w \<Rightarrow> string \<Rightarrow> bytes) \<Rightarrow> (bytes \<Rightarrow> bytes) \<Rightarrow> bool" where
  "tsm_laws F gen blob quote \<longleftrightarrow>
     (\<forall>p b w w'. tf_write F (p @ ''/inblob'') b w = (Inr (), w') \<longrightarrow>
        gen w p < gen w' p \<and> (gen w' p = Suc (gen w p) \<longrightarrow> blob w' p = b)) \<and>
     (\<forall>p b w w'. tf_write F (p @ ''/privlevel'') b w = (Inr (), w') \<longrightarrow> gen w p < gen w' p) \<and>
     (\<forall>p q w w'. tf_read F (p @ ''/outblob'') w = (Inr q, w') \<longrightarrow>
        gen w p \<le> gen w' p \<and> (gen w' p = gen w p \<longrightarrow> q = quote (blob w p))) \<and>
     (\<forall>p s w w'. tf_read F (p @ ''/generation'') w = (Inr s, w') \<longrightarrow> (\<exists>g \<ge> gen w p. s = nat_str g @ [CHR 0x0A]))"

lemma trim_number: "trim_newlines (nat_str g @ [CHR 0x0A]) = nat_str g"
proof -
  have no: "CHR 0x0A \<notin> set (nat_str g)" by (rule nat_str_free) (simp add: is_digit_def)
  obtain c s where cs: "nat_str g = c # s" using nat_str_digits [of g] by (cases "nat_str g") auto
  then obtain s' c' where sc: "nat_str g = s' @ [c']" by (metis rev_exhaust list.distinct(1))
  have "c \<in> set (nat_str g)" by (simp add: cs)
  moreover have "c' \<in> set (nat_str g)" unfolding sc by simp
  ultimately have "c \<noteq> CHR 0x0A" "c' \<noteq> CHR 0x0A" using no by auto
  then have "dropWhile (\<lambda>c. c = CHR 0x0A) (nat_str g @ [CHR 0x0A]) = nat_str g @ [CHR 0x0A]"
    by (simp_all add: cs)
  moreover have "dropWhile (\<lambda>c. c = CHR 0x0A) (rev (nat_str g)) = rev (nat_str g)"
    unfolding sc using \<open>c' \<noteq> CHR 0x0A\<close> by simp
  ultimately show ?thesis by (simp add: trim_newlines_def)
qed

lemma parse_u32_number: "parse_u32 (nat_str g) = Some n \<Longrightarrow> n = g"
proof -
  assume parsed: "parse_u32 (nat_str g) = Some n"
  obtain c s where cs: "nat_str g = c # s" using nat_str_digits [of g] by (cases "nat_str g") auto
  have "c \<noteq> CHR ''+''" using nat_str_free [of "CHR ''+''" g] cs by (auto simp: is_digit_def)
  then show ?thesis
    using parsed parse_nat_str [of g] cs by (auto simp: parse_u32_def parse_usize_def split: option.splits if_splits)
qed

lemma race_check_passed:
  assumes laws: "tsm_laws F gen blob quote" and run: "check_inblob_write_race F p w = (Inr (), w')"
  shows "gen w p \<le> 1"
proof -
  obtain s w1 n where read: "tf_read F (p @ ''/generation'') w = (Inr s, w1)" and n: "parse_u32 (trim_newlines s) = Some n" "n \<le> 1"
    using run by (auto simp: check_inblob_write_race_def read_to_string_def result_iff split: if_split_asm)
  obtain g where "gen w p \<le> g" "s = nat_str g @ [CHR 0x0A]" using laws read unfolding tsm_laws_def by blast
  then show ?thesis using n trim_number parse_u32_number by fastforce
qed

lemma tsm_report_fresh_aux:
  assumes laws: "tsm_laws F gen blob quote" and run: "attestation_report F path data w = (Inr q, w')"
  shows "\<exists>b. data \<in> {CcaData b, TdxData b} \<and> b \<noteq> [] \<and> q = quote b"
proof -
  obtain b w0 w1 w2 w3 where data: "report_data_of F path data w = (Inr b, w0)" and ne: "b \<noteq> []"
    and wr: "tf_write F (path @ ''/inblob'') b w0 = (Inr (), w1)"
    and read: "tf_read F (path @ ''/outblob'') w1 = (Inr q, w2)"
    and race: "check_inblob_write_race F path w2 = (Inr (), w3)"
    using run by (auto simp: attestation_report_def result_iff split: if_split_asm)
  have gens: "gen w0 path < gen w1 path" "gen w1 path \<le> gen w2 path" "gen w2 path \<le> 1"
    using laws wr read race_check_passed [OF laws race] unfolding tsm_laws_def by blast+
  then have zero: "gen w0 path = 0" "gen w1 path = Suc 0" "gen w2 path = gen w1 path" by simp_all
  have "blob w1 path = b" and q: "q = quote (blob w1 path)"
    using laws wr read zero unfolding tsm_laws_def by (metis One_nat_def)+
  moreover have "data \<in> {CcaData b, TdxData b}"
  proof (cases data)
    case (SevData l b')
    then have "tf_write F (path @ ''/privlevel'') [l] w = (Inr (), w0)" using data by (auto simp: result_iff)
    then have "gen w path < gen w0 path" using laws unfolding tsm_laws_def by blast
    then show ?thesis using zero by simp
  qed (use data in auto)
  ultimately show ?thesis using ne by blast
qed

text \<open>
  C26. A report that is returned was made of the report data that this process wrote: whoever else
  writes to the directory, at whatever time, a report of other data is not returned. Reports of the SEV
  kind are never returned, because their privilege level counts as a write.
\<close>

theorem tsm_report_fresh:
  assumes laws: "tsm_laws F gen blob quote" and run: "attestation_report F path data w = (Inr q, w')"
  shows "\<exists>b. data \<in> {CcaData b, TdxData b} \<and> b \<noteq> [] \<and> q = quote b"
  using assms by (rule tsm_report_fresh_aux)

section \<open>Quotes in the handshake\<close>

text \<open>What the attesters of TDX promise: their quotes are made by the kernel or by the library of the vendor.\<close>

definition quote_laws :: "'w tee_env \<Rightarrow> ('w \<Rightarrow> string \<Rightarrow> nat) \<Rightarrow> ('w \<Rightarrow> string \<Rightarrow> bytes) \<Rightarrow> (bytes \<Rightarrow> bytes) \<Rightarrow> bool" where
  "quote_laws E gen blob quote \<longleftrightarrow>
     tsm_laws (te_fs E) gen blob quote \<and>
     (\<forall>f d w w' q. te_dcap_quote E = Some f \<longrightarrow> f d w = (Inr q, w') \<longrightarrow> q = quote d)"

lemma tdx_quote_fresh:
  assumes laws: "quote_laws E gen blob quote" and run: "tdx_quote E d w = (Inr q, w')"
  shows "q = quote d"
proof (cases "tsm_new (te_fs E) TsmTdx w")
  case (Pair r w1)
  show ?thesis
  proof (cases r)
    case (Inl e)
    then show ?thesis using run laws Pair
      by (auto simp: tdx_quote_def get_quote_ioctl_def quote_laws_def split: option.splits)
  next
    case (Inr path)
    then obtain w2 where "attestation_report (te_fs E) path (TdxData d) w1 = (Inr q, w2)"
      using run Pair by (auto simp: tdx_quote_def tsm_report_once_def result_iff split: prod.splits)
    then show ?thesis using tsm_report_fresh_aux laws by (fastforce simp: quote_laws_def)
  qed
qed

lemma report_data_64_Inr_iff [result_iff]:
  "report_data_64 d = Inr r \<longleftrightarrow> length d \<le> 64 \<and> r = vec_resize 64 (CHR 0x00) d"
  by (auto simp: report_data_64_def)

lemma boxed_attester_tdx:
  "boxed_attester F E tee_tdx = Inr A \<Longrightarrow> ta_get_evidence A = tdx_get_evidence E"
  by (auto simp: boxed_attester_def attesters_def tee_names ok_or_def enabled_def split: if_split_asm)


section \<open>Detection\<close>

lemma set_enabled: "x \<in> set (enabled xs) \<longleftrightarrow> (True, x) \<in> set xs"
  by (force simp: enabled_def)

lemma map_enabled: "map f (enabled xs) = enabled (map (\<lambda>(b, x). (b, f x)) xs)"
  by (induction xs) (auto simp: enabled_def)

lemma detect_first_cases: "fst (detect_first ds w) \<in> insert tee_sample (set (map fst ds))"
proof (induction ds arbitrary: w)
  case (Cons d ds)
  obtain tee detect where "d = (tee, detect)" by (cases d)
  moreover obtain found w' where "detect w = (found, w')" by (cases "detect w")
  ultimately show ?case using Cons by (cases found) auto
qed simp

lemma detected_names:
  "map fst (detections F E) =
     enabled [(af_tdx F, tee_tdx), (af_sgx F, tee_sgx), (af_az_tdx F, tee_az_tdx), (af_az_snp F, tee_az_snp), (af_snp F, tee_snp),
       (af_csv F, tee_csv), (af_cca F, tee_cca), (af_se F, Se)]"
  unfolding detections_def map_enabled by simp

lemma attester_names:
  "map fst (attesters F E) =
     enabled [(True, tee_sample), (af_tdx F, tee_tdx), (af_sgx F, tee_sgx), (af_az_snp F, tee_az_snp), (af_az_tdx F, tee_az_tdx),
       (af_cca F, tee_cca), (af_snp F, tee_snp), (af_csv F, tee_csv), (af_se F, Se)]"
  unfolding attesters_def map_enabled by simp

text \<open>
  The TEE that is detected has an attester in the build, whichever features it has and whatever
  the machine answers, so the native evidence provider can always be made.
\<close>

lemma detected_tee_supported: "\<exists>A w'. native_provider_new F E w = (Inr A, w')"
proof -
  obtain tee w' where tee: "detect_tee_type F E w = (tee, w')" by (cases "detect_tee_type F E w")
  have "tee \<in> insert tee_sample (set (map fst (detections F E)))"
    using detect_first_cases [of "detections F E" w] tee unfolding detect_tee_type_def by (metis fst_conv)
  then have "tee \<in> set (map fst (attesters F E))"
    unfolding detected_names attester_names insert_iff set_enabled by auto
  then have "map_of (attesters F E) tee \<noteq> None" by (simp add: map_of_eq_None_iff)
  then show ?thesis using tee by (auto simp: native_provider_new_def boxed_attester_def ok_or_def split: option.splits)
qed

text \<open>A privilege level makes every report of the SEV kind fail.\<close>

lemma sev_report_fails:
  "tsm_laws F gen blob quote \<Longrightarrow> \<exists>e w'. attestation_report F path (SevData l b) w = (Inl e, w')"
  using tsm_report_fresh_aux by (cases "attestation_report F path (SevData l b) w"; cases "fst (attestation_report F path (SevData l b) w)") fastforce+

section \<open>Examples\<close>

text \<open>A kernel with one directory for reports, written by this process only.\<close>

definition demo_tsm :: "(nat \<times> bytes) tsm_fs" where
  "demo_tsm = \<lparr>tf_exists = (\<lambda>_ _. True), tf_tempdir = (\<lambda>_ _. (Inr ''report'', (0, []))), tf_rmdir = (\<lambda>_. st_ok ()),
     tf_write = (\<lambda>_ b (g, _). (Inr (), (Suc g, b))),
     tf_read = (\<lambda>path (g, b).
       (if last path = CHR ''b'' then (Inr (CHR ''q'' # b), (g, b))
        else if last path = CHR ''n'' then (Inr (nat_str g @ [CHR 0x0A]), (g, b))
        else if last path = CHR ''r'' then (Inr (''tdx_guest'' @ [CHR 0x0A]), (g, b))
        else (Inl ''not found'', (g, b))))\<rparr>"

lemma demo_tsm_laws: "tsm_laws demo_tsm (\<lambda>w _. fst w) (\<lambda>w _. snd w) (\<lambda>b. CHR ''q'' # b)"
  by (auto simp: tsm_laws_def demo_tsm_def)

lemma demo_one: "nat_str (Suc 0) = ''1''"
proof -
  have "char_of (49 :: nat) = CHR ''1''" by code_simp
  then show ?thesis by (simp add: nat_str.simps)
qed

lemma demo_report: "attestation_report demo_tsm ''report'' (TdxData ''data'') (0, []) = (Inr ''qdata'', (1, ''data''))"
  by (simp add: attestation_report_def st_then_def st_map_err_def lift_result_def demo_tsm_def check_inblob_write_race_def
      read_to_string_def from_utf8_def utf8_valid_ascii_Cons trim_newlines_def demo_one parse_u32_def parse_usize_def
      parse_digits_def is_digit_def)

theorem tsm_report_fresh_witness:
  "\<exists>b. TdxData ''data'' \<in> {CcaData b, TdxData b} \<and> b \<noteq> [] \<and> ''qdata'' = CHR ''q'' # b"
  using tsm_report_fresh [OF demo_tsm_laws demo_report] .

definition demo_tee :: "(nat \<times> bytes) tee_env" where
  "demo_tee = \<lparr>te_fs = demo_tsm, te_var = (\<lambda>_. None), te_aarch64 = False, te_b64 = (\<lambda>b. b),
     te_json = (\<lambda>j. Option.bind (jget ''quote'' j) as_str),
     te_tdx = \<lparr>tp_report = (\<lambda>_. Inl ''no device''), tp_extend_available = False, tp_dcap_ioctls = False, tp_att_extend = (\<lambda>_. st_ok ())\<rparr>,
     te_dcap_quote = None, te_snp_report = (\<lambda>_. st_err ''none''), te_snp_host_data = (\<lambda>_. st_err ''none''),
     te_az_is_tdx = (\<lambda>_. Inr False), te_az_is_snp = (\<lambda>_. Inr False), te_az_hcl_report = (\<lambda>_. st_err ''none''),
     te_az_td_quote = (\<lambda>_. st_err ''none''), te_az_report = st_err ''none'', te_az_vcek = st_err ''none'',
     te_vtpm_quote = (\<lambda>_. st_err ''none''), te_vtpm_extend = (\<lambda>_ _. st_err ''none''), te_occlum_quote = (\<lambda>_. st_err ''none''),
     te_csv_report = (\<lambda>_. st_err ''none''), te_https_get = (\<lambda>_. st_err ''none''), te_csv_certs = (\<lambda>_. None), te_csv_pek = (\<lambda>_. None),
     te_pv_bit = (\<lambda>_. False), te_se_request = (\<lambda>_. None), te_uv_attest = (\<lambda>_ _ _ _. st_err ''none'')\<rparr>"

definition demo_tdx_features :: attester_features where
  "demo_tdx_features = \<lparr>af_tdx = True, af_sgx = False, af_az_tdx = False, af_az_snp = False, af_snp = False, af_csv = False,
     af_cca = False, af_se = False\<rparr>"

definition demo_tdx_attester :: "(nat \<times> bytes) tee_attester" where
  "demo_tdx_attester = \<lparr>ta_registers = tdx_attester (te_tdx demo_tee), ta_get_evidence = tdx_get_evidence demo_tee,
     ta_bind_init_data = (\<lambda>d. stateless (\<lambda>w. tdx_bind_init_data (te_tdx demo_tee) w d))\<rparr>"

definition demo_tdx_kbs :: "(nat \<times> bytes, string, nat, nat, nat) kbs_env" where
  "demo_tdx_kbs = \<lparr>ke_send = (\<lambda>_. st_err (HttpFailure True ''offline'')), ke_tee_type = st_ok tee_tdx,
     ke_evidence = native_get_evidence demo_tdx_attester, ke_provider_token = st_err ''none'', ke_now = fst,
     ke_challenge = (\<lambda>_. None), ke_error_info = Some, ke_text = Some, ke_attest_token = Some, ke_response = (\<lambda>_. None),
     ke_pubkey_json = (\<lambda>_. JNull), ke_to_string = (\<lambda>_. Some ''data''), ke_from_str = (\<lambda>s. Some (JStr s)),
     ke_jwt_claims = (\<lambda>_. None), ke_hash = (\<lambda>_ d. d), ke_codec = demo_codec, ke_backend = Rust demo_rc\<rparr>"

definition demo_report_data :: bytes where
  "demo_report_data = ''data'' @ replicate 60 (CHR 0x00)"

lemma demo_report_data: "report_data_64 ''data'' = Inr demo_report_data" "demo_report_data \<noteq> []"
  by (simp_all add: report_data_64_def vec_resize_def demo_report_data_def)

lemma demo_new: "tsm_new demo_tsm TsmTdx (0, []) = (Inr ''report'', (0, []))"
  by (simp add: tsm_new_def demo_tsm_def st_then_def st_map_err_def lift_result_def check_tsm_report_provider_def
      read_to_string_def from_utf8_def utf8_valid_ascii_Cons provider_from_str_def)

lemma demo_once: "tsm_report_once demo_tsm ''report'' (TdxData demo_report_data) (0, []) = (Inr (CHR ''q'' # demo_report_data), (1, demo_report_data))"
  using demo_report_data(2)
  by (simp add: tsm_report_once_def tsm_drop_def attestation_report_def st_then_def st_map_err_def lift_result_def demo_tsm_def
      check_inblob_write_race_def read_to_string_def from_utf8_def utf8_valid_ascii_Cons trim_newlines_def demo_one
      parse_u32_def parse_usize_def parse_digits_def is_digit_def)

lemma demo_evidence:
  "fst (tdx_get_evidence demo_tee ''data'' (0, [])) = Inr (CHR ''q'' # demo_report_data)"
proof -
  have "tdx_quote demo_tee demo_report_data (0, []) = (Inr (CHR ''q'' # demo_report_data), (1, demo_report_data))"
    using demo_new demo_once by (simp add: tdx_quote_def demo_tee_def st_map_err_def)
  then show ?thesis
    by (simp add: tdx_get_evidence_def demo_report_data lift_result_def st_then_def optional_def serialize_def tdx_evidence_def
        demo_tee_def split: prod.split)
qed


end
