(* ===== verification/Agent_Api.thy ===== *)
theory Agent_Api
  imports Tee_Attesters Kms_Client Eventlog
begin

text \<open>
  \<open>attestation-agent/attestation-agent/src\<close> and the providers of \<open>kbs_protocol\<close> that talk to it: the
  configuration of the agent, its start with the check of the init data, its operations behind the ttrpc
  and gRPC servers, the tokens it gets from a key broker service or an attestation service, and the token
  and evidence providers by which other processes use the agent. Sockets, JSON and the configuration
  reader are parameters.
\<close>

section \<open>Configuration\<close>

record agent_kbs_config =
  akc_url :: string
  akc_cert :: "string option"

record coco_as_config = cac_url :: string

record token_configs =
  tkc_coco_as :: coco_as_config
  tkc_kbs :: agent_kbs_config

record agent_config =
  acf_token_configs :: token_configs
  acf_eventlog_config :: eventlog_config

text \<open>
  \<open>ac_load\<close> reads a file as a tree of values; the other fields read a value as a string, a flag, a number
  or a hash algorithm.
\<close>

record config_env =
  ac_env :: "string \<rightharpoonup> string"
  ac_cmdline :: "(string, string) result"
  ac_load :: "string \<Rightarrow> (string, json) result"
  ac_string :: "json \<Rightarrow> string option"
  ac_bool :: "json \<Rightarrow> bool option"
  ac_u64 :: "json \<Rightarrow> nat option"
  ac_alg :: "json \<Rightarrow> hash_alg option"

definition agent_kbs_config_new :: "config_env \<Rightarrow> (string, agent_kbs_config) result" where
  "agent_kbs_config_new C =
     and_then (map_err (\<lambda>_. ''aa_kbc_params'') (aa_kbc_params_new (ac_env C) (ac_cmdline C))) (\<lambda>p.
       Inr \<lparr>akc_url = akp_uri p, akc_cert = None\<rparr>)"

definition coco_as_config_new :: "config_env \<Rightarrow> (string, coco_as_config) result" where
  "coco_as_config_new C =
     and_then (map_err (\<lambda>_. ''aa_kbc_params'') (aa_kbc_params_new (ac_env C) (ac_cmdline C))) (\<lambda>p. Inr \<lparr>cac_url = akp_uri p\<rparr>)"

definition token_configs_new :: "config_env \<Rightarrow> (string, token_configs) result" where
  "token_configs_new C =
     and_then (coco_as_config_new C) (\<lambda>a. and_then (agent_kbs_config_new C) (\<lambda>k. Inr \<lparr>tkc_coco_as = a, tkc_kbs = k\<rparr>))"

definition agent_config_new :: "config_env \<Rightarrow> (string, agent_config) result" where
  "agent_config_new C =
     and_then (token_configs_new C) (\<lambda>t. Inr \<lparr>acf_token_configs = t, acf_eventlog_config = eventlog_config_default\<rparr>)"

text \<open>A default is used where the file has no value under the key.\<close>

definition set_default :: "string \<Rightarrow> string \<Rightarrow> json \<Rightarrow> json \<Rightarrow> json" where
  "set_default table key v tree =
     (case tree of
        JObj m \<Rightarrow>
          (case map_of m table of
             None \<Rightarrow> JObj ((table, JObj [(key, v)]) # m)
           | Some (JObj t) \<Rightarrow> if map_of t key = None then JObj ((table, JObj ((key, v) # t)) # m) else tree
           | Some _ \<Rightarrow> tree)
      | _ \<Rightarrow> tree)"

definition with_eventlog_defaults :: "json \<Rightarrow> json" where
  "with_eventlog_defaults tree =
     set_default ''eventlog_config'' ''enable_eventlog'' (JStr ''false'')
       (set_default ''eventlog_config'' ''init_pcr'' (JNum 17)
         (set_default ''eventlog_config'' ''eventlog_algorithm'' (JStr ''sha384'') tree))"

definition field :: "string \<Rightarrow> json \<Rightarrow> (string, json) result" where
  "field name j = ok_or (''missing field '' @ name) (jget name j)"

definition read_field :: "(json \<Rightarrow> 'a option) \<Rightarrow> string \<Rightarrow> json \<Rightarrow> (string, 'a) result" where
  "read_field r name j = and_then (field name j) (\<lambda>v. ok_or (''invalid '' @ name) (r v))"

definition optional_field :: "(json \<Rightarrow> 'a option) \<Rightarrow> string \<Rightarrow> json \<Rightarrow> (string, 'a option) result" where
  "optional_field r name j =
     (case jget name j of None \<Rightarrow> Inr None | Some JNull \<Rightarrow> Inr None
      | Some v \<Rightarrow> and_then (ok_or (''invalid '' @ name) (r v)) (\<lambda>x. Inr (Some x)))"

definition read_token_configs :: "config_env \<Rightarrow> json \<Rightarrow> (string, token_configs) result" where
  "read_token_configs C t =
     and_then (field ''coco_as'' t) (\<lambda>a.
     and_then (read_field (ac_string C) ''url'' a) (\<lambda>as_url.
     and_then (field ''kbs'' t) (\<lambda>k.
     and_then (read_field (ac_string C) ''url'' k) (\<lambda>kbs_url.
     and_then (optional_field (ac_string C) ''cert'' k) (\<lambda>cert.
       Inr \<lparr>tkc_coco_as = \<lparr>cac_url = as_url\<rparr>, tkc_kbs = \<lparr>akc_url = kbs_url, akc_cert = cert\<rparr>\<rparr>)))))"

definition read_eventlog_config :: "config_env \<Rightarrow> json \<Rightarrow> (string, eventlog_config) result" where
  "read_eventlog_config C e =
     and_then (read_field (ac_alg C) ''eventlog_algorithm'' e) (\<lambda>alg.
     and_then (read_field (ac_u64 C) ''init_pcr'' e) (\<lambda>pcr.
     and_then (read_field (ac_bool C) ''enable_eventlog'' e) (\<lambda>en.
       Inr \<lparr>ec_eventlog_algorithm = alg, ec_init_pcr = pcr, ec_enable_eventlog = en\<rparr>)))"

definition agent_config_try_from :: "config_env \<Rightarrow> string \<Rightarrow> (string, agent_config) result" where
  "agent_config_try_from C config_path =
     and_then (ac_load C config_path) (\<lambda>tree.
     let c = with_eventlog_defaults tree
     in and_then (field ''token_configs'' c) (\<lambda>t.
        and_then (read_token_configs C t) (\<lambda>tokens.
        and_then (field ''eventlog_config'' c) (\<lambda>e.
        and_then (read_eventlog_config C e) (\<lambda>eventlog.
          Inr \<lparr>acf_token_configs = tokens, acf_eventlog_config = eventlog\<rparr>)))))"

section \<open>The agent\<close>

text \<open>
  \<open>ae_post\<close> is the HTTP client of the attestation service: status and text of the answer. \<open>ae_message\<close>
  serializes a token with its key pair, \<open>ae_read_message\<close> reads it.
\<close>

record ('w, 'b, 'sk, 'pt, 'rk) agent_env =
  ae_config :: config_env
  ae_features :: attester_features
  ae_kbs_feature :: bool
  ae_coco_as_feature :: bool
  ae_tee :: "'w tee_env"
  ae_kbs :: "('w, 'b, 'sk, 'pt, 'rk) kbs_env"
  ae_cert_ok :: "string \<Rightarrow> bool"
  ae_b64url :: "bytes \<Rightarrow> string"
  ae_b64_decode :: "string \<Rightarrow> bytes option"
  ae_tee_string :: "tee \<Rightarrow> string option"
  ae_tee_of :: "json \<Rightarrow> tee option"
  ae_tee_json :: "tee \<Rightarrow> json"
  ae_post :: "string \<Rightarrow> json \<Rightarrow> ('w, string, nat \<times> string) stateful"
  ae_message :: "string \<times> string \<Rightarrow> bytes option"
  ae_read_message :: "bytes \<Rightarrow> (string \<times> string) option"
  ae_disk :: disk
  ae_hash :: hash_fn

record 'w attestation_agent =
  aa_config :: agent_config
  aa_attester :: "'w tee_attester"
  aa_log :: agent
  aa_tee :: tee

definition attestation_agent_new ::
  "('w, 'b, 'sk, 'pt, 'rk) agent_env \<Rightarrow> string option \<Rightarrow> ('w, string, 'w attestation_agent) stateful" where
  "attestation_agent_new E config_path =
     st_then (lift_result (case config_path of Some p \<Rightarrow> agent_config_try_from (ae_config E) p | None \<Rightarrow> agent_config_new (ae_config E))) (\<lambda>config w.
       (case detect_tee_type (ae_features E) (ae_tee E) w of (tee, w') \<Rightarrow>
          (and_then (boxed_attester (ae_features E) (ae_tee E) tee) (\<lambda>attester.
             Inr \<lparr>aa_config = config, aa_attester = attester,
                  aa_log = \<lparr>ag_eventlog_config = acf_eventlog_config config, ag_eventlog = None\<rparr>, aa_tee = tee\<rparr>), w')))"

text \<open>A call that touches only the machine.\<close>

definition in_hw :: "('w, string, 'a) stateful \<Rightarrow> ('w ev_world, string, 'a) stateful" where
  "in_hw m w = (case m (ew_hw w) of (r, hw) \<Rightarrow> (r, w\<lparr>ew_hw := hw\<rparr>))"

definition attestation_agent_init ::
  "('w, 'b, 'sk, 'pt, 'rk) agent_env \<Rightarrow> 'w attestation_agent \<Rightarrow> ('w ev_world, string, 'w attestation_agent) stateful" where
  "attestation_agent_init E a w =
     (case agent_init (ae_disk E) (ta_registers (aa_attester a)) (ae_hash E) (aa_log a, w) of
        (r, (log, w')) \<Rightarrow> (map_err (\<lambda>_. ''event log'') (and_then r (\<lambda>_. Inr (a\<lparr>aa_log := log\<rparr>))), w'))"

subsection \<open>Tokens\<close>

datatype token_type = TokenKbs | TokenCoCoAS

definition token_type_from_str :: "('w, 'b, 'sk, 'pt, 'rk) agent_env \<Rightarrow> string \<Rightarrow> token_type option" where
  "token_type_from_str E s =
     (if s = ''kbs'' \<and> ae_kbs_feature E then Some TokenKbs
      else if s = ''coco_as'' \<and> ae_coco_as_feature E then Some TokenCoCoAS
      else None)"

definition coco_as_request :: "('w, 'b, 'sk, 'pt, 'rk) agent_env \<Rightarrow> tee \<Rightarrow> string \<Rightarrow> json" where
  "coco_as_request E tee evidence =
     JObj [(''tee'', ae_tee_json E tee), (''evidence'', JStr (ae_b64url E evidence)), (''policy_ids'', JArr [])]"

definition coco_as_get_token :: "('w, 'b, 'sk, 'pt, 'rk) agent_env \<Rightarrow> string \<Rightarrow> ('w, string, bytes) stateful" where
  "coco_as_get_token E as_uri =
     st_then (native_get_tee_type (ae_features E) (ae_tee E)) (\<lambda>tee_type.
     st_then (lift_result (boxed_attester (ae_features E) (ae_tee E) tee_type)) (\<lambda>attester.
     st_then (ta_get_evidence attester []) (\<lambda>evidence.
     st_then (ae_post E (as_uri @ ''/attestation'') (coco_as_request E tee_type evidence)) (\<lambda>(status, text).
       if status = 200 then st_ok text else st_err ''Remote Attestation Failed''))))"

text \<open>The environment of a client whose evidence comes from an attester of this process.\<close>

definition with_native ::
  "('w, 'b, 'sk, 'pt, 'rk) agent_env \<Rightarrow> 'w tee_attester \<Rightarrow> ('w, 'b, 'sk, 'pt, 'rk) kbs_env" where
  "with_native E A = (ae_kbs E)\<lparr>ke_evidence := native_get_evidence A, ke_tee_type := native_get_tee_type (ae_features E) (ae_tee E)\<rparr>"

definition kbs_token_builder :: "agent_kbs_config \<Rightarrow> kbs_builder" where
  "kbs_token_builder c =
     (let b = builder_with_provider (akc_url c)
      in case akc_cert c of Some cert \<Rightarrow> add_kbs_cert cert b | None \<Rightarrow> b)"

definition client_token ::
  "('w, 'b, 'sk, 'pt, 'rk) kbs_env \<Rightarrow> ('sk, 'rk) kbs_client \<Rightarrow> ('w, string, token \<times> ('sk, 'rk) tee_key) stateful" where
  "client_token K client w =
     (case get_token K (client, \<lparr>net_world = w, net_sent = []\<rparr>) of
        (r, (_, n)) \<Rightarrow> (map_err (\<lambda>_. ''get token'') r, net_world n))"

definition token_message ::
  "('w, 'b, 'sk, 'pt, 'rk) agent_env \<Rightarrow> token \<Rightarrow> ('sk, 'rk) tee_key \<Rightarrow> (string, bytes) result" where
  "token_message E token tee_keypair =
     and_then (map_err (\<lambda>_. ''to_pem'') (to_pem (ke_codec (ae_kbs E)) tee_keypair)) (\<lambda>pem.
       ok_or ''JSON'' (ae_message E (tk_content token, pem)))"

definition kbs_get_token :: "('w, 'b, 'sk, 'pt, 'rk) agent_env \<Rightarrow> agent_kbs_config \<Rightarrow> ('w, string, bytes) stateful" where
  "kbs_get_token E config =
     st_then (native_provider_new (ae_features E) (ae_tee E)) (\<lambda>attester.
     st_then (lift_result (map_err (\<lambda>_. ''build'') (build (with_native E attester) (ae_cert_ok E) (kbs_token_builder config)))) (\<lambda>client.
     st_then (client_token (with_native E attester) client) (\<lambda>(token, tee_keypair).
       lift_result (token_message E token tee_keypair))))"

definition aa_get_token ::
  "('w, 'b, 'sk, 'pt, 'rk) agent_env \<Rightarrow> 'w attestation_agent \<Rightarrow> string \<Rightarrow> ('w, string, bytes) stateful" where
  "aa_get_token E a token_type =
     st_then (lift_result (ok_or ''Unsupported token type'' (token_type_from_str E token_type))) (\<lambda>t.
       (case t of
          TokenKbs \<Rightarrow> kbs_get_token E (tkc_kbs (acf_token_configs (aa_config a)))
        | TokenCoCoAS \<Rightarrow> coco_as_get_token E (cac_url (tkc_coco_as (acf_token_configs (aa_config a))))))"

subsection \<open>The other operations\<close>

definition aa_get_evidence :: "'w attestation_agent \<Rightarrow> bytes \<Rightarrow> ('w, string, bytes) stateful" where
  "aa_get_evidence a runtime_data = ta_get_evidence (aa_attester a) runtime_data"

definition aa_bind_init_data :: "'w attestation_agent \<Rightarrow> bytes \<Rightarrow> ('w, string, init_data_result) stateful" where
  "aa_bind_init_data a init_data = ta_bind_init_data (aa_attester a) init_data"

definition aa_extend_runtime_measurement ::
  "('w, 'b, 'sk, 'pt, 'rk) agent_env \<Rightarrow> 'w attestation_agent \<Rightarrow> string \<Rightarrow> string \<Rightarrow> string \<Rightarrow> nat option \<Rightarrow>
    ('w ev_world, string, unit) stateful" where
  "aa_extend_runtime_measurement E a domain operation content register_index =
     st_map_err (\<lambda>_. ''extend'')
       (agent_extend_runtime_measurement (ae_disk E) (ta_registers (aa_attester a)) (ae_hash E) (aa_log a) domain operation content register_index)"

section \<open>The servers\<close>

datatype rpc_status = RpcInternal string

definition AGENT_NAME :: string where "AGENT_NAME = ''attestation-agent''"

definition internal :: "string \<Rightarrow> string \<Rightarrow> rpc_status" where
  "internal text e = RpcInternal (''[ERROR:'' @ AGENT_NAME @ ''] '' @ text)"

definition trim_quotes :: "string \<Rightarrow> string" where
  "trim_quotes s = dropWhile (\<lambda>c. c = CHR 0x22) (rev (dropWhile (\<lambda>c. c = CHR 0x22) (rev s)))"

definition tee_type_text :: "('w, 'b, 'sk, 'pt, 'rk) agent_env \<Rightarrow> 'w attestation_agent \<Rightarrow> (string, string) result" where
  "tee_type_text E a = and_then (ok_or ''JSON'' (ae_tee_string E (aa_tee a))) (\<lambda>s. Inr (trim_quotes s))"

definition ttrpc_get_token ::
  "('w, 'b, 'sk, 'pt, 'rk) agent_env \<Rightarrow> 'w attestation_agent \<Rightarrow> string \<Rightarrow> ('w ev_world, rpc_status, bytes) stateful" where
  "ttrpc_get_token E a token_type = st_map_err (internal ''AA-KBC get token failed'') (in_hw (aa_get_token E a token_type))"

definition ttrpc_get_evidence ::
  "('w, 'b, 'sk, 'pt, 'rk) agent_env \<Rightarrow> 'w attestation_agent \<Rightarrow> bytes \<Rightarrow> ('w ev_world, rpc_status, bytes) stateful" where
  "ttrpc_get_evidence E a runtime_data = st_map_err (internal ''AA-KBC get evidence failed'') (in_hw (aa_get_evidence a runtime_data))"

definition ttrpc_extend_runtime_measurement ::
  "('w, 'b, 'sk, 'pt, 'rk) agent_env \<Rightarrow> 'w attestation_agent \<Rightarrow> string \<Rightarrow> string \<Rightarrow> string \<Rightarrow> nat option \<Rightarrow>
    ('w ev_world, rpc_status, unit) stateful" where
  "ttrpc_extend_runtime_measurement E a domain operation content register_index =
     st_map_err (internal ''AA extend runtime measurement failed'') (aa_extend_runtime_measurement E a domain operation content register_index)"

definition ttrpc_get_tee_type ::
  "('w, 'b, 'sk, 'pt, 'rk) agent_env \<Rightarrow> 'w attestation_agent \<Rightarrow> ('w ev_world, rpc_status, string) stateful" where
  "ttrpc_get_tee_type E a = lift_result (map_err (internal ''AA-KBC get tee type failed'') (tee_type_text E a))"

definition grpc_get_token ::
  "('w, 'b, 'sk, 'pt, 'rk) agent_env \<Rightarrow> 'w attestation_agent \<Rightarrow> string \<Rightarrow> ('w ev_world, rpc_status, bytes) stateful" where
  "grpc_get_token E a token_type = st_map_err (internal ''AA get token failed'') (in_hw (aa_get_token E a token_type))"

definition grpc_get_evidence ::
  "('w, 'b, 'sk, 'pt, 'rk) agent_env \<Rightarrow> 'w attestation_agent \<Rightarrow> bytes \<Rightarrow> ('w ev_world, rpc_status, bytes) stateful" where
  "grpc_get_evidence E a runtime_data = st_map_err (internal ''AA get evidence failed'') (in_hw (aa_get_evidence a runtime_data))"

definition grpc_extend_runtime_measurement ::
  "('w, 'b, 'sk, 'pt, 'rk) agent_env \<Rightarrow> 'w attestation_agent \<Rightarrow> string \<Rightarrow> string \<Rightarrow> string \<Rightarrow> nat option \<Rightarrow>
    ('w ev_world, rpc_status, unit) stateful" where
  "grpc_extend_runtime_measurement E a domain operation content register_index =
     st_map_err (internal ''AA extend runtime measurement failed'') (aa_extend_runtime_measurement E a domain operation content register_index)"

definition grpc_bind_init_data ::
  "('w, 'b, 'sk, 'pt, 'rk) agent_env \<Rightarrow> 'w attestation_agent \<Rightarrow> bytes \<Rightarrow> ('w ev_world, rpc_status, unit) stateful" where
  "grpc_bind_init_data E a digest =
     st_then (st_map_err (internal ''AA binding init data failed'') (in_hw (aa_bind_init_data a digest))) (\<lambda>_. st_ok ())"

definition grpc_get_tee_type ::
  "('w, 'b, 'sk, 'pt, 'rk) agent_env \<Rightarrow> 'w attestation_agent \<Rightarrow> ('w ev_world, rpc_status, string) stateful" where
  "grpc_get_tee_type E a = lift_result (map_err (internal ''AA get tee type failed'') (tee_type_text E a))"

section \<open>The start of the agent\<close>

definition check_initdata ::
  "('w, 'b, 'sk, 'pt, 'rk) agent_env \<Rightarrow> 'w attestation_agent \<Rightarrow> string option \<Rightarrow> ('w, string, unit) stateful" where
  "check_initdata E a initdata =
     (case initdata of
        None \<Rightarrow> st_ok ()
      | Some text \<Rightarrow>
          st_then (lift_result (ok_or ''base64 decode initdata'' (ae_b64_decode E text))) (\<lambda>initdata.
          st_then (aa_bind_init_data a initdata) (\<lambda>_. st_ok ())))"

definition start_agent ::
  "('w, 'b, 'sk, 'pt, 'rk) agent_env \<Rightarrow> string option \<Rightarrow> string option \<Rightarrow> ('w ev_world, string, 'w attestation_agent) stateful" where
  "start_agent E config_file initdata =
     st_then (in_hw (attestation_agent_new E config_file)) (\<lambda>a.
     st_then (in_hw (check_initdata E a initdata)) (\<lambda>_. attestation_agent_init E a))"

record 'w agent_os =
  ao_exists :: "string \<Rightarrow> 'w \<Rightarrow> bool"
  ao_create_dir_all :: "string \<Rightarrow> ('w, string, unit) stateful"
  ao_remove_file :: "string \<Rightarrow> ('w, string, unit) stateful"
  ao_bind :: "string \<Rightarrow> ('w, string, unit) stateful"
  ao_socket_addr :: "string \<Rightarrow> bool"

definition AGENT_SOCKET_DIR :: string where
  "AGENT_SOCKET_DIR = ''/run/confidential-containers/attestation-agent/''"

definition AGENT_SOCKET_PREFIX :: string where "AGENT_SOCKET_PREFIX = ''unix://''"

definition clean_previous_sock_file :: "'w agent_os \<Rightarrow> string \<Rightarrow> ('w, string, unit) stateful" where
  "clean_previous_sock_file P unix_socket w =
     (case strip_prefix AGENT_SOCKET_PREFIX unix_socket of
        None \<Rightarrow> (Inl ''socket address scheme is not expected'', w)
      | Some path \<Rightarrow> if ao_exists P path w then ao_remove_file P path w else (Inr (), w))"

definition socket_dir :: "'w agent_os \<Rightarrow> ('w, string, unit) stateful" where
  "socket_dir P w = (if \<not> ao_exists P AGENT_SOCKET_DIR w then ao_create_dir_all P AGENT_SOCKET_DIR w else (Inr (), w))"

definition ttrpc_main ::
  "('w, 'b, 'sk, 'pt, 'rk) agent_env \<Rightarrow> 'w agent_os \<Rightarrow> string \<Rightarrow> string option \<Rightarrow> string option \<Rightarrow>
    ('w ev_world, string, 'w attestation_agent) stateful" where
  "ttrpc_main E P attestation_sock config_file initdata =
     st_then (in_hw (socket_dir P)) (\<lambda>_.
     st_then (in_hw (clean_previous_sock_file P attestation_sock)) (\<lambda>_.
     st_then (start_agent E config_file initdata) (\<lambda>a.
     st_then (in_hw (ao_bind P attestation_sock)) (\<lambda>_. st_ok a))))"

definition grpc_main ::
  "('w, 'b, 'sk, 'pt, 'rk) agent_env \<Rightarrow> 'w agent_os \<Rightarrow> string \<Rightarrow> string option \<Rightarrow> string option \<Rightarrow>
    ('w ev_world, string, 'w attestation_agent) stateful" where
  "grpc_main E P attestation_sock config_file initdata =
     (if \<not> ao_socket_addr P attestation_sock then st_err ''invalid socket address''
      else st_then (start_agent E config_file initdata) (\<lambda>a.
           st_then (in_hw (ao_bind P attestation_sock)) (\<lambda>_. st_ok a)))"

section \<open>Providers in other processes\<close>

text \<open>What a ttrpc connection to the agent offers; with the server itself at the other end it is \<open>aa_service\<close>.\<close>

record 'v agent_rpc =
  rp_get_token :: "string \<Rightarrow> ('v, rpc_status, bytes) stateful"
  rp_get_evidence :: "bytes \<Rightarrow> ('v, rpc_status, bytes) stateful"
  rp_get_tee_type :: "('v, rpc_status, string) stateful"

definition aa_service :: "('w, 'b, 'sk, 'pt, 'rk) agent_env \<Rightarrow> 'w attestation_agent \<Rightarrow> 'w ev_world agent_rpc" where
  "aa_service E a = \<lparr>rp_get_token = ttrpc_get_token E a, rp_get_evidence = ttrpc_get_evidence E a, rp_get_tee_type = ttrpc_get_tee_type E a\<rparr>"

definition aa_provider_get_token ::
  "('w, 'b, 'sk, 'pt, 'rk) agent_env \<Rightarrow> 'v agent_rpc \<Rightarrow> ('v, string, token \<times> ('sk, 'rk) tee_key) stateful" where
  "aa_provider_get_token E R =
     st_then (st_map_err (\<lambda>_. ''cal ttrpc failed'') (rp_get_token R ''kbs'')) (\<lambda>bytes.
     st_then (lift_result (ok_or ''deserialize attestation-agent reply failed'' (ae_read_message E bytes))) (\<lambda>(content, pem).
     st_then (lift_result (ok_or ''deserialize token failed'' (token_new (ae_kbs E) content))) (\<lambda>token.
     st_then (lift_result (map_err (\<lambda>_. ''deserialize tee keypair failed'') (from_pem (ke_codec (ae_kbs E)) pem))) (\<lambda>tee_keypair.
       st_ok (token, tee_keypair)))))"

definition aa_provider_get_evidence :: "'v agent_rpc \<Rightarrow> bytes \<Rightarrow> ('v, string, string) stateful" where
  "aa_provider_get_evidence R runtime_data =
     st_then (st_map_err (\<lambda>_. ''call ttrpc failed'') (rp_get_evidence R runtime_data)) (\<lambda>b.
       lift_result (ok_or ''non-utf8 evidence'' (from_utf8 b)))"

definition aa_provider_get_tee_type ::
  "('w, 'b, 'sk, 'pt, 'rk) agent_env \<Rightarrow> 'v agent_rpc \<Rightarrow> ('v, string, tee) stateful" where
  "aa_provider_get_tee_type E R =
     st_then (st_map_err (\<lambda>_. ''call ttrpc failed'') (rp_get_tee_type R)) (\<lambda>s.
       lift_result (ok_or ''failed to parse Tee type'' (ae_tee_of E (JStr s))))"

section \<open>The attester tool of Trustee\<close>

definition tool_builder :: "string \<Rightarrow> string option \<Rightarrow> kbs_builder" where
  "tool_builder url cert =
     (let b = builder_with_provider url in case cert of Some c \<Rightarrow> add_kbs_cert c b | None \<Rightarrow> b)"

definition tool_read_cert :: "('w, 'b, 'sk, 'pt, 'rk) agent_env \<Rightarrow> string option \<Rightarrow> ('w, string, string option) stateful" where
  "tool_read_cert E cert_file =
     (case cert_file of
        None \<Rightarrow> st_ok None
      | Some path \<Rightarrow> st_then (read_to_string (te_fs (ae_tee E)) path) (\<lambda>c. st_ok (Some c)))"

definition tool_fetch ::
  "('w, 'b, 'sk, 'pt, 'rk) kbs_env \<Rightarrow> resource_uri \<Rightarrow> (('w, 'sk, 'rk) session, kbs_error, bytes) stateful" where
  "tool_fetch K resource = st_then (get_token K) (\<lambda>_. rcar_get_resource K resource)"

definition tool_resource_path :: "string \<Rightarrow> string" where
  "tool_resource_path path = (if starts_with ''/'' path then path else CHR ''/'' # path)"

text \<open>The resource is printed in base64; \<open>ae_url_parse\<close> is the URL parser of the resource type.\<close>

definition tool_get_resource ::
  "('w, 'b, 'sk, 'pt, 'rk) agent_env \<Rightarrow> (string \<Rightarrow> url option) \<Rightarrow> (bytes \<Rightarrow> string) \<Rightarrow> string \<Rightarrow> string option \<Rightarrow> string \<Rightarrow>
    ('w network, string, string) stateful" where
  "tool_get_resource E url_parse b64 url cert_file path n =
     (case st_then (native_provider_new (ae_features E) (ae_tee E)) (\<lambda>attester.
           st_then (tool_read_cert E cert_file) (\<lambda>cert.
           st_then (lift_result (map_err (\<lambda>_. ''build'') (build (with_native E attester) (ae_cert_ok E) (tool_builder url cert)))) (\<lambda>client.
           st_then (lift_result (map_err (\<lambda>_. ''resource path'') (resource_uri_new url_parse [] (tool_resource_path path)))) (\<lambda>resource.
             st_ok (attester, client, resource))))) (net_world n) of
        (Inl e, w) \<Rightarrow> (Inl e, n\<lparr>net_world := w\<rparr>)
      | (Inr (attester, client, resource), w) \<Rightarrow>
          (case tool_fetch (with_native E attester) resource (client, n\<lparr>net_world := w\<rparr>) of
             (r, (_, n')) \<Rightarrow> (and_then (map_err (\<lambda>_. ''get resource'') r) (\<lambda>b. Inr (b64 b)), n')))"

section \<open>Tokens through the agent\<close>

text \<open>The token and the key of the client that the agent makes for a request.\<close>

definition agent_token ::
  "('w, 'b, 'sk, 'pt, 'rk) agent_env \<Rightarrow> agent_kbs_config \<Rightarrow> ('w, string, token \<times> ('sk, 'rk) tee_key) stateful" where
  "agent_token E config =
     st_then (native_provider_new (ae_features E) (ae_tee E)) (\<lambda>attester.
     st_then (lift_result (map_err (\<lambda>_. ''build'') (build (with_native E attester) (ae_cert_ok E) (kbs_token_builder config)))) (\<lambda>client.
       client_token (with_native E attester) client))"

lemma kbs_get_token_Inr_iff:
  "kbs_get_token E config w = (Inr m, w') \<longleftrightarrow>
     (\<exists>t k. agent_token E config w = (Inr (t, k), w') \<and> token_message E t k = Inr m)"
  by (auto simp: kbs_get_token_def agent_token_def result_iff)

lemma client_token_Inr_iff:
  "client_token K c w = (Inr x, w') \<longleftrightarrow>
     (\<exists>c' n. get_token K (c, \<lparr>net_world = w, net_sent = []\<rparr>) = (Inr x, (c', n)) \<and> net_world n = w')"
  by (auto simp: client_token_def result_iff split: prod.splits)

lemma in_hw_Inr_iff: "in_hw m W = (Inr x, W') \<longleftrightarrow> (\<exists>w'. m (ew_hw W) = (Inr x, w') \<and> W' = W\<lparr>ew_hw := w'\<rparr>)"
  by (auto simp: in_hw_def split: prod.splits)

text \<open>JSON and PEM give back what was written.\<close>

definition message_laws :: "('w, 'b, 'sk, 'pt, 'rk) agent_env \<Rightarrow> bool" where
  "message_laws E \<longleftrightarrow>
     (\<forall>m. \<exists>b. ae_message E m = Some b \<and> ae_read_message E b = Some m) \<and>
     (\<forall>k. \<exists>p. to_pem (ke_codec (ae_kbs E)) k = Inr p \<and> from_pem (ke_codec (ae_kbs E)) p = Inr k)"

definition parsed_token :: "('w, 'b, 'sk, 'pt, 'rk) kbs_env \<Rightarrow> ('w, 'sk, 'rk) session \<Rightarrow> bool" where
  "parsed_token K s \<longleftrightarrow> (\<forall>t. cl_token (fst s) = Some t \<longrightarrow> token_new K (tk_content t) = Some t)"

lemma token_new_content: "token_new K s = Some t \<Longrightarrow> token_new K (tk_content t) = Some t"
  by (auto simp: token_new_def Let_def split: if_splits option.splits)

lemma handshake_parsed: "parsed_token K s \<Longrightarrow> rcar_handshake K s = (r, s') \<Longrightarrow> parsed_token K s'"
proof (cases r)
  case (Inl e)
  assume "parsed_token K s" "rcar_handshake K s = (r, s')"
  then show ?thesis using handshake_fails_token [of K s e s'] Inl by (simp add: parsed_token_def)
next
  case (Inr u)
  assume "rcar_handshake K s = (r, s')"
  then obtain c1 n1 tee t s2 where "rcar_exchange K c1 tee (c1, n1) = (Inr t, s2)" "store_token t s2 = (Inr (), s')"
    using Inr by (cases s) (auto simp: rcar_handshake_def st_then_Inr_iff)
  moreover from this(1) obtain qs w where "attested K c1 tee qs t w" using exchange_attested by blast
  then obtain tok where "token_new K tok = Some t" by (auto simp: attested_def Let_def)
  ultimately show ?thesis using token_new_content by (cases s2) (auto simp: parsed_token_def store_token_iff)
qed

lemma repeat_parsed: "parsed_token K s \<Longrightarrow> repeat_rcar_handshake K n s = (r, s') \<Longrightarrow> parsed_token K s'"
proof (induction K n s arbitrary: r s' rule: repeat_rcar_handshake.induct)
  case (1 K n s)
  obtain x s1 where h: "rcar_handshake K s = (x, s1)" by (metis surj_pair)
  then have "parsed_token K s1" using "1.prems"(1) handshake_parsed by blast
  then show ?case
    using "1.prems"(2) "1.IH" h by (auto simp: repeat_step [of K n s] split: sum.split_asm if_split_asm)
qed

lemma get_token_parsed:
  assumes "parsed_token K s" and "get_token K s = (Inr (t, k), s')"
  shows "token_new K (tk_content t) = Some t"
proof -
  have "(s' = s \<or> (\<exists>n r. repeat_rcar_handshake K n s = (r, s'))) \<and> cl_token (fst s') = Some t"
    using assms(2) by (auto simp: get_token_def st_then_Inr_iff split: option.split_asm if_split_asm)
  then show ?thesis using assms(1) repeat_parsed [OF assms(1)] unfolding parsed_token_def by blast
qed

lemma build_no_token: "build K ok b = Inr c \<Longrightarrow> bd_token b = None \<Longrightarrow> cl_token c = None"
  by (auto simp: build_def result_iff split: option.split_asm)

lemma token_new_native: "token_new (with_native E A) = token_new (ae_kbs E)"
proof -
  have "ke_codec (with_native E A) = ke_codec (ae_kbs E)" "ke_jwt_claims (with_native E A) = ke_jwt_claims (ae_kbs E)"
    by (simp_all add: with_native_def)
  then show ?thesis by (intro ext) (simp only: token_new_def)
qed

lemma agent_token_parsed: "agent_token E config w = (Inr (t, k), w') \<Longrightarrow> token_new (ae_kbs E) (tk_content t) = Some t"
proof -
  assume "agent_token E config w = (Inr (t, k), w')"
  then obtain A c n s' where c: "build (with_native E A) (ae_cert_ok E) (kbs_token_builder config) = Inr c"
    and tok: "get_token (with_native E A) (c, n) = (Inr (t, k), s')"
    by (auto simp: agent_token_def client_token_Inr_iff result_iff)
  have "bd_token (kbs_token_builder config) = None"
    by (simp add: kbs_token_builder_def builder_with_provider_def add_kbs_cert_def Let_def split: option.split)
  then have "parsed_token (with_native E A) (c, n)" using build_no_token [OF c] by (simp add: parsed_token_def)
  from get_token_parsed [OF this tok] show ?thesis by (simp add: token_new_native)
qed

text \<open>
  C7. A process that takes its token from the agent gets what the agent's own client got from the key
  broker service, the token with its validity and the private key it is bound to, and leaves the machine in
  the same state.
\<close>

theorem token_through_agent:
  assumes laws: "message_laws E" and kbs: "ae_kbs_feature E"
  shows "aa_provider_get_token E (aa_service E a) W = (Inr (t, k), W') \<longleftrightarrow>
    (\<exists>w'. agent_token E (tkc_kbs (acf_token_configs (aa_config a))) (ew_hw W) = (Inr (t, k), w') \<and> W' = W\<lparr>ew_hw := w'\<rparr>)"
proof -
  let ?c = "tkc_kbs (acf_token_configs (aa_config a))" and ?C = "ke_codec (ae_kbs E)"
  have service: "rp_get_token (aa_service E a) ''kbs'' W = (Inr m, W') \<longleftrightarrow>
      (\<exists>t k w'. agent_token E ?c (ew_hw W) = (Inr (t, k), w') \<and> token_message E t k = Inr m \<and> W' = W\<lparr>ew_hw := w'\<rparr>)" for m
    using kbs by (auto simp: aa_service_def ttrpc_get_token_def in_hw_Inr_iff aa_get_token_def token_type_from_str_def
        kbs_get_token_Inr_iff result_iff)
  have read: "\<exists>p. ae_read_message E m = Some (tk_content t, p) \<and> from_pem ?C p = Inr k" if "token_message E t k = Inr m" for m t k
  proof -
    obtain p where p: "to_pem ?C k = Inr p" "from_pem ?C p = Inr k" using laws unfolding message_laws_def by blast
    then have "ae_message E (tk_content t, p) = Some m" using that by (auto simp: token_message_def result_iff)
    moreover obtain b where "ae_message E (tk_content t, p) = Some b" "ae_read_message E b = Some (tk_content t, p)"
      using laws unfolding message_laws_def by blast
    ultimately show ?thesis using p by auto
  qed
  have made: "\<exists>m. token_message E t k = Inr m" for t k
  proof -
    obtain p where "to_pem ?C k = Inr p" using laws unfolding message_laws_def by blast
    moreover obtain b where "ae_message E (tk_content t, p) = Some b" using laws unfolding message_laws_def by blast
    ultimately show ?thesis by (simp add: token_message_def)
  qed
  show ?thesis
  proof
    assume "aa_provider_get_token E (aa_service E a) W = (Inr (t, k), W')"
    then obtain m content p where m: "rp_get_token (aa_service E a) ''kbs'' W = (Inr m, W')"
      "ae_read_message E m = Some (content, p)" "token_new (ae_kbs E) content = Some t" "from_pem ?C p = Inr k"
      by (auto simp: aa_provider_get_token_def result_iff)
    then obtain t' k' w' where tok: "agent_token E ?c (ew_hw W) = (Inr (t', k'), w')" "token_message E t' k' = Inr m" "W' = W\<lparr>ew_hw := w'\<rparr>"
      using service by blast
    then have "t' = t" "k' = k" using read [OF tok(2)] m agent_token_parsed [OF tok(1)] by auto
    then show "\<exists>w'. agent_token E ?c (ew_hw W) = (Inr (t, k), w') \<and> W' = W\<lparr>ew_hw := w'\<rparr>" using tok by blast
  next
    assume "\<exists>w'. agent_token E ?c (ew_hw W) = (Inr (t, k), w') \<and> W' = W\<lparr>ew_hw := w'\<rparr>"
    then obtain w' where tok: "agent_token E ?c (ew_hw W) = (Inr (t, k), w')" "W' = W\<lparr>ew_hw := w'\<rparr>" by blast
    obtain m where m: "token_message E t k = Inr m" using made by blast
    then have "rp_get_token (aa_service E a) ''kbs'' W = (Inr m, W')" using service tok by blast
    then show "aa_provider_get_token E (aa_service E a) W = (Inr (t, k), W')"
      using read [OF m] agent_token_parsed [OF tok(1)] by (auto simp: aa_provider_get_token_def result_iff)
  qed
qed

section \<open>Evidence through the agent\<close>

text \<open>Evidence is text, and the name of a TEE is a JSON string without quotes.\<close>

lemma evidence_through_agent:
  assumes "\<And>e w'. ta_get_evidence (aa_attester a) d (ew_hw W) = (Inr e, w') \<Longrightarrow> utf8_valid e"
  shows "aa_provider_get_evidence (aa_service E a) d W = (Inr e, W') \<longleftrightarrow>
    (\<exists>w'. native_get_evidence (aa_attester a) d (ew_hw W) = (Inr e, w') \<and> W' = W\<lparr>ew_hw := w'\<rparr>)"
  using assms by (auto simp: aa_provider_get_evidence_def aa_service_def ttrpc_get_evidence_def in_hw_Inr_iff aa_get_evidence_def
      native_get_evidence_def from_utf8_Some_iff result_iff)

lemma tee_type_through_agent:
  assumes name: "ae_tee_string E (aa_tee a) = Some (CHR 0x22 # s @ [CHR 0x22])" and no: "CHR 0x22 \<notin> set s" "s \<noteq> []"
    and json: "ae_tee_of E (JStr s) = Some (aa_tee a)"
  shows "aa_provider_get_tee_type E (aa_service E a) W = (Inr (aa_tee a), W)"
proof -
  obtain c t where s: "s = c # t" using no(2) by (cases s) auto
  obtain t' c' where s': "s = t' @ [c']" using no(2) by (metis rev_exhaust)
  have "c \<noteq> CHR 0x22" using no(1) unfolding s by auto
  moreover have "c' \<noteq> CHR 0x22" using no(1) unfolding s' by auto
  ultimately have "dropWhile (\<lambda>c. c = CHR 0x22) s = s" "dropWhile (\<lambda>c. c = CHR 0x22) (rev s @ [CHR 0x22]) = rev s @ [CHR 0x22]"
    by (simp add: s, simp add: s')
  then have "trim_quotes (CHR 0x22 # s @ [CHR 0x22]) = s" by (simp add: trim_quotes_def)
  then show ?thesis
    using name json by (simp add: aa_provider_get_tee_type_def aa_service_def ttrpc_get_tee_type_def tee_type_text_def
        st_then_def st_map_err_def lift_result_def)
qed

section \<open>The configuration\<close>

text \<open>A file that says nothing of the event log gives the same event log as no file.\<close>

lemma eventlog_defaults_agree:
  assumes "ac_load C p = Inr (JObj [(''token_configs'', t)])" and "read_token_configs C t = Inr tc"
    and "ac_bool C (JStr ''false'') = Some False" "ac_u64 C (JNum 17) = Some 17" "ac_alg C (JStr ''sha384'') = Some HSha384"
  shows "agent_config_try_from C p = Inr \<lparr>acf_token_configs = tc, acf_eventlog_config = eventlog_config_default\<rparr>"
  using assms
  by (simp add: agent_config_try_from_def with_eventlog_defaults_def set_default_def field_def read_eventlog_config_def
      read_field_def eventlog_config_default_def)

section \<open>Init data\<close>

lemma new_agent_attester:
  "attestation_agent_new E conf w = (Inr a, w') \<Longrightarrow> boxed_attester (ae_features E) (ae_tee E) (aa_tee a) = Inr (aa_attester a)"
proof -
  assume "attestation_agent_new E conf w = (Inr a, w')"
  then obtain config w0 where body: "(case detect_tee_type (ae_features E) (ae_tee E) w0 of (tee, w') \<Rightarrow>
      (and_then (boxed_attester (ae_features E) (ae_tee E) tee) (\<lambda>attester.
         Inr \<lparr>aa_config = config, aa_attester = attester,
              aa_log = \<lparr>ag_eventlog_config = acf_eventlog_config config, ag_eventlog = None\<rparr>, aa_tee = tee\<rparr>), w')) = (Inr a, w')"
    unfolding attestation_agent_new_def st_then_Inr_iff by blast
  obtain tee w1 where d: "detect_tee_type (ae_features E) (ae_tee E) w0 = (tee, w1)" by (metis surj_pair)
  show ?thesis using body unfolding d by (auto simp: result_iff)
qed

lemma map_of_enabled:
  "map_of (enabled []) x = None"
  "map_of (enabled ((b, (k, v)) # xs)) x = (if b \<and> x = k then Some v else map_of (enabled xs) x)"
  by (simp_all add: enabled_def)

lemma boxed_attester_bind:
  "boxed_attester F T tee_tdx = Inr A \<Longrightarrow> ta_bind_init_data A = (\<lambda>d. stateless (\<lambda>w. tdx_bind_init_data (te_tdx T) w d))"
  "boxed_attester F T tee_snp = Inr A \<Longrightarrow> ta_bind_init_data A = snp_bind_init_data T"
  by (auto simp: boxed_attester_def attesters_def tee_names ok_or_def map_of_enabled split: if_split_asm)

lemma init_keeps_attester:
  "attestation_agent_init E a W = (Inr a', W') \<Longrightarrow> aa_tee a' = aa_tee a \<and> aa_attester a' = aa_attester a"
  by (auto simp: attestation_agent_init_def result_iff split: prod.split_asm)

text \<open>What binding init data has shown on the platforms that measure it.\<close>

definition init_data_bound :: "'w tee_env \<Rightarrow> tee \<Rightarrow> bytes \<Rightarrow> bool" where
  "init_data_bound T tee d \<longleftrightarrow>
     (tee = tee_tdx \<longrightarrow> (\<exists>hw rep. tp_report (te_tdx T) hw = Inr rep \<and> tr_mrconfigid rep = pad 48 d)) \<and>
     (tee = tee_snp \<longrightarrow> (\<exists>hw hw'. te_snp_host_data T (replicate 64 (CHR 0x00)) hw = (Inr (pad 32 d), hw')))"

lemma bind_shows:
  assumes new: "boxed_attester F T tee = Inr A" and bind: "ta_bind_init_data A d w = (Inr r, w')"
  shows "init_data_bound T tee d"
proof -
  have "\<exists>hw rep. tp_report (te_tdx T) hw = Inr rep \<and> tr_mrconfigid rep = pad 48 d" if "tee = tee_tdx"
  proof -
    have "stateless (\<lambda>w. tdx_bind_init_data (te_tdx T) w d) w = (Inr r, w')"
      using bind boxed_attester_bind(1) [OF new [unfolded that]] by simp
    then show ?thesis by (auto simp: stateless_def tdx_bind_init_data_def result_iff split: if_split_asm)
  qed
  moreover have "\<exists>hw hw'. te_snp_host_data T (replicate 64 (CHR 0x00)) hw = (Inr (pad 32 d), hw')" if "tee = tee_snp"
  proof -
    have "snp_bind_init_data T d w = (Inr r, w')" using bind boxed_attester_bind(2) [OF new [unfolded that]] by simp
    then show ?thesis by (auto simp: snp_bind_init_data_def get_snp_host_data_def result_iff split: if_split_asm)
  qed
  ultimately show ?thesis by (simp add: init_data_bound_def)
qed


section \<open>Examples\<close>

definition no_tee :: "'w tee_env" where
  "no_tee = \<lparr>te_fs = \<lparr>tf_exists = (\<lambda>_ _. False), tf_tempdir = (\<lambda>_. st_err ''none''), tf_rmdir = (\<lambda>_. st_err ''none''),
       tf_write = (\<lambda>_ _. st_err ''none''), tf_read = (\<lambda>_. st_err ''none'')\<rparr>,
     te_var = (\<lambda>_. None), te_aarch64 = False, te_b64 = (\<lambda>b. b), te_json = (\<lambda>_. Some ''{}''),
     te_tdx = \<lparr>tp_report = (\<lambda>_. Inl ''no device''), tp_extend_available = False, tp_dcap_ioctls = False, tp_att_extend = (\<lambda>_. st_ok ())\<rparr>,
     te_dcap_quote = None, te_snp_report = (\<lambda>_. st_err ''none''), te_snp_host_data = (\<lambda>_. st_err ''none''),
     te_az_is_tdx = (\<lambda>_. Inr False), te_az_is_snp = (\<lambda>_. Inr False), te_az_hcl_report = (\<lambda>_. st_err ''none''),
     te_az_td_quote = (\<lambda>_. st_err ''none''), te_az_report = st_err ''none'', te_az_vcek = st_err ''none'',
     te_vtpm_quote = (\<lambda>_. st_err ''none''), te_vtpm_extend = (\<lambda>_ _. st_err ''none''), te_occlum_quote = (\<lambda>_. st_err ''none''),
     te_csv_report = (\<lambda>_. st_err ''none''), te_https_get = (\<lambda>_. st_err ''none''), te_csv_certs = (\<lambda>_. None), te_csv_pek = (\<lambda>_. None),
     te_pv_bit = (\<lambda>_. False), te_se_request = (\<lambda>_. None), te_uv_attest = (\<lambda>_ _ _ _. st_err ''none'')\<rparr>"

definition no_features :: attester_features where
  "no_features = \<lparr>af_tdx = False, af_sgx = False, af_az_tdx = False, af_az_snp = False, af_snp = False, af_csv = False,
     af_cca = False, af_se = False\<rparr>"

definition demo_pem_codec :: "(nat, nat) kbs_codec" where
  "demo_pem_codec = demo_codec\<lparr>
     from_pkcs1_pem := (\<lambda>s. if s \<noteq> [] \<and> hd s = CHR ''R'' then parse_digits (tl s) else None),
     from_pkcs8_pem := (\<lambda>s. if s \<noteq> [] \<and> hd s = CHR ''E'' then parse_digits (tl s) else None),
     to_pkcs1_pem := (\<lambda>k. Some (CHR ''R'' # nat_str k)), to_pkcs8_pem := (\<lambda>k. Some (CHR ''E'' # nat_str k))\<rparr>"

definition demo_config_env :: config_env where
  "demo_config_env = \<lparr>ac_env = Map.empty, ac_cmdline = Inl ''none'', ac_load = (\<lambda>_. Inl ''none''), ac_string = as_str,
     ac_bool = (\<lambda>_. Some False), ac_u64 = (\<lambda>_. None), ac_alg = (\<lambda>_. None)\<rparr>"

definition demo_agent_env :: "attester_features \<Rightarrow> 'w tee_env \<Rightarrow> ('w, string, nat, nat, nat) kbs_env \<Rightarrow> ('w, string, nat, nat, nat) agent_env" where
  "demo_agent_env F T K = \<lparr>ae_config = demo_config_env, ae_features = F, ae_kbs_feature = True, ae_coco_as_feature = True,
     ae_tee = T, ae_kbs = K, ae_cert_ok = (\<lambda>_. True), ae_b64url = (\<lambda>b. b), ae_b64_decode = Some, ae_tee_string = (\<lambda>_. None),
     ae_tee_of = (\<lambda>_. None), ae_tee_json = (\<lambda>_. JNull), ae_post = (\<lambda>_ _. st_err ''offline''),
     ae_message = (\<lambda>(t, p). Some (concat (map hex_char t) @ CHR ''.'' # concat (map hex_char p))),
     ae_read_message = (\<lambda>b. case split_once (CHR ''.'') b of None \<Rightarrow> None
        | Some (t, p) \<Rightarrow> (case (hex_decode t, hex_decode p) of (Inr t, Inr p) \<Rightarrow> Some (t, p) | _ \<Rightarrow> None)),
     ae_disk = demo_disk, ae_hash = (\<lambda>_ d. d)\<rparr>"

definition demo_config :: agent_config where
  "demo_config = \<lparr>acf_token_configs = \<lparr>tkc_coco_as = \<lparr>cac_url = ''http://as''\<rparr>, tkc_kbs = \<lparr>akc_url = ''http://kbs'', akc_cert = None\<rparr>\<rparr>,
     acf_eventlog_config = eventlog_config_default\<rparr>"

definition demo_sample :: "nat tee_attester" where
  "demo_sample = \<lparr>ta_registers = default_registers, ta_get_evidence = sample_get_evidence no_tee, ta_bind_init_data = default_bind_init_data\<rparr>"

definition demo_aa :: "nat attestation_agent" where
  "demo_aa = \<lparr>aa_config = demo_config, aa_attester = demo_sample, aa_log = \<lparr>ag_eventlog_config = eventlog_config_default, ag_eventlog = None\<rparr>,
     aa_tee = tee_sample\<rparr>"

abbreviation demo_aae :: "(nat, string, nat, nat, nat) agent_env" where
  "demo_aae \<equiv> demo_agent_env no_features no_tee (demo_kbs\<lparr>ke_codec := demo_pem_codec\<rparr>)"

lemma demo_message_laws: "message_laws demo_aae"
proof -
  have "CHR ''.'' \<notin> set (concat (map hex_char t))" for t using hex_char_free [of "CHR ''.''"] by auto
  then have "split_once (CHR ''.'') (concat (map hex_char t) @ CHR ''.'' # r) = Some (concat (map hex_char t), r)" for t r
    by (simp add: split_once_Some_iff)
  moreover have "\<exists>p. to_pem demo_pem_codec k = Inr p \<and> from_pem demo_pem_codec p = Inr k" for k
    by (cases k) (simp_all add: demo_pem_codec_def demo_codec_def from_pem_def parse_nat_str)
  ultimately show ?thesis by (simp add: message_laws_def demo_agent_env_def hex_decode_encode)
qed

lemma demo_agent_token:
  "\<exists>w'. agent_token demo_aae (tkc_kbs (acf_token_configs demo_config)) 0 = (Inr (demo_token, TeeEc 7), w')"
proof -
  have detect: "detect_tee_type no_features no_tee w = (tee_sample, w)" for w :: nat
    by (simp add: detect_tee_type_def detections_def enabled_def no_features_def)
  have box: "boxed_attester no_features no_tee tee_sample = Inr demo_sample"
    by (simp add: boxed_attester_def attesters_def enabled_def demo_sample_def)
  have evidence: "native_get_evidence demo_sample d w = (Inr ''{}'', w)" for d w
    by (simp add: native_get_evidence_def demo_sample_def sample_get_evidence_def serialize_def no_tee_def lift_result_def)
  have hash: "hash_runtime_data H d n tee_sample alg = H alg d" for H d n alg
    by (simp add: hash_runtime_data_def tee_sample_def)
  show ?thesis
    by (simp add: agent_token_def native_provider_new_def demo_agent_env_def detect box build_def kbs_token_builder_def
        builder_with_provider_def trim_end_slashes_def demo_config_def client_token_def get_token_def with_native_def
        repeat_rcar_handshake.simps [of _ "Suc 0"] demo_run evidence native_get_tee_type_def hash
        demo_pem_codec_def tee_key_new_def demo_token_def)
qed

theorem token_through_agent_witness:
  "\<exists>W'. aa_provider_get_token demo_aae (aa_service demo_aae demo_aa) \<lparr>ew_file = None, ew_hw = 0\<rparr> = (Inr (demo_token, TeeEc 7), W')"
proof -
  obtain w' where "agent_token demo_aae (tkc_kbs (acf_token_configs (aa_config demo_aa))) 0 = (Inr (demo_token, TeeEc 7), w')"
    using demo_agent_token by (auto simp: demo_aa_def)
  moreover have "ae_kbs_feature demo_aae" by (simp add: demo_agent_env_def)
  ultimately show ?thesis
    using token_through_agent [OF demo_message_laws, of demo_aa "\<lparr>ew_file = None, ew_hw = 0\<rparr>" demo_token "TeeEc 7"] by simp
qed

definition demo_bound_tee :: "(nat \<times> bytes) tee_env" where
  "demo_bound_tee = demo_tee\<lparr>te_tdx := \<lparr>tp_report = (\<lambda>_. Inr \<lparr>tr_mrconfigid = pad 48 ''data'', tr_rtmr = []\<rparr>),
     tp_extend_available = False, tp_dcap_ioctls = False, tp_att_extend = (\<lambda>_. st_ok ())\<rparr>\<rparr>"

definition demo_os :: "(nat \<times> bytes) agent_os" where
  "demo_os = \<lparr>ao_exists = (\<lambda>_ _. False), ao_create_dir_all = (\<lambda>_. st_ok ()), ao_remove_file = (\<lambda>_. st_ok ()),
     ao_bind = (\<lambda>_. st_ok ()), ao_socket_addr = (\<lambda>_. True)\<rparr>"

definition demo_bound_agent :: "(nat \<times> bytes) attestation_agent" where
  "demo_bound_agent = \<lparr>aa_config = \<lparr>acf_token_configs = \<lparr>tkc_coco_as = \<lparr>cac_url = []\<rparr>, tkc_kbs = \<lparr>akc_url = [], akc_cert = None\<rparr>\<rparr>,
       acf_eventlog_config = eventlog_config_default\<rparr>,
     aa_attester = \<lparr>ta_registers = tdx_attester (te_tdx demo_bound_tee), ta_get_evidence = tdx_get_evidence demo_bound_tee,
       ta_bind_init_data = (\<lambda>d. stateless (\<lambda>w. tdx_bind_init_data (te_tdx demo_bound_tee) w d))\<rparr>,
     aa_log = \<lparr>ag_eventlog_config = eventlog_config_default, ag_eventlog = None\<rparr>, aa_tee = tee_tdx\<rparr>"

abbreviation demo_bound_env :: "(nat \<times> bytes, string, nat, nat, nat) agent_env" where
  "demo_bound_env \<equiv> demo_agent_env demo_tdx_features demo_bound_tee demo_tdx_kbs"

lemma demo_bound_new: "attestation_agent_new demo_bound_env None (0, []) = (Inr demo_bound_agent, (0, []))"
proof -
  have "te_fs demo_bound_tee = demo_tsm" by (simp add: demo_bound_tee_def demo_tee_def)
  moreover have "tsm_drop demo_tsm ''report'' (0, []) = (0, [])" by (simp add: tsm_drop_def demo_tsm_def)
  ultimately have "detect_tee_type demo_tdx_features demo_bound_tee (0, []) = (tee_tdx, (0, []))"
    using demo_new by (simp add: detect_tee_type_def detections_def enabled_def demo_tdx_features_def tdx_detect_platform_def tsm_available_def)
  moreover have "boxed_attester demo_tdx_features demo_bound_tee tee_tdx = Inr (aa_attester demo_bound_agent)"
    by (simp add: boxed_attester_def attesters_def enabled_def demo_tdx_features_def tee_names demo_bound_agent_def)
  ultimately show ?thesis
    by (simp add: attestation_agent_new_def demo_agent_env_def lift_result_def st_then_def agent_config_new_def token_configs_new_def
        coco_as_config_new_def agent_kbs_config_new_def demo_config_env_def aa_kbc_params_new_def get_value_def from_cmdline_def
        aa_kbc_params_default_def demo_bound_agent_def)
qed

lemma demo_bound_start:
  "grpc_main demo_bound_env demo_os ''addr'' None (Some ''data'') \<lparr>ew_file = None, ew_hw = (0, [])\<rparr> =
     (Inr demo_bound_agent, \<lparr>ew_file = None, ew_hw = (0, [])\<rparr>)"
  using demo_bound_new
  by (simp add: grpc_main_def demo_os_def start_agent_def st_then_def in_hw_def check_initdata_def lift_result_def demo_agent_env_def
      aa_bind_init_data_def demo_bound_agent_def stateless_def tdx_bind_init_data_def demo_bound_tee_def attestation_agent_init_def
      agent_init_def eventlog_config_default_def)


end
